(* ===== verification/Go_Prelude.thy ===== *)
theory Go_Prelude
  imports Main "HOL-Library.Char_ord" "HOL-Library.List_Lexorder" "HOL-Library.Product_Lexorder"
    "HOL-Library.Sublist"
begin

text \<open>
  What the components of the development share of the Go language and its standard library.
  A Go \<^verbatim>\<open>string\<close> is a sequence of bytes: a \<^typ>\<open>string\<close>, one \<^typ>\<open>char\<close> per byte, with the
  byte-wise lexicographic order that \<^verbatim>\<open>sort.Strings\<close> and \<^verbatim>\<open><\<close> use. A nilable \<^verbatim>\<open>error\<close> result is
  an \<open>option\<close> (\<open>None\<close> is \<^verbatim>\<open>nil\<close>); a pair \<^verbatim>\<open>(T, error)\<close> is a sum (\<open>Inl\<close> the error). The chains of
  early returns that validators consist of are lists of (condition, error) pairs read in order.
\<close>

named_theorems go_defs \<open>definitions of constants that a proof about concrete values unfolds\<close>
named_theorems go_valid \<open>what a validator that returned no error has established\<close>

section \<open>Chains of early returns\<close>

fun first_failure :: "(bool \<times> 'e) list \<Rightarrow> 'e option" where
  "first_failure [] = None"
| "first_failure ((bad, e) # cs) = (if bad then Some e else first_failure cs)"

lemma first_failure_None_iff: "first_failure cs = None \<longleftrightarrow> (\<forall>(bad, e) \<in> set cs. \<not> bad)"
  by (induction cs) (auto split: if_splits)

lemma first_failure_append:
  "first_failure (cs @ ds) = (case first_failure cs of None \<Rightarrow> first_failure ds | Some e \<Rightarrow> Some e)"
  by (induction cs) auto

text \<open>\<open>first_err\<close> chains checks that already return an \<^verbatim>\<open>error\<close>.\<close>

fun first_err :: "'e option list \<Rightarrow> 'e option" where
  "first_err [] = None"
| "first_err (Some e # es) = Some e"
| "first_err (None # es) = first_err es"

lemma first_err_None_iff: "first_err es = None \<longleftrightarrow> (\<forall>e \<in> set es. e = None)"
  by (induction es rule: first_err.induct) auto

lemma first_err_Cons_None [simp]: "first_err (x # es) = None \<longleftrightarrow> x = None \<and> first_err es = None"
  by (cases x) auto

section \<open>Strings\<close>

text \<open>
  \<^verbatim>\<open>strings.TrimSpace\<close> removes the white space of \<^verbatim>\<open>unicode.IsSpace\<close> from both ends. On bytes,
  the white space is six ASCII characters, two code points of two bytes (U+0085, U+00A0) and the
  code points of three bytes U+1680, U+2000 to U+200A, U+2028, U+2029, U+202F, U+205F and U+3000.
\<close>

definition ascii_space :: "char \<Rightarrow> bool" where
  "ascii_space c \<longleftrightarrow> c \<in> set [CHR 0x09, CHR 0x0A, CHR 0x0B, CHR 0x0C, CHR 0x0D, CHR 0x20]"

definition space2 :: "char \<Rightarrow> char \<Rightarrow> bool" where
  "space2 a b \<longleftrightarrow> a = CHR 0xC2 \<and> (b = CHR 0x85 \<or> b = CHR 0xA0)"

definition space3 :: "char \<Rightarrow> char \<Rightarrow> char \<Rightarrow> bool" where
  "space3 a b c \<longleftrightarrow>
     (a = CHR 0xE1 \<and> b = CHR 0x9A \<and> c = CHR 0x80) \<or>
     (a = CHR 0xE2 \<and> b = CHR 0x80 \<and>
        c \<in> set [CHR 0x80, CHR 0x81, CHR 0x82, CHR 0x83, CHR 0x84, CHR 0x85, CHR 0x86, CHR 0x87,
                 CHR 0x88, CHR 0x89, CHR 0x8A, CHR 0xA8, CHR 0xA9, CHR 0xAF]) \<or>
     (a = CHR 0xE2 \<and> b = CHR 0x81 \<and> c = CHR 0x9F) \<or>
     (a = CHR 0xE3 \<and> b = CHR 0x80 \<and> c = CHR 0x80)"

fun strip_spaces :: "(char \<Rightarrow> char \<Rightarrow> bool) \<Rightarrow> (char \<Rightarrow> char \<Rightarrow> char \<Rightarrow> bool) \<Rightarrow> string \<Rightarrow> string" where
  "strip_spaces sp2 sp3 [] = []"
| "strip_spaces sp2 sp3 [a] = (if ascii_space a then [] else [a])"
| "strip_spaces sp2 sp3 [a, b] =
     (if ascii_space a then strip_spaces sp2 sp3 [b]
      else if sp2 a b then [] else [a, b])"
| "strip_spaces sp2 sp3 (a # b # c # s) =
     (if ascii_space a then strip_spaces sp2 sp3 (b # c # s)
      else if sp2 a b then strip_spaces sp2 sp3 (c # s)
      else if sp3 a b c then strip_spaces sp2 sp3 s
      else a # b # c # s)"

definition TrimSpace :: "string \<Rightarrow> string" where
  "TrimSpace s =
     rev (strip_spaces (\<lambda>a b. space2 b a) (\<lambda>a b c. space3 c b a)
       (rev (strip_spaces space2 space3 s)))"

text \<open>\<^verbatim>\<open>strings.TrimSpace(s) == ""\<close>\<close>

definition blank :: "string \<Rightarrow> bool" where
  "blank s \<longleftrightarrow> TrimSpace s = []"

text \<open>\<^verbatim>\<open>strings.ContainsAny(s, "\r\n\x00")\<close>\<close>

definition has_control :: "string \<Rightarrow> bool" where
  "has_control s \<longleftrightarrow> list_ex (\<lambda>c. c = CHR 0x0D \<or> c = CHR 0x0A \<or> c = CHR 0x00) s"

text \<open>\<^verbatim>\<open>strings.Contains\<close>\<close>

fun contains_text :: "string \<Rightarrow> string \<Rightarrow> bool" where
  "contains_text part [] \<longleftrightarrow> part = []"
| "contains_text part (c # s) \<longleftrightarrow> prefix part (c # s) \<or> contains_text part s"

text \<open>\<^verbatim>\<open>strings.IndexFunc(s, unicode.IsSpace) >= 0\<close>: every space starts with a byte that starts a code point.\<close>

fun has_space :: "string \<Rightarrow> bool" where
  "has_space [] \<longleftrightarrow> False"
| "has_space (a # s) \<longleftrightarrow>
     ascii_space a \<or> (s \<noteq> [] \<and> space2 a (s ! 0)) \<or> (1 < length s \<and> space3 a (s ! 0) (s ! 1)) \<or> has_space s"

text \<open>
  \<^verbatim>\<open>strings.ToLower\<close>, for texts that are compared with ASCII afterwards. Two letters outside ASCII become
  ASCII letters: U+0130 (bytes C4 B0) and the Kelvin sign U+212A (bytes E2 84 AA). All other code points
  outside ASCII stay outside, and the model keeps their bytes.
\<close>

fun lower_char :: "char \<Rightarrow> char" where
  "lower_char (Char b0 b1 b2 b3 b4 b5 b6 b7) =
     (let c = Char b0 b1 b2 b3 b4 b5 b6 b7
      in if CHR ''A'' \<le> c \<and> c \<le> CHR ''Z'' then Char b0 b1 b2 b3 b4 True b6 b7 else c)"

fun ToLower :: "string \<Rightarrow> string" where
  "ToLower (a # b # s) =
     (if a = CHR 0xC4 \<and> b = CHR 0xB0 then CHR ''i'' # ToLower s
      else if a = CHR 0xE2 \<and> b = CHR 0x84 \<and> prefix [CHR 0xAA] s then CHR ''k'' # ToLower (drop 1 s)
      else lower_char a # ToLower (b # s))"
| "ToLower [a] = [lower_char a]"
| "ToLower [] = []"

lemmas [go_defs] = ascii_space_def space2_def space3_def TrimSpace_def blank_def has_control_def

lemma blank_Nil [simp]: "blank []"
  by (simp add: blank_def TrimSpace_def)

lemma not_blank_imp_ne [go_valid]: "\<not> blank s \<Longrightarrow> s \<noteq> []"
  by auto

lemma has_control_Nil [simp]: "\<not> has_control []"
  by (simp add: has_control_def)

text \<open>A value that is present and stays on one line: the shape every opaque identity must have.\<close>

abbreviation single_line :: "string \<Rightarrow> bool" where
  "single_line s \<equiv> \<not> blank s \<and> \<not> has_control s"

text \<open>A literal ASCII prefix starts no white space, so it also keeps a string from being blank.\<close>

lemma strip_spaces_ascii:
  assumes "\<not> ascii_space a" and "\<And>b. \<not> sp2 a b" and "\<And>b c. \<not> sp3 a b c"
  shows "strip_spaces sp2 sp3 (a # s) = a # s"
proof (cases s)
  case Nil
  with assms show ?thesis by simp
next
  case (Cons b t)
  with assms show ?thesis by (cases t) simp_all
qed

text \<open>Byte comparison on the bits, which evaluation uses in place of the detour over numbers.\<close>

fun bits_le :: "bool list \<Rightarrow> bool list \<Rightarrow> bool \<Rightarrow> bool" where
  "bits_le (x # xs) (y # ys) below = bits_le xs ys (if x = y then below else y)"
| "bits_le _ _ below = below"

lemma bits_le_iff:
  "length xs = length ys \<Longrightarrow>
   bits_le xs ys below \<longleftrightarrow>
     horner_sum of_bool 2 xs < (horner_sum of_bool 2 ys :: nat) \<or>
     (horner_sum of_bool 2 xs = (horner_sum of_bool 2 ys :: nat) \<and> below)"
  by (induction xs ys below rule: bits_le.induct) (auto split: if_splits)

lemma char_le_bits [code]:
  "Char a0 a1 a2 a3 a4 a5 a6 a7 \<le> Char b0 b1 b2 b3 b4 b5 b6 b7 \<longleftrightarrow>
     bits_le [a0, a1, a2, a3, a4, a5, a6, a7] [b0, b1, b2, b3, b4, b5, b6, b7] True"
  by (simp only: less_eq_char_def of_char_Char bits_le_iff list.size le_less simp_thms)

lemma char_less_bits [code]:
  "Char a0 a1 a2 a3 a4 a5 a6 a7 < Char b0 b1 b2 b3 b4 b5 b6 b7 \<longleftrightarrow>
     bits_le [a0, a1, a2, a3, a4, a5, a6, a7] [b0, b1, b2, b3, b4, b5, b6, b7] False"
  by (simp only: less_char_def of_char_Char bits_le_iff list.size simp_thms)

section \<open>Maps with an iteration order\<close>

text \<open>
  A Go map whose entries the code also ranges over is an association list without repeated keys;
  \<open>map_put\<close> is \<^verbatim>\<open>m[k] = v\<close>. Go leaves the iteration order open; where it could matter the source
  sorts the result, and so does the model.
\<close>

definition map_put :: "'k \<Rightarrow> 'v \<Rightarrow> ('k \<times> 'v) list \<Rightarrow> ('k \<times> 'v) list" where
  "map_put k v m = filter (\<lambda>p. fst p \<noteq> k) m @ [(k, v)]"

definition map_del :: "'k \<Rightarrow> ('k \<times> 'v) list \<Rightarrow> ('k \<times> 'v) list" where
  "map_del k m = filter (\<lambda>p. fst p \<noteq> k) m"

lemma map_of_filter_ne: "k' \<noteq> k \<Longrightarrow> map_of (filter (\<lambda>p. fst p \<noteq> k) m) k' = map_of m k'"
  by (induction m) auto

lemma map_of_filter_eq: "map_of (filter (\<lambda>p. fst p \<noteq> k) m) k = None"
  by (induction m) auto

lemma map_of_map_put: "map_of (map_put k v m) = (map_of m)(k \<mapsto> v)"
  by (rule ext) (simp add: map_put_def map_add_def map_of_filter_ne map_of_filter_eq split: option.splits)

lemma map_of_map_del: "map_of (map_del k m) = (map_of m)(k := None)"
  by (rule ext) (simp add: map_del_def map_of_filter_ne map_of_filter_eq)

lemma distinct_map_fst_filter: "distinct (map fst m) \<Longrightarrow> distinct (map fst (filter P m))"
  by (induction m) auto

lemma distinct_map_put: "distinct (map fst m) \<Longrightarrow> distinct (map fst (map_put k v m))"
  by (auto simp: map_put_def distinct_map_fst_filter)

section \<open>Lists without repetition\<close>

text \<open>The \<^verbatim>\<open>seen\<close> loop: the first occurrence of every value, in order.\<close>

fun uniq_seen :: "'a list \<Rightarrow> 'a list \<Rightarrow> 'a list" where
  "uniq_seen seen [] = []"
| "uniq_seen seen (x # xs) = (if x \<in> set seen then uniq_seen seen xs else x # uniq_seen (x # seen) xs)"

lemma set_uniq_seen: "set (uniq_seen seen xs) = set xs - set seen"
  by (induction seen xs rule: uniq_seen.induct) auto

lemma distinct_uniq_seen: "distinct (uniq_seen seen xs)"
  by (induction seen xs rule: uniq_seen.induct) (auto simp: set_uniq_seen)

lemma uniq_seen_id: "distinct xs \<Longrightarrow> set xs \<inter> set seen = {} \<Longrightarrow> uniq_seen seen xs = xs"
  by (induction seen xs rule: uniq_seen.induct) auto

lemma set_sort_uniq [simp]: "set (sort (uniq_seen [] xs)) = set xs"
  by (simp add: set_uniq_seen)

lemma distinct_sort_uniq [simp]: "distinct (sort (uniq_seen [] xs))"
  by (simp add: distinct_uniq_seen)

section \<open>Subsequences\<close>

lemma subseq_sorted: "subseq xs ys \<Longrightarrow> sorted ys \<Longrightarrow> sorted xs"
proof (induction rule: list_emb.induct)
  case (list_emb_Cons2 x y xs ys)
  then show ?case using list_emb_set [of "(=)" xs ys] by auto
qed auto

lemma subseq_distinct: "subseq xs ys \<Longrightarrow> distinct ys \<Longrightarrow> distinct xs"
proof (induction rule: list_emb.induct)
  case (list_emb_Cons2 x y xs ys)
  then show ?case using list_emb_set [of "(=)" xs ys x] by auto
qed auto


lemma subseq_subset: "subseq xs ys \<Longrightarrow> set xs \<subseteq> set ys"
  by (induction rule: list_emb.induct) auto

section \<open>Sums\<close>

lemma sum_case_Inr_iff:
  "(case x of Inl e \<Rightarrow> Inl e | Inr a \<Rightarrow> f a) = Inr b \<longleftrightarrow> (\<exists>a. x = Inr a \<and> f a = Inr b)"
  by (cases x) auto

lemma find_SomeD: "find P xs = Some x \<Longrightarrow> x \<in> set xs \<and> P x"
  by (induction xs) (auto split: if_splits)

section \<open>Integers of 64 bits\<close>

definition MaxInt64 :: int where "MaxInt64 = 2 ^ 63 - 1"

definition wrap64 :: "int \<Rightarrow> int" where
  "wrap64 i = (i + 2 ^ 63) mod 2 ^ 64 - 2 ^ 63"

lemma wrap64_id: "- (2 ^ 63) \<le> i \<Longrightarrow> i \<le> MaxInt64 \<Longrightarrow> wrap64 i = i"
  by (simp add: wrap64_def MaxInt64_def)

lemma strip_spaces_Nil:
  "strip_spaces sp2 sp3 s = [] \<Longrightarrow>
     s = [] \<or> ascii_space (last s) \<or> (\<exists>a. sp2 a (last s)) \<or> (\<exists>a b. sp3 a b (last s))"
proof (induction sp2 sp3 s rule: strip_spaces.induct)
  case (4 sp2 sp3 a b c s)
  then show ?case by (cases s) (auto split: if_splits)
qed (auto split: if_splits)

text \<open>A string that begins with a printable ASCII character is not blank.\<close>

lemma not_blank_ascii:
  assumes "\<not> ascii_space c" and "c \<noteq> CHR 0xC2" and "c \<noteq> CHR 0xE1" and "c \<noteq> CHR 0xE2" and "c \<noteq> CHR 0xE3"
  shows "\<not> blank (c # s)"
proof
  assume "blank (c # s)"
  moreover have "strip_spaces space2 space3 (c # s) = c # s"
    using assms by (intro strip_spaces_ascii) (auto simp: space2_def space3_def)
  ultimately have "strip_spaces (\<lambda>a b. space2 b a) (\<lambda>a b c. space3 c b a) (rev s @ [c]) = []"
    by (simp add: blank_def TrimSpace_def)
  from strip_spaces_Nil[OF this] assms show False by (auto simp: space2_def space3_def)
qed

end
