(* ===== verification/Go_Regexp.thy ===== *)
theory Go_Regexp
  imports Go_Prelude
begin

text \<open>
  The part of Go's \<^verbatim>\<open>regexp\<close> package the sources use: \<^verbatim>\<open>MatchString\<close>, on patterns without
  captures. A pattern is a term of type \<open>rx\<close> over bytes; matching is by derivatives, and
  \<open>rx_match_iff\<close> shows that it decides the language \<open>rx_in\<close> of the pattern. \<open>full_match\<close> is a pattern
  written \<^verbatim>\<open>^...$\<close>, \<open>search\<close> one without anchors. A negated class of the sources contains every
  byte of a multi-byte code point, so that matching bytes and matching code points agree.
\<close>

datatype rx = RZero | ROne | RSet "char \<Rightarrow> bool" | RSeq rx rx | RAlt rx rx | RStar rx

inductive rx_in :: "rx \<Rightarrow> string \<Rightarrow> bool" where
  one: "rx_in ROne []"
| set: "p c \<Longrightarrow> rx_in (RSet p) [c]"
| seq: "rx_in r s \<Longrightarrow> rx_in q t \<Longrightarrow> rx_in (RSeq r q) (s @ t)"
| alt1: "rx_in r s \<Longrightarrow> rx_in (RAlt r q) s"
| alt2: "rx_in q s \<Longrightarrow> rx_in (RAlt r q) s"
| star_nil: "rx_in (RStar r) []"
| star_cons: "rx_in r (c # s) \<Longrightarrow> rx_in (RStar r) t \<Longrightarrow> rx_in (RStar r) (c # s @ t)"

inductive_simps rx_in_simps [simp]:
  "rx_in RZero s" "rx_in ROne s" "rx_in (RSet p) s" "rx_in (RAlt r q) s"

inductive_simps rx_in_RSeq: "rx_in (RSeq r q) s"

inductive_simps rx_in_RStar_Cons: "rx_in (RStar r) (c # s)"

fun nullable :: "rx \<Rightarrow> bool" where
  "nullable RZero = False"
| "nullable ROne = True"
| "nullable (RSet p) = False"
| "nullable (RSeq r q) = (nullable r \<and> nullable q)"
| "nullable (RAlt r q) = (nullable r \<or> nullable q)"
| "nullable (RStar r) = True"

fun mk_seq :: "rx \<Rightarrow> rx \<Rightarrow> rx" where
  "mk_seq RZero q = RZero"
| "mk_seq ROne q = q"
| "mk_seq r q = RSeq r q"

fun mk_alt :: "rx \<Rightarrow> rx \<Rightarrow> rx" where
  "mk_alt RZero q = q"
| "mk_alt r RZero = r"
| "mk_alt r q = RAlt r q"

fun deriv :: "char \<Rightarrow> rx \<Rightarrow> rx" where
  "deriv c RZero = RZero"
| "deriv c ROne = RZero"
| "deriv c (RSet p) = (if p c then ROne else RZero)"
| "deriv c (RSeq r q) =
     (if nullable r then mk_alt (mk_seq (deriv c r) q) (deriv c q) else mk_seq (deriv c r) q)"
| "deriv c (RAlt r q) = mk_alt (deriv c r) (deriv c q)"
| "deriv c (RStar r) = mk_seq (deriv c r) (RStar r)"

fun rx_match :: "rx \<Rightarrow> string \<Rightarrow> bool" where
  "rx_match r [] = nullable r"
| "rx_match r (c # s) = rx_match (deriv c r) s"

lemma rx_in_mk_seq [simp]: "rx_in (mk_seq r q) s \<longleftrightarrow> rx_in (RSeq r q) s"
  by (cases r) (auto simp: rx_in_RSeq)

lemma rx_in_mk_alt [simp]: "rx_in (mk_alt r q) s \<longleftrightarrow> rx_in r s \<or> rx_in q s"
  by (cases "(r, q)" rule: mk_alt.cases) auto

lemma nullable_iff: "nullable r \<longleftrightarrow> rx_in r []"
  by (induction r) (auto simp: rx_in_RSeq intro: rx_in.star_nil)

lemma rx_in_RSeq_Cons:
  "rx_in (RSeq r q) (c # s) \<longleftrightarrow>
     (\<exists>s1 s2. s = s1 @ s2 \<and> rx_in r (c # s1) \<and> rx_in q s2) \<or> (rx_in r [] \<and> rx_in q (c # s))"
  by (auto simp: rx_in_RSeq Cons_eq_append_conv)

lemma deriv_iff: "rx_in (deriv c r) s \<longleftrightarrow> rx_in r (c # s)"
proof (induction r arbitrary: s)
  case (RSeq r q)
  show ?case by (auto simp: RSeq rx_in_RSeq_Cons rx_in_RSeq [of _ _ s] nullable_iff)
next
  case (RStar r)
  show ?case by (auto simp: RStar rx_in_RStar_Cons rx_in_RSeq)
qed auto

lemma rx_match_iff: "rx_match r s \<longleftrightarrow> rx_in r s"
  by (induction s arbitrary: r) (auto simp: nullable_iff deriv_iff)

text \<open>
  Matching that stops once nothing can match any more, and the bytes a match can begin with: what
  evaluation on long texts uses.
\<close>

fun is_zero :: "rx \<Rightarrow> bool" where
  "is_zero RZero = True"
| "is_zero _ = False"

fun rx_early :: "rx \<Rightarrow> string \<Rightarrow> bool" where
  "rx_early r [] = nullable r"
| "rx_early r (c # s) = (if is_zero r then False else rx_early (deriv c r) s)"

fun rx_prefix :: "rx \<Rightarrow> string \<Rightarrow> bool" where
  "rx_prefix r [] = nullable r"
| "rx_prefix r (c # s) = (if nullable r then True else if is_zero r then False else rx_prefix (deriv c r) s)"

lemma is_zero_iff: "is_zero r \<longleftrightarrow> r = RZero"
  by (cases r) auto

lemma rx_early_iff: "rx_early r s \<longleftrightarrow> rx_in r s"
  by (induction r s rule: rx_early.induct) (auto simp: nullable_iff is_zero_iff deriv_iff)

lemma rx_prefix_iff: "rx_prefix r s \<longleftrightarrow> (\<exists>a b. s = a @ b \<and> rx_in r a)"
proof (induction r s rule: rx_prefix.induct)
  case (2 r c s)
  then show ?case
    by (auto simp: nullable_iff is_zero_iff deriv_iff Cons_eq_append_conv)
qed (auto simp: nullable_iff)

fun rx_first :: "rx \<Rightarrow> char \<Rightarrow> bool" where
  "rx_first RZero c = False"
| "rx_first ROne c = False"
| "rx_first (RSet p) c = p c"
| "rx_first (RSeq r q) c = (rx_first r c \<or> (nullable r \<and> rx_first q c))"
| "rx_first (RAlt r q) c = (rx_first r c \<or> rx_first q c)"
| "rx_first (RStar r) c = rx_first r c"

lemma rx_first: "rx_in r (c # s) \<Longrightarrow> rx_first r c"
proof (induction r arbitrary: s)
  case (RSeq r q)
  then show ?case by (auto simp: rx_in_RSeq_Cons nullable_iff)
next
  case (RStar r)
  then show ?case by (auto simp: rx_in_RStar_Cons)
qed auto

section \<open>Building patterns\<close>

abbreviation rx_any :: rx where "rx_any \<equiv> RSet (\<lambda>_. True)"

fun rx_lit :: "string \<Rightarrow> rx" where
  "rx_lit [] = ROne"
| "rx_lit (c # s) = (if s = [] then RSet ((=) c) else RSeq (RSet ((=) c)) (rx_lit s))"

fun rx_alts :: "rx list \<Rightarrow> rx" where
  "rx_alts [] = RZero"
| "rx_alts [r] = r"
| "rx_alts (r # rs) = RAlt r (rx_alts rs)"

fun rx_seqs :: "rx list \<Rightarrow> rx" where
  "rx_seqs [] = ROne"
| "rx_seqs [r] = r"
| "rx_seqs (r # rs) = RSeq r (rx_seqs rs)"

definition rx_opt :: "rx \<Rightarrow> rx" where "rx_opt r = RAlt r ROne"
definition rx_plus :: "rx \<Rightarrow> rx" where "rx_plus r = RSeq r (RStar r)"

primrec rx_rep :: "nat \<Rightarrow> rx \<Rightarrow> rx" where
  "rx_rep 0 r = ROne"
| "rx_rep (Suc n) r = RSeq r (rx_rep n r)"

definition rx_atleast :: "nat \<Rightarrow> rx \<Rightarrow> rx" where "rx_atleast n r = RSeq (rx_rep n r) (RStar r)"

definition chr_lower :: "char \<Rightarrow> bool" where "chr_lower c \<longleftrightarrow> CHR ''a'' \<le> c \<and> c \<le> CHR ''z''"
definition chr_upper :: "char \<Rightarrow> bool" where "chr_upper c \<longleftrightarrow> CHR ''A'' \<le> c \<and> c \<le> CHR ''Z''"
definition chr_digit :: "char \<Rightarrow> bool" where "chr_digit c \<longleftrightarrow> CHR ''0'' \<le> c \<and> c \<le> CHR ''9''"
definition chr_hex :: "char \<Rightarrow> bool" where
  "chr_hex c \<longleftrightarrow> chr_digit c \<or> (CHR ''a'' \<le> c \<and> c \<le> CHR ''f'')"
definition chr_lower_digit :: "char \<Rightarrow> bool" where "chr_lower_digit c \<longleftrightarrow> chr_lower c \<or> chr_digit c"

text \<open>The class \<^verbatim>\<open>\s\<close> of RE2 is \<^verbatim>\<open>[\t\n\f\r ]\<close>.\<close>

definition chr_rx_space :: "char \<Rightarrow> bool" where
  "chr_rx_space c \<longleftrightarrow> c \<in> set [CHR 0x09, CHR 0x0A, CHR 0x0C, CHR 0x0D, CHR 0x20]"

text \<open>
  A lower-case letter under \<^verbatim>\<open>(?i)\<close> also matches its upper-case form; Unicode folding adds the
  Kelvin sign (bytes E2 84 AA) for \<^verbatim>\<open>k\<close> and the long s (bytes C5 BF) for \<^verbatim>\<open>s\<close>.
\<close>

fun other_case :: "char \<Rightarrow> char" where
  "other_case (Char b0 b1 b2 b3 b4 b5 b6 b7) = Char b0 b1 b2 b3 b4 (\<not> b5) b6 b7"

definition rx_fold :: "char \<Rightarrow> rx" where
  "rx_fold c =
     (let same = RSet (\<lambda>d. d = c \<or> (d = other_case c \<and> chr_lower c))
      in if c = CHR ''k'' then RAlt same (rx_lit [CHR 0xE2, CHR 0x84, CHR 0xAA])
         else if c = CHR ''s'' then RAlt same (rx_lit [CHR 0xC5, CHR 0xBF])
         else same)"

definition rx_ci :: "string \<Rightarrow> rx" where "rx_ci s = rx_seqs (map rx_fold s)"

definition full_match :: "rx \<Rightarrow> string \<Rightarrow> bool" where "full_match r s = rx_match r s"

definition search :: "rx \<Rightarrow> string \<Rightarrow> bool" where
  "search r s = rx_match (RSeq (RStar rx_any) (RSeq r (RStar rx_any))) s"

lemmas [go_defs] = rx_opt_def rx_plus_def rx_atleast_def chr_lower_def chr_upper_def chr_digit_def
  chr_hex_def chr_lower_digit_def chr_rx_space_def rx_fold_def rx_ci_def full_match_def search_def

lemma rx_in_any_star: "rx_in (RStar rx_any) s"
  using rx_in.star_cons [of rx_any] by (induction s) (auto intro: rx_in.star_nil)

lemma search_iff: "search r s \<longleftrightarrow> (\<exists>a m b. s = a @ m @ b \<and> rx_in r m)"
  unfolding search_def rx_match_iff rx_in_RSeq by (auto simp: rx_in_any_star)

lemma rx_in_plus_RSet: "rx_in (RStar (RSet p)) s \<longleftrightarrow> list_all p s"
  by (induction s) (auto simp: rx_in_RStar_Cons intro: rx_in.star_nil)

section \<open>The patterns of \<^verbatim>\<open>sdk/validation.go\<close>\<close>

text \<open>\<^verbatim>\<open>^[a-z][a-z0-9]*(?:[.-][a-z0-9]+)*$\<close>\<close>

definition stableID :: rx where
  "stableID = rx_seqs
     [RSet chr_lower, RStar (RSet chr_lower_digit),
      RStar (RSeq (RSet (\<lambda>c. c = CHR ''.'' \<or> c = CHR ''-'')) (rx_plus (RSet chr_lower_digit)))]"

text \<open>\<^verbatim>\<open>(?i)(?:password|secret|token|api[_-]?key|access[_-]?key|private[_-]?key)\<close>\<close>

definition rx_sep_key :: "string \<Rightarrow> rx" where
  "rx_sep_key w =
     rx_seqs [rx_ci w, rx_opt (RSet (\<lambda>c. c = CHR ''_'' \<or> c = CHR ''-'')), rx_ci ''key'']"

definition sensitiveField :: rx where
  "sensitiveField = rx_alts
     [rx_ci ''password'', rx_ci ''secret'', rx_ci ''token'',
      rx_sep_key ''api'', rx_sep_key ''access'', rx_sep_key ''private'']"

lemmas [go_defs] = stableID_def rx_sep_key_def sensitiveField_def

end
