(* ===== verification/Go_Time.thy ===== *)
theory Go_Time
  imports Go_Regexp
begin

text \<open>
  \<^verbatim>\<open>time.Parse(time.RFC3339, value)\<close>: the instant in nanoseconds since 1970-01-01T00:00:00Z, or
  \<open>None\<close> for the parse error. The model follows the library's general parser for the layout
  \<^verbatim>\<open>2006-01-02T15:04:05Z07:00\<close>: the hour may have one digit, a fraction of a second may follow
  although the layout has none (after a period or a comma, nine digits of it counted), an offset
  may be written as 24 hours or 60 minutes, and nothing may follow.
\<close>

definition digit_val :: "char \<Rightarrow> int" where
  "digit_val c = of_char c - 48"

fun digits_val :: "int \<Rightarrow> string \<Rightarrow> int" where
  "digits_val acc [] = acc"
| "digits_val acc (c # cs) = digits_val (10 * acc + digit_val c) cs"

text \<open>\<^verbatim>\<open>getnum\<close>: two digits, or with \<open>fixed\<close> false also one.\<close>

fun getnum :: "bool \<Rightarrow> string \<Rightarrow> (int \<times> string) option" where
  "getnum fixed [] = None"
| "getnum fixed [c] =
     (if \<not> chr_digit c \<or> fixed then None else Some (digit_val c, []))"
| "getnum fixed (c # d # s) =
     (if \<not> chr_digit c then None
      else if chr_digit d then Some (10 * digit_val c + digit_val d, s)
      else if fixed then None else Some (digit_val c, d # s))"

definition expect :: "char \<Rightarrow> string \<Rightarrow> string option" where
  "expect c s = (case s of [] \<Rightarrow> None | d # t \<Rightarrow> if d = c then Some t else None)"

definition ranged :: "int \<Rightarrow> int \<Rightarrow> (int \<times> string) option \<Rightarrow> (int \<times> string) option" where
  "ranged lo hi r = (case r of None \<Rightarrow> None | Some (n, s) \<Rightarrow> if lo \<le> n \<and> n \<le> hi then Some (n, s) else None)"

definition parse_year :: "string \<Rightarrow> (int \<times> string) option" where
  "parse_year s =
     (if 4 \<le> length s \<and> list_all chr_digit (take 4 s) then Some (digits_val 0 (take 4 s), drop 4 s) else None)"

text \<open>The optional fraction: the nanoseconds of the first nine digits, and the rest.\<close>

definition parse_fraction :: "string \<Rightarrow> int \<times> string" where
  "parse_fraction s =
     (case s of
        p # d # t \<Rightarrow>
          if (p = CHR ''.'' \<or> p = CHR '','') \<and> chr_digit d then
            (let ds = takeWhile chr_digit (d # t); k = take 9 ds
             in (digits_val 0 k * 10 ^ (9 - length k), dropWhile chr_digit (d # t)))
          else (0, s)
      | _ \<Rightarrow> (0, s))"

text \<open>The offset in seconds: \<^verbatim>\<open>Z\<close> or \<^verbatim>\<open>+hh:mm\<close> or \<^verbatim>\<open>-hh:mm\<close>, and the rest.\<close>

definition parse_zone :: "string \<Rightarrow> (int \<times> string) option" where
  "parse_zone s =
     (case s of
        [] \<Rightarrow> None
      | z # r \<Rightarrow>
          if z = CHR ''Z'' then Some (0, r)
          else if z \<noteq> CHR ''+'' \<and> z \<noteq> CHR ''-'' then None
          else case ranged 0 24 (getnum True r) of
            None \<Rightarrow> None
          | Some (hr, r1) \<Rightarrow> (case expect CHR '':'' r1 of
              None \<Rightarrow> None
            | Some r2 \<Rightarrow> (case ranged 0 60 (getnum True r2) of
                None \<Rightarrow> None
              | Some (mm, r3) \<Rightarrow>
                  Some ((if z = CHR ''-'' then -1 else 1) * (hr * 3600 + mm * 60), r3))))"

definition leap_year :: "int \<Rightarrow> bool" where
  "leap_year y \<longleftrightarrow> y mod 4 = 0 \<and> (y mod 100 \<noteq> 0 \<or> y mod 400 = 0)"

definition days_in :: "int \<Rightarrow> int \<Rightarrow> int" where
  "days_in m y =
     (if m = 2 then (if leap_year y then 29 else 28)
      else if m \<in> set [4, 6, 9, 11] then 30 else 31)"

text \<open>Days from 1970-01-01 to a date of the proleptic Gregorian calendar.\<close>

definition days_from_civil :: "int \<Rightarrow> int \<Rightarrow> int \<Rightarrow> int" where
  "days_from_civil y m d =
     (let y' = (if m \<le> 2 then y - 1 else y); era = y' div 400; yoe = y' - era * 400;
          mp = (m + 9) mod 12; doy = (153 * mp + 2) div 5 + d - 1;
          doe = yoe * 365 + yoe div 4 - yoe div 100 + doy
      in era * 146097 + doe - 719468)"

definition parse_date :: "string \<Rightarrow> (int \<times> string) option" where
  "parse_date s =
     Option.bind (parse_year s) (\<lambda>(y, s1).
     Option.bind (expect CHR ''-'' s1) (\<lambda>s2.
     Option.bind (ranged 1 12 (getnum True s2)) (\<lambda>(m, s3).
     Option.bind (expect CHR ''-'' s3) (\<lambda>s4.
     Option.bind (ranged 1 (days_in m y) (getnum True s4)) (\<lambda>(d, s5).
       Some (days_from_civil y m d, s5))))))"

definition parse_clock :: "string \<Rightarrow> (int \<times> string) option" where
  "parse_clock s =
     Option.bind (ranged 0 23 (getnum False s)) (\<lambda>(h, s1).
     Option.bind (expect CHR '':'' s1) (\<lambda>s2.
     Option.bind (ranged 0 59 (getnum True s2)) (\<lambda>(mi, s3).
     Option.bind (expect CHR '':'' s3) (\<lambda>s4.
     Option.bind (ranged 0 59 (getnum True s4)) (\<lambda>(sec, s5).
       Some (h * 3600 + mi * 60 + sec, s5))))))"

definition parse_rfc3339 :: "string \<Rightarrow> int option" where
  "parse_rfc3339 s =
     Option.bind (parse_date s) (\<lambda>(days, s1).
     Option.bind (expect CHR ''T'' s1) (\<lambda>s2.
     Option.bind (parse_clock s2) (\<lambda>(secs, s3).
       (case parse_fraction s3 of (nanos, s4) \<Rightarrow>
     Option.bind (parse_zone s4) (\<lambda>(offset, s5).
       if s5 = [] then Some ((days * 86400 + secs - offset) * 1000000000 + nanos) else None)))))"

lemmas [go_defs] = digit_val_def expect_def ranged_def parse_year_def parse_fraction_def parse_zone_def
  leap_year_def days_in_def days_from_civil_def parse_date_def parse_clock_def parse_rfc3339_def

definition nanos_per_second :: int where "nanos_per_second = 1000000000"
definition nanos_per_day :: int where "nanos_per_day = 86400 * nanos_per_second"

end
