(* ===== verification/Cleanup_Ledger.thy ===== *)
theory Cleanup_Ledger
  imports Go_Time
begin

text \<open>
  The cleanup ledger of \<^verbatim>\<open>sdk/cleanup_ledger.go\<close>: the durable ownership document, its validation,
  its union with an inventory of the owning service, and the reconcile pass that deletes owned live
  resources in rank order. The inventory, delete and persist clients are provider code: arguments of
  the model, total functions on a world \<open>'w\<close> that may answer anything and fail at any call. Next to
  the world the model threads the list of calls made, so that statements can be about what was
  deleted and persisted, and in which order. A nil client is \<open>None\<close>.
\<close>

section \<open>Data\<close>

abbreviation CleanupLedgerVersion :: int where "CleanupLedgerVersion \<equiv> 1"

abbreviation CleanupStatusIntended :: string where "CleanupStatusIntended \<equiv> ''intended''"
abbreviation CleanupStatusClaimed :: string where "CleanupStatusClaimed \<equiv> ''claimed''"
abbreviation CleanupStatusDeleting :: string where "CleanupStatusDeleting \<equiv> ''deleting''"
abbreviation CleanupStatusGone :: string where "CleanupStatusGone \<equiv> ''gone''"
abbreviation CleanupStatusTombstone :: string where "CleanupStatusTombstone \<equiv> ''tombstone''"
abbreviation CleanupStatusRefused :: string where "CleanupStatusRefused \<equiv> ''refused''"

abbreviation CleanupRoleSource :: string where "CleanupRoleSource \<equiv> ''source''"
abbreviation CleanupRoleRestore :: string where "CleanupRoleRestore \<equiv> ''restore''"
abbreviation CleanupRoleSnapshot :: string where "CleanupRoleSnapshot \<equiv> ''snapshot''"

abbreviation CleanupRankSnapshot :: int where "CleanupRankSnapshot \<equiv> 10"
abbreviation CleanupRankRestore :: int where "CleanupRankRestore \<equiv> 20"
abbreviation CleanupRankSource :: int where "CleanupRankSource \<equiv> 30"
abbreviation CleanupRankDefault :: int where "CleanupRankDefault \<equiv> 50"

record CleanupResource =
  cr_Kind :: string
  cr_Role :: string
  cr_Name :: string
  cr_Identity :: string
  cr_Rank :: int
  cr_Status :: string
  cr_Detail :: string

record CleanupLedger =
  cl_Version :: int
  cl_RunID :: string
  cl_Marker :: string
  cl_Provider :: string
  cl_Region :: string
  cl_Project :: string
  cl_Profile :: string
  cl_ClaimedAt :: string
  cl_Resources :: "CleanupResource list"

record CleanupInventoryResource =
  ci_Kind :: string
  ci_Role :: string
  ci_Name :: string
  ci_Identity :: string
  ci_Owned :: bool
  ci_Live :: bool
  ci_Delayed :: bool
  ci_Protected :: bool

record CleanupInventoryRequest =
  iq_Marker :: string
  iq_Provider :: string
  iq_Region :: string
  iq_Project :: string

type_synonym 'w CleanupInventoryClient =
  "CleanupInventoryRequest \<Rightarrow> 'w \<Rightarrow> (string + CleanupInventoryResource list) \<times> 'w"

type_synonym 'w CleanupDeleteClient = "CleanupResource \<Rightarrow> 'w \<Rightarrow> string option \<times> 'w"

record 'w CleanupReconcileOptions =
  co_DryRun :: bool
  co_Persist :: "(CleanupLedger \<Rightarrow> 'w \<Rightarrow> string option \<times> 'w) option"

record CleanupReport =
  rp_Status :: string
  rp_Marker :: string
  rp_Provider :: string
  rp_DryRun :: bool
  rp_Deleted :: "string list"
  rp_Gone :: "string list"
  rp_Pending :: "string list"
  rp_Refused :: "string list"
  rp_Remaining :: "CleanupResource list"
  rp_Detail :: string
  rp_Ledger :: CleanupLedger

text \<open>One constructor per error the source returns; the strings are the values it formats.\<close>

datatype cleanup_error =
    VersionUnsupported int
  | LineRequired string
  | LineNotSingle string
  | ClaimedAtNotRFC3339
  | LedgerSecretBearing
  | ResourceError nat cleanup_error
  | ResourceUnkeyed nat
  | ResourceDuplicated string
  | RankNegative
  | StatusUnsupported string
  | IntendedNameRequired
  | ClaimedRefRequired
  | ResourceSecretBearing
  | InventoryResourceError nat cleanup_error
  | InventoryLiveAndDelayed string
  | InventoryDuplicated string
  | CleanupContextRequired
  | InventoryClientRequired
  | DeleteClientRequired
  | InventoryFailed string
  | VerifyInventoryFailed string
  | PersistFailed string
  | DeleteFailed string string

section \<open>Validation\<close>

definition DefaultCleanupRank :: "string \<Rightarrow> string \<Rightarrow> int" where
  "DefaultCleanupRank kind role =
     (let r = TrimSpace role; k = TrimSpace kind
      in if r = CleanupRoleSnapshot then CleanupRankSnapshot
         else if r = CleanupRoleRestore then CleanupRankRestore
         else if r = CleanupRoleSource then CleanupRankSource
         else if k \<in> set [''rdb-snapshot'', ''snapshot'', ''backup'', ''cloudsql-backup''] then CleanupRankSnapshot
         else if k \<in> set [''rdb-instance'', ''instance'', ''cloudsql-instance'', ''database-instance''] then CleanupRankSource
         else CleanupRankDefault)"

definition requireCleanupLine :: "string \<Rightarrow> string \<Rightarrow> cleanup_error option" where
  "requireCleanupLine name value = (if blank value \<or> has_control value then Some (LineRequired name) else None)"

definition optionalCleanupLine :: "string \<Rightarrow> string \<Rightarrow> cleanup_error option" where
  "optionalCleanupLine name value =
     (if value = [] then None
      else if blank value \<or> has_control value then Some (LineNotSingle name) else None)"

definition cleanup_statuses :: "string list" where
  "cleanup_statuses =
     [CleanupStatusIntended, CleanupStatusClaimed, CleanupStatusDeleting, CleanupStatusGone,
      CleanupStatusTombstone, CleanupStatusRefused]"

definition validateCleanupResource :: "CleanupResource \<Rightarrow> cleanup_error option" where
  "validateCleanupResource r = first_err
     [requireCleanupLine ''kind'' (cr_Kind r),
      optionalCleanupLine ''role'' (cr_Role r),
      optionalCleanupLine ''name'' (cr_Name r),
      optionalCleanupLine ''identity'' (cr_Identity r),
      optionalCleanupLine ''detail'' (cr_Detail r),
      first_failure
       [(cr_Rank r < 0, RankNegative),
        (cr_Status r \<notin> set cleanup_statuses, StatusUnsupported (cr_Status r)),
        (cr_Status r = CleanupStatusIntended \<and> blank (cr_Name r), IntendedNameRequired),
        (cr_Status r \<noteq> CleanupStatusIntended \<and> blank (cr_Identity r) \<and> blank (cr_Name r), ClaimedRefRequired),
        (search sensitiveField (cr_Kind r @ cr_Role r @ cr_Name r @ cr_Identity r @ cr_Detail r), ResourceSecretBearing)]]"

definition cleanupResourceKey :: "CleanupResource \<Rightarrow> string" where
  "cleanupResourceKey r =
     (if \<not> blank (cr_Identity r) then cr_Kind r @ '':'' @ cr_Identity r
      else if \<not> blank (cr_Name r) then cr_Kind r @ '':'' @ cr_Name r
      else [])"

text \<open>The loop of \<^verbatim>\<open>ValidateCleanupLedger\<close> over the resources, from index \<open>i\<close> with the keys \<open>seen\<close>.\<close>

fun validate_resources :: "nat \<Rightarrow> string list \<Rightarrow> CleanupResource list \<Rightarrow> cleanup_error option" where
  "validate_resources i seen [] = None"
| "validate_resources i seen (r # rs) =
     (case validateCleanupResource r of
        Some e \<Rightarrow> Some (ResourceError i e)
      | None \<Rightarrow>
          let key = cleanupResourceKey r
          in if key = [] then Some (ResourceUnkeyed i)
             else if key \<in> set seen then Some (ResourceDuplicated key)
             else validate_resources (Suc i) (key # seen) rs)"

definition ValidateCleanupLedger :: "CleanupLedger \<Rightarrow> cleanup_error option" where
  "ValidateCleanupLedger l =
     (if cl_Version l \<noteq> CleanupLedgerVersion then Some (VersionUnsupported (cl_Version l))
      else first_err
       [requireCleanupLine ''run ID'' (cl_RunID l),
        requireCleanupLine ''ownership marker'' (cl_Marker l),
        requireCleanupLine ''provider'' (cl_Provider l),
        optionalCleanupLine ''region'' (cl_Region l),
        optionalCleanupLine ''project'' (cl_Project l),
        optionalCleanupLine ''profile'' (cl_Profile l),
        requireCleanupLine ''claimed-at'' (cl_ClaimedAt l),
        (if parse_rfc3339 (cl_ClaimedAt l) = None then Some ClaimedAtNotRFC3339 else None),
        (if search sensitiveField
              (cl_RunID l @ cl_Marker l @ cl_Provider l @ cl_Region l @ cl_Project l @ cl_Profile l)
         then Some LedgerSecretBearing else None),
        validate_resources 0 [] (cl_Resources l)])"

fun validate_inventory :: "nat \<Rightarrow> string list \<Rightarrow> CleanupInventoryResource list \<Rightarrow> cleanup_error option" where
  "validate_inventory i seen [] = None"
| "validate_inventory i seen (r # rs) =
     (case first_err
        [requireCleanupLine ''inventory identity'' (ci_Identity r),
         requireCleanupLine ''inventory kind'' (ci_Kind r),
         optionalCleanupLine ''inventory role'' (ci_Role r),
         optionalCleanupLine ''inventory name'' (ci_Name r)] of
        Some e \<Rightarrow> Some (InventoryResourceError i e)
      | None \<Rightarrow>
          if ci_Live r \<and> ci_Delayed r then Some (InventoryLiveAndDelayed (ci_Identity r))
          else if ci_Identity r \<in> set seen then Some (InventoryDuplicated (ci_Identity r))
          else validate_inventory (Suc i) (ci_Identity r # seen) rs)"

definition validateCleanupInventory :: "CleanupInventoryResource list \<Rightarrow> cleanup_error option" where
  "validateCleanupInventory rs = validate_inventory 0 [] rs"

section \<open>The union of the ledger with an inventory\<close>

fun find_index :: "('a \<Rightarrow> bool) \<Rightarrow> 'a list \<Rightarrow> nat option" where
  "find_index p [] = None"
| "find_index p (x # xs) = (if p x then Some 0 else map_option Suc (find_index p xs))"

definition cleanupInventoryMatch :: "CleanupResource list \<Rightarrow> CleanupInventoryResource \<Rightarrow> nat option" where
  "cleanupInventoryMatch rs ob =
     (case find_index (\<lambda>r. cr_Identity r \<noteq> [] \<and> cr_Identity r = ci_Identity ob) rs of
        Some i \<Rightarrow> Some i
      | None \<Rightarrow> find_index (\<lambda>r. cr_Identity r = [] \<and> cr_Kind r = ci_Kind ob \<and>
                              cr_Name r \<noteq> [] \<and> cr_Name r = ci_Name ob) rs)"

text \<open>The fields a matching observation fills in, in the order of the source.\<close>

definition bind_observation :: "CleanupInventoryResource \<Rightarrow> CleanupResource \<Rightarrow> CleanupResource" where
  "bind_observation ob c0 =
     (let c1 = (if cr_Identity c0 = [] then c0\<lparr>cr_Identity := ci_Identity ob\<rparr> else c0);
          c2 = (if cr_Name c1 = [] then c1\<lparr>cr_Name := ci_Name ob\<rparr> else c1);
          c3 = (if cr_Role c2 = [] then c2\<lparr>cr_Role := ci_Role ob\<rparr> else c2);
          c4 = (if cr_Kind c3 = [] then c3\<lparr>cr_Kind := ci_Kind ob\<rparr> else c3);
          c5 = (if cr_Rank c4 = 0 then c4\<lparr>cr_Rank := DefaultCleanupRank (cr_Kind c4) (cr_Role c4)\<rparr> else c4)
      in if cr_Status c5 = CleanupStatusIntended then c5\<lparr>cr_Status := CleanupStatusClaimed\<rparr> else c5)"

definition adopt_observation :: "CleanupInventoryResource \<Rightarrow> CleanupResource" where
  "adopt_observation ob =
     \<lparr>cr_Kind = ci_Kind ob, cr_Role = ci_Role ob, cr_Name = ci_Name ob, cr_Identity = ci_Identity ob,
      cr_Rank = DefaultCleanupRank (ci_Kind ob) (ci_Role ob),
      cr_Status = (if ci_Delayed ob then CleanupStatusTombstone else CleanupStatusClaimed),
      cr_Detail = ''adopted from owning-service inventory''\<rparr>"

definition merge_observation :: "CleanupResource list \<Rightarrow> CleanupInventoryResource \<Rightarrow> CleanupResource list" where
  "merge_observation rs ob =
     (if \<not> ci_Owned ob then rs
      else case cleanupInventoryMatch rs ob of
        Some i \<Rightarrow> rs[i := bind_observation ob (rs ! i)]
      | None \<Rightarrow> rs @ [adopt_observation ob])"

definition mergeCleanupInventory :: "CleanupLedger \<Rightarrow> CleanupInventoryResource list \<Rightarrow> CleanupLedger" where
  "mergeCleanupInventory l observed =
     l\<lparr>cl_Resources := foldl merge_observation (cl_Resources l) observed\<rparr>"

type_synonym inventory_index = "string \<rightharpoonup> CleanupInventoryResource"

definition index_observation :: "inventory_index \<Rightarrow> CleanupInventoryResource \<Rightarrow> inventory_index" where
  "index_observation ix ob =
     (let ix' = ix(''id:'' @ ci_Identity ob \<mapsto> ob)
      in if ci_Name ob \<noteq> [] then ix'(''name:'' @ ci_Kind ob @ '':'' @ ci_Name ob \<mapsto> ob) else ix')"

definition indexCleanupInventory :: "CleanupInventoryResource list \<Rightarrow> inventory_index" where
  "indexCleanupInventory observed = foldl index_observation Map.empty observed"

definition lookupCleanupInventory :: "inventory_index \<Rightarrow> CleanupResource \<Rightarrow> CleanupInventoryResource option" where
  "lookupCleanupInventory ix r =
     (if cr_Identity r \<noteq> [] then ix (''id:'' @ cr_Identity r)
      else if cr_Name r \<noteq> [] then ix (''name:'' @ cr_Kind r @ '':'' @ cr_Name r)
      else None)"

definition cleanupResourceIndex :: "CleanupResource list \<Rightarrow> CleanupResource \<Rightarrow> nat option" where
  "cleanupResourceIndex rs wanted = find_index (\<lambda>r. cleanupResourceKey r = cleanupResourceKey wanted) rs"

section \<open>The reconcile pass\<close>

text \<open>The calls of a pass; a persist call carries what the client answered, \<open>None\<close> for success.\<close>

datatype cleanup_call =
    CallInventory CleanupInventoryRequest
  | CallPersist CleanupLedger "string option"
  | CallDelete CleanupResource

type_synonym 'w cleanup_io = "'w \<times> cleanup_call list"

definition persistCleanupLedger ::
  "'w CleanupReconcileOptions \<Rightarrow> CleanupLedger \<Rightarrow> 'w cleanup_io \<Rightarrow> cleanup_error option \<times> 'w cleanup_io" where
  "persistCleanupLedger options l st =
     (case co_Persist options of
        None \<Rightarrow> (None, st)
      | Some p \<Rightarrow>
          (case p l (fst st) of (r, w) \<Rightarrow>
             (map_option PersistFailed r, (w, snd st @ [CallPersist l r]))))"

text \<open>
  \<^verbatim>\<open>current.Status = s; current.Detail = d; ledger.Resources[index] = current\<close>, and the body
  that four cases of the switch share: this, then persist.
\<close>

definition put_status :: "nat \<Rightarrow> string \<Rightarrow> string \<Rightarrow> CleanupLedger \<Rightarrow> CleanupLedger" where
  "put_status i s d l =
     l\<lparr>cl_Resources := (cl_Resources l)[i := (cl_Resources l ! i)\<lparr>cr_Status := s, cr_Detail := d\<rparr>]\<rparr>"

definition settle ::
  "'w CleanupReconcileOptions \<Rightarrow> string \<Rightarrow> string \<Rightarrow> nat \<Rightarrow> CleanupLedger \<Rightarrow> CleanupReport
    \<Rightarrow> 'w cleanup_io \<Rightarrow> (cleanup_error + CleanupLedger \<times> CleanupReport) \<times> 'w cleanup_io" where
  "settle options s d i l report st =
     (case persistCleanupLedger options (put_status i s d l) st of
        (Some e, st') \<Rightarrow> (Inl e, st')
      | (None, st') \<Rightarrow> (Inr (put_status i s d l, report), st'))"

text \<open>The case \<^verbatim>\<open>found && observation.Live\<close>: persist the intent, delete, persist the outcome.\<close>

definition delete_resource ::
  "'w CleanupDeleteClient option \<Rightarrow> 'w CleanupReconcileOptions \<Rightarrow> nat \<Rightarrow> CleanupLedger \<Rightarrow> CleanupReport
    \<Rightarrow> 'w cleanup_io \<Rightarrow> (cleanup_error + CleanupLedger \<times> CleanupReport) \<times> 'w cleanup_io" where
  "delete_resource deleter options i l report st =
     (if co_DryRun options then
        (Inr (l, report\<lparr>rp_Pending := rp_Pending report @ [cleanupResourceKey (cl_Resources l ! i)]\<rparr>), st)
      else case deleter of
        None \<Rightarrow> (Inl DeleteClientRequired, st) \<comment> \<open>excluded by the check at the start\<close>
      | Some del \<Rightarrow>
          let l1 = put_status i CleanupStatusDeleting (cr_Detail (cl_Resources l ! i)) l;
              current = cl_Resources l1 ! i
          in case persistCleanupLedger options l1 st of
               (Some e, st1) \<Rightarrow> (Inl e, st1)
             | (None, st1) \<Rightarrow>
                 (case del current (fst st1) of
                    (Some err, w) \<Rightarrow>
                      let detail = (if has_control err then ''provider delete failed'' else err);
                          l2 = put_status i CleanupStatusDeleting detail l1;
                          st2 = (w, snd st1 @ [CallDelete current])
                      in (Inl (DeleteFailed (cleanupResourceKey current) err),
                          snd (persistCleanupLedger options l2 st2))
                  | (None, w) \<Rightarrow>
                      settle options CleanupStatusGone ''deleted through owning-service inventory'' i l1
                        (report\<lparr>rp_Deleted := rp_Deleted report @ [cleanupResourceKey current]\<rparr>)
                        (w, snd st1 @ [CallDelete current])))"

text \<open>One iteration of the loop over the sorted resources.\<close>

definition reconcile_one ::
  "'w CleanupDeleteClient option \<Rightarrow> 'w CleanupReconcileOptions \<Rightarrow> inventory_index \<Rightarrow> CleanupResource
    \<Rightarrow> CleanupLedger \<Rightarrow> CleanupReport \<Rightarrow> 'w cleanup_io
    \<Rightarrow> (cleanup_error + CleanupLedger \<times> CleanupReport) \<times> 'w cleanup_io" where
  "reconcile_one deleter options ix resource l report st =
     (case cleanupResourceIndex (cl_Resources l) resource of
        None \<Rightarrow> (Inr (l, report), st)
      | Some i \<Rightarrow>
          let current = cl_Resources l ! i; key = cleanupResourceKey current
          in if cr_Status current = CleanupStatusGone then
               (Inr (l, report\<lparr>rp_Gone := rp_Gone report @ [key]\<rparr>), st)
             else if cr_Status current = CleanupStatusRefused then
               (Inr (l, report\<lparr>rp_Refused := rp_Refused report @ [key]\<rparr>), st)
             else if cr_Status current = CleanupStatusTombstone then
               (Inr (l, report\<lparr>rp_Pending := rp_Pending report @ [key]\<rparr>), st)
             else case lookupCleanupInventory ix current of
               Some ob \<Rightarrow>
                 if \<not> ci_Owned ob then
                   settle options CleanupStatusRefused ''owning-service inventory did not confirm ownership'' i l
                     (report\<lparr>rp_Refused := rp_Refused report @ [key]\<rparr>) st
                 else if ci_Protected ob then
                   settle options CleanupStatusClaimed ''resource is protected; deletion was not attempted'' i l
                     (report\<lparr>rp_Pending := rp_Pending report @ [key]\<rparr>) st
                 else if ci_Delayed ob then
                   settle options CleanupStatusTombstone ''provider-mandated deletion tombstone'' i l
                     (report\<lparr>rp_Pending := rp_Pending report @ [key]\<rparr>) st
                 else if ci_Live ob then delete_resource deleter options i l report st
                 else (Inr (l, report), st)
             | None \<Rightarrow>
                 if cr_Status current = CleanupStatusIntended then (Inr (l, report), st)
                 else if cr_Identity current = [] \<and> cr_Status current = CleanupStatusClaimed then
                   (Inr (l, report\<lparr>rp_Pending := rp_Pending report @ [key]\<rparr>), st)
                 else if cr_Status current = CleanupStatusClaimed \<or> cr_Status current = CleanupStatusDeleting then
                   settle options CleanupStatusGone ''owning-service inventory no longer contains this resource'' i l
                     (report\<lparr>rp_Gone := rp_Gone report @ [key]\<rparr>) st
                 else (Inr (l, report), st))"

fun reconcile_loop ::
  "'w CleanupDeleteClient option \<Rightarrow> 'w CleanupReconcileOptions \<Rightarrow> inventory_index \<Rightarrow> CleanupResource list
    \<Rightarrow> CleanupLedger \<Rightarrow> CleanupReport \<Rightarrow> 'w cleanup_io
    \<Rightarrow> (cleanup_error + CleanupLedger \<times> CleanupReport) \<times> 'w cleanup_io" where
  "reconcile_loop deleter options ix [] l report st = (Inr (l, report), st)"
| "reconcile_loop deleter options ix (r # rs) l report st =
     (case reconcile_one deleter options ix r l report st of
        (Inl e, st') \<Rightarrow> (Inl e, st')
      | (Inr (l', report'), st') \<Rightarrow> reconcile_loop deleter options ix rs l' report' st')"

definition cleanup_order :: "CleanupResource list \<Rightarrow> CleanupResource list" where
  "cleanup_order rs = sort_key (\<lambda>r. (cr_Rank r, cleanupResourceKey r)) rs"

definition remainingCleanupResources :: "CleanupLedger \<Rightarrow> CleanupResource list" where
  "remainingCleanupResources l = filter (\<lambda>r. cr_Status r \<noteq> CleanupStatusGone) (cl_Resources l)"

definition uniqueCleanupKeys :: "string list \<Rightarrow> string list" where
  "uniqueCleanupKeys values = sort (uniq_seen [] values)"

definition pendingCleanupKeys :: "CleanupLedger \<Rightarrow> string list \<Rightarrow> string list" where
  "pendingCleanupKeys l pending =
     uniqueCleanupKeys (pending @ map cleanupResourceKey
       (filter (\<lambda>r. cr_Status r \<in> set [CleanupStatusClaimed, CleanupStatusDeleting, CleanupStatusTombstone])
         (cl_Resources l)))"

text \<open>The verdict: what follows the second inventory.\<close>

definition finish_report ::
  "bool \<Rightarrow> CleanupLedger \<Rightarrow> CleanupReport \<Rightarrow> CleanupInventoryResource list \<Rightarrow> CleanupReport" where
  "finish_report dryRun l report0 final =
     (let live = sort (map ci_Identity (filter (\<lambda>ob. ci_Owned ob \<and> ci_Live ob) final));
          delayed = sort (map ci_Identity (filter (\<lambda>ob. ci_Owned ob \<and> ci_Delayed ob) final));
          report = report0\<lparr>rp_Ledger := l, rp_Remaining := remainingCleanupResources l\<rparr>;
          activePending = pendingCleanupKeys l (rp_Pending report)
      in if rp_Refused report \<noteq> [] then
           report\<lparr>rp_Status := ''failed'', rp_Detail := ''owned live resources or refused identities remain''\<rparr>
         else if dryRun \<and> (live \<noteq> [] \<or> activePending \<noteq> []) then
           report\<lparr>rp_Status := ''pending'', rp_Detail := ''dry-run; owned live resources were not deleted'',
             rp_Pending := uniqueCleanupKeys (activePending @ live)\<rparr>
         else if live \<noteq> [] then
           report\<lparr>rp_Status := ''failed'', rp_Detail := ''owned live resources or refused identities remain''\<rparr>
         else if delayed \<noteq> [] \<or> activePending \<noteq> [] then
           report\<lparr>rp_Status := ''pending'',
             rp_Detail := ''provider deletion tombstones, protected resources, or unbound claims remain'',
             rp_Pending := uniqueCleanupKeys (activePending @ delayed)\<rparr>
         else report\<lparr>rp_Status := ''complete''\<rparr>)"

definition inventory_request :: "CleanupLedger \<Rightarrow> CleanupInventoryRequest" where
  "inventory_request l =
     \<lparr>iq_Marker = cl_Marker l, iq_Provider = cl_Provider l, iq_Region = cl_Region l, iq_Project = cl_Project l\<rparr>"

definition call_inventory ::
  "'w CleanupInventoryClient \<Rightarrow> CleanupLedger \<Rightarrow> 'w cleanup_io
    \<Rightarrow> (string + CleanupInventoryResource list) \<times> 'w cleanup_io" where
  "call_inventory inventory l st =
     (case inventory (inventory_request l) (fst st) of
        (r, w) \<Rightarrow> (r, (w, snd st @ [CallInventory (inventory_request l)])))"

definition initial_report :: "bool \<Rightarrow> CleanupLedger \<Rightarrow> CleanupReport" where
  "initial_report dryRun l =
     \<lparr>rp_Status = [], rp_Marker = cl_Marker l, rp_Provider = cl_Provider l, rp_DryRun = dryRun,
      rp_Deleted = [], rp_Gone = [], rp_Pending = [], rp_Refused = [], rp_Remaining = [], rp_Detail = [],
      rp_Ledger = l\<rparr>"

text \<open>
  \<^verbatim>\<open>ReconcileCleanup\<close> in three parts: the checks before any provider call, the pass over the merged
  ledger, and the verification against a second inventory.
\<close>

definition reconcile_checks ::
  "'c option \<Rightarrow> CleanupLedger \<Rightarrow> 'w CleanupInventoryClient option \<Rightarrow> 'w CleanupDeleteClient option
    \<Rightarrow> 'w CleanupReconcileOptions \<Rightarrow> cleanup_error option" where
  "reconcile_checks ctx ledger inventory deleter options = first_err
     [(if Option.is_none ctx then Some CleanupContextRequired else None),
      ValidateCleanupLedger ledger,
      (if Option.is_none inventory then Some InventoryClientRequired else None),
      (if \<not> co_DryRun options \<and> Option.is_none deleter then Some DeleteClientRequired else None)]"

definition reconcile_verify ::
  "'w CleanupInventoryClient \<Rightarrow> 'w CleanupReconcileOptions \<Rightarrow> CleanupLedger \<Rightarrow> CleanupReport
    \<Rightarrow> 'w cleanup_io \<Rightarrow> (cleanup_error + CleanupReport) \<times> 'w cleanup_io" where
  "reconcile_verify inventory options l report st =
     (case call_inventory inventory l st of
        (Inl e, st') \<Rightarrow> (Inl (VerifyInventoryFailed e), st')
      | (Inr final, st') \<Rightarrow>
          (case validateCleanupInventory final of
             Some e \<Rightarrow> (Inl e, st')
           | None \<Rightarrow> (Inr (finish_report (co_DryRun options) l report final), st')))"

definition ReconcileCleanup ::
  "'c option \<Rightarrow> CleanupLedger \<Rightarrow> 'w CleanupInventoryClient option \<Rightarrow> 'w CleanupDeleteClient option
    \<Rightarrow> 'w CleanupReconcileOptions \<Rightarrow> 'w cleanup_io \<Rightarrow> (cleanup_error + CleanupReport) \<times> 'w cleanup_io" where
  "ReconcileCleanup ctx ledger0 inventory deleter options st0 =
     (case (reconcile_checks ctx ledger0 inventory deleter options, inventory) of
        (Some e, _) \<Rightarrow> (Inl e, st0)
      | (None, None) \<Rightarrow> (Inl InventoryClientRequired, st0)
      | (None, Some query) \<Rightarrow>
          (case call_inventory query ledger0 st0 of
             (Inl e, st1) \<Rightarrow> (Inl (InventoryFailed e), st1)
           | (Inr observed, st1) \<Rightarrow>
               (case validateCleanupInventory observed of
                  Some e \<Rightarrow> (Inl e, st1)
                | None \<Rightarrow>
                    let ledger = mergeCleanupInventory ledger0 observed
                    in case persistCleanupLedger options ledger st1 of
                         (Some e, st2) \<Rightarrow> (Inl e, st2)
                       | (None, st2) \<Rightarrow>
                           (case reconcile_loop deleter options (indexCleanupInventory observed)
                                   (cleanup_order (cl_Resources ledger)) ledger
                                   (initial_report (co_DryRun options) ledger) st2 of
                              (Inl e, st3) \<Rightarrow> (Inl e, st3)
                            | (Inr (l, report), st3) \<Rightarrow> reconcile_verify query options l report st3))))"

section \<open>Lemmas on validation\<close>

lemma requireCleanupLine_None [simp]: "requireCleanupLine n v = None \<longleftrightarrow> single_line v"
  by (simp add: requireCleanupLine_def)

lemma validate_resources_None:
  "validate_resources i seen rs = None \<Longrightarrow>
     (\<forall>r \<in> set rs. validateCleanupResource r = None \<and> cleanupResourceKey r \<noteq> []) \<and>
     distinct (map cleanupResourceKey rs) \<and> cleanupResourceKey ` set rs \<inter> set seen = {}"
  by (induction i seen rs rule: validate_resources.induct)
    (auto simp: Let_def split: option.splits if_splits)

lemma ValidateCleanupLedger_None [go_valid]:
  assumes "ValidateCleanupLedger l = None"
  shows "distinct (map cleanupResourceKey (cl_Resources l))"
    and "r \<in> set (cl_Resources l) \<Longrightarrow> validateCleanupResource r = None"
    and "r \<in> set (cl_Resources l) \<Longrightarrow> cleanupResourceKey r \<noteq> []"
proof -
  from assms have "validate_resources 0 [] (cl_Resources l) = None"
    by (simp add: ValidateCleanupLedger_def split: if_splits)
  from validate_resources_None [OF this]
  show "distinct (map cleanupResourceKey (cl_Resources l))"
    and "r \<in> set (cl_Resources l) \<Longrightarrow> validateCleanupResource r = None"
    and "r \<in> set (cl_Resources l) \<Longrightarrow> cleanupResourceKey r \<noteq> []"
    by auto
qed

lemma validateCleanupResource_status [go_valid]:
  "validateCleanupResource r = None \<Longrightarrow> cr_Status r \<in> set cleanup_statuses"
  by (simp add: validateCleanupResource_def split: if_splits)

lemma validate_inventory_None:
  "validate_inventory i seen obs = None \<Longrightarrow>
     (\<forall>ob \<in> set obs. single_line (ci_Identity ob) \<and> single_line (ci_Kind ob) \<and> \<not> (ci_Live ob \<and> ci_Delayed ob)) \<and>
     distinct (map ci_Identity obs) \<and> ci_Identity ` set obs \<inter> set seen = {}"
proof (induction i seen obs rule: validate_inventory.induct)
  case (2 i seen r rs)
  from "2.prems" have ok: "first_err
        [requireCleanupLine ''inventory identity'' (ci_Identity r),
         requireCleanupLine ''inventory kind'' (ci_Kind r),
         optionalCleanupLine ''inventory role'' (ci_Role r),
         optionalCleanupLine ''inventory name'' (ci_Name r)] = None"
    by (simp only: validate_inventory.simps option.distinct split: option.splits)
  with "2.prems" have "\<not> (ci_Live r \<and> ci_Delayed r)" and "ci_Identity r \<notin> set seen"
    and "validate_inventory (Suc i) (ci_Identity r # seen) rs = None"
    by (simp_all split: if_splits)
  with "2.IH" [OF ok] ok show ?case by auto
qed simp

lemma validateCleanupInventory_None [go_valid]:
  assumes "validateCleanupInventory obs = None"
  shows "distinct (map ci_Identity obs)"
    and "ob \<in> set obs \<Longrightarrow> ci_Identity ob \<noteq> []"
    and "ob \<in> set obs \<Longrightarrow> \<not> (ci_Live ob \<and> ci_Delayed ob)"
  using validate_inventory_None [of 0 "[]" obs] assms
  by (auto simp: validateCleanupInventory_def)

section \<open>Lemmas on lookups\<close>

lemma find_index_Some: "find_index p xs = Some i \<Longrightarrow> i < length xs \<and> p (xs ! i)"
  by (induction xs arbitrary: i) (auto split: if_splits)

lemma find_index_None_iff: "find_index p xs = None \<longleftrightarrow> (\<forall>x \<in> set xs. \<not> p x)"
  by (induction xs) auto

lemma indexCleanupInventory_snoc:
  "indexCleanupInventory (obs @ [ob]) = index_observation (indexCleanupInventory obs) ob"
  by (simp add: indexCleanupInventory_def)

lemma index_by_identity:
  "indexCleanupInventory obs (''id:'' @ i) = Some ob \<Longrightarrow> ob \<in> set obs \<and> ci_Identity ob = i"
  by (induction obs rule: rev_induct)
    (auto simp: indexCleanupInventory_snoc index_observation_def Let_def indexCleanupInventory_def split: if_splits)

lemma index_by_name:
  "indexCleanupInventory obs (''name:'' @ n) = Some ob \<Longrightarrow>
     ob \<in> set obs \<and> ci_Kind ob @ '':'' @ ci_Name ob = n"
  by (induction obs rule: rev_induct)
    (auto simp: indexCleanupInventory_snoc index_observation_def Let_def indexCleanupInventory_def split: if_splits)

text \<open>What a lookup in the index of an inventory finds.\<close>

definition observes :: "CleanupResource \<Rightarrow> CleanupInventoryResource \<Rightarrow> bool" where
  "observes r ob \<longleftrightarrow>
     (if cr_Identity r \<noteq> [] then ci_Identity ob = cr_Identity r
      else cr_Name r \<noteq> [] \<and> ci_Kind ob @ '':'' @ ci_Name ob = cr_Kind r @ '':'' @ cr_Name r)"

lemma lookup_observes:
  "lookupCleanupInventory (indexCleanupInventory obs) r = Some ob \<Longrightarrow> ob \<in> set obs \<and> observes r ob"
  using index_by_identity [of obs "cr_Identity r" ob]
    index_by_name [of obs "cr_Kind r @ '':'' @ cr_Name r" ob]
  by (auto simp: lookupCleanupInventory_def observes_def split: if_splits)

lemma index_complete:
  "ob \<in> set obs \<Longrightarrow> \<exists>ob'. indexCleanupInventory obs (''id:'' @ ci_Identity ob) = Some ob'"
  by (induction obs rule: rev_induct)
    (auto simp: indexCleanupInventory_snoc index_observation_def Let_def)

section \<open>Lemmas on the merge\<close>

lemma bind_observation_simps [simp]:
  "cr_Identity (bind_observation ob c) = (if cr_Identity c = [] then ci_Identity ob else cr_Identity c)"
  "cr_Status (bind_observation ob c) =
     (if cr_Status c = CleanupStatusIntended then CleanupStatusClaimed else cr_Status c)"
  by (simp_all add: bind_observation_def Let_def)

lemma cleanupInventoryMatch_Some:
  assumes "cleanupInventoryMatch rs ob = Some i"
  shows "i < length rs" and "cr_Identity (rs ! i) = [] \<or> cr_Identity (rs ! i) = ci_Identity ob"
  using assms by (auto simp: cleanupInventoryMatch_def dest!: find_index_Some split: option.splits)

lemma merge_observation_length: "length rs \<le> length (merge_observation rs ob)"
  by (auto simp: merge_observation_def split: option.splits)

lemma merge_observation_keeps:
  assumes "j < length rs"
  shows "cr_Identity (rs ! j) \<noteq> [] \<Longrightarrow> cr_Identity (merge_observation rs ob ! j) = cr_Identity (rs ! j)"
    and "cr_Status (rs ! j) \<noteq> CleanupStatusIntended \<Longrightarrow>
           cr_Status (merge_observation rs ob ! j) = cr_Status (rs ! j)"
proof -
  have upd: "rs[i := x] ! j = (if i = j then x else rs ! j)" for i x
    using assms by simp
  show "cr_Identity (rs ! j) \<noteq> [] \<Longrightarrow> cr_Identity (merge_observation rs ob ! j) = cr_Identity (rs ! j)"
    and "cr_Status (rs ! j) \<noteq> CleanupStatusIntended \<Longrightarrow>
           cr_Status (merge_observation rs ob ! j) = cr_Status (rs ! j)"
    using assms by (simp_all add: merge_observation_def nth_append upd split: option.splits)
qed

lemma merge_observation_owned:
  assumes "ci_Owned ob" and "ci_Identity ob \<noteq> []"
  shows "\<exists>r \<in> set (merge_observation rs ob). cr_Identity r = ci_Identity ob"
proof (cases "cleanupInventoryMatch rs ob")
  case None
  with assms show ?thesis by (auto simp: merge_observation_def adopt_observation_def)
next
  case (Some i)
  note m = cleanupInventoryMatch_Some [OF Some]
  have "rs[i := bind_observation ob (rs ! i)] ! i = bind_observation ob (rs ! i)"
    using m(1) by simp
  with m assms Some show ?thesis
    by (auto simp: merge_observation_def intro!: bexI [OF _ set_update_memI])
qed

lemma merge_fold_keeps:
  assumes "j < length rs"
  shows "j < length (foldl merge_observation rs obs) \<and>
     (cr_Identity (rs ! j) \<noteq> [] \<longrightarrow>
        cr_Identity (foldl merge_observation rs obs ! j) = cr_Identity (rs ! j)) \<and>
     (cr_Status (rs ! j) \<noteq> CleanupStatusIntended \<longrightarrow>
        cr_Status (foldl merge_observation rs obs ! j) = cr_Status (rs ! j))"
  using assms
proof (induction obs arbitrary: rs)
  case (Cons ob obs)
  from Cons.prems merge_observation_length [of rs ob] have j: "j < length (merge_observation rs ob)"
    by simp
  from Cons.IH [OF j] merge_observation_keeps [OF Cons.prems, of ob] show ?case by auto
qed simp

lemma merge_fold_identity_mem:
  assumes "r \<in> set rs" and "cr_Identity r \<noteq> []"
  shows "\<exists>r' \<in> set (foldl merge_observation rs obs). cr_Identity r' = cr_Identity r"
proof -
  from assms(1) obtain j where "j < length rs" and "rs ! j = r" by (auto simp: in_set_conv_nth)
  with merge_fold_keeps [of j rs obs] assms(2) show ?thesis by (metis nth_mem)
qed

lemma merge_fold_owned:
  assumes "ob \<in> set obs" and "ci_Owned ob" and "ci_Identity ob \<noteq> []"
  shows "\<exists>r \<in> set (foldl merge_observation rs obs). cr_Identity r = ci_Identity ob"
  using assms
proof (induction obs arbitrary: rs)
  case (Cons o' obs)
  show ?case
  proof (cases "ob \<in> set obs")
    case True
    with Cons show ?thesis by simp
  next
    case False
    with Cons.prems have "o' = ob" by simp
    with merge_observation_owned Cons.prems(2,3) obtain r
      where "r \<in> set (merge_observation rs o')" and "cr_Identity r = ci_Identity ob" by metis
    with merge_fold_identity_mem [of r "merge_observation rs o'" obs] Cons.prems(3) show ?thesis by simp
  qed
qed simp

lemma bind_observation_status:
  "cr_Status c \<in> set cleanup_statuses \<Longrightarrow> cr_Status (bind_observation ob c) \<in> set cleanup_statuses"
  by (auto simp: cleanup_statuses_def)

lemma merge_observation_statuses:
  assumes "cr_Status ` set rs \<subseteq> set cleanup_statuses"
  shows "cr_Status ` set (merge_observation rs ob) \<subseteq> set cleanup_statuses"
proof (cases "cleanupInventoryMatch rs ob")
  case None
  with assms show ?thesis
    by (simp add: merge_observation_def adopt_observation_def) (simp add: cleanup_statuses_def)
next
  case (Some i)
  then have "rs ! i \<in> set rs" by (auto dest: cleanupInventoryMatch_Some(1))
  with assms have "cr_Status (bind_observation ob (rs ! i)) \<in> set cleanup_statuses"
    by (intro bind_observation_status) blast
  with assms Some set_update_subset_insert [of rs i "bind_observation ob (rs ! i)"] show ?thesis
    by (auto simp add: merge_observation_def simp del: bind_observation_simps)
qed

lemma merge_fold_statuses:
  "cr_Status ` set rs \<subseteq> set cleanup_statuses \<Longrightarrow>
     cr_Status ` set (foldl merge_observation rs obs) \<subseteq> set cleanup_statuses"
  by (induction obs arbitrary: rs) (auto simp: merge_observation_statuses)

end
