(* ===== verification/Cleanup_Reconcile.thy ===== *)
theory Cleanup_Reconcile
  imports Cleanup_Ledger
begin

text \<open>
  What a pass of \<^verbatim>\<open>ReconcileCleanup\<close> does, for every behaviour of its clients: lemmas on one step
  (\<open>step_ok\<close>), on the loop by induction over the sorted resources, and on the whole run; then the
  properties. The runs that serve as witnesses use a service whose inventory is its state and
  whose deletions remove what they are asked to remove.
\<close>

section \<open>Lemmas on the reconcile pass\<close>

text \<open>What of a resource no step of the pass changes: all but status and detail.\<close>

definition core :: "CleanupResource \<Rightarrow> CleanupResource" where
  "core r = r\<lparr>cr_Status := [], cr_Detail := []\<rparr>"

lemma core_eq_iff:
  "core r = core q \<longleftrightarrow> cr_Kind r = cr_Kind q \<and> cr_Role r = cr_Role q \<and> cr_Name r = cr_Name q \<and>
     cr_Identity r = cr_Identity q \<and> cr_Rank r = cr_Rank q"
  by (cases r; cases q) (simp add: core_def)

lemma core_update [simp]: "core (r\<lparr>cr_Status := s, cr_Detail := d\<rparr>) = core r"
  by (simp add: core_def)

lemma key_core: "cleanupResourceKey (core r) = cleanupResourceKey r"
  by (simp add: cleanupResourceKey_def core_def)

lemma lookup_core: "lookupCleanupInventory ix (core r) = lookupCleanupInventory ix r"
  by (simp add: lookupCleanupInventory_def core_def)

lemma key_cong: "core r = core q \<Longrightarrow> cleanupResourceKey r = cleanupResourceKey q"
  by (metis key_core)

lemma lookup_cong: "core r = core q \<Longrightarrow> lookupCleanupInventory ix r = lookupCleanupInventory ix q"
  by (metis lookup_core)

abbreviation cores :: "CleanupLedger \<Rightarrow> CleanupResource list" where
  "cores l \<equiv> map core (cl_Resources l)"

lemma keys_cores: "map cleanupResourceKey (cl_Resources l) = map cleanupResourceKey (cores l)"
  by (simp add: key_core)

lemma index_cores: "cleanupResourceIndex (cl_Resources l) r = find_index (\<lambda>c. cleanupResourceKey c = cleanupResourceKey r) (cores l)"
proof -
  have "find_index p (map core rs) = find_index (p \<circ> core) rs" for p rs
    by (induction rs) auto
  then show ?thesis by (simp add: cleanupResourceIndex_def comp_def key_core)
qed

lemma put_status_simps [simp]:
  "cores (put_status i s d l) = cores l"
  "length (cl_Resources (put_status i s d l)) = length (cl_Resources l)"
  "i < length (cl_Resources l) \<Longrightarrow> cl_Resources (put_status i s d l) ! i = (cl_Resources l ! i)\<lparr>cr_Status := s, cr_Detail := d\<rparr>"
  "j \<noteq> i \<Longrightarrow> cl_Resources (put_status i s d l) ! j = cl_Resources l ! j"
  "put_status i s d (put_status i s' d' l) = put_status i s d l"
proof -
  show "cores (put_status i s d l) = cores l"
  proof (cases "i < length (cl_Resources l)")
    case True
    then have "(cores l)[i := core (cl_Resources l ! i)] = cores l"
      by (metis length_map list_update_id nth_map)
    then show ?thesis by (simp add: put_status_def map_update)
  qed (simp add: put_status_def list_update_beyond)
  show "put_status i s d (put_status i s' d' l) = put_status i s d l"
    by (cases "i < length (cl_Resources l)") (simp_all add: put_status_def list_update_beyond)
qed (simp_all add: put_status_def)

text \<open>The statuses a pass leaves alone, and the effect of a step on the ledger.\<close>

abbreviation settled :: "CleanupResource \<Rightarrow> bool" where
  "settled r \<equiv> cr_Status r \<in> {CleanupStatusGone, CleanupStatusRefused, CleanupStatusTombstone}"

definition advance :: "CleanupLedger \<Rightarrow> CleanupLedger \<Rightarrow> bool" where
  "advance l l' \<longleftrightarrow>
     cores l' = cores l \<and> l'\<lparr>cl_Resources := []\<rparr> = l\<lparr>cl_Resources := []\<rparr> \<and>
     (\<forall>j < length (cl_Resources l). settled (cl_Resources l ! j) \<longrightarrow> cl_Resources l' ! j = cl_Resources l ! j) \<and>
     (cr_Status ` set (cl_Resources l) \<subseteq> set cleanup_statuses \<longrightarrow> cr_Status ` set (cl_Resources l') \<subseteq> set cleanup_statuses)"

lemma advance_length: "advance l l' \<Longrightarrow> length (cl_Resources l') = length (cl_Resources l)"
  unfolding advance_def by (metis length_map)

lemma advance_refl [simp]: "advance l l"
  by (simp add: advance_def)

lemma advance_trans: "advance l l' \<Longrightarrow> advance l' l'' \<Longrightarrow> advance l l''"
  using advance_length [of l l'] by (auto simp: advance_def)

lemma advance_put_status:
  assumes "i < length (cl_Resources l)" and "\<not> settled (cl_Resources l ! i)" and "s \<in> set cleanup_statuses"
  shows "advance l (put_status i s d l)"
  unfolding advance_def
proof (intro conjI allI impI)
  show "(put_status i s d l)\<lparr>cl_Resources := []\<rparr> = l\<lparr>cl_Resources := []\<rparr>"
    by (simp add: put_status_def)
  fix j assume "j < length (cl_Resources l)" and "settled (cl_Resources l ! j)"
  with assms(2) show "cl_Resources (put_status i s d l) ! j = cl_Resources l ! j"
    by (cases "j = i") auto
next
  assume *: "cr_Status ` set (cl_Resources l) \<subseteq> set cleanup_statuses"
  have "set (cl_Resources (put_status i s d l)) \<subseteq>
      insert ((cl_Resources l ! i)\<lparr>cr_Status := s, cr_Detail := d\<rparr>) (set (cl_Resources l))"
    by (simp add: put_status_def set_update_subset_insert)
  then show "cr_Status ` set (cl_Resources (put_status i s d l)) \<subseteq> set cleanup_statuses"
    using * assms(3) by fastforce
qed simp

text \<open>The calls of a pass.\<close>

fun deletes :: "cleanup_call list \<Rightarrow> CleanupResource list" where
  "deletes [] = []"
| "deletes (CallDelete x # cs) = x # deletes cs"
| "deletes (_ # cs) = deletes cs"

lemma deletes_append [simp]: "deletes (a @ b) = deletes a @ deletes b"
  by (induction a rule: deletes.induct) auto

lemma set_deletes: "x \<in> set (deletes cs) \<longleftrightarrow> CallDelete x \<in> set cs"
  by (induction cs rule: deletes.induct) auto

definition delete_guard :: "'w CleanupReconcileOptions \<Rightarrow> inventory_index \<Rightarrow> CleanupResource \<Rightarrow> bool" where
  "delete_guard options ix x \<longleftrightarrow>
     \<not> co_DryRun options \<and> cr_Status x = CleanupStatusDeleting \<and>
     (\<exists>ob. lookupCleanupInventory ix x = Some ob \<and> ci_Owned ob \<and> ci_Live ob \<and> \<not> ci_Protected ob \<and> \<not> ci_Delayed ob)"

definition intent_persisted :: "cleanup_call list \<Rightarrow> bool" where
  "intent_persisted cs \<longleftrightarrow>
     (\<forall>pre x post. cs = pre @ CallDelete x # post \<longrightarrow>
        (\<exists>pre' l. pre = pre' @ [CallPersist l None] \<and> x \<in> set (cl_Resources l)))"

lemma intent_persisted_append:
  assumes "intent_persisted a" and "intent_persisted b"
  shows "intent_persisted (a @ b)"
  unfolding intent_persisted_def
proof (intro allI impI)
  fix pre x post assume eq: "a @ b = pre @ CallDelete x # post"
  show "\<exists>pre' l. pre = pre' @ [CallPersist l None] \<and> x \<in> set (cl_Resources l)"
  proof (cases "length pre < length a")
    case True
    then obtain post' where "a = pre @ CallDelete x # post'"
      using eq by (auto simp: append_eq_append_conv2 append_eq_Cons_conv)
    with assms(1) show ?thesis unfolding intent_persisted_def by blast
  next
    case False
    then obtain p where "pre = a @ p" and "b = p @ CallDelete x # post"
      using eq by (auto simp: append_eq_append_conv2 Cons_eq_append_conv)
    moreover from this assms(2) obtain p' l where "p = p' @ [CallPersist l None]" and "x \<in> set (cl_Resources l)"
      unfolding intent_persisted_def by blast
    ultimately show ?thesis by simp
  qed
qed

lemma intent_persisted_no_delete: "deletes cs = [] \<Longrightarrow> intent_persisted cs"
  unfolding intent_persisted_def by auto

definition persists :: "'w CleanupReconcileOptions \<Rightarrow> CleanupLedger \<Rightarrow> string option \<Rightarrow> cleanup_call list" where
  "persists options l a = (if Option.is_none (co_Persist options) then [] else [CallPersist l a])"

lemma deletes_persists [simp]: "deletes (persists options l a) = []"
  by (simp add: persists_def)

lemma persist_calls:
  assumes "persistCleanupLedger options l st = (r, st')"
  obtains a where "snd st' = snd st @ persists options l a" and "r = None \<longrightarrow> a = None"
  using assms by (auto simp: persistCleanupLedger_def persists_def split: option.splits prod.splits)

text \<open>
  Everything the pass needs to know of one step on resource \<open>r\<close>: what it does to the ledger, which
  calls it makes, and how it reports a refusal.
\<close>

definition step_ok ::
  "'w CleanupReconcileOptions \<Rightarrow> inventory_index \<Rightarrow> nat \<Rightarrow> CleanupLedger \<Rightarrow> CleanupReport \<Rightarrow> 'w cleanup_io
    \<Rightarrow> (cleanup_error + CleanupLedger \<times> CleanupReport) \<times> 'w cleanup_io \<Rightarrow> bool" where
  "step_ok options ix i l report st out \<longleftrightarrow>
     (\<exists>new. snd (snd out) = snd st @ new \<and> length (deletes new) \<le> 1 \<and>
        (\<forall>x \<in> set (deletes new). delete_guard options ix x \<and> core x = core (cl_Resources l ! i)) \<and>
        (co_Persist options \<noteq> None \<longrightarrow> intent_persisted new)) \<and>
     (\<forall>l' report'. fst out = Inr (l', report') \<longrightarrow>
        advance l l' \<and> (\<forall>j. j \<noteq> i \<longrightarrow> cl_Resources l' ! j = cl_Resources l ! j) \<and>
        (\<exists>zs. rp_Refused report' = rp_Refused report @ zs) \<and>
        (cr_Status (cl_Resources l' ! i) = CleanupStatusRefused \<longrightarrow> rp_Refused report' \<noteq> []))"

lemma step_ok_report:
  assumes "rp_Refused report' = rp_Refused report @ zs"
    and "cr_Status (cl_Resources l ! i) = CleanupStatusRefused \<Longrightarrow> zs \<noteq> []"
  shows "step_ok options ix i l report st (Inr (l, report'), st)"
  using assms by (auto simp: step_ok_def intent_persisted_no_delete intro!: exI [of _ "[]"])

lemma settle_step_ok:
  assumes "i < length (cl_Resources l)" and "\<not> settled (cl_Resources l ! i)" and "s \<in> set cleanup_statuses"
    and "rp_Refused report' = rp_Refused report @ zs" and "s = CleanupStatusRefused \<Longrightarrow> zs \<noteq> []"
  shows "step_ok options ix i l report st (settle options s d i l report' st)"
proof -
  obtain r st' where p: "persistCleanupLedger options (put_status i s d l) st = (r, st')"
    by (cases "persistCleanupLedger options (put_status i s d l) st")
  obtain a where "snd st' = snd st @ persists options (put_status i s d l) a" using persist_calls [OF p] .
  then show ?thesis
    using assms advance_put_status [OF assms(1-3), of d]
    by (cases r) (auto simp: step_ok_def settle_def p intent_persisted_no_delete
        intro!: exI [of _ "persists options (put_status i s d l) a"])
qed

lemma intent_persisted_delete:
  assumes "co_Persist options \<noteq> None" and "x \<in> set (cl_Resources l)" and "deletes cs = []"
  shows "intent_persisted (persists options l None @ [CallDelete x] @ cs)"
  unfolding intent_persisted_def
proof (intro allI impI)
  fix pre y post assume eq: "persists options l None @ [CallDelete x] @ cs = pre @ CallDelete y # post"
  have p: "persists options l None = [CallPersist l None]"
    using assms(1) by (auto simp: persists_def)
  have "CallDelete y \<notin> set cs" using assms(3) set_deletes [of y cs] by simp
  with eq p assms(2) show "\<exists>pre' l. pre = pre' @ [CallPersist l None] \<and> y \<in> set (cl_Resources l)"
    by (auto simp: Cons_eq_append_conv)
qed

text \<open>The deletion itself: the calls are persist, delete, persist, whatever the clients answer.\<close>

lemma delete_step_ok:
  assumes i: "i < length (cl_Resources l)" and ns: "\<not> settled (cl_Resources l ! i)"
    and ob: "lookupCleanupInventory ix (cl_Resources l ! i) = Some ob" "ci_Owned ob" "ci_Live ob"
      "\<not> ci_Protected ob" "\<not> ci_Delayed ob"
  shows "step_ok options ix i l report st (delete_resource deleter options i l report st)"
proof (cases "co_DryRun options \<or> Option.is_none deleter")
  case True
  then show ?thesis
    using ns step_ok_report [of "report\<lparr>rp_Pending := rp_Pending report @ [cleanupResourceKey (cl_Resources l ! i)]\<rparr>" report "[]" l i]
    by (auto simp: delete_resource_def step_ok_def intent_persisted_no_delete split: option.splits)
next
  case False
  then obtain del where del: "deleter = Some del" and nd: "\<not> co_DryRun options" by (cases deleter) auto
  define l1 where "l1 = put_status i CleanupStatusDeleting (cr_Detail (cl_Resources l ! i)) l"
  define current where "current = cl_Resources l1 ! i"
  obtain r1 st1 where p1: "persistCleanupLedger options l1 st = (r1, st1)"
    by (cases "persistCleanupLedger options l1 st")
  obtain a1 where a1: "snd st1 = snd st @ persists options l1 a1" "r1 = None \<longrightarrow> a1 = None" using persist_calls [OF p1] .
  have len: "i < length (cl_Resources l1)" using i by (simp add: l1_def)
  then have mem: "current \<in> set (cl_Resources l1)" unfolding current_def by (rule nth_mem)
  have cur: "core current = core (cl_Resources l ! i)" "cr_Status current = CleanupStatusDeleting"
    using i by (simp_all add: current_def l1_def core_def)
  have guard: "delete_guard options ix current"
    using nd cur ob lookup_cong [OF cur(1)] by (auto simp: delete_guard_def)
  show ?thesis
  proof (cases r1)
    case (Some e)
    with p1 a1 nd del show ?thesis
      by (auto simp: delete_resource_def Let_def step_ok_def intent_persisted_no_delete
          simp flip: l1_def intro!: exI [of _ "persists options l1 a1"])
  next
    case None
    obtain r2 w where d: "del current (fst st1) = (r2, w)" by (cases "del current (fst st1)")
    define st2 where "st2 = (w, snd st1 @ [CallDelete current])"
    define l2 where "l2 = (case r2 of
        Some err \<Rightarrow> put_status i CleanupStatusDeleting (if has_control err then ''provider delete failed'' else err) l1
      | None \<Rightarrow> put_status i CleanupStatusGone ''deleted through owning-service inventory'' l1)"
    obtain r3 st3 where p3: "persistCleanupLedger options l2 st2 = (r3, st3)"
      by (cases "persistCleanupLedger options l2 st2")
    obtain a3 where a3: "snd st3 = snd st2 @ persists options l2 a3" using persist_calls [OF p3] .
    have calls: "snd st3 = snd st @ (persists options l1 None @ [CallDelete current] @ persists options l2 a3)"
      using a1 None a3 by (simp add: st2_def)
    have gone: "r2 = None \<Longrightarrow> advance l l2 \<and> (\<forall>j. j \<noteq> i \<longrightarrow> cl_Resources l2 ! j = cl_Resources l ! j) \<and>
        cr_Status (cl_Resources l2 ! i) = CleanupStatusGone"
      using i advance_put_status [OF i ns] by (simp add: l2_def l1_def cleanup_statuses_def)
    have "delete_resource deleter options i l report st =
        (case r2 of
           Some err \<Rightarrow> (Inl (DeleteFailed (cleanupResourceKey current) err), st3)
         | None \<Rightarrow> (case r3 of Some e \<Rightarrow> (Inl e, st3)
             | None \<Rightarrow> (Inr (l2, report\<lparr>rp_Deleted := rp_Deleted report @ [cleanupResourceKey current]\<rparr>), st3)))"
      using nd del p1 None d p3
      by (auto simp: delete_resource_def settle_def Let_def l2_def st2_def
          simp flip: l1_def current_def split: option.splits)
    moreover have "co_Persist options \<noteq> None \<longrightarrow>
        intent_persisted (persists options l1 None @ [CallDelete current] @ persists options l2 a3)"
      using intent_persisted_delete [OF _ mem, of options "persists options l2 a3"] by simp
    ultimately show ?thesis
      using calls guard cur(1) gone
      by (auto simp: step_ok_def split: option.splits
          intro!: exI [of _ "persists options l1 None @ [CallDelete current] @ persists options l2 a3"])
  qed
qed

lemma reconcile_one_step_ok:
  assumes "cleanupResourceIndex (cl_Resources l) r = Some i"
  shows "step_ok options ix i l report st (reconcile_one deleter options ix r l report st)"
proof -
  from assms have i: "i < length (cl_Resources l)"
    by (auto simp: cleanupResourceIndex_def dest: find_index_Some)
  note s = settle_step_ok [OF i] and r = step_ok_report and d = delete_step_ok [OF i]
  show ?thesis
    unfolding reconcile_one_def assms option.case Let_def
    by (auto split: option.splits intro!: s r d simp: cleanup_statuses_def)
qed

lemma reconcile_one_skip:
  "cleanupResourceIndex (cl_Resources l) r = None \<Longrightarrow> reconcile_one deleter options ix r l report st = (Inr (l, report), st)"
  by (simp add: reconcile_one_def)

definition rank_key :: "CleanupResource \<Rightarrow> int \<times> string" where
  "rank_key r = (cr_Rank r, cleanupResourceKey r)"

lemma rank_key_cong: "core r = core q \<Longrightarrow> rank_key r = rank_key q"
  using key_cong [of r q] by (auto simp: rank_key_def core_eq_iff)

text \<open>With distinct keys the index of a resource of the ledger is its own position.\<close>

lemma find_index_distinct:
  assumes "distinct (map f xs)" and "j < length xs"
  shows "find_index (\<lambda>x. f x = f (xs ! j)) xs = Some j"
  using assms by (induction xs arbitrary: j) (auto simp: nth_Cons image_iff split: nat.splits)

lemma index_distinct:
  assumes "distinct (map cleanupResourceKey (cl_Resources l))" and "j < length (cl_Resources l)"
    and "core r = core (cl_Resources l ! j)"
  shows "cleanupResourceIndex (cl_Resources l) r = Some j"
  using find_index_distinct [OF assms(1,2)] key_cong [OF assms(3)] by (simp add: cleanupResourceIndex_def)

text \<open>The loop, by induction over the sorted resources.\<close>

lemma reconcile_loop_ok:
  assumes "reconcile_loop deleter options ix rs l report st = (res, st')"
  shows "(\<exists>new. snd st' = snd st @ new \<and> (\<forall>x \<in> set (deletes new). delete_guard options ix x) \<and>
            (co_Persist options \<noteq> None \<longrightarrow> intent_persisted new)) \<and>
         (\<forall>l' report'. res = Inr (l', report') \<longrightarrow> advance l l')"
  using assms
proof (induction rs arbitrary: l report st)
  case Nil
  then show ?case by (auto simp: intent_persisted_no_delete)
next
  case (Cons r rs)
  obtain out1 st1 where one: "reconcile_one deleter options ix r l report st = (out1, st1)"
    by (cases "reconcile_one deleter options ix r l report st")
  have first: "(\<exists>new. snd st1 = snd st @ new \<and> (\<forall>x \<in> set (deletes new). delete_guard options ix x) \<and>
            (co_Persist options \<noteq> None \<longrightarrow> intent_persisted new)) \<and>
         (\<forall>l' report'. out1 = Inr (l', report') \<longrightarrow> advance l l')"
  proof (cases "cleanupResourceIndex (cl_Resources l) r")
    case None
    with one reconcile_one_skip [OF None, of deleter options ix report st] show ?thesis by (auto simp: intent_persisted_no_delete)
  next
    case (Some i)
    from reconcile_one_step_ok [OF this, of options ix report st deleter] one show ?thesis
      unfolding step_ok_def by auto
  qed
  show ?case
  proof (cases out1)
    case (Inl e)
    with one first Cons.prems show ?thesis by auto
  next
    case (Inr p)
    then obtain l1 report1 where p: "out1 = Inr (l1, report1)" by (cases p) auto
    with one Cons.prems have "reconcile_loop deleter options ix rs l1 report1 st1 = (res, st')" by simp
    from Cons.IH [OF this] first p show ?thesis
      by (fastforce intro: intent_persisted_append advance_trans)
  qed
qed

text \<open>With distinct keys, the resources deleted are a subsequence of the resources visited.\<close>

lemma reconcile_one_deletes:
  assumes "distinct (map cleanupResourceKey (cl_Resources l))" and "core r \<in> set (cores l)"
    and "reconcile_one deleter options ix r l report st = (out, st')"
  shows "\<exists>new. snd st' = snd st @ new \<and> subseq (map rank_key (deletes new)) [rank_key r]"
proof -
  from assms(2) obtain j where j: "j < length (cl_Resources l)" "core r = core (cl_Resources l ! j)"
    by (auto simp: in_set_conv_nth)
  note idx = index_distinct [OF assms(1) j]
  from reconcile_one_step_ok [OF idx, of options ix report st deleter] assms(3) obtain new
    where new: "snd st' = snd st @ new" "length (deletes new) \<le> 1"
      "\<forall>x \<in> set (deletes new). core x = core (cl_Resources l ! j)"
    unfolding step_ok_def by auto
  have "subseq (map rank_key (deletes new)) [rank_key r]"
  proof (cases "deletes new")
    case (Cons x xs)
    with new(2,3) j(2) rank_key_cong [of x r] show ?thesis by simp
  qed simp
  with new(1) show ?thesis by blast
qed

lemma reconcile_loop_deletes:
  assumes "reconcile_loop deleter options ix rs l report st = (res, st')"
    and "distinct (map cleanupResourceKey (cl_Resources l))" and "core ` set rs \<subseteq> set (cores l)"
  shows "\<exists>new. snd st' = snd st @ new \<and> subseq (map rank_key (deletes new)) (map rank_key rs)"
  using assms
proof (induction rs arbitrary: l report st)
  case (Cons r rs)
  obtain out1 st1 where one: "reconcile_one deleter options ix r l report st = (out1, st1)"
    by (cases "reconcile_one deleter options ix r l report st")
  from reconcile_one_deletes [OF Cons.prems(2) _ one] Cons.prems(3) obtain new
    where new: "snd st1 = snd st @ new" "subseq (map rank_key (deletes new)) [rank_key r]" by auto
  show ?case
  proof (cases out1)
    case (Inl e)
    with one new Cons.prems(1) list_emb_prefix [OF new(2), of "map rank_key rs"] show ?thesis by auto
  next
    case (Inr p)
    then obtain l1 report1 where p: "out1 = Inr (l1, report1)" by (cases p) auto
    from Cons.prems(3) obtain j where j: "j < length (cl_Resources l)" "core r = core (cl_Resources l ! j)"
      by (auto simp: in_set_conv_nth)
    from reconcile_one_step_ok [OF index_distinct [OF Cons.prems(2) j], of options ix report st deleter] one p
    have adv: "cores l1 = cores l" unfolding step_ok_def advance_def by auto
    from one p Cons.prems(1) have "reconcile_loop deleter options ix rs l1 report1 st1 = (res, st')" by simp
    from Cons.IH [OF this] adv Cons.prems(2,3) keys_cores [of l] keys_cores [of l1] obtain new2
      where new2: "snd st' = snd st1 @ new2" "subseq (map rank_key (deletes new2)) (map rank_key rs)"
      by auto
    from list_emb_append_mono [OF new(2) new2(2)] new(1) new2(1) show ?thesis by auto
  qed
qed simp

text \<open>A refused resource that the loop visits is reported as refused.\<close>

lemma reconcile_loop_refused:
  assumes "reconcile_loop deleter options ix rs l report st = (Inr (l', report'), st')"
    and "\<forall>j < length (cl_Resources l). cr_Status (cl_Resources l ! j) = CleanupStatusRefused \<longrightarrow>
           rp_Refused report \<noteq> [] \<or> (\<exists>r \<in> set rs. cleanupResourceIndex (cl_Resources l) r = Some j)"
    and "r' \<in> set (cl_Resources l')" and "cr_Status r' = CleanupStatusRefused"
  shows "rp_Refused report' \<noteq> []"
  using assms
proof (induction rs arbitrary: l report st)
  case Nil
  then show ?case by (auto simp: in_set_conv_nth)
next
  case (Cons r rs)
  obtain l1 report1 st1 where one: "reconcile_one deleter options ix r l report st = (Inr (l1, report1), st1)"
    and rest: "reconcile_loop deleter options ix rs l1 report1 st1 = (Inr (l', report'), st')"
    using Cons.prems(1) by (auto split: prod.splits sum.splits)
  show ?case
  proof (cases "cleanupResourceIndex (cl_Resources l) r")
    case None
    with one reconcile_one_skip [OF None, of deleter options ix report st] have "l1 = l" "report1 = report" by auto
    with Cons.IH [OF rest] Cons.prems None show ?thesis by fastforce
  next
    case (Some i)
    from reconcile_one_step_ok [OF Some, of options ix report st deleter] one
    have adv: "advance l l1" and other: "\<And>j. j \<noteq> i \<Longrightarrow> cl_Resources l1 ! j = cl_Resources l ! j"
      and zs: "\<exists>zs. rp_Refused report1 = rp_Refused report @ zs"
      and ref: "cr_Status (cl_Resources l1 ! i) = CleanupStatusRefused \<Longrightarrow> rp_Refused report1 \<noteq> []"
      unfolding step_ok_def by auto
    have idx: "cleanupResourceIndex (cl_Resources l1) q = cleanupResourceIndex (cl_Resources l) q" for q
      using adv by (simp add: index_cores advance_def)
    have "\<forall>j < length (cl_Resources l1). cr_Status (cl_Resources l1 ! j) = CleanupStatusRefused \<longrightarrow>
           rp_Refused report1 \<noteq> [] \<or> (\<exists>r \<in> set rs. cleanupResourceIndex (cl_Resources l1) r = Some j)"
    proof (intro allI impI)
      fix j assume j: "j < length (cl_Resources l1)" "cr_Status (cl_Resources l1 ! j) = CleanupStatusRefused"
      show "rp_Refused report1 \<noteq> [] \<or> (\<exists>r \<in> set rs. cleanupResourceIndex (cl_Resources l1) r = Some j)"
        using j ref other [of j] Cons.prems(2) advance_length [OF adv] zs Some idx by (cases "j = i") auto
    qed
    from Cons.IH [OF rest this] Cons.prems(3,4) show ?thesis by blast
  qed
qed

section \<open>The whole pass\<close>

text \<open>A run that got past its checks: what it observed and which calls it made.\<close>

lemma reconcile_run:
  assumes "ReconcileCleanup ctx ledger inventory deleter options (w, []) = (res, (w', calls))"
  shows "deletes calls = [] \<or>
    (\<exists>query observed st2 out st3.
       inventory = Some query \<and> fst (query (inventory_request ledger) w) = Inr observed \<and>
       validateCleanupInventory observed = None \<and> ValidateCleanupLedger ledger = None \<and>
       deletes (snd st2) = [] \<and>
       reconcile_loop deleter options (indexCleanupInventory observed)
         (cleanup_order (cl_Resources (mergeCleanupInventory ledger observed)))
         (mergeCleanupInventory ledger observed)
         (initial_report (co_DryRun options) (mergeCleanupInventory ledger observed)) st2 = (out, st3) \<and>
       (\<exists>tail. calls = snd st3 @ tail \<and> deletes tail = []))"
  (is "_ \<or> ?R")
proof (cases "reconcile_checks ctx ledger inventory deleter options")
  case (Some e)
  with assms show ?thesis by (simp add: ReconcileCleanup_def)
next
  case checks: None
  show ?thesis
  proof (cases inventory)
    case None
    with assms checks show ?thesis by (simp add: ReconcileCleanup_def)
  next
    case (Some query)
    obtain r1 w1 where q: "query (inventory_request ledger) w = (r1, w1)"
      by (cases "query (inventory_request ledger) w")
    define st1 where "st1 = (w1, [CallInventory (inventory_request ledger)])"
    have ci: "call_inventory query ledger (w, []) = (r1, st1)" by (simp add: call_inventory_def q st1_def)
    show ?thesis
    proof (cases r1)
      case (Inl e)
      with assms checks Some ci show ?thesis by (auto simp: ReconcileCleanup_def st1_def)
    next
      case (Inr observed)
      define ml where "ml = mergeCleanupInventory ledger observed"
      obtain r2 st2 where p: "persistCleanupLedger options ml st1 = (r2, st2)"
        by (cases "persistCleanupLedger options ml st1")
      obtain a where "snd st2 = snd st1 @ persists options ml a" using persist_calls [OF p] .
      then have d2: "deletes (snd st2) = []" by (simp add: st1_def)
      show ?thesis
      proof (cases "validateCleanupInventory observed = None \<and> r2 = None")
        case False
        with assms checks Some ci Inr p d2 show ?thesis
          by (auto simp: ReconcileCleanup_def Let_def st1_def simp flip: ml_def split: option.splits)
      next
        case True
        obtain out st3 where lp: "reconcile_loop deleter options (indexCleanupInventory observed)
            (cleanup_order (cl_Resources ml)) ml (initial_report (co_DryRun options) ml) st2 = (out, st3)"
          by (cases "reconcile_loop deleter options (indexCleanupInventory observed)
            (cleanup_order (cl_Resources ml)) ml (initial_report (co_DryRun options) ml) st2")
        have "\<exists>tail. calls = snd st3 @ tail \<and> deletes tail = []"
          using assms checks Some ci Inr p True lp
          by (auto simp: ReconcileCleanup_def Let_def reconcile_verify_def call_inventory_def
              simp flip: ml_def split: option.splits sum.splits prod.splits)
        moreover have "ValidateCleanupLedger ledger = None"
          using checks by (simp add: reconcile_checks_def)
        ultimately have ?R
          using True Some q Inr lp d2 unfolding ml_def
          by (intro exI [of _ query] exI [of _ observed] exI [of _ st2] exI [of _ out] exI [of _ st3] conjI) simp_all
        then show ?thesis ..
      qed
    qed
  qed
qed

lemma reconcile_success:
  assumes "ReconcileCleanup ctx ledger inventory deleter options (w, []) = (Inr report, st')"
  obtains query observed st2 l report0 st3 final where
    "inventory = Some query" "fst (query (inventory_request ledger) w) = Inr observed"
    "validateCleanupInventory observed = None" "ValidateCleanupLedger ledger = None"
    "reconcile_loop deleter options (indexCleanupInventory observed)
       (cleanup_order (cl_Resources (mergeCleanupInventory ledger observed)))
       (mergeCleanupInventory ledger observed)
       (initial_report (co_DryRun options) (mergeCleanupInventory ledger observed)) st2 = (Inr (l, report0), st3)"
    "query (inventory_request l) (fst st3) = (Inr final, fst st')" "snd st' = snd st3 @ [CallInventory (inventory_request l)]"
    "validateCleanupInventory final = None"
    "report = finish_report (co_DryRun options) l report0 final"
  using assms
  by (auto simp: ReconcileCleanup_def Let_def reconcile_verify_def call_inventory_def reconcile_checks_def
      split: option.splits sum.splits prod.splits)

lemma finish_report_ledger [simp]: "rp_Ledger (finish_report dry l report final) = l"
  by (simp add: finish_report_def Let_def)

lemma finish_report_complete:
  assumes "rp_Status (finish_report dry l report final) = ''complete''"
  shows "rp_Refused report = []" and "ob \<in> set final \<Longrightarrow> ci_Owned ob \<Longrightarrow> \<not> ci_Live ob \<and> \<not> ci_Delayed ob"
    and "r \<in> set (cl_Resources l) \<Longrightarrow>
      cr_Status r \<notin> {CleanupStatusClaimed, CleanupStatusDeleting, CleanupStatusTombstone}"
proof -
  define live where "live = filter (\<lambda>ob. ci_Owned ob \<and> ci_Live ob) final"
  define delayed where "delayed = filter (\<lambda>ob. ci_Owned ob \<and> ci_Delayed ob) final"
  define active where "active = filter (\<lambda>r. cr_Status r \<in> set [CleanupStatusClaimed, CleanupStatusDeleting, CleanupStatusTombstone])
         (cl_Resources l)"
  have pend: "pendingCleanupKeys l p = [] \<longleftrightarrow> p = [] \<and> active = []" for p
    using set_sort_uniq [of "p @ map cleanupResourceKey active"]
    by (auto simp: pendingCleanupKeys_def uniqueCleanupKeys_def active_def simp del: set_sort set_sort_uniq
        simp flip: set_empty)
  have sort_Nil: "sort xs = [] \<longleftrightarrow> xs = []" for xs :: "string list"
    by (metis set_empty set_sort)
  from assms have *: "rp_Refused report = [] \<and> live = [] \<and> delayed = [] \<and> active = []"
    by (auto simp: finish_report_def Let_def pend sort_Nil simp flip: live_def delayed_def split: if_splits)
  then show "rp_Refused report = []" by simp
  show "ob \<in> set final \<Longrightarrow> ci_Owned ob \<Longrightarrow> \<not> ci_Live ob \<and> \<not> ci_Delayed ob"
    using * by (auto simp: live_def delayed_def filter_empty_conv)
  show "r \<in> set (cl_Resources l) \<Longrightarrow>
      cr_Status r \<notin> {CleanupStatusClaimed, CleanupStatusDeleting, CleanupStatusTombstone}"
    using * by (auto simp: active_def filter_empty_conv)
qed

lemma mergeCleanupInventory_statuses:
  assumes "ValidateCleanupLedger ledger = None"
  shows "cr_Status ` set (cl_Resources (mergeCleanupInventory ledger observed)) \<subseteq> set cleanup_statuses"
proof -
  have "cr_Status ` set (cl_Resources ledger) \<subseteq> set cleanup_statuses"
    using ValidateCleanupLedger_None(2) [OF assms] validateCleanupResource_status by blast
  from merge_fold_statuses [OF this] show ?thesis by (simp add: mergeCleanupInventory_def)
qed

lemma set_cleanup_order [simp]: "set (cleanup_order rs) = set rs"
  by (simp add: cleanup_order_def)

lemma sorted_cleanup_order: "sorted (map rank_key (cleanup_order rs))"
  by (simp add: cleanup_order_def rank_key_def [abs_def])

lemma mset_keys_cleanup_order: "distinct (map cleanupResourceKey rs) \<Longrightarrow> distinct (map rank_key (cleanup_order rs))"
  unfolding cleanup_order_def rank_key_def [abs_def]
  by (auto simp: distinct_map inj_on_def)

section \<open>Concrete runs\<close>

definition ex_resource :: "string \<Rightarrow> string \<Rightarrow> string \<Rightarrow> string \<Rightarrow> CleanupResource" where
  "ex_resource kind name identity status =
     \<lparr>cr_Kind = kind, cr_Role = [], cr_Name = name, cr_Identity = identity,
      cr_Rank = DefaultCleanupRank kind [], cr_Status = status, cr_Detail = []\<rparr>"

definition ex_observation :: "string \<Rightarrow> string \<Rightarrow> string \<Rightarrow> CleanupInventoryResource" where
  "ex_observation kind name identity =
     \<lparr>ci_Kind = kind, ci_Role = [], ci_Name = name, ci_Identity = identity, ci_Owned = True, ci_Live = True,
      ci_Delayed = False, ci_Protected = False\<rparr>"

definition ex_ledger :: "CleanupResource list \<Rightarrow> CleanupLedger" where
  "ex_ledger rs =
     \<lparr>cl_Version = 1, cl_RunID = ''run-1'', cl_Marker = ''magelift/run-1'', cl_Provider = ''scaleway'',
      cl_Region = ''fr-par'', cl_Project = [], cl_Profile = [], cl_ClaimedAt = ''2026-08-13T10:00:00Z'',
      cl_Resources = rs\<rparr>"

definition ex_inventory :: "CleanupInventoryResource list CleanupInventoryClient" where
  "ex_inventory request w = (Inr w, w)"

definition ex_delete :: "CleanupInventoryResource list CleanupDeleteClient" where
  "ex_delete r w = (None, filter (\<lambda>ob. ci_Identity ob \<noteq> cr_Identity r) w)"

definition ex_options :: "CleanupInventoryResource list CleanupReconcileOptions" where
  "ex_options = \<lparr>co_DryRun = False, co_Persist = Some (\<lambda>l w. (None, w))\<rparr>"

definition ex_run ::
  "CleanupLedger \<Rightarrow> CleanupInventoryResource list
    \<Rightarrow> (cleanup_error + CleanupReport) \<times> CleanupInventoryResource list cleanup_io" where
  "ex_run l w = ReconcileCleanup (Some ()) l (Some ex_inventory) (Some ex_delete) ex_options (w, [])"

text \<open>An intended instance and a snapshot the ledger does not know of, both live.\<close>

definition ex_claim :: CleanupLedger where
  "ex_claim = ex_ledger [ex_resource ''rdb-instance'' ''db'' [] CleanupStatusIntended]"

definition ex_world :: "CleanupInventoryResource list" where
  "ex_world = [ex_observation ''rdb-instance'' ''db'' ''i-1'', ex_observation ''rdb-snapshot'' ''snap'' ''s-1'']"

definition ex_report :: CleanupReport where
  "ex_report = projr (fst (ex_run ex_claim ex_world))"

definition ex_calls :: "cleanup_call list" where
  "ex_calls = snd (snd (ex_run ex_claim ex_world))"

lemma ex_run_unfold:
  "ReconcileCleanup (Some ()) ex_claim (Some ex_inventory) (Some ex_delete) ex_options (ex_world, []) =
     (Inr ex_report, (fst (snd (ex_run ex_claim ex_world)), ex_calls))"
proof -
  have "\<not> isl (fst (ex_run ex_claim ex_world))" by code_simp
  then have "fst (ex_run ex_claim ex_world) = Inr ex_report" by (simp add: ex_report_def)
  then show ?thesis
    unfolding ex_calls_def ex_run_def [symmetric] by (metis prod.collapse)
qed

lemma ex_deletes:
  "map (\<lambda>x. (cleanupResourceKey x, cr_Status x)) (deletes ex_calls) =
     [(''rdb-snapshot:s-1'', CleanupStatusDeleting), (''rdb-instance:i-1'', CleanupStatusDeleting)]"
  unfolding ex_calls_def by code_simp

lemma ex_first_delete: obtains x where "CallDelete x \<in> set ex_calls"
proof -
  from ex_deletes obtain x where "x \<in> set (deletes ex_calls)" by (cases "deletes ex_calls") auto
  then show thesis using that set_deletes by blast
qed

lemma ex_inventory_answer: "fst (ex_inventory (inventory_request ex_claim) ex_world) = Inr ex_world"
  by (simp add: ex_inventory_def)

lemma ex_keys: "distinct (map cleanupResourceKey (cl_Resources (mergeCleanupInventory ex_claim ex_world)))"
  by code_simp

lemma ex_report_status:
  shows "rp_Status ex_report = ''complete''" and "cl_Resources (rp_Ledger ex_report) \<noteq> []"
  unfolding ex_report_def by code_simp+

section \<open>Properties\<close>

text \<open>
  C1. Whatever the inventory, delete and persist clients answer, a resource that \<^verbatim>\<open>ReconcileCleanup\<close>
  asks the provider to delete is backed by an observation of the inventory it took first: same
  identity (or, while the claim is not bound to an identity, same kind and name), owned, live, and
  neither protected nor in delayed deletion; and a dry run deletes nothing.
\<close>

theorem reconcile_deletes_only_owned:
  assumes "ReconcileCleanup ctx ledger inventory deleter options (w, []) = (res, (w', calls))"
    and "CallDelete x \<in> set calls"
  shows "\<not> co_DryRun options \<and>
    (\<exists>query observed ob. inventory = Some query \<and> fst (query (inventory_request ledger) w) = Inr observed \<and>
       ob \<in> set observed \<and> observes x ob \<and> ci_Owned ob \<and> ci_Live ob \<and> \<not> ci_Protected ob \<and> \<not> ci_Delayed ob)"
proof -
  from assms(2) have x: "x \<in> set (deletes calls)" by (simp add: set_deletes)
  then have "deletes calls \<noteq> []" by auto
  with reconcile_run [OF assms(1)] obtain query observed st2 out st3 tail where
    r: "inventory = Some query" "fst (query (inventory_request ledger) w) = Inr observed"
      "deletes (snd st2) = []" "calls = snd st3 @ tail" "deletes tail = []"
    and loop: "reconcile_loop deleter options (indexCleanupInventory observed)
         (cleanup_order (cl_Resources (mergeCleanupInventory ledger observed)))
         (mergeCleanupInventory ledger observed)
         (initial_report (co_DryRun options) (mergeCleanupInventory ledger observed)) st2 = (out, st3)"
    by blast
  from reconcile_loop_ok [OF loop] r(3-5) x
  have g: "delete_guard options (indexCleanupInventory observed) x" by auto
  then obtain ob where "lookupCleanupInventory (indexCleanupInventory observed) x = Some ob" "ci_Owned ob" "ci_Live ob"
    "\<not> ci_Protected ob" "\<not> ci_Delayed ob" "\<not> co_DryRun options" by (auto simp: delete_guard_def)
  with lookup_observes r(1,2) show ?thesis by blast
qed

theorem reconcile_deletes_only_owned_witness:
  "\<exists>x. CallDelete x \<in> set ex_calls \<and>
    (\<exists>query observed ob. Some ex_inventory = Some query \<and> fst (query (inventory_request ex_claim) ex_world) = Inr observed \<and>
       ob \<in> set observed \<and> observes x ob \<and> ci_Owned ob \<and> ci_Live ob \<and> \<not> ci_Protected ob \<and> \<not> ci_Delayed ob)"
proof -
  obtain x where x: "CallDelete x \<in> set ex_calls" by (rule ex_first_delete)
  from reconcile_deletes_only_owned [OF ex_run_unfold x] x show ?thesis by blast
qed

text \<open>
  C6. With a persist client, the call right before every deletion has stored, without an error, a ledger in
  which that very resource has the status \<^verbatim>\<open>deleting\<close>: an interrupted process always left its intent behind,
  and a ledger that could not be stored deletes nothing. (Without a persist client nothing is stored.)
\<close>

theorem reconcile_persists_intent:
  assumes "ReconcileCleanup ctx ledger inventory deleter options (w, []) = (res, (w', calls))"
    and "co_Persist options \<noteq> None" and "calls = pre @ CallDelete x # post"
  shows "cr_Status x = CleanupStatusDeleting \<and>
    (\<exists>pre' l. pre = pre' @ [CallPersist l None] \<and> x \<in> set (cl_Resources l))"
proof -
  from assms(3) have x: "x \<in> set (deletes calls)" by simp
  then have "deletes calls \<noteq> []" by auto
  with reconcile_run [OF assms(1)] obtain query observed st2 out st3 tail where
    r: "deletes (snd st2) = []" "calls = snd st3 @ tail" "deletes tail = []"
    and loop: "reconcile_loop deleter options (indexCleanupInventory observed)
         (cleanup_order (cl_Resources (mergeCleanupInventory ledger observed)))
         (mergeCleanupInventory ledger observed)
         (initial_report (co_DryRun options) (mergeCleanupInventory ledger observed)) st2 = (out, st3)"
    by blast
  from reconcile_loop_ok [OF loop] assms(2) obtain new where
    new: "snd st3 = snd st2 @ new" "\<forall>x \<in> set (deletes new). delete_guard options (indexCleanupInventory observed) x"
      "intent_persisted new" by auto
  have "intent_persisted calls"
    using new r by (auto intro: intent_persisted_append intent_persisted_no_delete)
  moreover have "cr_Status x = CleanupStatusDeleting"
    using x r new by (auto simp: delete_guard_def)
  ultimately show ?thesis using assms(3) unfolding intent_persisted_def by blast
qed

theorem reconcile_persists_intent_witness:
  "\<exists>pre x post. ex_calls = pre @ CallDelete x # post \<and> cr_Status x = CleanupStatusDeleting \<and>
    (\<exists>pre' l. pre = pre' @ [CallPersist l None] \<and> x \<in> set (cl_Resources l))"
proof -
  obtain x where "CallDelete x \<in> set ex_calls" by (rule ex_first_delete)
  then obtain pre post where c: "ex_calls = pre @ CallDelete x # post" by (auto dest: split_list)
  have p: "co_Persist ex_options \<noteq> None" by (simp add: ex_options_def)
  from reconcile_persists_intent [OF ex_run_unfold p c] c show ?thesis by blast
qed

text \<open>
  When the merged ledger has distinct keys, the deletions happen in increasing order of rank and
  key (derived backups before restore outputs before sources), and no resource is deleted twice.
\<close>

lemma reconcile_deletes_in_rank_order:
  assumes "ReconcileCleanup ctx ledger (Some query) deleter options (w, []) = (res, (w', calls))"
    and "fst (query (inventory_request ledger) w) = Inr observed"
    and "distinct (map cleanupResourceKey (cl_Resources (mergeCleanupInventory ledger observed)))"
  shows "sorted (map rank_key (deletes calls)) \<and> distinct (map rank_key (deletes calls))"
proof (cases "deletes calls = []")
  case False
  with reconcile_run [OF assms(1)] assms(2) obtain st2 out st3 tail where
    r: "deletes (snd st2) = []" "calls = snd st3 @ tail" "deletes tail = []"
    and loop: "reconcile_loop deleter options (indexCleanupInventory observed)
         (cleanup_order (cl_Resources (mergeCleanupInventory ledger observed)))
         (mergeCleanupInventory ledger observed)
         (initial_report (co_DryRun options) (mergeCleanupInventory ledger observed)) st2 = (out, st3)"
    by auto
  from reconcile_loop_deletes [OF loop assms(3)] r have
    "subseq (map rank_key (deletes calls))
       (map rank_key (cleanup_order (cl_Resources (mergeCleanupInventory ledger observed))))"
    by auto
  with sorted_cleanup_order mset_keys_cleanup_order [OF assms(3)] show ?thesis
    by (blast intro: subseq_sorted subseq_distinct)
qed simp

text \<open>
  C7. A pass that reports \<^verbatim>\<open>complete\<close> has ended with a successful read of the inventory, for the marker and scope
  of its ledger, in which no owned resource is live or in delayed deletion, and leaves a ledger in which nothing
  is claimed, being deleted or tombstoned. Where the merged ledger has distinct keys, which is not certain, every
  resource of it is gone, or an intended claim that never materialised.
\<close>

theorem reconcile_complete_sound:
  assumes "ReconcileCleanup ctx ledger (Some query) deleter options (w, []) = (Inr report, st')"
    and "fst (query (inventory_request ledger) w) = Inr observed"
    and "rp_Status report = ''complete''"
  shows "(\<exists>w1 pre final. query (inventory_request (rp_Ledger report)) w1 = (Inr final, fst st') \<and>
            snd st' = pre @ [CallInventory (inventory_request (rp_Ledger report))] \<and>
            (\<forall>ob \<in> set final. ci_Owned ob \<longrightarrow> \<not> ci_Live ob \<and> \<not> ci_Delayed ob)) \<and>
         (\<forall>r \<in> set (cl_Resources (rp_Ledger report)).
            cr_Status r \<notin> {CleanupStatusClaimed, CleanupStatusDeleting, CleanupStatusTombstone}) \<and>
         (distinct (map cleanupResourceKey (cl_Resources (mergeCleanupInventory ledger observed))) \<longrightarrow>
            (\<forall>r \<in> set (cl_Resources (rp_Ledger report)). cr_Status r = CleanupStatusGone \<or> cr_Status r = CleanupStatusIntended))"
proof -
  let ?m = "mergeCleanupInventory ledger observed"
  from assms(1,2) obtain st2 l report0 st3 final where
    loop: "reconcile_loop deleter options (indexCleanupInventory observed) (cleanup_order (cl_Resources ?m)) ?m
       (initial_report (co_DryRun options) ?m) st2 = (Inr (l, report0), st3)"
    and valid: "ValidateCleanupLedger ledger = None"
    and read: "query (inventory_request l) (fst st3) = (Inr final, fst st')"
      "snd st' = snd st3 @ [CallInventory (inventory_request l)]"
    and fin: "report = finish_report (co_DryRun options) l report0 final"
    by (auto elim!: reconcile_success)
  have l: "rp_Ledger report = l" using fin by simp
  note c = finish_report_complete [OF assms(3) [unfolded fin]]
  have open_done: "cr_Status r \<notin> {CleanupStatusClaimed, CleanupStatusDeleting, CleanupStatusTombstone}"
    if "r \<in> set (cl_Resources l)" for r using c(3) that by blast
  have "cr_Status r = CleanupStatusGone \<or> cr_Status r = CleanupStatusIntended"
    if keys: "distinct (map cleanupResourceKey (cl_Resources ?m))" and r: "r \<in> set (cl_Resources l)" for r
  proof -
    have "\<forall>j < length (cl_Resources ?m). \<exists>q \<in> set (cleanup_order (cl_Resources ?m)).
        cleanupResourceIndex (cl_Resources ?m) q = Some j"
      using index_distinct [OF keys] by (auto intro!: bexI [of _ "cl_Resources ?m ! _"])
    with reconcile_loop_refused [OF loop _ r] c(1) have "cr_Status r \<noteq> CleanupStatusRefused" by blast
    moreover have "cr_Status r \<in> set cleanup_statuses"
      using reconcile_loop_ok [OF loop] mergeCleanupInventory_statuses [OF valid] r unfolding advance_def by blast
    ultimately show ?thesis using open_done [OF r] by (auto simp: cleanup_statuses_def)
  qed
  with read c(2) open_done show ?thesis unfolding l by blast
qed

theorem reconcile_complete_sound_witness:
  "rp_Status ex_report = ''complete'' \<and>
   (\<exists>r. r \<in> set (cl_Resources (rp_Ledger ex_report)) \<and> (cr_Status r = CleanupStatusGone \<or> cr_Status r = CleanupStatusIntended))"
proof -
  obtain r where r: "r \<in> set (cl_Resources (rp_Ledger ex_report))"
    using ex_report_status(2) by (cases "cl_Resources (rp_Ledger ex_report)") auto
  with reconcile_complete_sound [OF ex_run_unfold ex_inventory_answer ex_report_status(1)] ex_keys ex_report_status(1)
  show ?thesis by blast
qed

text \<open>
  C8. A tombstone is for ever: a resource the ledger records as a tombstone keeps that status through
  every later pass, whatever the inventory says by then, and no such pass can report \<^verbatim>\<open>complete\<close>.
\<close>

theorem reconcile_tombstone_absorbing:
  assumes "ReconcileCleanup ctx ledger inventory deleter options (w, []) = (Inr report, st')"
    and "j < length (cl_Resources ledger)" and "cr_Status (cl_Resources ledger ! j) = CleanupStatusTombstone"
  shows "cr_Status (cl_Resources (rp_Ledger report) ! j) = CleanupStatusTombstone \<and> rp_Status report \<noteq> ''complete''"
proof -
  from assms(1) obtain query observed st2 l report0 st3 final where
    loop: "reconcile_loop deleter options (indexCleanupInventory observed)
       (cleanup_order (cl_Resources (mergeCleanupInventory ledger observed))) (mergeCleanupInventory ledger observed)
       (initial_report (co_DryRun options) (mergeCleanupInventory ledger observed)) st2 = (Inr (l, report0), st3)"
    and fin: "report = finish_report (co_DryRun options) l report0 final"
    by (rule reconcile_success)
  from merge_fold_keeps [OF assms(2), of observed] assms(3)
  have m: "j < length (cl_Resources (mergeCleanupInventory ledger observed))"
    "cr_Status (cl_Resources (mergeCleanupInventory ledger observed) ! j) = CleanupStatusTombstone"
    by (simp_all add: mergeCleanupInventory_def)
  from reconcile_loop_ok [OF loop] have adv: "advance (mergeCleanupInventory ledger observed) l" by simp
  with m have t: "cr_Status (cl_Resources l ! j) = CleanupStatusTombstone" by (simp add: advance_def)
  moreover have "cl_Resources l ! j \<in> set (cl_Resources l)"
    using m(1) advance_length [OF adv] by simp
  ultimately show ?thesis
    using finish_report_complete(3) [of "co_DryRun options" l report0 final "cl_Resources l ! j"] fin by auto
qed

definition ex_tombstone :: CleanupLedger where
  "ex_tombstone = ex_ledger [ex_resource ''rdb-instance'' ''db'' ''i-1'' CleanupStatusTombstone]"

theorem reconcile_tombstone_absorbing_witness:
  "\<exists>report st. ex_run ex_tombstone [] = (Inr report, st) \<and>
     cr_Status (cl_Resources (rp_Ledger report) ! 0) = CleanupStatusTombstone \<and> rp_Status report \<noteq> ''complete''"
proof -
  have "\<not> isl (fst (ex_run ex_tombstone []))" by code_simp
  then obtain report st where run: "ex_run ex_tombstone [] = (Inr report, st)"
    by (cases "ex_run ex_tombstone []"; cases "fst (ex_run ex_tombstone [])") auto
  have j: "0 < length (cl_Resources ex_tombstone)"
    and t: "cr_Status (cl_Resources ex_tombstone ! 0) = CleanupStatusTombstone"
    by (simp_all add: ex_tombstone_def ex_ledger_def ex_resource_def)
  from reconcile_tombstone_absorbing [OF run [unfolded ex_run_def] j t] run show ?thesis by blast
qed

text \<open>
  The merge loses no owned resource: every owned observation of a valid inventory has its identity
  in the merged ledger, bound to the claim it matches or adopted as a new one.
\<close>

lemma merge_covers_owned_inventory:
  assumes "validateCleanupInventory observed = None" and "ob \<in> set observed" and "ci_Owned ob"
  shows "\<exists>r \<in> set (cl_Resources (mergeCleanupInventory ledger observed)). cr_Identity r = ci_Identity ob"
  using merge_fold_owned [OF assms(2,3)] validateCleanupInventory_None(2) [OF assms(1,2)]
  by (simp add: mergeCleanupInventory_def)

definition ex_collision :: CleanupLedger where
  "ex_collision = ex_ledger [ex_resource ''rdb-instance'' ''x'' [] CleanupStatusClaimed]"

definition ex_collision_world :: "CleanupInventoryResource list" where
  "ex_collision_world = [ex_observation ''rdb-instance'' ''y'' ''x'']"

lemma reconcile_verify_calls:
  "reconcile_verify query options l report st = (res, st') \<Longrightarrow> snd st' = snd st @ [CallInventory (inventory_request l)]"
  by (auto simp: reconcile_verify_def call_inventory_def split: sum.splits option.splits prod.splits)

text \<open>A pass that got a valid inventory hands the merged ledger to its persist client.\<close>

lemma reconcile_persists_merged:
  assumes "ReconcileCleanup ctx ledger (Some query) deleter options (w, []) = (res, (w', calls))"
    and "reconcile_checks ctx ledger (Some query) deleter options = None"
    and "fst (query (inventory_request ledger) w) = Inr observed" and "validateCleanupInventory observed = None"
    and "co_Persist options \<noteq> None"
  obtains a where "CallPersist (mergeCleanupInventory ledger observed) a \<in> set calls"
proof -
  define ml where "ml = mergeCleanupInventory ledger observed"
  obtain r1 w1 where "query (inventory_request ledger) w = (r1, w1)" by force
  with assms(3) have ci: "call_inventory query ledger (w, []) = (Inr observed, (w1, [CallInventory (inventory_request ledger)]))"
    by (simp add: call_inventory_def)
  obtain r2 st2 where p: "persistCleanupLedger options ml (w1, [CallInventory (inventory_request ledger)]) = (r2, st2)"
    by (metis surj_pair)
  obtain a where "snd st2 = [CallInventory (inventory_request ledger)] @ persists options ml a" using persist_calls [OF p] by auto
  then have mem: "CallPersist ml a \<in> set (snd st2)" using assms(5) by (auto simp: persists_def Option.is_none_def)
  obtain out st3 where lp: "reconcile_loop deleter options (indexCleanupInventory observed)
      (cleanup_order (cl_Resources ml)) ml (initial_report (co_DryRun options) ml) st2 = (out, st3)"
    by (metis surj_pair)
  from reconcile_loop_ok [OF lp] have mem3: "CallPersist ml a \<in> set (snd st3)" using mem by auto
  have "CallPersist ml a \<in> set calls"
  proof (cases r2)
    case (Some e)
    with assms ci p mem show ?thesis by (simp add: ReconcileCleanup_def Let_def flip: ml_def)
  next
    case None
    show ?thesis
    proof (cases out)
      case (Inl e)
      with assms ci p None lp mem3 show ?thesis by (simp add: ReconcileCleanup_def Let_def flip: ml_def)
    next
      case (Inr lr)
      obtain l report where "lr = (l, report)" by force
      with assms ci p None lp Inr have "reconcile_verify query options l report st3 = (res, (w', calls))"
        by (simp add: ReconcileCleanup_def Let_def flip: ml_def)
      from reconcile_verify_calls [OF this] mem3 show ?thesis by simp
    qed
  qed
  then show thesis using that unfolding ml_def by blast
qed

text \<open>
  C9. The keys of a merged ledger can collide: whenever a valid ledger holds a claim by name that is not bound to an
  identity yet, and the valid inventory is one owned resource of the same kind whose identity is that name and which
  matches no entry of the ledger, the merge adopts the resource under the key of the claim. A pass with a persist
  client hands the merged ledger to it, \<^verbatim>\<open>ValidateCleanupLedger\<close> rejects that ledger, and every later pass over it
  ends with an error before it makes a call.
\<close>

theorem merged_keys_can_collide:
  assumes "ReconcileCleanup ctx ledger (Some query) deleter options (w, []) = (res, (w', calls))"
    and "reconcile_checks ctx ledger (Some query) deleter options = None" and "co_Persist options \<noteq> None"
    and "fst (query (inventory_request ledger) w) = Inr [ob]" and "validateCleanupInventory [ob] = None"
    and "r \<in> set (cl_Resources ledger)" and "cr_Identity r = []" and "\<not> blank (cr_Name r)"
    and "ci_Owned ob" and "ci_Kind ob = cr_Kind r" and "ci_Identity ob = cr_Name r"
    and "\<forall>q \<in> set (cl_Resources ledger). cr_Identity q \<noteq> ci_Identity ob \<and>
           (cr_Identity q = [] \<and> cr_Kind q = ci_Kind ob \<longrightarrow> cr_Name q \<noteq> ci_Name ob)"
  shows "\<exists>merged a. CallPersist merged a \<in> set calls \<and> adopt_observation ob \<in> set (cl_Resources merged) \<and>
         cleanupResourceKey (adopt_observation ob) = cleanupResourceKey r \<and>
         (\<exists>e. ValidateCleanupLedger merged = Some e) \<and>
         (\<exists>e. ReconcileCleanup ctx2 merged inventory2 deleter2 options2 st2 = (Inl e, st2))"
proof -
  let ?m = "mergeCleanupInventory ledger [ob]"
  have "cleanupInventoryMatch (cl_Resources ledger) ob = None"
    using assms(12) by (auto simp: cleanupInventoryMatch_def find_index_None_iff split: option.splits)
  then have merged: "cl_Resources ?m = cl_Resources ledger @ [adopt_observation ob]"
    using assms(9) by (simp add: mergeCleanupInventory_def merge_observation_def)
  have key: "cleanupResourceKey (adopt_observation ob) = cleanupResourceKey r"
    using assms(7,8,10,11) by (simp add: cleanupResourceKey_def adopt_observation_def)
  have "cleanupResourceKey r \<in> cleanupResourceKey ` set (cl_Resources ledger)" using assms(6) by blast
  then have "\<not> distinct (map cleanupResourceKey (cl_Resources ?m))"
    unfolding merged by (simp add: key)
  then have "ValidateCleanupLedger ?m \<noteq> None" using ValidateCleanupLedger_None(1)[of ?m] by blast
  then obtain e where e: "ValidateCleanupLedger ?m = Some e" by blast
  then have "reconcile_checks ctx2 ?m inventory2 deleter2 options2 \<noteq> None" by (simp add: reconcile_checks_def)
  then have "\<exists>e. ReconcileCleanup ctx2 ?m inventory2 deleter2 options2 st2 = (Inl e, st2)"
    by (auto simp: ReconcileCleanup_def)
  moreover obtain a where "CallPersist ?m a \<in> set calls"
    using reconcile_persists_merged [OF assms(1,2,4,5,3)] .
  moreover have "adopt_observation ob \<in> set (cl_Resources ?m)" by (simp add: merged)
  ultimately show ?thesis using e key by blast
qed

theorem merged_keys_can_collide_witness:
  "ValidateCleanupLedger ex_collision = None \<and> validateCleanupInventory ex_collision_world = None \<and>
   (\<exists>merged a e. CallPersist merged a \<in> set (snd (snd (ex_run ex_collision ex_collision_world))) \<and>
      ValidateCleanupLedger merged = Some e)"
proof -
  let ?r = "ex_resource ''rdb-instance'' ''x'' [] CleanupStatusClaimed"
  let ?ob = "ex_observation ''rdb-instance'' ''y'' ''x''"
  have valid: "ValidateCleanupLedger ex_collision = None" "validateCleanupInventory [?ob] = None" by code_simp+
  have checks: "reconcile_checks (Some ()) ex_collision (Some ex_inventory) (Some ex_delete) ex_options = None" by code_simp
  obtain res w' calls where run: "ReconcileCleanup (Some ()) ex_collision (Some ex_inventory) (Some ex_delete) ex_options
      ([?ob], []) = (res, (w', calls))" by (cases "ReconcileCleanup (Some ()) ex_collision (Some ex_inventory)
        (Some ex_delete) ex_options ([?ob], [])") auto
  then have calls: "snd (snd (ex_run ex_collision ex_collision_world)) = calls"
    by (simp add: ex_run_def ex_collision_world_def)
  have q: "fst (ex_inventory (inventory_request ex_collision) [?ob]) = Inr [?ob]" by (simp add: ex_inventory_def)
  have p: "co_Persist ex_options \<noteq> None" by (simp add: ex_options_def)
  have r: "?r \<in> set (cl_Resources ex_collision)" "cr_Identity ?r = []" "\<not> blank (cr_Name ?r)" by code_simp+
  have ob: "ci_Owned ?ob" "ci_Kind ?ob = cr_Kind ?r" "ci_Identity ?ob = cr_Name ?r" by code_simp+
  have new: "\<forall>q \<in> set (cl_Resources ex_collision). cr_Identity q \<noteq> ci_Identity ?ob \<and>
      (cr_Identity q = [] \<and> cr_Kind q = ci_Kind ?ob \<longrightarrow> cr_Name q \<noteq> ci_Name ?ob)" by code_simp
  have "\<exists>merged a. CallPersist merged a \<in> set calls \<and> (\<exists>e. ValidateCleanupLedger merged = Some e)"
    using merged_keys_can_collide [OF run checks p q valid(2) r ob new] by blast
  with valid show ?thesis unfolding calls by (simp add: ex_collision_world_def)
qed

end
