(* ===== verification/Go_Context.thy ===== *)
theory Go_Context
  imports Go_Prelude
begin

text \<open>
  The part of \<^verbatim>\<open>context\<close> and \<^verbatim>\<open>time\<close> that the waiting code uses, and its bounded retry loops.
  Time and the outside world are one state \<open>'w\<close>, which every client call may change. A context
  tells, in a given world, whether it is done, since when and why. \<open>WithTimeout\<close> adds a deadline;
  whichever of the two ends comes first is the error that stays. A timer wait moves the world on;
  when the context is done at its end and the timer has fired too, Go's \<^verbatim>\<open>select\<close> may take either
  branch, which the runtime's \<open>rt_timer_wins\<close> decides.
\<close>

datatype ctx_error = DeadlineExceeded | Canceled

text \<open>A context as an operation finds it: \<open>None\<close> is nil, \<open>Some e\<close> has the error \<open>e\<close>.\<close>

type_synonym ctx_now = "ctx_error option option"

type_synonym 'w Context = "'w \<Rightarrow> (int \<times> ctx_error) option"

record 'w runtime =
  rt_now :: "'w \<Rightarrow> int"
  rt_wait :: "int \<Rightarrow> 'w \<Rightarrow> 'w"
  rt_timer_wins :: "'w \<Rightarrow> bool"

definition ctx_Err :: "'w Context \<Rightarrow> 'w \<Rightarrow> ctx_error option" where
  "ctx_Err ctx w = map_option snd (ctx w)"

definition WithTimeout :: "'w runtime \<Rightarrow> 'w Context \<Rightarrow> int \<Rightarrow> 'w \<Rightarrow> 'w Context" where
  "WithTimeout rt ctx timeout w0 = (\<lambda>w.
     let deadline = rt_now rt w0 + timeout in
     case ctx w of
       Some (t, e) \<Rightarrow> Some (if t \<le> deadline then (t, e) else (deadline, DeadlineExceeded))
     | None \<Rightarrow> if deadline \<le> rt_now rt w then Some (deadline, DeadlineExceeded) else None)"

text \<open>The \<^verbatim>\<open>select\<close> of a timer and a context: the error of the context when its branch is taken.\<close>

definition timer_select :: "'w runtime \<Rightarrow> 'w Context \<Rightarrow> int \<Rightarrow> 'w \<Rightarrow> ctx_error option \<times> 'w" where
  "timer_select rt ctx interval w =
     (let w' = rt_wait rt interval w in
      case ctx_Err ctx w' of
        None \<Rightarrow> (None, w')
      | Some e \<Rightarrow> (if rt_timer_wins rt w' then None else Some e, w'))"

text \<open>
  \<^verbatim>\<open>for attempt := a; attempt <= max; attempt++\<close> with a body that returns (\<open>Inl\<close>) or goes on (\<open>Inr\<close>)
  and a \<^verbatim>\<open>return\<close> after the loop. The number of attempts left bounds the recursion.
\<close>

fun attempt_loop :: "(int \<Rightarrow> 's \<Rightarrow> 'r + 's) \<Rightarrow> ('s \<Rightarrow> 'r) \<Rightarrow> int \<Rightarrow> nat \<Rightarrow> 's \<Rightarrow> 'r" where
  "attempt_loop body after a 0 s = after s"
| "attempt_loop body after a (Suc left) s =
     (case body a s of Inl r \<Rightarrow> r | Inr s' \<Rightarrow> attempt_loop body after (a + 1) left s')"

text \<open>An invariant of the loop that counts the attempts already made.\<close>

lemma attempt_loop_rule:
  assumes start: "I a s"
    and goes_on: "\<And>a s s'. I a s \<Longrightarrow> a \<le> limit \<Longrightarrow> body a s = Inr s' \<Longrightarrow> I (a + 1) s'"
    and returns: "\<And>a s r. I a s \<Longrightarrow> a \<le> limit \<Longrightarrow> body a s = Inl r \<Longrightarrow> Q r"
    and ends: "\<And>s. I (limit + 1) s \<Longrightarrow> Q (after s)"
    and left: "a + int left = limit + 1"
  shows "Q (attempt_loop body after a left s)"
  using start left
proof (induction left arbitrary: a s)
  case 0
  then show ?case using ends by simp
next
  case (Suc left)
  from Suc.prems(2) have "a \<le> limit" by simp
  with Suc.prems(1) goes_on returns Suc.IH[of "a + 1"] Suc.prems(2) show ?case
    by (cases "body a s") auto
qed

section \<open>Waiting within a policy\<close>

text \<open>\<^verbatim>\<open>ResilienceOperationPolicy\<close> of \<^verbatim>\<open>sdk/resilience_lifecycle.go\<close>, shared by every waiting loop.\<close>

record ResilienceOperationPolicy =
  po_Timeout :: int
  po_PollInterval :: int
  po_MaxAttempts :: int

definition DefaultResilienceOperationPolicy :: ResilienceOperationPolicy where
  "DefaultResilienceOperationPolicy =
     \<lparr>po_Timeout = 30 * 60 * 1000000000, po_PollInterval = 5 * 1000000000, po_MaxAttempts = 360\<rparr>"

definition validateResilienceOperationPolicy :: "ResilienceOperationPolicy \<Rightarrow> bool" where
  "validateResilienceOperationPolicy policy \<longleftrightarrow>
     \<not> (po_Timeout policy \<le> 0 \<or> po_PollInterval policy \<le> 0 \<or> po_MaxAttempts policy \<le> 0)"

lemma default_policy_valid: "validateResilienceOperationPolicy DefaultResilienceOperationPolicy"
  by (simp add: validateResilienceOperationPolicy_def DefaultResilienceOperationPolicy_def)

abbreviation ResilienceOperationPending :: string where "ResilienceOperationPending \<equiv> ''pending''"
abbreviation ResilienceOperationRunning :: string where "ResilienceOperationRunning \<equiv> ''running''"
abbreviation ResilienceOperationSucceeded :: string where "ResilienceOperationSucceeded \<equiv> ''succeeded''"
abbreviation ResilienceOperationFailed :: string where "ResilienceOperationFailed \<equiv> ''failed''"

text \<open>
  What every waiting loop of the SDK promises. A state of the loop carries the answers of the polls
  made so far; \<open>polled\<close> reads them from a state and \<open>answers\<close> from a result. One attempt adds at most
  one poll, a result is successful only when an attempt accepts the answer it has just polled, and the
  code after the loop never succeeds. Then no run polls more often than the policy allows, and success
  rests on the last answer.
\<close>

locale bounded_wait =
  fixes body :: "int \<Rightarrow> 's \<Rightarrow> 'r + 's"
    and after :: "'s \<Rightarrow> 'r"
    and polled :: "'s \<Rightarrow> 'a list"
    and answers :: "'r \<Rightarrow> 'a list"
    and success :: "'r \<Rightarrow> bool"
    and accepts :: "'a \<Rightarrow> 'r \<Rightarrow> bool"
  assumes attempt_polls_once: "body a s = Inr s' \<Longrightarrow> \<exists>x. polled s' = polled s @ [x]"
    and return_polls_once: "body a s = Inl r \<Longrightarrow> answers r = polled s \<or> (\<exists>x. answers r = polled s @ [x])"
    and success_accepts: "body a s = Inl r \<Longrightarrow> success r \<Longrightarrow> \<exists>x. answers r = polled s @ [x] \<and> accepts x r"
    and after_fails: "\<not> success (after s)"
    and after_polls: "answers (after s) = polled s"
begin

lemma polls_bounded:
  assumes "polled s = []" and "0 \<le> limit"
  shows "int (length (answers (attempt_loop body after 1 (nat limit) s))) \<le> limit"
proof (rule attempt_loop_rule[where I = "\<lambda>a s. int (length (polled s)) = a - 1" and limit = limit])
  show "int (length (polled s)) = 1 - 1" using assms by simp
  show "int (length (polled s')) = a + 1 - 1"
    if "int (length (polled s)) = a - 1" "a \<le> limit" "body a s = Inr s'" for a s s'
    using attempt_polls_once[OF that(3)] that(1) by auto
  show "int (length (answers r)) \<le> limit"
    if "int (length (polled s)) = a - 1" "a \<le> limit" "body a s = Inl r" for a s r
    using return_polls_once[OF that(3)] that(1,2) by auto
  show "int (length (answers (after s))) \<le> limit"
    if "int (length (polled s)) = limit + 1 - 1" for s
    using that after_polls[of s] by simp
  show "1 + int (nat limit) = limit + 1" using assms by simp
qed

lemma success_rests_on_last_answer:
  assumes "success (attempt_loop body after 1 (nat limit) s)" and "0 \<le> limit"
  shows "\<exists>x. answers (attempt_loop body after 1 (nat limit) s) \<noteq> [] \<and>
             last (answers (attempt_loop body after 1 (nat limit) s)) = x \<and>
             accepts x (attempt_loop body after 1 (nat limit) s)"
proof -
  let ?Q = "\<lambda>r. success r \<longrightarrow> (\<exists>x. answers r \<noteq> [] \<and> last (answers r) = x \<and> accepts x r)"
  have "?Q (attempt_loop body after 1 (nat limit) s)"
  proof (rule attempt_loop_rule[where I = "\<lambda>_ _. True" and limit = limit])
    show "?Q r" if "body a s = Inl r" for a s r
      using success_accepts[OF that] by auto
  qed (use assms after_fails in auto)
  with assms show ?thesis by blast
qed

end

end
