(* ===== verification/Deletion_Wait.thy ===== *)
theory Deletion_Wait
  imports Go_Context
begin

text \<open>
  \<^verbatim>\<open>sdk/deletion_lifecycle.go\<close>: polling an owning service until its inventory for an ownership
  marker is empty. The deletion client is provider code: a total function on the world that may answer
  anything. The loop keeps the answers of the polls it made.
\<close>

record DeletionObservation =
  do_Status :: string
  do_OperationID :: string
  do_ResourceRefs :: "string list"
  do_DelayedResourceRefs :: "string list"
  do_ProtectedResourceRefs :: "string list"
  do_Detail :: string

definition no_DeletionObservation :: DeletionObservation where
  "no_DeletionObservation =
     \<lparr>do_Status = [], do_OperationID = [], do_ResourceRefs = [], do_DelayedResourceRefs = [],
      do_ProtectedResourceRefs = [], do_Detail = []\<rparr>"

datatype deletion_error =
    DeletionContextRequired
  | DeletionClientRequired
  | DeletionMarkerInvalid
  | DeletionPolicyInvalid
  | DeletionTimedOut int
  | DeletionContext ctx_error
  | DeletionPollFailed int string
  | DeletionFailed string
  | DeletionUnknownStatus string
  | DeletionIncomplete int
  | DeletionDidNotComplete

type_synonym 'w DeletionClient = "'w Context \<Rightarrow> string \<Rightarrow> 'w \<Rightarrow> (string + DeletionObservation) \<times> 'w"

record 'w deletion_state =
  ds_last :: DeletionObservation
  ds_polled :: "(string + DeletionObservation) list"
  ds_world :: 'w

record 'w deletion_result =
  dr_observation :: DeletionObservation
  dr_error :: "deletion_error option"
  dr_polled :: "(string + DeletionObservation) list"
  dr_world :: 'w

definition inventory_empty :: "DeletionObservation \<Rightarrow> bool" where
  "inventory_empty o' \<longleftrightarrow>
     do_ResourceRefs o' = [] \<and> do_DelayedResourceRefs o' = [] \<and> do_ProtectedResourceRefs o' = []"

definition deletion_ctx_error :: "ResilienceOperationPolicy \<Rightarrow> ctx_error \<Rightarrow> deletion_error" where
  "deletion_ctx_error policy e =
     (if e = DeadlineExceeded then DeletionTimedOut (po_Timeout policy) else DeletionContext e)"

definition deletion_return ::
  "DeletionObservation \<Rightarrow> deletion_error option \<Rightarrow> 'w deletion_state \<Rightarrow> 'w deletion_result" where
  "deletion_return ob err s =
     \<lparr>dr_observation = ob, dr_error = err, dr_polled = ds_polled s, dr_world = ds_world s\<rparr>"

text \<open>The end of an attempt that did not return: give up at the last one, otherwise wait.\<close>

definition deletion_pause ::
  "'w runtime \<Rightarrow> 'w Context \<Rightarrow> ResilienceOperationPolicy \<Rightarrow> int \<Rightarrow> 'w deletion_state
     \<Rightarrow> 'w deletion_result + 'w deletion_state" where
  "deletion_pause rt ctx policy attempt s =
     (if attempt = po_MaxAttempts policy then Inl (deletion_return (ds_last s) (Some (DeletionIncomplete attempt)) s)
      else case timer_select rt ctx (po_PollInterval policy) (ds_world s) of
        (Some e, w) \<Rightarrow> Inl (deletion_return (ds_last s) (Some (deletion_ctx_error policy e)) (s\<lparr>ds_world := w\<rparr>))
      | (None, w) \<Rightarrow> Inr (s\<lparr>ds_world := w\<rparr>))"

definition deletion_attempt ::
  "'w runtime \<Rightarrow> 'w Context \<Rightarrow> 'w DeletionClient \<Rightarrow> string \<Rightarrow> ResilienceOperationPolicy \<Rightarrow> int
     \<Rightarrow> 'w deletion_state \<Rightarrow> 'w deletion_result + 'w deletion_state" where
  "deletion_attempt rt ctx client marker policy attempt s =
     (case ctx_Err ctx (ds_world s) of
        Some e \<Rightarrow> Inl (deletion_return (ds_last s) (Some (deletion_ctx_error policy e)) s)
      | None \<Rightarrow>
          (case client ctx marker (ds_world s) of
             (Inl err, w) \<Rightarrow>
               let s1 = s\<lparr>ds_polled := ds_polled s @ [Inl err], ds_world := w\<rparr> in
               if attempt = po_MaxAttempts policy
               then Inl (deletion_return (ds_last s) (Some (DeletionPollFailed attempt err)) s1)
               else deletion_pause rt ctx policy attempt s1
           | (Inr ob, w) \<Rightarrow>
               let s1 = s\<lparr>ds_last := ob, ds_polled := ds_polled s @ [Inr ob], ds_world := w\<rparr> in
               if do_Status ob = ResilienceOperationSucceeded then
                 (if inventory_empty ob then Inl (deletion_return ob None s1)
                  else deletion_pause rt ctx policy attempt s1)
               else if do_Status ob = ResilienceOperationPending \<or> do_Status ob = ResilienceOperationRunning then
                 deletion_pause rt ctx policy attempt s1
               else if do_Status ob = ResilienceOperationFailed then
                 (let ob1 = (if do_Detail ob = [] then ob\<lparr>do_Detail := ''owning service reported deletion failure''\<rparr> else ob)
                  in Inl (deletion_return ob1 (Some (DeletionFailed (do_Detail ob1))) s1))
               else Inl (deletion_return no_DeletionObservation (Some (DeletionUnknownStatus (do_Status ob))) s1)))"

definition deletion_start :: "'w \<Rightarrow> 'w deletion_state" where
  "deletion_start w = \<lparr>ds_last = no_DeletionObservation, ds_polled = [], ds_world = w\<rparr>"

definition deletion_after :: "'w deletion_state \<Rightarrow> 'w deletion_result" where
  "deletion_after s = deletion_return (ds_last s) (Some DeletionDidNotComplete) s"

definition WaitForDeletion ::
  "'w runtime \<Rightarrow> 'w Context option \<Rightarrow> 'w DeletionClient option \<Rightarrow> string \<Rightarrow> ResilienceOperationPolicy
     \<Rightarrow> 'w \<Rightarrow> 'w deletion_result" where
  "WaitForDeletion rt ctx client marker policy w =
     (let refuse = (\<lambda>e. deletion_return no_DeletionObservation (Some e) (deletion_start w)) in
      case ctx of None \<Rightarrow> refuse DeletionContextRequired
      | Some ctx \<Rightarrow> (case client of None \<Rightarrow> refuse DeletionClientRequired
      | Some client \<Rightarrow>
          if blank marker \<or> has_control marker then refuse DeletionMarkerInvalid
          else if \<not> validateResilienceOperationPolicy policy then refuse DeletionPolicyInvalid
          else attempt_loop
                 (deletion_attempt rt (WithTimeout rt ctx (po_Timeout policy) w) client marker policy)
                 deletion_after 1 (nat (po_MaxAttempts policy)) (deletion_start w)))"

section \<open>The waiting contract\<close>

definition deletion_accepts :: "string + DeletionObservation \<Rightarrow> 'w deletion_result \<Rightarrow> bool" where
  "deletion_accepts x r \<longleftrightarrow>
     x = Inr (dr_observation r) \<and> do_Status (dr_observation r) = ResilienceOperationSucceeded \<and>
     inventory_empty (dr_observation r)"

lemma deletion_return_simps [simp]:
  "dr_observation (deletion_return ob e s) = ob"
  "dr_error (deletion_return ob e s) = e"
  "dr_polled (deletion_return ob e s) = ds_polled s"
  "dr_world (deletion_return ob e s) = ds_world s"
  by (simp_all add: deletion_return_def)

lemma deletion_start_polled [simp]: "ds_polled (deletion_start w) = []"
  by (simp add: deletion_start_def)

lemma deletion_pause_polled:
  "deletion_pause rt ctx policy a s = Inr s' \<Longrightarrow> ds_polled s' = ds_polled s"
  "deletion_pause rt ctx policy a s = Inl r \<Longrightarrow> dr_polled r = ds_polled s"
  "deletion_pause rt ctx policy a s = Inl r \<Longrightarrow> dr_error r \<noteq> None"
  by (auto simp: deletion_pause_def split: if_splits prod.splits option.splits)

lemmas deletion_attempt_splits = if_splits option.splits prod.splits sum.splits

interpretation deletion: bounded_wait
  "deletion_attempt rt ctx client marker policy" deletion_after ds_polled dr_polled
  "\<lambda>r. dr_error r = None" deletion_accepts
  for rt ctx client marker policy
proof unfold_locales
  fix a s s' assume "deletion_attempt rt ctx client marker policy a s = Inr s'"
  then show "\<exists>x. ds_polled s' = ds_polled s @ [x]"
    by (auto simp: deletion_attempt_def Let_def dest!: deletion_pause_polled(1) split: deletion_attempt_splits)
next
  fix a s r assume "deletion_attempt rt ctx client marker policy a s = Inl r"
  then show "dr_polled r = ds_polled s \<or> (\<exists>x. dr_polled r = ds_polled s @ [x])"
    by (auto simp: deletion_attempt_def Let_def dest!: deletion_pause_polled(2) split: deletion_attempt_splits)
next
  fix a s r assume "deletion_attempt rt ctx client marker policy a s = Inl r" "dr_error r = None"
  then show "\<exists>x. dr_polled r = ds_polled s @ [x] \<and> deletion_accepts x r"
    by (auto simp: deletion_attempt_def deletion_accepts_def Let_def dest: deletion_pause_polled(3)
        split: deletion_attempt_splits)
qed (simp_all add: deletion_after_def)

text \<open>A call is refused without a poll, or it is the loop under a valid policy.\<close>

lemma WaitForDeletion_cases:
  obtains (refused) "dr_polled (WaitForDeletion rt ctx client marker policy w) = []"
      "dr_error (WaitForDeletion rt ctx client marker policy w) \<noteq> None"
  | (loop) c d where "WaitForDeletion rt ctx client marker policy w = attempt_loop
        (deletion_attempt rt c d marker policy) deletion_after 1 (nat (po_MaxAttempts policy)) (deletion_start w)"
      "0 \<le> po_MaxAttempts policy"
proof (cases "ctx = None \<or> client = None \<or> blank marker \<or> has_control marker \<or>
    \<not> validateResilienceOperationPolicy policy")
  case True
  then show ?thesis
    by (intro refused) (auto simp: WaitForDeletion_def Let_def split: option.splits)
next
  case False
  then obtain c d where "ctx = Some c" "client = Some d" by auto
  with False show ?thesis
    by (intro loop) (auto simp: WaitForDeletion_def Let_def validateResilienceOperationPolicy_def)
qed

section \<open>Properties\<close>

text \<open>
  C5. Waiting for a deletion reports success only for an observation the owning service has just
  given, with status succeeded and with no resource left: neither live nor delayed nor protected.
\<close>

theorem WaitForDeletion_success_means_empty:
  assumes "dr_error (WaitForDeletion rt ctx client marker policy w) = None"
  shows "\<exists>ob. dr_polled (WaitForDeletion rt ctx client marker policy w) \<noteq> [] \<and>
           last (dr_polled (WaitForDeletion rt ctx client marker policy w)) = Inr ob \<and>
           dr_observation (WaitForDeletion rt ctx client marker policy w) = ob \<and>
           do_Status ob = ''succeeded'' \<and> do_ResourceRefs ob = [] \<and>
           do_DelayedResourceRefs ob = [] \<and> do_ProtectedResourceRefs ob = []"
proof (cases rule: WaitForDeletion_cases[of rt ctx client marker policy w])
  case refused
  with assms show ?thesis by simp
next
  case (loop c d)
  with assms deletion.success_rests_on_last_answer[OF _ loop(2), of rt c d marker policy "deletion_start w"]
  show ?thesis by (simp add: deletion_accepts_def inventory_empty_def)
qed

text \<open>
  Whatever the owning service answers, the wait ends after at most \<^verbatim>\<open>MaxAttempts\<close> polls, and it
  polls nothing when an argument is refused.
\<close>

lemma WaitForDeletion_polls_bounded:
  "int (length (dr_polled (WaitForDeletion rt ctx client marker policy w))) \<le> max 0 (po_MaxAttempts policy)"
proof (cases rule: WaitForDeletion_cases[of rt ctx client marker policy w])
  case refused
  then show ?thesis by simp
next
  case (loop c d)
  with deletion.polls_bounded[OF _ loop(2), of "deletion_start w" rt c d marker policy]
  show ?thesis by simp
qed

text \<open>A service whose inventory empties after two polls, asked with the default policy.\<close>

definition ex_deletion_client :: "nat DeletionClient" where
  "ex_deletion_client ctx marker n =
     (Inr \<lparr>do_Status = ResilienceOperationSucceeded, do_OperationID = ''op'',
           do_ResourceRefs = (if n < 2 then [''i-1''] else []), do_DelayedResourceRefs = [],
           do_ProtectedResourceRefs = [], do_Detail = []\<rparr>, n + 1)"

definition ex_runtime :: "nat runtime" where
  "ex_runtime = \<lparr>rt_now = int, rt_wait = \<lambda>_ n. n, rt_timer_wins = \<lambda>_. True\<rparr>"

theorem WaitForDeletion_success_means_empty_witness:
  "dr_error (WaitForDeletion ex_runtime (Some (\<lambda>_. None)) (Some ex_deletion_client) ''run-1''
     DefaultResilienceOperationPolicy 0) = None \<and>
   do_ResourceRefs (dr_observation (WaitForDeletion ex_runtime (Some (\<lambda>_. None)) (Some ex_deletion_client)
     ''run-1'' DefaultResilienceOperationPolicy 0)) = []"
proof -
  have ok: "dr_error (WaitForDeletion ex_runtime (Some (\<lambda>_. None)) (Some ex_deletion_client) ''run-1''
     DefaultResilienceOperationPolicy 0) = None"
    by code_simp
  from WaitForDeletion_success_means_empty[OF ok] ok show ?thesis by blast
qed

end
