(* ===== verification/Go_Hash.thy ===== *)
theory Go_Hash
  imports Go_Prelude "HOL-Library.Word"
begin

text \<open>
  \<^verbatim>\<open>crypto/sha256\<close> and \<^verbatim>\<open>encoding/hex\<close>, from which every fingerprint of the program is made. Words are
  32 bits wide and wrap around; the message is padded to blocks of sixteen big-endian words.
\<close>

unbundle bit_operations_syntax

section \<open>SHA-256\<close>

definition rotr :: "nat \<Rightarrow> 32 word \<Rightarrow> 32 word" where
  "rotr n x = drop_bit n x OR push_bit (32 - n) x"

definition sha_ch :: "32 word \<Rightarrow> 32 word \<Rightarrow> 32 word \<Rightarrow> 32 word" where
  "sha_ch x y z = (x AND y) XOR (NOT x AND z)"

definition sha_maj :: "32 word \<Rightarrow> 32 word \<Rightarrow> 32 word \<Rightarrow> 32 word" where
  "sha_maj x y z = (x AND y) XOR (x AND z) XOR (y AND z)"

definition big_sigma0 :: "32 word \<Rightarrow> 32 word" where "big_sigma0 x = rotr 2 x XOR rotr 13 x XOR rotr 22 x"
definition big_sigma1 :: "32 word \<Rightarrow> 32 word" where "big_sigma1 x = rotr 6 x XOR rotr 11 x XOR rotr 25 x"
definition small_sigma0 :: "32 word \<Rightarrow> 32 word" where "small_sigma0 x = rotr 7 x XOR rotr 18 x XOR drop_bit 3 x"
definition small_sigma1 :: "32 word \<Rightarrow> 32 word" where "small_sigma1 x = rotr 17 x XOR rotr 19 x XOR drop_bit 10 x"

definition sha_k :: "32 word list" where
  "sha_k =
     [1116352408, 1899447441, 3049323471, 3921009573, 961987163, 1508970993, 2453635748, 2870763221,
      3624381080, 310598401, 607225278, 1426881987, 1925078388, 2162078206, 2614888103, 3248222580,
      3835390401, 4022224774, 264347078, 604807628, 770255983, 1249150122, 1555081692, 1996064986,
      2554220882, 2821834349, 2952996808, 3210313671, 3336571891, 3584528711, 113926993, 338241895,
      666307205, 773529912, 1294757372, 1396182291, 1695183700, 1986661051, 2177026350, 2456956037,
      2730485921, 2820302411, 3259730800, 3345764771, 3516065817, 3600352804, 4094571909, 275423344,
      430227734, 506948616, 659060556, 883997877, 958139571, 1322822218, 1537002063, 1747873779,
      1955562222, 2024104815, 2227730452, 2361852424, 2428436474, 2756734187, 3204031479, 3329325298]"

type_synonym sha_state = "32 word \<times> 32 word \<times> 32 word \<times> 32 word \<times> 32 word \<times> 32 word \<times> 32 word \<times> 32 word"

definition sha_init :: sha_state where
  "sha_init =
     (1779033703, 3144134277, 1013904242, 2773480762,
      1359893119, 2600822924, 528734635, 1541459225)"

text \<open>
  The message schedule. The list holds the last sixteen words, oldest first; every step computes one
  new word, so that sixteen words and forty-eight steps give the sixty-four of a block.
\<close>

fun sha_expand :: "nat \<Rightarrow> 32 word list \<Rightarrow> 32 word list" where
  "sha_expand 0 ws = ws"
| "sha_expand (Suc n) ws =
     (let i = length ws;
          w = small_sigma1 (ws ! (i - 2)) + ws ! (i - 7) + small_sigma0 (ws ! (i - 15)) + ws ! (i - 16)
      in sha_expand n (ws @ [w]))"

fun sha_round :: "sha_state \<Rightarrow> 32 word \<times> 32 word \<Rightarrow> sha_state" where
  "sha_round (a, b, c, d, e, f, g, h) (k, w) =
     (let t1 = h + big_sigma1 e + sha_ch e f g + k + w;
          t2 = big_sigma0 a + sha_maj a b c
      in (t1 + t2, a, b, c, d + t1, e, f, g))"

fun sha_add :: "sha_state \<Rightarrow> sha_state \<Rightarrow> sha_state" where
  "sha_add (a, b, c, d, e, f, g, h) (a', b', c', d', e', f', g', h') =
     (a + a', b + b', c + c', d + d', e + e', f + f', g + g', h + h')"

definition sha_block :: "sha_state \<Rightarrow> 32 word list \<Rightarrow> sha_state" where
  "sha_block st ws = sha_add st (foldl sha_round st (zip sha_k (sha_expand 48 ws)))"

text \<open>Padding: the byte 0x80, zeros up to 56 modulo 64, and the length in bits as 64 bits.\<close>

definition byte_word :: "char \<Rightarrow> 32 word" where "byte_word c = of_nat (of_char c)"

definition sha_pad :: "string \<Rightarrow> 32 word list" where
  "sha_pad s =
     map byte_word s @ [0x80] @ replicate ((119 - length s mod 64) mod 64) 0 @
     map (\<lambda>i. of_int (8 * int (length s) div 256 ^ (7 - i) mod 256)) [0..<8]"

fun be_words :: "32 word list \<Rightarrow> 32 word list" where
  "be_words (a # b # c # d # bs) = (((a * 256 + b) * 256 + c) * 256 + d) # be_words bs"
| "be_words _ = []"

function sha_blocks :: "sha_state \<Rightarrow> 32 word list \<Rightarrow> sha_state" where
  "sha_blocks st ws =
     (if length ws < 16 then st else sha_blocks (sha_block st (take 16 ws)) (drop 16 ws))"
  by pat_completeness auto
termination by (relation "measure (\<lambda>(_, ws). length ws)") auto

section \<open>Hexadecimal text\<close>

definition hex_digit :: "nat \<Rightarrow> char" where
  "hex_digit n = (if n < 10 then char_of (48 + n) else char_of (87 + n))"

text \<open>The digits of a word, most significant first.\<close>

definition hex_word :: "nat \<Rightarrow> 'a::len word \<Rightarrow> string" where
  "hex_word width w = map (\<lambda>i. hex_digit (unat (drop_bit (4 * (width - 1 - i)) w AND 15))) [0..<width]"

definition sha256_hex :: "string \<Rightarrow> string" where
  "sha256_hex s =
     (case sha_blocks sha_init (be_words (sha_pad s)) of
        (a, b, c, d, e, f, g, h) \<Rightarrow> concat (map (hex_word 8) [a, b, c, d, e, f, g, h]))"

lemma length_hex_word [simp]: "length (hex_word width w) = width"
  by (simp add: hex_word_def)

text \<open>The shape that \<^verbatim>\<open>^[a-f0-9]{64}$\<close> asks of a fingerprint.\<close>

definition lower_hex :: "string \<Rightarrow> bool" where
  "lower_hex s \<longleftrightarrow> list_all (\<lambda>c. (CHR ''0'' \<le> c \<and> c \<le> CHR ''9'') \<or> (CHR ''a'' \<le> c \<and> c \<le> CHR ''f'')) s"

lemma lower_hex_digit: "n < 16 \<Longrightarrow> lower_hex [hex_digit n]"
proof -
  assume "n < 16"
  then have "n \<in> set [0..<16]" by simp
  moreover have "list_all (\<lambda>n. lower_hex [hex_digit n]) [0..<16]" by code_simp
  ultimately show ?thesis by (simp add: list_all_iff)
qed

lemma unat_and_15: "unat (w AND 15) < 16" for w :: "32 word"
  using word_and_le1[of w 15] by (simp add: word_le_nat_alt)

lemma lower_hex_word [simp]: "lower_hex (hex_word width w)" for w :: "32 word"
  using lower_hex_digit[OF unat_and_15] by (auto simp: lower_hex_def hex_word_def list_all_iff)

lemma lower_hex_append [simp]: "lower_hex (a @ b) \<longleftrightarrow> lower_hex a \<and> lower_hex b"
  by (simp add: lower_hex_def)

lemma sha256_hex_shape: "length (sha256_hex s) = 64 \<and> lower_hex (sha256_hex s)"
  by (auto simp add: sha256_hex_def simp del: sha_blocks.simps split: prod.splits)

end
