(* ===== verification/Go_Json.thy ===== *)
theory Go_Json
  imports Go_Hash
begin

text \<open>
  \<^verbatim>\<open>encoding/json.Marshal\<close> for the values the program encodes: structs (an object with the tags as keys,
  in field order), maps (an object with sorted keys), slices, strings, integers and booleans. The text
  is what fingerprints are computed from and what the secret scan reads. Strings are escaped as Go
  does: quotes, backslash, control characters, the HTML characters, U+2028 and U+2029, and every byte
  that is not part of valid UTF-8 becomes U+FFFD. An empty slice is nil, which encodes as \<^verbatim>\<open>null\<close>.
\<close>

datatype json =
    JNull
  | JBool bool
  | JInt int
  | JString string
  | JArray "json list"
  | JObject "(string \<times> json) list"

section \<open>Strings\<close>

definition between :: "char \<Rightarrow> char \<Rightarrow> char \<Rightarrow> bool" where
  "between lo hi c \<longleftrightarrow> lo \<le> c \<and> c \<le> hi"

abbreviation cont_byte :: "char \<Rightarrow> bool" where "cont_byte \<equiv> between (CHR 0x80) (CHR 0xBF)"

text \<open>The length of the valid multi-byte sequence at the head of a string, or 0.\<close>

fun utf8_len :: "string \<Rightarrow> nat" where
  "utf8_len (a # b # c # d # _) =
     (if between (CHR 0xC2) (CHR 0xDF) a \<and> cont_byte b then 2
      else if (between (CHR 0xE0) (CHR 0xE0) a \<and> between (CHR 0xA0) (CHR 0xBF) b \<or> between (CHR 0xED) (CHR 0xED) a \<and> between (CHR 0x80) (CHR 0x9F) b \<or>
               (between (CHR 0xE1) (CHR 0xEC) a \<or> between (CHR 0xEE) (CHR 0xEF) a) \<and> cont_byte b) \<and> cont_byte c then 3
      else if (between (CHR 0xF0) (CHR 0xF0) a \<and> between (CHR 0x90) (CHR 0xBF) b \<or> between (CHR 0xF4) (CHR 0xF4) a \<and> between (CHR 0x80) (CHR 0x8F) b \<or>
               between (CHR 0xF1) (CHR 0xF3) a \<and> cont_byte b) \<and> cont_byte c \<and> cont_byte d then 4
      else 0)"
| "utf8_len [a, b, c] =
     (if between (CHR 0xC2) (CHR 0xDF) a \<and> cont_byte b then 2
      else if (between (CHR 0xE0) (CHR 0xE0) a \<and> between (CHR 0xA0) (CHR 0xBF) b \<or> between (CHR 0xED) (CHR 0xED) a \<and> between (CHR 0x80) (CHR 0x9F) b \<or>
               (between (CHR 0xE1) (CHR 0xEC) a \<or> between (CHR 0xEE) (CHR 0xEF) a) \<and> cont_byte b) \<and> cont_byte c then 3
      else 0)"
| "utf8_len [a, b] = (if between (CHR 0xC2) (CHR 0xDF) a \<and> cont_byte b then 2 else 0)"
| "utf8_len _ = 0"

definition backslash :: char where "backslash = CHR 0x5C"

definition json_ascii :: "char \<Rightarrow> string" where
  "json_ascii c =
     (if c = CHR 0x22 \<or> c = backslash then [backslash, c]
      else if c = CHR 0x08 then backslash # ''b''
      else if c = CHR 0x0C then backslash # ''f''
      else if c = CHR 0x0A then backslash # ''n''
      else if c = CHR 0x0D then backslash # ''r''
      else if c = CHR 0x09 then backslash # ''t''
      else if c < CHR 0x20 \<or> c = CHR ''<'' \<or> c = CHR ''>'' \<or> c = CHR ''&''
      then backslash # ''u00'' @ [hex_digit (of_char c div 16), hex_digit (of_char c mod 16)]
      else [c])"

function json_escape :: "string \<Rightarrow> string" where
  "json_escape [] = []"
| "json_escape (c # s) =
     (if c < CHR 0x80 then json_ascii c @ json_escape s
      else if utf8_len (c # s) = 0 then backslash # ''ufffd'' @ json_escape s
      else if take 3 (c # s) = [CHR 0xE2, CHR 0x80, CHR 0xA8] then backslash # ''u2028'' @ json_escape (drop 2 s)
      else if take 3 (c # s) = [CHR 0xE2, CHR 0x80, CHR 0xA9] then backslash # ''u2029'' @ json_escape (drop 2 s)
      else take (utf8_len (c # s)) (c # s) @ json_escape (drop (utf8_len (c # s) - 1) s))"
  by pat_completeness auto
termination by (relation "measure length") auto

definition json_quote :: "string \<Rightarrow> string" where
  "json_quote s = CHR 0x22 # json_escape s @ [CHR 0x22]"

text \<open>Letters, digits and the common separators stand for themselves.\<close>

lemma json_ascii_code [code]:
  "json_ascii c =
     (if CHR ''A'' \<le> c \<and> c \<noteq> backslash then [c]
      else if CHR '','' \<le> c \<and> c \<le> CHR '':'' then [c]
      else if c = CHR 0x22 \<or> c = backslash then [backslash, c]
      else if c = CHR 0x08 then backslash # ''b''
      else if c = CHR 0x0C then backslash # ''f''
      else if c = CHR 0x0A then backslash # ''n''
      else if c = CHR 0x0D then backslash # ''r''
      else if c = CHR 0x09 then backslash # ''t''
      else if c < CHR 0x20 \<or> c = CHR ''<'' \<or> c = CHR ''>'' \<or> c = CHR ''&''
      then backslash # ''u00'' @ [hex_digit (of_char c div 16), hex_digit (of_char c mod 16)]
      else [c])"
  by (auto simp: json_ascii_def backslash_def less_char_def less_eq_char_def)

text \<open>What a string is after it was encoded and decoded: every byte that is not part of valid UTF-8 is U+FFFD.\<close>

function valid_utf8 :: "string \<Rightarrow> string" where
  "valid_utf8 [] = []"
| "valid_utf8 (c # s) =
     (if c < CHR 0x80 then c # valid_utf8 s
      else if utf8_len (c # s) = 0 then [CHR 0xEF, CHR 0xBF, CHR 0xBD] @ valid_utf8 s
      else take (utf8_len (c # s)) (c # s) @ valid_utf8 (drop (utf8_len (c # s) - 1) s))"
  by pat_completeness auto
termination by (relation "measure length") auto

lemma valid_utf8_empty [simp]: "valid_utf8 s = [] \<longleftrightarrow> s = []"
  by (cases s) (auto simp: take_Cons')

lemma valid_utf8_ascii: "list_all (\<lambda>c. c < CHR 0x80) s \<Longrightarrow> valid_utf8 s = s"
  by (induction s) auto

section \<open>Values\<close>

text \<open>The decimal digits of a non-negative integer.\<close>

function decimal :: "int \<Rightarrow> string" where
  "decimal n = (if n < 10 then [char_of (48 + nat n)] else decimal (n div 10) @ [char_of (48 + nat (n mod 10))])"
  by pat_completeness auto
termination by (relation "measure nat") auto

declare decimal.simps [simp del]

definition json_int :: "int \<Rightarrow> string" where
  "json_int i = (if i < 0 then CHR ''-'' # decimal (- i) else decimal i)"

fun separated :: "string list \<Rightarrow> string" where
  "separated [] = []"
| "separated [s] = s"
| "separated (s # ss) = s @ '','' @ separated ss"

fun json_text :: "json \<Rightarrow> string" where
  "json_text JNull = ''null''"
| "json_text (JBool b) = (if b then ''true'' else ''false'')"
| "json_text (JInt i) = json_int i"
| "json_text (JString s) = json_quote s"
| "json_text (JArray js) = ''['' @ separated (map json_text js) @ '']''"
| "json_text (JObject fs) = ''{'' @ separated (map (\<lambda>(k, j). json_quote k @ '':'' @ json_text j) fs) @ ''}''"

text \<open>The shapes of struct fields: plain, \<^verbatim>\<open>omitempty\<close>, and maps.\<close>

definition json_strings :: "string list \<Rightarrow> json" where
  "json_strings ss = (if ss = [] then JNull else JArray (map JString ss))"

definition omit_string :: "string \<Rightarrow> string \<Rightarrow> (string \<times> json) list" where
  "omit_string k s = (if s = [] then [] else [(k, JString s)])"

definition omit_strings :: "string \<Rightarrow> string list \<Rightarrow> (string \<times> json) list" where
  "omit_strings k ss = (if ss = [] then [] else [(k, json_strings ss)])"

definition omit_nil :: "string \<Rightarrow> ('a \<Rightarrow> json) \<Rightarrow> 'a option \<Rightarrow> (string \<times> json) list" where
  "omit_nil k f x = (case x of None \<Rightarrow> [] | Some a \<Rightarrow> [(k, f a)])"

definition or_null :: "('a \<Rightarrow> json) \<Rightarrow> 'a option \<Rightarrow> json" where
  "or_null f x = (case x of None \<Rightarrow> JNull | Some a \<Rightarrow> f a)"

definition json_map :: "(string \<times> string) list \<Rightarrow> json" where
  "json_map m = JObject (map (\<lambda>(k, v). (k, JString v)) (sort_key fst m))"

end
