(* ===== verification/Session_Registry.thy ===== *)
theory Session_Registry
  imports Secret_Safety Go_Context
begin

text \<open>
  \<^verbatim>\<open>internal/certification/resource_registry.go\<close>: the registry of provisioned sessions that a
  certification run may reuse. A fingerprint names the whole boundary of a session; its digest is the
  key of the registry. A record is a small state machine: ready, pending delete, cleanup verified, or
  quarantined. Operations hold the registry's mutex, so each one is a single step on the map of
  records. A context is given as the operation finds it: \<open>None\<close> is nil, \<open>Some e\<close> has the error \<open>e\<close>.
  Where the source ranges over a map of named fields the model checks them in the order they are
  written; only the choice among several errors depends on it.
\<close>

record ReuseFingerprint =
  rf_Architecture :: string
  rf_Fixture :: string
  rf_BackupSet :: string
  rf_Observability :: string
  rf_Edge :: string
  rf_ArtifactDigest :: string
  rf_SchemaFingerprint :: string
  rf_MigrationFingerprint :: string
  rf_OwnershipMarker :: string
  rf_StateBackend :: string

abbreviation SessionReady :: string where "SessionReady \<equiv> ''ready''"
abbreviation SessionPendingDelete :: string where "SessionPendingDelete \<equiv> ''pending-delete''"
abbreviation SessionCleanupVerified :: string where "SessionCleanupVerified \<equiv> ''cleanup-verified''"
abbreviation SessionQuarantined :: string where "SessionQuarantined \<equiv> ''quarantined''"

record SessionRecord =
  sr_SessionID :: string
  sr_Fingerprint :: ReuseFingerprint
  sr_FingerprintHash :: string
  sr_StackID :: string
  sr_WriterID :: string
  sr_ClaimOwner :: string
  sr_State :: string
  sr_Live :: bool
  sr_CleanupComplete :: bool
  sr_OperationIDs :: "string list"
  sr_ResourceRefs :: "string list"
  sr_FixtureRefs :: "string list"
  sr_MigrationRefs :: "string list"
  sr_BackupRefs :: "string list"
  sr_TelemetryRefs :: "string list"
  sr_EdgeRefs :: "string list"
  sr_PendingRefs :: "string list"

datatype registry_error =
    RegistryContextRequired
  | RegistryRequired
  | RegistryContext ctx_error
  | FingerprintSecretLike
  | FingerprintField string
  | RecordSecretLike
  | RecordField string
  | FingerprintHashMismatch
  | ReadyNotLive
  | PendingNotLive
  | CleanupIncomplete
  | QuarantinedInconsistent
  | InvalidSessionState string
  | ReferenceInvalid string
  | ReferenceDuplicated string string
  | LiveRequires string
  | TelemetryRequired
  | EdgeRequired
  | ClaimOwnerInvalid
  | RegistryInvalidRecord
  | RegistryIncompatibleRecord
  | RegistryUnclaimed
  | RegistryUnknownDecision
  | ClaimNotFound
  | ClaimOwnerMismatch
  | DuplicateLiveWriter
  | PendingRefsRequired
  | RecordNotFound
  | CleanupIdentityNotFound
  | CleanupRequiresPending
  | RegistryFailure string

section \<open>Fingerprints\<close>

text \<open>\<^verbatim>\<open>^[a-f0-9]{64}$\<close>, of \<^verbatim>\<open>evidence.go\<close>.\<close>

definition fingerprintPattern :: rx where
  "fingerprintPattern = rx_rep 64 (RSet chr_hex)"

definition ReuseFingerprint_json :: "ReuseFingerprint \<Rightarrow> json" where
  "ReuseFingerprint_json f = JObject
     [(''architecture'', JString (rf_Architecture f)), (''fixture'', JString (rf_Fixture f)),
      (''backupSet'', JString (rf_BackupSet f)), (''observability'', JString (rf_Observability f)),
      (''edge'', JString (rf_Edge f)), (''artifactDigest'', JString (rf_ArtifactDigest f)),
      (''schemaFingerprint'', JString (rf_SchemaFingerprint f)),
      (''migrationFingerprint'', JString (rf_MigrationFingerprint f)),
      (''ownershipMarker'', JString (rf_OwnershipMarker f)), (''stateBackend'', JString (rf_StateBackend f))]"

definition fingerprint_fields :: "ReuseFingerprint \<Rightarrow> (string \<times> string) list" where
  "fingerprint_fields f =
     [(''architecture'', rf_Architecture f), (''fixture'', rf_Fixture f), (''backup set'', rf_BackupSet f),
      (''observability'', rf_Observability f), (''edge'', rf_Edge f), (''artifact digest'', rf_ArtifactDigest f),
      (''schema fingerprint'', rf_SchemaFingerprint f), (''migration fingerprint'', rf_MigrationFingerprint f),
      (''ownership marker'', rf_OwnershipMarker f), (''state backend'', rf_StateBackend f)]"

definition ReuseFingerprint_Validate :: "ReuseFingerprint \<Rightarrow> registry_error option" where
  "ReuseFingerprint_Validate f =
     (if \<not> ValidateSecretSafeValue (ReuseFingerprint_json f) then Some FingerprintSecretLike
      else first_failure (map (\<lambda>(name, v). (blank v \<or> has_control v, FingerprintField name)) (fingerprint_fields f)))"

definition ReuseFingerprint_Digest :: "ReuseFingerprint \<Rightarrow> registry_error + string" where
  "ReuseFingerprint_Digest f =
     (case ReuseFingerprint_Validate f of
        Some e \<Rightarrow> Inl e
      | None \<Rightarrow> Inr (sha256_hex (json_text (ReuseFingerprint_json f))))"

section \<open>Records\<close>

definition SessionRecord_json :: "SessionRecord \<Rightarrow> json" where
  "SessionRecord_json r = JObject (
     [(''sessionId'', JString (sr_SessionID r)), (''fingerprint'', ReuseFingerprint_json (sr_Fingerprint r)),
      (''fingerprintHash'', JString (sr_FingerprintHash r)), (''stackId'', JString (sr_StackID r)),
      (''writerId'', JString (sr_WriterID r))] @ omit_string ''claimOwner'' (sr_ClaimOwner r) @
     [(''state'', JString (sr_State r)), (''live'', JBool (sr_Live r)), (''cleanupComplete'', JBool (sr_CleanupComplete r))] @
     omit_strings ''operationIds'' (sr_OperationIDs r) @ omit_strings ''resourceRefs'' (sr_ResourceRefs r) @
     omit_strings ''fixtureRefs'' (sr_FixtureRefs r) @ omit_strings ''migrationRefs'' (sr_MigrationRefs r) @
     omit_strings ''backupRefs'' (sr_BackupRefs r) @ omit_strings ''telemetryRefs'' (sr_TelemetryRefs r) @
     omit_strings ''edgeRefs'' (sr_EdgeRefs r) @ omit_strings ''pendingRefs'' (sr_PendingRefs r))"

definition record_field :: "bool \<Rightarrow> string \<Rightarrow> string \<Rightarrow> registry_error option" where
  "record_field optional name v =
     (if v = [] then if optional then None else Some (RecordField name)
      else if has_control v then Some (RecordField name) else None)"

definition state_error :: "SessionRecord \<Rightarrow> registry_error option" where
  "state_error r =
     (if sr_State r = SessionReady then
        if \<not> sr_Live r \<or> sr_CleanupComplete r \<or> sr_PendingRefs r \<noteq> [] then Some ReadyNotLive else None
      else if sr_State r = SessionPendingDelete then
        if \<not> sr_Live r \<or> sr_CleanupComplete r \<or> sr_PendingRefs r = [] then Some PendingNotLive else None
      else if sr_State r = SessionCleanupVerified then
        if sr_Live r \<or> \<not> sr_CleanupComplete r \<or> sr_PendingRefs r \<noteq> [] then Some CleanupIncomplete else None
      else if sr_State r = SessionQuarantined then
        if sr_CleanupComplete r \<and> sr_Live r then Some QuarantinedInconsistent else None
      else Some (InvalidSessionState (sr_State r)))"

fun check_references :: "string \<Rightarrow> string list \<Rightarrow> string list \<Rightarrow> registry_error option" where
  "check_references name seen [] = None"
| "check_references name seen (v # vs) =
     (if blank v \<or> has_control v then Some (ReferenceInvalid name)
      else if v \<in> set seen then Some (ReferenceDuplicated name v)
      else check_references name (v # seen) vs)"

definition record_references :: "SessionRecord \<Rightarrow> (string \<times> string list) list" where
  "record_references r =
     [(''operation ID'', sr_OperationIDs r), (''resource reference'', sr_ResourceRefs r),
      (''fixture reference'', sr_FixtureRefs r), (''migration reference'', sr_MigrationRefs r),
      (''backup reference'', sr_BackupRefs r), (''telemetry reference'', sr_TelemetryRefs r),
      (''edge reference'', sr_EdgeRefs r), (''pending reference'', sr_PendingRefs r)]"

definition live_requirements :: "SessionRecord \<Rightarrow> registry_error option" where
  "live_requirements r =
     (if sr_State r = SessionReady \<or> sr_State r = SessionPendingDelete then
        first_failure
          [(sr_ResourceRefs r = [], LiveRequires ''resource reference''),
           (sr_FixtureRefs r = [], LiveRequires ''fixture reference''),
           (sr_MigrationRefs r = [], LiveRequires ''migration reference''),
           (sr_BackupRefs r = [], LiveRequires ''backup reference''),
           (rf_Observability (sr_Fingerprint r) \<noteq> ''none'' \<and> sr_TelemetryRefs r = [], TelemetryRequired),
           (rf_Edge (sr_Fingerprint r) \<noteq> ''none'' \<and> sr_EdgeRefs r = [], EdgeRequired)]
      else None)"

definition SessionRecord_Validate :: "SessionRecord \<Rightarrow> registry_error option" where
  "SessionRecord_Validate r =
     (if \<not> ValidateSecretSafeValue (SessionRecord_json r) then Some RecordSecretLike
      else case first_err
          [record_field False ''session ID'' (sr_SessionID r), record_field False ''stack ID'' (sr_StackID r),
           record_field False ''writer ID'' (sr_WriterID r), record_field True ''claim owner'' (sr_ClaimOwner r),
           ReuseFingerprint_Validate (sr_Fingerprint r)] of
        Some e \<Rightarrow> Some e
      | None \<Rightarrow>
          (case ReuseFingerprint_Digest (sr_Fingerprint r) of
             Inl e \<Rightarrow> Some e
           | Inr digest \<Rightarrow>
               if sr_FingerprintHash r \<noteq> digest then Some FingerprintHashMismatch
               else first_err (state_error r #
                      map (\<lambda>(name, vs). check_references name [] vs) (record_references r) @ [live_requirements r])))"

definition no_SessionRecord :: SessionRecord where
  "no_SessionRecord =
     \<lparr>sr_SessionID = [], sr_Fingerprint = \<lparr>rf_Architecture = [], rf_Fixture = [], rf_BackupSet = [],
        rf_Observability = [], rf_Edge = [], rf_ArtifactDigest = [], rf_SchemaFingerprint = [],
        rf_MigrationFingerprint = [], rf_OwnershipMarker = [], rf_StateBackend = []\<rparr>,
      sr_FingerprintHash = [], sr_StackID = [], sr_WriterID = [], sr_ClaimOwner = [], sr_State = [], sr_Live = False,
      sr_CleanupComplete = False, sr_OperationIDs = [], sr_ResourceRefs = [], sr_FixtureRefs = [],
      sr_MigrationRefs = [], sr_BackupRefs = [], sr_TelemetryRefs = [], sr_EdgeRefs = [], sr_PendingRefs = []\<rparr>"

section \<open>The registry interface\<close>

abbreviation ReuseReady :: string where "ReuseReady \<equiv> ''ready''"
abbreviation ReuseMiss :: string where "ReuseMiss \<equiv> ''miss''"
abbreviation ReuseBlocked :: string where "ReuseBlocked \<equiv> ''blocked''"

record ReuseLookup =
  rl_Decision :: string
  rl_Record :: SessionRecord
  rl_Reason :: string

record 'reg SessionRegistry =
  rg_Lookup :: "ctx_now \<Rightarrow> ReuseFingerprint \<Rightarrow> 'reg \<Rightarrow> registry_error + SessionRecord option"
  rg_Claim :: "ctx_now \<Rightarrow> ReuseFingerprint \<Rightarrow> string \<Rightarrow> 'reg \<Rightarrow> (registry_error + ReuseLookup) \<times> 'reg"
  rg_ReleaseClaim :: "ctx_now \<Rightarrow> ReuseFingerprint \<Rightarrow> string \<Rightarrow> 'reg \<Rightarrow> registry_error option \<times> 'reg"
  rg_Put :: "ctx_now \<Rightarrow> SessionRecord \<Rightarrow> 'reg \<Rightarrow> registry_error option \<times> 'reg"
  rg_MarkPendingDeletion :: "ctx_now \<Rightarrow> ReuseFingerprint \<Rightarrow> string list \<Rightarrow> 'reg \<Rightarrow> registry_error option \<times> 'reg"
  rg_MarkCleanupVerified :: "ctx_now \<Rightarrow> ReuseFingerprint \<Rightarrow> string \<Rightarrow> 'reg \<Rightarrow> registry_error option \<times> 'reg"

definition blocked_lookup :: "SessionRecord \<Rightarrow> string \<Rightarrow> ReuseLookup" where
  "blocked_lookup r reason = \<lparr>rl_Decision = ReuseBlocked, rl_Record = r, rl_Reason = reason\<rparr>"

definition miss_lookup :: "SessionRecord \<Rightarrow> string \<Rightarrow> ReuseLookup" where
  "miss_lookup r reason = \<lparr>rl_Decision = ReuseMiss, rl_Record = r, rl_Reason = reason\<rparr>"

definition ready_lookup :: "SessionRecord \<Rightarrow> ReuseLookup" where
  "ready_lookup r = \<lparr>rl_Decision = ReuseReady, rl_Record = r, rl_Reason = []\<rparr>"

text \<open>What is answered for a record that is not ready.\<close>

definition unready_lookup :: "SessionRecord \<Rightarrow> ReuseLookup" where
  "unready_lookup r =
     (if sr_State r = SessionPendingDelete then blocked_lookup r ''compatible session has pending owning-service deletion''
      else if sr_State r = SessionQuarantined then blocked_lookup r ''compatible session is quarantined''
      else if sr_State r = SessionCleanupVerified then miss_lookup r ''compatible session was already cleaned up''
      else blocked_lookup r ''compatible session has an unknown state'')"

definition FindReusableSession ::
  "ctx_now \<Rightarrow> 'reg SessionRegistry option \<Rightarrow> ReuseFingerprint \<Rightarrow> 'reg \<Rightarrow> registry_error + ReuseLookup" where
  "FindReusableSession ctx registry f reg =
     (case ctx of None \<Rightarrow> Inl RegistryContextRequired
      | Some err \<Rightarrow> (case registry of None \<Rightarrow> Inl RegistryRequired
      | Some rg \<Rightarrow> (case ReuseFingerprint_Digest f of Inl e \<Rightarrow> Inl e
      | Inr digest \<Rightarrow> (case err of Some e \<Rightarrow> Inl (RegistryContext e)
      | None \<Rightarrow> (case rg_Lookup rg ctx f reg of Inl e \<Rightarrow> Inl e
      | Inr None \<Rightarrow> Inr (miss_lookup no_SessionRecord ''no compatible session is registered'')
      | Inr (Some r) \<Rightarrow>
          if SessionRecord_Validate r \<noteq> None then Inl RegistryInvalidRecord
          else if ReuseFingerprint_Digest (sr_Fingerprint r) \<noteq> Inr digest then Inl RegistryIncompatibleRecord
          else if sr_State r = SessionReady then Inr (ready_lookup r)
          else Inr (unready_lookup r))))))"

definition validateSessionRecordFingerprint :: "SessionRecord \<Rightarrow> ReuseFingerprint \<Rightarrow> registry_error option" where
  "validateSessionRecordFingerprint r f =
     (if SessionRecord_Validate r \<noteq> None then Some RegistryInvalidRecord
      else case ReuseFingerprint_Digest f of
        Inl e \<Rightarrow> Some e
      | Inr want \<Rightarrow> if ReuseFingerprint_Digest (sr_Fingerprint r) \<noteq> Inr want then Some RegistryIncompatibleRecord else None)"

definition validateClaimedSessionRecord :: "SessionRecord \<Rightarrow> ReuseFingerprint \<Rightarrow> string \<Rightarrow> registry_error option" where
  "validateClaimedSessionRecord r f owner =
     (case validateSessionRecordFingerprint r f of
        Some e \<Rightarrow> Some e
      | None \<Rightarrow> if sr_ClaimOwner r \<noteq> owner then Some RegistryUnclaimed else None)"

definition ClaimReusableSession ::
  "ctx_now \<Rightarrow> 'reg SessionRegistry option \<Rightarrow> ReuseFingerprint \<Rightarrow> string \<Rightarrow> 'reg
     \<Rightarrow> (registry_error + ReuseLookup) \<times> 'reg" where
  "ClaimReusableSession ctx registry f owner reg =
     (case ctx of None \<Rightarrow> (Inl RegistryContextRequired, reg)
      | Some err \<Rightarrow> (case registry of None \<Rightarrow> (Inl RegistryRequired, reg)
      | Some rg \<Rightarrow>
          if blank owner \<or> has_control owner then (Inl ClaimOwnerInvalid, reg)
          else (case ReuseFingerprint_Validate f of Some e \<Rightarrow> (Inl e, reg)
          | None \<Rightarrow> (case err of Some e \<Rightarrow> (Inl (RegistryContext e), reg)
          | None \<Rightarrow>
              (case rg_Claim rg ctx f owner reg of
                 (Inl e, reg') \<Rightarrow> (Inl e, reg')
               | (Inr lookup, reg') \<Rightarrow>
                   if rl_Decision lookup = ReuseReady then
                     (case validateClaimedSessionRecord (rl_Record lookup) f owner of
                        Some e \<Rightarrow> (Inl e, reg') | None \<Rightarrow> (Inr lookup, reg'))
                   else if rl_Decision lookup = ReuseBlocked \<or> rl_Decision lookup = ReuseMiss then
                     (if sr_SessionID (rl_Record lookup) \<noteq> [] then
                        (case validateSessionRecordFingerprint (rl_Record lookup) f of
                           Some e \<Rightarrow> (Inl e, reg') | None \<Rightarrow> (Inr lookup, reg'))
                      else (Inr lookup, reg'))
                   else (Inl RegistryUnknownDecision, reg'))))))"

section \<open>The in-memory registry\<close>

type_synonym memory_registry = "string \<rightharpoonup> SessionRecord"

definition NewMemorySessionRegistry :: memory_registry where
  "NewMemorySessionRegistry = (\<lambda>_. None)"

definition putLocked :: "SessionRecord \<Rightarrow> memory_registry \<Rightarrow> registry_error option \<times> memory_registry" where
  "putLocked r reg =
     (case SessionRecord_Validate r of
        Some e \<Rightarrow> (Some e, reg)
      | None \<Rightarrow> (None, reg(sr_FingerprintHash r \<mapsto> r)))"

definition memory_Lookup :: "ctx_now \<Rightarrow> ReuseFingerprint \<Rightarrow> memory_registry \<Rightarrow> registry_error + SessionRecord option" where
  "memory_Lookup ctx f reg =
     (case ctx of None \<Rightarrow> Inl RegistryContextRequired
      | Some (Some e) \<Rightarrow> Inl (RegistryContext e)
      | Some None \<Rightarrow> (case ReuseFingerprint_Digest f of Inl e \<Rightarrow> Inl e | Inr digest \<Rightarrow> Inr (reg digest)))"

definition memory_Claim ::
  "ctx_now \<Rightarrow> ReuseFingerprint \<Rightarrow> string \<Rightarrow> memory_registry \<Rightarrow> (registry_error + ReuseLookup) \<times> memory_registry" where
  "memory_Claim ctx f owner reg =
     (case ctx of None \<Rightarrow> (Inl RegistryContextRequired, reg)
      | Some err \<Rightarrow>
          if blank owner \<or> has_control owner then (Inl ClaimOwnerInvalid, reg)
          else (case err of Some e \<Rightarrow> (Inl (RegistryContext e), reg)
          | None \<Rightarrow> (case ReuseFingerprint_Digest f of Inl e \<Rightarrow> (Inl e, reg)
          | Inr digest \<Rightarrow> (case reg digest of
              None \<Rightarrow> (Inr (miss_lookup no_SessionRecord ''no compatible session is registered''), reg)
            | Some r \<Rightarrow>
                if SessionRecord_Validate r \<noteq> None then (Inl RegistryInvalidRecord, reg)
                else if sr_State r = SessionReady then
                  (if sr_ClaimOwner r \<noteq> [] \<and> sr_ClaimOwner r \<noteq> owner
                   then (Inr (blocked_lookup r ''compatible session is claimed by another certification run''), reg)
                   else (case putLocked (r\<lparr>sr_ClaimOwner := owner\<rparr>) reg of
                           (Some e, reg') \<Rightarrow> (Inl e, reg')
                         | (None, reg') \<Rightarrow> (Inr (ready_lookup (r\<lparr>sr_ClaimOwner := owner\<rparr>)), reg')))
                else (Inr (unready_lookup r), reg)))))"

definition memory_ReleaseClaim ::
  "ctx_now \<Rightarrow> ReuseFingerprint \<Rightarrow> string \<Rightarrow> memory_registry \<Rightarrow> registry_error option \<times> memory_registry" where
  "memory_ReleaseClaim ctx f owner reg =
     (case ctx of None \<Rightarrow> (Some RegistryContextRequired, reg)
      | Some err \<Rightarrow>
          if blank owner \<or> has_control owner then (Some ClaimOwnerInvalid, reg)
          else (case err of Some e \<Rightarrow> (Some (RegistryContext e), reg)
          | None \<Rightarrow> (case ReuseFingerprint_Digest f of Inl e \<Rightarrow> (Some e, reg)
          | Inr digest \<Rightarrow> (case reg digest of
              None \<Rightarrow> (Some ClaimNotFound, reg)
            | Some r \<Rightarrow>
                if sr_ClaimOwner r = [] then (None, reg)
                else if sr_ClaimOwner r \<noteq> owner then (Some ClaimOwnerMismatch, reg)
                else putLocked (r\<lparr>sr_ClaimOwner := []\<rparr>) reg))))"

definition memory_Put :: "ctx_now \<Rightarrow> SessionRecord \<Rightarrow> memory_registry \<Rightarrow> registry_error option \<times> memory_registry" where
  "memory_Put ctx r reg =
     (case ctx of None \<Rightarrow> (Some RegistryContextRequired, reg)
      | Some (Some e) \<Rightarrow> (Some (RegistryContext e), reg)
      | Some None \<Rightarrow> (case SessionRecord_Validate r of Some e \<Rightarrow> (Some e, reg)
      | None \<Rightarrow> (case reg (sr_FingerprintHash r) of
          None \<Rightarrow> (None, reg(sr_FingerprintHash r \<mapsto> r))
        | Some existing \<Rightarrow>
            if sr_StackID existing \<noteq> sr_StackID r \<and> sr_Live existing then (Some DuplicateLiveWriter, reg)
            else (None, reg(sr_FingerprintHash r \<mapsto> r)))))"

definition memory_MarkPendingDeletion ::
  "ctx_now \<Rightarrow> ReuseFingerprint \<Rightarrow> string list \<Rightarrow> memory_registry \<Rightarrow> registry_error option \<times> memory_registry" where
  "memory_MarkPendingDeletion ctx f pending reg =
     (case ctx of None \<Rightarrow> (Some RegistryContextRequired, reg)
      | Some (Some e) \<Rightarrow> (Some (RegistryContext e), reg)
      | Some None \<Rightarrow>
          if pending = [] then (Some PendingRefsRequired, reg)
          else (case ReuseFingerprint_Digest f of Inl e \<Rightarrow> (Some e, reg)
          | Inr digest \<Rightarrow> (case reg digest of
              None \<Rightarrow> (Some RecordNotFound, reg)
            | Some r \<Rightarrow>
                putLocked (r\<lparr>sr_State := SessionPendingDelete, sr_Live := True, sr_CleanupComplete := False,
                             sr_ClaimOwner := [], sr_PendingRefs := pending\<rparr>) reg)))"

definition memory_MarkCleanupVerified ::
  "ctx_now \<Rightarrow> ReuseFingerprint \<Rightarrow> string \<Rightarrow> memory_registry \<Rightarrow> registry_error option \<times> memory_registry" where
  "memory_MarkCleanupVerified ctx f stackID reg =
     (case ctx of None \<Rightarrow> (Some RegistryContextRequired, reg)
      | Some (Some e) \<Rightarrow> (Some (RegistryContext e), reg)
      | Some None \<Rightarrow> (case ReuseFingerprint_Digest f of Inl e \<Rightarrow> (Some e, reg)
      | Inr digest \<Rightarrow> (case reg digest of
          None \<Rightarrow> (Some CleanupIdentityNotFound, reg)
        | Some r \<Rightarrow>
            if sr_StackID r \<noteq> stackID then (Some CleanupIdentityNotFound, reg)
            else if sr_State r \<noteq> SessionPendingDelete then (Some CleanupRequiresPending, reg)
            else putLocked (r\<lparr>sr_State := SessionCleanupVerified, sr_Live := False, sr_CleanupComplete := True,
                              sr_ClaimOwner := [], sr_PendingRefs := []\<rparr>) reg)))"

definition MemorySessionRegistry :: "memory_registry SessionRegistry" where
  "MemorySessionRegistry =
     \<lparr>rg_Lookup = memory_Lookup, rg_Claim = memory_Claim, rg_ReleaseClaim = memory_ReleaseClaim,
      rg_Put = memory_Put, rg_MarkPendingDeletion = memory_MarkPendingDeletion,
      rg_MarkCleanupVerified = memory_MarkCleanupVerified\<rparr>"

end
