(* ===== verification/Session_Reuse.thy ===== *)
theory Session_Reuse
  imports Session_Registry
begin

text \<open>
  What the session registry promises. The interface is a locale: a registry with a view of its records
  by digest and an invariant, and one law per operation. The laws carry the reuse decisions and the
  exclusion of claims, proved once inside the locale; the in-memory registry discharges them.
\<close>

section \<open>Valid records\<close>

lemma valid_record_digest:
  assumes "SessionRecord_Validate r = None"
  shows "ReuseFingerprint_Digest (sr_Fingerprint r) = Inr (sr_FingerprintHash r)"
  using assms by (auto simp: SessionRecord_Validate_def split: if_splits option.splits sum.splits)

lemma valid_record_state:
  assumes "SessionRecord_Validate r = None"
  shows "state_error r = None"
  using assms by (auto simp: SessionRecord_Validate_def split: if_splits option.splits sum.splits)

lemma valid_digest_valid: "ReuseFingerprint_Digest f = Inr d \<Longrightarrow> ReuseFingerprint_Validate f = None"
  by (auto simp: ReuseFingerprint_Digest_def split: option.splits)

lemma valid_record_fields:
  assumes "SessionRecord_Validate r = None"
  shows "sr_SessionID r \<noteq> []" and "sr_StackID r \<noteq> []"
  using assms by (auto simp: SessionRecord_Validate_def record_field_def split: if_splits option.splits sum.splits)

text \<open>The invariant of a registry: a valid record, stored under its own digest.\<close>

definition records_valid :: "(string \<Rightarrow> SessionRecord option) \<Rightarrow> bool" where
  "records_valid v \<longleftrightarrow> (\<forall>d r. v d = Some r \<longrightarrow> SessionRecord_Validate r = None \<and> sr_FingerprintHash r = d)"

lemma records_validD:
  assumes "records_valid v" and "v d = Some r"
  shows "SessionRecord_Validate r = None" and "sr_FingerprintHash r = d"
    and "ReuseFingerprint_Digest (sr_Fingerprint r) = Inr d"
  using assms valid_record_digest[of r] by (auto simp: records_valid_def)

lemma records_valid_update:
  "records_valid v \<Longrightarrow> SessionRecord_Validate r = None \<Longrightarrow> records_valid (v(sr_FingerprintHash r \<mapsto> r))"
  by (auto simp: records_valid_def)

lemma records_valid_claim:
  assumes "records_valid v" and "v d = Some r" and "SessionRecord_Validate (r\<lparr>sr_ClaimOwner := owner\<rparr>) = None"
  shows "records_valid (v(d \<mapsto> r\<lparr>sr_ClaimOwner := owner\<rparr>))"
  using records_valid_update[OF assms(1,3)] records_validD(2)[OF assms(1,2)] by simp

section \<open>The interface\<close>

locale session_store =
  fixes rg :: "'reg SessionRegistry" and view :: "'reg \<Rightarrow> string \<Rightarrow> SessionRecord option"
  assumes lookup_view: "ReuseFingerprint_Digest f = Inr d \<Longrightarrow> rg_Lookup rg (Some None) f reg = Inr (view reg d)"
    and claim_cases: "records_valid (view reg) \<Longrightarrow> rg_Claim rg ctx f owner reg = (result, reg') \<Longrightarrow>
      (view reg' = view reg \<and> (\<forall>l. result = Inr l \<longrightarrow> rl_Decision l \<noteq> ReuseReady \<and>
         (rl_Record l = no_SessionRecord \<or> (\<exists>d. ReuseFingerprint_Digest f = Inr d \<and> view reg d = Some (rl_Record l))) \<and>
         (rl_Decision l = ReuseBlocked \<or> rl_Decision l = ReuseMiss))) \<or>
      (\<exists>d r. ReuseFingerprint_Digest f = Inr d \<and> view reg d = Some r \<and> sr_State r = SessionReady \<and> owner \<noteq> [] \<and>
         (sr_ClaimOwner r = [] \<or> sr_ClaimOwner r = owner) \<and> SessionRecord_Validate (r\<lparr>sr_ClaimOwner := owner\<rparr>) = None \<and>
         result = Inr (ready_lookup (r\<lparr>sr_ClaimOwner := owner\<rparr>)) \<and>
         view reg' = (view reg)(d \<mapsto> r\<lparr>sr_ClaimOwner := owner\<rparr>))"
    and release_cases: "records_valid (view reg) \<Longrightarrow> rg_ReleaseClaim rg ctx f owner reg = (outcome, reg') \<Longrightarrow>
      view reg' = view reg \<or>
      (\<exists>d r. ReuseFingerprint_Digest f = Inr d \<and> view reg d = Some r \<and> owner \<noteq> [] \<and> sr_ClaimOwner r = owner \<and>
         SessionRecord_Validate (r\<lparr>sr_ClaimOwner := []\<rparr>) = None \<and> outcome = None \<and>
         view reg' = (view reg)(d \<mapsto> r\<lparr>sr_ClaimOwner := []\<rparr>))"
    and release_owner: "rg_ReleaseClaim rg ctx f owner reg = (None, reg') \<Longrightarrow> ReuseFingerprint_Digest f = Inr d \<Longrightarrow>
      view reg d = Some r \<Longrightarrow> sr_ClaimOwner r \<noteq> [] \<Longrightarrow> sr_ClaimOwner r = owner"

text \<open>
  Runs that claim and release. Next to the registry the relation keeps which owner has been granted
  which digest and has not given it back.
\<close>

inductive claim_step ::
  "'reg SessionRegistry \<Rightarrow> 'reg \<times> (string \<times> string) set \<Rightarrow> 'reg \<times> (string \<times> string) set \<Rightarrow> bool"
  for rg :: "'reg SessionRegistry" where
  granted: "rg_Claim rg (Some None) f owner reg = (Inr l, reg') \<Longrightarrow> rl_Decision l = ReuseReady \<Longrightarrow>
     ReuseFingerprint_Digest f = Inr d \<Longrightarrow> claim_step rg (reg, held) (reg', insert (d, owner) held)"
| not_granted: "rg_Claim rg ctx f owner reg = (result, reg') \<Longrightarrow>
     (\<forall>l. result = Inr l \<longrightarrow> rl_Decision l \<noteq> ReuseReady) \<Longrightarrow> claim_step rg (reg, held) (reg', held)"
| released: "rg_ReleaseClaim rg ctx f owner reg = (None, reg') \<Longrightarrow> ReuseFingerprint_Digest f = Inr d \<Longrightarrow>
     claim_step rg (reg, held) (reg', held - {(d, owner)})"
| not_released: "rg_ReleaseClaim rg ctx f owner reg = (Some e, reg') \<Longrightarrow> claim_step rg (reg, held) (reg', held)"

context session_store
begin

lemma claim_valid:
  assumes "records_valid (view reg)" and "rg_Claim rg ctx f owner reg = (result, reg')"
  shows "records_valid (view reg')"
  using claim_cases[OF assms] records_valid_claim[OF assms(1)] assms(1) by metis

lemma release_valid:
  assumes "records_valid (view reg)" and "rg_ReleaseClaim rg ctx f owner reg = (result, reg')"
  shows "records_valid (view reg')"
  using release_cases[OF assms] records_valid_claim[OF assms(1)] assms(1) by metis

text \<open>Every grant that is still held is the owner of its record.\<close>

definition held_owned :: "'reg \<times> (string \<times> string) set \<Rightarrow> bool" where
  "held_owned s \<longleftrightarrow> records_valid (view (fst s)) \<and>
     (\<forall>d owner. (d, owner) \<in> snd s \<longrightarrow> owner \<noteq> [] \<and> (\<exists>r. view (fst s) d = Some r \<and> sr_ClaimOwner r = owner))"

lemma claim_step_held_owned: "claim_step rg s t \<Longrightarrow> held_owned s \<Longrightarrow> held_owned t"
proof (induction rule: claim_step.induct)
  case (granted f owner reg l reg' d held)
  from granted.prems have valid: "records_valid (view reg)" by (simp add: held_owned_def)
  from claim_cases[OF valid granted(1)] granted(2,3) obtain r where
    r: "view reg d = Some r" "sr_ClaimOwner r = [] \<or> sr_ClaimOwner r = owner" "owner \<noteq> []"
      "view reg' = (view reg)(d \<mapsto> r\<lparr>sr_ClaimOwner := owner\<rparr>)"
    by (auto simp: ready_lookup_def)
  with claim_valid[OF valid granted(1)] granted.prems show ?case by (fastforce simp: held_owned_def)
next
  case (not_granted ctx f owner reg result reg' held)
  then have valid: "records_valid (view reg)" by (simp add: held_owned_def)
  from claim_cases[OF valid not_granted(1)] not_granted(2) have "view reg' = view reg"
    by (auto simp: ready_lookup_def)
  with not_granted.prems show ?case by (simp add: held_owned_def)
next
  case (released ctx f owner reg reg' d held)
  then have valid: "records_valid (view reg)" by (simp add: held_owned_def)
  from release_cases[OF valid released(1)] released(2) consider "view reg' = view reg"
    | r where "view reg d = Some r" "sr_ClaimOwner r = owner" "view reg' = (view reg)(d \<mapsto> r\<lparr>sr_ClaimOwner := []\<rparr>)"
    by auto
  then show ?case
  proof cases
    case 1
    with released.prems show ?thesis by (auto simp: held_owned_def)
  next
    case 2
    with release_valid[OF valid released(1)] released.prems show ?thesis by (fastforce simp: held_owned_def)
  qed
next
  case (not_released ctx f owner reg e reg' held)
  then have valid: "records_valid (view reg)" by (simp add: held_owned_def)
  from release_cases[OF valid not_released(1)] have "view reg' = view reg" by auto
  with not_released.prems show ?case by (simp add: held_owned_def)
qed

lemma claims_held_owned: "(claim_step rg)\<^sup>*\<^sup>* s t \<Longrightarrow> held_owned s \<Longrightarrow> held_owned t"
  by (induction rule: rtranclp_induct) (auto intro: claim_step_held_owned)

lemma claims_exclude:
  assumes "(claim_step rg)\<^sup>*\<^sup>* (reg, {}) (reg', held)" and "records_valid (view reg)"
    and "(d, owner) \<in> held" and "(d, other) \<in> held"
  shows "owner = other"
proof -
  have "held_owned (reg', held)" using claims_held_owned[OF assms(1)] assms(2) by (simp add: held_owned_def)
  with assms(3,4) show ?thesis unfolding held_owned_def fst_conv snd_conv by (metis option.inject)
qed

text \<open>With a valid registry the client's own checks never fire, and every answer is about the record itself.\<close>

lemma ClaimReusableSession_is_claim:
  assumes "records_valid (view reg)" and "ReuseFingerprint_Digest f = Inr d" and "\<not> blank owner" and "\<not> has_control owner"
  shows "ClaimReusableSession (Some None) (Some rg) f owner reg = rg_Claim rg (Some None) f owner reg"
proof -
  obtain result reg' where claim: "rg_Claim rg (Some None) f owner reg = (result, reg')" by force
  have matches: "validateSessionRecordFingerprint r f = None"
    if "SessionRecord_Validate r = None" "ReuseFingerprint_Digest (sr_Fingerprint r) = Inr d" for r
    using that assms(2) by (simp add: validateSessionRecordFingerprint_def)
  have none: "sr_SessionID no_SessionRecord = []" by (simp add: no_SessionRecord_def)
  from claim_cases[OF assms(1) claim] consider
      (granted) e r where "ReuseFingerprint_Digest f = Inr e" "view reg e = Some r"
        "SessionRecord_Validate (r\<lparr>sr_ClaimOwner := owner\<rparr>) = None"
        "result = Inr (ready_lookup (r\<lparr>sr_ClaimOwner := owner\<rparr>))"
    | (failed) e where "result = Inl e"
    | (unready) l where "result = Inr l" "rl_Decision l \<noteq> ReuseReady" "rl_Decision l = ReuseBlocked \<or> rl_Decision l = ReuseMiss"
        "rl_Record l = no_SessionRecord \<or> (\<exists>d. ReuseFingerprint_Digest f = Inr d \<and> view reg d = Some (rl_Record l))"
    by (cases result) auto
  then show ?thesis
  proof cases
    case granted
    with assms(2) records_validD(3)[OF assms(1) granted(2)]
    have "validateSessionRecordFingerprint (r\<lparr>sr_ClaimOwner := owner\<rparr>) f = None" by (intro matches) auto
    with granted claim valid_digest_valid[OF assms(2)] assms(3,4) show ?thesis
      by (simp add: ClaimReusableSession_def validateClaimedSessionRecord_def ready_lookup_def)
  next
    case failed
    with claim valid_digest_valid[OF assms(2)] assms(3,4) show ?thesis by (simp add: ClaimReusableSession_def)
  next
    case unready
    have "sr_SessionID (rl_Record l) = [] \<or> validateSessionRecordFingerprint (rl_Record l) f = None"
      using unready(4)
    proof
      assume "\<exists>d. ReuseFingerprint_Digest f = Inr d \<and> view reg d = Some (rl_Record l)"
      with assms(2) records_validD(1,3)[OF assms(1)] show ?thesis by (intro disjI2 matches) auto
    qed (simp add: none)
    with unready claim valid_digest_valid[OF assms(2)] assms(3,4) show ?thesis
      by (auto simp: ClaimReusableSession_def)
  qed
qed

lemma FindReusableSession_view:
  assumes "records_valid (view reg)" and "ReuseFingerprint_Digest f = Inr d"
  shows "FindReusableSession (Some None) (Some rg) f reg =
    (case view reg d of
       None \<Rightarrow> Inr (miss_lookup no_SessionRecord ''no compatible session is registered'')
     | Some r \<Rightarrow> Inr (if sr_State r = SessionReady then ready_lookup r else unready_lookup r))"
  using assms lookup_view[OF assms(2)] records_validD[OF assms(1)]
  by (auto simp: FindReusableSession_def split: option.splits)

end

section \<open>The in-memory registry keeps the contract\<close>

lemma putLocked_cases:
  assumes "putLocked r reg = (result, reg')"
  obtains (refused) e where "result = Some e" "reg' = reg" "SessionRecord_Validate r = Some e"
  | (stored) "result = None" "SessionRecord_Validate r = None" "reg' = reg(sr_FingerprintHash r \<mapsto> r)"
proof (cases "SessionRecord_Validate r")
  case None
  with assms show ?thesis by (intro stored) (auto simp: putLocked_def)
next
  case (Some e)
  with assms show ?thesis by (intro refused[of e]) (auto simp: putLocked_def)
qed

lemma unready_lookup_decision:
  "rl_Decision (unready_lookup r) \<noteq> ReuseMiss \<Longrightarrow> rl_Decision (unready_lookup r) = ReuseBlocked"
  "rl_Decision (unready_lookup r) \<noteq> ReuseReady"
  "rl_Record (unready_lookup r) = r"
  by (auto simp: unready_lookup_def blocked_lookup_def miss_lookup_def)

lemma has_owner: "\<not> blank owner \<Longrightarrow> owner \<noteq> []"
  by auto

interpretation memory: session_store MemorySessionRegistry "\<lambda>reg. reg"
proof unfold_locales
  fix f d and reg :: memory_registry
  assume "ReuseFingerprint_Digest f = Inr d"
  then show "rg_Lookup MemorySessionRegistry (Some None) f reg = Inr (reg d)"
    by (simp add: MemorySessionRegistry_def memory_Lookup_def)
next
  fix reg reg' :: memory_registry and ctx f owner result
  assume valid: "records_valid reg" and claim: "rg_Claim MemorySessionRegistry ctx f owner reg = (result, reg')"
  show "reg' = reg \<and> (\<forall>l. result = Inr l \<longrightarrow> rl_Decision l \<noteq> ReuseReady \<and>
         (rl_Record l = no_SessionRecord \<or> (\<exists>d. ReuseFingerprint_Digest f = Inr d \<and> reg d = Some (rl_Record l))) \<and>
         (rl_Decision l = ReuseBlocked \<or> rl_Decision l = ReuseMiss)) \<or>
      (\<exists>d r. ReuseFingerprint_Digest f = Inr d \<and> reg d = Some r \<and> sr_State r = SessionReady \<and> owner \<noteq> [] \<and>
         (sr_ClaimOwner r = [] \<or> sr_ClaimOwner r = owner) \<and> SessionRecord_Validate (r\<lparr>sr_ClaimOwner := owner\<rparr>) = None \<and>
         result = Inr (ready_lookup (r\<lparr>sr_ClaimOwner := owner\<rparr>)) \<and>
         reg' = reg(d \<mapsto> r\<lparr>sr_ClaimOwner := owner\<rparr>))"
  proof (cases "\<exists>d r. ctx = Some None \<and> \<not> blank owner \<and> ReuseFingerprint_Digest f = Inr d \<and> reg d = Some r \<and>
      sr_State r = SessionReady \<and> (sr_ClaimOwner r = [] \<or> sr_ClaimOwner r = owner) \<and>
      SessionRecord_Validate (r\<lparr>sr_ClaimOwner := owner\<rparr>) = None \<and> \<not> has_control owner")
    case True
    with claim records_validD[OF valid] has_owner[of owner] show ?thesis
      by (intro disjI2) (auto simp: MemorySessionRegistry_def memory_Claim_def putLocked_def)
  next
    case False
    with claim records_validD[OF valid] show ?thesis
      by (intro disjI1)
        (auto simp: MemorySessionRegistry_def memory_Claim_def miss_lookup_def blocked_lookup_def unready_lookup_decision
          putLocked_def split: option.splits sum.splits if_splits)
  qed
next
  fix reg reg' :: memory_registry and ctx f owner result
  assume valid: "records_valid reg" and release: "rg_ReleaseClaim MemorySessionRegistry ctx f owner reg = (result, reg')"
  then show "reg' = reg \<or>
      (\<exists>d r. ReuseFingerprint_Digest f = Inr d \<and> reg d = Some r \<and> owner \<noteq> [] \<and> sr_ClaimOwner r = owner \<and>
         SessionRecord_Validate (r\<lparr>sr_ClaimOwner := []\<rparr>) = None \<and> result = None \<and>
         reg' = reg(d \<mapsto> r\<lparr>sr_ClaimOwner := []\<rparr>))"
    using records_validD[OF valid]
    by (auto simp: MemorySessionRegistry_def memory_ReleaseClaim_def putLocked_def
        split: option.splits sum.splits if_splits)
next
  fix reg reg' :: memory_registry and ctx f owner d r
  assume "rg_ReleaseClaim MemorySessionRegistry ctx f owner reg = (None, reg')" "ReuseFingerprint_Digest f = Inr d"
    "reg d = Some r" "sr_ClaimOwner r \<noteq> []"
  then show "sr_ClaimOwner r = owner"
    by (auto simp: MemorySessionRegistry_def memory_ReleaseClaim_def split: option.splits if_splits)
qed

end
