(* ===== verification/Go_Hash_Eval.thy ===== *)
theory Go_Hash_Eval
  imports Go_Hash
begin

text \<open>
  SHA-256 on bits. The definitions of \<^verbatim>\<open>Go_Hash\<close> compute on machine words, which the kernel evaluates
  slowly; here a word is the list of its 32 bits, least significant first, so that the logical
  operations, the rotations and the carry are structural recursions. The last lemma makes them the
  code equation of \<open>sha256_hex\<close>, and the test vectors of the standard are evaluated with it.
\<close>

type_synonym bits = "bool list"

definition word_of :: "bits \<Rightarrow> 32 word" where
  "word_of bs = horner_sum of_bool 2 bs"

definition is_word :: "bits \<Rightarrow> bool" where
  "is_word bs \<longleftrightarrow> length bs = 32"

fun bits_and :: "bits \<Rightarrow> bits \<Rightarrow> bits" where
  "bits_and (x # xs) (y # ys) = (if x then y else False) # bits_and xs ys"
| "bits_and _ _ = []"

fun bits_xor :: "bits \<Rightarrow> bits \<Rightarrow> bits" where
  "bits_xor (x # xs) (y # ys) = (if x then \<not> y else y) # bits_xor xs ys"
| "bits_xor _ _ = []"

fun bits_not :: "bits \<Rightarrow> bits" where
  "bits_not (x # xs) = (\<not> x) # bits_not xs"
| "bits_not [] = []"

fun bits_add :: "bool \<Rightarrow> bits \<Rightarrow> bits \<Rightarrow> bits" where
  "bits_add carry (x # xs) (y # ys) =
     (if x then if y then carry # bits_add True xs ys else (\<not> carry) # bits_add carry xs ys
      else if y then (\<not> carry) # bits_add carry xs ys else carry # bits_add False xs ys)"
| "bits_add _ _ _ = []"

definition bits_rotr :: "nat \<Rightarrow> bits \<Rightarrow> bits" where
  "bits_rotr n bs = drop n bs @ take n bs"

definition bits_shr :: "nat \<Rightarrow> bits \<Rightarrow> bits" where
  "bits_shr n bs = drop n bs @ replicate n False"

section \<open>The operations agree with those on words\<close>

lemma bits_and_map2: "bits_and xs ys = map2 (\<and>) xs ys"
  by (induction xs ys rule: bits_and.induct) auto

lemma bits_xor_map2: "bits_xor xs ys = map2 (\<noteq>) xs ys"
  by (induction xs ys rule: bits_xor.induct) auto

lemma bits_not_map: "bits_not xs = map Not xs"
  by (induction xs) auto

lemma bit_word_of: "is_word bs \<Longrightarrow> bit (word_of bs) n \<longleftrightarrow> n < 32 \<and> bs ! n"
  by (simp add: is_word_def word_of_def bit_horner_sum_bit_word_iff)

lemma is_word_ops [simp]:
  "is_word xs \<Longrightarrow> is_word ys \<Longrightarrow> is_word (bits_and xs ys)"
  "is_word xs \<Longrightarrow> is_word ys \<Longrightarrow> is_word (bits_xor xs ys)"
  "is_word xs \<Longrightarrow> is_word (bits_not xs)"
  "is_word xs \<Longrightarrow> n \<le> 32 \<Longrightarrow> is_word (bits_rotr n xs)"
  "is_word xs \<Longrightarrow> n \<le> 32 \<Longrightarrow> is_word (bits_shr n xs)"
  by (simp_all add: is_word_def bits_and_map2 bits_xor_map2 bits_not_map bits_rotr_def bits_shr_def)

lemma length_bits_add: "length (bits_add c xs ys) = min (length xs) (length ys)"
  by (induction c xs ys rule: bits_add.induct) auto

lemma is_word_add [simp]: "is_word xs \<Longrightarrow> is_word ys \<Longrightarrow> is_word (bits_add c xs ys)"
  by (simp add: is_word_def length_bits_add)

lemma word_of_and: "is_word xs \<Longrightarrow> is_word ys \<Longrightarrow> word_of (bits_and xs ys) = word_of xs AND word_of ys"
  by (rule bit_word_eqI) (auto simp: bit_word_of bit_and_iff bits_and_map2 is_word_def)

lemma word_of_xor: "is_word xs \<Longrightarrow> is_word ys \<Longrightarrow> word_of (bits_xor xs ys) = word_of xs XOR word_of ys"
  by (rule bit_word_eqI) (auto simp: bit_word_of bit_xor_iff bits_xor_map2 is_word_def)

lemma word_of_not: "is_word xs \<Longrightarrow> word_of (bits_not xs) = NOT (word_of xs)"
  by (rule bit_word_eqI) (auto simp: bit_word_of bit_not_iff bits_not_map is_word_def)

lemma word_of_rotr: "is_word xs \<Longrightarrow> n \<le> 32 \<Longrightarrow> word_of (bits_rotr n xs) = rotr n (word_of xs)"
  by (rule bit_word_eqI)
    (auto simp: bit_word_of bit_or_iff bit_drop_bit_eq bit_push_bit_iff rotr_def bits_rotr_def is_word_def
      nth_append add.commute)

lemma word_of_shr: "is_word xs \<Longrightarrow> n \<le> 32 \<Longrightarrow> word_of (bits_shr n xs) = drop_bit n (word_of xs)"
  by (rule bit_word_eqI)
    (auto simp: bit_word_of bit_drop_bit_eq bits_shr_def is_word_def nth_append add.commute)

lemma horner_bits_add:
  "length xs = length ys \<Longrightarrow>
   \<exists>k. horner_sum of_bool 2 xs + horner_sum of_bool 2 ys + of_bool c =
     horner_sum of_bool 2 (bits_add c xs ys) + 2 ^ length xs * (of_bool k :: 'a::comm_semiring_1)"
proof (induction c xs ys rule: bits_add.induct)
  case (1 c x xs y ys)
  let ?c = "if x = y then x else c"
  have add: "bits_add c (x # xs) (y # ys) = ((x \<noteq> y) \<noteq> c) # bits_add ?c xs ys" by auto
  obtain k where "horner_sum of_bool 2 xs + horner_sum of_bool 2 ys + of_bool ?c =
      horner_sum of_bool 2 (bits_add ?c xs ys) + 2 ^ length xs * (of_bool k :: 'a)"
    using 1 by (cases x; cases y) auto
  note IH = this
  have digit: "of_bool x + of_bool y + of_bool c = (of_bool ((x \<noteq> y) \<noteq> c) + 2 * of_bool ?c :: 'a)"
    by (cases x; cases y; cases c) (simp_all add: numeral_2_eq_2 numeral_3_eq_3)
  have "horner_sum of_bool 2 (x # xs) + horner_sum of_bool 2 (y # ys) + of_bool c =
      (of_bool x + of_bool y + of_bool c) + 2 * (horner_sum of_bool 2 xs + horner_sum of_bool 2 ys :: 'a)"
    by (simp add: algebra_simps)
  also have "\<dots> = of_bool ((x \<noteq> y) \<noteq> c) + 2 * (horner_sum of_bool 2 xs + horner_sum of_bool 2 ys + of_bool ?c)"
    unfolding digit by (simp add: algebra_simps)
  also have "\<dots> = horner_sum of_bool 2 (bits_add c (x # xs) (y # ys)) + 2 ^ length (x # xs) * (of_bool k :: 'a)"
    unfolding add IH by (simp add: algebra_simps)
  finally have "horner_sum of_bool 2 (x # xs) + horner_sum of_bool 2 (y # ys) + of_bool c =
      horner_sum of_bool 2 (bits_add c (x # xs) (y # ys)) + 2 ^ length (x # xs) * (of_bool k :: 'a)" .
  then show ?case by blast
qed auto

lemma word_of_add: "is_word xs \<Longrightarrow> is_word ys \<Longrightarrow> word_of (bits_add False xs ys) = word_of xs + word_of ys"
  using horner_bits_add[of xs ys False, where 'a = "32 word"] by (auto simp: word_of_def is_word_def)

section \<open>The hash on bits\<close>

abbreviation badd :: "bits \<Rightarrow> bits \<Rightarrow> bits" where "badd \<equiv> bits_add False"

definition bits_ch :: "bits \<Rightarrow> bits \<Rightarrow> bits \<Rightarrow> bits" where
  "bits_ch x y z = bits_xor (bits_and x y) (bits_and (bits_not x) z)"

definition bits_maj :: "bits \<Rightarrow> bits \<Rightarrow> bits \<Rightarrow> bits" where
  "bits_maj x y z = bits_xor (bits_xor (bits_and x y) (bits_and x z)) (bits_and y z)"

definition bits_sigma :: "nat \<Rightarrow> nat \<Rightarrow> nat \<Rightarrow> bits \<Rightarrow> bits" where
  "bits_sigma i j k x = bits_xor (bits_xor (bits_rotr i x) (bits_rotr j x)) (bits_rotr k x)"

definition bits_small :: "nat \<Rightarrow> nat \<Rightarrow> nat \<Rightarrow> bits \<Rightarrow> bits" where
  "bits_small i j k x = bits_xor (bits_xor (bits_rotr i x) (bits_rotr j x)) (bits_shr k x)"

lemmas word_of_ops = word_of_and word_of_xor word_of_not word_of_rotr word_of_shr word_of_add

lemmas word_fn_defs = bits_ch_def bits_maj_def bits_sigma_def bits_small_def sha_ch_def sha_maj_def
  big_sigma0_def big_sigma1_def small_sigma0_def small_sigma1_def xor.assoc

lemma word_of_fns:
  "is_word x \<Longrightarrow> is_word y \<Longrightarrow> is_word z \<Longrightarrow> word_of (bits_ch x y z) = sha_ch (word_of x) (word_of y) (word_of z)"
  "is_word x \<Longrightarrow> is_word y \<Longrightarrow> is_word z \<Longrightarrow> word_of (bits_maj x y z) = sha_maj (word_of x) (word_of y) (word_of z)"
  "is_word x \<Longrightarrow> word_of (bits_sigma 2 13 22 x) = big_sigma0 (word_of x)"
  "is_word x \<Longrightarrow> word_of (bits_sigma 6 11 25 x) = big_sigma1 (word_of x)"
  "is_word x \<Longrightarrow> word_of (bits_small 7 18 3 x) = small_sigma0 (word_of x)"
  "is_word x \<Longrightarrow> word_of (bits_small 17 19 10 x) = small_sigma1 (word_of x)"
  by (simp_all add: word_fn_defs word_of_ops)

lemma is_word_fns [simp]:
  "is_word x \<Longrightarrow> is_word y \<Longrightarrow> is_word z \<Longrightarrow> is_word (bits_ch x y z)"
  "is_word x \<Longrightarrow> is_word y \<Longrightarrow> is_word z \<Longrightarrow> is_word (bits_maj x y z)"
  "is_word x \<Longrightarrow> i \<le> 32 \<Longrightarrow> j \<le> 32 \<Longrightarrow> k \<le> 32 \<Longrightarrow> is_word (bits_sigma i j k x)"
  "is_word x \<Longrightarrow> i \<le> 32 \<Longrightarrow> j \<le> 32 \<Longrightarrow> k \<le> 32 \<Longrightarrow> is_word (bits_small i j k x)"
  by (simp_all add: word_fn_defs)

type_synonym bits_state = "bits \<times> bits \<times> bits \<times> bits \<times> bits \<times> bits \<times> bits \<times> bits"

fun state_of :: "bits_state \<Rightarrow> sha_state" where
  "state_of (a, b, c, d, e, f, g, h) =
     (word_of a, word_of b, word_of c, word_of d, word_of e, word_of f, word_of g, word_of h)"

fun is_state :: "bits_state \<Rightarrow> bool" where
  "is_state (a, b, c, d, e, f, g, h) \<longleftrightarrow>
     is_word a \<and> is_word b \<and> is_word c \<and> is_word d \<and> is_word e \<and> is_word f \<and> is_word g \<and> is_word h"

text \<open>The schedule keeps its words newest first.\<close>

fun bits_expand :: "nat \<Rightarrow> bits list \<Rightarrow> bits list" where
  "bits_expand 0 ws = ws"
| "bits_expand (Suc n) ws =
     bits_expand n (badd (badd (badd (bits_small 17 19 10 (ws ! 1)) (ws ! 6)) (bits_small 7 18 3 (ws ! 14))) (ws ! 15) # ws)"

fun bits_round :: "bits_state \<Rightarrow> bits \<times> bits \<Rightarrow> bits_state" where
  "bits_round (a, b, c, d, e, f, g, h) (k, w) =
     (let t1 = badd (badd (badd (badd h (bits_sigma 6 11 25 e)) (bits_ch e f g)) k) w
      in (badd t1 (badd (bits_sigma 2 13 22 a) (bits_maj a b c)), a, b, c, badd d t1, e, f, g))"

fun bits_add_state :: "bits_state \<Rightarrow> bits_state \<Rightarrow> bits_state" where
  "bits_add_state (a, b, c, d, e, f, g, h) (a', b', c', d', e', f', g', h') =
     (badd a a', badd b b', badd c c', badd d d', badd e e', badd f f', badd g g', badd h h')"

definition bits_block :: "bits list \<Rightarrow> bits_state \<Rightarrow> bits list \<Rightarrow> bits_state" where
  "bits_block ks st ws = bits_add_state st (foldl bits_round st (zip ks (rev (bits_expand 48 (rev ws)))))"

function bits_blocks :: "bits list \<Rightarrow> bits_state \<Rightarrow> bits list \<Rightarrow> bits_state" where
  "bits_blocks ks st ws =
     (if length ws < 16 then st else bits_blocks ks (bits_block ks st (take 16 ws)) (drop 16 ws))"
  by pat_completeness auto
termination by (relation "measure (\<lambda>(_, _, ws). length ws)") auto

declare bits_blocks.simps [simp del] sha_blocks.simps [simp del]

lemma bits_expand_words:
  assumes "16 \<le> length ws" and "list_all is_word ws"
  shows "sha_expand n (map word_of (rev ws)) = map word_of (rev (bits_expand n ws)) \<and>
         list_all is_word (bits_expand n ws)"
  using assms
proof (induction n arbitrary: ws)
  case (Suc n)
  have at: "is_word (ws ! i)" if "i < 16" for i
    using that Suc.prems by (simp add: list_all_length)
  let ?w = "badd (badd (badd (bits_small 17 19 10 (ws ! 1)) (ws ! 6)) (bits_small 7 18 3 (ws ! 14))) (ws ! 15)"
  have nth: "map word_of (rev ws) ! (length (map word_of (rev ws)) - Suc i) = word_of (ws ! i)" if "i < 16" for i
    using that Suc.prems(1) by (simp add: rev_nth)
  have w: "is_word ?w" "word_of ?w = small_sigma1 (word_of (ws ! 1)) + word_of (ws ! 6) +
      small_sigma0 (word_of (ws ! 14)) + word_of (ws ! 15)"
    using at by (simp_all add: word_of_fns word_of_add)
  have "sha_expand (Suc n) (map word_of (rev ws)) = sha_expand n (map word_of (rev (?w # ws)))"
    using nth[of 1] nth[of 6] nth[of 14] nth[of 15] w(2) by (simp add: Let_def numeral_eq_Suc)
  also have "\<dots> = map word_of (rev (bits_expand n (?w # ws)))"
    using Suc.IH[of "?w # ws"] Suc.prems w(1) by simp
  finally show ?case using Suc.IH[of "?w # ws"] Suc.prems w(1) by simp
qed simp

lemma bits_round_words:
  assumes "is_state st" and "is_word k" and "is_word w"
  shows "sha_round (state_of st) (word_of k, word_of w) = state_of (bits_round st (k, w)) \<and> is_state (bits_round st (k, w))"
  using assms by (cases st rule: is_state.cases) (simp add: Let_def word_of_fns word_of_add algebra_simps)

lemma bits_rounds_words:
  assumes "is_state st" and "list_all is_word ks" and "list_all is_word ws"
  shows "foldl sha_round (state_of st) (zip (map word_of ks) (map word_of ws)) = state_of (foldl bits_round st (zip ks ws)) \<and>
         is_state (foldl bits_round st (zip ks ws))"
  using assms
proof (induction ks arbitrary: ws st)
  case (Cons k ks)
  then show ?case using bits_round_words[of st k] by (cases ws) (simp_all del: bits_round.simps)
qed simp

lemma bits_add_state_words:
  "is_state s \<Longrightarrow> is_state t \<Longrightarrow>
   sha_add (state_of s) (state_of t) = state_of (bits_add_state s t) \<and> is_state (bits_add_state s t)"
  by (cases s rule: is_state.cases; cases t rule: is_state.cases) (simp add: word_of_add)

lemma bits_block_words:
  assumes "is_state st" and "list_all is_word ks" and "map word_of ks = sha_k" and "list_all is_word ws" and "16 \<le> length ws"
  shows "sha_block (state_of st) (map word_of ws) = state_of (bits_block ks st ws) \<and> is_state (bits_block ks st ws)"
proof -
  let ?ws = "rev (bits_expand 48 (rev ws))"
  have e: "sha_expand 48 (map word_of ws) = map word_of ?ws" "list_all is_word ?ws"
    using bits_expand_words[of "rev ws" 48] assms(4,5) by simp_all
  show ?thesis
    using bits_rounds_words[OF assms(1,2) e(2)] bits_add_state_words[OF assms(1)]
    unfolding sha_block_def bits_block_def e(1) assms(3)[symmetric] by simp
qed

lemma bits_blocks_words:
  assumes "is_state st" and "list_all is_word ks" and "map word_of ks = sha_k" and "list_all is_word ws"
  shows "sha_blocks (state_of st) (map word_of ws) = state_of (bits_blocks ks st ws) \<and> is_state (bits_blocks ks st ws)"
  using assms
proof (induction ks st ws rule: bits_blocks.induct)
  case (1 ks st ws)
  show ?case
  proof (cases "length ws < 16")
    case True
    with 1 show ?thesis by (simp add: bits_blocks.simps sha_blocks.simps)
  next
    case False
    have b: "sha_block (state_of st) (map word_of (take 16 ws)) = state_of (bits_block ks st (take 16 ws)) \<and>
        is_state (bits_block ks st (take 16 ws))"
      using 1 False by (intro bits_block_words) (auto simp: list_all_iff dest: in_set_takeD)
    have d: "list_all is_word (drop 16 ws)" using 1(5) by (auto simp: list_all_iff dest: in_set_dropD)
    from 1(1)[OF False _ 1(3,4) d] b False show ?thesis
      by (simp add: bits_blocks.simps[of ks st ws] sha_blocks.simps[of "state_of st"] take_map drop_map)
  qed
qed

section \<open>Messages and constants as bits\<close>

fun char_bits :: "char \<Rightarrow> bits" where
  "char_bits (Char b0 b1 b2 b3 b4 b5 b6 b7) = [b0, b1, b2, b3, b4, b5, b6, b7]"

definition byte_of :: "bits \<Rightarrow> 32 word" where
  "byte_of bs = horner_sum of_bool 2 bs"

definition length_bits :: "int \<Rightarrow> nat \<Rightarrow> bits" where
  "length_bits n i = map (bit (n div 256 ^ (7 - i))) [0..<8]"

definition bits_pad :: "string \<Rightarrow> bits list" where
  "bits_pad s =
     map char_bits s @ [char_bits (CHR 0x80)] @
     replicate ((119 - length s mod 64) mod 64) (char_bits (CHR 0x00)) @
     map (length_bits (8 * int (length s))) [0..<8]"

fun bits_words :: "bits list \<Rightarrow> bits list" where
  "bits_words (a # b # c # d # bs) = (d @ c @ b @ a) # bits_words bs"
| "bits_words _ = []"

lemma byte_of_char: "byte_of (char_bits c) = byte_word c"
  by (cases c) (simp add: byte_of_def byte_word_def)

lemma of_int_horner: "of_int (horner_sum of_bool 2 bs) = (horner_sum of_bool 2 bs :: 'a::comm_ring_1)"
  by (induction bs) auto

lemma byte_of_length: "byte_of (length_bits n i) = of_int (n div 256 ^ (7 - i) mod 256)"
proof -
  have "horner_sum of_bool 2 (length_bits n i) = take_bit 8 (n div 256 ^ (7 - i))"
    unfolding length_bits_def by (rule horner_sum_bit_eq_take_bit)
  then show ?thesis
    using of_int_horner[of "length_bits n i", where 'a = "32 word"] by (simp add: byte_of_def take_bit_eq_mod)
qed

lemma map_byte_of_pad: "map byte_of (bits_pad s) = sha_pad s"
proof -
  have "byte_of (char_bits (CHR 0x80)) = 0x80" "byte_of (char_bits (CHR 0x00)) = 0"
    by (simp_all add: byte_of_def)
  then show ?thesis
    by (simp add: bits_pad_def sha_pad_def byte_of_char byte_of_length comp_def)
qed

lemma length_bits_pad: "list_all (\<lambda>b. length b = 8) (bits_pad s)"
proof -
  have "length (char_bits c) = 8" for c by (cases c) simp
  then show ?thesis by (auto simp: bits_pad_def length_bits_def list_all_iff)
qed

lemma bits_words_be:
  "list_all (\<lambda>b. length b = 8) bs \<Longrightarrow>
   be_words (map byte_of bs) = map word_of (bits_words bs) \<and> list_all is_word (bits_words bs)"
  by (induction bs rule: bits_words.induct)
    (auto simp: is_word_def word_of_def byte_of_def horner_sum_append algebra_simps)

definition hex_table :: "(char \<times> bits) list" where
  "hex_table =
     [(CHR ''0'', [False, False, False, False]),
      (CHR ''1'', [True, False, False, False]),
      (CHR ''2'', [False, True, False, False]),
      (CHR ''3'', [True, True, False, False]),
      (CHR ''4'', [False, False, True, False]),
      (CHR ''5'', [True, False, True, False]),
      (CHR ''6'', [False, True, True, False]),
      (CHR ''7'', [True, True, True, False]),
      (CHR ''8'', [False, False, False, True]),
      (CHR ''9'', [True, False, False, True]),
      (CHR ''a'', [False, True, False, True]),
      (CHR ''b'', [True, True, False, True]),
      (CHR ''c'', [False, False, True, True]),
      (CHR ''d'', [True, False, True, True]),
      (CHR ''e'', [False, True, True, True]),
      (CHR ''f'', [True, True, True, True])]"

definition hex_bits :: "string \<Rightarrow> bits" where
  "hex_bits s = concat (rev (map (\<lambda>c. the (map_of hex_table c)) s))"

definition bits_k :: "bits list" where
  "bits_k = map hex_bits
     [''428a2f98'', ''71374491'', ''b5c0fbcf'', ''e9b5dba5'', ''3956c25b'', ''59f111f1'', ''923f82a4'', ''ab1c5ed5'',
      ''d807aa98'', ''12835b01'', ''243185be'', ''550c7dc3'', ''72be5d74'', ''80deb1fe'', ''9bdc06a7'', ''c19bf174'',
      ''e49b69c1'', ''efbe4786'', ''0fc19dc6'', ''240ca1cc'', ''2de92c6f'', ''4a7484aa'', ''5cb0a9dc'', ''76f988da'',
      ''983e5152'', ''a831c66d'', ''b00327c8'', ''bf597fc7'', ''c6e00bf3'', ''d5a79147'', ''06ca6351'', ''14292967'',
      ''27b70a85'', ''2e1b2138'', ''4d2c6dfc'', ''53380d13'', ''650a7354'', ''766a0abb'', ''81c2c92e'', ''92722c85'',
      ''a2bfe8a1'', ''a81a664b'', ''c24b8b70'', ''c76c51a3'', ''d192e819'', ''d6990624'', ''f40e3585'', ''106aa070'',
      ''19a4c116'', ''1e376c08'', ''2748774c'', ''34b0bcb5'', ''391c0cb3'', ''4ed8aa4a'', ''5b9cca4f'', ''682e6ff3'',
      ''748f82ee'', ''78a5636f'', ''84c87814'', ''8cc70208'', ''90befffa'', ''a4506ceb'', ''bef9a3f7'', ''c67178f2'']"

definition bits_init :: bits_state where
  "bits_init =
     (hex_bits ''6a09e667'', hex_bits ''bb67ae85'', hex_bits ''3c6ef372'', hex_bits ''a54ff53a'',
      hex_bits ''510e527f'', hex_bits ''9b05688c'', hex_bits ''1f83d9ab'', hex_bits ''5be0cd19'')"

lemma bits_k_words: "map word_of bits_k = sha_k" "list_all is_word bits_k"
  by (simp_all add: bits_k_def hex_bits_def hex_table_def word_of_def sha_k_def is_word_def)

lemma bits_init_words: "state_of bits_init = sha_init" "is_state bits_init"
  by (simp_all add: bits_init_def hex_bits_def hex_table_def word_of_def sha_init_def is_word_def)

section \<open>Digits\<close>

definition nibble :: "bool \<Rightarrow> bool \<Rightarrow> bool \<Rightarrow> bool \<Rightarrow> char" where
  "nibble a b c d = hex_digit (of_bool a + 2 * (of_bool b + 2 * (of_bool c + 2 * of_bool d)))"

fun bits_hex :: "bits \<Rightarrow> string" where
  "bits_hex (a # b # c # d # bs) = bits_hex bs @ [nibble a b c d]"
| "bits_hex _ = []"

lemma nibble_code [code]:
  "nibble a b c d =
     (if d then
        (if c then (if b then (if a then CHR ''f'' else CHR ''e'') else (if a then CHR ''d'' else CHR ''c''))
         else (if b then (if a then CHR ''b'' else CHR ''a'') else (if a then CHR ''9'' else CHR ''8'')))
      else
        (if c then (if b then (if a then CHR ''7'' else CHR ''6'') else (if a then CHR ''5'' else CHR ''4''))
         else (if b then (if a then CHR ''3'' else CHR ''2'') else (if a then CHR ''1'' else CHR ''0''))))"
  by (simp add: nibble_def hex_digit_def char_of_def bit_numeral_rec bit_0)

lemma bits_hex_nth:
  "length bs = 4 * n \<Longrightarrow>
   bits_hex bs = map (\<lambda>i. let j = 4 * (n - 1 - i) in nibble (bs ! j) (bs ! (j + 1)) (bs ! (j + 2)) (bs ! (j + 3))) [0..<n]"
proof (induction bs arbitrary: n rule: bits_hex.induct)
  case (1 a b c d bs)
  then obtain m where n: "n = Suc m" and m: "length bs = 4 * m" by (cases n) auto
  have "(a # b # c # d # bs) ! (4 * (Suc m - 1 - i) + k) = bs ! (4 * (m - 1 - i) + k)" if "i < m" for i k
  proof -
    from that have "4 * (Suc m - 1 - i) + k = Suc (Suc (Suc (Suc (4 * (m - 1 - i) + k))))" by linarith
    then show ?thesis by simp
  qed
  from this[where k = 0] this[where k = 1] this[where k = 2] this[where k = 3] 1(1)[OF m] show ?case
    by (simp add: n Let_def)
qed (auto simp: Let_def)

lemma word_nibble:
  assumes "is_word bs" and "j + 3 < 32"
  shows "unat (drop_bit j (word_of bs) AND 15) =
    of_bool (bs ! j) + 2 * (of_bool (bs ! (j + 1)) + 2 * (of_bool (bs ! (j + 2)) + 2 * of_bool (bs ! (j + 3))))"
proof -
  let ?w = "word_of [bs ! j, bs ! (j + 1), bs ! (j + 2), bs ! (j + 3)]"
  have "bit (drop_bit j (word_of bs) AND 15) n \<longleftrightarrow> bit ?w n" if "n < 32" for n
  proof -
    have "bit (15 :: 32 word) n \<longleftrightarrow> n < 4"
      using bit_mask_iff[of 4 n, where 'a = "32 word"] that by (simp add: mask_eq_exp_minus_1)
    moreover have "bit ?w n \<longleftrightarrow> n < 4 \<and> [bs ! j, bs ! (j + 1), bs ! (j + 2), bs ! (j + 3)] ! n"
      using that unfolding word_of_def bit_horner_sum_bit_word_iff by auto
    moreover have "n < 4 \<Longrightarrow> n = 0 \<or> n = 1 \<or> n = 2 \<or> n = 3" by auto
    ultimately show ?thesis
      using assms by (auto simp: bit_and_iff bit_drop_bit_eq bit_word_of add.commute)
  qed
  then have "drop_bit j (word_of bs) AND 15 = ?w" by (intro bit_word_eqI) auto
  then show ?thesis
    by (cases "bs ! j"; cases "bs ! (j + 1)"; cases "bs ! (j + 2)"; cases "bs ! (j + 3)") (simp_all add: word_of_def)
qed

lemma bits_hex_word: "is_word bs \<Longrightarrow> hex_word 8 (word_of bs) = bits_hex bs"
  using bits_hex_nth[of bs 8] by (auto simp: hex_word_def is_word_def[symmetric] word_nibble nibble_def Let_def)

section \<open>The code equation\<close>

lemma sha256_hex_bits [code]:
  "sha256_hex s =
     (case bits_blocks bits_k bits_init (bits_words (bits_pad s)) of
        (a, b, c, d, e, f, g, h) \<Rightarrow> concat (map bits_hex [a, b, c, d, e, f, g, h]))"
proof -
  let ?r = "bits_blocks bits_k bits_init (bits_words (bits_pad s))"
  have "be_words (sha_pad s) = map word_of (bits_words (bits_pad s))" "list_all is_word (bits_words (bits_pad s))"
    using bits_words_be[OF length_bits_pad, of s] by (simp_all add: map_byte_of_pad)
  then have "sha_blocks sha_init (be_words (sha_pad s)) = state_of ?r" "is_state ?r"
    using bits_blocks_words[OF bits_init_words(2) bits_k_words(2,1)] by (simp_all add: bits_init_words(1))
  then show ?thesis
    by (cases ?r rule: is_state.cases) (simp add: sha256_hex_def bits_hex_word)
qed

text \<open>The empty message and \<^verbatim>\<open>abc\<close>, as the standard has them.\<close>

lemma sha256_empty: "sha256_hex [] = ''e3b0c44298fc1c149afbf4c8996fb92427ae41e4649b934ca495991b7852b855''"
  by code_simp

lemma sha256_abc: "sha256_hex ''abc'' = ''ba7816bf8f01cfea414140de5dae2223b00361a396177a9cb410ff61f20015ad''"
  by code_simp

end
