(* ===== verification/Session_Lifecycle.thy ===== *)
theory Session_Lifecycle
  imports Session_Reuse Go_Hash_Eval
begin

text \<open>
  The in-memory registry over time: every sequence of its operations, from the empty registry, keeps
  the records valid and a live session with its stack; claims exclude each other whatever else runs
  between them, a session marked for deletion is out of reach, and the examples show a registry in which all of this happens.
\<close>

inductive registry_step :: "memory_registry \<Rightarrow> memory_registry \<Rightarrow> bool" where
  claim: "memory_Claim ctx f owner reg = (answer, reg') \<Longrightarrow> registry_step reg reg'"
| release: "memory_ReleaseClaim ctx f owner reg = (result, reg') \<Longrightarrow> registry_step reg reg'"
| put: "memory_Put ctx r reg = (result, reg') \<Longrightarrow> registry_step reg reg'"
| pending: "memory_MarkPendingDeletion ctx f refs reg = (result, reg') \<Longrightarrow> registry_step reg reg'"
| cleanup: "memory_MarkCleanupVerified ctx f stackID reg = (result, reg') \<Longrightarrow> registry_step reg reg'"

text \<open>
  What one operation can do to a valid registry: nothing, or store one valid record under its digest,
  which has the stack of a live record that was there before.
\<close>

definition stores :: "memory_registry \<Rightarrow> memory_registry \<Rightarrow> bool" where
  "stores reg reg' \<longleftrightarrow> reg' = reg \<or>
     (\<exists>r. SessionRecord_Validate r = None \<and> reg' = reg(sr_FingerprintHash r \<mapsto> r) \<and>
          (\<forall>old. reg (sr_FingerprintHash r) = Some old \<longrightarrow> sr_Live old \<longrightarrow> sr_StackID old = sr_StackID r))"

lemma stores_putLocked:
  assumes "putLocked r reg = (result, reg')" and "reg (sr_FingerprintHash r) = Some old" and "sr_StackID old = sr_StackID r"
  shows "stores reg reg'"
  using assms(1)
  by (cases rule: putLocked_cases) (use assms(2,3) in \<open>auto simp: stores_def\<close>)

lemma stores_same: "stores reg reg"
  by (simp add: stores_def)

lemma stores_claim:
  assumes "records_valid reg" and "reg d = Some r" and "SessionRecord_Validate (r\<lparr>sr_ClaimOwner := owner\<rparr>) = None"
  shows "stores reg (reg(d \<mapsto> r\<lparr>sr_ClaimOwner := owner\<rparr>))"
  using assms records_validD(2)[OF assms(1,2)]
  unfolding stores_def by (intro disjI2 exI[of _ "r\<lparr>sr_ClaimOwner := owner\<rparr>"]) auto

lemma registry_step_stores:
  assumes "registry_step reg reg'" and valid: "records_valid reg"
  shows "stores reg reg'"
  using assms(1)
proof cases
  case (claim ctx f owner answer)
  then have "rg_Claim MemorySessionRegistry ctx f owner reg = (answer, reg')" by (simp add: MemorySessionRegistry_def)
  from memory.claim_cases[OF valid this] show ?thesis using stores_same stores_claim[OF valid] by metis
next
  case (release ctx f owner result)
  then have "rg_ReleaseClaim MemorySessionRegistry ctx f owner reg = (result, reg')" by (simp add: MemorySessionRegistry_def)
  from memory.release_cases[OF valid this] show ?thesis using stores_same stores_claim[OF valid] by metis
next
  case (put ctx r result)
  then show ?thesis
    by (auto simp: stores_def memory_Put_def split: option.splits if_splits)
next
  case (pending ctx f refs result)
  show ?thesis
  proof (cases "reg' = reg")
    case False
    with pending obtain d r where r: "reg d = Some r" and put: "putLocked (r\<lparr>sr_State := SessionPendingDelete, sr_Live := True,
        sr_CleanupComplete := False, sr_ClaimOwner := [], sr_PendingRefs := refs\<rparr>) reg = (result, reg')"
      by (auto simp: memory_MarkPendingDeletion_def split: option.splits if_splits sum.splits)
    show ?thesis using stores_putLocked[OF put, of r] records_validD(2)[OF valid r] r by simp
  qed (simp add: stores_same)
next
  case (cleanup ctx f stackID result)
  show ?thesis
  proof (cases "reg' = reg")
    case False
    with cleanup obtain d r where r: "reg d = Some r" and put: "putLocked (r\<lparr>sr_State := SessionCleanupVerified, sr_Live := False,
        sr_CleanupComplete := True, sr_ClaimOwner := [], sr_PendingRefs := []\<rparr>) reg = (result, reg')"
      by (auto simp: memory_MarkCleanupVerified_def split: option.splits if_splits sum.splits)
    show ?thesis using stores_putLocked[OF put, of r] records_validD(2)[OF valid r] r by simp
  qed (simp add: stores_same)
qed

lemma stores_valid: "stores reg reg' \<Longrightarrow> records_valid reg \<Longrightarrow> records_valid reg'"
  by (auto simp: stores_def intro: records_valid_update)

lemma registry_steps_valid: "registry_step\<^sup>*\<^sup>* reg reg' \<Longrightarrow> records_valid reg \<Longrightarrow> records_valid reg'"
  by (induction rule: rtranclp_induct) (auto intro: stores_valid registry_step_stores)

lemma new_registry_valid: "records_valid NewMemorySessionRegistry"
  by (simp add: records_valid_def NewMemorySessionRegistry_def)

text \<open>A record that is marked for deletion.\<close>

lemma MarkPendingDeletion_success:
  assumes "memory_MarkPendingDeletion ctx f refs reg = (None, reg')" and "records_valid reg"
  obtains d r where "ReuseFingerprint_Digest f = Inr d" "reg d = Some r" "records_valid reg'"
    "reg' = reg(d \<mapsto> r\<lparr>sr_State := SessionPendingDelete, sr_Live := True, sr_CleanupComplete := False,
                   sr_ClaimOwner := [], sr_PendingRefs := refs\<rparr>)"
proof -
  from assms(1) obtain d r where d: "ReuseFingerprint_Digest f = Inr d" "reg d = Some r"
    "putLocked (r\<lparr>sr_State := SessionPendingDelete, sr_Live := True, sr_CleanupComplete := False,
        sr_ClaimOwner := [], sr_PendingRefs := refs\<rparr>) reg = (None, reg')"
    by (auto simp: memory_MarkPendingDeletion_def split: option.splits if_splits sum.splits)
  with records_validD(2)[OF assms(2) d(2)]
  have "reg' = reg(d \<mapsto> r\<lparr>sr_State := SessionPendingDelete, sr_Live := True, sr_CleanupComplete := False,
                   sr_ClaimOwner := [], sr_PendingRefs := refs\<rparr>)"
    by (auto elim: putLocked_cases)
  moreover have "records_valid reg'"
    using registry_step_stores[OF registry_step.pending[OF assms(1)] assms(2)] assms(2) by (rule stores_valid)
  ultimately show thesis using that d by blast
qed

section \<open>Claims among all operations\<close>

text \<open>
  Runs of all six operations, by anybody. Next to the registry the relation keeps which owner has been granted
  which digest. A grant ends when its owner gives it back, or when a write to the registry leaves a record
  without that owner under the digest, as marking the session for deletion does.
\<close>

definition still_owned :: "memory_registry \<Rightarrow> (string \<times> string) set \<Rightarrow> (string \<times> string) set" where
  "still_owned reg held = {(d, owner) \<in> held. \<exists>r. reg d = Some r \<and> sr_ClaimOwner r = owner}"

inductive session_step ::
  "memory_registry \<times> (string \<times> string) set \<Rightarrow> memory_registry \<times> (string \<times> string) set \<Rightarrow> bool" where
  claims: "claim_step MemorySessionRegistry s t \<Longrightarrow> session_step s t"
| puts: "memory_Put ctx r reg = (result, reg') \<Longrightarrow> session_step (reg, held) (reg', still_owned reg' held)"
| marks_pending: "memory_MarkPendingDeletion ctx f refs reg = (result, reg') \<Longrightarrow>
    session_step (reg, held) (reg', still_owned reg' held)"
| marks_cleanup: "memory_MarkCleanupVerified ctx f stackID reg = (result, reg') \<Longrightarrow>
    session_step (reg, held) (reg', still_owned reg' held)"

lemma still_owned_held: "records_valid reg \<Longrightarrow> memory.held_owned (reg0, held) \<Longrightarrow> memory.held_owned (reg, still_owned reg held)"
  by (auto simp: memory.held_owned_def still_owned_def)

lemma session_step_held_owned: "session_step s t \<Longrightarrow> memory.held_owned s \<Longrightarrow> memory.held_owned t"
proof (induction rule: session_step.induct)
  case (claims s t)
  then show ?case by (rule memory.claim_step_held_owned)
next
  case (puts ctx r reg result reg' held)
  then have "records_valid reg'" using stores_valid[OF registry_step_stores[OF registry_step.put]] by (auto simp: memory.held_owned_def)
  with puts.prems show ?case by (rule still_owned_held[rotated])
next
  case (marks_pending ctx f refs reg result reg' held)
  then have "records_valid reg'" using stores_valid[OF registry_step_stores[OF registry_step.pending]] by (auto simp: memory.held_owned_def)
  with marks_pending.prems show ?case by (rule still_owned_held[rotated])
next
  case (marks_cleanup ctx f stackID reg result reg' held)
  then have "records_valid reg'" using stores_valid[OF registry_step_stores[OF registry_step.cleanup]] by (auto simp: memory.held_owned_def)
  with marks_cleanup.prems show ?case by (rule still_owned_held[rotated])
qed

lemma session_steps_held_owned: "session_step\<^sup>*\<^sup>* s t \<Longrightarrow> memory.held_owned s \<Longrightarrow> memory.held_owned t"
  by (induction rule: rtranclp_induct) (auto intro: session_step_held_owned)

section \<open>A concrete session\<close>

definition ex_fingerprint :: ReuseFingerprint where
  "ex_fingerprint =
     \<lparr>rf_Architecture = ''a'', rf_Fixture = ''f'', rf_BackupSet = ''b'', rf_Observability = ''none'', rf_Edge = ''none'',
      rf_ArtifactDigest = ''d'', rf_SchemaFingerprint = ''s'', rf_MigrationFingerprint = ''m'',
      rf_OwnershipMarker = ''o'', rf_StateBackend = ''t''\<rparr>"

definition ex_digest :: string where
  "ex_digest = ''c7011ea27dd1be8531f9e5132b9a579565205885590bdb96ba679bdbca0025cd''"

definition ex_session :: SessionRecord where
  "ex_session =
     \<lparr>sr_SessionID = ''s1'', sr_Fingerprint = ex_fingerprint, sr_FingerprintHash = ex_digest, sr_StackID = ''k1'',
      sr_WriterID = ''w1'', sr_ClaimOwner = [], sr_State = SessionReady, sr_Live = True, sr_CleanupComplete = False,
      sr_OperationIDs = [], sr_ResourceRefs = [''r1''], sr_FixtureRefs = [''f1''], sr_MigrationRefs = [''m1''],
      sr_BackupRefs = [''b1''], sr_TelemetryRefs = [], sr_EdgeRefs = [], sr_PendingRefs = []\<rparr>"

definition ex_claimed :: SessionRecord where
  "ex_claimed = ex_session\<lparr>sr_ClaimOwner := ''run-1''\<rparr>"

definition ex_registry :: memory_registry where
  "ex_registry = NewMemorySessionRegistry(ex_digest \<mapsto> ex_session)"

lemma ex_fingerprint_valid: "ReuseFingerprint_Validate ex_fingerprint = None"
  by code_simp

lemma ex_fingerprint_hash: "sha256_hex (json_text (ReuseFingerprint_json ex_fingerprint)) = ex_digest"
  by code_simp

lemma ex_fingerprint_digest: "ReuseFingerprint_Digest ex_fingerprint = Inr ex_digest"
  by (simp add: ReuseFingerprint_Digest_def ex_fingerprint_valid ex_fingerprint_hash)

lemma ex_session_safe: "ValidateSecretSafeValue (SessionRecord_json ex_session)"
  by code_simp

lemma ex_claimed_safe: "ValidateSecretSafeValue (SessionRecord_json ex_claimed)"
  by code_simp

text \<open>Everything but the scan and the digest is evaluated directly.\<close>

definition plain_checks :: "SessionRecord \<Rightarrow> bool" where
  "plain_checks r \<longleftrightarrow>
     first_err
       [record_field False ''session ID'' (sr_SessionID r), record_field False ''stack ID'' (sr_StackID r),
        record_field False ''writer ID'' (sr_WriterID r), record_field True ''claim owner'' (sr_ClaimOwner r)] = None \<and>
     sr_FingerprintHash r = ex_digest \<and>
     first_err (state_error r # map (\<lambda>(name, vs). check_references name [] vs) (record_references r) @
       [live_requirements r]) = None"

lemma plain_checks_valid:
  assumes "plain_checks r" and "sr_Fingerprint r = ex_fingerprint" and "ValidateSecretSafeValue (SessionRecord_json r)"
  shows "SessionRecord_Validate r = None"
  using assms by (simp add: SessionRecord_Validate_def plain_checks_def ex_fingerprint_valid ex_fingerprint_digest)

lemma ex_valid:
  shows "SessionRecord_Validate ex_session = None" and "SessionRecord_Validate ex_claimed = None"
proof -
  have "plain_checks ex_session" "plain_checks ex_claimed" by code_simp+
  moreover have "sr_Fingerprint ex_session = ex_fingerprint" "sr_Fingerprint ex_claimed = ex_fingerprint"
    by (simp_all add: ex_claimed_def ex_session_def)
  ultimately show "SessionRecord_Validate ex_session = None" and "SessionRecord_Validate ex_claimed = None"
    by (simp_all add: plain_checks_valid ex_session_safe ex_claimed_safe)
qed

lemma ex_registry_valid: "records_valid ex_registry"
  using ex_valid(1) by (simp add: records_valid_def ex_registry_def NewMemorySessionRegistry_def ex_session_def)

lemma ex_registry_put: "memory_Put (Some None) ex_session NewMemorySessionRegistry = (None, ex_registry)"
  by (simp add: memory_Put_def ex_valid NewMemorySessionRegistry_def ex_registry_def) (simp add: ex_session_def)

lemma ex_claim:
  "memory_Claim (Some None) ex_fingerprint ''run-1'' ex_registry =
     (Inr (ready_lookup ex_claimed), ex_registry(ex_digest \<mapsto> ex_claimed))"
proof -
  have "\<not> blank ''run-1''" "\<not> has_control ''run-1''" by code_simp+
  moreover have "sr_State ex_session = SessionReady" "sr_ClaimOwner ex_session = []" "sr_FingerprintHash ex_claimed = ex_digest"
    by (simp_all add: ex_session_def ex_claimed_def)
  ultimately show ?thesis
    by (simp add: memory_Claim_def ex_fingerprint_digest ex_registry_def ex_valid putLocked_def ex_claimed_def[symmetric])
qed

section \<open>Properties\<close>

text \<open>
  Whatever operations run on a new in-memory registry, in whatever order and with whatever arguments,
  every record it holds passes validation and is stored under the digest of its own fingerprint.
\<close>

lemma registry_records_always_valid:
  assumes "registry_step\<^sup>*\<^sup>* NewMemorySessionRegistry reg" and "reg d = Some r"
  shows "SessionRecord_Validate r = None \<and> sr_FingerprintHash r = d \<and> ReuseFingerprint_Digest (sr_Fingerprint r) = Inr d"
  using records_validD[OF registry_steps_valid[OF assms(1) new_registry_valid] assms(2)] by blast

text \<open>
  C2. Claims exclude each other, whatever operations run on a new in-memory registry in whatever order and by
  whatever owners: the holder of a grant for a digest is the owner recorded there, so two owners never hold a grant
  for the same digest at the same time, and as long as it is held a claim by anybody else for that digest is not
  granted. A grant ends when its owner releases it, or when an operation that writes records (put, mark for
  deletion, mark as cleaned up) leaves a record without that owner under the digest.
\<close>

theorem claims_are_exclusive:
  assumes "session_step\<^sup>*\<^sup>* (NewMemorySessionRegistry, {}) (reg, held)" and "(d, owner) \<in> held"
  shows "(\<exists>r. reg d = Some r \<and> sr_ClaimOwner r = owner) \<and> (\<forall>other. (d, other) \<in> held \<longrightarrow> other = owner) \<and>
    (\<forall>ctx f other lookup reg'. ReuseFingerprint_Digest f = Inr d \<longrightarrow> other \<noteq> owner \<longrightarrow>
       memory_Claim ctx f other reg = (Inr lookup, reg') \<longrightarrow> rl_Decision lookup \<noteq> ReuseReady \<and> reg' = reg)"
proof -
  have "memory.held_owned (reg, held)"
    using session_steps_held_owned[OF assms(1)] new_registry_valid by (simp add: memory.held_owned_def)
  then have valid: "records_valid reg" and owned: "\<And>other. (d, other) \<in> held \<Longrightarrow> other \<noteq> [] \<and> (\<exists>r. reg d = Some r \<and> sr_ClaimOwner r = other)"
    by (auto simp: memory.held_owned_def)
  from owned[OF assms(2)] obtain r where r: "reg d = Some r" "sr_ClaimOwner r = owner" "owner \<noteq> []" by blast
  show ?thesis
  proof (intro conjI allI impI)
    show "\<exists>r. reg d = Some r \<and> sr_ClaimOwner r = owner" using r by blast
    show "other = owner" if "(d, other) \<in> held" for other using owned[OF that] r by auto
    fix ctx f other lookup reg'
    assume d: "ReuseFingerprint_Digest f = Inr d" "other \<noteq> owner" and claim: "memory_Claim ctx f other reg = (Inr lookup, reg')"
    from claim have "rg_Claim MemorySessionRegistry ctx f other reg = (Inr lookup, reg')" by (simp add: MemorySessionRegistry_def)
    from memory.claim_cases[OF valid this] r d show "rl_Decision lookup \<noteq> ReuseReady" and "reg' = reg" by auto
  qed
qed

lemma ex_claim_runs: "session_step\<^sup>*\<^sup>* (NewMemorySessionRegistry, {}) (ex_registry(ex_digest \<mapsto> ex_claimed), {(ex_digest, ''run-1'')})"
proof -
  have "session_step (NewMemorySessionRegistry, {}) (ex_registry, {})"
    using session_step.puts[OF ex_registry_put, of "{}"] by (simp add: still_owned_def)
  moreover have "rg_Claim MemorySessionRegistry (Some None) ex_fingerprint ''run-1'' ex_registry =
      (Inr (ready_lookup ex_claimed), ex_registry(ex_digest \<mapsto> ex_claimed))"
    by (simp add: MemorySessionRegistry_def ex_claim)
  from session_step.claims[OF claim_step.granted[OF this _ ex_fingerprint_digest, of "{}"]]
  have "session_step (ex_registry, {}) (ex_registry(ex_digest \<mapsto> ex_claimed), {(ex_digest, ''run-1'')})"
    by (auto simp: ready_lookup_def)
  ultimately show ?thesis by (rule converse_rtranclp_into_rtranclp[OF _ r_into_rtranclp])
qed

theorem claims_are_exclusive_witness:
  "\<exists>lookup. memory_Claim (Some None) ex_fingerprint ''run-2'' (ex_registry(ex_digest \<mapsto> ex_claimed)) =
     (Inr lookup, ex_registry(ex_digest \<mapsto> ex_claimed)) \<and> rl_Decision lookup \<noteq> ReuseReady"
proof -
  let ?reg = "ex_registry(ex_digest \<mapsto> ex_claimed)"
  have mem: "(ex_digest, ''run-1'') \<in> {(ex_digest, ''run-1'')}" by simp
  have other: "''run-2'' \<noteq> ''run-1''" by simp
  have owner: "\<not> blank ''run-2''" "\<not> has_control ''run-2''" by code_simp+
  have "sr_State ex_claimed = SessionReady" "sr_ClaimOwner ex_claimed = ''run-1''"
    by (simp_all add: ex_claimed_def ex_session_def)
  with owner ex_valid obtain lookup reg' where claim: "memory_Claim (Some None) ex_fingerprint ''run-2'' ?reg = (Inr lookup, reg')"
    by (simp add: memory_Claim_def ex_fingerprint_digest)
  with claims_are_exclusive[OF ex_claim_runs mem, THEN conjunct2, THEN conjunct2, rule_format, OF ex_fingerprint_digest other claim]
  show ?thesis by simp
qed

text \<open>
  No second live writer: an operation that finds a live session under a digest leaves a session of
  the same stack there. Only a session that is no longer live can be replaced by another stack.
\<close>

lemma live_session_keeps_its_stack:
  assumes "registry_step\<^sup>*\<^sup>* NewMemorySessionRegistry reg" and "registry_step reg reg'"
    and "reg d = Some r" and "sr_Live r"
  shows "\<exists>r'. reg' d = Some r' \<and> sr_StackID r' = sr_StackID r"
proof -
  have "stores reg reg'"
    using registry_step_stores[OF assms(2) registry_steps_valid[OF assms(1) new_registry_valid]] .
  with assms(3,4) show ?thesis by (auto simp: stores_def)
qed

text \<open>
  A granted claim can be given back: releasing it with the same owner succeeds and restores the registry
  as it was before the claim, when nobody held it then.
\<close>

lemma claim_release_round_trip:
  assumes "memory_Claim (Some None) f owner reg = (Inr lookup, reg')" and "rl_Decision lookup = ''ready''"
    and "registry_step\<^sup>*\<^sup>* NewMemorySessionRegistry reg"
    and "reg (sr_FingerprintHash (rl_Record lookup)) = Some r" and "sr_ClaimOwner r = []"
  shows "memory_ReleaseClaim (Some None) f owner reg' = (None, reg)"
proof -
  have valid: "records_valid reg" by (rule registry_steps_valid[OF assms(3) new_registry_valid])
  have claim: "rg_Claim MemorySessionRegistry (Some None) f owner reg = (Inr lookup, reg')"
    using assms(1) by (simp add: MemorySessionRegistry_def)
  from memory.claim_cases[OF valid claim] assms(2) obtain d q where q: "ReuseFingerprint_Digest f = Inr d"
    "reg d = Some q" "owner \<noteq> []" "lookup = ready_lookup (q\<lparr>sr_ClaimOwner := owner\<rparr>)"
    "reg' = reg(d \<mapsto> q\<lparr>sr_ClaimOwner := owner\<rparr>)" by auto
  with assms(4) records_validD(2)[OF valid q(2)] have "r = q" by (simp add: ready_lookup_def)
  with assms(5) have "q\<lparr>sr_ClaimOwner := []\<rparr> = q" by simp
  moreover have "\<not> blank owner" "\<not> has_control owner"
    using assms(1) by (auto simp: memory_Claim_def split: if_splits)
  ultimately show ?thesis
    using q records_validD(1,2)[OF valid q(2)]
    by (simp add: memory_ReleaseClaim_def putLocked_def map_upd_triv)
qed

text \<open>
  The checks of \<^verbatim>\<open>ClaimReusableSession\<close> on what a registry returns never reject an answer of the
  in-memory registry: for a valid fingerprint and owner the client returns exactly the registry's claim.
\<close>

lemma ClaimReusableSession_refines_claim:
  assumes "registry_step\<^sup>*\<^sup>* NewMemorySessionRegistry reg" and "ReuseFingerprint_Validate f = None"
    and "\<not> blank owner" and "\<not> has_control owner"
  shows "ClaimReusableSession (Some None) (Some MemorySessionRegistry) f owner reg = memory_Claim (Some None) f owner reg"
proof -
  from assms(2) obtain d where "ReuseFingerprint_Digest f = Inr d" by (auto simp: ReuseFingerprint_Digest_def)
  from memory.ClaimReusableSession_is_claim[OF registry_steps_valid[OF assms(1) new_registry_valid] this assms(3,4)]
  show ?thesis by (simp add: MemorySessionRegistry_def)
qed

text \<open>
  A session marked for deletion is out of reach: the lookup for its fingerprint answers blocked, and so
  does every claim, whoever makes it, while the record itself stays as it is.
\<close>

lemma pending_deletion_blocks_reuse:
  assumes "registry_step\<^sup>*\<^sup>* NewMemorySessionRegistry reg"
    and "memory_MarkPendingDeletion ctx f refs reg = (None, reg')"
    and "\<not> blank owner" and "\<not> has_control owner"
  shows "\<exists>l. FindReusableSession (Some None) (Some MemorySessionRegistry) f reg' = Inr l \<and> rl_Decision l = ''blocked'' \<and>
     ClaimReusableSession (Some None) (Some MemorySessionRegistry) f owner reg' = (Inr l, reg')"
proof -
  have valid: "records_valid reg" by (rule registry_steps_valid[OF assms(1) new_registry_valid])
  from MarkPendingDeletion_success[OF assms(2) valid] obtain d q where d: "ReuseFingerprint_Digest f = Inr d"
    and valid': "records_valid reg'" and reg': "reg' = reg(d \<mapsto> q\<lparr>sr_State := SessionPendingDelete, sr_Live := True,
      sr_CleanupComplete := False, sr_ClaimOwner := [], sr_PendingRefs := refs\<rparr>)" by blast
  then obtain r where r: "reg' d = Some r" "sr_State r = SessionPendingDelete" by simp
  have "memory_Claim (Some None) f owner reg' = (Inr (unready_lookup r), reg')"
    using assms(3,4) d r records_validD(1)[OF valid' r(1)] by (simp add: memory_Claim_def)
  with memory.ClaimReusableSession_is_claim[OF valid' d assms(3,4)] memory.FindReusableSession_view[OF valid' d] r
  show ?thesis by (simp add: MemorySessionRegistry_def unready_lookup_def blocked_lookup_def)
qed

end
