(* ===== verification/Coverage.thy ===== *)
theory Coverage
  imports Secret_Safety
begin

text \<open>
  \<^verbatim>\<open>sdk/coverage.go\<close>: the identity of one certification boundary, its validation and fingerprint, and
  the transitions that may be exercised from a retained baseline. Validation collects problems
  (\<^verbatim>\<open>errors.Join\<close>); a value is valid when there is none. Service majors are a Go map, here an association
  list with distinct keys.
\<close>

record CoverageBoundary =
  cb_Provider :: string
  cb_Regions :: "string list"
  cb_ComputeMode :: string
  cb_KubernetesTopology :: string
  cb_NetworkProfile :: string
  cb_ManagedSelfHostedBoundary :: string
  cb_ServiceMajors :: "(string \<times> string) list"
  cb_ResilienceProfileID :: string
  cb_ObservabilityDestination :: string
  cb_EdgePath :: string
  cb_ArtifactDigest :: string
  cb_SchemaFingerprint :: string
  cb_MigrationFingerprint :: string
  cb_RecoveryFixtureID :: string
  cb_RecoveryDestination :: string
  cb_OwnershipMarker :: string
  cb_ConfigurationFingerprint :: string

datatype coverage_error =
    NotStableID string string
  | CoveragePathInvalid string string
  | CoverageRegionRequired
  | CoverageRegionDuplicate string
  | OwnershipBoundaryInvalid string
  | ServiceMajorsRequired
  | ServiceMajorInvalid string
  | ArtifactDigestRequired
  | CoverageLineRequired string
  | ConfigurationFingerprintMultiline
  | TransitionBaseline "coverage_error list"
  | TransitionNext "coverage_error list"
  | TransitionColdBoundary
  | TransitionNoChange string
  | TransitionChanges string "string list"
  | TransitionNotPermitted string "string list"
  | TransitionUnsupported string

section \<open>Validation\<close>

text \<open>\<^verbatim>\<open>validateID\<close> of \<^verbatim>\<open>sdk/validation.go\<close>.\<close>

definition validateID :: "string \<Rightarrow> string \<Rightarrow> coverage_error list" where
  "validateID name v = (if full_match stableID v then [] else [NotStableID name v])"

text \<open>\<^verbatim>\<open>^[^@\s]+@sha256:[a-f0-9]{64}$\<close>, \<^verbatim>\<open>^[0-9][A-Za-z0-9._+-]*$\<close>, \<^verbatim>\<open>^[a-z][a-z0-9._+:-]*$\<close>\<close>

definition coverageArtifactDigestPattern :: rx where
  "coverageArtifactDigestPattern = rx_seqs
     [rx_plus (RSet (\<lambda>c. c \<noteq> CHR ''@'' \<and> \<not> chr_rx_space c)), rx_lit ''@sha256:'', rx_rep 64 (RSet chr_hex)]"

definition coverageMajorPattern :: rx where
  "coverageMajorPattern = RSeq (RSet chr_digit) (RStar (RSet (\<lambda>c. chr_alnum c \<or> chr_in ''._+-'' c)))"

definition coveragePathPattern :: rx where
  "coveragePathPattern = RSeq (RSet chr_lower) (RStar (RSet (\<lambda>c. chr_lower_digit c \<or> chr_in ''._+:-'' c)))"

definition coverage_path :: "string \<Rightarrow> string \<Rightarrow> coverage_error list" where
  "coverage_path name v = (if full_match coveragePathPattern v then [] else [CoveragePathInvalid name v])"

definition coverage_line :: "string \<Rightarrow> string \<Rightarrow> coverage_error list" where
  "coverage_line name v = (if blank v \<or> has_control v then [CoverageLineRequired name] else [])"

fun coverage_regions :: "string list \<Rightarrow> string list \<Rightarrow> coverage_error list" where
  "coverage_regions seen [] = []"
| "coverage_regions seen (r # rs) =
     validateID ''coverage region'' r @ (if r \<in> set seen then [CoverageRegionDuplicate r] else []) @
     coverage_regions (r # seen) rs"

definition coverage_major :: "string \<times> string \<Rightarrow> coverage_error list" where
  "coverage_major m =
     validateID ''coverage service role'' (fst m) @
     (if full_match coverageMajorPattern (snd m) then [] else [ServiceMajorInvalid (snd m)])"

definition ownership_boundaries :: "string list" where
  "ownership_boundaries = [''managed'', ''self-hosted'', ''mixed'', ''existing'', ''external'']"

definition CoverageBoundary_Validate :: "CoverageBoundary \<Rightarrow> coverage_error list" where
  "CoverageBoundary_Validate b =
     validateID ''coverage provider'' (cb_Provider b) @
     validateID ''coverage compute mode'' (cb_ComputeMode b) @
     validateID ''coverage Kubernetes topology'' (cb_KubernetesTopology b) @
     validateID ''coverage managed/self-hosted boundary'' (cb_ManagedSelfHostedBoundary b) @
     validateID ''coverage resilience profile'' (cb_ResilienceProfileID b) @
     validateID ''coverage recovery fixture'' (cb_RecoveryFixtureID b) @
     (if \<not> blank (cb_NetworkProfile b) then validateID ''coverage network profile'' (cb_NetworkProfile b) else []) @
     coverage_path ''coverage observability destination'' (cb_ObservabilityDestination b) @
     coverage_path ''coverage edge path'' (cb_EdgePath b) @
     coverage_path ''coverage recovery destination'' (cb_RecoveryDestination b) @
     (if cb_Regions b = [] then [CoverageRegionRequired] else []) @
     coverage_regions [] (cb_Regions b) @
     (if cb_ManagedSelfHostedBoundary b \<in> set ownership_boundaries then []
      else [OwnershipBoundaryInvalid (cb_ManagedSelfHostedBoundary b)]) @
     (if cb_ServiceMajors b = [] then [ServiceMajorsRequired] else []) @
     concat (map coverage_major (cb_ServiceMajors b)) @
     (if full_match coverageArtifactDigestPattern (cb_ArtifactDigest b) then [] else [ArtifactDigestRequired]) @
     coverage_line ''schema fingerprint'' (cb_SchemaFingerprint b) @
     coverage_line ''migration fingerprint'' (cb_MigrationFingerprint b) @
     coverage_line ''ownership marker'' (cb_OwnershipMarker b) @
     (if \<not> blank (cb_ConfigurationFingerprint b) \<and> has_control (cb_ConfigurationFingerprint b)
      then [ConfigurationFingerprintMultiline] else [])"

section \<open>Fingerprint\<close>

definition SortedStrings :: "string list \<Rightarrow> string list" where
  "SortedStrings vs = sort vs"

definition CoverageBoundary_json :: "CoverageBoundary \<Rightarrow> json" where
  "CoverageBoundary_json b = JObject (
     [(''provider'', JString (cb_Provider b)), (''regions'', json_strings (cb_Regions b)),
      (''computeMode'', JString (cb_ComputeMode b)), (''kubernetesTopology'', JString (cb_KubernetesTopology b))] @
     omit_string ''networkProfile'' (cb_NetworkProfile b) @
     [(''managedSelfHostedBoundary'', JString (cb_ManagedSelfHostedBoundary b)),
      (''serviceMajors'', json_map (cb_ServiceMajors b)),
      (''resilienceProfileId'', JString (cb_ResilienceProfileID b)),
      (''observabilityDestination'', JString (cb_ObservabilityDestination b)), (''edgePath'', JString (cb_EdgePath b)),
      (''artifactDigest'', JString (cb_ArtifactDigest b)), (''schemaFingerprint'', JString (cb_SchemaFingerprint b)),
      (''migrationFingerprint'', JString (cb_MigrationFingerprint b)),
      (''recoveryFixtureId'', JString (cb_RecoveryFixtureID b)),
      (''recoveryDestination'', JString (cb_RecoveryDestination b)),
      (''ownershipMarker'', JString (cb_OwnershipMarker b))] @
     omit_string ''configurationFingerprint'' (cb_ConfigurationFingerprint b))"

definition CoverageBoundary_Fingerprint :: "CoverageBoundary \<Rightarrow> coverage_error list + string" where
  "CoverageBoundary_Fingerprint b =
     (if CoverageBoundary_Validate b \<noteq> [] then Inl (CoverageBoundary_Validate b)
      else Inr (sha256_hex (json_text (CoverageBoundary_json (b\<lparr>cb_Regions := SortedStrings (cb_Regions b)\<rparr>)))))"

section \<open>Transitions\<close>

abbreviation CoverageTransitionServiceMajor :: string where "CoverageTransitionServiceMajor \<equiv> ''service-major''"
abbreviation CoverageTransitionRestore :: string where "CoverageTransitionRestore \<equiv> ''restore''"
abbreviation CoverageTransitionObservability :: string where "CoverageTransitionObservability \<equiv> ''observability''"
abbreviation CoverageTransitionEdge :: string where "CoverageTransitionEdge \<equiv> ''edge''"
abbreviation CoverageTransitionNone :: string where "CoverageTransitionNone \<equiv> ''none''"
abbreviation CoverageTransitionUnsupported :: string where "CoverageTransitionUnsupported \<equiv> ''unsupported''"

text \<open>\<^verbatim>\<open>strings.Join(values, "\x00")\<close>\<close>

fun join_nul :: "string list \<Rightarrow> string" where
  "join_nul [] = []"
| "join_nul [s] = s"
| "join_nul (s # ss) = s @ CHR 0x00 # join_nul ss"

definition sameStrings :: "string list \<Rightarrow> string list \<Rightarrow> bool" where
  "sameStrings a b \<longleftrightarrow> join_nul (SortedStrings a) = join_nul (SortedStrings b)"

text \<open>\<^verbatim>\<open>b[key]\<close> of a missing key is the empty string.\<close>

definition map_get :: "(string \<times> string) list \<Rightarrow> string \<Rightarrow> string" where
  "map_get m k = (case map_of m k of None \<Rightarrow> [] | Some v \<Rightarrow> v)"

definition sameStringMap :: "(string \<times> string) list \<Rightarrow> (string \<times> string) list \<Rightarrow> bool" where
  "sameStringMap a b \<longleftrightarrow> length a = length b \<and> list_all (\<lambda>(k, v). map_get b k = v) a"

definition coverageDifferences :: "CoverageBoundary \<Rightarrow> CoverageBoundary \<Rightarrow> string list" where
  "coverageDifferences a b =
     (if sameStringMap (cb_ServiceMajors a) (cb_ServiceMajors b) then [] else [''serviceMajors'']) @
     (if cb_ObservabilityDestination a \<noteq> cb_ObservabilityDestination b then [''observabilityDestination''] else []) @
     (if cb_EdgePath a \<noteq> cb_EdgePath b then [''edgePath''] else []) @
     (if cb_RecoveryDestination a \<noteq> cb_RecoveryDestination b then [''recoveryDestination''] else []) @
     (if cb_NetworkProfile a \<noteq> cb_NetworkProfile b then [''networkProfile''] else []) @
     (if cb_ConfigurationFingerprint a \<noteq> cb_ConfigurationFingerprint b then [''configurationFingerprint''] else [])"

definition crosses_cold_boundary :: "CoverageBoundary \<Rightarrow> CoverageBoundary \<Rightarrow> bool" where
  "crosses_cold_boundary a b \<longleftrightarrow>
     cb_Provider a \<noteq> cb_Provider b \<or> \<not> sameStrings (cb_Regions a) (cb_Regions b) \<or>
     cb_ComputeMode a \<noteq> cb_ComputeMode b \<or> cb_KubernetesTopology a \<noteq> cb_KubernetesTopology b \<or>
     cb_NetworkProfile a \<noteq> cb_NetworkProfile b \<or> cb_ManagedSelfHostedBoundary a \<noteq> cb_ManagedSelfHostedBoundary b \<or>
     cb_ResilienceProfileID a \<noteq> cb_ResilienceProfileID b \<or>
     cb_ConfigurationFingerprint a \<noteq> cb_ConfigurationFingerprint b \<or> cb_ArtifactDigest a \<noteq> cb_ArtifactDigest b \<or>
     cb_SchemaFingerprint a \<noteq> cb_SchemaFingerprint b \<or> cb_MigrationFingerprint a \<noteq> cb_MigrationFingerprint b \<or>
     cb_RecoveryFixtureID a \<noteq> cb_RecoveryFixtureID b \<or> cb_OwnershipMarker a \<noteq> cb_OwnershipMarker b"

definition ValidateCoverageTransition :: "CoverageBoundary \<Rightarrow> CoverageBoundary \<Rightarrow> string \<Rightarrow> coverage_error option" where
  "ValidateCoverageTransition baseline next' kind =
     (if CoverageBoundary_Validate baseline \<noteq> [] then Some (TransitionBaseline (CoverageBoundary_Validate baseline))
      else if CoverageBoundary_Validate next' \<noteq> [] then Some (TransitionNext (CoverageBoundary_Validate next'))
      else if crosses_cold_boundary baseline next' then Some TransitionColdBoundary
      else let differences = coverageDifferences baseline next' in
        if differences = [] then
          (if kind = [] \<or> kind = CoverageTransitionNone then None else Some (TransitionNoChange kind))
        else if kind = CoverageTransitionServiceMajor then
          (if differences = [''serviceMajors''] then None else Some (TransitionChanges kind differences))
        else if kind = CoverageTransitionRestore then
          (if differences = [''recoveryDestination''] then None else Some (TransitionChanges kind differences))
        else if kind = CoverageTransitionObservability then
          (if differences = [''observabilityDestination''] then None else Some (TransitionChanges kind differences))
        else if kind = CoverageTransitionEdge then
          (if differences = [''edgePath''] then None else Some (TransitionChanges kind differences))
        else if kind = CoverageTransitionNone \<or> kind = CoverageTransitionUnsupported \<or> kind = [] then
          Some (TransitionNotPermitted kind differences)
        else Some (TransitionUnsupported kind))"

section \<open>What validation gives\<close>

text \<open>A Go map has one value per key.\<close>

definition proper_map :: "('k \<times> 'v) list \<Rightarrow> bool" where
  "proper_map m \<longleftrightarrow> distinct (map fst m)"

lemma validateID_Nil_iff: "validateID name v = [] \<longleftrightarrow> full_match stableID v"
  by (simp add: validateID_def)

text \<open>The characters that occur in a match.\<close>

fun rx_chars :: "rx \<Rightarrow> char \<Rightarrow> bool" where
  "rx_chars (RSet p) c = p c"
| "rx_chars (RSeq r q) c = (rx_chars r c \<or> rx_chars q c)"
| "rx_chars (RAlt r q) c = (rx_chars r c \<or> rx_chars q c)"
| "rx_chars (RStar r) c = rx_chars r c"
| "rx_chars _ c = False"

lemma rx_in_chars: "rx_in r s \<Longrightarrow> c \<in> set s \<Longrightarrow> rx_chars r c"
  by (induction rule: rx_in.induct) auto

lemma stable_id_chars: "full_match stableID v \<Longrightarrow> CHR 0x00 \<notin> set v \<and> v \<noteq> []"
proof -
  assume "full_match stableID v"
  then have m: "rx_in stableID v" by (simp add: full_match_def rx_match_iff)
  have "\<not> rx_chars stableID (CHR 0x00)" "\<not> nullable stableID" by code_simp+
  with m rx_in_chars[OF m] show ?thesis by (auto simp: nullable_iff)
qed

lemma major_nonempty: "full_match coverageMajorPattern v \<Longrightarrow> v \<noteq> []"
  by (auto simp: full_match_def coverageMajorPattern_def)

lemma coverage_regions_Nil_iff:
  "coverage_regions seen rs = [] \<longleftrightarrow> (\<forall>r \<in> set rs. full_match stableID r) \<and> distinct rs \<and> set rs \<inter> set seen = {}"
  by (induction rs arbitrary: seen) (auto simp: validateID_Nil_iff)

lemma coverage_valid:
  assumes "CoverageBoundary_Validate b = []"
  shows "cb_Regions b \<noteq> []" and "\<forall>r \<in> set (cb_Regions b). full_match stableID r" and "distinct (cb_Regions b)"
    and "\<forall>m \<in> set (cb_ServiceMajors b). snd m \<noteq> []"
  using assms major_nonempty
  by (auto simp: CoverageBoundary_Validate_def coverage_regions_Nil_iff coverage_major_def split: if_splits)

lemma join_nul_Cons: "ss \<noteq> [] \<Longrightarrow> join_nul (s # ss) = s @ CHR 0x00 # join_nul ss"
  by (cases ss) auto

lemma split_at_nul:
  assumes "a @ CHR 0x00 # x = b @ CHR 0x00 # y" and "CHR 0x00 \<notin> set a" and "CHR 0x00 \<notin> set b"
  shows "a = b \<and> x = y"
  using assms by (induction a arbitrary: b) (auto simp: Cons_eq_append_conv append_eq_Cons_conv)

lemma join_nul_inj:
  assumes "join_nul xs = join_nul ys" and "xs \<noteq> []" and "ys \<noteq> []"
    and "\<forall>s \<in> set xs \<union> set ys. CHR 0x00 \<notin> set s"
  shows "xs = ys"
  using assms
proof (induction xs arbitrary: ys)
  case (Cons x xs)
  then obtain y ys' where ys: "ys = y # ys'" by (cases ys) auto
  have len: "CHR 0x00 \<notin> set x" "CHR 0x00 \<notin> set y" using Cons.prems ys by auto
  show ?case
  proof (cases "xs = [] \<or> ys' = []")
    case True
    have "xs = [] \<and> ys' = []"
    proof (rule ccontr)
      assume "\<not> ?thesis"
      with True have "CHR 0x00 \<in> set x \<or> CHR 0x00 \<in> set y"
        using Cons.prems(1) ys by (auto simp: join_nul_Cons)
      with len show False by simp
    qed
    with Cons.prems ys show ?thesis by simp
  next
    case False
    with Cons.prems(1) ys have "x @ CHR 0x00 # join_nul xs = y @ CHR 0x00 # join_nul ys'"
      by (simp add: join_nul_Cons)
    with split_at_nul[OF this len] Cons.IH[of ys'] Cons.prems(4) False ys show ?thesis by auto
  qed
qed simp

text \<open>On valid boundaries the two comparisons are what their names say.\<close>

lemma sameStrings_valid:
  assumes "CoverageBoundary_Validate a = []" and "CoverageBoundary_Validate b = []"
  shows "sameStrings (cb_Regions a) (cb_Regions b) \<longleftrightarrow> sort (cb_Regions a) = sort (cb_Regions b)"
proof -
  have "\<forall>s \<in> set (sort (cb_Regions a)) \<union> set (sort (cb_Regions b)). CHR 0x00 \<notin> set s"
    using coverage_valid(2)[OF assms(1)] coverage_valid(2)[OF assms(2)] stable_id_chars by auto
  moreover have "sort (cb_Regions a) \<noteq> []" "sort (cb_Regions b) \<noteq> []"
    using coverage_valid(1)[OF assms(1)] coverage_valid(1)[OF assms(2)] by (metis set_empty set_sort)+
  ultimately show ?thesis
    using join_nul_inj[of "sort (cb_Regions a)" "sort (cb_Regions b)"] by (auto simp: sameStrings_def SortedStrings_def)
qed

lemma sameStringMap_iff:
  assumes "proper_map a" and "proper_map b" and "\<forall>m \<in> set a. snd m \<noteq> []"
  shows "sameStringMap a b \<longleftrightarrow> set a = set b"
proof
  assume same: "sameStringMap a b"
  have "set a \<subseteq> set b"
  proof
    fix p assume "p \<in> set a"
    with same assms(3) have "map_get b (fst p) = snd p" "snd p \<noteq> []" by (auto simp: sameStringMap_def list_all_iff)
    then show "p \<in> set b" by (auto simp: map_get_def split: option.splits dest: map_of_SomeD)
  qed
  moreover have "card (set a) = card (set b)"
    using same assms(1,2) by (simp add: sameStringMap_def proper_map_def distinct_card distinct_map)
  ultimately show "set a = set b" by (simp add: card_subset_eq)
next
  assume "set a = set b"
  with assms show "sameStringMap a b"
    by (auto simp: sameStringMap_def proper_map_def map_get_def list_all_iff distinct_map
        dest: map_of_is_SomeI[of b, unfolded distinct_map] intro: distinct_card[THEN trans, symmetric])
      (metis distinct_card)
qed

lemma sort_key_fst_cong:
  assumes "proper_map a" and "proper_map b" and "set a = set b"
  shows "sort_key fst a = sort_key fst b"
proof -
  have inj: "inj_on fst (set (sort_key fst a))" using assms(1) by (simp add: proper_map_def distinct_map)
  have "distinct (sort_key fst a)" "distinct (sort_key fst b)"
    using assms(1,2) by (simp_all add: proper_map_def distinct_map)
  then have "distinct (map fst (sort_key fst a))" "distinct (map fst (sort_key fst b))"
    using assms by (simp_all add: proper_map_def distinct_map)
  then have "map fst (sort_key fst a) = map fst (sort_key fst b)"
    using assms(3) by (intro sorted_distinct_set_unique) simp_all
  moreover have "inj_on fst (set (sort_key fst a) \<union> set (sort_key fst b))" using inj assms(3) by simp
  ultimately show ?thesis by (rule map_inj_on)
qed

text \<open>The dimensions of a boundary that a fingerprint sees: regions and majors as sets, the rest as they are.\<close>

definition same_boundary :: "CoverageBoundary \<Rightarrow> CoverageBoundary \<Rightarrow> bool" where
  "same_boundary a b \<longleftrightarrow> sort (cb_Regions a) = sort (cb_Regions b) \<and> set (cb_ServiceMajors a) = set (cb_ServiceMajors b) \<and>
     b = a\<lparr>cb_Regions := cb_Regions b, cb_ServiceMajors := cb_ServiceMajors b\<rparr>"

lemma same_boundary_valid:
  assumes "same_boundary a b" and "CoverageBoundary_Validate a = []"
  shows "CoverageBoundary_Validate b = []"
proof -
  have rs: "set (cb_Regions b) = set (cb_Regions a)" "distinct (cb_Regions b) = distinct (cb_Regions a)"
    "cb_Regions b = [] \<longleftrightarrow> cb_Regions a = []"
    using assms(1) unfolding same_boundary_def by (metis set_sort, metis distinct_sort, metis set_empty set_sort)
  have ms: "set (cb_ServiceMajors b) = set (cb_ServiceMajors a)"
    "cb_ServiceMajors b = [] \<longleftrightarrow> cb_ServiceMajors a = []"
    using assms(1) unfolding same_boundary_def by (metis, metis set_empty)
  obtain r m where b: "b = a\<lparr>cb_Regions := r, cb_ServiceMajors := m\<rparr>"
    using assms(1) unfolding same_boundary_def by metis
  show ?thesis
    using assms(2) rs ms by (simp add: b CoverageBoundary_Validate_def coverage_regions_Nil_iff split: if_splits)
qed

lemma same_boundary_fingerprint:
  assumes "same_boundary a b" and "CoverageBoundary_Validate a = []"
    and "proper_map (cb_ServiceMajors a)" and "proper_map (cb_ServiceMajors b)"
  shows "CoverageBoundary_Fingerprint b = CoverageBoundary_Fingerprint a"
proof -
  obtain r m where b: "b = a\<lparr>cb_Regions := r, cb_ServiceMajors := m\<rparr>"
    using assms(1) unfolding same_boundary_def by metis
  have "json_map (cb_ServiceMajors b) = json_map (cb_ServiceMajors a)"
    using sort_key_fst_cong[OF assms(4,3)] assms(1) by (simp add: json_map_def same_boundary_def)
  then have "CoverageBoundary_json (b\<lparr>cb_Regions := SortedStrings (cb_Regions b)\<rparr>) =
      CoverageBoundary_json (a\<lparr>cb_Regions := SortedStrings (cb_Regions a)\<rparr>)"
    using assms(1) by (simp add: b CoverageBoundary_json_def SortedStrings_def same_boundary_def)
  with assms(2) same_boundary_valid[OF assms(1,2)] show ?thesis by (simp add: CoverageBoundary_Fingerprint_def)
qed

text \<open>What an accepted transition has established.\<close>

lemma transition_accepted:
  assumes "ValidateCoverageTransition a b kind = None"
  shows "CoverageBoundary_Validate a = []" and "CoverageBoundary_Validate b = []"
    and "\<not> crosses_cold_boundary a b"
    and "(kind = [] \<or> kind = ''none'') \<and> coverageDifferences a b = [] \<or>
         kind = ''service-major'' \<and> coverageDifferences a b = [''serviceMajors''] \<or>
         kind = ''restore'' \<and> coverageDifferences a b = [''recoveryDestination''] \<or>
         kind = ''observability'' \<and> coverageDifferences a b = [''observabilityDestination''] \<or>
         kind = ''edge'' \<and> coverageDifferences a b = [''edgePath'']"
  using assms by (auto simp: ValidateCoverageTransition_def Let_def split: if_splits)

lemma coverageDifferences_mem:
  "''serviceMajors'' \<in> set (coverageDifferences a b) \<longleftrightarrow> \<not> sameStringMap (cb_ServiceMajors a) (cb_ServiceMajors b)"
  "''observabilityDestination'' \<in> set (coverageDifferences a b) \<longleftrightarrow>
     cb_ObservabilityDestination a \<noteq> cb_ObservabilityDestination b"
  "''edgePath'' \<in> set (coverageDifferences a b) \<longleftrightarrow> cb_EdgePath a \<noteq> cb_EdgePath b"
  "''recoveryDestination'' \<in> set (coverageDifferences a b) \<longleftrightarrow> cb_RecoveryDestination a \<noteq> cb_RecoveryDestination b"
  by (simp_all add: coverageDifferences_def)

section \<open>Properties\<close>

text \<open>
  The fingerprint of a boundary does not depend on the order in which its regions and its service majors
  are listed.
\<close>

lemma coverage_fingerprint_order_free:
  assumes "CoverageBoundary_Validate b = []" and "sort rs = sort (cb_Regions b)"
    and "set ms = set (cb_ServiceMajors b)" and "proper_map ms" and "proper_map (cb_ServiceMajors b)"
  shows "CoverageBoundary_Fingerprint (b\<lparr>cb_Regions := rs, cb_ServiceMajors := ms\<rparr>) = CoverageBoundary_Fingerprint b"
  using assms by (intro same_boundary_fingerprint) (auto simp: same_boundary_def)

definition ex_boundary :: CoverageBoundary where
  "ex_boundary =
     \<lparr>cb_Provider = ''aws'', cb_Regions = [''eu-west-1'', ''eu-central-1''], cb_ComputeMode = ''fargate'',
      cb_KubernetesTopology = ''none'', cb_NetworkProfile = [], cb_ManagedSelfHostedBoundary = ''managed'',
      cb_ServiceMajors = [(''database'', ''8''), (''cache'', ''7'')], cb_ResilienceProfileID = ''standard'',
      cb_ObservabilityDestination = ''none'', cb_EdgePath = ''none'',
      cb_ArtifactDigest = ''app@sha256:c7011ea27dd1be8531f9e5132b9a579565205885590bdb96ba679bdbca0025cd'',
      cb_SchemaFingerprint = ''s1'', cb_MigrationFingerprint = ''m1'', cb_RecoveryFixtureID = ''fixture'',
      cb_RecoveryDestination = ''none'', cb_OwnershipMarker = ''run-1'', cb_ConfigurationFingerprint = []\<rparr>"

lemma ex_boundary_valid: "CoverageBoundary_Validate ex_boundary = []"
  by code_simp

text \<open>
  An accepted transition keeps every cold dimension of the boundary, changes the one dimension its kind
  names and no other; a transition without a kind changes nothing that the fingerprint sees.
\<close>

lemma coverage_transition_changes_only_its_kind:
  assumes "ValidateCoverageTransition a b kind = None"
    and "proper_map (cb_ServiceMajors a)" and "proper_map (cb_ServiceMajors b)"
  shows "sort (cb_Regions a) = sort (cb_Regions b) \<and>
    b = a\<lparr>cb_Regions := cb_Regions b, cb_ServiceMajors := cb_ServiceMajors b,
          cb_ObservabilityDestination := cb_ObservabilityDestination b, cb_EdgePath := cb_EdgePath b,
          cb_RecoveryDestination := cb_RecoveryDestination b\<rparr> \<and>
    (set (cb_ServiceMajors a) = set (cb_ServiceMajors b) \<longleftrightarrow> kind \<noteq> ''service-major'') \<and>
    (cb_ObservabilityDestination a = cb_ObservabilityDestination b \<longleftrightarrow> kind \<noteq> ''observability'') \<and>
    (cb_EdgePath a = cb_EdgePath b \<longleftrightarrow> kind \<noteq> ''edge'') \<and>
    (cb_RecoveryDestination a = cb_RecoveryDestination b \<longleftrightarrow> kind \<noteq> ''restore'')"
proof -
  note acc = transition_accepted[OF assms(1)]
  have majors: "sameStringMap (cb_ServiceMajors a) (cb_ServiceMajors b) \<longleftrightarrow> set (cb_ServiceMajors a) = set (cb_ServiceMajors b)"
    using sameStringMap_iff[OF assms(2,3) coverage_valid(4)[OF acc(1)]] .
  have "sort (cb_Regions a) = sort (cb_Regions b)"
    using acc(3) sameStrings_valid[OF acc(1,2)] by (simp add: crosses_cold_boundary_def)
  moreover have "b = a\<lparr>cb_Regions := cb_Regions b, cb_ServiceMajors := cb_ServiceMajors b,
          cb_ObservabilityDestination := cb_ObservabilityDestination b, cb_EdgePath := cb_EdgePath b,
          cb_RecoveryDestination := cb_RecoveryDestination b\<rparr>"
    using acc(3) by (simp add: crosses_cold_boundary_def)
  moreover have "(sameStringMap (cb_ServiceMajors a) (cb_ServiceMajors b) \<longleftrightarrow> kind \<noteq> ''service-major'') \<and>
    (cb_ObservabilityDestination a = cb_ObservabilityDestination b \<longleftrightarrow> kind \<noteq> ''observability'') \<and>
    (cb_EdgePath a = cb_EdgePath b \<longleftrightarrow> kind \<noteq> ''edge'') \<and>
    (cb_RecoveryDestination a = cb_RecoveryDestination b \<longleftrightarrow> kind \<noteq> ''restore'')"
    using acc(4) coverageDifferences_mem[of a b] by (elim disjE conjE) simp_all
  ultimately show ?thesis unfolding majors by (intro conjI) simp_all
qed

text \<open>
  A transition whose kind is none of the four named ones is accepted only between boundaries with the same
  fingerprint; so a warm run to a different fingerprint always has its changed dimension named.
\<close>

lemma coverage_transition_unnamed_same_fingerprint:
  assumes "ValidateCoverageTransition a b kind = None"
    and "kind \<notin> {''service-major'', ''restore'', ''observability'', ''edge''}"
    and "proper_map (cb_ServiceMajors a)" and "proper_map (cb_ServiceMajors b)"
  shows "CoverageBoundary_Fingerprint b = CoverageBoundary_Fingerprint a"
proof -
  note acc = transition_accepted[OF assms(1)]
  from acc(4) assms(2) have "coverageDifferences a b = []" by auto
  then have same: "sameStringMap (cb_ServiceMajors a) (cb_ServiceMajors b)"
    "cb_ObservabilityDestination a = cb_ObservabilityDestination b" "cb_EdgePath a = cb_EdgePath b"
    "cb_RecoveryDestination a = cb_RecoveryDestination b"
    using coverageDifferences_mem[of a b] by simp_all
  have "same_boundary a b"
    using same acc(3) sameStrings_valid[OF acc(1,2)] sameStringMap_iff[OF assms(3,4) coverage_valid(4)[OF acc(1)]]
    by (simp add: same_boundary_def crosses_cold_boundary_def)
  from same_boundary_fingerprint[OF this acc(1) assms(3,4)] show ?thesis .
qed

end
