(* ===== verification/Local_Capacity.thy ===== *)
theory Local_Capacity
  imports Go_Context
begin

text \<open>
  \<^verbatim>\<open>internal/certification/local_capacity.go\<close>: the reservation of runner CPU and memory that every unit of a
  schedule holds while it runs. \<^verbatim>\<open>Acquire\<close> is called by many goroutines at once. Its critical sections, each
  under the mutex, are the operations of the model; between them a goroutine blocks in \<^verbatim>\<open>select\<close>, and the step
  relation interleaves the goroutines in every way the channel and the context allow. Waiters and leases are
  heap objects, kept in two lists and named by their position. The ghost field \<open>wt_selecting\<close> is the program
  counter of the goroutine that owns the waiter: it is still in the \<^verbatim>\<open>select\<close>. Additions and subtractions of
  \<^verbatim>\<open>int64\<close> wrap around.
\<close>

record LocalCapacityRequest =
  lc_CPUMilli :: int
  lc_MemoryMB :: int

datatype capacity_error =
    CapacityCPUNegative
  | CapacityMemoryNegative
  | CapacityReservationRequired
  | CapacityContextRequired
  | CapacityExceeded
  | CapacityContext ctx_error
  | CapacityNilLease
  | CapacityLeaseRequired
  | CapacityForeign string

definition LocalCapacityRequest_Validate :: "LocalCapacityRequest \<Rightarrow> capacity_error option" where
  "LocalCapacityRequest_Validate r =
     first_failure [(lc_CPUMilli r < 0, CapacityCPUNegative), (lc_MemoryMB r < 0, CapacityMemoryNegative)]"

definition capacity_empty :: "LocalCapacityRequest \<Rightarrow> bool" where
  "capacity_empty r \<longleftrightarrow> lc_CPUMilli r = 0 \<and> lc_MemoryMB r = 0"

definition fits :: "LocalCapacityRequest \<Rightarrow> LocalCapacityRequest \<Rightarrow> bool" where
  "fits r available \<longleftrightarrow> lc_CPUMilli r \<le> lc_CPUMilli available \<and> lc_MemoryMB r \<le> lc_MemoryMB available"

definition subtract :: "LocalCapacityRequest \<Rightarrow> LocalCapacityRequest \<Rightarrow> LocalCapacityRequest" where
  "subtract r available =
     \<lparr>lc_CPUMilli = wrap64 (lc_CPUMilli available - lc_CPUMilli r),
      lc_MemoryMB = wrap64 (lc_MemoryMB available - lc_MemoryMB r)\<rparr>"

definition give_back :: "LocalCapacityRequest \<Rightarrow> LocalCapacityRequest \<Rightarrow> LocalCapacityRequest" where
  "give_back r available =
     \<lparr>lc_CPUMilli = wrap64 (lc_CPUMilli available + lc_CPUMilli r),
      lc_MemoryMB = wrap64 (lc_MemoryMB available + lc_MemoryMB r)\<rparr>"

record memoryLocalCapacityWaiter =
  wt_request :: LocalCapacityRequest
  wt_ready :: bool
  wt_queued :: bool
  wt_granted :: bool
  wt_selecting :: bool

record memoryLocalCapacityLease =
  ls_request :: LocalCapacityRequest
  ls_once :: bool

record MemoryLocalCapacityReservation =
  mr_capacity :: LocalCapacityRequest
  mr_available :: LocalCapacityRequest
  mr_waiters :: "nat list"
  mr_waiter_heap :: "memoryLocalCapacityWaiter list"
  mr_lease_heap :: "memoryLocalCapacityLease list"

definition NewMemoryLocalCapacityReservation ::
  "LocalCapacityRequest \<Rightarrow> capacity_error + MemoryLocalCapacityReservation" where
  "NewMemoryLocalCapacityReservation capacity =
     (case LocalCapacityRequest_Validate capacity of
        Some e \<Rightarrow> Inl e
      | None \<Rightarrow> Inr \<lparr>mr_capacity = capacity, mr_available = capacity, mr_waiters = [],
          mr_waiter_heap = [], mr_lease_heap = []\<rparr>)"

section \<open>Critical sections\<close>

text \<open>\<^verbatim>\<open>grantWaitersLocked\<close>: the loop over the head of the queue.\<close>

fun grant_waiters ::
  "nat list \<Rightarrow> LocalCapacityRequest \<Rightarrow> memoryLocalCapacityWaiter list
     \<Rightarrow> nat list \<times> LocalCapacityRequest \<times> memoryLocalCapacityWaiter list" where
  "grant_waiters [] available heap = ([], available, heap)"
| "grant_waiters (w # ws) available heap =
     (let waiter = heap ! w in
      if \<not> fits (wt_request waiter) available then (w # ws, available, heap)
      else grant_waiters ws (subtract (wt_request waiter) available)
        (heap[w := waiter\<lparr>wt_queued := False, wt_granted := True, wt_ready := True\<rparr>]))"

definition grantWaitersLocked :: "MemoryLocalCapacityReservation \<Rightarrow> MemoryLocalCapacityReservation" where
  "grantWaitersLocked m =
     (case grant_waiters (mr_waiters m) (mr_available m) (mr_waiter_heap m) of
        (ws, available, heap) \<Rightarrow> m\<lparr>mr_waiters := ws, mr_available := available, mr_waiter_heap := heap\<rparr>)"

definition new_lease :: "LocalCapacityRequest \<Rightarrow> MemoryLocalCapacityReservation \<Rightarrow> nat \<times> MemoryLocalCapacityReservation" where
  "new_lease r m =
     (length (mr_lease_heap m), m\<lparr>mr_lease_heap := mr_lease_heap m @ [\<lparr>ls_request = r, ls_once = False\<rparr>]\<rparr>)"

text \<open>Where \<^verbatim>\<open>Acquire\<close> stands after its first critical section.\<close>

datatype acquiring =
    AcquireFailed capacity_error
  | AcquireNoop
  | AcquireLease nat
  | AcquireWaits nat

definition acquire_locked :: "LocalCapacityRequest \<Rightarrow> MemoryLocalCapacityReservation \<Rightarrow> acquiring \<times> MemoryLocalCapacityReservation" where
  "acquire_locked r m =
     (if mr_waiters m = [] \<and> fits r (mr_available m) then
        (case new_lease r (m\<lparr>mr_available := subtract r (mr_available m)\<rparr>) of (l, m') \<Rightarrow> (AcquireLease l, m'))
      else
        (let w = length (mr_waiter_heap m) in
         (AcquireWaits w, grantWaitersLocked (m\<lparr>mr_waiters := mr_waiters m @ [w], mr_waiter_heap := mr_waiter_heap m @
            [\<lparr>wt_request = r, wt_ready = False, wt_queued = True, wt_granted = False, wt_selecting = True\<rparr>]\<rparr>))))"

definition acquire_start ::
  "ctx_now \<Rightarrow> LocalCapacityRequest \<Rightarrow> MemoryLocalCapacityReservation \<Rightarrow> acquiring \<times> MemoryLocalCapacityReservation" where
  "acquire_start ctx r m =
     (case ctx of None \<Rightarrow> (AcquireFailed CapacityContextRequired, m)
      | Some err \<Rightarrow> (case LocalCapacityRequest_Validate r of Some e \<Rightarrow> (AcquireFailed e, m)
      | None \<Rightarrow>
          if lc_CPUMilli r > lc_CPUMilli (mr_capacity m) \<or> lc_MemoryMB r > lc_MemoryMB (mr_capacity m)
          then (AcquireFailed CapacityExceeded, m)
          else (case err of Some e \<Rightarrow> (AcquireFailed (CapacityContext e), m)
          | None \<Rightarrow> if capacity_empty r then (AcquireNoop, m) else acquire_locked r m)))"

text \<open>The branch \<^verbatim>\<open><-waiter.ready\<close> of the \<^verbatim>\<open>select\<close>.\<close>

definition acquire_ready :: "nat \<Rightarrow> MemoryLocalCapacityReservation \<Rightarrow> nat \<times> MemoryLocalCapacityReservation" where
  "acquire_ready w m =
     (let waiter = mr_waiter_heap m ! w in
      new_lease (wt_request waiter) (m\<lparr>mr_waiter_heap := (mr_waiter_heap m)[w := waiter\<lparr>wt_selecting := False\<rparr>]\<rparr>))"

definition removeWaiterLocked :: "nat \<Rightarrow> MemoryLocalCapacityReservation \<Rightarrow> MemoryLocalCapacityReservation" where
  "removeWaiterLocked w m =
     (if w \<in> set (mr_waiters m) then
        m\<lparr>mr_waiters := remove1 w (mr_waiters m),
          mr_waiter_heap := (mr_waiter_heap m)[w := (mr_waiter_heap m ! w)\<lparr>wt_queued := False\<rparr>]\<rparr>
      else m)"

text \<open>The branch \<^verbatim>\<open><-ctx.Done()\<close>.\<close>

definition acquire_cancel :: "nat \<Rightarrow> MemoryLocalCapacityReservation \<Rightarrow> MemoryLocalCapacityReservation" where
  "acquire_cancel w m0 =
     (let waiter = mr_waiter_heap m0 ! w;
          m = m0\<lparr>mr_waiter_heap := (mr_waiter_heap m0)[w := waiter\<lparr>wt_selecting := False\<rparr>]\<rparr> in
      if wt_granted waiter then
        grantWaitersLocked (m\<lparr>mr_waiter_heap := (mr_waiter_heap m)[w := (mr_waiter_heap m ! w)\<lparr>wt_granted := False\<rparr>],
          mr_available := give_back (wt_request waiter) (mr_available m)\<rparr>)
      else if wt_queued waiter then grantWaitersLocked (removeWaiterLocked w m)
      else m)"

definition capacity_release :: "LocalCapacityRequest \<Rightarrow> MemoryLocalCapacityReservation \<Rightarrow> MemoryLocalCapacityReservation" where
  "capacity_release r m = grantWaitersLocked (m\<lparr>mr_available := give_back r (mr_available m)\<rparr>)"

definition lease_Release :: "nat \<Rightarrow> MemoryLocalCapacityReservation \<Rightarrow> MemoryLocalCapacityReservation" where
  "lease_Release l m =
     (let lease = mr_lease_heap m ! l in
      if ls_once lease then m
      else capacity_release (ls_request lease) (m\<lparr>mr_lease_heap := (mr_lease_heap m)[l := lease\<lparr>ls_once := True\<rparr>]\<rparr>))"

section \<open>Interleavings\<close>

inductive capacity_step :: "MemoryLocalCapacityReservation \<Rightarrow> MemoryLocalCapacityReservation \<Rightarrow> bool" where
  acquires: "acquire_start ctx r m = (outcome, m') \<Longrightarrow> capacity_step m m'"
| ready: "w < length (mr_waiter_heap m) \<Longrightarrow> wt_selecting (mr_waiter_heap m ! w) \<Longrightarrow> wt_ready (mr_waiter_heap m ! w) \<Longrightarrow>
    acquire_ready w m = (l, m') \<Longrightarrow> capacity_step m m'"
| cancels: "w < length (mr_waiter_heap m) \<Longrightarrow> wt_selecting (mr_waiter_heap m ! w) \<Longrightarrow> capacity_step m (acquire_cancel w m)"
| releases: "l < length (mr_lease_heap m) \<Longrightarrow> capacity_step m (lease_Release l m)"

section \<open>The gate of a unit\<close>

text \<open>
  \<^verbatim>\<open>acquireLocalCapacity\<close>, which the scheduler calls: the reservation is an interface, over a world \<open>'w\<close> that
  moves on while \<^verbatim>\<open>Acquire\<close> waits. A nil reservation and a nil lease are \<open>None\<close>.
\<close>

record 'w LocalCapacityReservation =
  cr_Acquire :: "'w Context \<Rightarrow> LocalCapacityRequest \<Rightarrow> 'w \<Rightarrow> (capacity_error + nat option) \<times> 'w"
  cr_Release :: "nat \<Rightarrow> 'w \<Rightarrow> capacity_error option \<times> 'w"

definition acquireLocalCapacity ::
  "'w Context \<Rightarrow> 'w LocalCapacityReservation option \<Rightarrow> LocalCapacityRequest option \<Rightarrow> 'w
     \<Rightarrow> (capacity_error + nat option) \<times> 'w" where
  "acquireLocalCapacity ctx reservation request w =
     (case request of None \<Rightarrow> (Inr None, w)
      | Some r \<Rightarrow> (case LocalCapacityRequest_Validate r of Some e \<Rightarrow> (Inl e, w)
      | None \<Rightarrow>
          if capacity_empty r then (Inr None, w)
          else (case reservation of None \<Rightarrow> (Inl CapacityReservationRequired, w)
          | Some res \<Rightarrow> (case cr_Acquire res ctx r w of
              (Inl e, w') \<Rightarrow> (Inl e, w')
            | (Inr None, w') \<Rightarrow> (Inl CapacityNilLease, w')
            | (Inr (Some lease), w') \<Rightarrow> (Inr (Some lease), w')))))"

section \<open>The books\<close>

text \<open>What leases and granted waiters hold of one dimension; the rest of the capacity is available.\<close>

definition lease_holds :: "(LocalCapacityRequest \<Rightarrow> int) \<Rightarrow> memoryLocalCapacityLease \<Rightarrow> int" where
  "lease_holds dim l = (if ls_once l then 0 else dim (ls_request l))"

definition waiter_holds :: "(LocalCapacityRequest \<Rightarrow> int) \<Rightarrow> memoryLocalCapacityWaiter \<Rightarrow> int" where
  "waiter_holds dim w = (if wt_granted w \<and> wt_selecting w then dim (wt_request w) else 0)"

definition held :: "(LocalCapacityRequest \<Rightarrow> int) \<Rightarrow> MemoryLocalCapacityReservation \<Rightarrow> int" where
  "held dim m = sum_list (map (lease_holds dim) (mr_lease_heap m)) + sum_list (map (waiter_holds dim) (mr_waiter_heap m))"

definition request_ok :: "MemoryLocalCapacityReservation \<Rightarrow> LocalCapacityRequest \<Rightarrow> bool" where
  "request_ok m r \<longleftrightarrow> 0 \<le> lc_CPUMilli r \<and> 0 \<le> lc_MemoryMB r \<and> fits r (mr_capacity m)"

definition balanced :: "(LocalCapacityRequest \<Rightarrow> int) \<Rightarrow> MemoryLocalCapacityReservation \<Rightarrow> bool" where
  "balanced dim m \<longleftrightarrow> 0 \<le> dim (mr_available m) \<and> dim (mr_capacity m) \<le> MaxInt64 \<and>
     dim (mr_available m) + held dim m = dim (mr_capacity m)"

definition waiter_ok :: "memoryLocalCapacityWaiter \<Rightarrow> bool" where
  "waiter_ok w \<longleftrightarrow> (wt_queued w \<longrightarrow> \<not> wt_granted w \<and> \<not> wt_ready w \<and> wt_selecting w) \<and>
     (wt_granted w \<longrightarrow> wt_ready w) \<and> (wt_selecting w \<longrightarrow> wt_queued w \<or> wt_granted w)"

text \<open>The queue is the waiters that are queued, in the order they came, and nobody overtakes one of them.\<close>

definition queue_ok :: "MemoryLocalCapacityReservation \<Rightarrow> bool" where
  "queue_ok m \<longleftrightarrow> sorted_wrt (<) (mr_waiters m) \<and>
     set (mr_waiters m) = {w. w < length (mr_waiter_heap m) \<and> wt_queued (mr_waiter_heap m ! w)} \<and>
     (\<forall>w v. w < v \<longrightarrow> v < length (mr_waiter_heap m) \<longrightarrow> wt_queued (mr_waiter_heap m ! w) \<longrightarrow> \<not> wt_granted (mr_waiter_heap m ! v))"

definition books_ok :: "MemoryLocalCapacityReservation \<Rightarrow> bool" where
  "books_ok m \<longleftrightarrow> balanced lc_CPUMilli m \<and> balanced lc_MemoryMB m \<and> queue_ok m \<and>
     (\<forall>l \<in> set (mr_lease_heap m). request_ok m (ls_request l)) \<and>
     (\<forall>w \<in> set (mr_waiter_heap m). request_ok m (wt_request w) \<and> waiter_ok w)"

definition head_blocked :: "MemoryLocalCapacityReservation \<Rightarrow> bool" where
  "head_blocked m \<longleftrightarrow>
     (mr_waiters m \<noteq> [] \<longrightarrow> \<not> fits (wt_request (mr_waiter_heap m ! hd (mr_waiters m))) (mr_available m))"

lemma sum_list_put:
  fixes f :: "'a \<Rightarrow> int"
  assumes "i < length xs"
  shows "sum_list (map f (xs[i := y])) = sum_list (map f xs) - f (xs ! i) + f y"
  using assms by (induction xs arbitrary: i) (auto split: nat.splits)

lemma sum_list_nonneg_map:
  fixes f :: "'a \<Rightarrow> int"
  shows "(\<And>x. x \<in> set xs \<Longrightarrow> 0 \<le> f x) \<Longrightarrow> 0 \<le> sum_list (map f xs)"
  by (induction xs) auto

lemma held_nonneg:
  assumes "\<forall>l \<in> set (mr_lease_heap m). 0 \<le> dim (ls_request l)" and "\<forall>w \<in> set (mr_waiter_heap m). 0 \<le> dim (wt_request w)"
  shows "0 \<le> held dim m"
  unfolding held_def using assms
  by (intro add_nonneg_nonneg sum_list_nonneg_map) (auto simp: lease_holds_def waiter_holds_def)

text \<open>Within the capacity nothing wraps around.\<close>

lemma subtract_dims:
  assumes "books_ok m" and "request_ok m r" and "fits r (mr_available m)"
  shows "lc_CPUMilli (subtract r (mr_available m)) = lc_CPUMilli (mr_available m) - lc_CPUMilli r"
    and "lc_MemoryMB (subtract r (mr_available m)) = lc_MemoryMB (mr_available m) - lc_MemoryMB r"
proof -
  have "0 \<le> held lc_CPUMilli m" "0 \<le> held lc_MemoryMB m"
    using assms(1) by (auto simp: books_ok_def request_ok_def intro!: held_nonneg)
  with assms show "lc_CPUMilli (subtract r (mr_available m)) = lc_CPUMilli (mr_available m) - lc_CPUMilli r"
    and "lc_MemoryMB (subtract r (mr_available m)) = lc_MemoryMB (mr_available m) - lc_MemoryMB r"
    by (auto simp: subtract_def books_ok_def balanced_def request_ok_def fits_def intro!: wrap64_id)
qed

section \<open>Granting keeps the books\<close>

definition grant_head :: "MemoryLocalCapacityReservation \<Rightarrow> MemoryLocalCapacityReservation" where
  "grant_head m =
     (let w = hd (mr_waiters m); waiter = mr_waiter_heap m ! w in
      m\<lparr>mr_waiters := tl (mr_waiters m), mr_available := subtract (wt_request waiter) (mr_available m),
        mr_waiter_heap := (mr_waiter_heap m)[w := waiter\<lparr>wt_queued := False, wt_granted := True, wt_ready := True\<rparr>]\<rparr>)"

lemma grantWaitersLocked_rec:
  "grantWaitersLocked m =
     (if mr_waiters m = [] \<or> \<not> fits (wt_request (mr_waiter_heap m ! hd (mr_waiters m))) (mr_available m) then m
      else grantWaitersLocked (grant_head m))"
  by (cases "mr_waiters m") (auto simp: grantWaitersLocked_def grant_head_def Let_def split: prod.splits)

lemma books_ok_waiter:
  assumes "books_ok m" and "w < length (mr_waiter_heap m)"
  shows "request_ok m (wt_request (mr_waiter_heap m ! w))" and "waiter_ok (mr_waiter_heap m ! w)"
  using assms by (auto simp: books_ok_def)

lemma books_ok_grant_head:
  assumes ok: "books_ok m" and ne: "mr_waiters m \<noteq> []"
    and fit: "fits (wt_request (mr_waiter_heap m ! hd (mr_waiters m))) (mr_available m)"
  shows "books_ok (grant_head m)"
proof -
  obtain w ws where ws: "mr_waiters m = w # ws" using ne by (cases "mr_waiters m") auto
  let ?w = "mr_waiter_heap m ! w"
  have q: "queue_ok m" using ok by (simp add: books_ok_def)
  with ws have w: "w < length (mr_waiter_heap m)" "wt_queued ?w" by (auto simp: queue_ok_def)
  from books_ok_waiter[OF ok w(1)] have r: "request_ok m (wt_request ?w)" and wok: "waiter_ok ?w" .
  have later: "w < v" if "v \<in> set ws" for v using q ws that by (simp add: queue_ok_def)
  have queued_later: "w < v" if "v < length (mr_waiter_heap m)" "wt_queued (mr_waiter_heap m ! v)" "v \<noteq> w" for v
  proof -
    have "v \<in> set (w # ws)" using q ws that by (auto simp: queue_ok_def)
    with later that(3) show ?thesis by auto
  qed
  have held: "held dim (grant_head m) = held dim m + dim (wt_request ?w)" for dim
    using w wok by (simp add: grant_head_def ws held_def sum_list_put waiter_holds_def waiter_ok_def Let_def)
  have avail: "mr_available (grant_head m) = subtract (wt_request ?w) (mr_available m)"
    and capacity: "mr_capacity (grant_head m) = mr_capacity m" by (simp_all add: grant_head_def ws Let_def)
  have "balanced lc_CPUMilli (grant_head m)" "balanced lc_MemoryMB (grant_head m)"
    using ok subtract_dims[OF ok r] fit by (simp_all add: balanced_def held books_ok_def fits_def avail capacity ws)
  moreover have still: "wt_queued (mr_waiter_heap (grant_head m) ! v) \<longleftrightarrow> v \<noteq> w \<and> wt_queued (mr_waiter_heap m ! v)" for v
    using w(1) by (simp add: grant_head_def ws Let_def nth_list_update)
  moreover have "queue_ok (grant_head m)"
    unfolding queue_ok_def
  proof (intro conjI allI impI)
    show "sorted_wrt (<) (mr_waiters (grant_head m))" using q ws by (simp add: queue_ok_def grant_head_def Let_def)
    have "v \<in> set ws \<longleftrightarrow> v \<noteq> w \<and> v < length (mr_waiter_heap m) \<and> wt_queued (mr_waiter_heap m ! v)" for v
      using q ws later by (auto simp: queue_ok_def set_eq_iff)
    with still show "set (mr_waiters (grant_head m)) =
        {v. v < length (mr_waiter_heap (grant_head m)) \<and> wt_queued (mr_waiter_heap (grant_head m) ! v)}"
      by (auto simp: grant_head_def ws Let_def)
  next
    fix u v assume uv: "u < v" "v < length (mr_waiter_heap (grant_head m))" "wt_queued (mr_waiter_heap (grant_head m) ! u)"
    then have u: "u < length (mr_waiter_heap m)" "wt_queued (mr_waiter_heap m ! u)" "u \<noteq> w"
      using still by (auto simp: grant_head_def Let_def)
    from queued_later[OF u] uv q u show "\<not> wt_granted (mr_waiter_heap (grant_head m) ! v)"
      by (auto simp: queue_ok_def grant_head_def ws Let_def nth_list_update split: if_splits)
  qed
  moreover have "\<forall>l \<in> set (mr_lease_heap (grant_head m)). request_ok (grant_head m) (ls_request l)"
    using ok by (simp add: books_ok_def grant_head_def request_ok_def Let_def)
  moreover have "\<forall>v \<in> set (mr_waiter_heap (grant_head m)). request_ok (grant_head m) (wt_request v) \<and> waiter_ok v"
    using ok r wok w(2) by (auto simp: books_ok_def grant_head_def ws request_ok_def waiter_ok_def Let_def dest!: set_update_subset_insert[THEN subsetD])
  ultimately show ?thesis by (simp add: books_ok_def)
qed

lemma books_ok_grantWaitersLocked:
  assumes "books_ok m"
  shows "books_ok (grantWaitersLocked m) \<and> head_blocked (grantWaitersLocked m)"
  using assms
proof (induction "length (mr_waiters m)" arbitrary: m)
  case 0
  then have "grantWaitersLocked m = m" by (subst grantWaitersLocked_rec) simp
  with 0 show ?case by (simp add: head_blocked_def)
next
  case (Suc n)
  show ?case
  proof (cases "fits (wt_request (mr_waiter_heap m ! hd (mr_waiters m))) (mr_available m)")
    case True
    have ne: "mr_waiters m \<noteq> []" using Suc.hyps(2) by auto
    from Suc.hyps(2) have "n = length (mr_waiters (grant_head m))" by (simp add: grant_head_def Let_def)
    from Suc.hyps(1)[OF this books_ok_grant_head[OF Suc.prems ne True]] ne True
    show ?thesis by (subst (1 2) grantWaitersLocked_rec) simp
  next
    case False
    with Suc.prems show ?thesis by (subst (1 2) grantWaitersLocked_rec) (simp add: head_blocked_def)
  qed
qed

section \<open>Every step keeps the books\<close>

lemma give_back_dims:
  assumes "0 \<le> lc_CPUMilli available" "lc_CPUMilli available + lc_CPUMilli r \<le> MaxInt64" "0 \<le> lc_CPUMilli r"
    and "0 \<le> lc_MemoryMB available" "lc_MemoryMB available + lc_MemoryMB r \<le> MaxInt64" "0 \<le> lc_MemoryMB r"
  shows "lc_CPUMilli (give_back r available) = lc_CPUMilli available + lc_CPUMilli r"
    and "lc_MemoryMB (give_back r available) = lc_MemoryMB available + lc_MemoryMB r"
  using assms by (simp_all add: give_back_def wrap64_id)

text \<open>Taking back what a lease or a waiter holds.\<close>

lemma books_ok_take_back:
  assumes ok: "books_ok m" and r: "request_ok m r"
    and same: "mr_capacity n = mr_capacity m" "mr_available n = mr_available m"
    and held: "held lc_CPUMilli n = held lc_CPUMilli m - lc_CPUMilli r" "held lc_MemoryMB n = held lc_MemoryMB m - lc_MemoryMB r"
    and queue: "queue_ok n" and leases: "\<forall>l \<in> set (mr_lease_heap n). request_ok n (ls_request l)"
    and waiters: "\<forall>w \<in> set (mr_waiter_heap n). request_ok n (wt_request w) \<and> waiter_ok w"
  shows "books_ok (n\<lparr>mr_available := give_back r (mr_available n)\<rparr>)"
proof -
  have "0 \<le> held lc_CPUMilli n" "0 \<le> held lc_MemoryMB n"
    using leases waiters by (auto simp: request_ok_def intro!: held_nonneg)
  with ok r held have bound: "lc_CPUMilli (mr_available m) + lc_CPUMilli r \<le> MaxInt64"
    "lc_MemoryMB (mr_available m) + lc_MemoryMB r \<le> MaxInt64" "0 \<le> lc_CPUMilli (mr_available m)"
    "0 \<le> lc_MemoryMB (mr_available m)" "0 \<le> lc_CPUMilli r" "0 \<le> lc_MemoryMB r"
    by (auto simp: books_ok_def balanced_def request_ok_def)
  note restored = give_back_dims[of "mr_available m" r, OF bound(3,1,5,4,2,6)]
  have "balanced lc_CPUMilli (n\<lparr>mr_available := give_back r (mr_available n)\<rparr>)"
    "balanced lc_MemoryMB (n\<lparr>mr_available := give_back r (mr_available n)\<rparr>)"
    using ok same held bound by (simp_all add: balanced_def books_ok_def restored held_def)
  with queue leases waiters show ?thesis by (simp add: books_ok_def queue_ok_def request_ok_def)
qed

definition lease_returned :: "nat \<Rightarrow> MemoryLocalCapacityReservation \<Rightarrow> MemoryLocalCapacityReservation" where
  "lease_returned l m =
     (let lease = mr_lease_heap m ! l in
      m\<lparr>mr_lease_heap := (mr_lease_heap m)[l := lease\<lparr>ls_once := True\<rparr>],
        mr_available := give_back (ls_request lease) (mr_available m)\<rparr>)"

lemma lease_Release_alt:
  "lease_Release l m = (if ls_once (mr_lease_heap m ! l) then m else grantWaitersLocked (lease_returned l m))"
  by (simp add: lease_Release_def capacity_release_def lease_returned_def Let_def)

lemma lease_returned_books_ok:
  assumes ok: "books_ok m" and l: "l < length (mr_lease_heap m)" "\<not> ls_once (mr_lease_heap m ! l)"
  shows "books_ok (lease_returned l m)"
proof -
  let ?lease = "mr_lease_heap m ! l"
  let ?n = "m\<lparr>mr_lease_heap := (mr_lease_heap m)[l := ?lease\<lparr>ls_once := True\<rparr>]\<rparr>"
  have r: "request_ok m (ls_request ?lease)" using ok l by (simp add: books_ok_def)
  have "books_ok (?n\<lparr>mr_available := give_back (ls_request ?lease) (mr_available ?n)\<rparr>)"
  proof (rule books_ok_take_back[OF ok r])
    show "\<forall>k \<in> set (mr_lease_heap ?n). request_ok ?n (ls_request k)"
      using ok r by (auto simp: books_ok_def request_ok_def dest!: set_update_subset_insert[THEN subsetD])
  qed (use ok l in \<open>simp_all add: held_def sum_list_put lease_holds_def books_ok_def queue_ok_def request_ok_def\<close>)
  then show ?thesis by (simp add: lease_returned_def Let_def)
qed

lemma release_books_ok:
  assumes "books_ok m" and "head_blocked m" and "l < length (mr_lease_heap m)"
  shows "books_ok (lease_Release l m) \<and> head_blocked (lease_Release l m)"
  using assms books_ok_grantWaitersLocked[OF lease_returned_books_ok[OF assms(1,3)]] by (simp add: lease_Release_alt)

lemma ready_books_ok:
  assumes ok: "books_ok m" and head: "head_blocked m" and w: "w < length (mr_waiter_heap m)"
    and s: "wt_selecting (mr_waiter_heap m ! w)" "wt_ready (mr_waiter_heap m ! w)"
  shows "books_ok (snd (acquire_ready w m)) \<and> head_blocked (snd (acquire_ready w m))"
proof -
  let ?w = "mr_waiter_heap m ! w" and ?n = "snd (acquire_ready w m)"
  from books_ok_waiter[OF ok w] s have r: "request_ok m (wt_request ?w)" and g: "wt_granted ?w" "\<not> wt_queued ?w"
    by (auto simp: waiter_ok_def)
  have n: "mr_capacity ?n = mr_capacity m" "mr_available ?n = mr_available m" "mr_waiters ?n = mr_waiters m"
    "mr_lease_heap ?n = mr_lease_heap m @ [\<lparr>ls_request = wt_request ?w, ls_once = False\<rparr>]"
    "mr_waiter_heap ?n = (mr_waiter_heap m)[w := ?w\<lparr>wt_selecting := False\<rparr>]"
    by (simp_all add: acquire_ready_def new_lease_def Let_def)
  have nth: "wt_queued (mr_waiter_heap ?n ! v) = wt_queued (mr_waiter_heap m ! v)"
    "wt_granted (mr_waiter_heap ?n ! v) = wt_granted (mr_waiter_heap m ! v)"
    "wt_request (mr_waiter_heap ?n ! v) = wt_request (mr_waiter_heap m ! v)" for v
    using w by (simp_all add: n nth_list_update)
  have "held dim ?n = held dim m" for dim
    using w s g by (simp add: held_def n sum_list_put lease_holds_def waiter_holds_def)
  then have "balanced lc_CPUMilli ?n" "balanced lc_MemoryMB ?n" using ok by (simp_all add: balanced_def books_ok_def n)
  moreover have "queue_ok ?n" using ok unfolding books_ok_def queue_ok_def nth by (simp add: n)
  moreover have "\<forall>l \<in> set (mr_lease_heap ?n). request_ok ?n (ls_request l)"
    using ok r by (simp add: books_ok_def n request_ok_def)
  moreover have "\<forall>v \<in> set (mr_waiter_heap ?n). request_ok ?n (wt_request v) \<and> waiter_ok v"
    using ok r s g by (auto simp: books_ok_def n request_ok_def waiter_ok_def dest!: set_update_subset_insert[THEN subsetD])
  ultimately have "books_ok ?n" by (simp add: books_ok_def)
  moreover have "head_blocked ?n" using head unfolding head_blocked_def nth by (simp add: n)
  ultimately show ?thesis ..
qed

definition enqueued :: "LocalCapacityRequest \<Rightarrow> MemoryLocalCapacityReservation \<Rightarrow> MemoryLocalCapacityReservation" where
  "enqueued r m =
     m\<lparr>mr_waiters := mr_waiters m @ [length (mr_waiter_heap m)], mr_waiter_heap := mr_waiter_heap m @
       [\<lparr>wt_request = r, wt_ready = False, wt_queued = True, wt_granted = False, wt_selecting = True\<rparr>]\<rparr>"

lemma acquire_locked_alt:
  "snd (acquire_locked r m) =
     (if mr_waiters m = [] \<and> fits r (mr_available m) then snd (new_lease r (m\<lparr>mr_available := subtract r (mr_available m)\<rparr>))
      else grantWaitersLocked (enqueued r m))"
  by (simp add: acquire_locked_def new_lease_def enqueued_def Let_def)

lemma enqueued_books_ok:
  assumes ok: "books_ok m" and r: "request_ok m r"
  shows "books_ok (enqueued r m)"
proof -
  have "held dim (enqueued r m) = held dim m" for dim by (simp add: held_def waiter_holds_def enqueued_def)
  then have "balanced lc_CPUMilli (enqueued r m)" "balanced lc_MemoryMB (enqueued r m)"
    using ok by (simp_all add: books_ok_def balanced_def enqueued_def)
  moreover have "queue_ok (enqueued r m)"
    using ok by (auto simp: books_ok_def queue_ok_def enqueued_def sorted_wrt_append nth_append less_Suc_eq)
  ultimately show ?thesis using ok r by (auto simp: books_ok_def request_ok_def waiter_ok_def enqueued_def)
qed

lemma acquire_books_ok:
  assumes ok: "books_ok m" and head: "head_blocked m" and r: "request_ok m r"
  shows "books_ok (snd (acquire_locked r m)) \<and> head_blocked (snd (acquire_locked r m))"
proof (cases "mr_waiters m = [] \<and> fits r (mr_available m)")
  case True
  let ?n = "snd (acquire_locked r m)"
  have n: "mr_capacity ?n = mr_capacity m" "mr_available ?n = subtract r (mr_available m)" "mr_waiters ?n = mr_waiters m"
    "mr_lease_heap ?n = mr_lease_heap m @ [\<lparr>ls_request = r, ls_once = False\<rparr>]" "mr_waiter_heap ?n = mr_waiter_heap m"
    using True by (simp_all add: acquire_locked_def new_lease_def)
  have "held dim ?n = held dim m + dim r" for dim by (simp add: held_def n lease_holds_def)
  then have "balanced lc_CPUMilli ?n" "balanced lc_MemoryMB ?n"
    using ok True subtract_dims[OF ok r] by (simp_all add: balanced_def books_ok_def fits_def n)
  with ok r True show ?thesis by (simp add: books_ok_def queue_ok_def head_blocked_def request_ok_def n)
next
  case False
  with books_ok_grantWaitersLocked[OF enqueued_books_ok[OF ok r]] show ?thesis by (auto simp: acquire_locked_alt)
qed

text \<open>A waiter that was granted and leaves by cancellation returns what it holds; a queued one leaves the queue.\<close>

definition grant_returned :: "nat \<Rightarrow> MemoryLocalCapacityReservation \<Rightarrow> MemoryLocalCapacityReservation" where
  "grant_returned w m =
     (let waiter = mr_waiter_heap m ! w in
      m\<lparr>mr_waiter_heap := (mr_waiter_heap m)[w := waiter\<lparr>wt_selecting := False, wt_granted := False\<rparr>],
        mr_available := give_back (wt_request waiter) (mr_available m)\<rparr>)"

definition queue_left :: "nat \<Rightarrow> MemoryLocalCapacityReservation \<Rightarrow> MemoryLocalCapacityReservation" where
  "queue_left w m =
     m\<lparr>mr_waiters := remove1 w (mr_waiters m),
       mr_waiter_heap := (mr_waiter_heap m)[w := (mr_waiter_heap m ! w)\<lparr>wt_selecting := False, wt_queued := False\<rparr>]\<rparr>"

lemma acquire_cancel_alt:
  assumes "books_ok m" and "w < length (mr_waiter_heap m)" and "wt_selecting (mr_waiter_heap m ! w)"
  shows "acquire_cancel w m =
    grantWaitersLocked (if wt_granted (mr_waiter_heap m ! w) then grant_returned w m else queue_left w m)"
proof -
  from books_ok_waiter(2)[OF assms(1,2)] assms(3)
  have "\<not> wt_granted (mr_waiter_heap m ! w) \<Longrightarrow> wt_queued (mr_waiter_heap m ! w)" by (simp add: waiter_ok_def)
  moreover from this assms(1,2) have "\<not> wt_granted (mr_waiter_heap m ! w) \<Longrightarrow> w \<in> set (mr_waiters m)"
    by (simp add: books_ok_def queue_ok_def)
  ultimately show ?thesis using assms(2)
    by (simp add: acquire_cancel_def removeWaiterLocked_def grant_returned_def queue_left_def Let_def)
qed

lemma grant_returned_books_ok:
  assumes ok: "books_ok m" and w: "w < length (mr_waiter_heap m)"
    and s: "wt_selecting (mr_waiter_heap m ! w)" "wt_granted (mr_waiter_heap m ! w)"
  shows "books_ok (grant_returned w m)"
proof -
  let ?w = "mr_waiter_heap m ! w"
  let ?n = "m\<lparr>mr_waiter_heap := (mr_waiter_heap m)[w := ?w\<lparr>wt_selecting := False, wt_granted := False\<rparr>]\<rparr>"
  from books_ok_waiter[OF ok w] s have r: "request_ok m (wt_request ?w)" and q: "\<not> wt_queued ?w" by (auto simp: waiter_ok_def)
  have nth: "wt_queued (mr_waiter_heap ?n ! v) = wt_queued (mr_waiter_heap m ! v)"
    "wt_granted (mr_waiter_heap ?n ! v) \<longleftrightarrow> v \<noteq> w \<and> wt_granted (mr_waiter_heap m ! v)" for v
    using w by (simp_all add: nth_list_update)
  have "books_ok (?n\<lparr>mr_available := give_back (wt_request ?w) (mr_available ?n)\<rparr>)"
  proof (rule books_ok_take_back[OF ok r])
    show "queue_ok ?n" using ok unfolding books_ok_def queue_ok_def nth by auto
    show "\<forall>v \<in> set (mr_waiter_heap ?n). request_ok ?n (wt_request v) \<and> waiter_ok v"
      using ok r q by (auto simp: books_ok_def request_ok_def waiter_ok_def dest!: set_update_subset_insert[THEN subsetD])
  qed (use ok w s in \<open>simp_all add: held_def sum_list_put waiter_holds_def books_ok_def request_ok_def\<close>)
  then show ?thesis by (simp add: grant_returned_def Let_def)
qed

lemma queue_left_books_ok:
  assumes ok: "books_ok m" and w: "w < length (mr_waiter_heap m)" and q: "wt_queued (mr_waiter_heap m ! w)"
  shows "books_ok (queue_left w m)"
proof -
  let ?w = "mr_waiter_heap m ! w" and ?n = "queue_left w m"
  from books_ok_waiter[OF ok w] q have r: "request_ok m (wt_request ?w)" and g: "\<not> wt_granted ?w" by (auto simp: waiter_ok_def)
  have d: "distinct (mr_waiters m)" using ok by (auto simp: books_ok_def queue_ok_def strict_sorted_iff)
  have n: "mr_capacity ?n = mr_capacity m" "mr_available ?n = mr_available m" "mr_waiters ?n = remove1 w (mr_waiters m)"
    "mr_lease_heap ?n = mr_lease_heap m"
    "mr_waiter_heap ?n = (mr_waiter_heap m)[w := ?w\<lparr>wt_selecting := False, wt_queued := False\<rparr>]"
    by (simp_all add: queue_left_def)
  have nth: "wt_queued (mr_waiter_heap ?n ! v) \<longleftrightarrow> v \<noteq> w \<and> wt_queued (mr_waiter_heap m ! v)"
    "wt_granted (mr_waiter_heap ?n ! v) = wt_granted (mr_waiter_heap m ! v)" for v
    using w by (simp_all add: n nth_list_update)
  have "held dim ?n = held dim m" for dim using w g by (simp add: held_def n sum_list_put waiter_holds_def)
  then have "balanced lc_CPUMilli ?n" "balanced lc_MemoryMB ?n" using ok by (simp_all add: books_ok_def balanced_def n)
  moreover have "sorted_wrt (<) (remove1 w (mr_waiters m))"
    using ok d by (simp add: books_ok_def queue_ok_def distinct_remove1_removeAll removeAll_filter_not_eq sorted_wrt_filter)
  then have "queue_ok ?n" using ok d unfolding books_ok_def queue_ok_def nth by (auto simp: n)
  moreover have "\<forall>v \<in> set (mr_waiter_heap ?n). request_ok ?n (wt_request v) \<and> waiter_ok v"
    using ok r g by (auto simp: books_ok_def n request_ok_def waiter_ok_def dest!: set_update_subset_insert[THEN subsetD])
  ultimately show ?thesis using ok by (simp add: books_ok_def request_ok_def n)
qed

lemma cancel_books_ok:
  assumes ok: "books_ok m" and w: "w < length (mr_waiter_heap m)" and s: "wt_selecting (mr_waiter_heap m ! w)"
  shows "books_ok (acquire_cancel w m) \<and> head_blocked (acquire_cancel w m)"
proof -
  have "books_ok (if wt_granted (mr_waiter_heap m ! w) then grant_returned w m else queue_left w m)"
    using grant_returned_books_ok[OF ok w s] queue_left_books_ok[OF ok w] books_ok_waiter(2)[OF ok w] s
    by (auto simp: waiter_ok_def)
  from books_ok_grantWaitersLocked[OF this] show ?thesis by (simp only: acquire_cancel_alt[OF assms])
qed

definition capacity_ok :: "MemoryLocalCapacityReservation \<Rightarrow> bool" where
  "capacity_ok m \<longleftrightarrow> books_ok m \<and> head_blocked m"

lemma acquire_start_cases:
  assumes "acquire_start ctx r m = (outcome, m')"
  shows "m' = m \<or> request_ok m r \<and> m' = snd (acquire_locked r m)"
  using assms
  by (auto simp: acquire_start_def request_ok_def fits_def LocalCapacityRequest_Validate_def split: option.splits if_splits)

lemma acquire_start_ok:
  assumes "capacity_ok m" and "acquire_start ctx r m = (outcome, m')"
  shows "capacity_ok m'"
  using acquire_start_cases[OF assms(2)] assms(1) acquire_books_ok[of m r] by (auto simp: capacity_ok_def)

lemma capacity_step_ok: "capacity_step m m' \<Longrightarrow> capacity_ok m \<Longrightarrow> capacity_ok m'"
proof (induction rule: capacity_step.induct)
  case (acquires ctx r m outcome m')
  then show ?case by (rule acquire_start_ok[rotated])
next
  case (ready w m l m')
  then show ?case using ready_books_ok[of m w] by (simp add: capacity_ok_def)
next
  case (cancels w m)
  then show ?case using cancel_books_ok[of m w] by (simp add: capacity_ok_def)
next
  case (releases l m)
  then show ?case using release_books_ok[of m l] by (simp add: capacity_ok_def)
qed

lemma capacity_steps_ok: "capacity_step\<^sup>*\<^sup>* m m' \<Longrightarrow> capacity_ok m \<Longrightarrow> capacity_ok m'"
  by (induction rule: rtranclp_induct) (auto intro: capacity_step_ok)

lemma new_capacity_ok:
  assumes "NewMemoryLocalCapacityReservation capacity = Inr m"
    and "lc_CPUMilli capacity \<le> MaxInt64" and "lc_MemoryMB capacity \<le> MaxInt64"
  shows "capacity_ok m"
  using assms
  by (auto simp: NewMemoryLocalCapacityReservation_def LocalCapacityRequest_Validate_def capacity_ok_def books_ok_def
      balanced_def held_def queue_ok_def head_blocked_def split: option.splits if_splits)

lemma capacity_constant: "capacity_step m m' \<Longrightarrow> mr_capacity m' = mr_capacity m"
proof (induction rule: capacity_step.induct)
  case (acquires ctx r m outcome m')
  then show ?case
    by (auto simp: acquire_start_def acquire_locked_def new_lease_def grantWaitersLocked_def Let_def
        split: option.splits if_splits prod.splits)
next
  case (ready w m l m')
  then show ?case by (auto simp: acquire_ready_def new_lease_def Let_def)
next
  case (cancels w m)
  show ?case by (simp add: acquire_cancel_def removeWaiterLocked_def grantWaitersLocked_def Let_def split: prod.splits)
next
  case (releases l m)
  show ?case by (simp add: lease_Release_def capacity_release_def grantWaitersLocked_def Let_def split: prod.splits)
qed

lemma capacities_constant: "capacity_step\<^sup>*\<^sup>* m m' \<Longrightarrow> mr_capacity m' = mr_capacity m"
  by (induction rule: rtranclp_induct) (auto dest: capacity_constant)

end
