(* ===== verification/Schedule_Data.thy ===== *)
theory Schedule_Data
  imports Coverage Session_Registry Local_Capacity
begin

text \<open>
  The data of the certification scheduler (\<^verbatim>\<open>internal/certification/scheduler.go\<close>): cells, estimates,
  checkpoints, pending deletions, budgets, execution units, claims and schedules, and the errors its
  operations return. Integers of Go type \<^verbatim>\<open>int64\<close> are integers; where the code adds them the
  wrap-around is written out by \<open>wrap64\<close>.
\<close>

record ExecutionEstimate =
  ee_CloudOperationSeconds :: int
  ee_ResourceLifetimeSeconds :: int
  ee_EstimatedCostCents :: int
  ee_CleanupLatencySeconds :: int
  ee_CostKnown :: bool

record ScheduleCell =
  sc_ID :: string
  sc_Fingerprint :: string
  sc_ReuseFingerprint :: "ReuseFingerprint option"
  sc_WarmBoundary :: string
  sc_WarmFrom :: string
  sc_WarmTransition :: string
  sc_Coverage :: "CoverageBoundary option"
  sc_Dependencies :: "string list"
  sc_MutationKeys :: "string list"
  sc_OwnershipMarker :: string
  sc_Estimate :: ExecutionEstimate
  sc_Status :: string
  sc_Required :: bool

record SchedulerCheckpoint =
  sk_CellID :: string
  sk_Fingerprint :: string
  sk_ReuseFingerprint :: "ReuseFingerprint option"
  sk_OwnershipMarker :: string
  sk_Status :: string
  sk_StackID :: string
  sk_OperationIDs :: "string list"
  sk_ResourceRefs :: "string list"
  sk_BackupRefs :: "string list"
  sk_RestoreRefs :: "string list"
  sk_TelemetryRefs :: "string list"
  sk_EdgeRefs :: "string list"
  sk_ReuseMode :: string
  sk_CleanupState :: string
  sk_UpdatedAt :: string

record PendingDeletion =
  pd_OwnershipMarker :: string
  pd_MutationKeys :: "string list"
  pd_ResourceRefs :: "string list"
  pd_RetryAfter :: string
  pd_Resolved :: bool

record CertificationBudget =
  bu_MaxCloudOperationSeconds :: int
  bu_MaxResourceLifetimeSeconds :: int
  bu_MaxEstimatedCostCents :: int
  bu_MaxCleanupLatencySeconds :: int
  bu_RequireCostEstimate :: bool

record ExecutionUnit =
  eu_ID :: string
  eu_CellIDs :: "string list"
  eu_BaselineCellID :: string
  eu_Fingerprint :: string
  eu_WarmBoundary :: string
  eu_WarmTransition :: string
  eu_Coverage :: "CoverageBoundary option"
  eu_OwnershipMarker :: string
  eu_Cold :: bool
  eu_MigrationOwner :: bool
  eu_DependsOn :: "string list"
  eu_MutationKeys :: "string list"
  eu_Estimate :: ExecutionEstimate
  eu_Required :: bool
  eu_ReuseSessionID :: string
  eu_ReuseFingerprint :: "ReuseFingerprint option"

record SessionClaim =
  cm_Fingerprint :: ReuseFingerprint
  cm_Owner :: string
  cm_SessionID :: string

record Schedule =
  sd_Units :: "ExecutionUnit list"
  sd_Batches :: "string list list"
  sd_LocalCapacity :: "LocalCapacityRequest option"
  sd_ReuseClaims :: "SessionClaim list"
  sd_CompletedCellIDs :: "string list"
  sd_DeferredCellIDs :: "string list"
  sd_BlockedCellIDs :: "string list"
  sd_ColdUnitCount :: int
  sd_WarmTransitionCount :: int
  sd_ReusedCellCount :: int
  sd_CloudOperationSeconds :: int
  sd_ResourceLifetimeSeconds :: int
  sd_EstimatedCostCents :: int
  sd_CleanupLatencySeconds :: int
  sd_CostKnown :: bool
  sd_ReusedSessionCount :: int

abbreviation CapabilityCompatible :: string where "CapabilityCompatible \<equiv> ''magelift-compatible''"
abbreviation CapabilityExperimental :: string where "CapabilityExperimental \<equiv> ''experimental''"
abbreviation CapabilityUnsupported :: string where "CapabilityUnsupported \<equiv> ''unsupported''"
abbreviation CapabilityUnavailable :: string where "CapabilityUnavailable \<equiv> ''unavailable''"
abbreviation CapabilityBlocked :: string where "CapabilityBlocked \<equiv> ''blocked''"

text \<open>One error type per group of checks, and their sum.\<close>

datatype cell_error =
    CellSecretLike
  | CellIDRequired
  | DuplicateCell
  | CellFingerprintInvalid
  | CellReuse registry_error
  | CellReuseOwnership
  | CellReuseDigestMismatch
  | CellWarmBoundaryRequired
  | CellCoverage "coverage_error list"
  | CellTransitionWithoutBaseline
  | CellOwnershipRequired
  | CellMutationKeysRequired
  | CellNegativeEstimate string
  | CellDuplicateMutationKeys
  | CellStatusInvalid string
  | CellWarmsFromItself
  | CellEstimateDiffers

datatype link_error =
    UnknownDependency string
  | SelfDependency
  | DuplicateDependency string
  | WarmUnknownBaseline string
  | WarmCrossesBoundary
  | WarmSameFingerprint
  | WarmIncompleteReuse
  | WarmColdReuse
  | WarmIncompleteCoverage
  | WarmCoverage "coverage_error list"
  | WarmTransitionCoverage coverage_error

datatype checkpoint_error =
    CheckpointSecretLike
  | CheckpointUnknownCell
  | CheckpointDuplicate
  | CheckpointStale
  | CheckpointOwnership
  | CheckpointMissingReuse
  | CheckpointReuse registry_error
  | CheckpointReuseDiffers
  | CheckpointStatusInvalid string
  | CheckpointUpdatedAt

datatype budget_error =
    BudgetNegative string
  | BudgetCloudExceeded
  | BudgetLifetimeExceeded
  | BudgetCostUnknown
  | BudgetSpendUnknown
  | BudgetSpendExceeded
  | BudgetCleanupExceeded
  | EstimateNegative string
  | EstimateOverflow string

datatype plan_error =
    DeletionMarkerRequired
  | DeletionMutationKeys string
  | DeletionDuplicateMarker string
  | DependsOnNonRunnable string string string
  | BlockedByDeletion string string
  | ReuseLookupFailed string registry_error
  | ReuseIsBlocked string string
  | ReuseDecisionUnknown string string
  | CombinesSessions string
  | CombinesNonReusable string
  | CombinesFingerprints string
  | ReuseWithoutBaseline string
  | DependencyNotSchedulable string string
  | BaselineUnscheduled string string
  | NoProgressDependencies
  | NoProgressConstraints

datatype option_error =
    MaxParallelInvalid
  | OptionLocalCapacity capacity_error
  | OptionClaimOwner
  | AdmissionExclusive
  | AdmissionSnapshotWithoutInput
  | AdmissionFailed string
  | AdmissionIsBlocked "string list"
  | ScheduleRegistryRequired

datatype release_error =
    ReleaseRegistryRequired
  | ReleaseContextRequired
  | ReleaseSessionID
  | ReleaseOwner string
  | ReleaseFailed string registry_error

datatype schedule_error =
    NoCells
  | CellError string cell_error
  | LinkError string link_error
  | DuplicateOwnership string
  | DependencyCycle string
  | CheckpointError string checkpoint_error
  | BudgetError budget_error
  | PlanError plan_error
  | OptionError option_error
  | ReleaseError release_error

section \<open>Helpers on string lists\<close>

fun has_dup :: "string list \<Rightarrow> string list \<Rightarrow> bool" where
  "has_dup seen [] = False"
| "has_dup seen (v # vs) = (v = [] \<or> v \<in> set seen \<or> has_dup (v # seen) vs)"

definition hasDuplicate :: "string list \<Rightarrow> bool" where
  "hasDuplicate vs = has_dup [] vs"

definition intersects :: "string list \<Rightarrow> string list \<Rightarrow> bool" where
  "intersects left right \<longleftrightarrow> list_ex (\<lambda>v. v \<in> set left) right"

definition unionSorted :: "string list \<Rightarrow> string list \<Rightarrow> string list" where
  "unionSorted left right = sort (uniq_seen [] (left @ right))"

definition appendUnique :: "string list \<Rightarrow> string \<Rightarrow> string list" where
  "appendUnique vs v = (if v \<in> set vs then vs else vs @ [v])"

definition sortedScheduleStrings :: "string list \<Rightarrow> string list" where
  "sortedScheduleStrings vs = sort vs"

lemma hasDuplicate_iff: "hasDuplicate vs \<longleftrightarrow> [] \<in> set vs \<or> \<not> distinct vs"
proof -
  have "has_dup seen vs \<longleftrightarrow> [] \<in> set vs \<or> \<not> distinct vs \<or> set vs \<inter> set seen \<noteq> {}" for seen
    by (induction vs arbitrary: seen) auto
  from this[of "[]"] show ?thesis by (auto simp: hasDuplicate_def)
qed

lemma intersects_iff: "intersects left right \<longleftrightarrow> set left \<inter> set right \<noteq> {}"
  by (auto simp: intersects_def list_ex_iff)

lemma set_unionSorted [simp]: "set (unionSorted left right) = set left \<union> set right"
  by (simp add: unionSorted_def set_uniq_seen distinct_uniq_seen)

lemma distinct_unionSorted [simp]: "distinct (unionSorted left right)"
  by (simp add: unionSorted_def set_uniq_seen distinct_uniq_seen)

lemma set_appendUnique [simp]: "set (appendUnique vs v) = insert v (set vs)"
  by (auto simp: appendUnique_def)

lemma distinct_appendUnique: "distinct vs \<Longrightarrow> distinct (appendUnique vs v)"
  by (auto simp: appendUnique_def)

section \<open>Estimates at 64 bits\<close>

definition addScheduleEstimate :: "int \<Rightarrow> int \<Rightarrow> string \<Rightarrow> schedule_error + int" where
  "addScheduleEstimate acc value name =
     (if value < 0 then Inl (BudgetError (EstimateNegative name))
      else if acc > wrap64 (MaxInt64 - value) then Inl (BudgetError (EstimateOverflow name))
      else Inr (wrap64 (acc + value)))"

text \<open>A total never wraps: it is the exact acc, or the addition is refused.\<close>

lemma addScheduleEstimate_exact:
  assumes "0 \<le> acc" and "acc \<le> MaxInt64" and "value \<le> MaxInt64"
  shows "addScheduleEstimate acc value name = Inr result \<longleftrightarrow>
     0 \<le> value \<and> acc + value \<le> MaxInt64 \<and> result = acc + value"
proof (cases "0 \<le> value")
  case True
  then have "wrap64 (MaxInt64 - value) = MaxInt64 - value" using assms by (intro wrap64_id) (auto simp: MaxInt64_def)
  moreover have "acc + value \<le> MaxInt64 \<Longrightarrow> wrap64 (acc + value) = acc + value"
    using True assms by (intro wrap64_id) auto
  ultimately show ?thesis using True by (auto simp: addScheduleEstimate_def)
next
  case False
  then show ?thesis by (simp add: addScheduleEstimate_def)
qed

section \<open>JSON\<close>

definition ExecutionEstimate_json :: "ExecutionEstimate \<Rightarrow> json" where
  "ExecutionEstimate_json e = JObject
     [(''cloudOperationSeconds'', JInt (ee_CloudOperationSeconds e)),
      (''resourceLifetimeSeconds'', JInt (ee_ResourceLifetimeSeconds e)),
      (''estimatedCostCents'', JInt (ee_EstimatedCostCents e)),
      (''cleanupLatencySeconds'', JInt (ee_CleanupLatencySeconds e)), (''costKnown'', JBool (ee_CostKnown e))]"

definition ScheduleCell_json :: "ScheduleCell \<Rightarrow> json" where
  "ScheduleCell_json c = JObject (
     [(''id'', JString (sc_ID c)), (''fingerprint'', JString (sc_Fingerprint c))] @
     omit_nil ''reuseFingerprint'' ReuseFingerprint_json (sc_ReuseFingerprint c) @
     [(''warmBoundary'', JString (sc_WarmBoundary c))] @ omit_string ''warmFrom'' (sc_WarmFrom c) @
     omit_string ''warmTransition'' (sc_WarmTransition c) @ omit_nil ''coverage'' CoverageBoundary_json (sc_Coverage c) @
     omit_strings ''dependencies'' (sc_Dependencies c) @
     [(''mutationKeys'', json_strings (sc_MutationKeys c)), (''ownershipMarker'', JString (sc_OwnershipMarker c)),
      (''estimate'', ExecutionEstimate_json (sc_Estimate c)), (''status'', JString (sc_Status c)),
      (''required'', JBool (sc_Required c))])"

definition SchedulerCheckpoint_json :: "SchedulerCheckpoint \<Rightarrow> json" where
  "SchedulerCheckpoint_json k = JObject (
     [(''cellId'', JString (sk_CellID k)), (''fingerprint'', JString (sk_Fingerprint k))] @
     omit_nil ''reuseFingerprint'' ReuseFingerprint_json (sk_ReuseFingerprint k) @
     [(''ownershipMarker'', JString (sk_OwnershipMarker k)), (''status'', JString (sk_Status k))] @
     omit_string ''stackId'' (sk_StackID k) @ omit_strings ''operationIds'' (sk_OperationIDs k) @
     omit_strings ''resourceRefs'' (sk_ResourceRefs k) @ omit_strings ''backupRefs'' (sk_BackupRefs k) @
     omit_strings ''restoreRefs'' (sk_RestoreRefs k) @ omit_strings ''telemetryRefs'' (sk_TelemetryRefs k) @
     omit_strings ''edgeRefs'' (sk_EdgeRefs k) @ omit_string ''reuseMode'' (sk_ReuseMode k) @
     omit_string ''cleanupState'' (sk_CleanupState k) @ omit_string ''updatedAt'' (sk_UpdatedAt k))"

end
