(* ===== verification/Go_Graph.thy ===== *)
theory Go_Graph
  imports Go_Prelude
begin

text \<open>
  The depth-first walk that the source writes four times: over schedule cells
  (\<^verbatim>\<open>scheduleDependencyCycle\<close>), recovery stages (\<^verbatim>\<open>resiliencePlanCycles\<close>) and lifecycle hooks
  (\<^verbatim>\<open>lifecycleCycles\<close>, \<^verbatim>\<open>topologicalHooks\<close>). A graph is the map from a node to its dependencies, as an
  association list; a node without an entry is the zero value of a Go map and has none. The walk keeps
  the nodes being visited (the recursion's path) and the visited ones in the order they were left, and
  stops at the first node found on its own path.
\<close>

type_synonym 'k graph = "('k \<times> 'k list) list"

definition deps :: "'k graph \<Rightarrow> 'k \<Rightarrow> 'k list" where
  "deps g k = (case map_of g k of None \<Rightarrow> [] | Some ds \<Rightarrow> ds)"

function visit_all :: "'k graph \<Rightarrow> 'k list \<Rightarrow> 'k list \<Rightarrow> 'k list \<Rightarrow> 'k + 'k list" where
  "visit_all g [] visiting visited = Inr visited"
| "visit_all g (n # ns) visiting visited =
     (if n \<in> set visiting then Inl n
      else if n \<in> set visited then visit_all g ns visiting visited
      else case visit_all g (deps g n) (n # visiting) visited of
        Inl e \<Rightarrow> Inl e
      | Inr visited' \<Rightarrow> visit_all g ns visiting (visited' @ [n]))"
  by pat_completeness auto

termination
proof (relation "measures [\<lambda>(g, ns, visiting, _). card (fst ` set g - set visiting), \<lambda>(_, ns, _, _). length ns]",
    goal_cases)
  case (3 g n ns visiting visited)
  show ?case
  proof (cases "n \<in> fst ` set g")
    case True
    with 3 have "card (fst ` set g - set (n # visiting)) < card (fst ` set g - set visiting)"
      by (intro psubset_card_mono) auto
    then show ?thesis by simp
  next
    case False
    then have "deps g n = []" and "fst ` set g - set (n # visiting) = fst ` set g - set visiting"
      by (auto simp: deps_def map_of_eq_None_iff[THEN iffD2])
    then show ?thesis by simp
  qed
qed simp_all

section \<open>Edges, order and cycles\<close>

definition edges :: "'k graph \<Rightarrow> ('k \<times> 'k) set" where
  "edges g = {(a, b). b \<in> set (deps g a)}"

text \<open>Every node comes after all its dependencies.\<close>

fun ordered :: "'k graph \<Rightarrow> 'k list \<Rightarrow> 'k list \<Rightarrow> bool" where
  "ordered g before [] \<longleftrightarrow> True"
| "ordered g before (k # ks) \<longleftrightarrow> set (deps g k) \<subseteq> set before \<and> k \<notin> set before \<and> ordered g (before @ [k]) ks"

lemma ordered_snoc:
  "ordered g before (ks @ [k]) \<longleftrightarrow>
     ordered g before ks \<and> set (deps g k) \<subseteq> set (before @ ks) \<and> k \<notin> set (before @ ks)"
  by (induction ks arbitrary: before) auto

lemma ordered_distinct: "ordered g before ks \<Longrightarrow> distinct ks \<and> set ks \<inter> set before = {}"
  by (induction g before ks rule: ordered.induct) auto

lemma ordered_split:
  "ordered g before (as @ b # bs) \<Longrightarrow> set (deps g b) \<subseteq> set before \<union> set as"
proof (induction as arbitrary: before)
  case (Cons a as)
  from Cons.prems have "ordered g (before @ [a]) (as @ b # bs)" by simp
  from Cons.IH[OF this] show ?case by auto
qed simp

lemma ordered_closed:
  assumes "ordered g [] ks" and "k \<in> set ks"
  shows "set (deps g k) \<subseteq> set ks"
proof -
  from assms(2) obtain as bs where "ks = as @ k # bs" by (auto simp: in_set_conv_decomp)
  with ordered_split[of g "[]" as k bs] assms(1) show ?thesis by auto
qed

lemma ordered_block:
  assumes "\<forall>i \<in> set xs. set (deps g i) \<subseteq> set before \<and> i \<notin> set before" and "distinct xs"
    and "ordered g (before @ xs) ys"
  shows "ordered g before (xs @ ys)"
  using assms
proof (induction xs arbitrary: before)
  case (Cons a xs)
  have "ordered g (before @ [a]) (xs @ ys)"
  proof (rule Cons.IH)
    show "\<forall>i \<in> set xs. set (deps g i) \<subseteq> set (before @ [a]) \<and> i \<notin> set (before @ [a])"
      using Cons.prems(1,2) by auto
    show "ordered g ((before @ [a]) @ xs) ys" using Cons.prems(3) by simp
  qed (use Cons.prems(2) in simp)
  with Cons.prems(1) show ?case by simp
qed simp

text \<open>The walk extends an ordered list of visited nodes by everything asked for.\<close>

lemma visit_all_ordered:
  assumes "visit_all g ns visiting visited = Inr result" and "ordered g [] visited"
    and "set visiting \<inter> set visited = {}"
  shows "ordered g [] result \<and> set visited \<union> set ns \<subseteq> set result \<and> set visiting \<inter> set result = {}"
  using assms
proof (induction g ns visiting visited arbitrary: result rule: visit_all.induct)
  case (1 g visiting visited)
  then show ?case by simp
next
  case (2 g n ns visiting visited)
  show ?case
  proof (cases "n \<in> set visited")
    case True
    with 2 show ?thesis by (auto split: if_splits)
  next
    case False
    with 2(4) obtain mid where fresh: "n \<notin> set visiting"
      and mid: "visit_all g (deps g n) (n # visiting) visited = Inr mid"
      and rest: "visit_all g ns visiting (mid @ [n]) = Inr result"
      by (auto split: if_splits sum.splits)
    from 2(2)[OF fresh False mid 2(5)] 2(6) False
    have m: "ordered g [] mid" "set visited \<union> set (deps g n) \<subseteq> set mid" "set (n # visiting) \<inter> set mid = {}"
      by auto
    with fresh have "ordered g [] (mid @ [n])" "set visiting \<inter> set (mid @ [n]) = {}"
      by (auto simp: ordered_snoc)
    from 2(3)[OF fresh False mid rest this] m show ?thesis by auto
  qed
qed

lemma visit_all_subset:
  assumes "visit_all g ns visiting visited = Inr result"
    and "\<And>k. k \<in> S \<Longrightarrow> set (deps g k) \<subseteq> S" and "set ns \<subseteq> S" and "set visited \<subseteq> S"
  shows "set result \<subseteq> S"
  using assms
proof (induction g ns visiting visited arbitrary: result rule: visit_all.induct)
  case (1 g visiting visited)
  then show ?case by simp
next
  case (2 g n ns visiting visited)
  then show ?case by (auto split: if_splits sum.splits)
qed

text \<open>A node the walk refuses lies on a cycle, as long as the path leads to the nodes asked for.\<close>

lemma visit_all_cycle:
  assumes "visit_all g ns visiting visited = Inl x"
    and "\<And>p i. p \<in> set visiting \<Longrightarrow> i \<in> set ns \<Longrightarrow> (p, i) \<in> (edges g)\<^sup>+"
  shows "(x, x) \<in> (edges g)\<^sup>+"
  using assms
proof (induction g ns visiting visited rule: visit_all.induct)
  case (1 g visiting visited)
  then show ?case by simp
next
  case (2 g n ns visiting visited)
  show ?case
  proof (cases "n \<in> set visiting \<or> n \<in> set visited")
    case True
    with 2 show ?thesis by (auto split: if_splits)
  next
    case False
    show ?thesis
    proof (cases "visit_all g (deps g n) (n # visiting) visited")
      case (Inl e)
      have "(p, i) \<in> (edges g)\<^sup>+" if "p \<in> set (n # visiting)" "i \<in> set (deps g n)" for p i
      proof -
        from that(2) have "(n, i) \<in> edges g" by (simp add: edges_def)
        with that(1) 2(5)[of p n] show ?thesis by (auto intro: trancl_into_trancl)
      qed
      with Inl False 2(2,4) show ?thesis by auto
    next
      case (Inr mid)
      with False 2(3-5) show ?thesis by auto
    qed
  qed
qed

text \<open>An ordered list has whatever a node leads to before it, which rules out cycles among its nodes.\<close>

lemma ordered_reaches:
  assumes "ordered g [] (as @ a # bs)" and "(a, b) \<in> (edges g)\<^sup>+"
  shows "b \<in> set as"
proof -
  have "\<exists>as' bs'. as @ a # bs = as' @ b # bs' \<and> length as' < length as"
    using assms(2)
  proof (induction rule: trancl_induct)
    case (base b)
    then have "b \<in> set as" using ordered_split[OF assms(1)] by (auto simp: edges_def)
    then obtain cs ds where "as = cs @ b # ds" by (auto simp: in_set_conv_decomp)
    then show ?case by (intro exI[of _ cs] exI[of _ "ds @ a # bs"]) auto
  next
    case (step b c)
    then obtain cs ds where d: "as @ a # bs = cs @ b # ds" "length cs < length as" by blast
    with step assms(1) ordered_split[of g "[]" cs b ds] have "c \<in> set cs" by (auto simp: edges_def)
    then obtain es fs where "cs = es @ c # fs" by (auto simp: in_set_conv_decomp)
    with d show ?case by (intro exI[of _ es] exI[of _ "fs @ b # ds"]) auto
  qed
  then obtain cs ds where d: "as @ a # bs = cs @ b # ds" "length cs < length as" by blast
  from d(2) have "as ! length cs = (as @ a # bs) ! length cs" by (simp add: nth_append)
  with d have "as ! length cs = b" by simp
  with d(2) show ?thesis using nth_mem by blast
qed

lemma ordered_acyclic_at:
  assumes "ordered g [] ks" and "k \<in> set ks"
  shows "(k, k) \<notin> (edges g)\<^sup>+"
proof
  assume cycle: "(k, k) \<in> (edges g)\<^sup>+"
  from assms(2) obtain as bs where ks: "ks = as @ k # bs" by (auto simp: in_set_conv_decomp)
  with assms(1) ordered_reaches[OF _ cycle] have "k \<in> set as" by blast
  with ks ordered_distinct[OF assms(1)] show False by auto
qed

section \<open>The cycle check\<close>

definition find_cycle :: "'k graph \<Rightarrow> 'k list \<Rightarrow> 'k option" where
  "find_cycle g ns = (case visit_all g ns [] [] of Inl e \<Rightarrow> Some e | Inr _ \<Rightarrow> None)"

lemma find_cycle_Some: "find_cycle g ns = Some x \<Longrightarrow> (x, x) \<in> (edges g)\<^sup>+"
  by (auto simp: find_cycle_def intro: visit_all_cycle split: sum.splits)

lemma find_cycle_None:
  assumes "find_cycle g ns = None" and "fst ` set g \<subseteq> set ns"
  shows "acyclic (edges g)"
proof -
  from assms(1) obtain result where result: "visit_all g ns [] [] = Inr result"
    by (auto simp: find_cycle_def split: sum.splits)
  from visit_all_ordered[OF this] have o: "ordered g [] result" "set ns \<subseteq> set result" by auto
  have "(k, k) \<notin> (edges g)\<^sup>+" for k
  proof (cases "k \<in> set result")
    case True
    then show ?thesis by (rule ordered_acyclic_at[OF o(1)])
  next
    case False
    with o assms(2) have "map_of g k = None" by (auto simp: map_of_eq_None_iff)
    then have "deps g k = []" by (simp add: deps_def)
    then show ?thesis by (auto simp: edges_def dest: tranclD)
  qed
  then show ?thesis by (simp add: acyclic_def)
qed

theorem find_cycle_iff:
  assumes "fst ` set g \<subseteq> set ns"
  shows "find_cycle g ns = None \<longleftrightarrow> acyclic (edges g)"
  using assms find_cycle_None[of g ns] find_cycle_Some[of g ns]
  by (cases "find_cycle g ns") (auto simp: acyclic_def)

end
