(* ===== verification/Schedule_Batches.thy ===== *)
theory Schedule_Batches
  imports Schedule_Data Go_Graph
begin

text \<open>
  \<^verbatim>\<open>makeBatches\<close> of \<^verbatim>\<open>internal/certification/scheduler.go\<close>: execution units are put into batches that run one
  after the other, the units of a batch side by side. A unit is ready when all its dependencies are in
  earlier batches; the ready units are taken by ID while the batch has room, shares no mutation key
  with one already taken and stays within the quotas. The map of remaining units is a list of units
  with distinct IDs: its keys are the IDs, and the code sorts what it takes from it.
\<close>

type_synonym quotas = "string \<Rightarrow> int option"
type_synonym usage = "string \<Rightarrow> int"

definition unit_keys :: "ExecutionUnit list \<Rightarrow> string \<Rightarrow> string list" where
  "unit_keys remaining unitID =
     (case find (\<lambda>u. eu_ID u = unitID) remaining of None \<Rightarrow> [] | Some u \<Rightarrow> eu_MutationKeys u)"

definition intersectsBatch :: "string list \<Rightarrow> string list \<Rightarrow> ExecutionUnit list \<Rightarrow> bool" where
  "intersectsBatch keys batch remaining \<longleftrightarrow> list_ex (\<lambda>unitID. intersects keys (unit_keys remaining unitID)) batch"

definition exceedsQuota :: "string list \<Rightarrow> usage \<Rightarrow> quotas \<Rightarrow> bool" where
  "exceedsQuota keys usage quotas \<longleftrightarrow>
     list_ex (\<lambda>key. case quotas key of None \<Rightarrow> False | Some limit \<Rightarrow> limit < 1 \<or> usage key + 1 > limit) keys"

definition count_keys :: "string list \<Rightarrow> usage \<Rightarrow> usage" where
  "count_keys keys usage = fold (\<lambda>key u. u(key := u key + 1)) keys usage"

definition unit_ready :: "string list \<Rightarrow> ExecutionUnit \<Rightarrow> bool" where
  "unit_ready completed u \<longleftrightarrow> list_all (\<lambda>dependency. dependency \<in> set completed) (eu_DependsOn u)"

fun take_ready ::
  "int \<Rightarrow> quotas \<Rightarrow> ExecutionUnit list \<Rightarrow> ExecutionUnit list \<Rightarrow> string list \<Rightarrow> usage \<Rightarrow> string list" where
  "take_ready maxParallel quotas remaining [] batch usage = batch"
| "take_ready maxParallel quotas remaining (u # us) batch usage =
     (if int (length batch) \<ge> maxParallel then batch
      else if intersectsBatch (eu_MutationKeys u) batch remaining then
        take_ready maxParallel quotas remaining us batch usage
      else if exceedsQuota (eu_MutationKeys u) usage quotas then
        take_ready maxParallel quotas remaining us batch usage
      else take_ready maxParallel quotas remaining us (batch @ [eu_ID u]) (count_keys (eu_MutationKeys u) usage))"

definition ready_units :: "string list \<Rightarrow> ExecutionUnit list \<Rightarrow> ExecutionUnit list" where
  "ready_units completed remaining = sort_key eu_ID (filter (unit_ready completed) remaining)"

definition next_batch :: "int \<Rightarrow> quotas \<Rightarrow> ExecutionUnit list \<Rightarrow> string list \<Rightarrow> string list" where
  "next_batch maxParallel quotas remaining completed =
     take_ready maxParallel quotas remaining (ready_units completed remaining) [] (\<lambda>_. 0)"

definition remove_units :: "string list \<Rightarrow> ExecutionUnit list \<Rightarrow> ExecutionUnit list" where
  "remove_units ids = filter (\<lambda>u. eu_ID u \<notin> set ids)"

lemma take_ready_extends:
  "\<exists>new. take_ready mp q rem us batch usage = batch @ new \<and> subseq new (map eu_ID us)"
proof (induction us arbitrary: batch usage)
  case (Cons u us)
  from Cons.IH[of batch usage] obtain new where
    skip: "take_ready mp q rem us batch usage = batch @ new" "subseq new (map eu_ID us)" by blast
  from Cons.IH[of "batch @ [eu_ID u]" "count_keys (eu_MutationKeys u) usage"] obtain more where
    taken: "take_ready mp q rem us (batch @ [eu_ID u]) (count_keys (eu_MutationKeys u) usage) = batch @ eu_ID u # more"
      "subseq more (map eu_ID us)" by auto
  from skip taken show ?case by auto
qed simp

lemma next_batch_subseq: "subseq (next_batch mp q rem cmpl) (map eu_ID (ready_units cmpl rem))"
  using take_ready_extends[of mp q rem "ready_units cmpl rem" "[]" "\<lambda>_. 0"] by (auto simp: next_batch_def)

lemma next_batch_subset: "set (next_batch mp q rem cmpl) \<subseteq> eu_ID ` set (filter (unit_ready cmpl) rem)"
  using subseq_subset[OF next_batch_subseq[of mp q rem cmpl]] by (simp add: ready_units_def)

function batch_loop ::
  "int \<Rightarrow> quotas \<Rightarrow> ExecutionUnit list \<Rightarrow> string list \<Rightarrow> string list list \<Rightarrow> schedule_error + string list list" where
  "batch_loop maxParallel quotas remaining completed batches =
     (if remaining = [] then Inr batches
      else if ready_units completed remaining = [] then Inl (PlanError NoProgressDependencies)
      else let batch = next_batch maxParallel quotas remaining completed in
        if batch = [] then Inl (PlanError NoProgressConstraints)
        else batch_loop maxParallel quotas (remove_units batch remaining) (completed @ batch) (batches @ [batch]))"
  by pat_completeness auto

termination
proof (relation "measure (\<lambda>(_, _, remaining, _, _). length remaining)", goal_cases)
  case (2 mp q rem cmpl batches batch)
  then obtain i where i: "i \<in> set batch" by (meson last_in_set)
  with 2 next_batch_subset[of mp q rem cmpl] obtain u where "u \<in> set rem" "eu_ID u = i" by auto
  with i have "length (filter (\<lambda>u. eu_ID u \<notin> set batch) rem) < length rem"
    by (intro length_filter_less) auto
  then show ?case by (simp add: remove_units_def)
qed simp

declare batch_loop.simps [simp del]

text \<open>\<^verbatim>\<open>remaining[unit.ID] = unit\<close>: a later unit replaces an earlier one with its ID.\<close>

definition put_unit :: "ExecutionUnit list \<Rightarrow> ExecutionUnit \<Rightarrow> ExecutionUnit list" where
  "put_unit remaining u = filter (\<lambda>v. eu_ID v \<noteq> eu_ID u) remaining @ [u]"

definition makeBatches :: "ExecutionUnit list \<Rightarrow> int \<Rightarrow> quotas \<Rightarrow> schedule_error + string list list" where
  "makeBatches units maxParallel quotas = batch_loop maxParallel quotas (foldl put_unit [] units) [] []"

section \<open>One batch\<close>

text \<open>What a batch promises about the units it starts side by side.\<close>

definition batch_ok :: "int \<Rightarrow> quotas \<Rightarrow> (string \<Rightarrow> string list) \<Rightarrow> string list \<Rightarrow> bool" where
  "batch_ok maxParallel quotas keys batch \<longleftrightarrow>
     int (length batch) \<le> maxParallel \<and>
     (\<forall>i \<in> set batch. \<forall>j \<in> set batch. i \<noteq> j \<longrightarrow> set (keys i) \<inter> set (keys j) = {}) \<and>
     (\<forall>i \<in> set batch. \<forall>k \<in> set (keys i). \<forall>limit. quotas k = Some limit \<longrightarrow> 1 \<le> limit)"

lemma unit_keys_member:
  assumes "distinct (map eu_ID rem)" and "u \<in> set rem"
  shows "unit_keys rem (eu_ID u) = eu_MutationKeys u"
proof -
  have "find (\<lambda>v. eu_ID v = eu_ID u) rem = Some u"
    using assms by (induction rem) (auto simp: image_iff)
  then show ?thesis by (simp add: unit_keys_def)
qed

lemma exceedsQuota_limit:
  assumes "\<not> exceedsQuota keys usage q" and "k \<in> set keys" and "q k = Some limit"
  shows "1 \<le> limit"
  using assms by (force simp: exceedsQuota_def list_ex_iff)

lemma take_ready_ok:
  assumes "batch_ok mp q (unit_keys rem) batch" and "set us \<subseteq> set rem" and "distinct (map eu_ID rem)"
  shows "batch_ok mp q (unit_keys rem) (take_ready mp q rem us batch usage)"
  using assms(1,2)
proof (induction us arbitrary: batch usage)
  case (Cons u us)
  let ?take = "\<not> mp \<le> int (length batch) \<and> \<not> intersectsBatch (eu_MutationKeys u) batch rem \<and>
    \<not> exceedsQuota (eu_MutationKeys u) usage q"
  show ?case
  proof (cases ?take)
    case True
    have keys: "unit_keys rem (eu_ID u) = eu_MutationKeys u"
      using Cons.prems(2) assms(3) by (intro unit_keys_member) auto
    have "batch_ok mp q (unit_keys rem) (batch @ [eu_ID u])"
      using Cons.prems(1) True exceedsQuota_limit[of "eu_MutationKeys u" usage q]
      by (auto simp: batch_ok_def keys intersectsBatch_def list_ex_iff intersects_iff)
    from Cons.IH[OF this] Cons.prems(2) True show ?thesis by simp
  next
    case False
    with Cons show ?thesis by auto
  qed
qed simp

lemma next_batch_ok:
  assumes "distinct (map eu_ID rem)" and "0 \<le> mp"
  shows "batch_ok mp q (unit_keys rem) (next_batch mp q rem cmpl)"
    and "distinct (next_batch mp q rem cmpl)"
proof -
  show "batch_ok mp q (unit_keys rem) (next_batch mp q rem cmpl)"
    unfolding next_batch_def using assms by (intro take_ready_ok) (auto simp: batch_ok_def ready_units_def)
  have "distinct (map eu_ID (ready_units cmpl rem))"
    using assms(1) by (simp add: ready_units_def distinct_map inj_on_def)
  then show "distinct (next_batch mp q rem cmpl)" by (rule subseq_distinct[OF next_batch_subseq])
qed

section \<open>All batches\<close>

text \<open>
  The batches that the loop adds, from the units that remain and the IDs already completed: each one is
  well formed, starts ready units only, and the last one leaves nothing over.
\<close>

fun batches_ok :: "int \<Rightarrow> quotas \<Rightarrow> ExecutionUnit list \<Rightarrow> string list \<Rightarrow> string list list \<Rightarrow> bool" where
  "batches_ok mp q rem cmpl [] \<longleftrightarrow> rem = []"
| "batches_ok mp q rem cmpl (b # bs) \<longleftrightarrow>
     b \<noteq> [] \<and> distinct b \<and> set b \<subseteq> eu_ID ` set (filter (unit_ready cmpl) rem) \<and>
     batch_ok mp q (unit_keys rem) b \<and> batches_ok mp q (remove_units b rem) (cmpl @ b) bs"

lemma distinct_remove_units: "distinct (map eu_ID rem) \<Longrightarrow> distinct (map eu_ID (remove_units b rem))"
  by (simp add: remove_units_def distinct_map_filter)

lemma batch_loop_ok:
  assumes "batch_loop mp q rem cmpl batches = Inr result" and "distinct (map eu_ID rem)" and "0 \<le> mp"
  shows "\<exists>new. result = batches @ new \<and> batches_ok mp q rem cmpl new"
  using assms
proof (induction mp q rem cmpl batches rule: batch_loop.induct)
  case (1 mp q rem cmpl batches)
  show ?case
  proof (cases "rem = []")
    case True
    with 1(2) show ?thesis by (auto simp: batch_loop.simps intro!: exI[of _ "[]"])
  next
    case False
    let ?b = "next_batch mp q rem cmpl"
    from 1(2) False have ready: "ready_units cmpl rem \<noteq> []" and b: "?b \<noteq> []"
      and rest: "batch_loop mp q (remove_units ?b rem) (cmpl @ ?b) (batches @ [?b]) = Inr result"
      by (auto simp: batch_loop.simps[of mp q rem] Let_def split: if_splits)
    from 1(1)[OF False ready refl b rest distinct_remove_units[OF 1(3)] 1(4)] obtain new where
      "result = (batches @ [?b]) @ new" "batches_ok mp q (remove_units ?b rem) (cmpl @ ?b) new" by blast
    with b next_batch_ok[OF 1(3,4)] next_batch_subset show ?thesis
      by (intro exI[of _ "?b # new"]) simp
  qed
qed

text \<open>The units are covered exactly once, in an order that respects the dependencies.\<close>

lemma ids_split: "set b \<subseteq> eu_ID ` set rem \<Longrightarrow> eu_ID ` set rem = set b \<union> eu_ID ` set (remove_units b rem)"
  by (auto simp: remove_units_def)

lemma batches_ok_cover:
  assumes "batches_ok mp q rem cmpl bs"
  shows "set (concat bs) = eu_ID ` set rem \<and> distinct (concat bs)"
  using assms
proof (induction bs arbitrary: rem cmpl)
  case (Cons b bs)
  from Cons.prems have "batches_ok mp q (remove_units b rem) (cmpl @ b) bs" by simp
  from Cons.IH[OF this] have rest: "set (concat bs) = eu_ID ` set (remove_units b rem)" "distinct (concat bs)" by auto
  from Cons.prems have b: "set b \<subseteq> eu_ID ` set rem" "distinct b" by auto
  have "set b \<inter> eu_ID ` set (remove_units b rem) = {}" by (auto simp: remove_units_def)
  with rest b ids_split[OF b(1)] show ?case by auto
qed simp

lemma unit_keys_remove: "i \<notin> set b \<Longrightarrow> unit_keys (remove_units b rem) i = unit_keys rem i"
  by (induction rem) (auto simp: unit_keys_def remove_units_def)

lemma batch_ok_cong: "(\<And>i. i \<in> set b \<Longrightarrow> keys i = keys' i) \<Longrightarrow> batch_ok mp q keys b = batch_ok mp q keys' b"
  by (simp add: batch_ok_def)

lemma batches_ok_each:
  assumes "batches_ok mp q rem cmpl bs" and "b \<in> set bs"
  shows "b \<noteq> [] \<and> batch_ok mp q (unit_keys rem) b"
  using assms
proof (induction bs arbitrary: rem cmpl)
  case (Cons a bs)
  show ?case
  proof (cases "b = a")
    case False
    with Cons have b: "b \<in> set bs" and rest: "batches_ok mp q (remove_units a rem) (cmpl @ a) bs" by auto
    from Cons.IH[OF rest b] have ok: "b \<noteq> []" "batch_ok mp q (unit_keys (remove_units a rem)) b" by auto
    have "i \<notin> set a" if "i \<in> set b" for i
    proof -
      have "i \<in> set (concat bs)" using b that by auto
      with batches_ok_cover[OF rest] show ?thesis by (auto simp: remove_units_def)
    qed
    with ok show ?thesis using batch_ok_cong[of b "unit_keys (remove_units a rem)" "unit_keys rem" mp q]
      by (simp add: unit_keys_remove)
  qed (use Cons in simp)
qed simp

lemma batches_ok_dependencies:
  assumes "batches_ok mp q rem cmpl (as @ b # bs)" and "u \<in> set rem" and "eu_ID u \<in> set b"
    and "distinct (map eu_ID rem)"
  shows "set (eu_DependsOn u) \<subseteq> set cmpl \<union> set (concat as)"
  using assms
proof (induction as arbitrary: rem cmpl)
  case Nil
  then obtain v where "v \<in> set rem" "eu_ID v = eu_ID u" "unit_ready cmpl v" by auto
  with Nil have "unit_ready cmpl u" by (metis eq_key_imp_eq_value distinct_map inj_on_def)
  then show ?case by (auto simp: unit_ready_def list_all_iff)
next
  case (Cons a as)
  then have rest: "batches_ok mp q (remove_units a rem) (cmpl @ a) (as @ b # bs)" by simp
  have "eu_ID u \<in> set (concat (as @ b # bs))" using Cons.prems(3) by auto
  with batches_ok_cover[OF rest] have "eu_ID u \<notin> set a" by (auto simp: remove_units_def)
  with Cons.prems have "u \<in> set (remove_units a rem)" by (simp add: remove_units_def)
  from Cons.IH[OF rest this Cons.prems(3) distinct_remove_units[OF Cons.prems(4)]] show ?case by auto
qed

section \<open>Progress\<close>

definition unit_graph :: "ExecutionUnit list \<Rightarrow> string graph" where
  "unit_graph units = map (\<lambda>u. (eu_ID u, eu_DependsOn u)) units"

lemma deps_unit_graph:
  assumes "distinct (map eu_ID units)" and "u \<in> set units"
  shows "deps (unit_graph units) (eu_ID u) = eu_DependsOn u"
proof -
  have "map_of (unit_graph units) (eu_ID u) = Some (eu_DependsOn u)"
    using assms by (intro map_of_is_SomeI) (auto simp: unit_graph_def comp_def)
  then show ?thesis by (simp add: deps_def)
qed

lemma edges_unit_graph: "(a, b) \<in> edges (unit_graph units) \<Longrightarrow> a \<in> eu_ID ` set units"
  by (auto simp: edges_def deps_def unit_graph_def split: option.splits dest!: map_of_SomeD[OF sym])

lemma finite_edges_unit_graph: "finite (edges (unit_graph units))"
proof (rule finite_subset)
  show "edges (unit_graph units) \<subseteq> (eu_ID ` set units) \<times> (\<Union>a \<in> eu_ID ` set units. set (deps (unit_graph units) a))"
    using edges_unit_graph by (fastforce simp: edges_def)
qed auto

text \<open>The units can be scheduled: dependencies stay inside, no cycle, no key that admits nobody.\<close>

definition schedulable :: "quotas \<Rightarrow> ExecutionUnit list \<Rightarrow> bool" where
  "schedulable q units \<longleftrightarrow>
     (\<forall>u \<in> set units. set (eu_DependsOn u) \<subseteq> eu_ID ` set units) \<and> acyclic (edges (unit_graph units)) \<and>
     (\<forall>u \<in> set units. \<forall>k \<in> set (eu_MutationKeys u). \<forall>limit. q k = Some limit \<longrightarrow> 1 \<le> limit)"

lemma ready_exists:
  assumes "schedulable q units" and "distinct (map eu_ID units)" and "rem \<noteq> []" and "set rem \<subseteq> set units"
    and "\<forall>u \<in> set rem. set (eu_DependsOn u) \<subseteq> set cmpl \<union> eu_ID ` set rem"
  shows "\<exists>u \<in> set rem. unit_ready cmpl u"
proof -
  have "wf ((edges (unit_graph units))\<inverse>)"
    using assms(1) finite_edges_unit_graph by (intro finite_acyclic_wf_converse) (auto simp: schedulable_def)
  moreover from assms(3) obtain i where "i \<in> eu_ID ` set rem" by (cases rem) auto
  ultimately obtain j where j: "j \<in> eu_ID ` set rem"
    and min: "\<And>k. (k, j) \<in> (edges (unit_graph units))\<inverse> \<Longrightarrow> k \<notin> eu_ID ` set rem" by (rule wfE_min) blast
  from j obtain u where u: "u \<in> set rem" "eu_ID u = j" by auto
  with assms(2,4) have "deps (unit_graph units) j = eu_DependsOn u" using deps_unit_graph by blast
  with min have "set (eu_DependsOn u) \<inter> eu_ID ` set rem = {}" by (auto simp: edges_def)
  with u(1) assms(5) have "unit_ready cmpl u" by (auto simp: unit_ready_def list_all_iff)
  with u(1) show ?thesis ..
qed

lemma next_batch_nonempty:
  assumes "schedulable q units" and "set rem \<subseteq> set units" and "1 \<le> mp" and "ready_units cmpl rem \<noteq> []"
  shows "next_batch mp q rem cmpl \<noteq> []"
proof -
  obtain u us where ready: "ready_units cmpl rem = u # us" using assms(4) by (cases "ready_units cmpl rem") auto
  then have "u \<in> set (ready_units cmpl rem)" by simp
  with assms(2) have "u \<in> set units" by (auto simp: ready_units_def)
  with assms(1) have "\<not> exceedsQuota (eu_MutationKeys u) (\<lambda>_. 0) q"
    by (force simp: schedulable_def exceedsQuota_def list_ex_iff split: option.splits)
  with assms(3) ready take_ready_extends[of mp q rem us "[eu_ID u]" "count_keys (eu_MutationKeys u) (\<lambda>_. 0)"]
  show ?thesis by (auto simp: next_batch_def intersectsBatch_def)
qed

lemma batch_loop_progress:
  assumes "schedulable q units" and "distinct (map eu_ID units)" and "1 \<le> mp" and "set rem \<subseteq> set units"
    and "\<forall>u \<in> set rem. set (eu_DependsOn u) \<subseteq> set cmpl \<union> eu_ID ` set rem"
  shows "\<exists>result. batch_loop mp q rem cmpl batches = Inr result"
  using assms
proof (induction mp q rem cmpl batches rule: batch_loop.induct)
  case (1 mp q rem cmpl batches)
  show ?case
  proof (cases "rem = []")
    case False
    let ?b = "next_batch mp q rem cmpl"
    from ready_exists[OF 1(2,3) False 1(5,6)] have ready: "ready_units cmpl rem \<noteq> []"
      by (auto simp: ready_units_def filter_empty_conv)
        (metis (mono_tags, lifting) empty_filter_conv length_0_conv length_sort)
    from next_batch_nonempty[OF 1(2,5,4) this] have b: "?b \<noteq> []" .
    have rem': "set (remove_units ?b rem) \<subseteq> set units" using 1(5) by (auto simp: remove_units_def)
    have "set ?b \<subseteq> eu_ID ` set rem" using next_batch_subset[of mp q rem cmpl] by auto
    from ids_split[OF this] 1(6)
    have "\<forall>u \<in> set (remove_units ?b rem). set (eu_DependsOn u) \<subseteq> set (cmpl @ ?b) \<union> eu_ID ` set (remove_units ?b rem)"
      by (fastforce simp: remove_units_def)
    from 1(1)[OF False ready refl b 1(2-4) rem' this] False ready b show ?thesis
      by (simp add: batch_loop.simps[of mp q rem] Let_def)
  qed (simp add: batch_loop.simps)
qed

text \<open>Conversely, the batches found are a dependency order of the units.\<close>

lemma batches_ok_ordered:
  assumes "batches_ok mp q rem cmpl bs" and "distinct (map eu_ID units)" and "set rem \<subseteq> set units"
    and "set cmpl \<inter> eu_ID ` set rem = {}" and "distinct (map eu_ID rem)"
  shows "ordered (unit_graph units) cmpl (concat bs)"
  using assms
proof (induction bs arbitrary: rem cmpl)
  case (Cons b bs)
  let ?g = "unit_graph units"
  from Cons.prems(1) have rest: "batches_ok mp q (remove_units b rem) (cmpl @ b) bs"
    and b: "set b \<subseteq> eu_ID ` set (filter (unit_ready cmpl) rem)" "distinct b" by auto
  have dep: "set (deps ?g i) \<subseteq> set cmpl" if i: "i \<in> set b" for i
  proof -
    from i b(1) obtain u where "u \<in> set rem" "eu_ID u = i" "unit_ready cmpl u" by auto
    with Cons.prems(2,3) deps_unit_graph[of units u] show ?thesis by (auto simp: unit_ready_def list_all_iff)
  qed
  have disjoint: "\<forall>i \<in> set b. i \<notin> set cmpl" using b(1) Cons.prems(4) by auto
  have "set (cmpl @ b) \<inter> eu_ID ` set (remove_units b rem) = {}" "set (remove_units b rem) \<subseteq> set units"
    using Cons.prems(3,4) by (auto simp: remove_units_def)
  from Cons.IH[OF rest Cons.prems(2) this(2,1) distinct_remove_units[OF Cons.prems(5)]] dep disjoint b(2)
  show ?case by (auto intro!: ordered_block)
qed simp

lemma foldl_put_unit_distinct:
  "distinct (map eu_ID (acc @ units)) \<Longrightarrow> foldl put_unit acc units = acc @ units"
proof (induction units arbitrary: acc)
  case (Cons u units)
  then have "filter (\<lambda>v. eu_ID v \<noteq> eu_ID u) acc = acc" by (auto simp: filter_id_conv image_iff)
  with Cons show ?case by (simp add: put_unit_def)
qed simp

lemma makeBatches_loop:
  "distinct (map eu_ID units) \<Longrightarrow> makeBatches units mp q = batch_loop mp q units [] []"
  using foldl_put_unit_distinct[of "[]" units] by (simp add: makeBatches_def)

lemma makeBatches_ok:
  assumes "makeBatches units mp q = Inr bs" and "distinct (map eu_ID units)" and "0 \<le> mp"
  shows "batches_ok mp q units [] bs"
  using batch_loop_ok[of mp q units "[]" "[]" bs] assms by (simp add: makeBatches_loop)

text \<open>A schedule was found: the units are exactly those that can be scheduled.\<close>

lemma batches_ok_schedulable:
  assumes "batches_ok mp q units [] bs" and "distinct (map eu_ID units)"
  shows "schedulable q units"
proof -
  let ?g = "unit_graph units"
  have o: "ordered ?g [] (concat bs)" using batches_ok_ordered[OF assms(1,2)] assms(2) by simp
  have ids: "set (concat bs) = eu_ID ` set units" using batches_ok_cover[OF assms(1)] by simp
  have "set (eu_DependsOn u) \<subseteq> eu_ID ` set units" if "u \<in> set units" for u
  proof -
    have "eu_ID u \<in> set (concat bs)" using that unfolding ids by blast
    from ordered_closed[OF o this] show ?thesis unfolding ids deps_unit_graph[OF assms(2) that] .
  qed
  moreover have "(k, k) \<notin> (edges ?g)\<^sup>+" for k
  proof
    assume k: "(k, k) \<in> (edges ?g)\<^sup>+"
    then obtain j where "(k, j) \<in> edges ?g" by (auto dest: tranclD)
    with edges_unit_graph ids have "k \<in> set (concat bs)" by blast
    with ordered_acyclic_at[OF o] k show False by blast
  qed
  moreover have "1 \<le> limit" if u: "u \<in> set units" and k: "k \<in> set (eu_MutationKeys u)" "q k = Some limit" for u k limit
  proof -
    from u ids obtain b where b: "b \<in> set bs" "eu_ID u \<in> set b" by (auto simp: set_eq_iff)
    with batches_ok_each[OF assms(1) b(1)] k unit_keys_member[OF assms(2) u] show ?thesis
      by (auto simp: batch_ok_def)
  qed
  ultimately show ?thesis by (auto simp: schedulable_def acyclic_def)
qed

text \<open>Two units of one batch never share a mutation key.\<close>

lemma batches_apart:
  assumes "batches_ok mp q units [] batches" and "distinct (map eu_ID units)" and "batch \<in> set batches"
    and "u \<in> set units" and "v \<in> set units" and "eu_ID u \<in> set batch" and "eu_ID v \<in> set batch" and "u \<noteq> v"
  shows "set (eu_MutationKeys u) \<inter> set (eu_MutationKeys v) = {}"
proof -
  have "eu_ID u \<noteq> eu_ID v" using assms(2,4,5,8) by (metis distinct_map inj_onD)
  with batches_ok_each[OF assms(1,3)] assms(6,7)
  have "set (unit_keys units (eu_ID u)) \<inter> set (unit_keys units (eu_ID v)) = {}" by (simp add: batch_ok_def)
  then show ?thesis by (simp add: unit_keys_member[OF assms(2)] assms(4,5))
qed

section \<open>Properties\<close>

definition ex_unit :: "string \<Rightarrow> string list \<Rightarrow> string list \<Rightarrow> ExecutionUnit" where
  "ex_unit unitID dependsOn keys =
     \<lparr>eu_ID = unitID, eu_CellIDs = [unitID], eu_BaselineCellID = unitID, eu_Fingerprint = '''', eu_WarmBoundary = '''',
      eu_WarmTransition = '''', eu_Coverage = None, eu_OwnershipMarker = ''run-1'', eu_Cold = True,
      eu_MigrationOwner = False, eu_DependsOn = dependsOn, eu_MutationKeys = keys,
      eu_Estimate = \<lparr>ee_CloudOperationSeconds = 1, ee_ResourceLifetimeSeconds = 1, ee_EstimatedCostCents = 1,
        ee_CleanupLatencySeconds = 1, ee_CostKnown = True\<rparr>,
      eu_Required = True, eu_ReuseSessionID = '''', eu_ReuseFingerprint = None\<rparr>"

definition ex_units :: "ExecutionUnit list" where
  "ex_units = [ex_unit ''c'' [''a''] [''zone-1''], ex_unit ''b'' [] [''zone-1''], ex_unit ''a'' [] [''zone-1''],
     ex_unit ''d'' [] [''zone-2'']]"

definition ex_quotas :: quotas where
  "ex_quotas = [''zone-2'' \<mapsto> 1]"

lemma ex_batches: "makeBatches ex_units 2 ex_quotas = Inr [[''a'', ''d''], [''b''], [''c'']]"
  by code_simp

lemma ex_units_distinct: "distinct (map eu_ID ex_units)"
  by code_simp

text \<open>
  C3. \<^verbatim>\<open>makeBatches\<close> spends every unit exactly once, in nonempty batches of at most \<^verbatim>\<open>maxParallel\<close> units, and two
  units of one batch never share a mutation key. (A negative \<^verbatim>\<open>maxParallel\<close> would make the code panic when it
  allocates a batch; \<^verbatim>\<open>BuildSchedule\<close> refuses it.)
\<close>

theorem makeBatches_partition:
  assumes "makeBatches units maxParallel quotas = Inr batches"
    and "distinct (map eu_ID units)" and "0 \<le> maxParallel"
  shows "distinct (concat batches) \<and> set (concat batches) = eu_ID ` set units \<and>
    (\<forall>batch \<in> set batches. batch \<noteq> [] \<and> int (length batch) \<le> maxParallel \<and>
      (\<forall>u \<in> set units. \<forall>v \<in> set units. eu_ID u \<in> set batch \<longrightarrow> eu_ID v \<in> set batch \<longrightarrow> u \<noteq> v \<longrightarrow>
        set (eu_MutationKeys u) \<inter> set (eu_MutationKeys v) = {}))"
proof -
  from makeBatches_ok[OF assms] have ok: "batches_ok maxParallel quotas units [] batches" .
  have size: "batch \<noteq> [] \<and> int (length batch) \<le> maxParallel" if "batch \<in> set batches" for batch
    using batches_ok_each[OF ok that] by (simp add: batch_ok_def)
  show ?thesis using batches_ok_cover[OF ok] size batches_apart[OF ok assms(2)] by blast
qed

theorem makeBatches_partition_witness:
  "distinct (concat [[''a'', ''d''], [''b''], [''c'']]) \<and>
   set (concat [[''a'', ''d''], [''b''], [''c'']]) = eu_ID ` set ex_units"
  using makeBatches_partition[OF ex_batches ex_units_distinct] by simp

text \<open>
  A unit starts only after every unit it depends on: its dependencies all stand in earlier batches.
\<close>

lemma makeBatches_respects_dependencies:
  assumes "makeBatches units maxParallel quotas = Inr (earlier @ batch # later)"
    and "distinct (map eu_ID units)" and "0 \<le> maxParallel"
    and "u \<in> set units" and "eu_ID u \<in> set batch"
  shows "set (eu_DependsOn u) \<subseteq> set (concat earlier)"
  using batches_ok_dependencies[OF makeBatches_ok[OF assms(1-3)] assms(4,5,2)] by simp

text \<open>
  C4. \<^verbatim>\<open>makeBatches\<close> always ends, and with at least one slot it finds a schedule exactly when one exists: every
  dependency is a unit of the run, no unit depends on itself through others, and no mutation key of a unit has a quota
  below one. Neither the order of the units nor the quotas above one matter.
\<close>

theorem makeBatches_complete:
  assumes "distinct (map eu_ID units)" and "1 \<le> maxParallel"
  shows "(\<exists>batches. makeBatches units maxParallel quotas = Inr batches) \<longleftrightarrow> schedulable quotas units"
proof
  assume "\<exists>batches. makeBatches units maxParallel quotas = Inr batches"
  then obtain batches where "makeBatches units maxParallel quotas = Inr batches" ..
  from makeBatches_ok[OF this assms(1)] assms(2) have "batches_ok maxParallel quotas units [] batches" by simp
  then show "schedulable quotas units" using assms(1) by (rule batches_ok_schedulable)
next
  assume s: "schedulable quotas units"
  then have "\<forall>u \<in> set units. set (eu_DependsOn u) \<subseteq> set [] \<union> eu_ID ` set units" by (simp add: schedulable_def)
  from batch_loop_progress[OF s assms subset_refl this]
  show "\<exists>batches. makeBatches units maxParallel quotas = Inr batches" by (simp add: makeBatches_loop[OF assms(1)])
qed

theorem makeBatches_complete_witness: "schedulable ex_quotas ex_units"
  using makeBatches_complete[OF ex_units_distinct, of 2 ex_quotas] ex_batches by simp

end
