(* ===== verification/Capacity_Pool.thy ===== *)
theory Capacity_Pool
  imports Local_Capacity "HOL-Library.Multiset"
begin

text \<open>
  The reservation of runner capacity as a pool: the abstract specification, the functional refinement that shows that
  each critical section of \<^verbatim>\<open>local_capacity.go\<close> is exactly one operation of it, and the properties of the reservation.
\<close>

section \<open>A pool of capacity\<close>

text \<open>
  What a reservation promises, without channels, leases or books: a bag of the requests that hold capacity and the
  queue of those that wait. Whatever happens to the pool, the queue is then served from its head, for as long as
  the bag stays within the capacity.
\<close>

type_synonym pool = "LocalCapacityRequest multiset \<times> LocalCapacityRequest list"

definition within :: "LocalCapacityRequest \<Rightarrow> LocalCapacityRequest multiset \<Rightarrow> bool" where
  "within capacity bag \<longleftrightarrow>
     (\<Sum>r\<in>#bag. lc_CPUMilli r) \<le> lc_CPUMilli capacity \<and> (\<Sum>r\<in>#bag. lc_MemoryMB r) \<le> lc_MemoryMB capacity"

fun pool_drain :: "LocalCapacityRequest \<Rightarrow> LocalCapacityRequest multiset \<Rightarrow> LocalCapacityRequest list \<Rightarrow> pool" where
  "pool_drain capacity bag [] = (bag, [])"
| "pool_drain capacity bag (r # queue) =
     (if within capacity (add_mset r bag) then pool_drain capacity (add_mset r bag) queue else (bag, r # queue))"

definition pool_request :: "LocalCapacityRequest \<Rightarrow> LocalCapacityRequest \<Rightarrow> pool \<Rightarrow> pool" where
  "pool_request capacity r p = pool_drain capacity (fst p) (snd p @ [r])"

definition pool_return :: "LocalCapacityRequest \<Rightarrow> LocalCapacityRequest \<Rightarrow> pool \<Rightarrow> pool" where
  "pool_return capacity r p = pool_drain capacity (fst p - {#r#}) (snd p)"

definition pool_withdraw :: "LocalCapacityRequest \<Rightarrow> nat \<Rightarrow> pool \<Rightarrow> pool" where
  "pool_withdraw capacity i p = pool_drain capacity (fst p) (take i (snd p) @ drop (Suc i) (snd p))"

definition lease_bag :: "MemoryLocalCapacityReservation \<Rightarrow> LocalCapacityRequest multiset" where
  "lease_bag m = image_mset ls_request (filter_mset (\<lambda>l. \<not> ls_once l) (mset (mr_lease_heap m)))"

definition waiter_bag :: "MemoryLocalCapacityReservation \<Rightarrow> LocalCapacityRequest multiset" where
  "waiter_bag m = image_mset wt_request (filter_mset (\<lambda>w. wt_granted w \<and> wt_selecting w) (mset (mr_waiter_heap m)))"

definition held_bag :: "MemoryLocalCapacityReservation \<Rightarrow> LocalCapacityRequest multiset" where
  "held_bag m = lease_bag m + waiter_bag m"

definition queued_requests :: "MemoryLocalCapacityReservation \<Rightarrow> LocalCapacityRequest list" where
  "queued_requests m = map (\<lambda>w. wt_request (mr_waiter_heap m ! w)) (mr_waiters m)"

definition pool_of :: "MemoryLocalCapacityReservation \<Rightarrow> pool" where
  "pool_of m = (held_bag m, queued_requests m)"

lemma held_bag_sum: "(\<Sum>r\<in>#held_bag m. dim r) = held dim m"
proof -
  have "(\<Sum>r\<in>#image_mset ls_request (filter_mset (\<lambda>l. \<not> ls_once l) (mset ls)). dim r) = sum_list (map (lease_holds dim) ls)" for ls
    by (induction ls) (auto simp: lease_holds_def)
  moreover have "(\<Sum>r\<in>#image_mset wt_request (filter_mset (\<lambda>w. wt_granted w \<and> wt_selecting w) (mset ws)). dim r) =
      sum_list (map (waiter_holds dim) ws)" for ws
    by (induction ws) (auto simp: waiter_holds_def)
  ultimately show ?thesis by (simp add: held_bag_def lease_bag_def waiter_bag_def held_def)
qed

lemma books_within: "books_ok m \<Longrightarrow> within (mr_capacity m) (held_bag m)"
  by (auto simp: within_def held_bag_sum books_ok_def balanced_def)

lemma mset_put:
  assumes "i < length xs"
  shows "mset xs = add_mset (xs ! i) (mset xs - {#xs ! i#})" and "mset (xs[i := y]) = add_mset y (mset xs - {#xs ! i#})"
  using assms by (simp_all add: mset_update)

text \<open>How the bag of one heap changes when one of its objects is replaced.\<close>

lemma image_filter_put:
  assumes "i < length xs"
  shows "image_mset f (filter_mset P (mset xs)) + (if P y then {#f y#} else {#}) =
    image_mset f (filter_mset P (mset (xs[i := y]))) + (if P (xs ! i) then {#f (xs ! i)#} else {#})"
  unfolding mset_put(2)[OF assms] by (subst mset_put(1)[OF assms]) simp

lemma grant_head_bag:
  assumes "books_ok m" and "mr_waiters m = w # ws"
  shows "held_bag (grant_head m) = add_mset (wt_request (mr_waiter_heap m ! w)) (held_bag m)"
proof -
  from assms have w: "w < length (mr_waiter_heap m)" "wt_queued (mr_waiter_heap m ! w)" by (auto simp: books_ok_def queue_ok_def)
  with books_ok_waiter(2)[OF assms(1) w(1)] have s: "wt_selecting (mr_waiter_heap m ! w)" "\<not> wt_granted (mr_waiter_heap m ! w)"
    by (auto simp: waiter_ok_def)
  from image_filter_put[OF w(1), of wt_request "\<lambda>w. wt_granted w \<and> wt_selecting w"
      "(mr_waiter_heap m ! w)\<lparr>wt_queued := False, wt_granted := True, wt_ready := True\<rparr>"] s
  show ?thesis by (simp add: held_bag_def lease_bag_def waiter_bag_def grant_head_def assms(2) Let_def)
qed

lemma fits_within:
  assumes "books_ok m"
  shows "fits r (mr_available m) \<longleftrightarrow> within (mr_capacity m) (add_mset r (held_bag m))"
  using assms by (auto simp: fits_def within_def held_bag_sum books_ok_def balanced_def)

lemma grantWaitersLocked_pool:
  assumes "books_ok m"
  shows "pool_of (grantWaitersLocked m) = pool_drain (mr_capacity m) (held_bag m) (queued_requests m)"
  using assms
proof (induction "length (mr_waiters m)" arbitrary: m)
  case 0
  then have "grantWaitersLocked m = m" by (subst grantWaitersLocked_rec) simp
  with 0 show ?case by (simp add: pool_of_def queued_requests_def)
next
  case (Suc n)
  obtain w ws where ws: "mr_waiters m = w # ws" using Suc.hyps(2) by (cases "mr_waiters m") auto
  let ?r = "wt_request (mr_waiter_heap m ! w)"
  show ?case
  proof (cases "fits ?r (mr_available m)")
    case True
    have ok: "books_ok (grant_head m)" using books_ok_grant_head[OF Suc.prems] True ws by simp
    have "w < length (mr_waiter_heap m)" using Suc.prems ws by (auto simp: books_ok_def queue_ok_def)
    then have queue: "queued_requests m = ?r # queued_requests (grant_head m)" and cap: "mr_capacity (grant_head m) = mr_capacity m"
      by (auto simp: queued_requests_def grant_head_def ws Let_def nth_list_update)
    have "pool_of (grantWaitersLocked (grant_head m)) =
        pool_drain (mr_capacity m) (add_mset ?r (held_bag m)) (queued_requests (grant_head m))"
      using Suc.hyps(1)[OF _ ok] Suc.hyps(2) ws cap grant_head_bag[OF Suc.prems ws] by (simp add: grant_head_def Let_def)
    with True ws fits_within[OF Suc.prems] queue show ?thesis by (subst grantWaitersLocked_rec) simp
  next
    case False
    with ws have "grantWaitersLocked m = m" by (subst grantWaitersLocked_rec) simp
    with False ws fits_within[OF Suc.prems] show ?thesis by (simp add: pool_of_def queued_requests_def)
  qed
qed

text \<open>One critical section of the code is one operation of the pool.\<close>

lemma acquire_locked_pool:
  assumes ok: "books_ok m" and r: "request_ok m r"
  shows "pool_of (snd (acquire_locked r m)) = pool_request (mr_capacity m) r (pool_of m)"
proof (cases "mr_waiters m = [] \<and> fits r (mr_available m)")
  case True
  with fits_within[OF ok, of r] show ?thesis
    by (simp add: acquire_locked_alt pool_request_def pool_of_def queued_requests_def new_lease_def held_bag_def
        lease_bag_def waiter_bag_def)
next
  case False
  have "set (mr_waiters m) \<subseteq> {..<length (mr_waiter_heap m)}" using ok by (auto simp: books_ok_def queue_ok_def)
  then have "queued_requests (enqueued r m) = queued_requests m @ [r]"
    by (auto simp: queued_requests_def enqueued_def nth_append)
  moreover have "held_bag (enqueued r m) = held_bag m" "mr_capacity (enqueued r m) = mr_capacity m"
    by (simp_all add: enqueued_def held_bag_def lease_bag_def waiter_bag_def)
  ultimately show ?thesis
    using False grantWaitersLocked_pool[OF enqueued_books_ok[OF ok r]]
    by (auto simp: acquire_locked_alt pool_request_def pool_of_def)
qed

definition acquire_accepted :: "ctx_now \<Rightarrow> LocalCapacityRequest \<Rightarrow> LocalCapacityRequest \<Rightarrow> bool" where
  "acquire_accepted ctx capacity r \<longleftrightarrow> ctx = Some None \<and> LocalCapacityRequest_Validate r = None \<and> fits r capacity \<and> \<not> capacity_empty r"

lemma acquire_start_pool:
  assumes "books_ok m" and "acquire_start ctx r m = (outcome, m')"
  shows "pool_of m' = (if acquire_accepted ctx (mr_capacity m) r then pool_request (mr_capacity m) r (pool_of m) else pool_of m)"
proof (cases "acquire_accepted ctx (mr_capacity m) r")
  case True
  then have "m' = snd (acquire_locked r m)" "request_ok m r"
    using assms(2)
    by (auto simp: acquire_accepted_def acquire_start_def fits_def request_ok_def LocalCapacityRequest_Validate_def split: if_splits)
  with True acquire_locked_pool[OF assms(1)] show ?thesis by simp
next
  case False
  then have "m' = m" using assms(2) by (auto simp: acquire_accepted_def acquire_start_def fits_def split: option.splits if_splits)
  with False show ?thesis by simp
qed

lemma acquire_ready_pool:
  assumes "books_ok m" and "w < length (mr_waiter_heap m)"
    and "wt_selecting (mr_waiter_heap m ! w)" and "wt_ready (mr_waiter_heap m ! w)"
  shows "pool_of (snd (acquire_ready w m)) = pool_of m"
proof -
  let ?w = "mr_waiter_heap m ! w"
  have granted: "wt_granted ?w" using books_ok_waiter(2)[OF assms(1,2)] assms(3,4) by (auto simp: waiter_ok_def)
  from image_filter_put[OF assms(2), of wt_request "\<lambda>w. wt_granted w \<and> wt_selecting w" "?w\<lparr>wt_selecting := False\<rparr>"]
  have "held_bag (snd (acquire_ready w m)) = held_bag m"
    using granted assms(3) by (simp add: acquire_ready_def new_lease_def Let_def held_bag_def lease_bag_def waiter_bag_def)
  moreover have "queued_requests (snd (acquire_ready w m)) = queued_requests m"
    using assms(2) by (auto simp: queued_requests_def acquire_ready_def new_lease_def Let_def nth_list_update)
  ultimately show ?thesis by (simp add: pool_of_def)
qed

lemma acquire_cancel_granted_pool:
  assumes ok: "books_ok m" and w: "w < length (mr_waiter_heap m)" and s: "wt_selecting (mr_waiter_heap m ! w)"
    and g: "wt_granted (mr_waiter_heap m ! w)"
  shows "wt_request (mr_waiter_heap m ! w) \<in># held_bag m \<and>
    pool_of (acquire_cancel w m) = pool_return (mr_capacity m) (wt_request (mr_waiter_heap m ! w)) (pool_of m)"
proof -
  let ?w = "mr_waiter_heap m ! w"
  from image_filter_put[OF w, of wt_request "\<lambda>w. wt_granted w \<and> wt_selecting w"
      "?w\<lparr>wt_selecting := False, wt_granted := False\<rparr>"] g s
  have bag: "held_bag m = add_mset (wt_request ?w) (held_bag (grant_returned w m))"
    by (simp add: held_bag_def lease_bag_def waiter_bag_def grant_returned_def Let_def)
  moreover have "queued_requests (grant_returned w m) = queued_requests m" "mr_capacity (grant_returned w m) = mr_capacity m"
    using w by (auto simp: queued_requests_def grant_returned_def Let_def nth_list_update)
  ultimately show ?thesis
    using grantWaitersLocked_pool[OF grant_returned_books_ok[OF ok w s g]] g
    by (simp add: acquire_cancel_alt[OF ok w s] pool_return_def pool_of_def)
qed

lemma remove1_nth: "distinct xs \<Longrightarrow> i < length xs \<Longrightarrow> remove1 (xs ! i) xs = take i xs @ drop (Suc i) xs"
  by (induction xs arbitrary: i) (auto simp: nth_Cons split: nat.splits)

lemma acquire_cancel_queued_pool:
  assumes ok: "books_ok m" and i: "i < length (mr_waiters m)"
  shows "pool_of (acquire_cancel (mr_waiters m ! i) m) = pool_withdraw (mr_capacity m) i (pool_of m)"
proof -
  let ?w = "mr_waiters m ! i"
  have q: "?w < length (mr_waiter_heap m)" "wt_queued (mr_waiter_heap m ! ?w)" "distinct (mr_waiters m)"
    using ok nth_mem[OF i] by (auto simp: books_ok_def queue_ok_def strict_sorted_iff simp del: nth_mem)
  with books_ok_waiter(2)[OF ok q(1)] have s: "wt_selecting (mr_waiter_heap m ! ?w)" "\<not> wt_granted (mr_waiter_heap m ! ?w)"
    by (auto simp: waiter_ok_def)
  from image_filter_put[OF q(1), of wt_request "\<lambda>w. wt_granted w \<and> wt_selecting w"
      "(mr_waiter_heap m ! ?w)\<lparr>wt_selecting := False, wt_queued := False\<rparr>"] s(2)
  have "held_bag (queue_left ?w m) = held_bag m"
    by (simp add: held_bag_def lease_bag_def waiter_bag_def queue_left_def)
  moreover have "queued_requests (queue_left ?w m) = take i (queued_requests m) @ drop (Suc i) (queued_requests m)"
    using q(1) by (auto simp: queued_requests_def queue_left_def remove1_nth[OF q(3) i] take_map drop_map nth_list_update)
  moreover have "mr_capacity (queue_left ?w m) = mr_capacity m" by (simp add: queue_left_def)
  ultimately show ?thesis
    using grantWaitersLocked_pool[OF queue_left_books_ok[OF ok q(1,2)]] s(2)
    by (simp add: acquire_cancel_alt[OF ok q(1) s(1)] pool_withdraw_def pool_of_def)
qed

lemma lease_Release_pool:
  assumes ok: "books_ok m" and l: "l < length (mr_lease_heap m)" "\<not> ls_once (mr_lease_heap m ! l)"
  shows "ls_request (mr_lease_heap m ! l) \<in># held_bag m \<and>
    pool_of (lease_Release l m) = pool_return (mr_capacity m) (ls_request (mr_lease_heap m ! l)) (pool_of m)"
proof -
  let ?l = "mr_lease_heap m ! l"
  from image_filter_put[OF l(1), of ls_request "\<lambda>l. \<not> ls_once l" "?l\<lparr>ls_once := True\<rparr>"] l(2)
  have "held_bag m = add_mset (ls_request ?l) (held_bag (lease_returned l m))"
    by (simp add: held_bag_def lease_bag_def waiter_bag_def lease_returned_def Let_def)
  moreover have "queued_requests (lease_returned l m) = queued_requests m" "mr_capacity (lease_returned l m) = mr_capacity m"
    by (simp_all add: queued_requests_def lease_returned_def Let_def)
  ultimately show ?thesis
    using grantWaitersLocked_pool[OF lease_returned_books_ok[OF ok l]] l(2)
    by (simp add: lease_Release_alt pool_return_def pool_of_def)
qed

section \<open>Properties\<close>

text \<open>A runner with two CPUs and 2 GiB: one lease, then two waiters, of which the first is granted on release.\<close>

definition ex_capacity :: LocalCapacityRequest where "ex_capacity = \<lparr>lc_CPUMilli = 2000, lc_MemoryMB = 2048\<rparr>"
definition ex_large :: LocalCapacityRequest where "ex_large = \<lparr>lc_CPUMilli = 1500, lc_MemoryMB = 1024\<rparr>"
definition ex_small :: LocalCapacityRequest where "ex_small = \<lparr>lc_CPUMilli = 400, lc_MemoryMB = 256\<rparr>"

definition ex_idle :: MemoryLocalCapacityReservation where
  "ex_idle = \<lparr>mr_capacity = ex_capacity, mr_available = ex_capacity, mr_waiters = [], mr_waiter_heap = [], mr_lease_heap = []\<rparr>"

definition ex_busy :: MemoryLocalCapacityReservation where
  "ex_busy = snd (acquire_start (Some None) ex_small (snd (acquire_start (Some None) ex_large
     (snd (acquire_start (Some None) ex_large ex_idle)))))"

lemma ex_idle_new: "NewMemoryLocalCapacityReservation ex_capacity = Inr ex_idle"
  by code_simp

lemma ex_bounds: "lc_CPUMilli ex_capacity \<le> MaxInt64" "lc_MemoryMB ex_capacity \<le> MaxInt64"
  by code_simp+

lemma acquire_capacity_step: "capacity_step m (snd (acquire_start ctx r m))"
  by (rule capacity_step.acquires[of ctx r m "fst (acquire_start ctx r m)"]) simp

lemma ex_busy_reached: "capacity_step\<^sup>*\<^sup>* ex_idle ex_busy"
  unfolding ex_busy_def by (meson acquire_capacity_step converse_rtranclp_into_rtranclp r_into_rtranclp)

lemma ex_busy_heap: "map wt_queued (mr_waiter_heap ex_busy) = [True, True]"
  by code_simp

definition ex_returned :: MemoryLocalCapacityReservation where
  "ex_returned = lease_Release 0 (snd (acquire_start (Some None) ex_large ex_idle))"

lemma ex_returned_reached: "capacity_step\<^sup>*\<^sup>* ex_idle ex_returned"
proof -
  have "length (mr_lease_heap (snd (acquire_start (Some None) ex_large ex_idle))) = 1" by code_simp
  then have "capacity_step (snd (acquire_start (Some None) ex_large ex_idle)) ex_returned"
    unfolding ex_returned_def by (intro capacity_step.releases) simp
  then show ?thesis by (meson acquire_capacity_step converse_rtranclp_into_rtranclp r_into_rtranclp)
qed

text \<open>
  C10. However the goroutines interleave, the reservation never hands out more CPU or memory than it has: what
  leases and granted waiters hold, plus what is available, is the capacity in each dimension, and the available
  amount is never negative, so the 64-bit arithmetic never wraps around.
\<close>

theorem capacity_never_overcommitted:
  assumes "NewMemoryLocalCapacityReservation capacity = Inr m0"
    and "lc_CPUMilli capacity \<le> MaxInt64" and "lc_MemoryMB capacity \<le> MaxInt64"
    and "capacity_step\<^sup>*\<^sup>* m0 m"
  shows "lc_CPUMilli (mr_available m) + (\<Sum>r\<in>#held_bag m. lc_CPUMilli r) = lc_CPUMilli capacity \<and>
    lc_MemoryMB (mr_available m) + (\<Sum>r\<in>#held_bag m. lc_MemoryMB r) = lc_MemoryMB capacity \<and>
    0 \<le> lc_CPUMilli (mr_available m) \<and> 0 \<le> lc_MemoryMB (mr_available m)"
proof -
  have "mr_capacity m0 = capacity" using assms(1) by (auto simp: NewMemoryLocalCapacityReservation_def split: option.splits)
  with capacities_constant[OF assms(4)] have "mr_capacity m = capacity" by simp
  moreover have "books_ok m" using capacity_steps_ok[OF assms(4) new_capacity_ok[OF assms(1-3)]] by (simp add: capacity_ok_def)
  ultimately show ?thesis by (auto simp: books_ok_def balanced_def held_bag_sum)
qed

theorem capacity_never_overcommitted_witness:
  "lc_CPUMilli (mr_available ex_busy) + (\<Sum>r\<in>#held_bag ex_busy. lc_CPUMilli r) = 2000"
  using capacity_never_overcommitted[OF ex_idle_new ex_bounds ex_busy_reached] by (simp add: ex_capacity_def)

text \<open>
  C11. The reservation implements a pool of capacity, operation by operation: seen as the bag of the requests that
  hold capacity and the queue of those that wait, an accepted \<^verbatim>\<open>Acquire\<close> puts its request at the end of the queue, a
  waiter that leaves by its channel changes nothing, one that is cancelled gives back exactly what it holds or leaves
  the queue at its place, and the first release of a lease gives back exactly its request; each of them then serves
  the queue from its head for as long as the bag stays within the capacity, and does nothing else. An \<^verbatim>\<open>Acquire\<close> that
  is not accepted (a nil or finished context, a negative, empty or too large request) and a second release change
  nothing.
\<close>

theorem capacity_refines_pool:
  assumes "NewMemoryLocalCapacityReservation capacity = Inr m0"
    and "lc_CPUMilli capacity \<le> MaxInt64" and "lc_MemoryMB capacity \<le> MaxInt64"
    and "capacity_step\<^sup>*\<^sup>* m0 m"
  shows "pool_of m0 = ({#}, []) \<and>
    (\<forall>ctx r. pool_of (snd (acquire_start ctx r m)) =
       (if acquire_accepted ctx capacity r then pool_request capacity r (pool_of m) else pool_of m)) \<and>
    (\<forall>w < length (mr_waiter_heap m). wt_selecting (mr_waiter_heap m ! w) \<longrightarrow>
       (wt_ready (mr_waiter_heap m ! w) \<longrightarrow> pool_of (snd (acquire_ready w m)) = pool_of m) \<and>
       (wt_granted (mr_waiter_heap m ! w) \<longrightarrow> wt_request (mr_waiter_heap m ! w) \<in># held_bag m \<and>
          pool_of (acquire_cancel w m) = pool_return capacity (wt_request (mr_waiter_heap m ! w)) (pool_of m)) \<and>
       (\<not> wt_granted (mr_waiter_heap m ! w) \<longrightarrow> (\<exists>i < length (mr_waiters m). mr_waiters m ! i = w \<and>
          pool_of (acquire_cancel w m) = pool_withdraw capacity i (pool_of m)))) \<and>
    (\<forall>l < length (mr_lease_heap m).
       (if ls_once (mr_lease_heap m ! l) then pool_of (lease_Release l m) = pool_of m
        else ls_request (mr_lease_heap m ! l) \<in># held_bag m \<and>
          pool_of (lease_Release l m) = pool_return capacity (ls_request (mr_lease_heap m ! l)) (pool_of m)))"
proof (intro conjI allI impI)
  have ok: "books_ok m" using capacity_steps_ok[OF assms(4) new_capacity_ok[OF assms(1-3)]] by (simp add: capacity_ok_def)
  have cap: "mr_capacity m = capacity" using capacities_constant[OF assms(4)] assms(1)
    by (auto simp: NewMemoryLocalCapacityReservation_def split: option.splits)
  show "pool_of m0 = ({#}, [])" using assms(1)
    by (auto simp: NewMemoryLocalCapacityReservation_def pool_of_def queued_requests_def held_bag_def lease_bag_def
        waiter_bag_def split: option.splits)
  show "pool_of (snd (acquire_start ctx r m)) = (if acquire_accepted ctx capacity r then pool_request capacity r (pool_of m) else pool_of m)"
    for ctx r using acquire_start_pool[OF ok, of ctx r "fst (acquire_start ctx r m)" "snd (acquire_start ctx r m)"] cap by simp
  fix w assume w: "w < length (mr_waiter_heap m)" and s: "wt_selecting (mr_waiter_heap m ! w)"
  show "pool_of (snd (acquire_ready w m)) = pool_of m" if "wt_ready (mr_waiter_heap m ! w)"
    by (rule acquire_ready_pool[OF ok w s that])
  show "wt_request (mr_waiter_heap m ! w) \<in># held_bag m"
    and "pool_of (acquire_cancel w m) = pool_return capacity (wt_request (mr_waiter_heap m ! w)) (pool_of m)"
    if "wt_granted (mr_waiter_heap m ! w)" using acquire_cancel_granted_pool[OF ok w s that] cap by simp_all
  show "\<exists>i < length (mr_waiters m). mr_waiters m ! i = w \<and> pool_of (acquire_cancel w m) = pool_withdraw capacity i (pool_of m)"
    if "\<not> wt_granted (mr_waiter_heap m ! w)"
  proof -
    have "w \<in> set (mr_waiters m)" using ok books_ok_waiter(2)[OF ok w] w s that by (auto simp: books_ok_def queue_ok_def waiter_ok_def)
    then obtain i where i: "i < length (mr_waiters m)" "mr_waiters m ! i = w" by (auto simp: in_set_conv_nth)
    with acquire_cancel_queued_pool[OF ok i(1)] cap show ?thesis by auto
  qed
next
  have ok: "books_ok m" using capacity_steps_ok[OF assms(4) new_capacity_ok[OF assms(1-3)]] by (simp add: capacity_ok_def)
  have cap: "mr_capacity m = capacity" using capacities_constant[OF assms(4)] assms(1)
    by (auto simp: NewMemoryLocalCapacityReservation_def split: option.splits)
  fix l assume "l < length (mr_lease_heap m)"
  with lease_Release_pool[OF ok this] cap show "if ls_once (mr_lease_heap m ! l) then pool_of (lease_Release l m) = pool_of m
      else ls_request (mr_lease_heap m ! l) \<in># held_bag m \<and>
        pool_of (lease_Release l m) = pool_return capacity (ls_request (mr_lease_heap m ! l)) (pool_of m)"
    by (simp add: lease_Release_alt)
qed

theorem capacity_refines_pool_witness:
  "pool_of (lease_Release 0 ex_busy) = pool_return ex_capacity ex_large (pool_of ex_busy)"
proof -
  have l: "0 < length (mr_lease_heap ex_busy)" "\<not> ls_once (mr_lease_heap ex_busy ! 0)" "ls_request (mr_lease_heap ex_busy ! 0) = ex_large"
    by code_simp+
  from capacity_refines_pool[OF ex_idle_new ex_bounds ex_busy_reached] l show ?thesis by presburger
qed

text \<open>
  No wakeup is lost: whenever nobody holds capacity, nobody is queued, so a waiter never blocks on capacity that
  is free. (A waiter whose goroutine has been granted but has not yet left the \<^verbatim>\<open>select\<close> still holds capacity.)
\<close>

lemma capacity_queue_drains:
  assumes "NewMemoryLocalCapacityReservation capacity = Inr m0"
    and "lc_CPUMilli capacity \<le> MaxInt64" and "lc_MemoryMB capacity \<le> MaxInt64"
    and "capacity_step\<^sup>*\<^sup>* m0 m" and "held_bag m = {#}"
  shows "mr_waiters m = [] \<and> mr_available m = capacity"
proof -
  from capacity_steps_ok[OF assms(4) new_capacity_ok[OF assms(1-3)]] have ok: "books_ok m" "head_blocked m"
    by (simp_all add: capacity_ok_def)
  have cap: "mr_capacity m = capacity" using capacities_constant[OF assms(4)] assms(1)
    by (auto simp: NewMemoryLocalCapacityReservation_def split: option.splits)
  have "held dim m = 0" for dim using held_bag_sum[of dim m] assms(5) by simp
  with ok(1) cap have avail: "mr_available m = capacity" by (simp add: books_ok_def balanced_def)
  have "mr_waiters m = []"
  proof (rule ccontr)
    assume ne: "mr_waiters m \<noteq> []"
    then have "hd (mr_waiters m) \<in> set (mr_waiters m)" by simp
    with ok(1) have "hd (mr_waiters m) < length (mr_waiter_heap m)" by (simp add: books_ok_def queue_ok_def)
    from books_ok_waiter(1)[OF ok(1) this] ok(2) ne avail cap show False by (simp add: head_blocked_def request_ok_def)
  qed
  with avail show ?thesis by simp
qed

text \<open>
  Waiters are served in the order they came: while an earlier waiter is still queued, no later one has been
  granted, although its request may be small enough to fit.
\<close>

lemma capacity_no_overtaking:
  assumes "NewMemoryLocalCapacityReservation capacity = Inr m0"
    and "lc_CPUMilli capacity \<le> MaxInt64" and "lc_MemoryMB capacity \<le> MaxInt64"
    and "capacity_step\<^sup>*\<^sup>* m0 m"
    and "earlier < later" and "later < length (mr_waiter_heap m)" and "wt_queued (mr_waiter_heap m ! earlier)"
  shows "\<not> wt_granted (mr_waiter_heap m ! later)"
  using capacity_steps_ok[OF assms(4) new_capacity_ok[OF assms(1-3)]] assms(5-7)
  by (auto simp: capacity_ok_def books_ok_def queue_ok_def)

text \<open>
  \<^verbatim>\<open>Release\<close> is idempotent: releasing a lease a second time changes nothing, neither the available capacity nor
  the queue.
\<close>

lemma lease_release_idempotent:
  assumes "l < length (mr_lease_heap m)"
  shows "lease_Release l (lease_Release l m) = lease_Release l m"
proof -
  have "ls_once (mr_lease_heap (lease_Release l m) ! l)"
    using assms by (auto simp: lease_Release_alt lease_returned_def grantWaitersLocked_def Let_def split: prod.splits)
  then show ?thesis by (subst lease_Release_alt) simp
qed

end
