(* ===== verification/Schedule_Checks.thy ===== *)
theory Schedule_Checks
  imports Schedule_Data Go_Graph Go_Time
begin

text \<open>
  What \<^verbatim>\<open>BuildSchedule\<close> checks before it plans (\<^verbatim>\<open>internal/certification/scheduler.go\<close>): the cells of the matrix
  one by one and against each other, the checkpoints of an earlier run, the pending deletions and the budget.
  Maps that only record what was seen are lists. \<^verbatim>\<open>time.Now()\<close> is the argument \<open>now\<close>, in nanoseconds. Where the
  source ranges over a map of named values the model checks them in the order they are written.
\<close>

definition non_runnable :: "string \<Rightarrow> bool" where
  "non_runnable status \<longleftrightarrow> status = CapabilityUnsupported \<or> status = CapabilityUnavailable \<or> status = CapabilityBlocked"

definition cell_status_known :: "string \<Rightarrow> bool" where
  "cell_status_known status \<longleftrightarrow> status = CapabilityCompatible \<or> status = CapabilityExperimental \<or> non_runnable status"

definition scheduleCellIdentity :: "ScheduleCell \<Rightarrow> string" where
  "scheduleCellIdentity c =
     (let coverage = (case sc_Coverage c of
            None \<Rightarrow> []
          | Some b \<Rightarrow> (case CoverageBoundary_Fingerprint b of Inl _ \<Rightarrow> [] | Inr fingerprint \<Rightarrow> fingerprint))
      in sc_WarmBoundary c @ [CHR 0x00] @ sc_Fingerprint c @ [CHR 0x00] @ sc_OwnershipMarker c @ [CHR 0x00] @ coverage)"

section \<open>Cells\<close>

definition validateExecutionEstimate :: "ExecutionEstimate \<Rightarrow> cell_error option" where
  "validateExecutionEstimate e = first_failure
     [(ee_CloudOperationSeconds e < 0, CellNegativeEstimate ''cloud operation seconds''),
      (ee_ResourceLifetimeSeconds e < 0, CellNegativeEstimate ''resource lifetime seconds''),
      (ee_EstimatedCostCents e < 0, CellNegativeEstimate ''estimated cost cents''),
      (ee_CleanupLatencySeconds e < 0, CellNegativeEstimate ''cleanup latency seconds'')]"

definition cell_reuse :: "ScheduleCell \<Rightarrow> cell_error option" where
  "cell_reuse c =
     (case sc_ReuseFingerprint c of None \<Rightarrow> None
      | Some f \<Rightarrow> (case ReuseFingerprint_Validate f of Some e \<Rightarrow> Some (CellReuse e)
      | None \<Rightarrow>
          if rf_OwnershipMarker f \<noteq> sc_OwnershipMarker c then Some CellReuseOwnership
          else (case ReuseFingerprint_Digest f of Inl e \<Rightarrow> Some (CellReuse e)
          | Inr digest \<Rightarrow> if digest \<noteq> sc_Fingerprint c then Some CellReuseDigestMismatch else None)))"

definition cell_coverage :: "ScheduleCell \<Rightarrow> cell_error option" where
  "cell_coverage c =
     (case sc_Coverage c of None \<Rightarrow> None
      | Some b \<Rightarrow> (case CoverageBoundary_Validate b of [] \<Rightarrow> None | es \<Rightarrow> Some (CellCoverage es)))"

text \<open>One cell, with the IDs of the cells before it and the estimates of their execution units.\<close>

definition check_cell :: "string list \<Rightarrow> (string \<times> ExecutionEstimate) list \<Rightarrow> ScheduleCell \<Rightarrow> cell_error option" where
  "check_cell known estimates c =
     (if \<not> ValidateSecretSafeValue (ScheduleCell_json c) then Some CellSecretLike
      else if blank (sc_ID c) then Some CellIDRequired
      else if sc_ID c \<in> set known then Some DuplicateCell
      else if \<not> full_match fingerprintPattern (sc_Fingerprint c) then Some CellFingerprintInvalid
      else first_err [cell_reuse c,
        if blank (sc_WarmBoundary c) then Some CellWarmBoundaryRequired else None,
        cell_coverage c,
        if sc_WarmTransition c \<noteq> [] \<and> sc_WarmFrom c = [] then Some CellTransitionWithoutBaseline else None,
        if blank (sc_OwnershipMarker c) then Some CellOwnershipRequired else None,
        if sc_MutationKeys c = [] then Some CellMutationKeysRequired else None,
        validateExecutionEstimate (sc_Estimate c),
        if hasDuplicate (sc_MutationKeys c) then Some CellDuplicateMutationKeys else None,
        if \<not> cell_status_known (sc_Status c) then Some (CellStatusInvalid (sc_Status c)) else None,
        if sc_WarmFrom c \<noteq> [] \<and> sc_WarmFrom c = sc_ID c then Some CellWarmsFromItself else None,
        (case map_of estimates (scheduleCellIdentity c) of
           None \<Rightarrow> None
         | Some estimate \<Rightarrow> if estimate \<noteq> sc_Estimate c then Some CellEstimateDiffers else None)])"

fun check_cells ::
  "string list \<Rightarrow> (string \<times> ExecutionEstimate) list \<Rightarrow> ScheduleCell list \<Rightarrow> schedule_error option" where
  "check_cells known estimates [] = None"
| "check_cells known estimates (c # cs) =
     (case check_cell known estimates c of
        Some e \<Rightarrow> Some (CellError (sc_ID c) e)
      | None \<Rightarrow> check_cells (sc_ID c # known) (map_put (scheduleCellIdentity c) (sc_Estimate c) estimates) cs)"

section \<open>Links between cells\<close>

fun check_dependencies :: "string list \<Rightarrow> string \<Rightarrow> string list \<Rightarrow> string list \<Rightarrow> link_error option" where
  "check_dependencies known cell seen [] = None"
| "check_dependencies known cell seen (d # ds) =
     (if d \<notin> set known then Some (UnknownDependency d)
      else if d = cell then Some SelfDependency
      else if d \<in> set seen then Some (DuplicateDependency d)
      else check_dependencies known cell (d # seen) ds)"

definition compatibleWarmReuseFingerprints :: "ReuseFingerprint \<Rightarrow> ReuseFingerprint \<Rightarrow> bool" where
  "compatibleWarmReuseFingerprints baseline nxt \<longleftrightarrow>
     rf_Fixture baseline = rf_Fixture nxt \<and> rf_BackupSet baseline = rf_BackupSet nxt \<and>
     rf_Observability baseline = rf_Observability nxt \<and> rf_Edge baseline = rf_Edge nxt \<and>
     rf_ArtifactDigest baseline = rf_ArtifactDigest nxt \<and> rf_SchemaFingerprint baseline = rf_SchemaFingerprint nxt \<and>
     rf_MigrationFingerprint baseline = rf_MigrationFingerprint nxt \<and>
     rf_OwnershipMarker baseline = rf_OwnershipMarker nxt \<and> rf_StateBackend baseline = rf_StateBackend nxt"

definition warm_coverage :: "ScheduleCell \<Rightarrow> ScheduleCell \<Rightarrow> link_error option" where
  "warm_coverage baseline c =
     (case (sc_Coverage baseline, sc_Coverage c) of
        (Some b, Some n) \<Rightarrow>
          (case CoverageBoundary_Fingerprint b of Inl es \<Rightarrow> Some (WarmCoverage es)
           | Inr bf \<Rightarrow> (case CoverageBoundary_Fingerprint n of Inl es \<Rightarrow> Some (WarmCoverage es)
           | Inr nf \<Rightarrow>
               if bf \<noteq> nf then map_option WarmTransitionCoverage (ValidateCoverageTransition b n (sc_WarmTransition c))
               else None))
      | (None, None) \<Rightarrow> None
      | _ \<Rightarrow> Some WarmIncompleteCoverage)"

definition check_warm :: "ScheduleCell list \<Rightarrow> ScheduleCell \<Rightarrow> link_error option" where
  "check_warm cells c =
     (if sc_WarmFrom c = [] then None
      else case find (\<lambda>b. sc_ID b = sc_WarmFrom c) cells of
        None \<Rightarrow> Some (WarmUnknownBaseline (sc_WarmFrom c))
      | Some baseline \<Rightarrow>
          if sc_WarmBoundary baseline \<noteq> sc_WarmBoundary c \<or> sc_OwnershipMarker baseline \<noteq> sc_OwnershipMarker c
          then Some WarmCrossesBoundary
          else if sc_Fingerprint baseline = sc_Fingerprint c then Some WarmSameFingerprint
          else (case (sc_ReuseFingerprint baseline, sc_ReuseFingerprint c) of
              (Some b, Some n) \<Rightarrow> if \<not> compatibleWarmReuseFingerprints b n then Some WarmColdReuse else warm_coverage baseline c
            | (None, None) \<Rightarrow> warm_coverage baseline c
            | _ \<Rightarrow> Some WarmIncompleteReuse))"

fun check_links :: "ScheduleCell list \<Rightarrow> ScheduleCell list \<Rightarrow> schedule_error option" where
  "check_links cells [] = None"
| "check_links cells (c # cs) =
     (case check_dependencies (map sc_ID cells) (sc_ID c) [] (sc_Dependencies c) of
        Some e \<Rightarrow> Some (LinkError (sc_ID c) e)
      | None \<Rightarrow> (case check_warm cells c of
          Some e \<Rightarrow> Some (LinkError (sc_ID c) e)
        | None \<Rightarrow> check_links cells cs))"

text \<open>Cells that share an ownership marker, by marker in the order of first use.\<close>

definition marker_conflict :: "ScheduleCell list \<Rightarrow> string \<Rightarrow> bool" where
  "marker_conflict cells marker =
     (case filter (\<lambda>c. sc_OwnershipMarker c = marker) cells of
        [] \<Rightarrow> False
      | first # others \<Rightarrow>
          list_ex (\<lambda>c. scheduleCellIdentity c \<noteq> scheduleCellIdentity first \<and> sc_WarmFrom c = []) (first # others))"

definition check_ownership :: "ScheduleCell list \<Rightarrow> schedule_error option" where
  "check_ownership cells =
     map_option DuplicateOwnership (find (marker_conflict cells) (uniq_seen [] (map sc_OwnershipMarker cells)))"

text \<open>The dependencies by ID; a later cell replaces an earlier one with its ID.\<close>

definition cell_graph :: "ScheduleCell list \<Rightarrow> string graph" where
  "cell_graph cells = rev (map (\<lambda>c. (sc_ID c, sc_Dependencies c)) cells)"

definition scheduleDependencyCycle :: "ScheduleCell list \<Rightarrow> schedule_error option" where
  "scheduleDependencyCycle cells = map_option DependencyCycle (find_cycle (cell_graph cells) (sort (map sc_ID cells)))"

definition validateScheduleCells :: "ScheduleCell list \<Rightarrow> schedule_error option" where
  "validateScheduleCells cells =
     (if cells = [] then Some NoCells
      else first_err [check_cells [] [] cells, check_links cells cells, check_ownership cells, scheduleDependencyCycle cells])"

section \<open>Checkpoints, deletions, budget\<close>

definition checkpoint_reuse :: "ScheduleCell \<Rightarrow> SchedulerCheckpoint \<Rightarrow> checkpoint_error option" where
  "checkpoint_reuse c k =
     (case sc_ReuseFingerprint c of None \<Rightarrow> None
      | Some planned \<Rightarrow> (case sk_ReuseFingerprint k of None \<Rightarrow> Some CheckpointMissingReuse
      | Some f \<Rightarrow> (case ReuseFingerprint_Validate f of Some e \<Rightarrow> Some (CheckpointReuse e)
      | None \<Rightarrow> (case ReuseFingerprint_Digest planned of Inl e \<Rightarrow> Some (CheckpointReuse e)
      | Inr plannedDigest \<Rightarrow> (case ReuseFingerprint_Digest f of Inl e \<Rightarrow> Some (CheckpointReuse e)
      | Inr digest \<Rightarrow> if digest \<noteq> plannedDigest then Some CheckpointReuseDiffers else None)))))"

definition checkpoint_statuses :: "string list" where
  "checkpoint_statuses = [''PASS'', ''FAIL'', ''PENDING'', ''IN_PROGRESS'']"

definition updated_at_ok :: "int \<Rightarrow> string \<Rightarrow> bool" where
  "updated_at_ok now s \<longleftrightarrow> s = [] \<or> (case parse_rfc3339 s of None \<Rightarrow> False | Some t \<Rightarrow> t \<le> now + nanos_per_day)"

definition check_checkpoint ::
  "int \<Rightarrow> ScheduleCell list \<Rightarrow> string list \<Rightarrow> SchedulerCheckpoint \<Rightarrow> checkpoint_error option" where
  "check_checkpoint now cells seen k =
     (if \<not> ValidateSecretSafeValue (SchedulerCheckpoint_json k) then Some CheckpointSecretLike
      else case find (\<lambda>c. sc_ID c = sk_CellID k) (rev cells) of None \<Rightarrow> Some CheckpointUnknownCell
      | Some c \<Rightarrow>
          if sk_CellID k \<in> set seen then Some CheckpointDuplicate
          else if sk_Fingerprint k \<noteq> sc_Fingerprint c then Some CheckpointStale
          else if sk_OwnershipMarker k \<noteq> sc_OwnershipMarker c then Some CheckpointOwnership
          else (case checkpoint_reuse c k of Some e \<Rightarrow> Some e
          | None \<Rightarrow>
              if sk_Status k \<notin> set checkpoint_statuses then Some (CheckpointStatusInvalid (sk_Status k))
              else if \<not> updated_at_ok now (sk_UpdatedAt k) then Some CheckpointUpdatedAt else None))"

fun check_checkpoints ::
  "int \<Rightarrow> ScheduleCell list \<Rightarrow> string list \<Rightarrow> SchedulerCheckpoint list \<Rightarrow> schedule_error option" where
  "check_checkpoints now cells seen [] = None"
| "check_checkpoints now cells seen (k # ks) =
     (case check_checkpoint now cells seen k of
        Some e \<Rightarrow> Some (CheckpointError (sk_CellID k) e)
      | None \<Rightarrow> check_checkpoints now cells (sk_CellID k # seen) ks)"

definition validateCheckpoints ::
  "int \<Rightarrow> ScheduleCell list \<Rightarrow> SchedulerCheckpoint list \<Rightarrow> schedule_error + (string \<times> SchedulerCheckpoint) list" where
  "validateCheckpoints now cells ks =
     (case check_checkpoints now cells [] ks of
        Some e \<Rightarrow> Inl e
      | None \<Rightarrow> Inr (map (\<lambda>k. (sk_CellID k, k)) ks))"

fun check_deletions :: "string list \<Rightarrow> PendingDeletion list \<Rightarrow> plan_error option" where
  "check_deletions seen [] = None"
| "check_deletions seen (d # ds) =
     (if blank (pd_OwnershipMarker d) then Some DeletionMarkerRequired
      else if pd_MutationKeys d = [] \<or> hasDuplicate (pd_MutationKeys d) then Some (DeletionMutationKeys (pd_OwnershipMarker d))
      else if pd_OwnershipMarker d \<in> set seen then Some (DeletionDuplicateMarker (pd_OwnershipMarker d))
      else check_deletions (pd_OwnershipMarker d # seen) ds)"

definition validatePendingDeletions :: "PendingDeletion list \<Rightarrow> schedule_error option" where
  "validatePendingDeletions ds = map_option PlanError (check_deletions [] ds)"

definition validateCertificationBudget :: "CertificationBudget \<Rightarrow> schedule_error option" where
  "validateCertificationBudget b = map_option BudgetError (first_failure
     [(bu_MaxCloudOperationSeconds b < 0, BudgetNegative ''max cloud operation seconds''),
      (bu_MaxResourceLifetimeSeconds b < 0, BudgetNegative ''max resource lifetime seconds''),
      (bu_MaxEstimatedCostCents b < 0, BudgetNegative ''max estimated cost cents''),
      (bu_MaxCleanupLatencySeconds b < 0, BudgetNegative ''max cleanup latency seconds'')])"

definition enforceCertificationBudget :: "Schedule \<Rightarrow> CertificationBudget \<Rightarrow> schedule_error option" where
  "enforceCertificationBudget s b = map_option BudgetError (first_failure
     [(bu_MaxCloudOperationSeconds b > 0 \<and> sd_CloudOperationSeconds s > bu_MaxCloudOperationSeconds b, BudgetCloudExceeded),
      (bu_MaxResourceLifetimeSeconds b > 0 \<and> sd_ResourceLifetimeSeconds s > bu_MaxResourceLifetimeSeconds b, BudgetLifetimeExceeded),
      (bu_RequireCostEstimate b \<and> \<not> sd_CostKnown s, BudgetCostUnknown),
      (bu_MaxEstimatedCostCents b > 0 \<and> \<not> sd_CostKnown s, BudgetSpendUnknown),
      (bu_MaxEstimatedCostCents b > 0 \<and> sd_EstimatedCostCents s > bu_MaxEstimatedCostCents b, BudgetSpendExceeded),
      (bu_MaxCleanupLatencySeconds b > 0 \<and> sd_CleanupLatencySeconds s > bu_MaxCleanupLatencySeconds b, BudgetCleanupExceeded)])"

definition rejectPendingDeletionReuse ::
  "ScheduleCell list \<Rightarrow> string list \<Rightarrow> PendingDeletion list \<Rightarrow> schedule_error option" where
  "rejectPendingDeletionReuse cells completed deletions = first_err
     (map (\<lambda>(d, c). if intersects (sc_MutationKeys c) (pd_MutationKeys d)
            then Some (PlanError (BlockedByDeletion (sc_ID c) (pd_OwnershipMarker d))) else None)
        [(d, c). d \<leftarrow> deletions, \<not> pd_Resolved d, c \<leftarrow> cells, sc_ID c \<notin> set completed])"

section \<open>What the checks establish\<close>

lemma check_cells_None:
  assumes "check_cells known estimates cs = None"
  shows "distinct (map sc_ID cs) \<and> sc_ID ` set cs \<inter> set known = {} \<and>
    (\<forall>c \<in> set cs. \<exists>known estimates. check_cell known estimates c = None)"
  using assms
proof (induction known estimates cs rule: check_cells.induct)
  case (2 known estimates c cs)
  from "2.prems" have c: "check_cell known estimates c = None"
    and rest: "check_cells (sc_ID c # known) (map_put (scheduleCellIdentity c) (sc_Estimate c) estimates) cs = None"
    by (auto split: option.splits)
  from c have "sc_ID c \<notin> set known" by (auto simp: check_cell_def split: if_splits)
  with "2.IH"[OF c rest] c show ?case by auto
qed simp

definition cell_ok :: "ScheduleCell \<Rightarrow> bool" where
  "cell_ok c \<longleftrightarrow> \<not> blank (sc_ID c) \<and> \<not> blank (sc_OwnershipMarker c) \<and> \<not> blank (sc_WarmBoundary c) \<and>
     sc_MutationKeys c \<noteq> [] \<and> distinct (sc_MutationKeys c) \<and> [] \<notin> set (sc_MutationKeys c) \<and>
     cell_status_known (sc_Status c) \<and> sc_WarmFrom c \<noteq> sc_ID c \<and>
     0 \<le> ee_CloudOperationSeconds (sc_Estimate c) \<and> 0 \<le> ee_ResourceLifetimeSeconds (sc_Estimate c) \<and>
     0 \<le> ee_EstimatedCostCents (sc_Estimate c) \<and> 0 \<le> ee_CleanupLatencySeconds (sc_Estimate c) \<and>
     (\<forall>f. sc_ReuseFingerprint c = Some f \<longrightarrow>
        ReuseFingerprint_Digest f = Inr (sc_Fingerprint c) \<and> rf_OwnershipMarker f = sc_OwnershipMarker c) \<and>
     (\<forall>b. sc_Coverage c = Some b \<longrightarrow> CoverageBoundary_Validate b = [])"

lemma cell_reuse_None:
  "cell_reuse c = None \<Longrightarrow> sc_ReuseFingerprint c = Some f \<Longrightarrow>
     ReuseFingerprint_Digest f = Inr (sc_Fingerprint c) \<and> rf_OwnershipMarker f = sc_OwnershipMarker c"
  by (auto simp: cell_reuse_def split: option.splits if_splits sum.splits)

lemma check_cell_None:
  assumes "check_cell known estimates c = None"
  shows "cell_ok c"
proof -
  have "blank (sc_ID c) = False" "cell_reuse c = None" "blank (sc_WarmBoundary c) = False" "cell_coverage c = None"
    "blank (sc_OwnershipMarker c) = False" "sc_MutationKeys c \<noteq> []" "validateExecutionEstimate (sc_Estimate c) = None"
    "\<not> hasDuplicate (sc_MutationKeys c)" "cell_status_known (sc_Status c)" "sc_WarmFrom c = [] \<or> sc_WarmFrom c \<noteq> sc_ID c"
    using assms by (auto simp: check_cell_def split: if_splits)
  then show ?thesis using cell_reuse_None[of c] not_blank_imp_ne[of "sc_ID c"]
    by (auto simp: cell_ok_def hasDuplicate_iff validateExecutionEstimate_def cell_coverage_def
        split: option.splits if_splits list.splits)
qed

lemma check_dependencies_None:
  "check_dependencies known cell seen ds = None \<Longrightarrow>
     set ds \<subseteq> set known \<and> cell \<notin> set ds \<and> distinct ds \<and> set ds \<inter> set seen = {}"
  by (induction known cell seen ds rule: check_dependencies.induct) (auto split: if_splits)

lemma check_links_None:
  "check_links cells cs = None \<longleftrightarrow>
     (\<forall>c \<in> set cs. check_dependencies (map sc_ID cells) (sc_ID c) [] (sc_Dependencies c) = None \<and> check_warm cells c = None)"
  by (induction cs) (auto split: option.splits)

text \<open>A warm cell starts from a cell of the matrix in the same boundary and scope, and changes something.\<close>

definition warm_ok :: "ScheduleCell list \<Rightarrow> ScheduleCell \<Rightarrow> bool" where
  "warm_ok cells c \<longleftrightarrow> sc_WarmFrom c = [] \<or>
     (\<exists>b \<in> set cells. sc_ID b = sc_WarmFrom c \<and> sc_WarmBoundary b = sc_WarmBoundary c \<and>
        sc_OwnershipMarker b = sc_OwnershipMarker c \<and> sc_Fingerprint b \<noteq> sc_Fingerprint c \<and>
        (sc_ReuseFingerprint b = None) = (sc_ReuseFingerprint c = None) \<and> (sc_Coverage b = None) = (sc_Coverage c = None))"

lemma check_warm_None: "check_warm cells c = None \<Longrightarrow> warm_ok cells c"
  by (auto simp: check_warm_def warm_ok_def warm_coverage_def find_Some_iff split: option.splits if_splits)

lemma deps_cell_graph:
  assumes "distinct (map sc_ID cells)" and "c \<in> set cells"
  shows "deps (cell_graph cells) (sc_ID c) = sc_Dependencies c"
proof -
  have "map_of (cell_graph cells) (sc_ID c) = Some (sc_Dependencies c)"
    using assms by (intro map_of_is_SomeI) (auto simp: cell_graph_def rev_map[symmetric] comp_def)
  then show ?thesis by (simp add: deps_def)
qed

lemma cold_owner_identity:
  assumes "check_ownership cells = None" and "c \<in> set cells" and "d \<in> set cells"
    and "sc_OwnershipMarker c = sc_OwnershipMarker d" and "sc_WarmFrom c = []" and "sc_WarmFrom d = []"
  shows "scheduleCellIdentity c = scheduleCellIdentity d"
proof -
  have "sc_OwnershipMarker c \<in> set (uniq_seen [] (map sc_OwnershipMarker cells))" using assms(2) by (simp add: set_uniq_seen)
  with assms(1) have "\<not> marker_conflict cells (sc_OwnershipMarker c)"
    by (auto simp: check_ownership_def find_None_iff)
  moreover obtain first others where f: "filter (\<lambda>e. sc_OwnershipMarker e = sc_OwnershipMarker c) cells = first # others"
    using assms(2) by (cases "filter (\<lambda>e. sc_OwnershipMarker e = sc_OwnershipMarker c) cells") (auto simp: filter_empty_conv)
  moreover have "e \<in> set (first # others)" if "e \<in> set cells" "sc_OwnershipMarker e = sc_OwnershipMarker c" for e
    unfolding f[symmetric] using that by simp
  from this[OF assms(2)] this[OF assms(3)] have "c \<in> set (first # others)" "d \<in> set (first # others)" using assms(4) by auto
  ultimately have "scheduleCellIdentity c = scheduleCellIdentity first" "scheduleCellIdentity d = scheduleCellIdentity first"
    using assms(5,6) by (auto simp: marker_conflict_def list_ex_iff)
  then show ?thesis by simp
qed

lemma scheduleDependencyCycle_None:
  assumes "scheduleDependencyCycle cells = None"
  shows "acyclic (edges (cell_graph cells))"
  using assms find_cycle_None[of "cell_graph cells" "sort (map sc_ID cells)"]
  by (auto simp: scheduleDependencyCycle_def cell_graph_def image_image)

lemma validateScheduleCells_None:
  assumes "validateScheduleCells cells = None"
  shows "distinct (map sc_ID cells)" and "\<And>c. c \<in> set cells \<Longrightarrow> cell_ok c"
    and "\<And>c. c \<in> set cells \<Longrightarrow> set (sc_Dependencies c) \<subseteq> sc_ID ` set cells"
    and "\<And>c. c \<in> set cells \<Longrightarrow> warm_ok cells c"
    and "acyclic (edges (cell_graph cells))" and "check_ownership cells = None"
proof -
  from assms have c: "check_cells [] [] cells = None" and l: "check_links cells cells = None"
    and o: "check_ownership cells = None" and d: "scheduleDependencyCycle cells = None"
    by (auto simp: validateScheduleCells_def split: if_splits)
  show "distinct (map sc_ID cells)" using check_cells_None[OF c] by simp
  show "cell_ok c" if "c \<in> set cells" for c using check_cells_None[OF c] that check_cell_None by blast
  show "set (sc_Dependencies c) \<subseteq> sc_ID ` set cells" if "c \<in> set cells" for c
    using l that check_dependencies_None[of "map sc_ID cells" "sc_ID c" "[]" "sc_Dependencies c"]
    by (simp add: check_links_None)
  show "warm_ok cells c" if "c \<in> set cells" for c using l that check_warm_None by (auto simp: check_links_None)
  show "acyclic (edges (cell_graph cells))" by (rule scheduleDependencyCycle_None[OF d])
  show "check_ownership cells = None" by (rule o)
qed

text \<open>A checkpoint that was accepted was recorded for a cell of the plan, in its fingerprint and scope.\<close>

definition checkpoint_ok :: "ScheduleCell list \<Rightarrow> SchedulerCheckpoint \<Rightarrow> bool" where
  "checkpoint_ok cells k \<longleftrightarrow> sk_Status k \<in> set checkpoint_statuses \<and>
     (\<exists>c \<in> set cells. sc_ID c = sk_CellID k \<and> sk_Fingerprint k = sc_Fingerprint c \<and>
        sk_OwnershipMarker k = sc_OwnershipMarker c \<and>
        (\<forall>planned. sc_ReuseFingerprint c = Some planned \<longrightarrow>
           (\<exists>f. sk_ReuseFingerprint k = Some f \<and> ReuseFingerprint_Digest f = ReuseFingerprint_Digest planned)))"

lemma check_checkpoint_None:
  assumes "check_checkpoint now cells seen k = None"
  shows "checkpoint_ok cells k \<and> sk_CellID k \<notin> set seen"
proof -
  from assms obtain c where find: "find (\<lambda>c. sc_ID c = sk_CellID k) (rev cells) = Some c"
    and c: "sk_CellID k \<notin> set seen" "sk_Fingerprint k = sc_Fingerprint c" "sk_OwnershipMarker k = sc_OwnershipMarker c"
      "checkpoint_reuse c k = None" "sk_Status k \<in> set checkpoint_statuses"
    by (auto simp: check_checkpoint_def split: if_splits option.splits)
  from find have "c \<in> set cells" "sc_ID c = sk_CellID k" by (auto dest: find_SomeD)
  with c show ?thesis
    by (force simp: checkpoint_ok_def checkpoint_reuse_def split: option.splits sum.splits if_splits)
qed

lemma check_checkpoints_None:
  assumes "check_checkpoints now cells seen ks = None"
  shows "distinct (map sk_CellID ks) \<and> sk_CellID ` set ks \<inter> set seen = {} \<and> (\<forall>k \<in> set ks. checkpoint_ok cells k)"
  using assms
proof (induction now cells seen ks rule: check_checkpoints.induct)
  case (2 now cells seen k ks)
  then show ?case using check_checkpoint_None[of now cells seen k] by (auto split: option.splits)
qed simp

section \<open>Properties\<close>

definition ex_cell :: "string \<Rightarrow> char \<Rightarrow> string \<Rightarrow> string list \<Rightarrow> ScheduleCell" where
  "ex_cell cellID digit marker dependencies =
     \<lparr>sc_ID = cellID, sc_Fingerprint = replicate 64 digit, sc_ReuseFingerprint = None, sc_WarmBoundary = ''eks'',
      sc_WarmFrom = [], sc_WarmTransition = [], sc_Coverage = None, sc_Dependencies = dependencies,
      sc_MutationKeys = [''stack-'' @ cellID], sc_OwnershipMarker = marker,
      sc_Estimate = \<lparr>ee_CloudOperationSeconds = 60, ee_ResourceLifetimeSeconds = 600, ee_EstimatedCostCents = 25,
        ee_CleanupLatencySeconds = 30, ee_CostKnown = True\<rparr>,
      sc_Status = CapabilityCompatible, sc_Required = True\<rparr>"

definition ex_cells :: "ScheduleCell list" where
  "ex_cells = [ex_cell ''b'' CHR ''b'' ''run-b'' [''a''], ex_cell ''a'' CHR ''a'' ''run-a'' [],
     (ex_cell ''w'' CHR ''c'' ''run-a'' [])\<lparr>sc_WarmFrom := ''a''\<rparr>]"

definition ex_now :: int where "ex_now = 1767322800000000000"

lemma ex_cells_checked: "validateScheduleCells ex_cells = None"
  by code_simp

text \<open>
  C12. Cells that pass \<^verbatim>\<open>validateScheduleCells\<close> form a sound plan: distinct IDs, dependencies that stay within the
  matrix and never form a cycle, warm cells that start from a cell of the same boundary and scope, nonnegative
  estimates, and no two cold cells of different execution identity under one ownership marker.
\<close>

theorem schedule_cells_sound:
  assumes "validateScheduleCells cells = None"
  shows "distinct (map sc_ID cells) \<and> acyclic (edges (cell_graph cells)) \<and>
    (\<forall>c \<in> set cells. cell_ok c \<and> warm_ok cells c \<and> set (sc_Dependencies c) \<subseteq> sc_ID ` set cells) \<and>
    (\<forall>c \<in> set cells. \<forall>d \<in> set cells. sc_OwnershipMarker c = sc_OwnershipMarker d \<longrightarrow> sc_WarmFrom c = [] \<longrightarrow>
       sc_WarmFrom d = [] \<longrightarrow> scheduleCellIdentity c = scheduleCellIdentity d)"
  using validateScheduleCells_None[OF assms] cold_owner_identity by blast

theorem schedule_cells_sound_witness:
  "distinct (map sc_ID ex_cells) \<and> acyclic (edges (cell_graph ex_cells))"
  using schedule_cells_sound[OF ex_cells_checked] by simp

text \<open>
  A checkpoint that a resumed run accepts was recorded for a cell of the plan with the same fingerprint, the same
  ownership marker and the same complete reuse boundary: no result of an older plan marks a cell as done. There is at
  most one checkpoint per cell.
\<close>

lemma checkpoints_match_plan:
  assumes "validateCheckpoints now cells values = Inr checkpoints"
  shows "distinct (map fst checkpoints) \<and> (\<forall>(cellID, k) \<in> set checkpoints. cellID = sk_CellID k \<and> checkpoint_ok cells k)"
  using assms check_checkpoints_None[of now cells "[]" "values"]
  by (auto simp: validateCheckpoints_def comp_def split: option.splits)

end
