(* ===== verification/Schedule_Claims.thy ===== *)
theory Schedule_Claims
  imports Schedule_Data Session_Lifecycle
begin

text \<open>
  The sessions a schedule reserves (\<^verbatim>\<open>internal/certification/scheduler.go\<close>): the owner of the claims, the claim of a
  session per cell, their release when the schedule is not built, the claims that a schedule carries, and their
  release afterwards. The registry is an interface value: \<open>None\<close> is a nil interface, \<open>Some None\<close> an interface that
  holds a nil pointer. Go's map from cell ID to record is a list in the order of the cells; the order in which the
  source ranges over it only decides the order of the releases. \<^verbatim>\<open>uuid.NewString()\<close> is the argument \<open>uuid\<close>. A context
  can be canceled between two calls: \<open>ctx\<close> tells its error at the claim of each cell.
\<close>

type_synonym 'reg registry_ref = "'reg SessionRegistry option option"

definition live_registry :: "'reg registry_ref \<Rightarrow> 'reg SessionRegistry option" where
  "live_registry r = Option.bind r (\<lambda>x. x)"

definition resolveScheduleClaimOwner :: "string \<Rightarrow> 'reg registry_ref \<Rightarrow> string \<Rightarrow> schedule_error + string" where
  "resolveScheduleClaimOwner claimOwner registry uuid =
     (if claimOwner \<noteq> [] then
        (if blank claimOwner \<or> has_control claimOwner then Inl (OptionError OptionClaimOwner) else Inr claimOwner)
      else if live_registry registry = None then Inr []
      else Inr (''certification-schedule/'' @ uuid))"

type_synonym session_map = "(string \<times> SessionRecord) list"

fun find_sessions ::
  "(string \<Rightarrow> ctx_error option) \<Rightarrow> 'reg SessionRegistry \<Rightarrow> string list \<Rightarrow> string \<Rightarrow> ScheduleCell list \<Rightarrow> session_map \<Rightarrow> 'reg
     \<Rightarrow> schedule_error option \<times> session_map \<times> 'reg" where
  "find_sessions ctx rg completed owner [] found reg = (None, found, reg)"
| "find_sessions ctx rg completed owner (c # cs) found reg =
     (case sc_ReuseFingerprint c of
        None \<Rightarrow> find_sessions ctx rg completed owner cs found reg
      | Some f \<Rightarrow>
          if sc_WarmFrom c \<noteq> [] \<or> sc_ID c \<in> set completed then find_sessions ctx rg completed owner cs found reg
          else (case ClaimReusableSession (Some (ctx (sc_ID c))) (Some rg) f owner reg of
              (Inl e, reg') \<Rightarrow> (Some (PlanError (ReuseLookupFailed (sc_ID c) e)), found, reg')
            | (Inr l, reg') \<Rightarrow>
                if rl_Decision l = ReuseReady then
                  find_sessions ctx rg completed owner cs (map_put (sc_ID c) (rl_Record l) found) reg'
                else if rl_Decision l = ReuseMiss then find_sessions ctx rg completed owner cs found reg'
                else if rl_Decision l = ReuseBlocked then
                  (Some (PlanError (ReuseIsBlocked (sc_ID c) (rl_Reason l))), found, reg')
                else (Some (PlanError (ReuseDecisionUnknown (sc_ID c) (rl_Decision l))), found, reg')))"

definition findReusableScheduleSessions ::
  "(string \<Rightarrow> ctx_error option) \<Rightarrow> ScheduleCell list \<Rightarrow> string list \<Rightarrow> 'reg registry_ref \<Rightarrow> string \<Rightarrow> 'reg
     \<Rightarrow> schedule_error option \<times> session_map \<times> 'reg" where
  "findReusableScheduleSessions ctx cells completed registry owner reg =
     (case registry of
        None \<Rightarrow> (None, [], reg)
      | Some None \<Rightarrow> (Some (OptionError ScheduleRegistryRequired), [], reg)
      | Some (Some rg) \<Rightarrow> find_sessions ctx rg completed owner cells [] reg)"

fun release_sessions ::
  "'reg SessionRegistry \<Rightarrow> string list \<Rightarrow> session_map \<Rightarrow> 'reg \<Rightarrow> release_error list \<times> 'reg" where
  "release_sessions rg released [] reg = ([], reg)"
| "release_sessions rg released ((cellID, r) # rs) reg =
     (if sr_ClaimOwner r = [] then release_sessions rg released rs reg
      else case ReuseFingerprint_Digest (sr_Fingerprint r) of
        Inl e \<Rightarrow> (case release_sessions rg released rs reg of (es, reg') \<Rightarrow> (ReleaseFailed [] e # es, reg'))
      | Inr digest \<Rightarrow>
          if digest \<in> set released then release_sessions rg released rs reg
          else (case rg_ReleaseClaim rg (Some None) (sr_Fingerprint r) (sr_ClaimOwner r) reg of
              (outcome, reg1) \<Rightarrow> (case release_sessions rg (digest # released) rs reg1 of
                (es, reg') \<Rightarrow> (case outcome of None \<Rightarrow> (es, reg') | Some e \<Rightarrow> (ReleaseFailed (sr_SessionID r) e # es, reg')))))"

definition releaseReusableScheduleSessions ::
  "'reg registry_ref \<Rightarrow> session_map \<Rightarrow> 'reg \<Rightarrow> release_error list \<times> 'reg" where
  "releaseReusableScheduleSessions registry records reg =
     (case live_registry registry of
        None \<Rightarrow> ([], reg)
      | Some rg \<Rightarrow> if records = [] then ([], reg) else release_sessions rg [] records reg)"

text \<open>The claims of the records, one per digest, in the order of session and owner.\<close>

fun collect_claims :: "string list \<Rightarrow> session_map \<Rightarrow> SessionClaim list" where
  "collect_claims seen [] = []"
| "collect_claims seen ((cellID, r) # rs) =
     (if sr_ClaimOwner r = [] then collect_claims seen rs
      else case ReuseFingerprint_Digest (sr_Fingerprint r) of
        Inl e \<Rightarrow> collect_claims seen rs
      | Inr digest \<Rightarrow>
          if digest \<in> set seen then collect_claims seen rs
          else \<lparr>cm_Fingerprint = sr_Fingerprint r, cm_Owner = sr_ClaimOwner r, cm_SessionID = sr_SessionID r\<rparr> #
            collect_claims (digest # seen) rs)"

definition reusableSessionClaims :: "session_map \<Rightarrow> SessionClaim list" where
  "reusableSessionClaims records = sort_key (\<lambda>c. (cm_SessionID c, cm_Owner c)) (collect_claims [] records)"

fun release_claims ::
  "(SessionClaim \<Rightarrow> ctx_error option) \<Rightarrow> 'reg SessionRegistry \<Rightarrow> string list \<Rightarrow> SessionClaim list \<Rightarrow> 'reg
     \<Rightarrow> release_error list \<times> 'reg" where
  "release_claims ctx rg released [] reg = ([], reg)"
| "release_claims ctx rg released (c # cs) reg =
     (if blank (cm_SessionID c) \<or> has_control (cm_SessionID c) then
        (case release_claims ctx rg released cs reg of (es, reg') \<Rightarrow> (ReleaseSessionID # es, reg'))
      else if blank (cm_Owner c) \<or> has_control (cm_Owner c) then
        (case release_claims ctx rg released cs reg of (es, reg') \<Rightarrow> (ReleaseOwner (cm_SessionID c) # es, reg'))
      else case ReuseFingerprint_Digest (cm_Fingerprint c) of
        Inl e \<Rightarrow> (case release_claims ctx rg released cs reg of (es, reg') \<Rightarrow> (ReleaseFailed (cm_SessionID c) e # es, reg'))
      | Inr digest \<Rightarrow>
          if digest \<in> set released then release_claims ctx rg released cs reg
          else (case rg_ReleaseClaim rg (Some (ctx c)) (cm_Fingerprint c) (cm_Owner c) reg of
              (outcome, reg1) \<Rightarrow> (case release_claims ctx rg (digest # released) cs reg1 of
                (es, reg') \<Rightarrow> (case outcome of None \<Rightarrow> (es, reg') | Some e \<Rightarrow> (ReleaseFailed (cm_SessionID c) e # es, reg')))))"

definition ReleaseScheduleClaims ::
  "(SessionClaim \<Rightarrow> ctx_error option) option \<Rightarrow> 'reg registry_ref \<Rightarrow> SessionClaim list \<Rightarrow> 'reg \<Rightarrow> release_error list \<times> 'reg" where
  "ReleaseScheduleClaims ctx registry claims reg =
     (if claims = [] then ([], reg)
      else case live_registry registry of None \<Rightarrow> ([ReleaseRegistryRequired], reg)
      | Some rg \<Rightarrow> (case ctx of None \<Rightarrow> ([ReleaseContextRequired], reg)
      | Some c \<Rightarrow> release_claims c rg [] claims reg))"

section \<open>Claims and releases on a registry\<close>

lemma valid_record_control: "SessionRecord_Validate r = None \<Longrightarrow> \<not> has_control (sr_SessionID r)"
  by (auto simp: SessionRecord_Validate_def record_field_def split: if_splits option.splits sum.splits)

text \<open>The records of \<open>v\<close> with the digests \<open>D\<close> claimed by \<open>owner\<close>.\<close>

definition with_owner :: "string set \<Rightarrow> string \<Rightarrow> (string \<Rightarrow> SessionRecord option) \<Rightarrow> string \<Rightarrow> SessionRecord option" where
  "with_owner D owner v = (\<lambda>d. if d \<in> D then map_option (\<lambda>r. r\<lparr>sr_ClaimOwner := owner\<rparr>) (v d) else v d)"

lemma with_owner_empty [simp]: "with_owner {} owner v = v"
  by (simp add: with_owner_def)

lemma with_owner_claim:
  "v d = Some r \<Longrightarrow> (with_owner D owner v)(d \<mapsto> r\<lparr>sr_ClaimOwner := owner\<rparr>) = with_owner (insert d D) owner v"
  by (auto simp: with_owner_def fun_eq_iff)

lemma with_owner_release:
  "v d = Some r \<Longrightarrow> sr_ClaimOwner r = [] \<Longrightarrow> (with_owner D owner v)(d \<mapsto> r) = with_owner (D - {d}) owner v"
  by (auto simp: with_owner_def fun_eq_iff)

text \<open>The records found so far: records of \<open>v\<close> that nobody had claimed, now claimed by \<open>owner\<close>.\<close>

definition digests :: "session_map \<Rightarrow> string set" where
  "digests found = (sr_FingerprintHash \<circ> snd) ` set found"

definition found_ok :: "(string \<Rightarrow> SessionRecord option) \<Rightarrow> string \<Rightarrow> session_map \<Rightarrow> bool" where
  "found_ok v owner found \<longleftrightarrow> (\<forall>(cellID, r) \<in> set found. sr_ClaimOwner r = owner \<and>
     (\<exists>r0. v (sr_FingerprintHash r) = Some r0 \<and> sr_ClaimOwner r0 = [] \<and> r = r0\<lparr>sr_ClaimOwner := owner\<rparr>))"

lemma found_ok_Cons:
  "found_ok v owner ((cellID, r) # found) \<longleftrightarrow> found_ok v owner found \<and>
     (\<exists>r0. v (sr_FingerprintHash r) = Some r0 \<and> sr_ClaimOwner r0 = [] \<and> r = r0\<lparr>sr_ClaimOwner := owner\<rparr>)"
  by (auto simp: found_ok_def)

lemma digests_Cons [simp]: "digests ((cellID, r) # found) = insert (sr_FingerprintHash r) (digests found)"
  by (simp add: digests_def)

lemma found_ok_head:
  assumes "found_ok v owner ((cellID, r) # found)" and "records_valid v"
  obtains r0 where "v (sr_FingerprintHash r) = Some r0" "sr_ClaimOwner r0 = []" "sr_ClaimOwner r = owner"
    "sr_SessionID r = sr_SessionID r0" "ReuseFingerprint_Digest (sr_Fingerprint r) = Inr (sr_FingerprintHash r)"
proof -
  from assms(1) obtain r0 where r0: "v (sr_FingerprintHash r) = Some r0" "sr_ClaimOwner r0 = []"
    "r = r0\<lparr>sr_ClaimOwner := owner\<rparr>" unfolding found_ok_Cons by blast
  from r0(3) have "sr_Fingerprint r = sr_Fingerprint r0" "sr_SessionID r = sr_SessionID r0" "sr_ClaimOwner r = owner" by simp_all
  with records_validD(3)[OF assms(2) r0(1)] r0(1,2) that show ?thesis by simp
qed

text \<open>The claims of what was found: exactly one for each digest, on a record that nobody had claimed before.\<close>

definition claim_of :: "(string \<Rightarrow> SessionRecord option) \<Rightarrow> string \<Rightarrow> string \<Rightarrow> SessionClaim \<Rightarrow> bool" where
  "claim_of v owner d c \<longleftrightarrow> cm_Owner c = owner \<and> ReuseFingerprint_Digest (cm_Fingerprint c) = Inr d \<and>
     (\<exists>r. v d = Some r \<and> sr_ClaimOwner r = [] \<and> cm_SessionID c = sr_SessionID r)"

lemma collect_claims_ok:
  assumes "records_valid v" and "found_ok v owner found" and "owner \<noteq> []"
  shows "(\<forall>c \<in> set (collect_claims seen found). \<exists>d \<in> digests found. claim_of v owner d c) \<and>
    (\<forall>d \<in> digests found - set seen. \<exists>c \<in> set (collect_claims seen found). claim_of v owner d c)"
  using assms(2)
proof (induction found arbitrary: seen)
  case Nil
  then show ?case by (simp add: digests_def)
next
  case (Cons p found)
  obtain cellID r where p: "p = (cellID, r)" by (cases p)
  from found_ok_head[OF Cons.prems[unfolded p] assms(1)] obtain r0 where
    r0: "v (sr_FingerprintHash r) = Some r0" "sr_ClaimOwner r0 = []" "sr_ClaimOwner r = owner"
    "sr_SessionID r = sr_SessionID r0" "ReuseFingerprint_Digest (sr_Fingerprint r) = Inr (sr_FingerprintHash r)" .
  let ?c = "\<lparr>cm_Fingerprint = sr_Fingerprint r, cm_Owner = sr_ClaimOwner r, cm_SessionID = sr_SessionID r\<rparr>"
  have c: "claim_of v owner (sr_FingerprintHash r) ?c" using r0 by (simp add: claim_of_def)
  have collect: "collect_claims seen (p # found) =
    (if sr_FingerprintHash r \<in> set seen then collect_claims seen found else ?c # collect_claims (sr_FingerprintHash r # seen) found)"
    using r0 assms(3) by (simp add: p)
  have rest: "found_ok v owner found" using Cons.prems by (simp add: p found_ok_Cons)
  show ?case
  proof (cases "sr_FingerprintHash r \<in> set seen")
    case True
    with Cons.IH[OF rest, of seen] show ?thesis unfolding collect by (auto simp: p)
  next
    case False
    with Cons.IH[OF rest, of "sr_FingerprintHash r # seen"] c show ?thesis unfolding collect by (fastforce simp: p)
  qed
qed

text \<open>
  A store whose claims can be given back: an owner that holds a valid record releases it. With the laws of the
  store this makes a claim and its release an inverse pair.
\<close>

locale releasing_store = session_store +
  assumes release_succeeds: "records_valid (view reg) \<Longrightarrow> ReuseFingerprint_Digest f = Inr d \<Longrightarrow> view reg d = Some r \<Longrightarrow>
    sr_ClaimOwner r = owner \<Longrightarrow> \<not> blank owner \<Longrightarrow> \<not> has_control owner \<Longrightarrow>
    SessionRecord_Validate (r\<lparr>sr_ClaimOwner := []\<rparr>) = None \<Longrightarrow>
    \<exists>reg'. rg_ReleaseClaim rg (Some None) f owner reg = (None, reg') \<and> view reg' = (view reg)(d \<mapsto> r\<lparr>sr_ClaimOwner := []\<rparr>)"
begin

lemma ClaimReusableSession_cases:
  assumes valid: "records_valid (view reg)" and claim: "ClaimReusableSession (Some err) (Some rg) f owner reg = (result, reg')"
  shows "(view reg' = view reg \<and> (\<forall>l. result = Inr l \<longrightarrow> rl_Decision l \<noteq> ReuseReady)) \<or>
    (\<exists>d r. ReuseFingerprint_Digest f = Inr d \<and> view reg d = Some r \<and> (sr_ClaimOwner r = [] \<or> sr_ClaimOwner r = owner) \<and>
       result = Inr (ready_lookup (r\<lparr>sr_ClaimOwner := owner\<rparr>)) \<and> view reg' = (view reg)(d \<mapsto> r\<lparr>sr_ClaimOwner := owner\<rparr>))"
proof (cases "err = None \<and> \<not> blank owner \<and> \<not> has_control owner \<and> ReuseFingerprint_Validate f = None")
  case True
  then obtain d where d: "ReuseFingerprint_Digest f = Inr d" by (auto simp: ReuseFingerprint_Digest_def)
  from ClaimReusableSession_is_claim[OF valid d] True claim have "rg_Claim rg (Some None) f owner reg = (result, reg')" by simp
  from claim_cases[OF valid this] show ?thesis by blast
next
  case False
  with claim have "reg' = reg \<and> (\<exists>e. result = Inl e)"
    by (auto simp: ClaimReusableSession_def split: if_splits option.splits)
  then show ?thesis by auto
qed

lemma ClaimReusableSession_valid:
  assumes "records_valid (view reg)" and "ClaimReusableSession (Some err) (Some rg) f owner reg = (result, reg')"
  shows "records_valid (view reg')"
proof -
  have "reg' = reg \<or> reg' = snd (rg_Claim rg (Some err) f owner reg)"
    using assms(2) by (auto simp: ClaimReusableSession_def split: if_splits option.splits prod.splits sum.splits)
  with claim_valid[OF assms(1), of "Some err" f owner] assms(1) show ?thesis by (metis prod.collapse)
qed

lemma release_one:
  assumes valid: "records_valid v" and view: "view reg = with_owner D owner v"
    and owner: "\<not> blank owner" "\<not> has_control owner" and d: "d \<in> D" "ReuseFingerprint_Digest f = Inr d"
    and r: "v d = Some r" "sr_ClaimOwner r = []" and reg: "records_valid (view reg)"
  shows "\<exists>reg'. rg_ReleaseClaim rg (Some None) f owner reg = (None, reg') \<and> view reg' = with_owner (D - {d}) owner v"
proof -
  have now: "view reg d = Some (r\<lparr>sr_ClaimOwner := owner\<rparr>)" using d r by (simp add: view with_owner_def)
  have restored: "r\<lparr>sr_ClaimOwner := owner\<rparr>\<lparr>sr_ClaimOwner := []\<rparr> = r" using r(2) by (cases r) simp
  have "SessionRecord_Validate (r\<lparr>sr_ClaimOwner := owner\<rparr>\<lparr>sr_ClaimOwner := []\<rparr>) = None"
    unfolding restored using records_validD(1)[OF valid r(1)] .
  from release_succeeds[OF reg d(2) now _ owner this] show ?thesis
    unfolding restored by (simp add: view with_owner_release[of v d, OF r])
qed

text \<open>Claims are granted on records of the registry only, and the books say which.\<close>

definition claim_books :: "(string \<Rightarrow> SessionRecord option) \<Rightarrow> string \<Rightarrow> session_map \<Rightarrow> 'a \<Rightarrow> bool" where
  "claim_books v owner found reg \<longleftrightarrow>
     records_valid (view reg) \<and> view reg = with_owner (digests found) owner v \<and> found_ok v owner found"

lemma claim_books_grant:
  assumes books: "claim_books v owner found reg" and fresh: "\<And>d r. v d = Some r \<Longrightarrow> sr_ClaimOwner r \<noteq> owner"
    and claim: "ClaimReusableSession (Some err) (Some rg) f owner reg = (Inr l, reg')" "rl_Decision l = ReuseReady"
    and new: "cellID \<notin> fst ` set found"
  shows "claim_books v owner (map_put cellID (rl_Record l) found) reg'"
proof -
  from books have valid: "records_valid (view reg)" and view: "view reg = with_owner (digests found) owner v"
    and ok: "found_ok v owner found" unfolding claim_books_def by blast+
  from ClaimReusableSession_cases[OF valid claim(1)] claim(2) obtain d r where d: "ReuseFingerprint_Digest f = Inr d"
    "view reg d = Some r" "sr_ClaimOwner r = [] \<or> sr_ClaimOwner r = owner" "l = ready_lookup (r\<lparr>sr_ClaimOwner := owner\<rparr>)"
    "view reg' = (view reg)(d \<mapsto> r\<lparr>sr_ClaimOwner := owner\<rparr>)" by auto
  obtain r0 where r0: "v d = Some r0" "r = r0 \<or> r = r0\<lparr>sr_ClaimOwner := owner\<rparr>" "d \<notin> digests found \<Longrightarrow> r = r0"
    using d(2) by (auto simp: view with_owner_def split: if_splits)
  have same: "r\<lparr>sr_ClaimOwner := owner\<rparr> = r0\<lparr>sr_ClaimOwner := owner\<rparr>" using r0(2) by auto
  have free: "sr_ClaimOwner r0 = []"
  proof (cases "d \<in> digests found")
    case True
    then obtain cell q where "(cell, q) \<in> set found" "sr_FingerprintHash q = d" by (auto simp: digests_def)
    with ok r0(1) show ?thesis by (force simp: found_ok_def)
  next
    case False
    with r0 d(3) fresh show ?thesis by auto
  qed
  have hash: "sr_FingerprintHash r0 = d" using records_validD(2)[OF valid d(2)] r0(2) by auto
  have view': "view reg' = with_owner (insert d (digests found)) owner v"
    unfolding d(5) same view using r0(1) by (rule with_owner_claim)
  have "records_valid (view reg')"
    using ClaimReusableSession_valid[OF valid claim(1)] .
  moreover have "map_put cellID (rl_Record l) found = found @ [(cellID, r0\<lparr>sr_ClaimOwner := owner\<rparr>)]"
    using new d(4) same by (auto simp: map_put_def ready_lookup_def filter_id_conv)
  ultimately show ?thesis using ok view' free r0(1) hash
    by (auto simp: claim_books_def found_ok_def digests_def image_Un insert_commute)
qed

lemma claim_books_no_grant:
  assumes "claim_books v owner found reg" and "ClaimReusableSession (Some err) (Some rg) f owner reg = (result, reg')"
    and "\<And>l. result = Inr l \<Longrightarrow> rl_Decision l \<noteq> ReuseReady"
  shows "claim_books v owner found reg'"
  using ClaimReusableSession_cases[OF _ assms(2)] assms(1,3) by (auto simp: claim_books_def ready_lookup_def)

lemma find_sessions_books:
  assumes "find_sessions ctx rg completed owner cells found reg = (outcome, found', reg')"
    and "claim_books v owner found reg" and fresh: "\<And>d r. v d = Some r \<Longrightarrow> sr_ClaimOwner r \<noteq> owner"
    and "distinct (map sc_ID cells)" and "sc_ID ` set cells \<inter> fst ` set found = {}"
  shows "claim_books v owner found' reg'"
  using assms(1,2,4,5)
proof (induction cells arbitrary: found reg)
  case (Cons c cs)
  from Cons.prems(4) have new: "sc_ID c \<notin> fst ` set found" by auto
  show ?case
  proof (cases "sc_ReuseFingerprint c = None \<or> sc_WarmFrom c \<noteq> [] \<or> sc_ID c \<in> set completed")
    case True
    with Cons.prems(1) have "find_sessions ctx rg completed owner cs found reg = (outcome, found', reg')"
      by (auto split: option.splits)
    from Cons.IH[OF this Cons.prems(2)] Cons.prems(3,4) show ?thesis by auto
  next
    case False
    then obtain f where f: "sc_ReuseFingerprint c = Some f" by auto
    obtain result reg1 where claim: "ClaimReusableSession (Some (ctx (sc_ID c))) (Some rg) f owner reg = (result, reg1)" by force
    show ?thesis
    proof (cases "\<exists>l. result = Inr l \<and> rl_Decision l = ReuseReady")
      case True
      then obtain l where l: "result = Inr l" "rl_Decision l = ReuseReady" by blast
      with claim have "claim_books v owner (map_put (sc_ID c) (rl_Record l) found) reg1"
        using claim_books_grant[OF Cons.prems(2) fresh _ l(2) new] by simp
      moreover have "find_sessions ctx rg completed owner cs (map_put (sc_ID c) (rl_Record l) found) reg1 = (outcome, found', reg')"
        using Cons.prems(1) f False claim l by simp
      moreover have "sc_ID ` set cs \<inter> fst ` set (map_put (sc_ID c) (rl_Record l) found) = {}"
        using Cons.prems(3,4) by (auto simp: map_put_def)
      ultimately show ?thesis using Cons.IH Cons.prems(3) by simp
    next
      case no: False
      with claim_books_no_grant[OF Cons.prems(2) claim] have books: "claim_books v owner found reg1" by blast
      from Cons.prems(1) f False claim no consider "found' = found" "reg' = reg1"
        | "find_sessions ctx rg completed owner cs found reg1 = (outcome, found', reg')"
        by (auto split: sum.splits if_splits)
      then show ?thesis
      proof cases
        case 2
        from Cons.IH[OF this books] Cons.prems(3,4) show ?thesis by auto
      qed (use books in simp)
    qed
  qed
qed simp

text \<open>Releasing what was found gives every claim back.\<close>

lemma release_sessions_restore:
  assumes "records_valid v" and "\<not> blank owner" and "\<not> has_control owner" and "found_ok v owner found"
    and "records_valid (view reg)" and "view reg = with_owner (digests found - set released) owner v"
  shows "\<exists>reg'. release_sessions rg released found reg = ([], reg') \<and> view reg' = v"
  using assms(4-6)
proof (induction found arbitrary: released reg)
  case Nil
  then show ?case by (simp add: digests_def)
next
  case (Cons p found)
  obtain cellID r where p: "p = (cellID, r)" by (cases p)
  let ?d = "sr_FingerprintHash r"
  have rest: "found_ok v owner found" using Cons.prems(1) by (simp add: p found_ok_Cons)
  from found_ok_head[OF Cons.prems(1)[unfolded p] assms(1)] obtain r0 where
    r0: "v ?d = Some r0" "sr_ClaimOwner r0 = []" "sr_ClaimOwner r = owner" "ReuseFingerprint_Digest (sr_Fingerprint r) = Inr ?d" .
  have named: "sr_ClaimOwner r \<noteq> []" using assms(2) r0(3) by auto
  show ?case
  proof (cases "?d \<in> set released")
    case True
    then have "digests (p # found) - set released = digests found - set released" by (auto simp: digests_def p)
    with Cons.IH[OF rest Cons.prems(2), of released] Cons.prems(3) True r0 named show ?thesis by (simp add: p)
  next
    case False
    have "?d \<in> digests (p # found) - set released" using False by (simp add: digests_def p)
    from release_one[OF assms(1) Cons.prems(3) assms(2,3) this r0(4) r0(1,2) Cons.prems(2)] obtain reg1 where
      reg1: "rg_ReleaseClaim rg (Some None) (sr_Fingerprint r) owner reg = (None, reg1)"
        "view reg1 = with_owner (digests (p # found) - set released - {?d}) owner v" by blast
    have "digests (p # found) - set released - {?d} = digests found - set (?d # released)" by (auto simp: digests_def p)
    with Cons.IH[OF rest release_valid[OF Cons.prems(2) reg1(1)], of "?d # released"] reg1 False r0 named
    show ?thesis by (auto simp: p)
  qed
qed

lemma release_claims_restore:
  assumes "records_valid v" and "\<not> blank owner" and "\<not> has_control owner"
    and "\<And>d r. v d = Some r \<Longrightarrow> \<not> blank (sr_SessionID r)"
    and "\<forall>c \<in> set claims. \<exists>d \<in> D. claim_of v owner d c" and "\<forall>d \<in> D - set released. \<exists>c \<in> set claims. claim_of v owner d c"
    and "records_valid (view reg)" and "view reg = with_owner (D - set released) owner v"
  shows "\<exists>reg'. release_claims (\<lambda>_. None) rg released claims reg = ([], reg') \<and> view reg' = v"
  using assms(5-8)
proof (induction claims arbitrary: released reg)
  case Nil
  then have "D - set released = {}" by auto
  with Nil show ?case by simp
next
  case (Cons c claims)
  from Cons.prems(1) obtain d r where d: "d \<in> D" "cm_Owner c = owner" "ReuseFingerprint_Digest (cm_Fingerprint c) = Inr d"
    "v d = Some r" "sr_ClaimOwner r = []" "cm_SessionID c = sr_SessionID r" by (auto simp: claim_of_def)
  have named: "\<not> blank (cm_SessionID c)" "\<not> has_control (cm_SessionID c)"
    using assms(4)[OF d(4)] valid_record_control[OF records_validD(1)[OF assms(1) d(4)]] d(6) by auto
  have only: "e = d" if "claim_of v owner e c" for e using that d(3) by (simp add: claim_of_def)
  have rest: "\<forall>c \<in> set claims. \<exists>d \<in> D. claim_of v owner d c" using Cons.prems(1) by simp
  show ?case
  proof (cases "d \<in> set released")
    case True
    then have "\<forall>d \<in> D - set released. \<exists>c \<in> set claims. claim_of v owner d c"
      using Cons.prems(2) only by (metis Diff_iff set_ConsD)
    from Cons.IH[OF rest this Cons.prems(3,4)] True d named assms(2,3) show ?thesis by simp
  next
    case False
    then have "d \<in> D - set released" using d(1) by simp
    from release_one[OF assms(1) Cons.prems(4) assms(2,3) this d(3,4,5) Cons.prems(3)] obtain reg1 where
      reg1: "rg_ReleaseClaim rg (Some None) (cm_Fingerprint c) owner reg = (None, reg1)"
        "view reg1 = with_owner (D - set released - {d}) owner v" by blast
    have D: "D - set released - {d} = D - set (d # released)" by auto
    have "\<forall>e \<in> D - set (d # released). \<exists>c \<in> set claims. claim_of v owner e c"
      using Cons.prems(2) only by (metis Diff_iff list.set_intros(1) list.set_intros(2) set_ConsD)
    from Cons.IH[OF rest this release_valid[OF Cons.prems(3) reg1(1)] reg1(2)[unfolded D]] obtain reg' where
      "release_claims (\<lambda>_. None) rg (d # released) claims reg1 = ([], reg')" "view reg' = v" by blast
    with reg1(1) False d(2,3) named assms(2,3) show ?thesis by simp
  qed
qed

end

text \<open>The in-memory registry gives claims back.\<close>

interpretation memory_release: releasing_store MemorySessionRegistry "\<lambda>reg. reg"
proof unfold_locales
  fix reg :: memory_registry and f d r owner
  assume "records_valid reg" and d: "ReuseFingerprint_Digest f = Inr d" "reg d = Some r" "sr_ClaimOwner r = owner"
    and owner: "\<not> blank owner" "\<not> has_control owner" and valid: "SessionRecord_Validate (r\<lparr>sr_ClaimOwner := []\<rparr>) = None"
  from \<open>records_valid reg\<close> d(2) have "sr_FingerprintHash r = d" by (rule records_validD(2))
  with d owner valid not_blank_imp_ne[OF owner(1)]
  show "\<exists>reg'. rg_ReleaseClaim MemorySessionRegistry (Some None) f owner reg = (None, reg') \<and>
      reg' = reg(d \<mapsto> r\<lparr>sr_ClaimOwner := []\<rparr>)"
    by (simp add: MemorySessionRegistry_def memory_ReleaseClaim_def putLocked_def)
qed

definition memory_ref :: "memory_registry registry_ref" where
  "memory_ref = Some (Some MemorySessionRegistry)"

lemma memory_find_books:
  assumes "findReusableScheduleSessions ctx cells completed memory_ref owner reg = (outcome, found, reg')"
    and "records_valid reg" and "\<And>d r. reg d = Some r \<Longrightarrow> sr_ClaimOwner r \<noteq> owner" and "distinct (map sc_ID cells)"
  shows "memory_release.claim_books reg owner found reg'"
proof (rule memory_release.find_sessions_books)
  show "find_sessions ctx MemorySessionRegistry completed owner cells [] reg = (outcome, found, reg')"
    using assms(1) by (simp add: findReusableScheduleSessions_def memory_ref_def)
  show "memory_release.claim_books reg owner [] reg"
    using assms(2) by (simp add: memory_release.claim_books_def digests_def found_ok_def)
qed (use assms in auto)

lemma memory_release_found:
  assumes "memory_release.claim_books reg owner found reg'" and "records_valid reg"
    and "\<not> blank owner" and "\<not> has_control owner"
  shows "releaseReusableScheduleSessions memory_ref found reg' = ([], reg)"
proof -
  from assms(1) have b: "records_valid reg'" "reg' = with_owner (digests found) owner reg" "found_ok reg owner found"
    unfolding memory_release.claim_books_def by blast+
  from memory_release.release_sessions_restore[OF assms(2-4) b(3,1), of "[]"] b(2)
  show ?thesis by (auto simp: releaseReusableScheduleSessions_def memory_ref_def live_registry_def digests_def)
qed

lemma memory_release_claims:
  assumes "memory_release.claim_books reg owner found reg'" and "records_valid reg"
    and "\<not> blank owner" and "\<not> has_control owner" and "\<And>d r. reg d = Some r \<Longrightarrow> \<not> blank (sr_SessionID r)"
  shows "ReleaseScheduleClaims (Some (\<lambda>_. None)) memory_ref (reusableSessionClaims found) reg' = ([], reg)"
proof -
  from assms(1) have b: "records_valid reg'" "reg' = with_owner (digests found) owner reg" "found_ok reg owner found"
    unfolding memory_release.claim_books_def by blast+
  have "set (reusableSessionClaims found) = set (collect_claims [] found)" by (simp add: reusableSessionClaims_def)
  with collect_claims_ok[OF assms(2) b(3) not_blank_imp_ne[OF assms(3)], of "[]"]
  have claims: "\<forall>c \<in> set (reusableSessionClaims found). \<exists>d \<in> digests found. claim_of reg owner d c"
    "\<forall>d \<in> digests found - set []. \<exists>c \<in> set (reusableSessionClaims found). claim_of reg owner d c" by simp_all
  show ?thesis
  proof (cases "reusableSessionClaims found = []")
    case True
    with claims(2) have "digests found = {}" by simp
    with True b(2) show ?thesis by (simp add: ReleaseScheduleClaims_def)
  next
    case False
    from memory_release.release_claims_restore[OF assms(2-5) claims b(1)] b(2) False
    show ?thesis by (auto simp: ReleaseScheduleClaims_def memory_ref_def live_registry_def)
  qed
qed

section \<open>Properties\<close>

definition ex_reuse_cell :: ScheduleCell where
  "ex_reuse_cell =
     \<lparr>sc_ID = ''a'', sc_Fingerprint = ex_digest, sc_ReuseFingerprint = Some ex_fingerprint, sc_WarmBoundary = ''eks'',
      sc_WarmFrom = [], sc_WarmTransition = [], sc_Coverage = None, sc_Dependencies = [],
      sc_MutationKeys = [''stack-a''], sc_OwnershipMarker = rf_OwnershipMarker ex_fingerprint,
      sc_Estimate = \<lparr>ee_CloudOperationSeconds = 60, ee_ResourceLifetimeSeconds = 600, ee_EstimatedCostCents = 25,
        ee_CleanupLatencySeconds = 30, ee_CostKnown = True\<rparr>,
      sc_Status = CapabilityCompatible, sc_Required = True\<rparr>"

lemma ex_found:
  "findReusableScheduleSessions (\<lambda>_. None) [ex_reuse_cell] [] memory_ref ''run-1'' ex_registry =
     (None, [(''a'', ex_claimed)], ex_registry(ex_digest \<mapsto> ex_claimed))"
proof -
  have "\<not> blank ''run-1''" "\<not> has_control ''run-1''" by code_simp+
  from memory.ClaimReusableSession_is_claim[OF ex_registry_valid ex_fingerprint_digest this] ex_claim
  have "ClaimReusableSession (Some None) (Some MemorySessionRegistry) ex_fingerprint ''run-1'' ex_registry =
      (Inr (ready_lookup ex_claimed), ex_registry(ex_digest \<mapsto> ex_claimed))" by (simp add: MemorySessionRegistry_def)
  then show ?thesis
    by (simp add: findReusableScheduleSessions_def memory_ref_def ex_reuse_cell_def ready_lookup_def map_put_def)
qed

text \<open>
  Whatever the outcome of reserving reusable sessions, nothing is lost: releasing the records that were found
  gives the registry back exactly as it was, and so does releasing the claims that a schedule built from them
  carries. The owner is one that no record names yet, as the fresh owner of a schedule is.
\<close>

lemma schedule_claims_round_trip:
  assumes "registry_step\<^sup>*\<^sup>* NewMemorySessionRegistry reg"
    and "findReusableScheduleSessions ctx cells completed memory_ref owner reg = (outcome, found, reg')"
    and "distinct (map sc_ID cells)" and "\<not> blank owner" and "\<not> has_control owner"
    and "\<forall>d r. reg d = Some r \<longrightarrow> sr_ClaimOwner r \<noteq> owner \<and> \<not> blank (sr_SessionID r)"
  shows "releaseReusableScheduleSessions memory_ref found reg' = ([], reg) \<and>
    ReleaseScheduleClaims (Some (\<lambda>_. None)) memory_ref (reusableSessionClaims found) reg' = ([], reg)"
proof -
  have valid: "records_valid reg" by (rule registry_steps_valid[OF assms(1) new_registry_valid])
  have books: "memory_release.claim_books reg owner found reg'"
    by (rule memory_find_books[OF assms(2) valid _ assms(3)]) (use assms(6) in blast)
  show ?thesis
    using memory_release_found[OF books valid assms(4,5)] memory_release_claims[OF books valid assms(4,5)] assms(6) by blast
qed

theorem schedule_claims_round_trip_witness:
  "ReleaseScheduleClaims (Some (\<lambda>_. None)) memory_ref (reusableSessionClaims [(''a'', ex_claimed)])
     (ex_registry(ex_digest \<mapsto> ex_claimed)) = ([], ex_registry)"
proof -
  have reached: "registry_step\<^sup>*\<^sup>* NewMemorySessionRegistry ex_registry" using registry_step.put[OF ex_registry_put] by auto
  have owner: "\<not> blank ''run-1''" "\<not> has_control ''run-1''" "\<not> blank (sr_SessionID ex_session)" by code_simp+
  have free: "\<forall>d r. ex_registry d = Some r \<longrightarrow> sr_ClaimOwner r \<noteq> ''run-1'' \<and> \<not> blank (sr_SessionID r)"
    using owner(3) by (simp add: ex_registry_def ex_session_def NewMemorySessionRegistry_def)
  from schedule_claims_round_trip[OF reached ex_found _ owner(1,2) free] show ?thesis by simp
qed

text \<open>
  A claim whose session ID is only white space is never given back: \<^verbatim>\<open>SessionRecord.Validate\<close> accepts such an
  ID, but \<^verbatim>\<open>ReleaseScheduleClaims\<close> refuses to release it and leaves the registry as it is.
\<close>

lemma blank_session_claim_stays:
  assumes "\<forall>c \<in> set claims. blank (cm_SessionID c)" and "claims \<noteq> []"
  shows "ReleaseScheduleClaims (Some ctx) memory_ref claims reg = (map (\<lambda>_. ReleaseSessionID) claims, reg)"
proof -
  have "release_claims ctx MemorySessionRegistry released claims reg = (map (\<lambda>_. ReleaseSessionID) claims, reg)" for released
    using assms(1) by (induction claims) auto
  with assms(2) show ?thesis by (simp add: ReleaseScheduleClaims_def memory_ref_def live_registry_def)
qed

end
