(* ===== verification/Schedule_Units.thy ===== *)
theory Schedule_Units
  imports Schedule_Checks Schedule_Batches Schedule_Claims
begin

text \<open>
  How \<^verbatim>\<open>BuildSchedule\<close> turns cells into execution units (\<^verbatim>\<open>internal/certification/scheduler.go\<close>): cold cells of one
  identity share a unit, every warm cell is a unit of its own, sessions that were reserved are attached, and the
  dependencies between cells become dependencies between units. Unit IDs are 64-bit FNV-1a hashes, computed at
  their width. Go's maps are association lists; the units are sorted by ID at the end, as in the source.
\<close>

definition fnv_byte :: "char \<Rightarrow> 64 word" where "fnv_byte c = of_nat (of_char c)"

definition shortHash :: "string \<Rightarrow> string" where
  "shortHash s = hex_word 16 (fold (\<lambda>c hash. xor hash (fnv_byte c) * 1099511628211) s (14695981039346656037 :: 64 word))"

lemma shortHash_vectors:
  "shortHash ''a'' = ''af63dc4c8601ec8c''" "shortHash ''foobar'' = ''85944171f73967e8''"
  by code_simp+

section \<open>Units\<close>

definition executionUnitForBaseline :: "ScheduleCell \<Rightarrow> ExecutionUnit" where
  "executionUnitForBaseline c =
     \<lparr>eu_ID = ''unit-'' @ shortHash (scheduleCellIdentity c), eu_CellIDs = [], eu_BaselineCellID = sc_ID c,
      eu_Fingerprint = sc_Fingerprint c, eu_WarmBoundary = sc_WarmBoundary c, eu_WarmTransition = [],
      eu_Coverage = sc_Coverage c, eu_OwnershipMarker = sc_OwnershipMarker c, eu_Cold = True, eu_MigrationOwner = False,
      eu_DependsOn = [], eu_MutationKeys = sc_MutationKeys c, eu_Estimate = sc_Estimate c, eu_Required = sc_Required c,
      eu_ReuseSessionID = [], eu_ReuseFingerprint = sc_ReuseFingerprint c\<rparr>"

definition executionUnitForTransition :: "ScheduleCell \<Rightarrow> ExecutionUnit" where
  "executionUnitForTransition c =
     \<lparr>eu_ID = ''transition-'' @ shortHash (sc_ID c @ [CHR 0x00] @ sc_Fingerprint c @ [CHR 0x00] @ sc_OwnershipMarker c),
      eu_CellIDs = [sc_ID c], eu_BaselineCellID = sc_WarmFrom c, eu_Fingerprint = sc_Fingerprint c,
      eu_WarmBoundary = sc_WarmBoundary c, eu_WarmTransition = sc_WarmTransition c, eu_Coverage = sc_Coverage c,
      eu_OwnershipMarker = sc_OwnershipMarker c, eu_Cold = False, eu_MigrationOwner = True, eu_DependsOn = [],
      eu_MutationKeys = sc_MutationKeys c, eu_Estimate = sc_Estimate c, eu_Required = sc_Required c,
      eu_ReuseSessionID = [], eu_ReuseFingerprint = sc_ReuseFingerprint c\<rparr>"

text \<open>Completed cold cells, by identity; the last one of an identity stays.\<close>

definition completed_baselines :: "ScheduleCell list \<Rightarrow> string list \<Rightarrow> (string \<times> ScheduleCell) list" where
  "completed_baselines cells completed = foldl (\<lambda>m c.
     if sc_ID c \<in> set completed \<and> \<not> non_runnable (sc_Status c) \<and> sc_WarmFrom c = []
     then map_put (scheduleCellIdentity c) c m else m) [] cells"

definition pending_cell :: "string list \<Rightarrow> ScheduleCell \<Rightarrow> bool" where
  "pending_cell completed c \<longleftrightarrow> sc_ID c \<notin> set completed \<and> \<not> non_runnable (sc_Status c)"

definition new_unit :: "(string \<times> ScheduleCell) list \<Rightarrow> ScheduleCell \<Rightarrow> ExecutionUnit" where
  "new_unit baselines c =
     (let created = executionUnitForBaseline c in
      case map_of baselines (scheduleCellIdentity c) of
        None \<Rightarrow> created
      | Some baseline \<Rightarrow> created\<lparr>eu_BaselineCellID := sc_ID baseline, eu_Cold := False,
          eu_MutationKeys := unionSorted (eu_MutationKeys created) (sc_MutationKeys baseline)\<rparr>)"

definition join_unit :: "ScheduleCell \<Rightarrow> ExecutionUnit \<Rightarrow> ExecutionUnit" where
  "join_unit c u =
     u\<lparr>eu_CellIDs := eu_CellIDs u @ [sc_ID c], eu_MutationKeys := unionSorted (eu_MutationKeys u) (sc_MutationKeys c),
       eu_Required := eu_Required u \<or> sc_Required c,
       eu_BaselineCellID :=
         (if sc_Required c \<and> (eu_BaselineCellID u = [] \<or> sc_ID c < eu_BaselineCellID u) then sc_ID c else eu_BaselineCellID u)\<rparr>"

type_synonym unit_groups = "(string \<times> ExecutionUnit) list"

definition group_cell ::
  "(string \<times> ScheduleCell) list \<Rightarrow> string list \<Rightarrow> unit_groups \<times> (string \<times> string) list \<Rightarrow> ScheduleCell
     \<Rightarrow> unit_groups \<times> (string \<times> string) list" where
  "group_cell baselines completed = (\<lambda>(groups, cellToUnit) c.
     if \<not> pending_cell completed c then (groups, cellToUnit)
     else if sc_WarmFrom c \<noteq> [] then
       (let u = executionUnitForTransition c in (map_put (eu_ID u) u groups, map_put (sc_ID c) (eu_ID u) cellToUnit))
     else
       (let key = scheduleCellIdentity c;
            u = join_unit c (case map_of groups key of None \<Rightarrow> new_unit baselines c | Some u \<Rightarrow> u) in
        (map_put key u groups, map_put (sc_ID c) (eu_ID u) cellToUnit)))"

definition finish_unit :: "ExecutionUnit \<Rightarrow> ExecutionUnit" where
  "finish_unit u =
     (let ids = sort (eu_CellIDs u) in
      u\<lparr>eu_CellIDs := ids, eu_BaselineCellID := (if eu_BaselineCellID u = [] then hd ids else eu_BaselineCellID u)\<rparr>)"

definition makeExecutionUnits :: "ScheduleCell list \<Rightarrow> string list \<Rightarrow> ExecutionUnit list \<times> (string \<times> string) list" where
  "makeExecutionUnits cells completed =
     (case foldl (group_cell (completed_baselines cells completed) completed) ([], []) cells of
        (groups, cellToUnit) \<Rightarrow> (sort_key eu_ID (map (finish_unit \<circ> snd) groups), cellToUnit))"

section \<open>Reserved sessions\<close>

fun unit_session :: "string \<Rightarrow> session_map \<Rightarrow> SessionRecord option \<Rightarrow> string list \<Rightarrow> plan_error + SessionRecord option" where
  "unit_session unitID records reused [] = Inr reused"
| "unit_session unitID records reused (cellID # ids) =
     (case map_of records cellID of
        None \<Rightarrow> unit_session unitID records reused ids
      | Some r \<Rightarrow> (case reused of
          Some q \<Rightarrow>
            if sr_SessionID q \<noteq> [] \<and> sr_SessionID q \<noteq> sr_SessionID r then Inl (CombinesSessions unitID)
            else unit_session unitID records (Some r) ids
        | None \<Rightarrow> unit_session unitID records (Some r) ids))"

definition cell_by_id :: "ScheduleCell list \<Rightarrow> string \<Rightarrow> ScheduleCell option" where
  "cell_by_id cells i = find (\<lambda>c. sc_ID c = i) (rev cells)"

fun cells_match :: "string \<Rightarrow> ScheduleCell list \<Rightarrow> string \<Rightarrow> string list \<Rightarrow> plan_error option" where
  "cells_match unitID cells digest [] = None"
| "cells_match unitID cells digest (cellID # ids) =
     (case Option.bind (cell_by_id cells cellID) sc_ReuseFingerprint of
        None \<Rightarrow> Some (CombinesNonReusable unitID)
      | Some f \<Rightarrow>
          if ReuseFingerprint_Digest f \<noteq> Inr digest then Some (CombinesFingerprints unitID)
          else cells_match unitID cells digest ids)"

definition apply_session :: "ScheduleCell list \<Rightarrow> session_map \<Rightarrow> ExecutionUnit \<Rightarrow> plan_error + ExecutionUnit" where
  "apply_session cells records u =
     (case unit_session (eu_ID u) records None (eu_CellIDs u) of
        Inl e \<Rightarrow> Inl e
      | Inr None \<Rightarrow> Inr u
      | Inr (Some r) \<Rightarrow>
          if sr_SessionID r = [] then Inr u
          else (case ReuseFingerprint_Digest (sr_Fingerprint r) of
              Inl e \<Rightarrow> Inl (ReuseLookupFailed (eu_ID u) e)
            | Inr digest \<Rightarrow> (case cells_match (eu_ID u) cells digest (eu_CellIDs u) of
                Some e \<Rightarrow> Inl e
              | None \<Rightarrow>
                  if map_of records (case cell_by_id cells (eu_BaselineCellID u) of None \<Rightarrow> [] | Some b \<Rightarrow> sc_ID b) = None
                  then Inl (ReuseWithoutBaseline (eu_ID u))
                  else Inr (u\<lparr>eu_ReuseSessionID := sr_SessionID r, eu_Cold := False\<rparr>))))"

fun map_results :: "('a \<Rightarrow> 'e + 'b) \<Rightarrow> 'a list \<Rightarrow> 'e + 'b list" where
  "map_results f [] = Inr []"
| "map_results f (x # xs) =
     (case f x of Inl e \<Rightarrow> Inl e | Inr y \<Rightarrow> (case map_results f xs of Inl e \<Rightarrow> Inl e | Inr ys \<Rightarrow> Inr (y # ys)))"

definition applyReusableSessions ::
  "ExecutionUnit list \<Rightarrow> ScheduleCell list \<Rightarrow> session_map \<Rightarrow> schedule_error + ExecutionUnit list" where
  "applyReusableSessions units cells records =
     (if records = [] then Inr units
      else case map_results (apply_session cells records) units of Inl e \<Rightarrow> Inl (PlanError e) | Inr us \<Rightarrow> Inr us)"

section \<open>Dependencies\<close>

text \<open>\<^verbatim>\<open>byID[unitID]\<close> points to the last unit with the ID.\<close>

fun update_unit :: "string \<Rightarrow> (ExecutionUnit \<Rightarrow> ExecutionUnit) \<Rightarrow> ExecutionUnit list \<Rightarrow> ExecutionUnit list" where
  "update_unit i f [] = []"
| "update_unit i f (u # us) =
     (if eu_ID u = i \<and> list_all (\<lambda>v. eu_ID v \<noteq> i) us then f u # us else u # update_unit i f us)"

definition add_dependency :: "string \<Rightarrow> string \<Rightarrow> ExecutionUnit list \<Rightarrow> ExecutionUnit list" where
  "add_dependency unitID dependency units =
     (if dependency \<noteq> unitID then update_unit unitID (\<lambda>u. u\<lparr>eu_DependsOn := appendUnique (eu_DependsOn u) dependency\<rparr>) units
      else units)"

fun add_cell_dependencies ::
  "(string \<times> string) list \<Rightarrow> string list \<Rightarrow> string \<Rightarrow> string \<Rightarrow> string list \<Rightarrow> ExecutionUnit list
     \<Rightarrow> plan_error + ExecutionUnit list" where
  "add_cell_dependencies cellToUnit completed cellID unitID [] units = Inr units"
| "add_cell_dependencies cellToUnit completed cellID unitID (d # ds) units =
     (if d \<in> set completed then add_cell_dependencies cellToUnit completed cellID unitID ds units
      else case map_of cellToUnit d of
        None \<Rightarrow> Inl (DependencyNotSchedulable cellID d)
      | Some unit \<Rightarrow> add_cell_dependencies cellToUnit completed cellID unitID ds (add_dependency unitID unit units))"

definition add_warm_dependency ::
  "(string \<times> string) list \<Rightarrow> string list \<Rightarrow> ScheduleCell \<Rightarrow> string \<Rightarrow> ExecutionUnit list \<Rightarrow> plan_error + ExecutionUnit list" where
  "add_warm_dependency cellToUnit completed c unitID units =
     (if sc_WarmFrom c = [] then Inr units
      else case map_of cellToUnit (sc_WarmFrom c) of
        None \<Rightarrow> if sc_WarmFrom c \<in> set completed then Inr units else Inl (BaselineUnscheduled (sc_ID c) (sc_WarmFrom c))
      | Some unit \<Rightarrow> Inr (add_dependency unitID unit units))"

fun add_dependencies ::
  "(string \<times> string) list \<Rightarrow> string list \<Rightarrow> ScheduleCell list \<Rightarrow> ExecutionUnit list \<Rightarrow> plan_error + ExecutionUnit list" where
  "add_dependencies cellToUnit completed [] units = Inr units"
| "add_dependencies cellToUnit completed (c # cs) units =
     (case map_of cellToUnit (sc_ID c) of
        None \<Rightarrow> add_dependencies cellToUnit completed cs units
      | Some unitID \<Rightarrow>
          (case add_cell_dependencies cellToUnit completed (sc_ID c) unitID (sc_Dependencies c) units of
             Inl e \<Rightarrow> Inl e
           | Inr units1 \<Rightarrow> (case add_warm_dependency cellToUnit completed c unitID units1 of
               Inl e \<Rightarrow> Inl e
             | Inr units2 \<Rightarrow> add_dependencies cellToUnit completed cs units2)))"

definition addUnitDependencies ::
  "ExecutionUnit list \<Rightarrow> (string \<times> string) list \<Rightarrow> ScheduleCell list \<Rightarrow> string list \<Rightarrow> schedule_error + ExecutionUnit list" where
  "addUnitDependencies units cellToUnit cells completed =
     (case add_dependencies cellToUnit completed cells units of
        Inl e \<Rightarrow> Inl (PlanError e)
      | Inr us \<Rightarrow> Inr (map (\<lambda>u. u\<lparr>eu_DependsOn := sort (eu_DependsOn u)\<rparr>) us))"

section \<open>Every pending cell is in its unit\<close>

text \<open>The unit that a cell belongs to, and the key of its group.\<close>

definition unit_id :: "ScheduleCell \<Rightarrow> string" where
  "unit_id c = (if sc_WarmFrom c \<noteq> [] then eu_ID (executionUnitForTransition c) else eu_ID (executionUnitForBaseline c))"

definition group_key :: "ScheduleCell \<Rightarrow> string" where
  "group_key c = (if sc_WarmFrom c \<noteq> [] then eu_ID (executionUnitForTransition c) else scheduleCellIdentity c)"

text \<open>
  The short hashes name the units of the run apart: two warm cells, or two cold cells of different identity, never
  share a unit ID. The code takes this for granted.
\<close>

definition no_hash_collision :: "ScheduleCell list \<Rightarrow> bool" where
  "no_hash_collision cells \<longleftrightarrow> (\<forall>c \<in> set cells. \<forall>d \<in> set cells.
     (sc_WarmFrom c = []) = (sc_WarmFrom d = []) \<longrightarrow> unit_id c = unit_id d \<longrightarrow>
       (if sc_WarmFrom c = [] then scheduleCellIdentity c = scheduleCellIdentity d else c = d))"

lemma unat_and_15_64: "unat (w AND 15) < 16" for w :: "64 word"
  using word_and_le1[of w 15] by (simp add: word_le_nat_alt)

lemma shortHash_no_nul: "CHR 0x00 \<notin> set (shortHash s)"
proof -
  have "list_all (\<lambda>i. hex_digit i \<noteq> CHR 0x00) [0..<16]" by code_simp
  then have "(CHR 0x00 = hex_digit (unat (drop_bit k w AND 15))) = False" for k and w :: "64 word"
    using unat_and_15_64[of "drop_bit k w"] by (auto simp: list_all_iff)
  then show ?thesis by (simp add: shortHash_def hex_word_def image_iff)
qed

lemma warm_key_cold_identity:
  assumes "sc_WarmFrom c \<noteq> []"
  shows "group_key c \<noteq> scheduleCellIdentity d"
proof
  assume "group_key c = scheduleCellIdentity d"
  then have "CHR 0x00 \<in> set (group_key c)" by (simp add: scheduleCellIdentity_def Let_def)
  with assms shortHash_no_nul show False by (simp add: group_key_def executionUnitForTransition_def)
qed

lemma group_key_unit_id:
  assumes "no_hash_collision cells" and "c \<in> set cells" and "d \<in> set cells" and "group_key c = group_key d"
  shows "unit_id c = unit_id d" and "sc_WarmFrom c \<noteq> [] \<Longrightarrow> c = d" and "(sc_WarmFrom c = []) = (sc_WarmFrom d = [])"
proof -
  show same: "(sc_WarmFrom c = []) = (sc_WarmFrom d = [])"
    using assms(4) warm_key_cold_identity[of c d] warm_key_cold_identity[of d c] by (auto simp: group_key_def split: if_splits)
  show "unit_id c = unit_id d"
    using assms(4) same by (auto simp: group_key_def unit_id_def executionUnitForBaseline_def split: if_splits)
  with assms(1-3) same have "if sc_WarmFrom c = [] then scheduleCellIdentity c = scheduleCellIdentity d else c = d"
    unfolding no_hash_collision_def by blast
  then show "sc_WarmFrom c \<noteq> [] \<Longrightarrow> c = d" by simp
qed

lemma unit_id_group_key:
  assumes "no_hash_collision cells" and "c \<in> set cells" and "d \<in> set cells" and "unit_id c = unit_id d"
  shows "group_key c = group_key d"
proof -
  have same: "(sc_WarmFrom c = []) = (sc_WarmFrom d = [])"
    using assms(4) by (simp add: unit_id_def executionUnitForBaseline_def executionUnitForTransition_def split: if_splits)
  with assms have "if sc_WarmFrom c = [] then scheduleCellIdentity c = scheduleCellIdentity d else c = d"
    unfolding no_hash_collision_def by blast
  with same show ?thesis by (simp add: group_key_def split: if_splits)
qed

text \<open>What the runner asks of a unit.\<close>

definition unit_ok :: "ExecutionUnit \<Rightarrow> bool" where
  "unit_ok u \<longleftrightarrow> \<not> blank (eu_OwnershipMarker u) \<and> \<not> hasDuplicate (eu_MutationKeys u) \<and>
     (\<forall>b. eu_Coverage u = Some b \<longrightarrow> CoverageBoundary_Validate b = []) \<and>
     (\<forall>f. eu_ReuseFingerprint u = Some f \<longrightarrow>
        ReuseFingerprint_Digest f = Inr (eu_Fingerprint u) \<and> rf_OwnershipMarker f = eu_OwnershipMarker u)"

lemma unionSorted_no_dup:
  "\<not> hasDuplicate xs \<Longrightarrow> \<not> hasDuplicate ys \<Longrightarrow> \<not> hasDuplicate (unionSorted xs ys)"
  by (simp add: hasDuplicate_iff)

lemma cell_ok_keys: "cell_ok c \<Longrightarrow> \<not> hasDuplicate (sc_MutationKeys c)"
  by (auto simp: cell_ok_def hasDuplicate_iff)

lemma transition_unit_ok: "cell_ok c \<Longrightarrow> unit_ok (executionUnitForTransition c)"
  using cell_ok_keys[of c] by (simp add: unit_ok_def executionUnitForTransition_def cell_ok_def)

lemma new_unit_ok:
  assumes "cell_ok c" and "\<And>k b. (k, b) \<in> set baselines \<Longrightarrow> cell_ok b"
  shows "unit_ok (new_unit baselines c)"
proof -
  have "unit_ok (executionUnitForBaseline c)"
    using assms(1) cell_ok_keys[of c] by (simp add: unit_ok_def executionUnitForBaseline_def cell_ok_def)
  then show ?thesis using cell_ok_keys[OF assms(2)]
    by (auto simp: new_unit_def unit_ok_def unionSorted_no_dup Let_def split: option.splits dest!: map_of_SomeD)
qed

lemma join_unit_ok: "unit_ok u \<Longrightarrow> cell_ok c \<Longrightarrow> unit_ok (join_unit c u)"
  using cell_ok_keys[of c] by (simp add: unit_ok_def join_unit_def unionSorted_no_dup)

text \<open>The groups after the cells \<open>cs\<close>: one per key, with the cells of the key in order.\<close>

definition group_ok :: "ScheduleCell list \<Rightarrow> string \<times> ExecutionUnit \<Rightarrow> bool" where
  "group_ok ps = (\<lambda>(key, u). eu_CellIDs u = map sc_ID (filter (\<lambda>c. group_key c = key) ps) \<and> unit_ok u \<and>
     eu_DependsOn u = [] \<and>
     (\<forall>c \<in> set ps. group_key c = key \<longrightarrow> eu_ID u = unit_id c \<and> set (sc_MutationKeys c) \<subseteq> set (eu_MutationKeys u)))"

definition groups_ok :: "ScheduleCell list \<Rightarrow> unit_groups \<times> (string \<times> string) list \<Rightarrow> bool" where
  "groups_ok ps = (\<lambda>(groups, cellToUnit). distinct (map fst groups) \<and> fst ` set groups = group_key ` set ps \<and>
     (\<forall>g \<in> set groups. group_ok ps g) \<and> cellToUnit = map (\<lambda>c. (sc_ID c, unit_id c)) ps)"

lemma map_put_new: "k \<notin> fst ` set m \<Longrightarrow> map_put k v m = m @ [(k, v)]"
  by (auto simp: map_put_def filter_id_conv)

lemma fst_map_put: "fst ` set (map_put k v m) = insert k (fst ` set m)"
  by (auto simp: map_put_def image_iff)

lemma group_ok_other: "group_ok ps (key, u) \<Longrightarrow> group_key c \<noteq> key \<Longrightarrow> group_ok (ps @ [c]) (key, u)"
  by (auto simp: group_ok_def)

lemma new_unit_simps [simp]:
  "eu_ID (new_unit baselines c) = eu_ID (executionUnitForBaseline c)" "eu_CellIDs (new_unit baselines c) = []"
  "eu_DependsOn (new_unit baselines c) = []"
  by (simp_all add: new_unit_def executionUnitForBaseline_def Let_def split: option.splits)

lemma join_unit_simps [simp]:
  "eu_ID (join_unit c u) = eu_ID u" "eu_CellIDs (join_unit c u) = eu_CellIDs u @ [sc_ID c]"
  "eu_DependsOn (join_unit c u) = eu_DependsOn u"
  "set (eu_MutationKeys (join_unit c u)) = set (eu_MutationKeys u) \<union> set (sc_MutationKeys c)"
  by (simp_all add: join_unit_def)

lemma groups_ok_put:
  assumes "groups_ok ps (groups, cellToUnit)" and "group_ok (ps @ [c]) (group_key c, u)" and "sc_ID c \<notin> sc_ID ` set ps"
    and "unitID = unit_id c"
  shows "groups_ok (ps @ [c]) (map_put (group_key c) u groups, map_put (sc_ID c) unitID cellToUnit)"
proof -
  from assms(1) have g: "distinct (map fst groups)" "fst ` set groups = group_key ` set ps" "\<forall>g \<in> set groups. group_ok ps g"
    "cellToUnit = map (\<lambda>c. (sc_ID c, unit_id c)) ps" by (simp_all add: groups_ok_def)
  have "map_put (sc_ID c) unitID cellToUnit = map (\<lambda>c. (sc_ID c, unit_id c)) (ps @ [c])"
    using assms(3,4) by (subst map_put_new) (auto simp: g(4) image_image)
  moreover have "\<forall>g \<in> set (map_put (group_key c) u groups). group_ok (ps @ [c]) g"
    using g(3) assms(2) group_ok_other[of ps _ _ c] by (auto simp: map_put_def)
  moreover have "fst ` set (map_put (group_key c) u groups) = group_key ` set (ps @ [c])"
    using g(2) by (simp add: fst_map_put insert_commute)
  ultimately show ?thesis using distinct_map_put[OF g(1)] by (simp add: groups_ok_def)
qed

lemma group_cell_ok:
  assumes coll: "no_hash_collision cells" and sub: "set (ps @ [c]) \<subseteq> set cells" and c: "pending_cell completed c" "cell_ok c"
    and new: "sc_ID c \<notin> sc_ID ` set ps" and base: "\<And>k b. (k, b) \<in> set baselines \<Longrightarrow> cell_ok b"
    and ok: "groups_ok ps (groups, cellToUnit)"
  shows "groups_ok (ps @ [c]) (group_cell baselines completed (groups, cellToUnit) c)"
proof (cases "sc_WarmFrom c = []")
  case False
  let ?u = "executionUnitForTransition c"
  have key: "group_key c = eu_ID ?u" "unit_id c = eu_ID ?u" using False by (simp_all add: group_key_def unit_id_def)
  have only: "group_key d \<noteq> group_key c" if "d \<in> set ps" for d
    using group_key_unit_id(2)[OF coll, of c d] that sub new False by force
  then have none: "filter (\<lambda>d. group_key d = group_key c) ps = []" by (auto simp: filter_empty_conv)
  have "eu_CellIDs ?u = [sc_ID c]" "eu_DependsOn ?u = []" "eu_MutationKeys ?u = sc_MutationKeys c"
    by (simp_all add: executionUnitForTransition_def)
  with none only key transition_unit_ok[OF c(2)] have "group_ok (ps @ [c]) (group_key c, ?u)"
    by (simp add: group_ok_def)
  from groups_ok_put[OF ok this new, of "eu_ID ?u"] key False c(1) show ?thesis by (simp add: group_cell_def Let_def)
next
  case True
  let ?old = "case map_of groups (group_key c) of None \<Rightarrow> new_unit baselines c | Some u \<Rightarrow> u"
  have key: "group_key c = scheduleCellIdentity c" "unit_id c = eu_ID (executionUnitForBaseline c)"
    using True by (simp_all add: group_key_def unit_id_def)
  have same: "unit_id d = unit_id c" if "d \<in> set ps" "group_key d = group_key c" for d
    using group_key_unit_id(1)[OF coll _ _ that(2)] that(1) sub by auto
  have g: "fst ` set groups = group_key ` set ps" "\<forall>g \<in> set groups. group_ok ps g" using ok by (simp_all add: groups_ok_def)
  have old: "group_ok ps (group_key c, ?old) \<and> eu_ID ?old = unit_id c"
  proof (cases "map_of groups (group_key c)")
    case None
    then have "group_key c \<notin> group_key ` set ps" using g(1) by (simp add: map_of_eq_None_iff)
    then have "filter (\<lambda>d. group_key d = group_key c) ps = []" "\<forall>d \<in> set ps. group_key d \<noteq> group_key c"
      by (auto simp: filter_empty_conv image_iff)
    with None key new_unit_ok[OF c(2) base] show ?thesis by (simp add: group_ok_def)
  next
    case (Some u)
    then have mem: "(group_key c, u) \<in> set groups" by (rule map_of_SomeD)
    then have "group_key c \<in> group_key ` set ps" using g(1) by (metis fst_conv image_eqI)
    then obtain d where "d \<in> set ps" "group_key d = group_key c" by auto
    with g(2) mem same have "eu_ID u = unit_id c" by (fastforce simp: group_ok_def)
    with Some g(2) mem show ?thesis by simp
  qed
  then have "group_ok (ps @ [c]) (group_key c, join_unit c ?old)"
    using join_unit_ok[of ?old c] c(2) by (fastforce simp: group_ok_def)
  from groups_ok_put[OF ok this new, of "unit_id c"] old True c(1) show ?thesis by (simp add: group_cell_def Let_def key)
qed

lemma completed_baselines_subset: "(k, b) \<in> set (completed_baselines cells completed) \<Longrightarrow> b \<in> set cells"
proof -
  have "(k, b) \<in> set (foldl (\<lambda>m c. if sc_ID c \<in> set completed \<and> \<not> non_runnable (sc_Status c) \<and> sc_WarmFrom c = []
     then map_put (scheduleCellIdentity c) c m else m) m cells) \<Longrightarrow> b \<in> set cells \<or> (k, b) \<in> set m" for m
    by (induction cells arbitrary: m) (fastforce simp: map_put_def split: if_splits)+
  from this[of "[]"] show "(k, b) \<in> set (completed_baselines cells completed) \<Longrightarrow> b \<in> set cells"
    by (auto simp: completed_baselines_def)
qed

lemma grouped_cells_ok:
  assumes "no_hash_collision cells" and "\<And>c. c \<in> set cells \<Longrightarrow> cell_ok c" and "\<And>k b. (k, b) \<in> set baselines \<Longrightarrow> cell_ok b"
    and "set cs \<subseteq> set cells" and "distinct (map sc_ID cs)"
  shows "groups_ok (filter (pending_cell completed) cs) (foldl (group_cell baselines completed) ([], []) cs)"
  using assms(4,5)
proof (induction cs rule: rev_induct)
  case Nil
  show ?case by (simp add: groups_ok_def)
next
  case (snoc c cs)
  obtain groups cellToUnit where st: "foldl (group_cell baselines completed) ([], []) cs = (groups, cellToUnit)" by force
  from snoc have ok: "groups_ok (filter (pending_cell completed) cs) (groups, cellToUnit)" by (simp add: st)
  show ?case
  proof (cases "pending_cell completed c")
    case True
    have "sc_ID c \<notin> sc_ID ` set (filter (pending_cell completed) cs)" using snoc.prems(2) by auto
    moreover have "set (filter (pending_cell completed) cs @ [c]) \<subseteq> set cells" using snoc.prems(1) by auto
    ultimately have "groups_ok (filter (pending_cell completed) cs @ [c]) (group_cell baselines completed (groups, cellToUnit) c)"
      using snoc.prems(1) assms(2,3) ok by (intro group_cell_ok[OF assms(1) _ True]) auto
    with True st show ?thesis by simp
  next
    case False
    with ok st show ?thesis by (simp add: group_cell_def)
  qed
qed

text \<open>The units of a run, and the cells that each of them holds.\<close>

definition units_ok :: "ScheduleCell list \<Rightarrow> ExecutionUnit list \<Rightarrow> bool" where
  "units_ok ps units \<longleftrightarrow> distinct (map eu_ID units) \<and> eu_ID ` set units = unit_id ` set ps \<and>
     (\<forall>u \<in> set units. unit_ok u \<and> distinct (eu_CellIDs u) \<and>
        set (eu_CellIDs u) = sc_ID ` {c \<in> set ps. unit_id c = eu_ID u} \<and>
        (\<forall>c \<in> set ps. unit_id c = eu_ID u \<longrightarrow> set (sc_MutationKeys c) \<subseteq> set (eu_MutationKeys u)))"

lemma finish_unit_simps [simp]:
  "eu_ID (finish_unit u) = eu_ID u" "eu_CellIDs (finish_unit u) = sort (eu_CellIDs u)"
  "eu_MutationKeys (finish_unit u) = eu_MutationKeys u" "eu_DependsOn (finish_unit u) = eu_DependsOn u"
  "unit_ok (finish_unit u) = unit_ok u"
  by (simp_all add: finish_unit_def unit_ok_def Let_def)

lemma distinct_map_sort: "distinct (map f (sort_key g xs)) \<longleftrightarrow> distinct (map f xs)"
  by (simp add: distinct_map)

lemma makeExecutionUnits_ok:
  assumes coll: "no_hash_collision cells" and cells: "\<And>c. c \<in> set cells \<Longrightarrow> cell_ok c" and dist: "distinct (map sc_ID cells)"
    and make: "makeExecutionUnits cells completed = (units, cellToUnit)"
  shows "units_ok (filter (pending_cell completed) cells) units" and "\<forall>u \<in> set units. eu_DependsOn u = []"
    and "cellToUnit = map (\<lambda>c. (sc_ID c, unit_id c)) (filter (pending_cell completed) cells)"
proof -
  let ?ps = "filter (pending_cell completed) cells"
  obtain groups c2u where st: "foldl (group_cell (completed_baselines cells completed) completed) ([], []) cells = (groups, c2u)"
    by force
  from make st have units: "units = sort_key eu_ID (map (finish_unit \<circ> snd) groups)" and c2u: "cellToUnit = c2u"
    by (simp_all add: makeExecutionUnits_def)
  have "groups_ok ?ps (groups, c2u)" unfolding st[symmetric]
    by (rule grouped_cells_ok[OF coll cells _ _ dist]) (auto dest: completed_baselines_subset cells)
  then have g: "distinct (map fst groups)" "fst ` set groups = group_key ` set ?ps" "\<forall>g \<in> set groups. group_ok ?ps g"
    "c2u = map (\<lambda>c. (sc_ID c, unit_id c)) ?ps" by (simp_all add: groups_ok_def)
  have rep: "\<exists>c \<in> set ?ps. group_key c = k" if "(k, u) \<in> set groups" for k u
    using g(2) that by (metis fst_conv imageE image_eqI)
  have gid: "eu_ID u = unit_id c" if "(k, u) \<in> set groups" "c \<in> set ?ps" "group_key c = k" for k u c
    using g(3) that by (fastforce simp: group_ok_def)
  have key_back: "group_key c = k" if "(k, u) \<in> set groups" "c \<in> set ?ps" "unit_id c = eu_ID u" for k u c
    using rep[OF that(1)] gid[OF that(1)] that(2,3) unit_id_group_key[OF coll, of c] by fastforce
  show "\<forall>u \<in> set units. eu_DependsOn u = []" using g(3) by (auto simp: units group_ok_def)
  show "cellToUnit = map (\<lambda>c. (sc_ID c, unit_id c)) ?ps" by (simp add: c2u g(4))
  have "inj_on (eu_ID \<circ> snd) (set groups)"
  proof (rule inj_onI, clarsimp)
    fix k u l w assume ku: "(k, u) \<in> set groups" and lw: "(l, w) \<in> set groups" and same: "eu_ID u = eu_ID w"
    from rep[OF lw] obtain c where c: "c \<in> set ?ps" "group_key c = l" by blast
    from key_back[OF ku c(1)] gid[OF lw c] same c(2) have "k = l" by simp
    with ku lw g(1) show "k = l \<and> u = w" by (metis eq_key_imp_eq_value)
  qed
  then have "distinct (map eu_ID (map (finish_unit \<circ> snd) groups))"
    using g(1) by (simp add: distinct_map comp_def inj_on_def)
  then have "distinct (map eu_ID units)" unfolding units distinct_map_sort .
  moreover have "eu_ID ` set units = unit_id ` set ?ps"
  proof
    show "eu_ID ` set units \<subseteq> unit_id ` set ?ps" using rep gid by (fastforce simp: units)
    show "unit_id ` set ?ps \<subseteq> eu_ID ` set units"
    proof clarify
      fix c assume c: "c \<in> set ?ps"
      then have "group_key c \<in> fst ` set groups" using g(2) by simp
      then obtain u where "(group_key c, u) \<in> set groups" by auto
      with gid[OF this c] show "unit_id c \<in> eu_ID ` set units" by (force simp: units image_iff)
    qed
  qed
  moreover have "unit_ok u \<and> distinct (eu_CellIDs u) \<and> set (eu_CellIDs u) = sc_ID ` {c \<in> set ?ps. unit_id c = eu_ID u} \<and>
      (\<forall>c \<in> set ?ps. unit_id c = eu_ID u \<longrightarrow> set (sc_MutationKeys c) \<subseteq> set (eu_MutationKeys u))" if "u \<in> set units" for u
  proof -
    from that obtain k w where w: "(k, w) \<in> set groups" "u = finish_unit w" by (auto simp: units)
    with g(3) have ok: "group_ok ?ps (k, w)" by blast
    have iff: "unit_id c = eu_ID w \<longleftrightarrow> group_key c = k" if "c \<in> set ?ps" for c using key_back[OF w(1) that] gid[OF w(1) that] by auto
    have "distinct (map sc_ID (filter (\<lambda>c. group_key c = k) ?ps))" using dist by (simp add: distinct_map_filter)
    with ok iff show ?thesis by (auto simp: group_ok_def w(2))
  qed
  ultimately show "units_ok ?ps units" by (simp add: units_ok_def)
qed

section \<open>Dependencies between the units\<close>

text \<open>Units that only differ in their dependencies, their session and whether they are cold.\<close>

definition same_unit :: "ExecutionUnit \<Rightarrow> ExecutionUnit \<Rightarrow> bool" where
  "same_unit u v \<longleftrightarrow> eu_ID v = eu_ID u \<and> eu_CellIDs v = eu_CellIDs u \<and> eu_MutationKeys v = eu_MutationKeys u \<and>
     eu_Estimate v = eu_Estimate u \<and> eu_Required v = eu_Required u \<and> eu_Fingerprint v = eu_Fingerprint u \<and> unit_ok v = unit_ok u"

lemma same_units_ids: "list_all2 same_unit us vs \<Longrightarrow> map eu_ID vs = map eu_ID us"
  by (induction rule: list_all2_induct) (auto simp: same_unit_def)

lemma list_all2_member: "list_all2 R us vs \<Longrightarrow> v \<in> set vs \<Longrightarrow> \<exists>u \<in> set us. R u v"
  by (induction rule: list_all2_induct) auto

lemma same_units_ok:
  assumes "list_all2 same_unit us vs" and "units_ok ps us"
  shows "units_ok ps vs"
proof -
  have ids: "map eu_ID vs = map eu_ID us" by (rule same_units_ids[OF assms(1)])
  then have "eu_ID ` set vs = eu_ID ` set us" by (metis set_map)
  moreover have "\<exists>u \<in> set us. same_unit u v" if "v \<in> set vs" for v using list_all2_member[OF assms(1) that] .
  ultimately show ?thesis using assms(2) ids by (fastforce simp: units_ok_def same_unit_def)
qed

lemma map_results_Inr: "map_results f xs = Inr ys \<Longrightarrow> list_all2 (\<lambda>x y. f x = Inr y) xs ys"
  by (induction xs arbitrary: ys) (auto split: sum.splits)

lemma apply_session_same: "apply_session cells records u = Inr v \<Longrightarrow> same_unit u v \<and> eu_DependsOn v = eu_DependsOn u"
  by (auto simp: apply_session_def same_unit_def unit_ok_def split: sum.splits option.splits if_splits)

lemma applyReusableSessions_same:
  assumes "applyReusableSessions units cells records = Inr units'"
  shows "list_all2 (\<lambda>u v. same_unit u v \<and> eu_DependsOn v = eu_DependsOn u) units units'"
proof (cases "records = []")
  case True
  then show ?thesis using assms by (auto simp: applyReusableSessions_def same_unit_def intro!: list_all2_refl)
next
  case False
  with assms have "list_all2 (\<lambda>u v. apply_session cells records u = Inr v) units units'"
    by (auto simp: applyReusableSessions_def intro: map_results_Inr split: sum.splits)
  then show ?thesis by (rule list_all2_mono) (rule apply_session_same)
qed

text \<open>The units of \<open>vs\<close> are those of \<open>us\<close> with the dependencies \<open>F\<close> added.\<close>

definition grown :: "(string \<Rightarrow> string set) \<Rightarrow> ExecutionUnit list \<Rightarrow> ExecutionUnit list \<Rightarrow> bool" where
  "grown F us vs \<longleftrightarrow> list_all2 (\<lambda>u v. same_unit u v \<and> set (eu_DependsOn v) = set (eu_DependsOn u) \<union> F (eu_ID u)) us vs"

lemma grown_ids: "grown F us vs \<Longrightarrow> map eu_ID vs = map eu_ID us"
  unfolding grown_def by (rule same_units_ids) (auto elim: list_all2_mono)

lemma same_unit_refl [simp]: "same_unit u u"
  by (simp add: same_unit_def)

lemma grown_refl [simp]: "grown (\<lambda>_. {}) us us"
  by (auto simp: grown_def intro!: list_all2_refl)

lemma grown_trans:
  assumes "grown F us vs" and "grown G vs ws"
  shows "grown (\<lambda>i. F i \<union> G i) us ws"
  using assms unfolding grown_def
  by (rule list_all2_trans[rotated]) (auto simp: same_unit_def)

lemma update_unit_map:
  "distinct (map eu_ID us) \<Longrightarrow> update_unit i f us = map (\<lambda>u. if eu_ID u = i then f u else u) us"
proof (induction us)
  case (Cons u us)
  then have "eu_ID u = i \<Longrightarrow> \<forall>v \<in> set us. eu_ID v \<noteq> i" by (auto simp: image_iff)
  with Cons show ?case by (cases "eu_ID u = i") (auto simp: list_all_iff map_idI)
qed simp

lemma add_dependency_grown:
  "distinct (map eu_ID us) \<Longrightarrow>
     grown (\<lambda>i. {v. i = unitID \<and> v \<noteq> unitID \<and> v = dependency}) us (add_dependency unitID dependency us)"
  by (auto simp: grown_def add_dependency_def update_unit_map list_all2_map2 same_unit_def unit_ok_def intro!: list_all2_refl)

lemma grown_cong: "grown F us vs \<Longrightarrow> (\<And>i. F i = G i) \<Longrightarrow> grown G us vs"
  by (simp add: grown_def)

lemma add_cell_dependencies_grown:
  assumes "add_cell_dependencies cellToUnit completed cellID unitID ds us = Inr vs" and "distinct (map eu_ID us)"
  shows "grown (\<lambda>i. {v. i = unitID \<and> v \<noteq> unitID \<and> (\<exists>d \<in> set ds. d \<notin> set completed \<and> map_of cellToUnit d = Some v)}) us vs \<and>
    (\<forall>d \<in> set ds. d \<in> set completed \<or> map_of cellToUnit d \<noteq> None)"
  using assms
proof (induction ds arbitrary: us)
  case (Cons d ds)
  show ?case
  proof (cases "d \<in> set completed")
    case True
    with Cons.prems have "add_cell_dependencies cellToUnit completed cellID unitID ds us = Inr vs" by simp
    from Cons.IH[OF this Cons.prems(2)] True show ?thesis by auto
  next
    case False
    with Cons.prems obtain unit where unit: "map_of cellToUnit d = Some unit"
      and rest: "add_cell_dependencies cellToUnit completed cellID unitID ds (add_dependency unitID unit us) = Inr vs"
      by (auto split: option.splits)
    note step = add_dependency_grown[OF Cons.prems(2), of unitID unit]
    have "distinct (map eu_ID (add_dependency unitID unit us))" using grown_ids[OF step] Cons.prems(2) by simp
    note more = Cons.IH[OF rest this]
    from grown_trans[OF step conjunct1[OF more]]
    have "grown (\<lambda>i. {v. i = unitID \<and> v \<noteq> unitID \<and> (\<exists>e \<in> set (d # ds). e \<notin> set completed \<and> map_of cellToUnit e = Some v)}) us vs"
      by (rule grown_cong) (use False unit in auto)
    with more unit show ?thesis by auto
  qed
qed simp

text \<open>The units that a cell waits for.\<close>

definition awaits :: "(string \<times> string) list \<Rightarrow> string list \<Rightarrow> ScheduleCell \<Rightarrow> string \<Rightarrow> bool" where
  "awaits cellToUnit completed c v \<longleftrightarrow>
     (\<exists>d \<in> set (sc_Dependencies c). d \<notin> set completed \<and> map_of cellToUnit d = Some v) \<or>
     (sc_WarmFrom c \<noteq> [] \<and> map_of cellToUnit (sc_WarmFrom c) = Some v)"

lemma add_warm_dependency_grown:
  assumes "add_warm_dependency cellToUnit completed c unitID us = Inr vs" and "distinct (map eu_ID us)"
  shows "grown (\<lambda>i. {v. i = unitID \<and> v \<noteq> unitID \<and> sc_WarmFrom c \<noteq> [] \<and> map_of cellToUnit (sc_WarmFrom c) = Some v}) us vs"
proof (cases "sc_WarmFrom c \<noteq> [] \<and> map_of cellToUnit (sc_WarmFrom c) \<noteq> None")
  case True
  then obtain unit where unit: "map_of cellToUnit (sc_WarmFrom c) = Some unit" by auto
  with True assms(1) have "vs = add_dependency unitID unit us" by (simp add: add_warm_dependency_def)
  with add_dependency_grown[OF assms(2), of unitID unit] unit True show ?thesis by (auto elim!: grown_cong)
next
  case False
  with assms(1) have "vs = us" by (auto simp: add_warm_dependency_def split: option.splits if_splits)
  then show ?thesis using False by (auto intro!: grown_cong[OF grown_refl])
qed

lemma add_dependencies_grown:
  assumes "add_dependencies cellToUnit completed cs us = Inr vs" and "distinct (map eu_ID us)"
  shows "grown (\<lambda>i. {v. v \<noteq> i \<and> (\<exists>c \<in> set cs. map_of cellToUnit (sc_ID c) = Some i \<and> awaits cellToUnit completed c v)}) us vs \<and>
    (\<forall>c \<in> set cs. map_of cellToUnit (sc_ID c) \<noteq> None \<longrightarrow>
       (\<forall>d \<in> set (sc_Dependencies c). d \<in> set completed \<or> map_of cellToUnit d \<noteq> None))"
  using assms
proof (induction cs arbitrary: us)
  case (Cons c cs)
  show ?case
  proof (cases "map_of cellToUnit (sc_ID c)")
    case None
    with Cons.IH[of us] Cons.prems show ?thesis by (auto elim!: grown_cong)
  next
    case (Some unitID)
    with Cons.prems(1) obtain us1 us2 where
      us1: "add_cell_dependencies cellToUnit completed (sc_ID c) unitID (sc_Dependencies c) us = Inr us1"
      and us2: "add_warm_dependency cellToUnit completed c unitID us1 = Inr us2"
      and rest: "add_dependencies cellToUnit completed cs us2 = Inr vs"
      by (auto split: sum.splits)
    note g1 = add_cell_dependencies_grown[OF us1 Cons.prems(2)]
    have d1: "distinct (map eu_ID us1)" using grown_ids[OF conjunct1[OF g1]] Cons.prems(2) by simp
    note g2 = add_warm_dependency_grown[OF us2 d1]
    have d2: "distinct (map eu_ID us2)" using grown_ids[OF g2] d1 by simp
    note g3 = Cons.IH[OF rest d2]
    from grown_trans[OF grown_trans[OF conjunct1[OF g1] g2] conjunct1[OF g3]]
    have "grown (\<lambda>i. {v. v \<noteq> i \<and> (\<exists>c \<in> set (c # cs). map_of cellToUnit (sc_ID c) = Some i \<and> awaits cellToUnit completed c v)}) us vs"
      by (rule grown_cong) (use Some in \<open>auto simp: awaits_def\<close>)
    with g1 g3 show ?thesis by auto
  qed
qed simp

section \<open>The plan of a run\<close>

text \<open>Cell \<open>c\<close> comes after cell \<open>e\<close>: in the same unit, or in a unit that depends on the unit of \<open>e\<close>.\<close>

definition planned_after :: "ExecutionUnit list \<Rightarrow> ScheduleCell \<Rightarrow> ScheduleCell \<Rightarrow> bool" where
  "planned_after units c e \<longleftrightarrow> unit_id e = unit_id c \<or>
     (\<forall>u \<in> set units. eu_ID u = unit_id c \<longrightarrow> unit_id e \<in> set (eu_DependsOn u))"

definition plan_ok :: "ScheduleCell list \<Rightarrow> string list \<Rightarrow> ExecutionUnit list \<Rightarrow> bool" where
  "plan_ok ps completed units \<longleftrightarrow> units_ok ps units \<and>
     (\<forall>c \<in> set ps. \<forall>d \<in> set (sc_Dependencies c). d \<in> set completed \<or>
        (\<exists>e \<in> set ps. sc_ID e = d \<and> planned_after units c e)) \<and>
     (\<forall>c \<in> set ps. sc_WarmFrom c \<noteq> [] \<longrightarrow> sc_WarmFrom c \<in> set completed \<or>
        (\<exists>e \<in> set ps. sc_ID e = sc_WarmFrom c \<and> planned_after units c e))"

lemma add_dependencies_warm:
  assumes "add_dependencies cellToUnit completed cs us = Inr vs" and "c \<in> set cs"
    and "map_of cellToUnit (sc_ID c) \<noteq> None" and "sc_WarmFrom c \<noteq> []"
  shows "sc_WarmFrom c \<in> set completed \<or> map_of cellToUnit (sc_WarmFrom c) \<noteq> None"
  using assms
  by (induction cs arbitrary: us) (auto simp: add_warm_dependency_def split: option.splits sum.splits if_splits)

lemma planned_units:
  assumes coll: "no_hash_collision cells" and cells: "\<And>c. c \<in> set cells \<Longrightarrow> cell_ok c" and dist: "distinct (map sc_ID cells)"
    and make: "makeExecutionUnits cells completed = (units0, cellToUnit)"
    and applied: "applyReusableSessions units0 cells records = Inr units1"
    and add: "addUnitDependencies units1 cellToUnit cells completed = Inr units"
  shows "plan_ok (filter (pending_cell completed) cells) completed units"
proof -
  let ?ps = "filter (pending_cell completed) cells"
  note made = makeExecutionUnits_ok[OF coll cells dist make]
  have same: "list_all2 same_unit units0 units1" using applyReusableSessions_same[OF applied] by (auto elim: list_all2_mono)
  have ok1: "units_ok ?ps units1" by (rule same_units_ok[OF same made(1)])
  from add obtain us where us: "add_dependencies cellToUnit completed cells units1 = Inr us"
    and units: "units = map (\<lambda>u. u\<lparr>eu_DependsOn := sort (eu_DependsOn u)\<rparr>) us"
    by (auto simp: addUnitDependencies_def split: sum.splits)
  have d1: "distinct (map eu_ID units1)" using ok1 by (simp add: units_ok_def)
  note grow = add_dependencies_grown[OF us d1]
  have "list_all2 same_unit units1 us" using grow by (auto simp: grown_def elim: list_all2_mono)
  moreover have "list_all2 same_unit us units" by (auto simp: units list_all2_map2 same_unit_def unit_ok_def intro!: list_all2_refl)
  ultimately have ok: "units_ok ?ps units" using same_units_ok ok1 by blast
  have lookup: "map_of cellToUnit (sc_ID c) = Some (unit_id c)" if "c \<in> set ?ps" for c
    by (rule map_of_is_SomeI) (use that dist in \<open>auto simp: made(3) comp_def distinct_map_filter\<close>)
  have cell: "\<exists>e \<in> set ?ps. sc_ID e = d \<and> v = unit_id e" if "map_of cellToUnit d = Some v" for d v
    using map_of_SomeD[OF that] by (auto simp: made(3))
  have after: "planned_after units c e" if c: "c \<in> set ?ps" and a: "awaits cellToUnit completed c (unit_id e)" for c e
  proof (cases "unit_id e = unit_id c")
    case False
    have "unit_id e \<in> set (eu_DependsOn u)" if u: "u \<in> set units" "eu_ID u = unit_id c" for u
    proof -
      from u(1) obtain x where x: "x \<in> set us" "u = x\<lparr>eu_DependsOn := sort (eu_DependsOn x)\<rparr>" by (auto simp: units)
      from list_all2_member[OF conjunct1[OF grow, unfolded grown_def] x(1)] obtain y where
        y: "same_unit y x" "set (eu_DependsOn x) = set (eu_DependsOn y) \<union>
          {v. v \<noteq> eu_ID y \<and> (\<exists>c \<in> set cells. map_of cellToUnit (sc_ID c) = Some (eu_ID y) \<and> awaits cellToUnit completed c v)}"
        by auto
      have "eu_ID y = unit_id c" using y(1) x(2) u(2) by (simp add: same_unit_def)
      with y(2) x(2) False lookup[OF c] c a show ?thesis by auto
    qed
    then show ?thesis by (simp add: planned_after_def)
  qed (simp add: planned_after_def)
  show ?thesis
    unfolding plan_ok_def
  proof (intro conjI ballI impI)
    show "units_ok ?ps units" by (rule ok)
  next
    fix c d assume c: "c \<in> set ?ps" and d: "d \<in> set (sc_Dependencies c)"
    show "d \<in> set completed \<or> (\<exists>e \<in> set ?ps. sc_ID e = d \<and> planned_after units c e)"
    proof (cases "d \<in> set completed")
      case False
      with grow c d lookup[OF c] obtain v where v: "map_of cellToUnit d = Some v" by fastforce
      from cell[OF this] obtain e where e: "e \<in> set ?ps" "sc_ID e = d" "v = unit_id e" by blast
      have "awaits cellToUnit completed c (unit_id e)" using d False v e(3) by (auto simp: awaits_def)
      with after[OF c] e show ?thesis by blast
    qed simp
  next
    fix c assume c: "c \<in> set ?ps" and w: "sc_WarmFrom c \<noteq> []"
    show "sc_WarmFrom c \<in> set completed \<or> (\<exists>e \<in> set ?ps. sc_ID e = sc_WarmFrom c \<and> planned_after units c e)"
    proof (cases "map_of cellToUnit (sc_WarmFrom c)")
      case None
      with add_dependencies_warm[OF us _ _ w] c lookup[OF c] show ?thesis by auto
    next
      case (Some v)
      from cell[OF this] obtain e where e: "e \<in> set ?ps" "sc_ID e = sc_WarmFrom c" "v = unit_id e" by blast
      have "awaits cellToUnit completed c (unit_id e)" using w Some e(3) by (auto simp: awaits_def)
      with after[OF c] e show ?thesis by blast
    qed
  qed
qed

end
