(* ===== verification/Schedule_Build.thy ===== *)
theory Schedule_Build
  imports Schedule_Units
begin

text \<open>
  \<^verbatim>\<open>BuildSchedule\<close> as a whole (\<^verbatim>\<open>internal/certification/scheduler.go\<close>): the checks, the sessions it reserves, the units,
  the batches, the totals and the budget, and the release of the sessions on every path that fails after they were
  reserved. The world outside is given by arguments: the time, a UUID, what the context says at each claim, and the
  outcome of the admission checks, which the theorems leave open.
\<close>

record 'reg SchedulerOptions =
  so_MaxParallel :: int
  so_QuotaByKey :: quotas
  so_SessionRegistry :: "'reg registry_ref"
  so_ClaimOwner :: string
  so_Admission :: "LocalCapacityRequest option"
  so_HasProbe :: bool
  so_HasSnapshot :: bool
  so_Checkpoints :: "SchedulerCheckpoint list"
  so_PendingDeletions :: "PendingDeletion list"
  so_Budget :: CertificationBudget

text \<open>The outcome of \<^verbatim>\<open>CheckAdmission\<close> or \<^verbatim>\<open>CheckAdmissionWithProbe\<close>: an error, or the report's readiness and reasons.\<close>

type_synonym admission_outcome = "string + bool \<times> string list"

definition admission_checks :: "admission_outcome \<Rightarrow> 'reg SchedulerOptions \<Rightarrow> option_error option" where
  "admission_checks outcome options =
     (if so_HasSnapshot options \<and> so_HasProbe options then Some AdmissionExclusive
      else case so_Admission options of
        None \<Rightarrow> if so_HasSnapshot options then Some AdmissionSnapshotWithoutInput else None
      | Some _ \<Rightarrow> (case outcome of
          Inl e \<Rightarrow> Some (AdmissionFailed e)
        | Inr (ready, reasons) \<Rightarrow> if \<not> ready then Some (AdmissionIsBlocked reasons) else None))"

definition local_capacity :: "'reg SchedulerOptions \<Rightarrow> option_error + LocalCapacityRequest option" where
  "local_capacity options =
     (case so_Admission options of
        None \<Rightarrow> Inr None
      | Some request \<Rightarrow> (case LocalCapacityRequest_Validate request of
          Some e \<Rightarrow> Inl (OptionLocalCapacity e)
        | None \<Rightarrow> Inr (if capacity_empty request then None else Some request)))"

definition completed_cells :: "ScheduleCell list \<Rightarrow> (string \<times> SchedulerCheckpoint) list \<Rightarrow> string list" where
  "completed_cells cells checkpoints = map sc_ID (filter (\<lambda>c.
     case map_of checkpoints (sc_ID c) of None \<Rightarrow> False | Some k \<Rightarrow> sk_Status k = ''PASS'') cells)"

definition findScheduleCell :: "ScheduleCell list \<Rightarrow> string \<Rightarrow> ScheduleCell option" where
  "findScheduleCell cells i = find (\<lambda>c. sc_ID c = i) cells"

text \<open>A cell of the matrix that depends on one that can not run; a cell that is not found has no status.\<close>

definition depends_on_non_runnable :: "ScheduleCell list \<Rightarrow> string list \<Rightarrow> schedule_error option" where
  "depends_on_non_runnable cells completed = first_err
     (map (\<lambda>(c, d). case findScheduleCell cells d of
          None \<Rightarrow> None
        | Some e \<Rightarrow> if non_runnable (sc_Status e)
            then Some (PlanError (DependsOnNonRunnable (sc_ID c) d (sc_Status e))) else None)
        [(c, d). c \<leftarrow> cells, pending_cell completed c, d \<leftarrow> sc_Dependencies c, d \<notin> set completed])"

definition add_unit :: "ExecutionUnit \<Rightarrow> Schedule \<Rightarrow> schedule_error + Schedule" where
  "add_unit u s =
     (case addScheduleEstimate (sd_CloudOperationSeconds s) (ee_CloudOperationSeconds (eu_Estimate u)) ''cloud operation time'' of
        Inl e \<Rightarrow> Inl e
      | Inr cloud \<Rightarrow>
     (case addScheduleEstimate (sd_ResourceLifetimeSeconds s) (ee_ResourceLifetimeSeconds (eu_Estimate u)) ''resource lifetime'' of
        Inl e \<Rightarrow> Inl e
      | Inr lifetime \<Rightarrow>
     (case addScheduleEstimate (sd_EstimatedCostCents s) (ee_EstimatedCostCents (eu_Estimate u)) ''estimated cost'' of
        Inl e \<Rightarrow> Inl e
      | Inr cost \<Rightarrow>
     (case addScheduleEstimate (sd_CleanupLatencySeconds s) (ee_CleanupLatencySeconds (eu_Estimate u)) ''cleanup latency'' of
        Inl e \<Rightarrow> Inl e
      | Inr cleanup \<Rightarrow>
          Inr (s\<lparr>sd_ColdUnitCount := sd_ColdUnitCount s + (if eu_Cold u \<and> eu_ReuseSessionID u = [] then 1 else 0),
            sd_WarmTransitionCount := sd_WarmTransitionCount s + (if \<not> eu_Cold u \<and> eu_ReuseSessionID u = [] then 1 else 0),
            sd_CloudOperationSeconds := cloud, sd_ResourceLifetimeSeconds := lifetime, sd_EstimatedCostCents := cost,
            sd_CleanupLatencySeconds := cleanup, sd_CostKnown := sd_CostKnown s \<and> ee_CostKnown (eu_Estimate u),
            sd_ReusedCellCount := sd_ReusedCellCount s +
              (if length (eu_CellIDs u) > 1 then int (length (eu_CellIDs u)) - 1 else 0) + (if \<not> eu_Cold u then 1 else 0),
            sd_ReusedSessionCount := sd_ReusedSessionCount s + (if eu_ReuseSessionID u \<noteq> [] then 1 else 0)\<rparr>)))))"

fun add_units :: "ExecutionUnit list \<Rightarrow> Schedule \<Rightarrow> schedule_error + Schedule" where
  "add_units [] s = Inr s"
| "add_units (u # us) s = (case add_unit u s of Inl e \<Rightarrow> Inl e | Inr s' \<Rightarrow> add_units us s')"

definition start_schedule ::
  "ExecutionUnit list \<Rightarrow> string list list \<Rightarrow> LocalCapacityRequest option \<Rightarrow> SessionClaim list \<Rightarrow> string list \<Rightarrow> string list \<Rightarrow> Schedule" where
  "start_schedule units batches capacity claims completed deferred =
     \<lparr>sd_Units = units, sd_Batches = batches, sd_LocalCapacity = capacity, sd_ReuseClaims = claims,
      sd_CompletedCellIDs = sort completed, sd_DeferredCellIDs = sortedScheduleStrings deferred, sd_BlockedCellIDs = [],
      sd_ColdUnitCount = 0, sd_WarmTransitionCount = 0, sd_ReusedCellCount = 0, sd_CloudOperationSeconds = 0,
      sd_ResourceLifetimeSeconds = 0, sd_EstimatedCostCents = 0, sd_CleanupLatencySeconds = 0,
      sd_CostKnown = (units \<noteq> []), sd_ReusedSessionCount = 0\<rparr>"

text \<open>What follows the reservation of sessions.\<close>

definition plan_schedule ::
  "ScheduleCell list \<Rightarrow> 'reg SchedulerOptions \<Rightarrow> LocalCapacityRequest option \<Rightarrow> string list \<Rightarrow> session_map
     \<Rightarrow> schedule_error + Schedule" where
  "plan_schedule cells options capacity completed found =
     (let deferred = map sc_ID (filter (\<lambda>c. non_runnable (sc_Status c)) cells) in
      case makeExecutionUnits cells completed of (units0, cellToUnit) \<Rightarrow>
     (case applyReusableSessions units0 cells found of Inl e \<Rightarrow> Inl e
      | Inr units1 \<Rightarrow> (case addUnitDependencies units1 cellToUnit cells completed of Inl e \<Rightarrow> Inl e
      | Inr units \<Rightarrow> (case makeBatches units (so_MaxParallel options) (so_QuotaByKey options) of Inl e \<Rightarrow> Inl e
      | Inr batches \<Rightarrow>
          (case add_units units (start_schedule units batches capacity (reusableSessionClaims found) completed deferred) of
             Inl e \<Rightarrow> Inl e
           | Inr s \<Rightarrow> (case enforceCertificationBudget s (so_Budget options) of Some e \<Rightarrow> Inl e | None \<Rightarrow> Inr s))))))"

text \<open>What precedes it: the resolved owner, the local capacity and the cells that are done.\<close>

definition prepare_schedule ::
  "int \<Rightarrow> string \<Rightarrow> admission_outcome \<Rightarrow> ScheduleCell list \<Rightarrow> 'reg SchedulerOptions
     \<Rightarrow> schedule_error + string \<times> LocalCapacityRequest option \<times> string list" where
  "prepare_schedule now uuid admission cells options =
     (if so_MaxParallel options < 1 then Inl (OptionError MaxParallelInvalid)
      else case validateScheduleCells cells of Some e \<Rightarrow> Inl e
      | None \<Rightarrow> (case validateCertificationBudget (so_Budget options) of Some e \<Rightarrow> Inl e
      | None \<Rightarrow> (case local_capacity options of Inl e \<Rightarrow> Inl (OptionError e)
      | Inr capacity \<Rightarrow> (case resolveScheduleClaimOwner (so_ClaimOwner options) (so_SessionRegistry options) uuid of Inl e \<Rightarrow> Inl e
      | Inr owner \<Rightarrow> (case admission_checks admission options of Some e \<Rightarrow> Inl (OptionError e)
      | None \<Rightarrow> (case validateCheckpoints now cells (so_Checkpoints options) of Inl e \<Rightarrow> Inl e
      | Inr checkpoints \<Rightarrow> (case validatePendingDeletions (so_PendingDeletions options) of Some e \<Rightarrow> Inl e
      | None \<Rightarrow>
          (let completed = completed_cells cells checkpoints in
           case first_err [depends_on_non_runnable cells completed,
               rejectPendingDeletionReuse cells completed (so_PendingDeletions options)] of
             Some e \<Rightarrow> Inl e
           | None \<Rightarrow> Inr (owner, capacity, completed)))))))))"

definition BuildSchedule ::
  "int \<Rightarrow> string \<Rightarrow> (string \<Rightarrow> ctx_error option) \<Rightarrow> admission_outcome \<Rightarrow> ScheduleCell list \<Rightarrow> 'reg SchedulerOptions \<Rightarrow> 'reg
     \<Rightarrow> (schedule_error list + Schedule) \<times> 'reg" where
  "BuildSchedule now uuid ctx admission cells options reg =
     (case prepare_schedule now uuid admission cells options of
        Inl e \<Rightarrow> (Inl [e], reg)
      | Inr (owner, capacity, completed) \<Rightarrow>
          (case findReusableScheduleSessions ctx cells completed (so_SessionRegistry options) owner reg of
             (outcome, found, reg1) \<Rightarrow>
               (case (case outcome of Some e \<Rightarrow> Inl e | None \<Rightarrow> plan_schedule cells options capacity completed found) of
                  Inr s \<Rightarrow> (Inr s, reg1)
                | Inl e \<Rightarrow>
                    (case releaseReusableScheduleSessions (so_SessionRegistry options) found reg1 of
                       (es, reg2) \<Rightarrow> (Inl (e # map ReleaseError es), reg2)))))"

section \<open>What a schedule establishes\<close>

lemma prepare_schedule_Inr:
  assumes "prepare_schedule now uuid admission cells options = Inr (owner, capacity, completed)"
  shows "1 \<le> so_MaxParallel options" and "validateScheduleCells cells = None"
    and "resolveScheduleClaimOwner (so_ClaimOwner options) (so_SessionRegistry options) uuid = Inr owner"
    and "\<exists>checkpoints. validateCheckpoints now cells (so_Checkpoints options) = Inr checkpoints \<and>
      completed = completed_cells cells checkpoints"
    and "depends_on_non_runnable cells completed = None"
    and "rejectPendingDeletionReuse cells completed (so_PendingDeletions options) = None"
  using assms by (auto simp: prepare_schedule_def Let_def split: if_splits option.splits sum.splits)

lemma add_unit_keeps:
  assumes "add_unit u s = Inr s'"
  shows "sd_Units s' = sd_Units s" "sd_Batches s' = sd_Batches s" "sd_LocalCapacity s' = sd_LocalCapacity s"
    "sd_ReuseClaims s' = sd_ReuseClaims s" "sd_CompletedCellIDs s' = sd_CompletedCellIDs s"
  using assms by (auto simp: add_unit_def split: sum.splits)

lemma add_units_keeps:
  assumes "add_units us s = Inr s'"
  shows "sd_Units s' = sd_Units s \<and> sd_Batches s' = sd_Batches s \<and> sd_LocalCapacity s' = sd_LocalCapacity s \<and>
    sd_ReuseClaims s' = sd_ReuseClaims s \<and> sd_CompletedCellIDs s' = sd_CompletedCellIDs s"
  using assms by (induction us arbitrary: s) (auto dest: add_unit_keeps split: sum.splits)

lemma plan_schedule_Inr:
  assumes "plan_schedule cells options capacity completed found = Inr s"
  obtains units0 cellToUnit units1 where "makeExecutionUnits cells completed = (units0, cellToUnit)"
    "applyReusableSessions units0 cells found = Inr units1" "addUnitDependencies units1 cellToUnit cells completed = Inr (sd_Units s)"
    "makeBatches (sd_Units s) (so_MaxParallel options) (so_QuotaByKey options) = Inr (sd_Batches s)"
    "sd_ReuseClaims s = reusableSessionClaims found" "sd_CompletedCellIDs s = sort completed" "sd_LocalCapacity s = capacity"
    "\<exists>deferred. add_units (sd_Units s) (start_schedule (sd_Units s) (sd_Batches s) capacity (sd_ReuseClaims s) completed deferred) = Inr s"
    "enforceCertificationBudget s (so_Budget options) = None"
proof -
  obtain units0 cellToUnit where make: "makeExecutionUnits cells completed = (units0, cellToUnit)" by force
  with assms obtain units1 units batches deferred where p: "applyReusableSessions units0 cells found = Inr units1"
    "addUnitDependencies units1 cellToUnit cells completed = Inr units"
    "makeBatches units (so_MaxParallel options) (so_QuotaByKey options) = Inr batches"
    "add_units units (start_schedule units batches capacity (reusableSessionClaims found) completed deferred) = Inr s"
    "enforceCertificationBudget s (so_Budget options) = None"
    by (auto simp: plan_schedule_def Let_def split: sum.splits option.splits)
  from add_units_keeps[OF p(4)] have k: "sd_Units s = units" "sd_Batches s = batches" "sd_LocalCapacity s = capacity"
    "sd_ReuseClaims s = reusableSessionClaims found" "sd_CompletedCellIDs s = sort completed"
    by (auto simp: start_schedule_def)
  show ?thesis by (rule that[OF make p(1)]) (use p k in auto)
qed

lemma BuildSchedule_Inr:
  assumes "BuildSchedule now uuid ctx admission cells options reg = (Inr s, reg')"
  obtains owner capacity completed found where
    "prepare_schedule now uuid admission cells options = Inr (owner, capacity, completed)"
    "findReusableScheduleSessions ctx cells completed (so_SessionRegistry options) owner reg = (None, found, reg')"
    "plan_schedule cells options capacity completed found = Inr s"
  using assms by (auto simp: BuildSchedule_def split: sum.splits prod.splits option.splits)

text \<open>A cell is done when the schedule lists it among the completed ones.\<close>

lemma built_plan:
  assumes build: "BuildSchedule now uuid ctx admission cells options reg = (Inr s, reg')" and coll: "no_hash_collision cells"
  shows "plan_ok (filter (pending_cell (sd_CompletedCellIDs s)) cells) (sd_CompletedCellIDs s) (sd_Units s)"
    and "makeBatches (sd_Units s) (so_MaxParallel options) (so_QuotaByKey options) = Inr (sd_Batches s)"
    and "1 \<le> so_MaxParallel options" and "distinct (map sc_ID cells)"
proof -
  from BuildSchedule_Inr[OF build] obtain owner capacity completed found where
    prep: "prepare_schedule now uuid admission cells options = Inr (owner, capacity, completed)"
    and plan: "plan_schedule cells options capacity completed found = Inr s" by metis
  note cells = validateScheduleCells_None[OF prepare_schedule_Inr(2)[OF prep]]
  show "1 \<le> so_MaxParallel options" by (rule prepare_schedule_Inr(1)[OF prep])
  show "distinct (map sc_ID cells)" by (rule cells(1))
  from plan_schedule_Inr[OF plan] obtain units0 cellToUnit units1 where
    p: "makeExecutionUnits cells completed = (units0, cellToUnit)" "applyReusableSessions units0 cells found = Inr units1"
      "addUnitDependencies units1 cellToUnit cells completed = Inr (sd_Units s)"
      "makeBatches (sd_Units s) (so_MaxParallel options) (so_QuotaByKey options) = Inr (sd_Batches s)"
      "sd_CompletedCellIDs s = sort completed" by metis
  show "makeBatches (sd_Units s) (so_MaxParallel options) (so_QuotaByKey options) = Inr (sd_Batches s)" by (rule p(4))
  have "pending_cell (sd_CompletedCellIDs s) = pending_cell completed" by (simp add: pending_cell_def fun_eq_iff p(5))
  with planned_units[OF coll cells(2,1) p(1-3)] p(5)
  show "plan_ok (filter (pending_cell (sd_CompletedCellIDs s)) cells) (sd_CompletedCellIDs s) (sd_Units s)"
    by (simp add: plan_ok_def)
qed

lemma memory_owner_ok:
  assumes "resolveScheduleClaimOwner claimOwner memory_ref uuid = Inr owner" and "\<not> has_control uuid"
  shows "\<not> blank owner" and "\<not> has_control owner"
proof -
  have "\<not> blank (''certification-schedule/'' @ uuid)" unfolding append_Cons by (rule not_blank_ascii) code_simp+
  moreover have "\<not> has_control (''certification-schedule/'' @ uuid)" using assms(2) by (auto simp: has_control_def)
  ultimately show "\<not> blank owner" and "\<not> has_control owner"
    using assms(1) by (auto simp: resolveScheduleClaimOwner_def live_registry_def memory_ref_def split: if_splits)
qed

text \<open>What a build has reserved: the books of the sessions it found, and the claims of the schedule on them.\<close>

lemma built_books:
  assumes "BuildSchedule now uuid ctx admission cells options reg = (Inr s, reg')"
    and "so_SessionRegistry options = memory_ref" and "registry_step\<^sup>*\<^sup>* NewMemorySessionRegistry reg" and "\<not> has_control uuid"
    and "\<forall>d r owner. reg d = Some r \<longrightarrow>
      resolveScheduleClaimOwner (so_ClaimOwner options) memory_ref uuid = Inr owner \<longrightarrow> sr_ClaimOwner r \<noteq> owner"
  obtains owner found where "memory_release.claim_books reg owner found reg'" "sd_ReuseClaims s = reusableSessionClaims found"
    "records_valid reg" "\<not> blank owner" "\<not> has_control owner"
proof -
  from BuildSchedule_Inr[OF assms(1)] obtain owner capacity completed found where
    prep: "prepare_schedule now uuid admission cells options = Inr (owner, capacity, completed)"
    and find: "findReusableScheduleSessions ctx cells completed memory_ref owner reg = (None, found, reg')"
    and plan: "plan_schedule cells options capacity completed found = Inr s" unfolding assms(2) by metis
  have valid: "records_valid reg" by (rule registry_steps_valid[OF assms(3) new_registry_valid])
  have owner: "resolveScheduleClaimOwner (so_ClaimOwner options) memory_ref uuid = Inr owner"
    using prepare_schedule_Inr(3)[OF prep] assms(2) by simp
  have "memory_release.claim_books reg owner found reg'"
    by (rule memory_find_books[OF find valid _ validateScheduleCells_None(1)[OF prepare_schedule_Inr(2)[OF prep]]])
      (use assms(5) owner in blast)
  moreover have "sd_ReuseClaims s = reusableSessionClaims found" using plan_schedule_Inr[OF plan] by metis
  ultimately show ?thesis using that valid memory_owner_ok[OF owner assms(4)] by blast
qed

lemma built_claims_restore:
  assumes "BuildSchedule now uuid ctx admission cells options reg = (Inr s, reg')"
    and "so_SessionRegistry options = memory_ref" and "registry_step\<^sup>*\<^sup>* NewMemorySessionRegistry reg" and "\<not> has_control uuid"
    and "\<forall>d r owner. reg d = Some r \<longrightarrow>
      resolveScheduleClaimOwner (so_ClaimOwner options) memory_ref uuid = Inr owner \<longrightarrow> sr_ClaimOwner r \<noteq> owner"
    and "\<forall>d r. reg d = Some r \<longrightarrow> \<not> blank (sr_SessionID r)"
  shows "ReleaseScheduleClaims (Some (\<lambda>_. None)) memory_ref (sd_ReuseClaims s) reg' = ([], reg)"
proof -
  from built_books[OF assms(1-5)] obtain owner found where b: "memory_release.claim_books reg owner found reg'"
    "sd_ReuseClaims s = reusableSessionClaims found" "records_valid reg" "\<not> blank owner" "\<not> has_control owner" .
  from memory_release_claims[OF b(1,3-5)] b(2) assms(6) show ?thesis by auto
qed

text \<open>The totals are the exact sums.\<close>

definition estimate_total :: "(ExecutionEstimate \<Rightarrow> int) \<Rightarrow> ExecutionUnit list \<Rightarrow> int" where
  "estimate_total dim us = sum_list (map (dim \<circ> eu_Estimate) us)"

lemma add_unit_totals:
  assumes "add_unit u s = Inr s'" and "\<And>dim. dim \<in> {ee_CloudOperationSeconds, ee_ResourceLifetimeSeconds, ee_EstimatedCostCents, ee_CleanupLatencySeconds} \<Longrightarrow> dim (eu_Estimate u) \<le> MaxInt64"
    and "sd_CloudOperationSeconds s \<in> {0..MaxInt64}" "sd_ResourceLifetimeSeconds s \<in> {0..MaxInt64}"
      "sd_EstimatedCostCents s \<in> {0..MaxInt64}" "sd_CleanupLatencySeconds s \<in> {0..MaxInt64}"
  shows "sd_CloudOperationSeconds s' = sd_CloudOperationSeconds s + ee_CloudOperationSeconds (eu_Estimate u) \<and>
    sd_ResourceLifetimeSeconds s' = sd_ResourceLifetimeSeconds s + ee_ResourceLifetimeSeconds (eu_Estimate u) \<and>
    sd_EstimatedCostCents s' = sd_EstimatedCostCents s + ee_EstimatedCostCents (eu_Estimate u) \<and>
    sd_CleanupLatencySeconds s' = sd_CleanupLatencySeconds s + ee_CleanupLatencySeconds (eu_Estimate u) \<and>
    sd_CloudOperationSeconds s' \<in> {0..MaxInt64} \<and> sd_ResourceLifetimeSeconds s' \<in> {0..MaxInt64} \<and>
    sd_EstimatedCostCents s' \<in> {0..MaxInt64} \<and> sd_CleanupLatencySeconds s' \<in> {0..MaxInt64} \<and>
    sd_CostKnown s' = (sd_CostKnown s \<and> ee_CostKnown (eu_Estimate u))"
proof -
  from assms(1) have e: "addScheduleEstimate (sd_CloudOperationSeconds s) (ee_CloudOperationSeconds (eu_Estimate u)) ''cloud operation time'' = Inr (sd_CloudOperationSeconds s')"
    "addScheduleEstimate (sd_ResourceLifetimeSeconds s) (ee_ResourceLifetimeSeconds (eu_Estimate u)) ''resource lifetime'' = Inr (sd_ResourceLifetimeSeconds s')"
    "addScheduleEstimate (sd_EstimatedCostCents s) (ee_EstimatedCostCents (eu_Estimate u)) ''estimated cost'' = Inr (sd_EstimatedCostCents s')"
    "addScheduleEstimate (sd_CleanupLatencySeconds s) (ee_CleanupLatencySeconds (eu_Estimate u)) ''cleanup latency'' = Inr (sd_CleanupLatencySeconds s')"
    "sd_CostKnown s' = (sd_CostKnown s \<and> ee_CostKnown (eu_Estimate u))"
    by (auto simp: add_unit_def split: sum.splits)
  with assms(2-) show ?thesis by (simp add: addScheduleEstimate_exact)
qed

definition int64_estimates :: "ExecutionUnit list \<Rightarrow> bool" where
  "int64_estimates us \<longleftrightarrow> (\<forall>u \<in> set us. ee_CloudOperationSeconds (eu_Estimate u) \<le> MaxInt64 \<and>
     ee_ResourceLifetimeSeconds (eu_Estimate u) \<le> MaxInt64 \<and> ee_EstimatedCostCents (eu_Estimate u) \<le> MaxInt64 \<and>
     ee_CleanupLatencySeconds (eu_Estimate u) \<le> MaxInt64)"

lemma add_units_totals:
  assumes "add_units us s = Inr s'" and "int64_estimates us"
    and "sd_CloudOperationSeconds s \<in> {0..MaxInt64}" "sd_ResourceLifetimeSeconds s \<in> {0..MaxInt64}"
      "sd_EstimatedCostCents s \<in> {0..MaxInt64}" "sd_CleanupLatencySeconds s \<in> {0..MaxInt64}"
  shows "sd_CloudOperationSeconds s' = sd_CloudOperationSeconds s + estimate_total ee_CloudOperationSeconds us \<and>
    sd_ResourceLifetimeSeconds s' = sd_ResourceLifetimeSeconds s + estimate_total ee_ResourceLifetimeSeconds us \<and>
    sd_EstimatedCostCents s' = sd_EstimatedCostCents s + estimate_total ee_EstimatedCostCents us \<and>
    sd_CleanupLatencySeconds s' = sd_CleanupLatencySeconds s + estimate_total ee_CleanupLatencySeconds us \<and>
    sd_CostKnown s' = (sd_CostKnown s \<and> (\<forall>u \<in> set us. ee_CostKnown (eu_Estimate u)))"
  using assms
proof (induction us arbitrary: s)
  case Nil
  then show ?case by (simp add: estimate_total_def)
next
  case (Cons u us)
  from Cons.prems(1) obtain s1 where s1: "add_unit u s = Inr s1" "add_units us s1 = Inr s'" by (auto split: sum.splits)
  have i: "int64_estimates us" using Cons.prems(2) by (simp add: int64_estimates_def)
  have t: "sd_CloudOperationSeconds s1 = sd_CloudOperationSeconds s + ee_CloudOperationSeconds (eu_Estimate u) \<and>
    sd_ResourceLifetimeSeconds s1 = sd_ResourceLifetimeSeconds s + ee_ResourceLifetimeSeconds (eu_Estimate u) \<and>
    sd_EstimatedCostCents s1 = sd_EstimatedCostCents s + ee_EstimatedCostCents (eu_Estimate u) \<and>
    sd_CleanupLatencySeconds s1 = sd_CleanupLatencySeconds s + ee_CleanupLatencySeconds (eu_Estimate u) \<and>
    sd_CloudOperationSeconds s1 \<in> {0..MaxInt64} \<and> sd_ResourceLifetimeSeconds s1 \<in> {0..MaxInt64} \<and>
    sd_EstimatedCostCents s1 \<in> {0..MaxInt64} \<and> sd_CleanupLatencySeconds s1 \<in> {0..MaxInt64} \<and>
    sd_CostKnown s1 = (sd_CostKnown s \<and> ee_CostKnown (eu_Estimate u))"
    by (rule add_unit_totals[OF s1(1)]) (use Cons.prems in \<open>auto simp: int64_estimates_def\<close>)
  from Cons.IH[OF s1(2) i] t show ?case by (auto simp: estimate_total_def)
qed

section \<open>A plan of three cells, and one that reuses a session\<close>

definition ex_options :: "'reg registry_ref \<Rightarrow> int \<Rightarrow> 'reg SchedulerOptions" where
  "ex_options registry limit = \<lparr>so_MaxParallel = 2, so_QuotaByKey = Map.empty, so_SessionRegistry = registry, so_ClaimOwner = ''run-1'',
     so_Admission = None, so_HasProbe = False, so_HasSnapshot = False, so_Checkpoints = [], so_PendingDeletions = [],
     so_Budget = \<lparr>bu_MaxCloudOperationSeconds = limit, bu_MaxResourceLifetimeSeconds = 0, bu_MaxEstimatedCostCents = 0,
       bu_MaxCleanupLatencySeconds = 0, bu_RequireCostEstimate = False\<rparr>\<rparr>"

lemma distinct_no_collision:
  assumes "distinct (map unit_id cells)"
  shows "no_hash_collision cells"
proof -
  have "c = d" if "c \<in> set cells" "d \<in> set cells" "unit_id c = unit_id d" for c d
    using assms that by (auto simp: distinct_map dest: inj_onD)
  then show ?thesis by (auto simp: no_hash_collision_def)
qed

lemma ex_prepared:
  assumes "validateScheduleCells cells = None" and "0 \<le> limit" and "\<forall>c \<in> set cells. \<not> non_runnable (sc_Status c)"
  shows "prepare_schedule now uuid admission cells (ex_options registry limit) = Inr (''run-1'', None, [])"
proof -
  have owner: "\<not> blank ''run-1''" "\<not> has_control ''run-1''" by code_simp+
  have "depends_on_non_runnable cells [] = None" using assms(3)
    by (auto simp: depends_on_non_runnable_def first_err_None_iff findScheduleCell_def dest: find_SomeD split: option.splits)
  then have "first_err [depends_on_non_runnable cells [], rejectPendingDeletionReuse cells [] []] = None"
    by (simp add: rejectPendingDeletionReuse_def)
  with owner assms show ?thesis
    by (simp add: prepare_schedule_def ex_options_def validateCertificationBudget_def local_capacity_def
        resolveScheduleClaimOwner_def admission_checks_def validateCheckpoints_def validatePendingDeletions_def
        completed_cells_def Let_def)
qed

definition ex_estimate :: ExecutionEstimate where
  "ex_estimate = \<lparr>ee_CloudOperationSeconds = 60, ee_ResourceLifetimeSeconds = 600, ee_EstimatedCostCents = 25,
     ee_CleanupLatencySeconds = 30, ee_CostKnown = True\<rparr>"

definition ex_schedule :: Schedule where
  "ex_schedule = projr (plan_schedule ex_cells (ex_options (None :: unit registry_ref) 1000) None [] [])"

definition schedule_shape :: "Schedule \<Rightarrow> string list list \<times> (string \<times> string list \<times> ExecutionEstimate) list \<times> string list" where
  "schedule_shape s = (sd_Batches s, map (\<lambda>u. (eu_ID u, eu_CellIDs u, eu_Estimate u)) (sd_Units s), sd_CompletedCellIDs s)"

lemma ex_planned:
  "map_sum (\<lambda>_. ()) schedule_shape (plan_schedule ex_cells (ex_options (None :: unit registry_ref) 1000) None [] []) = Inr
     ([[''unit-0a160f6f4f38d97f''], [''transition-387303e6016ea775'', ''unit-9a64d1a4a0d0e644'']],
      [(''transition-387303e6016ea775'', [''w''], ex_estimate), (''unit-0a160f6f4f38d97f'', [''a''], ex_estimate),
       (''unit-9a64d1a4a0d0e644'', [''b''], ex_estimate)], [])"
  by code_simp

lemma ex_plan: "plan_schedule ex_cells (ex_options (None :: unit registry_ref) 1000) None [] [] = Inr ex_schedule"
  using ex_planned by (cases "plan_schedule ex_cells (ex_options (None :: unit registry_ref) 1000) None [] []") (simp_all add: ex_schedule_def)

lemma ex_schedule_shape:
  "schedule_shape ex_schedule =
     ([[''unit-0a160f6f4f38d97f''], [''transition-387303e6016ea775'', ''unit-9a64d1a4a0d0e644'']],
      [(''transition-387303e6016ea775'', [''w''], ex_estimate), (''unit-0a160f6f4f38d97f'', [''a''], ex_estimate),
       (''unit-9a64d1a4a0d0e644'', [''b''], ex_estimate)], [])"
  using ex_planned unfolding ex_plan by simp

lemma ex_built: "BuildSchedule ex_now [] (\<lambda>_. None) (Inl []) ex_cells (ex_options None 1000) () = (Inr ex_schedule, ())"
proof -
  have "\<forall>c \<in> set ex_cells. \<not> non_runnable (sc_Status c)" by code_simp
  moreover have "so_SessionRegistry (ex_options (None :: unit registry_ref) 1000) = None" by (simp add: ex_options_def)
  ultimately show ?thesis by (simp add: BuildSchedule_def ex_plan ex_prepared[OF ex_cells_checked] findReusableScheduleSessions_def)
qed

lemma ex_no_collision: "no_hash_collision ex_cells" by (rule distinct_no_collision) code_simp

lemma ex_reuse_checked: "validateScheduleCells [ex_reuse_cell] = None"
proof -
  have "cell_reuse ex_reuse_cell = None"
    by (simp add: cell_reuse_def ex_reuse_cell_def ex_fingerprint_valid ex_fingerprint_digest)
  moreover have "ValidateSecretSafeValue (ScheduleCell_json ex_reuse_cell)" by code_simp
  moreover have "\<not> blank (sc_ID ex_reuse_cell)" "\<not> blank (sc_WarmBoundary ex_reuse_cell)" "\<not> blank (sc_OwnershipMarker ex_reuse_cell)"
    "full_match fingerprintPattern (sc_Fingerprint ex_reuse_cell)" "validateExecutionEstimate (sc_Estimate ex_reuse_cell) = None"
    "hasDuplicate (sc_MutationKeys ex_reuse_cell) = False" "cell_status_known (sc_Status ex_reuse_cell)" by code_simp+
  ultimately have "check_cell [] [] ex_reuse_cell = None"
    by (simp add: check_cell_def cell_coverage_def) (simp add: ex_reuse_cell_def)
  moreover have "first_err [check_links [ex_reuse_cell] [ex_reuse_cell], check_ownership [ex_reuse_cell],
      scheduleDependencyCycle [ex_reuse_cell]] = None" by code_simp
  ultimately show ?thesis by (simp add: validateScheduleCells_def)
qed

lemma ex_reuse_runnable: "\<forall>c \<in> set [ex_reuse_cell]. \<not> non_runnable (sc_Status c)" by code_simp

lemma ex_reuse_claims:
  "reusableSessionClaims [(''a'', ex_claimed)] = [\<lparr>cm_Fingerprint = ex_fingerprint, cm_Owner = ''run-1'', cm_SessionID = ''s1''\<rparr>]"
  by (simp add: reusableSessionClaims_def ex_claimed_def ex_session_def ex_fingerprint_digest)

lemma ex_reuse_found:
  "findReusableScheduleSessions (\<lambda>_. None) [ex_reuse_cell] [] (so_SessionRegistry (ex_options memory_ref limit)) ''run-1'' ex_registry =
     (None, [(''a'', ex_claimed)], ex_registry(ex_digest \<mapsto> ex_claimed))"
  using ex_found by (simp add: ex_options_def)

definition ex_unit :: ExecutionUnit where
  "ex_unit = \<lparr>eu_ID = ''unit-3ed310cec93c612d'', eu_CellIDs = [''a''], eu_BaselineCellID = ''a'', eu_Fingerprint = ex_digest,
     eu_WarmBoundary = ''eks'', eu_WarmTransition = [], eu_Coverage = None, eu_OwnershipMarker = ''o'', eu_Cold = True,
     eu_MigrationOwner = False, eu_DependsOn = [], eu_MutationKeys = [''stack-a''],
     eu_Estimate = ex_estimate, eu_Required = True, eu_ReuseSessionID = [], eu_ReuseFingerprint = Some ex_fingerprint\<rparr>"

lemma ex_reuse_units: "makeExecutionUnits [ex_reuse_cell] [] = ([ex_unit], [(''a'', ''unit-3ed310cec93c612d'')])"
  by code_simp

lemma ex_reuse_applied:
  "applyReusableSessions [ex_unit] [ex_reuse_cell] [(''a'', ex_claimed)] = Inr [ex_unit\<lparr>eu_ReuseSessionID := ''s1'', eu_Cold := False\<rparr>]"
  by (simp add: applyReusableSessions_def apply_session_def unit_session.simps cell_by_id_def ex_unit_def ex_claimed_def ex_session_def
      ex_reuse_cell_def ex_fingerprint_digest)

lemma ex_reuse_linked:
  "addUnitDependencies [ex_unit\<lparr>eu_ReuseSessionID := ''s1'', eu_Cold := False\<rparr>] [(''a'', ''unit-3ed310cec93c612d'')] [ex_reuse_cell] [] =
     Inr [ex_unit\<lparr>eu_ReuseSessionID := ''s1'', eu_Cold := False\<rparr>]" by code_simp

lemma ex_reuse_planned:
  "isl (plan_schedule [ex_reuse_cell] (ex_options memory_ref 1) None [] [(''a'', ex_claimed)])"
  "isl (plan_schedule [ex_reuse_cell] (ex_options memory_ref 1000) None [] [(''a'', ex_claimed)]) = False"
  by (simp_all only: plan_schedule_def ex_reuse_claims ex_reuse_units ex_reuse_applied ex_reuse_linked prod.case sum.case) code_simp+


lemma ex_reuse_built:
  obtains s where "BuildSchedule ex_now [] (\<lambda>_. None) (Inl []) [ex_reuse_cell] (ex_options memory_ref 1000) ex_registry =
    (Inr s, ex_registry(ex_digest \<mapsto> ex_claimed))"
proof -
  obtain s where "plan_schedule [ex_reuse_cell] (ex_options memory_ref 1000) None [] [(''a'', ex_claimed)] = Inr s"
    using ex_reuse_planned(2) by (cases "plan_schedule [ex_reuse_cell] (ex_options memory_ref 1000) None [] [(''a'', ex_claimed)]") auto
  with that show ?thesis
    by (simp add: BuildSchedule_def ex_prepared[OF ex_reuse_checked _ ex_reuse_runnable] ex_reuse_found)
qed

lemma ex_reuse_failed:
  obtains errors reg' where "BuildSchedule ex_now [] (\<lambda>_. None) (Inl []) [ex_reuse_cell] (ex_options memory_ref 1) ex_registry =
    (Inl errors, reg')"
proof -
  obtain e where e: "plan_schedule [ex_reuse_cell] (ex_options memory_ref 1) None [] [(''a'', ex_claimed)] = Inl e"
    using ex_reuse_planned(1) by (auto simp: isl_def)
  obtain es reg' where "releaseReusableScheduleSessions (so_SessionRegistry (ex_options memory_ref 1)) [(''a'', ex_claimed)]
    (ex_registry(ex_digest \<mapsto> ex_claimed)) = (es, reg')" by force
  with that e show ?thesis
    by (simp add: BuildSchedule_def ex_prepared[OF ex_reuse_checked _ ex_reuse_runnable] ex_reuse_found)
qed

lemma ex_registry_free:
  "registry_step\<^sup>*\<^sup>* NewMemorySessionRegistry ex_registry" "\<not> has_control []" "so_SessionRegistry (ex_options memory_ref limit) = memory_ref"
  "\<forall>d r owner. ex_registry d = Some r \<longrightarrow>
     resolveScheduleClaimOwner (so_ClaimOwner (ex_options memory_ref limit)) memory_ref [] = Inr owner \<longrightarrow> sr_ClaimOwner r \<noteq> owner"
  "\<forall>d r. ex_registry d = Some r \<longrightarrow> \<not> blank (sr_SessionID r)"
proof -
  show "registry_step\<^sup>*\<^sup>* NewMemorySessionRegistry ex_registry" using registry_step.put[OF ex_registry_put] by auto
  have "\<not> blank (sr_SessionID ex_session)" by code_simp
  then show "\<forall>d r. ex_registry d = Some r \<longrightarrow> \<not> blank (sr_SessionID r)"
    by (simp add: ex_registry_def NewMemorySessionRegistry_def)
qed (auto simp: has_control_def ex_options_def resolveScheduleClaimOwner_def ex_registry_def NewMemorySessionRegistry_def
    ex_session_def split: if_splits)

section \<open>Properties\<close>

text \<open>
  C13. A schedule leaves no cell out and runs none twice: every cell that can run and is not completed belongs to
  exactly one execution unit, whose mutation keys include its own, no other cell is in a unit, and every unit stands
  in exactly one batch. The hypothesis is that the short hashes tell the units of the run apart.
\<close>

theorem built_schedule_covers_cells:
  assumes "BuildSchedule now uuid ctx admission cells options reg = (Inr s, reg')" and "no_hash_collision cells"
  shows "(\<forall>c \<in> set cells. pending_cell (sd_CompletedCellIDs s) c \<longrightarrow>
      (\<exists>!u. u \<in> set (sd_Units s) \<and> sc_ID c \<in> set (eu_CellIDs u)) \<and>
      (\<forall>u \<in> set (sd_Units s). sc_ID c \<in> set (eu_CellIDs u) \<longrightarrow> set (sc_MutationKeys c) \<subseteq> set (eu_MutationKeys u))) \<and>
    (\<forall>u \<in> set (sd_Units s). \<forall>i \<in> set (eu_CellIDs u). \<exists>c \<in> set cells. sc_ID c = i \<and> pending_cell (sd_CompletedCellIDs s) c) \<and>
    distinct (concat (sd_Batches s)) \<and> set (concat (sd_Batches s)) = eu_ID ` set (sd_Units s)"
proof -
  let ?ps = "filter (pending_cell (sd_CompletedCellIDs s)) cells"
  note b = built_plan[OF assms]
  from b(1) have ok: "units_ok ?ps (sd_Units s)" by (simp add: plan_ok_def)
  then have d: "distinct (map eu_ID (sd_Units s))" and ids: "eu_ID ` set (sd_Units s) = unit_id ` set ?ps"
    by (simp_all add: units_ok_def)
  have mem: "sc_ID c \<in> set (eu_CellIDs u) \<longleftrightarrow> unit_id c = eu_ID u" if "c \<in> set ?ps" "u \<in> set (sd_Units s)" for c u
  proof -
    have "set (eu_CellIDs u) = sc_ID ` {c \<in> set ?ps. unit_id c = eu_ID u}" using ok that(2) by (simp add: units_ok_def)
    moreover have "e = c" if "e \<in> set ?ps" "sc_ID e = sc_ID c" for e
      using b(4) that \<open>c \<in> set ?ps\<close> by (auto simp: distinct_map dest: inj_onD)
    ultimately show ?thesis using that(1) by auto
  qed
  have one: "\<exists>!u. u \<in> set (sd_Units s) \<and> sc_ID c \<in> set (eu_CellIDs u)" if c: "c \<in> set ?ps" for c
  proof -
    have "unit_id c \<in> eu_ID ` set (sd_Units s)" using ids c by simp
    then obtain u where u: "u \<in> set (sd_Units s)" "eu_ID u = unit_id c" by auto
    show ?thesis
    proof (rule ex1I[of _ u])
      show "u \<in> set (sd_Units s) \<and> sc_ID c \<in> set (eu_CellIDs u)" using u mem[OF c] by simp
    next
      fix v assume "v \<in> set (sd_Units s) \<and> sc_ID c \<in> set (eu_CellIDs v)"
      with mem[OF c] u d show "v = u" by (auto simp: distinct_map dest: inj_onD)
    qed
  qed
  have keys: "set (sc_MutationKeys c) \<subseteq> set (eu_MutationKeys u)"
    if "c \<in> set ?ps" "u \<in> set (sd_Units s)" "sc_ID c \<in> set (eu_CellIDs u)" for c u
    using ok that mem[OF that(1,2)] by (simp add: units_ok_def)
  have inside: "\<exists>c \<in> set cells. sc_ID c = i \<and> pending_cell (sd_CompletedCellIDs s) c"
    if "u \<in> set (sd_Units s)" "i \<in> set (eu_CellIDs u)" for u i
    using ok that by (auto simp: units_ok_def)
  have "0 \<le> so_MaxParallel options" using b(3) by simp
  from batches_ok_cover[OF makeBatches_ok[OF b(2) d this]] one keys inside show ?thesis by auto
qed

theorem built_schedule_covers_cells_witness:
  "\<exists>u \<in> set (sd_Units ex_schedule). ''w'' \<in> set (eu_CellIDs u)"
proof -
  have c: "ex_cells ! 2 \<in> set ex_cells" "sc_ID (ex_cells ! 2) = ''w''" "pending_cell [] (ex_cells ! 2)" by code_simp+
  have "sd_CompletedCellIDs ex_schedule = []" using ex_schedule_shape by (simp add: schedule_shape_def)
  with built_schedule_covers_cells[OF ex_built ex_no_collision] c show ?thesis by metis
qed

text \<open>
  C14. No cell starts before what it needs: when the unit of a cell stands in a batch, each of its dependencies, and
  the baseline it warms from, is completed, or belongs to the same unit, or belongs to a unit of an earlier batch.
  The hypothesis is again that the short hashes tell the units of the run apart.
\<close>

theorem built_schedule_orders_cells:
  assumes "BuildSchedule now uuid ctx admission cells options reg = (Inr s, reg')" and "no_hash_collision cells"
    and "sd_Batches s = earlier @ batch # later" and "u \<in> set (sd_Units s)" and "eu_ID u \<in> set batch"
    and "c \<in> set cells" and "sc_ID c \<in> set (eu_CellIDs u)"
    and "d \<in> set (sc_Dependencies c) \<or> d = sc_WarmFrom c \<and> d \<noteq> []"
  shows "d \<in> set (sd_CompletedCellIDs s) \<or> d \<in> set (eu_CellIDs u) \<or>
    (\<exists>v \<in> set (sd_Units s). d \<in> set (eu_CellIDs v) \<and> eu_ID v \<in> set (concat earlier))"
proof -
  let ?ps = "filter (pending_cell (sd_CompletedCellIDs s)) cells"
  note b = built_plan[OF assms(1,2)]
  from b(1) have ok: "units_ok ?ps (sd_Units s)" by (simp add: plan_ok_def)
  then have dist: "distinct (map eu_ID (sd_Units s))" by (simp add: units_ok_def)
  have c: "c \<in> set ?ps" "unit_id c = eu_ID u"
  proof -
    from ok assms(4,7) obtain e where e: "e \<in> set ?ps" "unit_id e = eu_ID u" "sc_ID e = sc_ID c" by (auto simp: units_ok_def)
    then have "e = c" using b(4) assms(6) by (auto simp: distinct_map dest: inj_onD)
    with e show "c \<in> set ?ps" "unit_id c = eu_ID u" by auto
  qed
  show ?thesis
  proof (cases "d \<in> set (sd_CompletedCellIDs s)")
    case False
    with b(1) c(1) assms(8) obtain e where e: "e \<in> set ?ps" "sc_ID e = d" "planned_after (sd_Units s) c e"
      unfolding plan_ok_def by blast
    have "unit_id e \<in> eu_ID ` set (sd_Units s)" using ok e(1) by (simp add: units_ok_def)
    then obtain v where v: "v \<in> set (sd_Units s)" "eu_ID v = unit_id e" by auto
    with ok e(1,2) have dv: "d \<in> set (eu_CellIDs v)" by (auto simp: units_ok_def)
    from e(3) consider "unit_id e = unit_id c" | "unit_id e \<in> set (eu_DependsOn u)"
      using assms(4) c(2) by (auto simp: planned_after_def)
    then show ?thesis
    proof cases
      case 1
      with v c(2) dist assms(4) have "v = u" by (auto simp: distinct_map dest: inj_onD)
      with dv show ?thesis by simp
    next
      case 2
      have "0 \<le> so_MaxParallel options" using b(3) by simp
      from batches_ok_dependencies[OF makeBatches_ok[OF b(2)[unfolded assms(3)] dist this] assms(4,5) dist] 2
      have "eu_ID v \<in> set (concat earlier)" unfolding v(2) by auto
      with v(1) dv show ?thesis by blast
    qed
  qed simp
qed

theorem built_schedule_orders_cells_witness:
  "\<exists>v \<in> set (sd_Units ex_schedule). ''a'' \<in> set (eu_CellIDs v) \<and> eu_ID v = ''unit-0a160f6f4f38d97f''"
proof -
  have c: "ex_cells ! 0 \<in> set ex_cells" "sc_ID (ex_cells ! 0) = ''b''" "sc_Dependencies (ex_cells ! 0) = [''a'']" by code_simp+
  have s: "sd_CompletedCellIDs ex_schedule = []"
    "sd_Batches ex_schedule = [[''unit-0a160f6f4f38d97f'']] @ [''transition-387303e6016ea775'', ''unit-9a64d1a4a0d0e644''] # []"
    "map (\<lambda>u. (eu_ID u, eu_CellIDs u, eu_Estimate u)) (sd_Units ex_schedule) =
       [(''transition-387303e6016ea775'', [''w''], ex_estimate), (''unit-0a160f6f4f38d97f'', [''a''], ex_estimate),
        (''unit-9a64d1a4a0d0e644'', [''b''], ex_estimate)]"
    using ex_schedule_shape by (simp_all add: schedule_shape_def)
  have "(''unit-9a64d1a4a0d0e644'', [''b''], ex_estimate) \<in> set (map (\<lambda>u. (eu_ID u, eu_CellIDs u, eu_Estimate u)) (sd_Units ex_schedule))"
    unfolding s(3) by simp
  then obtain u where u: "u \<in> set (sd_Units ex_schedule)" "eu_ID u = ''unit-9a64d1a4a0d0e644''" "eu_CellIDs u = [''b'']" by auto
  from built_schedule_orders_cells[OF ex_built ex_no_collision s(2) u(1) _ c(1), of "''a''"] u c s(1) show ?thesis by auto
qed

text \<open>
  The totals of a schedule are the exact sums of the estimates of its units, without overflow, and they stay
  within every limit of the budget; a spending limit is only accepted when every unit has a known cost.
\<close>

lemma built_schedule_within_budget:
  assumes "BuildSchedule now uuid ctx admission cells options reg = (Inr s, reg')" and "int64_estimates (sd_Units s)"
  shows "sd_CloudOperationSeconds s = estimate_total ee_CloudOperationSeconds (sd_Units s) \<and>
    sd_EstimatedCostCents s = estimate_total ee_EstimatedCostCents (sd_Units s) \<and>
    (0 < bu_MaxCloudOperationSeconds (so_Budget options) \<longrightarrow> sd_CloudOperationSeconds s \<le> bu_MaxCloudOperationSeconds (so_Budget options)) \<and>
    (0 < bu_MaxResourceLifetimeSeconds (so_Budget options) \<longrightarrow>
       estimate_total ee_ResourceLifetimeSeconds (sd_Units s) \<le> bu_MaxResourceLifetimeSeconds (so_Budget options)) \<and>
    (0 < bu_MaxCleanupLatencySeconds (so_Budget options) \<longrightarrow>
       estimate_total ee_CleanupLatencySeconds (sd_Units s) \<le> bu_MaxCleanupLatencySeconds (so_Budget options)) \<and>
    (0 < bu_MaxEstimatedCostCents (so_Budget options) \<longrightarrow>
       sd_EstimatedCostCents s \<le> bu_MaxEstimatedCostCents (so_Budget options) \<and> (\<forall>u \<in> set (sd_Units s). ee_CostKnown (eu_Estimate u)))"
proof -
  from BuildSchedule_Inr[OF assms(1)] obtain capacity completed found where
    plan: "plan_schedule cells options capacity completed found = Inr s" by metis
  from plan_schedule_Inr[OF plan] obtain deferred where
    add: "add_units (sd_Units s) (start_schedule (sd_Units s) (sd_Batches s) capacity (sd_ReuseClaims s) completed deferred) = Inr s"
    and budget: "enforceCertificationBudget s (so_Budget options) = None" by metis
  have zero: "sd_CloudOperationSeconds (start_schedule us bs cp cl cmpl df) = 0" "sd_ResourceLifetimeSeconds (start_schedule us bs cp cl cmpl df) = 0"
    "sd_EstimatedCostCents (start_schedule us bs cp cl cmpl df) = 0" "sd_CleanupLatencySeconds (start_schedule us bs cp cl cmpl df) = 0"
    for us bs cp cl cmpl df by (simp_all add: start_schedule_def)
  have "(0 :: int) \<in> {0..MaxInt64}" by (simp add: MaxInt64_def)
  from add_units_totals[OF add assms(2), unfolded zero, OF this this this this] budget show ?thesis
    by (auto simp: enforceCertificationBudget_def split: if_splits)
qed

text \<open>
  C15. A build on the in-memory registry, in any state its operations lead to, that fails keeps no session, provided
  no record of the registry names the owner of the build yet (a resumed run with a stored owner is not covered):
  whatever goes wrong, before or after sessions were reserved, the registry is left exactly as it was, and no release
  error is added to the reason.
\<close>

theorem failed_build_keeps_no_session:
  assumes "BuildSchedule now uuid ctx admission cells options reg = (Inl errors, reg')"
    and "so_SessionRegistry options = memory_ref" and "registry_step\<^sup>*\<^sup>* NewMemorySessionRegistry reg" and "\<not> has_control uuid"
    and "\<forall>d r owner. reg d = Some r \<longrightarrow>
      resolveScheduleClaimOwner (so_ClaimOwner options) memory_ref uuid = Inr owner \<longrightarrow> sr_ClaimOwner r \<noteq> owner"
  shows "reg' = reg \<and> (\<exists>e. errors = [e])"
proof (cases "prepare_schedule now uuid admission cells options")
  case (Inl e)
  with assms(1) show ?thesis by (auto simp: BuildSchedule_def)
next
  case (Inr p)
  obtain owner capacity completed where p: "p = (owner, capacity, completed)" by (cases p)
  note prep = Inr[unfolded p]
  have valid: "records_valid reg" by (rule registry_steps_valid[OF assms(3) new_registry_valid])
  have owner: "resolveScheduleClaimOwner (so_ClaimOwner options) memory_ref uuid = Inr owner"
    using prepare_schedule_Inr(3)[OF prep] assms(2) by simp
  obtain outcome found reg1 where f: "findReusableScheduleSessions ctx cells completed memory_ref owner reg = (outcome, found, reg1)"
    by (metis prod_cases3)
  have "memory_release.claim_books reg owner found reg1"
    by (rule memory_find_books[OF f valid _ validateScheduleCells_None(1)[OF prepare_schedule_Inr(2)[OF prep]]])
      (use assms(5) owner in blast)
  from memory_release_found[OF this valid memory_owner_ok[OF owner assms(4)]] assms(1) prep f assms(2)
  show ?thesis by (auto simp: BuildSchedule_def split: sum.splits option.splits)
qed

theorem failed_build_keeps_no_session_witness:
  "snd (BuildSchedule ex_now [] (\<lambda>_. None) (Inl []) [ex_reuse_cell] (ex_options memory_ref 1) ex_registry) = ex_registry"
proof -
  obtain errors reg' where b: "BuildSchedule ex_now [] (\<lambda>_. None) (Inl []) [ex_reuse_cell] (ex_options memory_ref 1) ex_registry =
    (Inl errors, reg')" by (rule ex_reuse_failed)
  from failed_build_keeps_no_session[OF b ex_registry_free(3,1,2,4)] b show ?thesis by simp
qed

text \<open>
  The sessions of a schedule that was built are held by the claims it carries and by nothing else: releasing
  those claims gives the registry back exactly as it was before the build.
\<close>

lemma built_claims_release_round_trip:
  assumes "BuildSchedule now uuid ctx admission cells options reg = (Inr s, reg')"
    and "so_SessionRegistry options = memory_ref" and "registry_step\<^sup>*\<^sup>* NewMemorySessionRegistry reg" and "\<not> has_control uuid"
    and "\<forall>d r owner. reg d = Some r \<longrightarrow>
      resolveScheduleClaimOwner (so_ClaimOwner options) memory_ref uuid = Inr owner \<longrightarrow> sr_ClaimOwner r \<noteq> owner"
    and "\<forall>d r. reg d = Some r \<longrightarrow> \<not> blank (sr_SessionID r)"
  shows "ReleaseScheduleClaims (Some (\<lambda>_. None)) memory_ref (sd_ReuseClaims s) reg' = ([], reg)"
  by (rule built_claims_restore[OF assms])

end
