(* ===== verification/Go_Interleave.thy ===== *)
theory Go_Interleave
  imports Go_Prelude
begin

text \<open>
  Goroutines that run side by side: the events of each come in its own order, and the runtime chooses whose event is
  next. \<open>interleave\<close> computes the run for a list of choices; what the choices leave over runs in order. Every
  interleaving is the run of some list of choices.
\<close>

fun interleave :: "nat list \<Rightarrow> 'e list list \<Rightarrow> 'e list" where
  "interleave [] traces = concat traces"
| "interleave (p # picks) traces =
     (if p < length traces \<and> traces ! p \<noteq> []
      then hd (traces ! p) # interleave picks (traces[p := tl (traces ! p)])
      else interleave picks traces)"

inductive interleaving :: "'e list list \<Rightarrow> 'e list \<Rightarrow> bool" where
  ended: "\<forall>t \<in> set traces. t = [] \<Longrightarrow> interleaving traces []"
| moves: "p < length traces \<Longrightarrow> traces ! p = e # t \<Longrightarrow> interleaving (traces[p := t]) run \<Longrightarrow> interleaving traces (e # run)"

lemma interleaving_Nil: "interleaving traces run \<Longrightarrow> interleaving ([] # traces) run"
proof (induction rule: interleaving.induct)
  case (moves p traces e t run)
  then show ?case by (intro interleaving.moves[of "Suc p"]) auto
qed (simp add: interleaving.ended)

lemma interleaving_concat: "interleaving traces (concat traces)"
proof (induction traces)
  case (Cons t traces)
  then show ?case
  proof (induction t)
    case (Cons e t)
    then show ?case by (auto intro: interleaving.moves[of 0])
  qed (simp add: interleaving_Nil)
qed (simp add: interleaving.ended)

lemma interleave_interleaving: "interleaving traces (interleave picks traces)"
proof (induction picks traces rule: interleave.induct)
  case (2 p picks traces)
  then show ?case by (cases "traces ! p") (auto intro: interleaving.moves)
qed (simp add: interleaving_concat)

lemma concat_empty: "\<forall>t \<in> set traces. t = [] \<Longrightarrow> concat traces = []"
  by simp

theorem interleaving_iff: "interleaving traces run \<longleftrightarrow> (\<exists>picks. interleave picks traces = run)"
proof
  show "interleaving traces run \<Longrightarrow> \<exists>picks. interleave picks traces = run"
  proof (induction rule: interleaving.induct)
    case (ended traces)
    then have "interleave [] traces = []" by simp
    then show ?case by blast
  next
    case (moves p traces e t run)
    then obtain picks where "interleave picks (traces[p := t]) = run" by blast
    with moves.hyps have "interleave (p # picks) traces = e # run" by simp
    then show ?case by blast
  qed
qed (auto intro: interleave_interleaving)

text \<open>Each goroutine's own events are found in the run, in its own order, and there are no others.\<close>

lemma interleaving_own:
  assumes "interleaving traces run" and "i < length traces"
    and "\<And>j e. j < length traces \<Longrightarrow> e \<in> set (traces ! j) \<Longrightarrow> who e = ids ! j"
    and "\<And>j. j < length traces \<Longrightarrow> ids ! j = ids ! i \<Longrightarrow> j = i"
  shows "filter (\<lambda>e. who e = ids ! i) run = traces ! i"
  using assms
proof (induction arbitrary: rule: interleaving.induct)
  case (moves p traces e t run)
  have e: "who e = ids ! p" using moves.prems(2)[of p e] moves.hyps(1,2) by simp
  have own: "who x = ids ! j" if "j < length (traces[p := t])" "x \<in> set (traces[p := t] ! j)" for j x
    using that moves.prems(2)[of j x] moves.hyps(1,2) by (cases "j = p") auto
  have "filter (\<lambda>e. who e = ids ! i) run = traces[p := t] ! i"
    by (rule moves.IH) (use moves.prems(1,3) own in auto)
  with e moves.hyps(1,2) moves.prems(1) moves.prems(3)[of p] show ?case by (cases "p = i") auto
qed (metis filter.simps(1) nth_mem)

lemma interleaving_set: "interleaving traces run \<Longrightarrow> set run = (\<Union>t \<in> set traces. set t)"
proof (induction rule: interleaving.induct)
  case (moves p traces e t run)
  have "set (take p traces @ traces ! p # drop (Suc p) traces) = set traces"
    using moves.hyps(1) by (simp only: id_take_nth_drop[symmetric])
  then have "set traces = set (take p traces) \<union> {e # t} \<union> set (drop (Suc p) traces)" using moves.hyps(2) by auto
  moreover have "set (traces[p := t]) = set (take p traces) \<union> {t} \<union> set (drop (Suc p) traces)"
    using moves.hyps(1) by (simp add: upd_conv_take_nth_drop)
  ultimately show ?case using moves.IH by auto
qed auto

end
