(* ===== verification/Go_Time_Format.thy ===== *)
theory Go_Time_Format
  imports Go_Time Go_Json
begin

text \<open>
  \<^verbatim>\<open>t.Format(time.RFC3339)\<close>: the civil date and the clock of an instant in its zone. A time is the instant in
  nanoseconds since 1970-01-01T00:00:00Z and the offset of its location in seconds.
\<close>

record Time =
  tm_nanos :: int
  tm_offset :: int

definition civil_from_days :: "int \<Rightarrow> int \<times> int \<times> int" where
  "civil_from_days days =
     (let z = days + 719468; era = z div 146097; doe = z mod 146097;
          yoe = (doe - doe div 1460 + doe div 36524 - doe div 146096) div 365;
          doy = doe - (365 * yoe + yoe div 4 - yoe div 100); mp = (5 * doy + 2) div 153;
          m = (if mp < 10 then mp + 3 else mp - 9)
      in (yoe + era * 400 + (if m \<le> 2 then 1 else 0), m, doy - (153 * mp + 2) div 5 + 1))"

definition pad_int :: "nat \<Rightarrow> int \<Rightarrow> string" where
  "pad_int width n = (let ds = decimal \<bar>n\<bar> in (if n < 0 then ''-'' else []) @ replicate (width - length ds) CHR ''0'' @ ds)"

definition format_zone :: "int \<Rightarrow> string" where
  "format_zone offset =
     (if offset = 0 then ''Z''
      else (let minutes = \<bar>offset\<bar> div 60 in
        (if offset < 0 then ''-'' else ''+'') @ pad_int 2 (minutes div 60) @ '':'' @ pad_int 2 (minutes mod 60)))"

definition format_rfc3339 :: "Time \<Rightarrow> string" where
  "format_rfc3339 t =
     (let seconds = tm_nanos t div 1000000000 + tm_offset t; days = seconds div 86400; clock = seconds mod 86400 in
      case civil_from_days days of (y, m, d) \<Rightarrow>
        pad_int 4 y @ ''-'' @ pad_int 2 m @ ''-'' @ pad_int 2 d @ ''T'' @
        pad_int 2 (clock div 3600) @ '':'' @ pad_int 2 (clock mod 3600 div 60) @ '':'' @ pad_int 2 (clock mod 60) @
        format_zone (tm_offset t))"

text \<open>\<^verbatim>\<open>RFC3339Nano\<close> of an instant in UTC: the fraction without its trailing zeros, if there is one.\<close>

definition format_nano :: "int \<Rightarrow> string" where
  "format_nano nanos =
     (let fraction = rev (dropWhile (\<lambda>c. c = CHR ''0'') (rev (pad_int 9 (nanos mod 1000000000))))
      in butlast (format_rfc3339 \<lparr>tm_nanos = nanos, tm_offset = 0\<rparr>) @ (if fraction = [] then [] else CHR ''.'' # fraction) @ ''Z'')"

lemma format_nano_examples:
  "format_nano 1767322800000000000 = ''2026-01-02T03:00:00Z''"
  "format_nano 1767322800120000000 = ''2026-01-02T03:00:00.12Z''"
  by code_simp+

lemma format_examples:
  "format_rfc3339 \<lparr>tm_nanos = 1767322800000000000, tm_offset = 0\<rparr> = ''2026-01-02T03:00:00Z''"
  "format_rfc3339 \<lparr>tm_nanos = 951868799999999999, tm_offset = 19800\<rparr> = ''2000-03-01T05:29:59+05:30''"
  "format_rfc3339 \<lparr>tm_nanos = 0, tm_offset = - 3600\<rparr> = ''1969-12-31T23:00:00-01:00''"
  by code_simp+

text \<open>What is written parses back to the second it was written in.\<close>

lemma format_parses_back:
  "parse_rfc3339 (format_rfc3339 \<lparr>tm_nanos = 1767322800123456789, tm_offset = 0\<rparr>) = Some 1767322800000000000"
  "parse_rfc3339 (format_rfc3339 \<lparr>tm_nanos = 951868799999999999, tm_offset = 19800\<rparr>) = Some 951868799000000000"
  by code_simp+

end
