(* ===== verification/Schedule_Run.thy ===== *)
theory Schedule_Run
  imports Schedule_Build Go_Interleave Go_Time_Format
begin

text \<open>
  The runner of a schedule (\<^verbatim>\<open>internal/certification/scheduler_run.go\<close>). A unit asks each thing of the world once: a
  lease, whether the context is over, whether its first checkpoint was written, what the provider did, whether its
  last checkpoint was written, and whether the lease was given back. The answers are arguments, arbitrary but for
  that. What a unit does is its trace of events; the units of a batch are goroutines whose traces interleave, and the
  next batch starts when all of them have finished.
\<close>

record ScheduleExecutionResult =
  er_StackID :: string
  er_ReuseFingerprint :: "ReuseFingerprint option"
  er_OperationIDs :: "string list"
  er_ResourceRefs :: "string list"
  er_BackupRefs :: "string list"
  er_RestoreRefs :: "string list"
  er_TelemetryRefs :: "string list"
  er_EdgeRefs :: "string list"
  er_ReuseMode :: string
  er_CleanupState :: string
  er_OwnershipMarker :: string

definition no_result :: ScheduleExecutionResult where
  "no_result = \<lparr>er_StackID = [], er_ReuseFingerprint = None, er_OperationIDs = [], er_ResourceRefs = [], er_BackupRefs = [],
     er_RestoreRefs = [], er_TelemetryRefs = [], er_EdgeRefs = [], er_ReuseMode = [], er_CleanupState = [], er_OwnershipMarker = []\<rparr>"

text \<open>The struct has no JSON tags: its fields are written under their Go names, empty ones too.\<close>

definition ScheduleExecutionResult_json :: "ScheduleExecutionResult \<Rightarrow> json" where
  "ScheduleExecutionResult_json r = JObject
     [(''StackID'', JString (er_StackID r)), (''ReuseFingerprint'', or_null ReuseFingerprint_json (er_ReuseFingerprint r)),
      (''OperationIDs'', json_strings (er_OperationIDs r)), (''ResourceRefs'', json_strings (er_ResourceRefs r)),
      (''BackupRefs'', json_strings (er_BackupRefs r)), (''RestoreRefs'', json_strings (er_RestoreRefs r)),
      (''TelemetryRefs'', json_strings (er_TelemetryRefs r)), (''EdgeRefs'', json_strings (er_EdgeRefs r)),
      (''ReuseMode'', JString (er_ReuseMode r)), (''CleanupState'', JString (er_CleanupState r)),
      (''OwnershipMarker'', JString (er_OwnershipMarker r))]"

datatype execution_error =
    ExecutionContextRequired
  | ExecutorRequired
  | CheckpointWriterRequired
  | ClaimReleaseTimeoutNegative
  | CheckpointWriteTimeoutNegative
  | ExecutionReservationRequired
  | ClaimSessionIDInvalid
  | ClaimOwnerInvalid string
  | ClaimFingerprint string registry_error
  | ClaimDuplicate string
  | ExecutionCapacity capacity_error
  | BatchesWithoutUnits
  | UnitIncomplete
  | UnitCoverage string "coverage_error list"
  | UnitFingerprint string registry_error
  | UnitFingerprintDiffers string
  | UnitDuplicateIDs string
  | DuplicateUnit string
  | BatchUnknownUnit string
  | UnitAppearsTwice string
  | BatchKeyOverlap nat string
  | UnitUnknownDependency string string
  | UnitDependencyOrder string string
  | BatchesIncomplete
  | ExecutionContext ctx_error
  | ReserveFailed string capacity_error
  | ReleaseLeaseFailed string capacity_error
  | CheckpointStart string string
  | ExecuteFailed string string
  | CheckpointFailure string string
  | CheckpointPass string string
  | ResultSecretLike string
  | ResultOwnership string string
  | ResultFingerprint string
  | ResultFingerprintDiffers string
  | ResultControl string string
  | ResultReference string string
  | ResultReferenceTwice string string string
  | ResultReuseMode string string
  | ResultCleanupState string string
  | ClaimRelease release_error

section \<open>One unit\<close>

definition executionReuseFingerprint :: "ExecutionUnit \<Rightarrow> ReuseFingerprint option \<Rightarrow> ReuseFingerprint option" where
  "executionReuseFingerprint u result = (case result of Some f \<Rightarrow> Some f | None \<Rightarrow> eu_ReuseFingerprint u)"

definition unitCheckpoints :: "ExecutionUnit \<Rightarrow> string \<Rightarrow> Time \<Rightarrow> ScheduleExecutionResult \<Rightarrow> SchedulerCheckpoint list" where
  "unitCheckpoints u status now execution = map (\<lambda>cellID.
     \<lparr>sk_CellID = cellID, sk_Fingerprint = eu_Fingerprint u,
      sk_ReuseFingerprint = executionReuseFingerprint u (er_ReuseFingerprint execution),
      sk_OwnershipMarker = eu_OwnershipMarker u, sk_Status = status, sk_StackID = er_StackID execution,
      sk_OperationIDs = er_OperationIDs execution, sk_ResourceRefs = er_ResourceRefs execution,
      sk_BackupRefs = er_BackupRefs execution, sk_RestoreRefs = er_RestoreRefs execution,
      sk_TelemetryRefs = er_TelemetryRefs execution, sk_EdgeRefs = er_EdgeRefs execution,
      sk_ReuseMode = er_ReuseMode execution, sk_CleanupState = er_CleanupState execution, sk_UpdatedAt = format_rfc3339 now\<rparr>) (eu_CellIDs u)"

fun check_result_references :: "string \<Rightarrow> string \<Rightarrow> string list \<Rightarrow> string list \<Rightarrow> execution_error option" where
  "check_result_references unitID name seen [] = None"
| "check_result_references unitID name seen (v # vs) =
     (if blank v \<or> has_control v then Some (ResultReference unitID name)
      else if v \<in> set seen then Some (ResultReferenceTwice unitID name v)
      else check_result_references unitID name (v # seen) vs)"

definition result_references :: "ScheduleExecutionResult \<Rightarrow> (string \<times> string list) list" where
  "result_references r =
     [(''operation ID'', er_OperationIDs r), (''resource reference'', er_ResourceRefs r),
      (''backup reference'', er_BackupRefs r), (''restore reference'', er_RestoreRefs r),
      (''telemetry reference'', er_TelemetryRefs r), (''edge reference'', er_EdgeRefs r)]"

definition result_fingerprint :: "ExecutionUnit \<Rightarrow> ScheduleExecutionResult \<Rightarrow> execution_error option" where
  "result_fingerprint u r =
     (case er_ReuseFingerprint r of None \<Rightarrow> None
      | Some f \<Rightarrow> (case ReuseFingerprint_Validate f of Some e \<Rightarrow> Some (ResultFingerprint (eu_ID u))
      | None \<Rightarrow> (case ReuseFingerprint_Digest f of Inl e \<Rightarrow> Some (ResultFingerprint (eu_ID u))
      | Inr digest \<Rightarrow>
          if digest \<noteq> eu_Fingerprint u \<or> rf_OwnershipMarker f \<noteq> eu_OwnershipMarker u
          then Some (ResultFingerprintDiffers (eu_ID u)) else None)))"

definition validateScheduleExecutionResult :: "ExecutionUnit \<Rightarrow> ScheduleExecutionResult \<Rightarrow> execution_error option" where
  "validateScheduleExecutionResult u r =
     (if \<not> ValidateSecretSafeValue (ScheduleExecutionResult_json r) then Some (ResultSecretLike (eu_ID u))
      else if er_OwnershipMarker r \<noteq> eu_OwnershipMarker u then Some (ResultOwnership (eu_ID u) (er_OwnershipMarker r))
      else first_err (
        [result_fingerprint u r] @
        map (\<lambda>(name, v). if v \<noteq> [] \<and> has_control v then Some (ResultControl (eu_ID u) name) else None)
          [(''stack ID'', er_StackID r), (''ownership marker'', er_OwnershipMarker r)] @
        map (\<lambda>(name, vs). check_result_references (eu_ID u) name [] vs) (result_references r) @
        [if er_ReuseMode r \<notin> set [''cold'', ''warm-transition'', ''reused-session'']
         then Some (ResultReuseMode (eu_ID u) (er_ReuseMode r)) else None,
         if er_CleanupState r \<notin> set [[], ''pending'', ''complete'', ''failed'', ''protected'']
         then Some (ResultCleanupState (eu_ID u) (er_CleanupState r)) else None]))"

text \<open>What the unit adds to the provider's answer.\<close>

definition complete_result :: "ExecutionUnit \<Rightarrow> ScheduleExecutionResult \<Rightarrow> ScheduleExecutionResult" where
  "complete_result u r =
     r\<lparr>er_ReuseFingerprint := executionReuseFingerprint u (er_ReuseFingerprint r),
       er_ReuseMode := (if er_ReuseMode r \<noteq> [] then er_ReuseMode r
         else if eu_ReuseSessionID u \<noteq> [] then ''reused-session''
         else if eu_Cold u then ''cold'' else ''warm-transition'')\<rparr>"

datatype run_event =
    Acquired string nat
  | Persisted string "SchedulerCheckpoint list"
  | Executed string
  | Freed string nat
  | Finished string "execution_error list"

primrec ev_unit :: "run_event \<Rightarrow> string" where
  "ev_unit (Acquired i l) = i"
| "ev_unit (Persisted i ks) = i"
| "ev_unit (Executed i) = i"
| "ev_unit (Freed i l) = i"
| "ev_unit (Finished i es) = i"

type_synonym ScheduleExecutor = "ExecutionUnit \<Rightarrow> ScheduleExecutionResult \<times> string option"

text \<open>The answer of the writer may depend on who asks; the first writer and the last differ in the status they carry.\<close>

type_synonym ScheduleCheckpointWriter = "string \<Rightarrow> SchedulerCheckpoint list \<Rightarrow> string option"

definition terminal_write ::
  "ScheduleCheckpointWriter \<Rightarrow> string \<Rightarrow> execution_error list \<Rightarrow> (string \<Rightarrow> string \<Rightarrow> execution_error) \<Rightarrow> SchedulerCheckpoint list
     \<Rightarrow> execution_error list \<times> run_event list" where
  "terminal_write writer i errors refused ks =
     (case writer i ks of Some e \<Rightarrow> (errors @ [refused i e], []) | None \<Rightarrow> (errors, [Persisted i ks]))"

definition runScheduleUnit ::
  "ctx_error option \<Rightarrow> ExecutionUnit \<Rightarrow> ScheduleExecutor \<Rightarrow> ScheduleCheckpointWriter \<Rightarrow> Time
     \<Rightarrow> execution_error list \<times> run_event list" where
  "runScheduleUnit ctx u execute writer now =
     (case ctx of
        Some e \<Rightarrow> ([ExecutionContext e], [])
      | None \<Rightarrow>
          (let inProgress = unitCheckpoints u ''IN_PROGRESS'' now no_result in
           case writer (eu_ID u) inProgress of
             Some e \<Rightarrow> ([CheckpointStart (eu_ID u) e], [])
           | None \<Rightarrow>
               (case execute u of (answer, failure) \<Rightarrow>
                 (let execution = complete_result u answer;
                      (errors, events) =
                        (case failure of
                           Some e \<Rightarrow> terminal_write writer (eu_ID u) [ExecuteFailed (eu_ID u) e] CheckpointFailure
                             (unitCheckpoints u ''FAIL'' now execution)
                         | None \<Rightarrow>
                             (case validateScheduleExecutionResult u execution of
                                Some e \<Rightarrow> terminal_write writer (eu_ID u) [e] CheckpointFailure
                                  (unitCheckpoints u ''FAIL'' now execution)
                              | None \<Rightarrow> terminal_write writer (eu_ID u) [] CheckpointPass
                                  (unitCheckpoints u ''PASS'' now execution)))
                  in (errors, Persisted (eu_ID u) inProgress # Executed (eu_ID u) # events)))))"

definition runScheduleUnitWithLocalCapacity ::
  "ctx_error option \<Rightarrow> ExecutionUnit \<Rightarrow> LocalCapacityRequest option \<Rightarrow> unit LocalCapacityReservation option
     \<Rightarrow> ScheduleExecutor \<Rightarrow> ScheduleCheckpointWriter \<Rightarrow> Time \<Rightarrow> execution_error list \<times> run_event list" where
  "runScheduleUnitWithLocalCapacity ctx u request reservation execute writer now =
     (case fst (acquireLocalCapacity (\<lambda>_. None) reservation request ()) of
        Inl e \<Rightarrow> ([ReserveFailed (eu_ID u) e], [])
      | Inr None \<Rightarrow> runScheduleUnit ctx u execute writer now
      | Inr (Some lease) \<Rightarrow>
          (case runScheduleUnit ctx u execute writer now of (errors, events) \<Rightarrow>
             (errors @ (case Option.bind reservation (\<lambda>r. fst (cr_Release r lease ())) of
                 None \<Rightarrow> [] | Some e \<Rightarrow> [ReleaseLeaseFailed (eu_ID u) e]),
              Acquired (eu_ID u) lease # events @ [Freed (eu_ID u) lease])))"

section \<open>Checks of a schedule\<close>

fun check_claims :: "string list \<Rightarrow> SessionClaim list \<Rightarrow> execution_error option" where
  "check_claims seen [] = None"
| "check_claims seen (c # cs) =
     (if blank (cm_SessionID c) \<or> has_control (cm_SessionID c) then Some ClaimSessionIDInvalid
      else if blank (cm_Owner c) \<or> has_control (cm_Owner c) then Some (ClaimOwnerInvalid (cm_SessionID c))
      else case ReuseFingerprint_Validate (cm_Fingerprint c) of
        Some e \<Rightarrow> Some (ClaimFingerprint (cm_SessionID c) e)
      | None \<Rightarrow> (case ReuseFingerprint_Digest (cm_Fingerprint c) of
          Inl e \<Rightarrow> Some (ClaimFingerprint (cm_SessionID c) e)
        | Inr digest \<Rightarrow> if digest \<in> set seen then Some (ClaimDuplicate digest) else check_claims (digest # seen) cs))"

definition validateScheduleClaims :: "SessionClaim list \<Rightarrow> execution_error option" where
  "validateScheduleClaims claims = check_claims [] claims"

definition unit_fingerprint :: "ExecutionUnit \<Rightarrow> execution_error option" where
  "unit_fingerprint u =
     (case eu_ReuseFingerprint u of None \<Rightarrow> None
      | Some f \<Rightarrow> (case ReuseFingerprint_Validate f of Some e \<Rightarrow> Some (UnitFingerprint (eu_ID u) e)
      | None \<Rightarrow> (case ReuseFingerprint_Digest f of Inl e \<Rightarrow> Some (UnitFingerprint (eu_ID u) e)
      | Inr digest \<Rightarrow>
          if digest \<noteq> eu_Fingerprint u \<or> rf_OwnershipMarker f \<noteq> eu_OwnershipMarker u
          then Some (UnitFingerprintDiffers (eu_ID u)) else None)))"

definition check_unit :: "string list \<Rightarrow> ExecutionUnit \<Rightarrow> execution_error option" where
  "check_unit known u = first_err
     [if blank (eu_ID u) \<or> eu_CellIDs u = [] \<or> blank (eu_OwnershipMarker u) then Some UnitIncomplete else None,
      (case eu_Coverage u of None \<Rightarrow> None
       | Some b \<Rightarrow> if CoverageBoundary_Validate b \<noteq> [] then Some (UnitCoverage (eu_ID u) (CoverageBoundary_Validate b)) else None),
      unit_fingerprint u,
      if hasDuplicate (eu_CellIDs u) \<or> hasDuplicate (eu_MutationKeys u) then Some (UnitDuplicateIDs (eu_ID u)) else None,
      if eu_ID u \<in> set known then Some (DuplicateUnit (eu_ID u)) else None]"

fun check_units :: "string list \<Rightarrow> ExecutionUnit list \<Rightarrow> execution_error option" where
  "check_units known [] = None"
| "check_units known (u # us) = (case check_unit known u of Some e \<Rightarrow> Some e | None \<Rightarrow> check_units (eu_ID u # known) us)"

definition find_unit :: "ExecutionUnit list \<Rightarrow> string \<Rightarrow> ExecutionUnit option" where
  "find_unit units i = find (\<lambda>u. eu_ID u = i) units"

text \<open>\<^verbatim>\<open>seenUnits\<close> and \<^verbatim>\<open>lastBatch\<close> have the same keys: one map, from the units seen to their batch.\<close>

type_synonym placement = "(string \<times> nat) list"

fun take_keys :: "nat \<Rightarrow> string list \<Rightarrow> string list \<Rightarrow> execution_error + string list" where
  "take_keys i batchKeys [] = Inr batchKeys"
| "take_keys i batchKeys (k # ks) =
     (if k \<in> set batchKeys then Inl (BatchKeyOverlap i k) else take_keys i (batchKeys @ [k]) ks)"

fun check_order :: "ExecutionUnit list \<Rightarrow> placement \<Rightarrow> nat \<Rightarrow> string \<Rightarrow> string list \<Rightarrow> execution_error option" where
  "check_order units placed i unitID [] = None"
| "check_order units placed i unitID (d # ds) =
     (if find_unit units d = None then Some (UnitUnknownDependency unitID d)
      else if (case map_of placed d of None \<Rightarrow> False | Some b \<Rightarrow> i \<le> b) then Some (UnitDependencyOrder unitID d)
      else check_order units placed i unitID ds)"

fun check_batch ::
  "ExecutionUnit list \<Rightarrow> nat \<Rightarrow> string list \<Rightarrow> placement \<Rightarrow> string list \<Rightarrow> execution_error + placement" where
  "check_batch units i batchKeys placed [] = Inr placed"
| "check_batch units i batchKeys placed (unitID # ids) =
     (case find_unit units unitID of
        None \<Rightarrow> Inl (BatchUnknownUnit unitID)
      | Some u \<Rightarrow>
          if map_of placed unitID \<noteq> None then Inl (UnitAppearsTwice unitID)
          else (case take_keys i batchKeys (eu_MutationKeys u) of
              Inl e \<Rightarrow> Inl e
            | Inr keys \<Rightarrow> (case check_order units ((unitID, i) # placed) i unitID (eu_DependsOn u) of
                Some e \<Rightarrow> Inl e
              | None \<Rightarrow> check_batch units i keys ((unitID, i) # placed) ids)))"

fun check_batches :: "ExecutionUnit list \<Rightarrow> nat \<Rightarrow> placement \<Rightarrow> string list list \<Rightarrow> execution_error + placement" where
  "check_batches units i placed [] = Inr placed"
| "check_batches units i placed (b # bs) =
     (case check_batch units i [] placed b of Inl e \<Rightarrow> Inl e | Inr placed' \<Rightarrow> check_batches units (i + 1) placed' bs)"

definition batch_of :: "placement \<Rightarrow> string \<Rightarrow> nat" where
  "batch_of placed i = (case map_of placed i of None \<Rightarrow> 0 | Some b \<Rightarrow> b)"

definition check_placement :: "ExecutionUnit list \<Rightarrow> placement \<Rightarrow> execution_error option" where
  "check_placement units placed =
     (if length placed \<noteq> length units then Some BatchesIncomplete
      else first_err (map (\<lambda>(u, d). if batch_of placed (eu_ID u) \<le> batch_of placed d then Some (UnitDependencyOrder (eu_ID u) d) else None)
        [(u, d). u \<leftarrow> units, d \<leftarrow> eu_DependsOn u]))"

definition validateExecutionSchedule :: "Schedule \<Rightarrow> execution_error option" where
  "validateExecutionSchedule s =
     (case validateScheduleClaims (sd_ReuseClaims s) of Some e \<Rightarrow> Some e
      | None \<Rightarrow> (case Option.bind (sd_LocalCapacity s) LocalCapacityRequest_Validate of Some e \<Rightarrow> Some (ExecutionCapacity e)
      | None \<Rightarrow>
          if sd_Units s = [] then (if sd_Batches s \<noteq> [] then Some BatchesWithoutUnits else None)
          else (case check_units [] (sd_Units s) of Some e \<Rightarrow> Some e
          | None \<Rightarrow> (case check_batches (sd_Units s) 0 [] (sd_Batches s) of Inl e \<Rightarrow> Some e
          | Inr placed \<Rightarrow> check_placement (sd_Units s) placed))))"

section \<open>The run\<close>

record ScheduleExecution =
  sx_Checkpoints :: "SchedulerCheckpoint list"
  sx_CompletedUnitIDs :: "string list"
  sx_FailedUnitID :: string

definition empty_execution :: ScheduleExecution where
  "empty_execution = \<lparr>sx_Checkpoints = [], sx_CompletedUnitIDs = [], sx_FailedUnitID = []\<rparr>"

text \<open>The options of a run; a nil writer or reservation and a zero time are \<open>None\<close>.\<close>

record 'reg ScheduleExecutionOptions =
  xo_CheckpointWriter :: "ScheduleCheckpointWriter option"
  xo_SessionRegistry :: "'reg registry_ref"
  xo_LocalCapacityReservation :: "(string \<Rightarrow> unit LocalCapacityReservation) option"
  xo_ClaimReleaseTimeout :: int
  xo_CheckpointWriteTimeout :: int
  xo_Now :: "Time option"

text \<open>What the context says to each unit, batch and claim, and how the goroutines of each batch interleave.\<close>

record run_world =
  rw_Now :: int
  rw_Unit :: "string \<Rightarrow> ctx_error option"
  rw_Batch :: "nat \<Rightarrow> ctx_error option"
  rw_Claim :: "SessionClaim \<Rightarrow> ctx_error option"
  rw_Picks :: "nat \<Rightarrow> nat list"

definition zero_unit :: ExecutionUnit where
  "zero_unit = \<lparr>eu_ID = [], eu_CellIDs = [], eu_BaselineCellID = [], eu_Fingerprint = [], eu_WarmBoundary = [], eu_WarmTransition = [],
     eu_Coverage = None, eu_OwnershipMarker = [], eu_Cold = False, eu_MigrationOwner = False, eu_DependsOn = [], eu_MutationKeys = [],
     eu_Estimate = \<lparr>ee_CloudOperationSeconds = 0, ee_ResourceLifetimeSeconds = 0, ee_EstimatedCostCents = 0,
       ee_CleanupLatencySeconds = 0, ee_CostKnown = False\<rparr>, eu_Required = False, eu_ReuseSessionID = [], eu_ReuseFingerprint = None\<rparr>"

definition unit_of :: "ExecutionUnit list \<Rightarrow> string \<Rightarrow> ExecutionUnit" where
  "unit_of units i = (case find_unit units i of None \<Rightarrow> zero_unit | Some u \<Rightarrow> u)"

definition run_time :: "run_world \<Rightarrow> 'reg ScheduleExecutionOptions \<Rightarrow> Time" where
  "run_time w options = (case xo_Now options of None \<Rightarrow> \<lparr>tm_nanos = rw_Now w, tm_offset = 0\<rparr> | Some t \<Rightarrow> t)"

definition unit_trace ::
  "run_world \<Rightarrow> Schedule \<Rightarrow> ScheduleExecutor \<Rightarrow> ScheduleCheckpointWriter \<Rightarrow> 'reg ScheduleExecutionOptions \<Rightarrow> string \<Rightarrow> run_event list" where
  "unit_trace w s execute writer options unitID =
     (let u = unit_of (sd_Units s) unitID in
      case runScheduleUnitWithLocalCapacity (rw_Unit w unitID) u (sd_LocalCapacity s)
          (map_option (\<lambda>r. r unitID) (xo_LocalCapacityReservation options)) execute writer (run_time w options) of
        (errors, events) \<Rightarrow> events @ [Finished (eu_ID u) errors])"

text \<open>\<^verbatim>\<open>checkpointByCell\<close> after an event, and the results in the order of the channel.\<close>

definition store_checkpoints :: "run_event \<Rightarrow> (string \<times> SchedulerCheckpoint) list \<Rightarrow> (string \<times> SchedulerCheckpoint) list" where
  "store_checkpoints e m = (case e of Persisted i ks \<Rightarrow> fold (\<lambda>k. map_put (sk_CellID k) k) ks m | _ \<Rightarrow> m)"

definition unit_results :: "run_event list \<Rightarrow> (string \<times> execution_error list) list" where
  "unit_results events = List.map_filter (\<lambda>e. case e of Finished i es \<Rightarrow> Some (i, es) | _ \<Rightarrow> None) events"

definition collect_result :: "string \<times> execution_error list \<Rightarrow> ScheduleExecution \<Rightarrow> ScheduleExecution" where
  "collect_result item x =
     (case item of (unitID, errors) \<Rightarrow>
        if errors \<noteq> [] then (if sx_FailedUnitID x = [] then x\<lparr>sx_FailedUnitID := unitID\<rparr> else x)
        else x\<lparr>sx_CompletedUnitIDs := sx_CompletedUnitIDs x @ [unitID]\<rparr>)"

record run_state =
  rs_CheckpointByCell :: "(string \<times> SchedulerCheckpoint) list"
  rs_Result :: ScheduleExecution
  rs_Trace :: "run_event list"

definition finishScheduleExecution :: "(string \<times> SchedulerCheckpoint) list \<Rightarrow> ScheduleExecution \<Rightarrow> ScheduleExecution" where
  "finishScheduleExecution checkpoints x =
     x\<lparr>sx_Checkpoints := sort_key sk_CellID (map snd checkpoints), sx_CompletedUnitIDs := sort (sx_CompletedUnitIDs x)\<rparr>"

fun run_batches ::
  "run_world \<Rightarrow> (string \<Rightarrow> run_event list) \<Rightarrow> nat \<Rightarrow> string list list \<Rightarrow> run_state \<Rightarrow> run_state \<times> execution_error list" where
  "run_batches w traces i [] st = (st, [])"
| "run_batches w traces i (batch # batches) st =
     (case rw_Batch w i of
        Some e \<Rightarrow> (st, [ExecutionContext e])
      | None \<Rightarrow>
          (let events = interleave (rw_Picks w i) (map traces batch);
               st' = \<lparr>rs_CheckpointByCell = fold store_checkpoints events (rs_CheckpointByCell st),
                      rs_Result = fold collect_result (unit_results events) (rs_Result st),
                      rs_Trace = rs_Trace st @ events\<rparr>;
               batchErr = concat (map snd (unit_results events))
           in if batchErr \<noteq> [] then (st', batchErr) else run_batches w traces (i + 1) batches st'))"

definition release_schedule ::
  "run_world \<Rightarrow> 'reg ScheduleExecutionOptions \<Rightarrow> Schedule \<Rightarrow> 'reg \<Rightarrow> execution_error list \<times> 'reg" where
  "release_schedule w options s reg =
     (if xo_SessionRegistry options = None \<or> sd_ReuseClaims s = [] then ([], reg)
      else (case ReleaseScheduleClaims (Some (rw_Claim w)) (xo_SessionRegistry options) (sd_ReuseClaims s) reg of
        (es, reg') \<Rightarrow> (map ClaimRelease es, reg')))"

definition run_schedule ::
  "run_world \<Rightarrow> Schedule \<Rightarrow> ScheduleExecutor \<Rightarrow> ScheduleCheckpointWriter \<Rightarrow> 'reg ScheduleExecutionOptions
     \<Rightarrow> ScheduleExecution \<times> execution_error list \<times> run_event list" where
  "run_schedule w s execute writer options =
     (case validateExecutionSchedule s of Some e \<Rightarrow> (empty_execution, [e], [])
      | None \<Rightarrow>
          if (case sd_LocalCapacity s of None \<Rightarrow> False | Some r \<Rightarrow> \<not> capacity_empty r) \<and> xo_LocalCapacityReservation options = None
          then (empty_execution, [ExecutionReservationRequired], [])
          else (case run_batches w (unit_trace w s execute writer options) 0 (sd_Batches s)
                \<lparr>rs_CheckpointByCell = [], rs_Result = empty_execution, rs_Trace = []\<rparr> of
              (st, errors) \<Rightarrow> (finishScheduleExecution (rs_CheckpointByCell st) (rs_Result st), errors, rs_Trace st)))"

definition ExecuteSchedule ::
  "run_world option \<Rightarrow> Schedule \<Rightarrow> ScheduleExecutor option \<Rightarrow> 'reg ScheduleExecutionOptions \<Rightarrow> 'reg
     \<Rightarrow> (ScheduleExecution \<times> execution_error list \<times> run_event list) \<times> 'reg" where
  "ExecuteSchedule ctx s execute options reg =
     (case ctx of None \<Rightarrow> ((empty_execution, [ExecutionContextRequired], []), reg)
      | Some w \<Rightarrow> (case execute of None \<Rightarrow> ((empty_execution, [ExecutorRequired], []), reg)
      | Some ex \<Rightarrow> (case xo_CheckpointWriter options of None \<Rightarrow> ((empty_execution, [CheckpointWriterRequired], []), reg)
      | Some writer \<Rightarrow>
          if xo_ClaimReleaseTimeout options < 0 then ((empty_execution, [ClaimReleaseTimeoutNegative], []), reg)
          else if xo_CheckpointWriteTimeout options < 0 then ((empty_execution, [CheckpointWriteTimeoutNegative], []), reg)
          else (case run_schedule w s ex writer options of (x, errors, events) \<Rightarrow>
            (case release_schedule w options s reg of (es, reg') \<Rightarrow> ((x, errors @ es, events), reg'))))))"

section \<open>What a unit does\<close>

text \<open>The answer of the provider is one that the unit may pass.\<close>

definition passes :: "ScheduleExecutor \<Rightarrow> ExecutionUnit \<Rightarrow> ScheduleExecutionResult \<Rightarrow> bool" where
  "passes execute u answer \<longleftrightarrow> execute u = (answer, None) \<and> validateScheduleExecutionResult u (complete_result u answer) = None"

lemma runScheduleUnit_cases:
  assumes "runScheduleUnit ctx u execute writer now = (errors, events)"
  obtains (refused) "events = []" "errors \<noteq> []"
  | (failed) answer failure closing where "execute u = (answer, failure)"
      "closing = [] \<or> closing = [Persisted (eu_ID u) (unitCheckpoints u ''FAIL'' now (complete_result u answer))]" "errors \<noteq> []"
      "events = Persisted (eu_ID u) (unitCheckpoints u ''IN_PROGRESS'' now no_result) # Executed (eu_ID u) # closing"
  | (passed) answer where "passes execute u answer" "errors = []"
      "events = [Persisted (eu_ID u) (unitCheckpoints u ''IN_PROGRESS'' now no_result), Executed (eu_ID u),
         Persisted (eu_ID u) (unitCheckpoints u ''PASS'' now (complete_result u answer))]"
  using assms
  by (auto simp: runScheduleUnit_def terminal_write_def passes_def Let_def split: option.splits prod.splits)

lemma acquired_lease:
  assumes "fst (acquireLocalCapacity ctx reservation request w) = Inr None"
  shows "case request of None \<Rightarrow> True | Some r \<Rightarrow> capacity_empty r"
  using assms by (auto simp: acquireLocalCapacity_def split: option.splits if_splits sum.splits prod.splits)

text \<open>The trace of a unit ends when it finishes, and every event in it is its own.\<close>

definition needs_lease :: "Schedule \<Rightarrow> bool" where
  "needs_lease s = (case sd_LocalCapacity s of None \<Rightarrow> False | Some r \<Rightarrow> \<not> capacity_empty r)"

lemma unit_trace_cases:
  assumes u_def: "u = unit_of (sd_Units s) unitID" and now_def: "now = run_time w options"
  obtains (refused) errors events where "unit_trace w s execute writer options unitID = events @ [Finished (eu_ID u) errors]"
      "errors \<noteq> []" "events = [] \<or> (\<exists>l. events = [Acquired (eu_ID u) l, Freed (eu_ID u) l])"
  | (ran) errors before closing after answer failure where
      "unit_trace w s execute writer options unitID = before @
         Persisted (eu_ID u) (unitCheckpoints u ''IN_PROGRESS'' now no_result) # Executed (eu_ID u) # closing @ after @ [Finished (eu_ID u) errors]"
      "before = [] \<and> after = [] \<and> \<not> needs_lease s \<or> (\<exists>l. before = [Acquired (eu_ID u) l] \<and> after = [Freed (eu_ID u) l])"
      "execute u = (answer, failure)"
      "closing = [] \<and> errors \<noteq> [] \<or>
       closing = [Persisted (eu_ID u) (unitCheckpoints u ''FAIL'' now (complete_result u answer))] \<and> errors \<noteq> [] \<or>
       closing = [Persisted (eu_ID u) (unitCheckpoints u ''PASS'' now (complete_result u answer))] \<and> passes execute u answer"
proof -
  let ?res = "map_option (\<lambda>r. r unitID) (xo_LocalCapacityReservation options)"
  let ?gate = "fst (acquireLocalCapacity (\<lambda>_. None) ?res (sd_LocalCapacity s) ())"
  obtain errors events where run: "runScheduleUnit (rw_Unit w unitID) u execute writer now = (errors, events)" by force
  have trace: "unit_trace w s execute writer options unitID =
      (case ?gate of Inl e \<Rightarrow> [Finished (eu_ID u) [ReserveFailed (eu_ID u) e]]
       | Inr None \<Rightarrow> events @ [Finished (eu_ID u) errors]
       | Inr (Some l) \<Rightarrow> (Acquired (eu_ID u) l # events @ [Freed (eu_ID u) l]) @ [Finished (eu_ID u)
           (errors @ (case Option.bind ?res (\<lambda>r. fst (cr_Release r l ())) of None \<Rightarrow> [] | Some e \<Rightarrow> [ReleaseLeaseFailed (eu_ID u) e]))])"
    using run by (auto simp: unit_trace_def runScheduleUnitWithLocalCapacity_def u_def now_def Let_def split: sum.splits option.splits)
  show ?thesis
  proof (cases ?gate)
    case (Inl e)
    show ?thesis by (rule refused[of "[]"]) (use trace Inl in auto)
  next
    case (Inr gate)
    show ?thesis
    proof (cases gate)
      case None
      with Inr have nl: "\<not> needs_lease s" by (auto simp: needs_lease_def dest!: acquired_lease split: option.splits)
      from run show ?thesis
      proof (cases rule: runScheduleUnit_cases)
        case refused
        show ?thesis by (rule that(1)[of events]) (use trace Inr None refused in auto)
      next
        case (failed answer failure "closing")
        show ?thesis by (rule that(2)[of "[]" "closing" "[]"]) (use trace Inr None failed nl in auto)
      next
        case (passed answer)
        show ?thesis by (rule that(2)[of "[]" "[Persisted (eu_ID u) (unitCheckpoints u ''PASS'' now (complete_result u answer))]" "[]"])
          (use trace Inr None passed nl in \<open>auto simp: passes_def\<close>)
      qed
    next
      case (Some l)
      let ?es = "errors @ (case Option.bind ?res (\<lambda>r. fst (cr_Release r l ())) of None \<Rightarrow> [] | Some e \<Rightarrow> [ReleaseLeaseFailed (eu_ID u) e])"
      from run show ?thesis
      proof (cases rule: runScheduleUnit_cases)
        case refused
        show ?thesis by (rule that(1)[of "[Acquired (eu_ID u) l, Freed (eu_ID u) l]" ?es]) (use trace Inr Some refused in auto)
      next
        case (failed answer failure "closing")
        show ?thesis by (rule that(2)[of "[Acquired (eu_ID u) l]" "closing" "[Freed (eu_ID u) l]"]) (use trace Inr Some failed in auto)
      next
        case (passed answer)
        show ?thesis by (rule that(2)[of "[Acquired (eu_ID u) l]"
              "[Persisted (eu_ID u) (unitCheckpoints u ''PASS'' now (complete_result u answer))]" "[Freed (eu_ID u) l]"])
          (use trace Inr Some passed in \<open>auto simp: passes_def\<close>)
      qed
    qed
  qed
qed

end
