(* ===== verification/Schedule_Execution.thy ===== *)
theory Schedule_Execution
  imports Schedule_Run
begin

text \<open>
  What a run of a schedule guarantees, however its goroutines interleave and whatever the world answers: the order of
  checkpoints, provider calls and leases, the barrier between batches, and what the checkpoints at the end say.
\<close>

section \<open>Units\<close>

lemma unit_trace_own:
  assumes "eu_ID (unit_of (sd_Units s) i) = i" and "e \<in> set (unit_trace w s execute writer options i)"
  shows "ev_unit e = i"
  using assms by (cases rule: unit_trace_cases[OF refl refl, where s = s and unitID = i and w = w and options = options and execute = execute and writer = writer]) auto

lemma unit_trace_finishes:
  assumes "eu_ID (unit_of (sd_Units s) i) = i"
  shows "\<exists>es. Finished i es \<in> set (unit_trace w s execute writer options i)"
  using assms by (cases rule: unit_trace_cases[OF refl refl, where s = s and unitID = i and w = w and options = options and execute = execute and writer = writer]) auto

text \<open>Before the provider is called the intent is on record and the lease is held; the lease is given back later.\<close>

lemma unit_trace_executes:
  assumes "eu_ID (unit_of (sd_Units s) i) = i" and "unit_trace w s execute writer options i = a @ Executed i # b"
  shows "Persisted i (unitCheckpoints (unit_of (sd_Units s) i) ''IN_PROGRESS'' (run_time w options) no_result) \<in> set a \<and>
    (needs_lease s \<longrightarrow> (\<exists>l. Acquired i l \<in> set a \<and> Freed i l \<notin> set a \<and> Freed i l \<in> set b))"
  using assms
  by (cases rule: unit_trace_cases[OF refl refl, where s = s and unitID = i and w = w and options = options and execute = execute and writer = writer])
    (auto simp: Cons_eq_append_conv)

lemma unit_trace_frees:
  assumes "eu_ID (unit_of (sd_Units s) i) = i" and "unit_trace w s execute writer options i = a @ Acquired i l # b"
  shows "Freed i l \<in> set b \<and> Executed i \<notin> set a"
  using assms
  by (cases rule: unit_trace_cases[OF refl refl, where s = s and unitID = i and w = w and options = options and execute = execute and writer = writer])
    (auto simp: Cons_eq_append_conv)

lemma unitCheckpoints_status: "k \<in> set (unitCheckpoints u status now r) \<Longrightarrow> sk_Status k = status"
  by (auto simp: unitCheckpoints_def)

text \<open>A unit that finishes without an error has passed: the provider's answer was accepted and is on record.\<close>

lemma unit_trace_passes:
  assumes "eu_ID (unit_of (sd_Units s) i) = i" and "Finished i [] \<in> set (unit_trace w s execute writer options i)"
  shows "\<exists>answer. passes execute (unit_of (sd_Units s) i) answer \<and>
    Persisted i (unitCheckpoints (unit_of (sd_Units s) i) ''PASS'' (run_time w options) (complete_result (unit_of (sd_Units s) i) answer))
      \<in> set (unit_trace w s execute writer options i)"
  using assms by (cases rule: unit_trace_cases[OF refl refl, where s = s and unitID = i and w = w and options = options and execute = execute and writer = writer]) auto

lemma unit_trace_pass_checkpoint:
  assumes "eu_ID (unit_of (sd_Units s) i) = i" and "Persisted i ks \<in> set (unit_trace w s execute writer options i)"
    and "k \<in> set ks" and "sk_Status k = ''PASS''"
  shows "\<exists>answer. passes execute (unit_of (sd_Units s) i) answer \<and>
    ks = unitCheckpoints (unit_of (sd_Units s) i) ''PASS'' (run_time w options) (complete_result (unit_of (sd_Units s) i) answer)"
  using assms
  by (cases rule: unit_trace_cases[OF refl refl, where s = s and unitID = i and w = w and options = options and execute = execute and writer = writer]) (auto dest!: unitCheckpoints_status)

section \<open>Batches\<close>

text \<open>
  A run of batches: the batches that ran, each an interleaving of the traces of its units, and all but the one that
  ran last without errors.
\<close>

definition clean :: "run_event list \<Rightarrow> bool" where
  "clean run \<longleftrightarrow> (\<forall>i es. Finished i es \<in> set run \<longrightarrow> es = [])"

definition batch_runs :: "(string \<Rightarrow> run_event list) \<Rightarrow> string list list \<Rightarrow> run_event list list \<Rightarrow> bool" where
  "batch_runs traces bs runs \<longleftrightarrow> list_all2 (\<lambda>b run. interleaving (map traces b) run) bs runs \<and> (\<forall>run \<in> set (butlast runs). clean run)"

lemma unit_results_iff: "(i, es) \<in> set (unit_results run) \<longleftrightarrow> Finished i es \<in> set run"
proof
  show "(i, es) \<in> set (unit_results run) \<Longrightarrow> Finished i es \<in> set run"
    by (auto simp: unit_results_def map_filter_def split: run_event.splits)
  show "Finished i es \<in> set run \<Longrightarrow> (i, es) \<in> set (unit_results run)"
    by (force simp: unit_results_def map_filter_def split: run_event.splits)
qed

lemma unit_results_append: "unit_results (xs @ ys) = unit_results xs @ unit_results ys"
  by (simp add: unit_results_def map_filter_def)

lemma clean_iff: "concat (map snd (unit_results run)) = [] \<longleftrightarrow> clean run"
  by (auto simp: clean_def unit_results_iff[symmetric])

lemma run_batches_runs:
  assumes "run_batches w traces i batches st = (st', errors)"
  shows "\<exists>runs bs rest. batches = bs @ rest \<and> batch_runs traces bs runs \<and> rs_Trace st' = rs_Trace st @ concat runs \<and>
    rs_CheckpointByCell st' = fold store_checkpoints (concat runs) (rs_CheckpointByCell st) \<and>
    rs_Result st' = fold collect_result (unit_results (concat runs)) (rs_Result st) \<and>
    (errors = [] \<longrightarrow> rest = [] \<and> clean (concat runs))"
  using assms
proof (induction w traces i batches st rule: run_batches.induct)
  case (1 w traces i st)
  show ?case by (rule exI[of _ "[]"], rule exI[of _ "[]"]) (use 1 in \<open>auto simp: batch_runs_def clean_def unit_results_def map_filter_def\<close>)
next
  case (2 w traces i batch batches st)
  show ?case
  proof (cases "rw_Batch w i")
    case (Some e)
    show ?thesis by (rule exI[of _ "[]"], rule exI[of _ "[]"])
      (use 2 Some in \<open>auto simp: batch_runs_def clean_def unit_results_def map_filter_def\<close>)
  next
    case None
    define run where "run = interleave (rw_Picks w i) (map traces batch)"
    define st1 where "st1 = \<lparr>rs_CheckpointByCell = fold store_checkpoints run (rs_CheckpointByCell st),
      rs_Result = fold collect_result (unit_results run) (rs_Result st), rs_Trace = rs_Trace st @ run\<rparr>"
    have int: "interleaving (map traces batch) run" by (simp add: run_def interleave_interleaving)
    show ?thesis
    proof (cases "clean run")
      case False
      then have "st' = st1" "errors \<noteq> []"
        using 2(2) None by (auto simp: run_def[symmetric] st1_def Let_def clean_iff[symmetric] simp del: concat_eq_Nil_conv)
      with int show ?thesis
        by (intro exI[of _ "[run]"] exI[of _ "[batch]"] exI[of _ batches]) (auto simp: batch_runs_def st1_def)
    next
      case True
      then have "run_batches w traces (i + 1) batches st1 = (st', errors)"
        using 2(2) None by (simp add: run_def[symmetric] st1_def Let_def clean_iff del: concat_eq_Nil_conv)
      with 2(1)[OF None run_def st1_def refl] True obtain runs bs rest where r: "batches = bs @ rest" "batch_runs traces bs runs"
        "rs_Trace st' = rs_Trace st1 @ concat runs" "rs_CheckpointByCell st' = fold store_checkpoints (concat runs) (rs_CheckpointByCell st1)"
        "rs_Result st' = fold collect_result (unit_results (concat runs)) (rs_Result st1)"
        "errors = [] \<longrightarrow> rest = [] \<and> clean (concat runs)"
        by (auto simp: clean_iff simp del: concat_eq_Nil_conv)
      have "batch_runs traces (batch # bs) (run # runs)" using r(2) int True by (auto simp: batch_runs_def)
      moreover have "clean (run @ concat runs)" if "errors = []" using that r(6) True by (auto simp: clean_def)
      ultimately show ?thesis using r
        by (intro exI[of _ "run # runs"] exI[of _ "batch # bs"] exI[of _ rest]) (auto simp: st1_def unit_results_append)
    qed
  qed
qed

text \<open>In a run the events of a unit are its own trace, when units occur once and mark their events.\<close>

definition marked :: "(string \<Rightarrow> run_event list) \<Rightarrow> string list \<Rightarrow> bool" where
  "marked traces ids \<longleftrightarrow> (\<forall>i \<in> set ids. (\<forall>e \<in> set (traces i). ev_unit e = i) \<and> (\<exists>es. Finished i es \<in> set (traces i)))"

lemma batch_own:
  assumes "interleaving (map traces b) run" and "distinct b" and "marked traces b"
  shows "filter (\<lambda>e. ev_unit e = i) run = (if i \<in> set b then traces i else [])"
proof (cases "i \<in> set b")
  case True
  then obtain j where j: "j < length b" "b ! j = i" by (auto simp: in_set_conv_nth)
  have "filter (\<lambda>e. ev_unit e = b ! j) run = map traces b ! j"
    by (rule interleaving_own[OF assms(1)]) (use assms(2,3) j in \<open>auto simp: marked_def nth_eq_iff_index_eq\<close>)
  with j True show ?thesis by simp
next
  case False
  have "ev_unit e \<in> set b" if "e \<in> set run" for e
    using interleaving_set[OF assms(1)] that assms(3) by (auto simp: marked_def)
  with False show ?thesis by (auto simp: filter_empty_conv)
qed

lemma runs_own:
  assumes "list_all2 (\<lambda>b run. interleaving (map traces b) run) bs runs" and "distinct (concat bs)" and "marked traces (concat bs)"
  shows "filter (\<lambda>e. ev_unit e = i) (concat runs) = (if i \<in> set (concat bs) then traces i else [])"
  using assms
proof (induction rule: list_all2_induct)
  case (Cons b bs run runs)
  then have "marked traces b" "marked traces (concat bs)" by (auto simp: marked_def)
  with Cons batch_own[of traces b run i] show ?case by auto
qed simp

lemma runs_split:
  assumes "list_all2 (\<lambda>b run. interleaving (map traces b) run) bs runs" and "distinct (concat bs)" and "marked traces (concat bs)"
    and "concat runs = a @ e # c" and "bs = earlier @ b # later" and "ev_unit e \<in> set b"
  shows "\<exists>a'. a = concat (take (length earlier) runs) @ a'"
  using assms
proof (induction arbitrary: a earlier rule: list_all2_induct)
  case (Cons b0 bs run runs)
  show ?case
  proof (cases earlier)
    case (Cons b1 es)
    then have bs: "b1 = b0" "bs = es @ b # later" using Cons.prems(4) by auto
    have "ev_unit e \<notin> set b0" using Cons.prems(1,5) bs by auto
    moreover have "ev_unit x \<in> set b0" if "x \<in> set run" for x
      using interleaving_set[OF Cons.hyps(1)] that Cons.prems(2) by (auto simp: marked_def)
    ultimately have "e \<notin> set run" by blast
    from Cons.prems(3) consider us where "run = a @ us" "us @ concat runs = e # c" | a1 where "a = run @ a1" "concat runs = a1 @ e # c"
      by (auto simp: append_eq_append_conv2)
    then obtain a1 where a1: "a = run @ a1" "concat runs = a1 @ e # c"
    proof cases
      case (1 us)
      with \<open>e \<notin> set run\<close> have "us = []" by (cases us) auto
      with 1 that[of "[]"] show ?thesis by simp
    qed (use that in blast)
    from Cons.IH[OF _ _ a1(2) bs(2) Cons.prems(5)] Cons.prems(1,2) obtain a' where "a1 = concat (take (length es) runs) @ a'"
      by (auto simp: marked_def)
    with a1 Cons show ?thesis by auto
  qed simp
qed simp

text \<open>Before an event of a unit, the units of the earlier batches have all finished, without errors.\<close>

lemma earlier_finished:
  assumes "batch_runs traces bs runs" and "distinct (concat bs)" and "marked traces (concat bs)"
    and "concat runs = a @ e # c" and "bs = earlier @ b # later" and "ev_unit e \<in> set b" and "d \<in> set (concat earlier)"
  shows "Finished d [] \<in> set a \<and> set (traces d) \<subseteq> set a"
proof -
  let ?pre = "concat (take (length earlier) runs)"
  have l2: "list_all2 (\<lambda>b run. interleaving (map traces b) run) bs runs" using assms(1) by (simp add: batch_runs_def)
  obtain a' where a': "a = ?pre @ a'" using runs_split[OF l2 assms(2-6)] by blast
  have len: "length earlier < length runs" using list_all2_lengthD[OF l2] assms(5) by simp
  have "list_all2 (\<lambda>b run. interleaving (map traces b) run) earlier (take (length earlier) runs)"
    using list_all2_takeI[OF l2, of "length earlier"] assms(5) by simp
  from runs_own[OF this, of d] assms(2,3,5,7) have own: "filter (\<lambda>e. ev_unit e = d) ?pre = traces d" by (auto simp: marked_def)
  have sub: "set (traces d) \<subseteq> set ?pre" unfolding own[symmetric] by auto
  obtain es where es: "Finished d es \<in> set (traces d)" using assms(3,5,7) by (auto simp: marked_def)
  have "set (take (length earlier) runs) \<subseteq> set (butlast runs)"
    using len set_take_subset[of "length earlier" "butlast runs"] by (simp add: take_butlast)
  then have "clean ?pre" using assms(1) by (fastforce simp: batch_runs_def clean_def)
  with es sub have "es = []" unfolding clean_def by blast
  with es sub a' show ?thesis by auto
qed

text \<open>The units that are under way after the events \<open>pre\<close>.\<close>

definition under_way :: "run_event list \<Rightarrow> string set" where
  "under_way pre = {i. (\<exists>e \<in> set pre. ev_unit e = i) \<and> (\<forall>es. Finished i es \<notin> set pre)}"

lemma under_way_one_batch:
  assumes "list_all2 (\<lambda>b run. interleaving (map traces b) run) bs runs" and "distinct (concat bs)" and "marked traces (concat bs)"
    and "concat runs = pre @ post" and "under_way pre \<noteq> {}"
  shows "\<exists>b \<in> set bs. under_way pre \<subseteq> set b"
  using assms
proof (induction arbitrary: pre rule: list_all2_induct)
  case (Cons b bs run runs)
  have m: "marked traces b" "marked traces (concat bs)" "distinct b" "distinct (concat bs)" using Cons.prems(1,2) by (auto simp: marked_def)
  have set_run: "ev_unit e \<in> set b" if "e \<in> set run" for e
    using interleaving_set[OF Cons.hyps(1)] that m(1) by (auto simp: marked_def)
  consider c where "run = pre @ c" | pre' where "pre = run @ pre'" "concat runs = pre' @ post"
    using Cons.prems(3) by (auto simp: append_eq_append_conv2)
  then show ?case
  proof cases
    case 1
    then have "under_way pre \<subseteq> set b" using set_run by (auto simp: under_way_def)
    then show ?thesis by auto
  next
    case 2
    have "\<exists>es. Finished i es \<in> set run" if "i \<in> set b" for i
    proof -
      have "set (traces i) \<subseteq> set run" using interleaving_set[OF Cons.hyps(1)] that by auto
      with m(1) that show ?thesis unfolding marked_def by blast
    qed
    then have sub: "under_way pre \<subseteq> under_way pre'" using set_run 2(1) by (fastforce simp: under_way_def)
    with Cons.prems(4) have "under_way pre' \<noteq> {}" by auto
    from Cons.IH[OF m(4,2) 2(2) this] sub show ?thesis by (meson list.set_intros(2) subset_trans)
  qed
qed (auto simp: under_way_def)

section \<open>Schedules that may run\<close>

abbreviation keys_of :: "Schedule \<Rightarrow> string \<Rightarrow> string set" where
  "keys_of s i \<equiv> set (eu_MutationKeys (unit_of (sd_Units s) i))"

definition schedule_ok :: "Schedule \<Rightarrow> bool" where
  "schedule_ok s \<longleftrightarrow> distinct (map eu_ID (sd_Units s)) \<and> distinct (concat (sd_Batches s)) \<and>
     set (concat (sd_Batches s)) = eu_ID ` set (sd_Units s) \<and>
     (\<forall>b \<in> set (sd_Batches s). \<forall>x \<in> set b. \<forall>y \<in> set b. x \<noteq> y \<longrightarrow> keys_of s x \<inter> keys_of s y = {}) \<and>
     (\<forall>earlier b later. sd_Batches s = earlier @ b # later \<longrightarrow>
        (\<forall>x \<in> set b. \<forall>d \<in> set (eu_DependsOn (unit_of (sd_Units s) x)). d \<in> set (concat earlier)))"

lemma find_unit_Some: "find_unit units i = Some u \<Longrightarrow> u \<in> set units \<and> eu_ID u = i"
  by (auto simp: find_unit_def dest: find_SomeD)

lemma find_unit_iff: "find_unit units i \<noteq> None \<longleftrightarrow> i \<in> eu_ID ` set units"
  by (auto simp: find_unit_def find_None_iff)

lemma unit_of_known: "i \<in> eu_ID ` set units \<Longrightarrow> unit_of units i \<in> set units \<and> eu_ID (unit_of units i) = i"
  using find_unit_iff[of units i] by (auto simp: unit_of_def dest: find_unit_Some split: option.splits)

lemma unit_of_id: "distinct (map eu_ID units) \<Longrightarrow> u \<in> set units \<Longrightarrow> unit_of units (eu_ID u) = u"
  using unit_of_known[of "eu_ID u" units] by (auto simp: distinct_map dest: inj_onD)

lemma check_units_None:
  "check_units known us = None \<Longrightarrow> distinct (map eu_ID us) \<and> eu_ID ` set us \<inter> set known = {}"
proof (induction us arbitrary: known)
  case (Cons u us)
  from Cons.prems have "check_unit known u = None" "check_units (eu_ID u # known) us = None" by (auto split: option.splits)
  then have "eu_ID u \<notin> set known" "distinct (map eu_ID us) \<and> eu_ID ` set us \<inter> set (eu_ID u # known) = {}"
    using Cons.IH[of "eu_ID u # known"] by (simp_all add: check_unit_def split: if_splits)
  then show ?case by auto
qed simp

lemma take_keys_Inr: "take_keys i batchKeys ks = Inr keys \<longleftrightarrow> keys = batchKeys @ ks \<and> distinct ks \<and> set ks \<inter> set batchKeys = {}"
  by (induction ks arbitrary: batchKeys) auto

lemma check_order_None:
  "check_order units placed i unitID ds = None \<longleftrightarrow>
     (\<forall>d \<in> set ds. find_unit units d \<noteq> None \<and> (\<forall>b. map_of placed d = Some b \<longrightarrow> b < i))"
  by (induction ds) (auto split: option.splits)

lemma check_batch_Inr:
  assumes "check_batch units i keys placed ids = Inr placed'"
  shows "placed' = rev (map (\<lambda>x. (x, i)) ids) @ placed \<and> distinct ids \<and> set ids \<inter> fst ` set placed = {} \<and>
    (\<forall>x \<in> set ids. x \<in> eu_ID ` set units \<and> set (eu_MutationKeys (unit_of units x)) \<inter> set keys = {} \<and>
       set (eu_DependsOn (unit_of units x)) \<subseteq> eu_ID ` set units) \<and>
    (\<forall>x \<in> set ids. \<forall>y \<in> set ids. x \<noteq> y \<longrightarrow>
       set (eu_MutationKeys (unit_of units x)) \<inter> set (eu_MutationKeys (unit_of units y)) = {})"
  using assms
proof (induction ids arbitrary: keys placed)
  case (Cons x ids)
  from Cons.prems obtain u where u: "find_unit units x = Some u" "map_of placed x = None"
    "distinct (eu_MutationKeys u)" "set (eu_MutationKeys u) \<inter> set keys = {}"
    "\<forall>d \<in> set (eu_DependsOn u). find_unit units d \<noteq> None"
    "check_batch units i (keys @ eu_MutationKeys u) ((x, i) # placed) ids = Inr placed'"
    by (auto simp: take_keys_Inr check_order_None split: option.splits if_splits sum.splits)
  have known: "unit_of units x = u" "x \<in> eu_ID ` set units" using u(1) by (auto simp: unit_of_def dest: find_unit_Some)
  have deps: "set (eu_DependsOn u) \<subseteq> eu_ID ` set units" using u(5) unfolding find_unit_iff by blast
  have new: "x \<notin> fst ` set placed" using u(2) by (simp add: map_of_eq_None_iff)
  from Cons.IH[OF u(6)] known deps new u(3,4) show ?case by (simp add: Int_Un_distrib) (blast dest: sym)
qed simp

lemma check_batches_Inr:
  assumes "check_batches units i placed bs = Inr placed'"
  shows "distinct (concat bs) \<and> set (concat bs) \<inter> fst ` set placed = {} \<and>
    (\<exists>more. placed' = more @ placed \<and> map fst (rev more) = concat bs) \<and>
    (\<forall>j < length bs. \<forall>x \<in> set (bs ! j). map_of placed' x = Some (i + j)) \<and>
    (\<forall>b \<in> set bs. \<forall>x \<in> set b. x \<in> eu_ID ` set units \<and> set (eu_DependsOn (unit_of units x)) \<subseteq> eu_ID ` set units) \<and>
    (\<forall>b \<in> set bs. \<forall>x \<in> set b. \<forall>y \<in> set b. x \<noteq> y \<longrightarrow>
       set (eu_MutationKeys (unit_of units x)) \<inter> set (eu_MutationKeys (unit_of units y)) = {})"
  using assms
proof (induction bs arbitrary: i placed)
  case (Cons b bs)
  from Cons.prems obtain placed1 where p1: "check_batch units i [] placed b = Inr placed1" "check_batches units (i + 1) placed1 bs = Inr placed'"
    by (auto split: sum.splits)
  note B = check_batch_Inr[OF p1(1)]
  note IH = Cons.IH[OF p1(2)]
  have dom1: "fst ` set placed1 = set b \<union> fst ` set placed" using B by (simp add: image_Un image_image)
  obtain more where more: "placed' = more @ placed1" "map fst (rev more) = concat bs" using IH by blast
  have "map_of placed' x = Some i" if "x \<in> set b" for x
  proof -
    have "x \<notin> fst ` set more" using that IH dom1 more(2) by (metis IntI UnI1 empty_iff image_set set_rev)
    then have "map_of placed' x = map_of placed1 x" using more(1) by (simp add: map_add_dom_app_simps(3) dom_map_of_conv_image_fst)
    also have "\<dots> = Some i" using B that by (auto simp: map_add_def map_of_eq_None_iff image_image split: option.splits dest!: map_of_SomeD)
    finally show ?thesis .
  qed
  moreover have "map_of placed' x = Some (i + Suc j)" if "j < length bs" "x \<in> set (bs ! j)" for j x using IH that by simp
  ultimately have place: "map_of placed' x = Some (i + j)" if "j < length (b # bs)" "x \<in> set ((b # bs) ! j)" for j x
    using that by (cases j) auto
  have "map fst (rev (more @ rev (map (\<lambda>x. (x, i)) b))) = concat (b # bs)" using more(2) by (simp add: o_def rev_map[symmetric])
  moreover have "placed' = (more @ rev (map (\<lambda>x. (x, i)) b)) @ placed" using more(1) B by simp
  ultimately have ex: "\<exists>more. placed' = more @ placed \<and> map fst (rev more) = concat (b # bs)" by blast
  have "distinct b" "set b \<inter> fst ` set placed = {}" using conjunct1[OF conjunct2[OF B]] conjunct1[OF conjunct2[OF conjunct2[OF B]]] by simp_all
  moreover have "distinct (concat bs)" "set (concat bs) \<inter> fst ` set placed1 = {}" using conjunct1[OF IH] conjunct1[OF conjunct2[OF IH]] by simp_all
  ultimately have "distinct (concat (b # bs))" "set (concat (b # bs)) \<inter> fst ` set placed = {}" using dom1 by auto
  moreover have "\<forall>b' \<in> set (b # bs). \<forall>x \<in> set b'. x \<in> eu_ID ` set units \<and> set (eu_DependsOn (unit_of units x)) \<subseteq> eu_ID ` set units"
    using B IH unfolding list.set by blast
  moreover have "\<forall>b' \<in> set (b # bs). \<forall>x \<in> set b'. \<forall>y \<in> set b'. x \<noteq> y \<longrightarrow>
      set (eu_MutationKeys (unit_of units x)) \<inter> set (eu_MutationKeys (unit_of units y)) = {}"
  proof
    fix b' assume "b' \<in> set (b # bs)"
    then consider "b' = b" | "b' \<in> set bs" by auto
    then show "\<forall>x \<in> set b'. \<forall>y \<in> set b'. x \<noteq> y \<longrightarrow>
      set (eu_MutationKeys (unit_of units x)) \<inter> set (eu_MutationKeys (unit_of units y)) = {}"
    proof cases
      case 1
      then show ?thesis using B by (elim conjE) simp
    next
      case 2
      then show ?thesis using IH by (elim conjE) (drule (1) bspec)+
    qed
  qed
  ultimately show ?case using place ex by blast
qed simp

lemma validated_schedule_ok:
  assumes "validateExecutionSchedule s = None"
  shows "schedule_ok s"
proof (cases "sd_Units s = []")
  case True
  with assms show ?thesis by (auto simp: validateExecutionSchedule_def schedule_ok_def split: option.splits if_splits)
next
  case False
  with assms obtain placed where u: "check_units [] (sd_Units s) = None"
    and p: "check_batches (sd_Units s) 0 [] (sd_Batches s) = Inr placed" "check_placement (sd_Units s) placed = None"
    by (auto simp: validateExecutionSchedule_def split: option.splits sum.splits)
  have dist: "distinct (map eu_ID (sd_Units s))" using check_units_None[OF u] by simp
  note B = check_batches_Inr[OF p(1)]
  have "length (concat (sd_Batches s)) = length placed" using B by (metis append_Nil2 length_map length_rev)
  then have len: "length (concat (sd_Batches s)) = length (sd_Units s)" using p(2) by (simp add: check_placement_def split: if_splits)
  have sub: "set (concat (sd_Batches s)) \<subseteq> eu_ID ` set (sd_Units s)" using B by auto
  have "card (set (concat (sd_Batches s))) = card (eu_ID ` set (sd_Units s))"
    using B len dist by (simp add: distinct_card[symmetric] card_image distinct_map)
  then have all: "set (concat (sd_Batches s)) = eu_ID ` set (sd_Units s)" using sub by (intro card_subset_eq) auto
  have order: "d \<in> set (concat earlier)" if split: "sd_Batches s = earlier @ b # later" and x: "x \<in> set b"
    and d: "d \<in> set (eu_DependsOn (unit_of (sd_Units s) x))" for earlier b later x d
  proof -
    have known: "x \<in> eu_ID ` set (sd_Units s)" using split x all by auto
    have "map_of placed x = Some (length earlier)" using B split x by (auto dest!: spec[of _ "length earlier"])
    then have bx: "batch_of placed x = length earlier" by (simp add: batch_of_def)
    have "d \<in> set (concat (sd_Batches s))" using B split x d all by auto
    then obtain k where k: "k < length (sd_Batches s)" "d \<in> set (sd_Batches s ! k)" by (metis UN_E in_set_conv_nth set_concat)
    then have bd: "batch_of placed d = k" using B by (simp add: batch_of_def)
    have "batch_of placed d < batch_of placed x"
      using p(2) unit_of_known[OF known] d by (force simp: check_placement_def first_err_None_iff split: if_splits)
    with bx bd have "k < length earlier" by simp
    with k split show ?thesis by (auto simp: nth_append)
  qed
  show ?thesis unfolding schedule_ok_def using dist B all order by auto
qed

section \<open>Runs\<close>

lemma ExecuteSchedule_cases:
  assumes "ExecuteSchedule (Some w) s (Some ex) options reg = ((x, errors, trace), reg')"
  obtains (refused) "x = empty_execution" "trace = []" "errors \<noteq> []"
  | (ran) writer runs bs rest where "schedule_ok s" "xo_CheckpointWriter options = Some writer" "sd_Batches s = bs @ rest"
      "batch_runs (unit_trace w s ex writer options) bs runs" "trace = concat runs"
      "x = finishScheduleExecution (fold store_checkpoints trace []) (fold collect_result (unit_results trace) empty_execution)"
      "errors = [] \<Longrightarrow> rest = [] \<and> clean trace"
proof (cases "xo_CheckpointWriter options")
  case None
  with assms show ?thesis by (intro refused) (auto simp: ExecuteSchedule_def)
next
  case (Some writer)
  obtain rs reg1 where rel: "release_schedule w options s reg = (rs, reg1)" by force
  show ?thesis
  proof (cases "xo_ClaimReleaseTimeout options < 0 \<or> xo_CheckpointWriteTimeout options < 0 \<or> validateExecutionSchedule s \<noteq> None \<or>
      (needs_lease s \<and> xo_LocalCapacityReservation options = None)")
    case True
    with assms Some rel show ?thesis
      by (intro refused) (auto simp: ExecuteSchedule_def run_schedule_def needs_lease_def split: if_splits option.splits)
  next
    case False
    obtain st bes where b: "run_batches w (unit_trace w s ex writer options) 0 (sd_Batches s)
        \<lparr>rs_CheckpointByCell = [], rs_Result = empty_execution, rs_Trace = []\<rparr> = (st, bes)" by force
    have eq: "x = finishScheduleExecution (rs_CheckpointByCell st) (rs_Result st)" "errors = bes @ rs" "trace = rs_Trace st"
      using assms Some rel b False by (auto simp: ExecuteSchedule_def run_schedule_def needs_lease_def split: if_splits option.splits)
    from run_batches_runs[OF b] obtain runs bs rest where r: "sd_Batches s = bs @ rest" "batch_runs (unit_trace w s ex writer options) bs runs"
      "rs_Trace st = concat runs" "rs_CheckpointByCell st = fold store_checkpoints (concat runs) []"
      "rs_Result st = fold collect_result (unit_results (concat runs)) empty_execution"
      "bes = [] \<longrightarrow> rest = [] \<and> clean (concat runs)" by auto
    show ?thesis by (rule ran[OF validated_schedule_ok Some r(1,2)]) (use False eq r in auto)
  qed
qed

lemma unit_traces_marked:
  assumes "set ids \<subseteq> eu_ID ` set (sd_Units s)"
  shows "marked (unit_trace w s ex writer options) ids"
  unfolding marked_def
proof
  fix i assume "i \<in> set ids"
  with assms have "eu_ID (unit_of (sd_Units s) i) = i" using unit_of_known[of i "sd_Units s"] by auto
  from unit_trace_own[OF this] unit_trace_finishes[OF this]
  show "(\<forall>e \<in> set (unit_trace w s ex writer options i). ev_unit e = i) \<and> (\<exists>es. Finished i es \<in> set (unit_trace w s ex writer options i))"
    by blast
qed

text \<open>In a run the events of a unit are the trace of one of the units of the schedule.\<close>

lemma run_own:
  assumes "schedule_ok s" and "sd_Batches s = bs @ rest" and "batch_runs (unit_trace w s ex writer options) bs runs" and "e \<in> set (concat runs)"
  shows "filter (\<lambda>x. ev_unit x = ev_unit e) (concat runs) = unit_trace w s ex writer options (ev_unit e)" and "ev_unit e \<in> set (concat bs)"
    and "ev_unit e \<in> eu_ID ` set (sd_Units s)" and "e \<in> set (unit_trace w s ex writer options (ev_unit e))"
proof -
  have ids: "set (concat bs) \<subseteq> eu_ID ` set (sd_Units s)" "distinct (concat bs)" using assms(1,2) by (auto simp: schedule_ok_def)
  from runs_own[OF _ ids(2) unit_traces_marked[OF ids(1)], of w ex writer options runs "ev_unit e"] assms(3)
  have own: "filter (\<lambda>x. ev_unit x = ev_unit e) (concat runs) = (if ev_unit e \<in> set (concat bs) then unit_trace w s ex writer options (ev_unit e) else [])"
    by (simp add: batch_runs_def)
  have e: "e \<in> set (filter (\<lambda>x. ev_unit x = ev_unit e) (concat runs))" using assms(4) by simp
  then have "ev_unit e \<in> set (concat bs)" unfolding own by (auto split: if_splits)
  with own e show "e \<in> set (unit_trace w s ex writer options (ev_unit e))" by simp
  from \<open>ev_unit e \<in> set (concat bs)\<close> own ids show "filter (\<lambda>x. ev_unit x = ev_unit e) (concat runs) = unit_trace w s ex writer options (ev_unit e)"
    "ev_unit e \<in> set (concat bs)" "ev_unit e \<in> eu_ID ` set (sd_Units s)" by auto
qed

lemma stored_checkpoints:
  assumes "(c, k) \<in> set (fold store_checkpoints events m)"
  shows "(c, k) \<in> set m \<or> (\<exists>i ks. Persisted i ks \<in> set events \<and> k \<in> set ks \<and> c = sk_CellID k)"
  using assms
proof (induction events arbitrary: m)
  case (Cons e events)
  have put: "(c, k) \<in> set m' \<or> k \<in> set ks \<and> c = sk_CellID k" if "(c, k) \<in> set (fold (\<lambda>k. map_put (sk_CellID k) k) ks m')" for ks m'
    using that by (induction ks arbitrary: m') (fastforce simp: map_put_def)+
  from Cons.IH[of "store_checkpoints e m"] Cons.prems put show ?case
    by (cases e) (auto simp: store_checkpoints_def)
qed simp

lemma collected_results:
  "set (sx_CompletedUnitIDs (fold collect_result items x)) = set (sx_CompletedUnitIDs x) \<union> {i. (i, []) \<in> set items}"
  by (induction items arbitrary: x) (auto simp: collect_result_def split: prod.splits)

section \<open>A run of three units\<close>

text \<open>Units \<open>a\<close> and \<open>c\<close> run side by side, then \<open>b\<close>, which depends on \<open>a\<close>; every unit takes a lease.\<close>

definition ex_run_unit :: "string \<Rightarrow> string list \<Rightarrow> ExecutionUnit" where
  "ex_run_unit i needs = zero_unit\<lparr>eu_ID := i, eu_CellIDs := [i], eu_OwnershipMarker := ''m'', eu_Cold := True, eu_DependsOn := needs,
     eu_MutationKeys := [i]\<rparr>"

definition ex_run_schedule :: Schedule where
  "ex_run_schedule = \<lparr>sd_Units = [ex_run_unit ''a'' [], ex_run_unit ''b'' [''a''], ex_run_unit ''c'' []],
     sd_Batches = [[''a'', ''c''], [''b'']], sd_LocalCapacity = Some \<lparr>lc_CPUMilli = 1, lc_MemoryMB = 1\<rparr>, sd_ReuseClaims = [],
     sd_CompletedCellIDs = [], sd_DeferredCellIDs = [], sd_BlockedCellIDs = [], sd_ColdUnitCount = 3, sd_WarmTransitionCount = 0,
     sd_ReusedCellCount = 0, sd_CloudOperationSeconds = 0, sd_ResourceLifetimeSeconds = 0, sd_EstimatedCostCents = 0,
     sd_CleanupLatencySeconds = 0, sd_CostKnown = False, sd_ReusedSessionCount = 0\<rparr>"

definition ex_world :: run_world where
  "ex_world = \<lparr>rw_Now = 0, rw_Unit = (\<lambda>_. None), rw_Batch = (\<lambda>_. None), rw_Claim = (\<lambda>_. None), rw_Picks = (\<lambda>_. [0, 1, 1, 0, 1, 0])\<rparr>"

definition ex_executor :: ScheduleExecutor where
  "ex_executor u = (no_result\<lparr>er_OwnershipMarker := eu_OwnershipMarker u\<rparr>, None)"

definition ex_run_options :: "'reg ScheduleExecutionOptions" where
  "ex_run_options = \<lparr>xo_CheckpointWriter = Some (\<lambda>_ _. None), xo_SessionRegistry = None,
     xo_LocalCapacityReservation = Some (\<lambda>_. \<lparr>cr_Acquire = (\<lambda>_ _ w. (Inr (Some 7), w)), cr_Release = (\<lambda>_ w. (None, w))\<rparr>),
     xo_ClaimReleaseTimeout = 0, xo_CheckpointWriteTimeout = 0, xo_Now = None\<rparr>"

definition event_tag :: "run_event \<Rightarrow> string \<times> string" where
  "event_tag e = (ev_unit e, case e of Acquired i l \<Rightarrow> ''lease'' | Persisted i ks \<Rightarrow> ''write '' @ concat (map sk_Status ks)
     | Executed i \<Rightarrow> ''execute'' | Freed i l \<Rightarrow> ''free'' | Finished i es \<Rightarrow> if es = [] then ''done'' else ''error'')"

definition run_shape :: "ScheduleExecution \<times> execution_error list \<times> run_event list \<Rightarrow>
    (string \<times> string) list \<times> string list \<times> execution_error list \<times> (string \<times> string) list" where
  "run_shape r = (case r of (x, errors, trace) \<Rightarrow>
     (map (\<lambda>k. (sk_CellID k, sk_Status k)) (sx_Checkpoints x), sx_CompletedUnitIDs x, errors, map event_tag trace))"

lemma ex_run_shape:
  "run_shape (fst (ExecuteSchedule (Some ex_world) ex_run_schedule (Some ex_executor) ex_run_options ())) =
     ([(''a'', ''PASS''), (''b'', ''PASS''), (''c'', ''PASS'')], [''a'', ''b'', ''c''], [],
      [(''a'', ''lease''), (''c'', ''lease''), (''c'', ''write IN_PROGRESS''), (''a'', ''write IN_PROGRESS''), (''c'', ''execute''), (''a'', ''execute''),
       (''a'', ''write PASS''), (''a'', ''free''), (''a'', ''done''), (''c'', ''write PASS''), (''c'', ''free''), (''c'', ''done''),
       (''b'', ''lease''), (''b'', ''write IN_PROGRESS''), (''b'', ''execute''), (''b'', ''write PASS''), (''b'', ''free''), (''b'', ''done'')])"
  by code_simp

lemma ex_run:
  obtains x trace where "ExecuteSchedule (Some ex_world) ex_run_schedule (Some ex_executor) ex_run_options () = ((x, [], trace), ())"
    "map (\<lambda>k. (sk_CellID k, sk_Status k)) (sx_Checkpoints x) = [(''a'', ''PASS''), (''b'', ''PASS''), (''c'', ''PASS'')]"
    "map event_tag (take 2 trace) = [(''a'', ''lease''), (''c'', ''lease'')]"
    "(''b'', ''execute'') \<in> event_tag ` set trace" "(''a'', ''lease'') \<in> event_tag ` set trace"
proof -
  obtain x errors trace reg where r: "ExecuteSchedule (Some ex_world) ex_run_schedule (Some ex_executor) ex_run_options () = ((x, errors, trace), reg)"
    by (metis prod_cases4 surj_pair)
  note shape = ex_run_shape[unfolded r, simplified run_shape_def fst_conv prod.case]
  have tags: "map event_tag trace = [(''a'', ''lease''), (''c'', ''lease''), (''c'', ''write IN_PROGRESS''), (''a'', ''write IN_PROGRESS''),
       (''c'', ''execute''), (''a'', ''execute''),
       (''a'', ''write PASS''), (''a'', ''free''), (''a'', ''done''), (''c'', ''write PASS''), (''c'', ''free''), (''c'', ''done''),
       (''b'', ''lease''), (''b'', ''write IN_PROGRESS''), (''b'', ''execute''), (''b'', ''write PASS''), (''b'', ''free''), (''b'', ''done'')]"
    using shape by simp
  show ?thesis
  proof (rule that)
    show "ExecuteSchedule (Some ex_world) ex_run_schedule (Some ex_executor) ex_run_options () = ((x, [], trace), ())" using r shape by simp
    show "map (\<lambda>k. (sk_CellID k, sk_Status k)) (sx_Checkpoints x) = [(''a'', ''PASS''), (''b'', ''PASS''), (''c'', ''PASS'')]"
      using shape by simp
    show "map event_tag (take 2 trace) = [(''a'', ''lease''), (''c'', ''lease'')]" by (simp add: take_map[symmetric] tags)
    show "(''b'', ''execute'') \<in> event_tag ` set trace" "(''a'', ''lease'') \<in> event_tag ` set trace"
      using tags by (simp_all add: set_map[symmetric] del: set_map)
  qed
qed

lemma event_tag_simps:
  "event_tag e = (i, ''execute'') \<longleftrightarrow> e = Executed i" "event_tag e = (i, ''lease'') \<longleftrightarrow> (\<exists>l. e = Acquired i l)"
  by (cases e; auto simp: event_tag_def)+

section \<open>Properties\<close>

text \<open>
  C16. The provider is never called before the intent is on record: when a unit executes, the checkpoints of its cells
  have been persisted as in progress, and when the schedule needs local capacity the unit holds a lease, which it
  gives back later. This holds for every interleaving and every answer of the world.
\<close>

theorem run_records_intent_first:
  assumes "ExecuteSchedule (Some w) s (Some ex) options reg = ((x, errors, trace), reg')" and "trace = a @ Executed i # b"
  shows "\<exists>u \<in> set (sd_Units s). eu_ID u = i \<and>
    Persisted i (unitCheckpoints u ''IN_PROGRESS'' (run_time w options) no_result) \<in> set a \<and>
    (needs_lease s \<longrightarrow> (\<exists>l. Acquired i l \<in> set a \<and> Freed i l \<notin> set a \<and> Freed i l \<in> set b))"
  using assms(1)
proof (cases rule: ExecuteSchedule_cases)
  case (ran writer runs bs rest)
  note own = run_own[OF ran(1,3,4), of "Executed i", folded ran(5), unfolded assms(2)]
  have known: "i \<in> eu_ID ` set (sd_Units s)" using own(3) by simp
  have "unit_trace w s ex writer options i = filter (\<lambda>e. ev_unit e = i) a @ Executed i # filter (\<lambda>e. ev_unit e = i) b"
    using own(1) by simp
  from unit_trace_executes[OF _ this] unit_of_known[OF known] show ?thesis by fastforce
qed (use assms(2) in simp)

theorem run_records_intent_first_witness:
  "\<exists>x trace a b. ExecuteSchedule (Some ex_world) ex_run_schedule (Some ex_executor) ex_run_options () = ((x, [], trace), ()) \<and>
     trace = a @ Executed ''b'' # b \<and> (\<exists>l. Acquired ''b'' l \<in> set a \<and> Freed ''b'' l \<in> set b)"
proof -
  obtain x trace where r: "ExecuteSchedule (Some ex_world) ex_run_schedule (Some ex_executor) ex_run_options () = ((x, [], trace), ())"
    "(''b'', ''execute'') \<in> event_tag ` set trace" by (rule ex_run) (rule that; assumption)
  from r(2) have "Executed ''b'' \<in> set trace" by (auto simp: event_tag_simps eq_commute[of "(''b'', ''execute'')"])
  then obtain a b where t: "trace = a @ Executed ''b'' # b" by (auto dest: split_list)
  have "needs_lease ex_run_schedule" by code_simp
  with run_records_intent_first[OF r(1) t] r(1) t show ?thesis by blast
qed

text \<open>
  C17. No unit executes before the units it depends on have passed: at that point each of them has finished without an
  error, its provider answer was accepted, and its cells are on record as passed.
\<close>

theorem run_awaits_dependencies:
  assumes "ExecuteSchedule (Some w) s (Some ex) options reg = ((x, errors, trace), reg')" and "trace = a @ Executed i # b"
    and "u \<in> set (sd_Units s)" and "eu_ID u = i" and "d \<in> set (eu_DependsOn u)"
  shows "Finished d [] \<in> set a \<and> (\<exists>v \<in> set (sd_Units s). eu_ID v = d \<and> (\<exists>answer. passes ex v answer \<and>
    Persisted d (unitCheckpoints v ''PASS'' (run_time w options) (complete_result v answer)) \<in> set a))"
  using assms(1)
proof (cases rule: ExecuteSchedule_cases)
  case (ran writer runs bs rest)
  note own = run_own[OF ran(1,3,4), of "Executed i", folded ran(5), unfolded assms(2)]
  have u: "unit_of (sd_Units s) i = u" using unit_of_id[of "sd_Units s" u] ran(1) assms(3,4) by (simp add: schedule_ok_def)
  obtain earlier batch later where bs: "bs = earlier @ batch # later" "i \<in> set batch"
    using own(2) by (auto simp: in_set_conv_decomp[of _ bs])
  have d: "d \<in> set (concat earlier)" using ran(1,3) bs u assms(5) unfolding schedule_ok_def by auto
  have ids: "set (concat bs) \<subseteq> eu_ID ` set (sd_Units s)" "distinct (concat bs)" using ran(1,3) by (auto simp: schedule_ok_def)
  have fin: "Finished d [] \<in> set a" "set (unit_trace w s ex writer options d) \<subseteq> set a"
    using earlier_finished[OF ran(4) ids(2) unit_traces_marked[OF ids(1)] ran(5)[symmetric, unfolded assms(2)] bs(1) _ d] bs(2) by auto
  have known: "d \<in> eu_ID ` set (sd_Units s)" using d bs(1) ids(1) by auto
  have "Finished d [] \<in> set (concat runs)" using fin(1) unfolding ran(5)[symmetric] assms(2) by simp
  from run_own(4)[OF ran(1,3,4) this] have "Finished d [] \<in> set (unit_trace w s ex writer options d)" by simp
  from unit_trace_passes[OF _ this] unit_of_known[OF known] fin show ?thesis by blast
qed (use assms(2) in simp)

theorem run_awaits_dependencies_witness:
  "\<exists>x trace a b. ExecuteSchedule (Some ex_world) ex_run_schedule (Some ex_executor) ex_run_options () = ((x, [], trace), ()) \<and>
     trace = a @ Executed ''b'' # b \<and> Finished ''a'' [] \<in> set a"
proof -
  obtain x trace where r: "ExecuteSchedule (Some ex_world) ex_run_schedule (Some ex_executor) ex_run_options () = ((x, [], trace), ())"
    "(''b'', ''execute'') \<in> event_tag ` set trace" by (rule ex_run) (rule that; assumption)
  from r(2) have "Executed ''b'' \<in> set trace" by (auto simp: event_tag_simps eq_commute[of "(''b'', ''execute'')"])
  then obtain a b where t: "trace = a @ Executed ''b'' # b" by (auto dest: split_list)
  have "ex_run_unit ''b'' [''a''] \<in> set (sd_Units ex_run_schedule)" "eu_ID (ex_run_unit ''b'' [''a'']) = ''b''"
    "''a'' \<in> set (eu_DependsOn (ex_run_unit ''b'' [''a'']))" by (simp_all add: ex_run_schedule_def ex_run_unit_def zero_unit_def)
  from run_awaits_dependencies[OF r(1) t this] r(1) t show ?thesis by blast
qed

text \<open>Units that are under way at the same time never share a mutation key.\<close>

lemma run_excludes_shared_keys:
  assumes "ExecuteSchedule (Some w) s (Some ex) options reg = ((x, errors, pre @ post), reg')"
    and "i \<in> under_way pre" and "j \<in> under_way pre" and "i \<noteq> j"
  shows "keys_of s i \<inter> keys_of s j = {}"
  using assms(1)
proof (cases rule: ExecuteSchedule_cases)
  case (ran writer runs bs rest)
  have ids: "set (concat bs) \<subseteq> eu_ID ` set (sd_Units s)" "distinct (concat bs)" using ran(1,3) by (auto simp: schedule_ok_def)
  obtain b where b: "b \<in> set bs" "under_way pre \<subseteq> set b"
    using under_way_one_batch[OF _ ids(2) unit_traces_marked[OF ids(1)] ran(5)[symmetric]] ran(4) assms(2) unfolding batch_runs_def by blast
  have "b \<in> set (sd_Batches s)" "i \<in> set b" "j \<in> set b" using b assms(2,3) ran(3) by auto
  with assms(4) ran(1) show ?thesis unfolding schedule_ok_def by (elim conjE) metis
qed (use assms(2) in \<open>simp add: under_way_def\<close>)

text \<open>
  C18. A checkpoint that says a cell passed is earned: the cell belongs to a unit of the schedule that the provider
  executed without an error and whose answer passed every check.
\<close>

theorem pass_checkpoints_are_earned:
  assumes "ExecuteSchedule (Some w) s (Some ex) options reg = ((x, errors, trace), reg')"
    and "k \<in> set (sx_Checkpoints x)" and "sk_Status k = ''PASS''"
  shows "\<exists>u \<in> set (sd_Units s). sk_CellID k \<in> set (eu_CellIDs u) \<and> (\<exists>answer. passes ex u answer \<and>
    k \<in> set (unitCheckpoints u ''PASS'' (run_time w options) (complete_result u answer)))"
  using assms(1)
proof (cases rule: ExecuteSchedule_cases)
  case refused
  with assms(2) show ?thesis by (simp add: empty_execution_def)
next
  case (ran writer runs bs rest)
  from assms(2) ran(6) obtain c where "(c, k) \<in> set (fold store_checkpoints trace [])" by (auto simp: finishScheduleExecution_def)
  from stored_checkpoints[OF this] obtain i ks where p: "Persisted i ks \<in> set trace" "k \<in> set ks" by auto
  note own = run_own[OF ran(1,3,4), of "Persisted i ks", folded ran(5), OF p(1)]
  have "Persisted i ks \<in> set (unit_trace w s ex writer options i)" using own(4) by simp
  from unit_trace_pass_checkpoint[OF _ this p(2) assms(3)] unit_of_known[of i] own(3) obtain answer where
    "passes ex (unit_of (sd_Units s) i) answer" "unit_of (sd_Units s) i \<in> set (sd_Units s)"
    "ks = unitCheckpoints (unit_of (sd_Units s) i) ''PASS'' (run_time w options) (complete_result (unit_of (sd_Units s) i) answer)" by auto
  with p(2) show ?thesis by (intro bexI[of _ "unit_of (sd_Units s) i"]) (auto simp: unitCheckpoints_def)
qed

theorem pass_checkpoints_are_earned_witness:
  "\<exists>u \<in> set (sd_Units ex_run_schedule). ''a'' \<in> set (eu_CellIDs u) \<and> (\<exists>answer. passes ex_executor u answer)"
proof -
  obtain x trace where r: "ExecuteSchedule (Some ex_world) ex_run_schedule (Some ex_executor) ex_run_options () = ((x, [], trace), ())"
    "map (\<lambda>k. (sk_CellID k, sk_Status k)) (sx_Checkpoints x) = [(''a'', ''PASS''), (''b'', ''PASS''), (''c'', ''PASS'')]" by (rule ex_run) (rule that; assumption)
  have "(''a'', ''PASS'') \<in> set (map (\<lambda>k. (sk_CellID k, sk_Status k)) (sx_Checkpoints x))" unfolding r(2) by simp
  then obtain k where "k \<in> set (sx_Checkpoints x)" "sk_CellID k = ''a''" "sk_Status k = ''PASS''" by auto
  with pass_checkpoints_are_earned[OF r(1)] show ?thesis by metis
qed

text \<open>
  C19. A run that reports no error has completed every unit of the schedule, and a unit is reported as completed only
  when it finished without an error.
\<close>

theorem run_without_error_completes:
  assumes "ExecuteSchedule (Some w) s (Some ex) options reg = ((x, [], trace), reg')"
  shows "set (sx_CompletedUnitIDs x) = eu_ID ` set (sd_Units s) \<and> (\<forall>u \<in> set (sd_Units s). \<exists>answer. passes ex u answer)"
  using assms
proof (cases rule: ExecuteSchedule_cases)
  case (ran writer runs bs rest)
  have all: "sd_Batches s = bs" "clean trace" using ran(3,7) by auto
  have ids: "set (concat bs) = eu_ID ` set (sd_Units s)" "distinct (concat bs)" using ran(1) all(1) by (auto simp: schedule_ok_def)
  have fin: "Finished i [] \<in> set trace \<and> (\<exists>answer. passes ex (unit_of (sd_Units s) i) answer)" if i: "i \<in> eu_ID ` set (sd_Units s)" for i
  proof -
    have "filter (\<lambda>e. ev_unit e = i) trace = unit_trace w s ex writer options i"
      using runs_own[OF _ ids(2) unit_traces_marked, of w s ex writer options runs i] ran(4,5) ids(1) i
      by (simp add: batch_runs_def del: set_concat)
    then have sub: "set (unit_trace w s ex writer options i) \<subseteq> set trace" by (metis filter_is_subset)
    obtain es where "Finished i es \<in> set (unit_trace w s ex writer options i)"
      using unit_trace_finishes unit_of_known[OF i] by blast
    with sub all(2) have "Finished i [] \<in> set (unit_trace w s ex writer options i)" unfolding clean_def by blast
    with sub unit_trace_passes[OF _ this] unit_of_known[OF i] show ?thesis by blast
  qed
  have "ev_unit e \<in> eu_ID ` set (sd_Units s)" if "e \<in> set trace" for e using run_own(3)[OF ran(1,3,4)] that ran(5) by simp
  then have "{i. (i, []) \<in> set (unit_results trace)} = eu_ID ` set (sd_Units s)" using fin by (force simp: unit_results_iff)
  moreover have "passes ex u answer \<longleftrightarrow> passes ex (unit_of (sd_Units s) (eu_ID u)) answer" if "u \<in> set (sd_Units s)" for u answer
    using unit_of_id[OF _ that] ran(1) by (simp add: schedule_ok_def)
  ultimately show ?thesis using ran(6) fin by (auto simp: finishScheduleExecution_def collected_results empty_execution_def)
qed simp

theorem run_without_error_completes_witness:
  "\<exists>x trace. ExecuteSchedule (Some ex_world) ex_run_schedule (Some ex_executor) ex_run_options () = ((x, [], trace), ()) \<and>
     set (sx_CompletedUnitIDs x) = eu_ID ` set (sd_Units ex_run_schedule)"
proof -
  obtain x trace where r: "ExecuteSchedule (Some ex_world) ex_run_schedule (Some ex_executor) ex_run_options () = ((x, [], trace), ())"
    by (rule ex_run) (rule that; assumption)
  from run_without_error_completes[OF r] r show ?thesis by blast
qed

text \<open>Every lease a run takes is given back, on every path.\<close>

lemma run_gives_leases_back:
  assumes "ExecuteSchedule (Some w) s (Some ex) options reg = ((x, errors, a @ Acquired i l # b), reg')"
  shows "Freed i l \<in> set b"
  using assms
proof (cases rule: ExecuteSchedule_cases)
  case (ran writer runs bs rest)
  note own = run_own[OF ran(1,3,4), of "Acquired i l", folded ran(5)]
  have "unit_trace w s ex writer options i = filter (\<lambda>e. ev_unit e = i) a @ Acquired i l # filter (\<lambda>e. ev_unit e = i) b"
    using own(1) by simp
  from unit_trace_frees[OF _ this] unit_of_known[of i] own(3) show ?thesis by auto
qed simp

end
