(* ===== verification/Schedule_Pipeline.thy ===== *)
theory Schedule_Pipeline
  imports Schedule_Execution
begin

text \<open>
  \<^verbatim>\<open>BuildSchedule\<close> and \<^verbatim>\<open>ExecuteSchedule\<close> together: a schedule that was built is one that the runner accepts, and
  once it ran, however it ended, the sessions it had reserved are free again.
\<close>

section \<open>What the runner accepts\<close>

definition unit_keys_ok :: "ExecutionUnit list \<Rightarrow> string list \<Rightarrow> bool" where
  "unit_keys_ok units ids \<longleftrightarrow> (\<forall>x \<in> set ids. distinct (eu_MutationKeys (unit_of units x)) \<and>
     (\<forall>y \<in> set ids. x \<noteq> y \<longrightarrow> set (eu_MutationKeys (unit_of units x)) \<inter> set (eu_MutationKeys (unit_of units y)) = {}))"

lemma check_batch_complete:
  assumes "distinct ids" and "set ids \<inter> fst ` set placed = {}" and "set ids \<subseteq> eu_ID ` set units" and "unit_keys_ok units ids"
    and "\<forall>x \<in> set ids. set (eu_MutationKeys (unit_of units x)) \<inter> set keys = {}"
    and "\<forall>x \<in> set ids. \<forall>d \<in> set (eu_DependsOn (unit_of units x)).
      d \<in> eu_ID ` set units \<and> d \<notin> set ids \<and> (\<forall>b. map_of placed d = Some b \<longrightarrow> b < i)"
  shows "check_batch units i keys placed ids = Inr (rev (map (\<lambda>x. (x, i)) ids) @ placed)"
  using assms
proof (induction ids arbitrary: keys placed)
  case (Cons x ids)
  obtain u where u: "find_unit units x = Some u" using Cons.prems(3) find_unit_iff[of units x] by auto
  then have uo: "unit_of units x = u" by (simp add: unit_of_def)
  have new: "map_of placed x = None" using Cons.prems(2) by (auto simp: map_of_eq_None_iff)
  have keys: "take_keys i keys (eu_MutationKeys u) = Inr (keys @ eu_MutationKeys u)"
    using Cons.prems(4,5) uo by (simp add: take_keys_Inr unit_keys_ok_def)
  have order: "check_order units ((x, i) # placed) i x (eu_DependsOn u) = None"
    unfolding check_order_None find_unit_iff using Cons.prems(6) uo by auto
  have "check_batch units i (keys @ eu_MutationKeys u) ((x, i) # placed) ids = Inr (rev (map (\<lambda>x. (x, i)) ids) @ (x, i) # placed)"
  proof (rule Cons.IH)
    show "unit_keys_ok units ids" using Cons.prems(4) by (simp add: unit_keys_ok_def)
    show "\<forall>y \<in> set ids. set (eu_MutationKeys (unit_of units y)) \<inter> set (keys @ eu_MutationKeys u) = {}"
    proof
      fix y assume y: "y \<in> set ids"
      then have "y \<noteq> x" using Cons.prems(1) by auto
      with y Cons.prems(4) uo have "set (eu_MutationKeys (unit_of units y)) \<inter> set (eu_MutationKeys u) = {}"
        by (simp add: unit_keys_ok_def)
      moreover have "set (eu_MutationKeys (unit_of units y)) \<inter> set keys = {}" using y Cons.prems(5) by simp
      ultimately show "set (eu_MutationKeys (unit_of units y)) \<inter> set (keys @ eu_MutationKeys u) = {}" by (simp add: Int_Un_distrib)
    qed
    show "\<forall>y \<in> set ids. \<forall>d \<in> set (eu_DependsOn (unit_of units y)).
        d \<in> eu_ID ` set units \<and> d \<notin> set ids \<and> (\<forall>b. map_of ((x, i) # placed) d = Some b \<longrightarrow> b < i)"
      using Cons.prems(6) by auto
  qed (use Cons.prems(1-3) in auto)
  with u new keys order show ?case by simp
qed simp

lemma check_batches_complete:
  assumes "distinct (concat bs)" and "set (concat bs) \<subseteq> eu_ID ` set units" and "\<forall>b \<in> set bs. unit_keys_ok units b"
    and "set (concat bs) \<inter> fst ` set placed = {}" and "\<forall>(x, b) \<in> set placed. b < i"
    and "\<And>earlier b later x d. bs = earlier @ b # later \<Longrightarrow> x \<in> set b \<Longrightarrow> d \<in> set (eu_DependsOn (unit_of units x)) \<Longrightarrow>
      d \<in> fst ` set placed \<union> set (concat earlier)"
    and "fst ` set placed \<subseteq> eu_ID ` set units"
  shows "\<exists>placed'. check_batches units i placed bs = Inr placed'"
  using assms
proof (induction bs arbitrary: i placed)
  case (Cons b bs)
  let ?placed = "rev (map (\<lambda>x. (x, i)) b) @ placed"
  have dom: "fst ` set ?placed = set b \<union> fst ` set placed" by (simp add: image_Un image_image)
  have deps: "d \<in> fst ` set placed" if "x \<in> set b" "d \<in> set (eu_DependsOn (unit_of units x))" for x d
    using Cons.prems(6)[of "[]" b bs x d] that by simp
  have "check_batch units i [] placed b = Inr ?placed"
  proof (rule check_batch_complete)
    show "\<forall>x \<in> set b. \<forall>d \<in> set (eu_DependsOn (unit_of units x)).
        d \<in> eu_ID ` set units \<and> d \<notin> set b \<and> (\<forall>c. map_of placed d = Some c \<longrightarrow> c < i)"
    proof (intro ballI conjI allI impI)
      fix x d assume "x \<in> set b" "d \<in> set (eu_DependsOn (unit_of units x))"
      from deps[OF this] have d: "d \<in> fst ` set placed" .
      then show "d \<in> eu_ID ` set units" "d \<notin> set b" using Cons.prems(4,7) by auto
      fix c assume "map_of placed d = Some c"
      then show "c < i" using Cons.prems(5) by (auto dest: map_of_SomeD)
    qed
  qed (use Cons.prems in auto)
  moreover have "\<exists>placed'. check_batches units (i + 1) ?placed bs = Inr placed'"
  proof (rule Cons.IH)
    show "d \<in> fst ` set ?placed \<union> set (concat earlier)"
      if "bs = earlier @ c # later" "x \<in> set c" "d \<in> set (eu_DependsOn (unit_of units x))" for earlier c later x d
      using Cons.prems(6)[of "b # earlier" c later x d] that dom by auto
    show "set (concat bs) \<inter> fst ` set ?placed = {}" unfolding dom using Cons.prems(1,4) by auto
    show "fst ` set ?placed \<subseteq> eu_ID ` set units" unfolding dom using Cons.prems(2,7) by auto
  qed (use Cons.prems in auto)
  ultimately show ?case by auto
qed simp

text \<open>A schedule whose parts are well formed and whose batches respect the dependencies is accepted.\<close>

lemma placement_ok:
  assumes "schedule_ok s" and "check_batches (sd_Units s) 0 [] (sd_Batches s) = Inr placed"
  shows "check_placement (sd_Units s) placed = None"
proof -
  note B = check_batches_Inr[OF assms(2)]
  have "length (concat (sd_Batches s)) = length placed" using B by (metis append_Nil2 length_map length_rev)
  moreover have "length (concat (sd_Batches s)) = length (sd_Units s)"
    using assms(1) unfolding schedule_ok_def by (metis distinct_card length_map list.set_map)
  ultimately have len: "length placed = length (sd_Units s)" by simp
  have "batch_of placed d < batch_of placed (eu_ID u)" if u: "u \<in> set (sd_Units s)" and d: "d \<in> set (eu_DependsOn u)" for u d
  proof -
    have uo: "unit_of (sd_Units s) (eu_ID u) = u" using unit_of_id[OF _ u] assms(1) by (simp add: schedule_ok_def)
    have "eu_ID u \<in> set (concat (sd_Batches s))" using assms(1) u by (simp add: schedule_ok_def)
    then obtain earlier b later where split: "sd_Batches s = earlier @ b # later" "eu_ID u \<in> set b"
      by (auto simp: in_set_conv_decomp[of _ "sd_Batches s"])
    have "d \<in> set (concat earlier)" using assms(1) split uo d unfolding schedule_ok_def by auto
    then obtain k where k: "k < length earlier" "d \<in> set (earlier ! k)" by (metis UN_E in_set_conv_nth set_concat)
    have at: "map_of placed x = Some j" if "j < length (sd_Batches s)" "x \<in> set (sd_Batches s ! j)" for j x using B that by simp
    have "map_of placed (eu_ID u) = Some (length earlier)" using at[of "length earlier" "eu_ID u"] split by simp
    moreover have "map_of placed d = Some k" using at[of k d] split(1) k by (simp add: nth_append)
    ultimately show ?thesis using k(1) by (simp add: batch_of_def)
  qed
  then show ?thesis unfolding check_placement_def using len by (fastforce simp: first_err_None_iff not_le)
qed

lemma schedule_accepted:
  assumes "schedule_ok s" and "validateScheduleClaims (sd_ReuseClaims s) = None"
    and "Option.bind (sd_LocalCapacity s) LocalCapacityRequest_Validate = None"
    and "check_units [] (sd_Units s) = None" and "[] \<notin> set (sd_Batches s)"
  shows "validateExecutionSchedule s = None"
proof (cases "sd_Units s = []")
  case True
  with assms(1) have "set (concat (sd_Batches s)) = {}" by (simp add: schedule_ok_def)
  then have "sd_Batches s = []" using assms(5) by (cases "sd_Batches s") auto
  with True assms show ?thesis by (simp add: validateExecutionSchedule_def)
next
  case False
  have "unit_keys_ok (sd_Units s) b" if "b \<in> set (sd_Batches s)" for b
    unfolding unit_keys_ok_def
  proof (intro ballI conjI impI)
    fix x assume "x \<in> set b"
    with that assms(1) have "unit_of (sd_Units s) x \<in> set (sd_Units s)" using unit_of_known[of x "sd_Units s"] by (auto simp: schedule_ok_def)
    moreover have "distinct (eu_MutationKeys u)" if "u \<in> set us" "check_units known us = None" for u us known
      using that by (induction us arbitrary: known) (auto simp: check_unit_def hasDuplicate_iff split: option.splits if_splits)
    ultimately show "distinct (eu_MutationKeys (unit_of (sd_Units s) x))" using assms(4) by blast
  qed (use that assms(1) in \<open>auto simp: schedule_ok_def\<close>)
  then have "\<exists>placed. check_batches (sd_Units s) 0 [] (sd_Batches s) = Inr placed"
    using assms(1) by (intro check_batches_complete) (auto simp: schedule_ok_def)
  then obtain placed where "check_batches (sd_Units s) 0 [] (sd_Batches s) = Inr placed" by blast
  with placement_ok[OF assms(1) this] False assms show ?thesis by (simp add: validateExecutionSchedule_def)
qed

section \<open>Schedules that were built\<close>

lemma check_unit_complete:
  assumes "\<not> blank (eu_ID u)" and "eu_CellIDs u \<noteq> []" and "unit_ok u" and "\<not> hasDuplicate (eu_CellIDs u)" and "eu_ID u \<notin> set known"
  shows "check_unit known u = None"
proof -
  have "unit_fingerprint u = None" using assms(3)
    by (auto simp: unit_fingerprint_def unit_ok_def ReuseFingerprint_Digest_def split: option.splits)
  with assms show ?thesis by (auto simp: check_unit_def unit_ok_def split: option.splits)
qed

lemma check_units_complete:
  assumes "distinct (map eu_ID us)" and "eu_ID ` set us \<inter> set known = {}"
    and "\<And>u. u \<in> set us \<Longrightarrow> \<not> blank (eu_ID u) \<and> eu_CellIDs u \<noteq> [] \<and> unit_ok u \<and> \<not> hasDuplicate (eu_CellIDs u)"
  shows "check_units known us = None"
  using assms by (induction us arbitrary: known) (auto simp: check_unit_complete)

lemma unit_id_not_blank: "\<not> blank (unit_id c)"
proof -
  have "\<not> blank (''unit-'' @ h)" "\<not> blank (''transition-'' @ h)" for h unfolding append_Cons by (rule not_blank_ascii; code_simp)+
  then show ?thesis by (simp add: unit_id_def executionUnitForBaseline_def executionUnitForTransition_def)
qed

lemma check_claims_complete:
  assumes "\<forall>c \<in> set cs. \<not> blank (cm_SessionID c) \<and> \<not> has_control (cm_SessionID c) \<and> \<not> blank (cm_Owner c) \<and> \<not> has_control (cm_Owner c) \<and>
      (\<exists>d. ReuseFingerprint_Digest (cm_Fingerprint c) = Inr d)"
    and "distinct (map (ReuseFingerprint_Digest \<circ> cm_Fingerprint) cs)"
    and "\<forall>c \<in> set cs. \<forall>d \<in> set seen. ReuseFingerprint_Digest (cm_Fingerprint c) \<noteq> Inr d"
  shows "check_claims seen cs = None"
  using assms
proof (induction cs arbitrary: seen)
  case (Cons c cs)
  from Cons.prems(1) obtain d where d: "ReuseFingerprint_Digest (cm_Fingerprint c) = Inr d" by auto
  then have v: "ReuseFingerprint_Validate (cm_Fingerprint c) = None" by (auto simp: ReuseFingerprint_Digest_def split: option.splits)
  have "check_claims (d # seen) cs = None"
    by (rule Cons.IH) (use Cons.prems d in \<open>auto simp: image_iff\<close>)
  moreover have "d \<notin> set seen" using Cons.prems(3) d by auto
  ultimately show ?case using Cons.prems(1) d v by simp
qed simp

lemma collect_claims_distinct:
  "distinct (map (ReuseFingerprint_Digest \<circ> cm_Fingerprint) (collect_claims seen found)) \<and>
   (\<forall>c \<in> set (collect_claims seen found). \<forall>d \<in> set seen. ReuseFingerprint_Digest (cm_Fingerprint c) \<noteq> Inr d)"
proof (induction seen found rule: collect_claims.induct)
  case (2 seen cellID r rs)
  show ?case
  proof (cases "sr_ClaimOwner r = []")
    case False
    show ?thesis
    proof (cases "ReuseFingerprint_Digest (sr_Fingerprint r)")
      case (Inr d)
      with 2(3)[OF False Inr] 2(4)[OF False Inr] Inr False show ?thesis by auto
    qed (use 2(1,2) False in auto)
  qed (use 2(1) in simp)
qed simp

lemma built_claims_valid:
  assumes "memory_release.claim_books reg owner found reg'" and "records_valid reg" and "\<not> blank owner" and "\<not> has_control owner"
    and "\<forall>d r. reg d = Some r \<longrightarrow> \<not> blank (sr_SessionID r)"
  shows "validateScheduleClaims (reusableSessionClaims found) = None"
proof -
  have found: "found_ok reg owner found" using assms(1) unfolding memory_release.claim_books_def by blast
  have claims: "\<exists>d. claim_of reg owner d c" if "c \<in> set (reusableSessionClaims found)" for c
    using collect_claims_ok[OF assms(2) found not_blank_imp_ne[OF assms(3)], of "[]"] that by (auto simp: reusableSessionClaims_def)
  have "\<forall>c \<in> set (reusableSessionClaims found). \<not> blank (cm_SessionID c) \<and> \<not> has_control (cm_SessionID c) \<and> \<not> blank (cm_Owner c) \<and>
      \<not> has_control (cm_Owner c) \<and> (\<exists>d. ReuseFingerprint_Digest (cm_Fingerprint c) = Inr d)"
  proof
    fix c assume "c \<in> set (reusableSessionClaims found)"
    from claims[OF this] obtain d r where c: "cm_Owner c = owner" "ReuseFingerprint_Digest (cm_Fingerprint c) = Inr d"
      "reg d = Some r" "cm_SessionID c = sr_SessionID r" by (auto simp: claim_of_def)
    with assms(3-5) valid_record_control[OF records_validD(1)[OF assms(2) c(3)]]
    show "\<not> blank (cm_SessionID c) \<and> \<not> has_control (cm_SessionID c) \<and> \<not> blank (cm_Owner c) \<and>
      \<not> has_control (cm_Owner c) \<and> (\<exists>d. ReuseFingerprint_Digest (cm_Fingerprint c) = Inr d)" by auto
  qed
  moreover have "distinct (map (ReuseFingerprint_Digest \<circ> cm_Fingerprint) (reusableSessionClaims found))"
    using collect_claims_distinct[of "[]" found] by (simp add: reusableSessionClaims_def distinct_map_sort)
  ultimately show ?thesis unfolding validateScheduleClaims_def by (intro check_claims_complete) auto
qed

lemma built_cells:
  assumes "BuildSchedule now uuid ctx admission cells options reg = (Inr s, reg')" and "c \<in> set cells"
  shows "cell_ok c"
  using assms(2) validateScheduleCells_None(2) prepare_schedule_Inr(2) BuildSchedule_Inr[OF assms(1)] by metis

lemma built_capacity:
  assumes "BuildSchedule now uuid ctx admission cells options reg = (Inr s, reg')"
  shows "Option.bind (sd_LocalCapacity s) LocalCapacityRequest_Validate = None"
proof -
  from BuildSchedule_Inr[OF assms] obtain owner capacity completed found where
    prep: "prepare_schedule now uuid admission cells options = Inr (owner, capacity, completed)"
    and plan: "plan_schedule cells options capacity completed found = Inr s" by metis
  have "local_capacity options = Inr capacity"
    using prep by (auto simp: prepare_schedule_def Let_def split: if_splits option.splits sum.splits)
  moreover have "sd_LocalCapacity s = capacity" using plan_schedule_Inr[OF plan] by metis
  ultimately show ?thesis by (cases capacity) (auto simp: local_capacity_def split: option.splits if_splits)
qed

lemma built_schedule_ok:
  assumes "BuildSchedule now uuid ctx admission cells options reg = (Inr s, reg')" and "no_hash_collision cells"
  shows "schedule_ok s" and "[] \<notin> set (sd_Batches s)" and "check_units [] (sd_Units s) = None"
proof -
  note b = built_plan[OF assms]
  have ok: "units_ok (filter (pending_cell (sd_CompletedCellIDs s)) cells) (sd_Units s)" using b(1) by (simp add: plan_ok_def)
  then have d: "distinct (map eu_ID (sd_Units s))" by (simp add: units_ok_def)
  have bo: "batches_ok (so_MaxParallel options) (so_QuotaByKey options) (sd_Units s) [] (sd_Batches s)"
    using makeBatches_ok[OF b(2) d] b(3) by simp
  have uo: "unit_of (sd_Units s) x \<in> set (sd_Units s) \<and> eu_ID (unit_of (sd_Units s) x) = x" if "x \<in> set (concat (sd_Batches s))" for x
    using unit_of_known[of x "sd_Units s"] batches_ok_cover[OF bo] that by auto
  have apart: "keys_of s x \<inter> keys_of s y = {}" if "bt \<in> set (sd_Batches s)" "x \<in> set bt" "y \<in> set bt" "x \<noteq> y" for bt x y
  proof -
    have "x \<in> set (concat (sd_Batches s))" "y \<in> set (concat (sd_Batches s))" using that by auto
    from uo[OF this(1)] uo[OF this(2)] batches_apart[OF bo d that(1)] that show ?thesis by metis
  qed
  have deps: "dp \<in> set (concat earlier)" if "sd_Batches s = earlier @ bt # later" "x \<in> set bt" "dp \<in> set (eu_DependsOn (unit_of (sd_Units s) x))"
    for earlier bt later x dp
    using batches_ok_dependencies[OF bo[unfolded that(1)], of "unit_of (sd_Units s) x"] uo[of x] d that by auto
  show "schedule_ok s" unfolding schedule_ok_def using batches_ok_cover[OF bo] d apart deps by auto
  show "[] \<notin> set (sd_Batches s)" using batches_ok_each[OF bo, of "[]"] by (auto simp: batch_ok_def)
  have cells: "\<not> blank (sc_ID c)" if "c \<in> set cells" for c using built_cells[OF assms(1)] that by (simp add: cell_ok_def)
  show "check_units [] (sd_Units s) = None"
  proof (rule check_units_complete[OF d])
    fix u assume u: "u \<in> set (sd_Units s)"
    from ok have "eu_ID ` set (sd_Units s) = unit_id ` set (filter (pending_cell (sd_CompletedCellIDs s)) cells)" by (simp add: units_ok_def)
    with u obtain c where c: "c \<in> set (filter (pending_cell (sd_CompletedCellIDs s)) cells)" "eu_ID u = unit_id c" by blast
    from ok u have U: "unit_ok u" "distinct (eu_CellIDs u)"
      "set (eu_CellIDs u) = sc_ID ` {c \<in> set (filter (pending_cell (sd_CompletedCellIDs s)) cells). unit_id c = eu_ID u}"
      by (simp_all add: units_ok_def)
    have "sc_ID c \<in> set (eu_CellIDs u)" unfolding U(3) using c by auto
    then have "eu_CellIDs u \<noteq> []" by auto
    moreover have "[] \<notin> set (eu_CellIDs u)" unfolding U(3) using cells by fastforce
    ultimately show "\<not> blank (eu_ID u) \<and> eu_CellIDs u \<noteq> [] \<and> unit_ok u \<and> \<not> hasDuplicate (eu_CellIDs u)"
      using U c(2) unit_id_not_blank by (simp add: hasDuplicate_iff)
  qed simp
qed

text \<open>
  C20. A schedule that was built against the in-memory registry, in any state its operations lead to, is one that the
  runner accepts: it passes every check of \<^verbatim>\<open>validateExecutionSchedule\<close>. The conditions are that no record names the
  owner of the build yet, that no registered session ID is blank, and that the short hashes tell the units apart.
\<close>

theorem built_schedule_accepted:
  assumes "BuildSchedule now uuid ctx admission cells options reg = (Inr s, reg')" and "no_hash_collision cells"
    and "so_SessionRegistry options = memory_ref" and "registry_step\<^sup>*\<^sup>* NewMemorySessionRegistry reg" and "\<not> has_control uuid"
    and "\<forall>d r owner. reg d = Some r \<longrightarrow>
      resolveScheduleClaimOwner (so_ClaimOwner options) memory_ref uuid = Inr owner \<longrightarrow> sr_ClaimOwner r \<noteq> owner"
    and "\<forall>d r. reg d = Some r \<longrightarrow> \<not> blank (sr_SessionID r)"
  shows "validateExecutionSchedule s = None"
proof (rule schedule_accepted)
  from built_books[OF assms(1,3-6)] obtain owner found where b: "memory_release.claim_books reg owner found reg'"
    "sd_ReuseClaims s = reusableSessionClaims found" "records_valid reg" "\<not> blank owner" "\<not> has_control owner" .
  show "validateScheduleClaims (sd_ReuseClaims s) = None" unfolding b(2) by (rule built_claims_valid[OF b(1,3-5) assms(7)])
  show "Option.bind (sd_LocalCapacity s) LocalCapacityRequest_Validate = None" by (rule built_capacity[OF assms(1)])
qed (use built_schedule_ok[OF assms(1,2)] in auto)

theorem built_schedule_accepted_witness:
  "\<exists>s reg'. BuildSchedule ex_now [] (\<lambda>_. None) (Inl []) [ex_reuse_cell] (ex_options memory_ref 1000) ex_registry = (Inr s, reg') \<and>
     validateExecutionSchedule s = None"
proof -
  obtain s where b: "BuildSchedule ex_now [] (\<lambda>_. None) (Inl []) [ex_reuse_cell] (ex_options memory_ref 1000) ex_registry =
    (Inr s, ex_registry(ex_digest \<mapsto> ex_claimed))" by (rule ex_reuse_built)
  have "no_hash_collision [ex_reuse_cell]" by (rule distinct_no_collision) simp
  from built_schedule_accepted[OF b this ex_registry_free(3,1,2,4,5)] b show ?thesis by blast
qed

text \<open>
  C21. Once a schedule that was built has been run, whether it succeeded, failed or was refused, the session registry
  is what it was before the build: no reservation outlives the run. This is for the in-memory registry, in any state its
  operations lead to, in which no record names the owner of the build yet and no session ID is blank; the run uses the
  same registry, with a checkpoint writer and timeouts that are not negative, and no release of a claim runs into its
  timeout.
\<close>

theorem build_and_run_free_sessions:
  assumes "BuildSchedule now uuid ctx admission cells options reg = (Inr s, reg')"
    and "ExecuteSchedule (Some w) s (Some ex) run_options reg' = (result, reg2)"
    and "so_SessionRegistry options = memory_ref" and "registry_step\<^sup>*\<^sup>* NewMemorySessionRegistry reg" and "\<not> has_control uuid"
    and "\<forall>d r owner. reg d = Some r \<longrightarrow>
      resolveScheduleClaimOwner (so_ClaimOwner options) memory_ref uuid = Inr owner \<longrightarrow> sr_ClaimOwner r \<noteq> owner"
    and "\<forall>d r. reg d = Some r \<longrightarrow> \<not> blank (sr_SessionID r)"
    and "xo_SessionRegistry run_options = memory_ref" and "xo_CheckpointWriter run_options \<noteq> None"
    and "0 \<le> xo_ClaimReleaseTimeout run_options" and "0 \<le> xo_CheckpointWriteTimeout run_options" and "rw_Claim w = (\<lambda>_. None)"
  shows "reg2 = reg"
proof -
  have restored: "ReleaseScheduleClaims (Some (\<lambda>_. None)) memory_ref (sd_ReuseClaims s) reg' = ([], reg)"
    by (rule built_claims_restore[OF assms(1,3-7)])
  have "release_schedule w run_options s reg' = ([], reg)"
  proof (cases "sd_ReuseClaims s = []")
    case True
    with restored have "reg' = reg" by (simp add: ReleaseScheduleClaims_def)
    with True show ?thesis by (simp add: release_schedule_def)
  next
    case False
    with restored assms(8,12) show ?thesis by (simp add: release_schedule_def memory_ref_def)
  qed
  with assms(2,9-11) show ?thesis by (auto simp: ExecuteSchedule_def split: prod.splits)
qed

theorem build_and_run_free_sessions_witness:
  "\<exists>s result. ExecuteSchedule (Some ex_world) s (Some ex_executor) (ex_run_options\<lparr>xo_SessionRegistry := memory_ref\<rparr>)
     (ex_registry(ex_digest \<mapsto> ex_claimed)) = (result, ex_registry)"
proof -
  let ?o = "ex_run_options\<lparr>xo_SessionRegistry := memory_ref\<rparr>"
  obtain s where b: "BuildSchedule ex_now [] (\<lambda>_. None) (Inl []) [ex_reuse_cell] (ex_options memory_ref 1000) ex_registry =
    (Inr s, ex_registry(ex_digest \<mapsto> ex_claimed))" by (rule ex_reuse_built)
  obtain result reg2 where r: "ExecuteSchedule (Some ex_world) s (Some ex_executor) ?o (ex_registry(ex_digest \<mapsto> ex_claimed)) = (result, reg2)"
    by (rule prod.exhaust) (rule that)
  have "xo_SessionRegistry ?o = memory_ref" "xo_CheckpointWriter ?o \<noteq> None" "0 \<le> xo_ClaimReleaseTimeout ?o" "0 \<le> xo_CheckpointWriteTimeout ?o"
    "rw_Claim ex_world = (\<lambda>_. None)" by (simp_all add: ex_run_options_def ex_world_def)
  from build_and_run_free_sessions[OF b r ex_registry_free(3,1,2,4,5) this] r show ?thesis by blast
qed

end
