(* ===== verification/Resilience_Data.thy ===== *)
theory Resilience_Data
  imports Go_Context Go_Graph Go_Regexp
begin

text \<open>
  The data of the recovery contract: the architecture and resilience intents of
  \<^verbatim>\<open>sdk/contracts.go\<close>, the adapter descriptor and the recovery plan of \<^verbatim>\<open>sdk/resilience.go\<close>, and
  their validators. Go's string enumerations stay strings, because a value outside the enumeration is
  what the validators look for. A validator joins every problem it finds (\<^verbatim>\<open>errors.Join\<close>): here a list,
  empty for \<^verbatim>\<open>nil\<close>. Where the source ranges over a Go map the model keeps one order; only the order of
  the joined problems depends on it. The edge and observability intents are the types \<open>'e\<close> and \<open>'o\<close>,
  and their validators are arguments of \<open>ArchitectureIntent_Validate\<close>: what is proved holds for all.
\<close>

section \<open>Enumerations\<close>

abbreviation ResilienceBackup :: string where "ResilienceBackup \<equiv> ''backup''"
abbreviation ResilienceRestore :: string where "ResilienceRestore \<equiv> ''restore''"
abbreviation ResilienceIntegrityCheck :: string where "ResilienceIntegrityCheck \<equiv> ''integrity-check''"
abbreviation ResilienceFailover :: string where "ResilienceFailover \<equiv> ''failover''"
abbreviation ResilienceFailback :: string where "ResilienceFailback \<equiv> ''failback''"
abbreviation ResilienceFence :: string where "ResilienceFence \<equiv> ''fence''"
abbreviation ResilienceCleanup :: string where "ResilienceCleanup \<equiv> ''cleanup''"

definition validResilienceAction :: "string \<Rightarrow> bool" where
  "validResilienceAction action \<longleftrightarrow> action \<in> set
     [ResilienceBackup, ResilienceRestore, ResilienceIntegrityCheck, ResilienceFailover,
      ResilienceFailback, ResilienceFence, ResilienceCleanup]"

abbreviation RecoverySameRegion :: string where "RecoverySameRegion \<equiv> ''same-region''"
abbreviation RecoverySameRegionIsolated :: string where "RecoverySameRegionIsolated \<equiv> ''same-region-isolated''"
abbreviation RecoveryAlternateRegion :: string where "RecoveryAlternateRegion \<equiv> ''alternate-region''"
abbreviation RecoveryAlternateProvider :: string where "RecoveryAlternateProvider \<equiv> ''alternate-provider''"

definition validRecoveryDestination :: "string \<Rightarrow> bool" where
  "validRecoveryDestination destination \<longleftrightarrow> destination \<in> set
     [RecoverySameRegion, RecoverySameRegionIsolated, RecoveryAlternateRegion, RecoveryAlternateProvider]"

text \<open>The two groups of \<^verbatim>\<open>ResilienceCapabilityStatus\<close>: executable, and ruled out with a reason.\<close>

definition capability_open :: "string \<Rightarrow> bool" where
  "capability_open status \<longleftrightarrow> status \<in> set [''supported'', ''certified'', ''experimental'']"

definition capability_closed :: "string \<Rightarrow> bool" where
  "capability_closed status \<longleftrightarrow> status \<in> set [''unavailable'', ''unsupported'', ''blocked'']"

lemmas [go_defs] = validResilienceAction_def validRecoveryDestination_def capability_open_def
  capability_closed_def

section \<open>Intents\<close>

record ServiceBoundaryIntent =
  sb_Role :: string
  sb_Family :: string
  sb_Major :: string
  sb_Ownership :: string
  sb_ResourceReference :: string
  sb_FailureDomains :: "string list"
  sb_BackupProfile :: string
  sb_RecoveryProfile :: string
  sb_CapabilityID :: string

record DataClassIntent =
  dc_Name :: string
  dc_SourceOfTruth :: string
  dc_FailureDomains :: "string list"
  dc_BackupMethod :: string
  dc_RestoreMethod :: string
  dc_IntegrityMethod :: string
  dc_LossSemantics :: string
  dc_RetentionDays :: int
  dc_Encrypted :: bool
  dc_Immutable :: bool
  dc_DeletionProtection :: bool
  dc_OwnershipMarker :: string

record ProjectionTarget =
  pt_Runtime :: string
  pt_Cluster :: string
  pt_Service :: string
  pt_Task :: string
  pt_Namespace :: string
  pt_Workload :: string
  pt_Container :: string

record ResilienceIntent =
  ri_ProfileID :: string
  ri_AvailabilityTarget :: string
  ri_RPOSeconds :: int
  ri_RTOSeconds :: int
  ri_RetentionDays :: int
  ri_RecoveryScope :: string
  ri_FailoverOwner :: string
  ri_FencingPolicy :: string
  ri_RecoveryDestinations :: "string list"
  ri_DataClasses :: "DataClassIntent list"
  ri_Projection :: "ProjectionTarget option"

record ('e, 'o) ArchitectureIntent =
  ai_ProfileID :: string
  ai_Provider :: string
  ai_Runtime :: string
  ai_AccountOrProjectRef :: string
  ai_Region :: string
  ai_Regions :: "string list"
  ai_Zones :: "string list"
  ai_ComputeMode :: string
  ai_KubernetesMode :: string
  ai_NetworkMode :: string
  ai_NetworkProfile :: string
  ai_IngressMode :: string
  ai_Boundaries :: "ServiceBoundaryIntent list"
  ai_Edge :: 'e
  ai_Observability :: 'o
  ai_Resilience :: ResilienceIntent
  ai_ConfigurationFingerprint :: string
  ai_ArtifactDigest :: string
  ai_SchemaFingerprint :: string
  ai_MigrationFingerprint :: string
  ai_OwnershipMarker :: string

datatype intent_problem =
    IntentNotStableID string string
  | IntentRequired string
  | IntentDuplicate string string
  | IntentMultiline string
  | IntentInvalid string string
  | DataClassOutOfScope string
  | DataClassIncomplete string
  | DataClassRetention string
  | ResilienceObjectives
  | ResilienceRetention
  | DestinationsRequired
  | DataClassesRequired
  | ECSProjection string
  | KubernetesProjection string
  | EdgeProblem string
  | ObservabilityProblem string

text \<open>A provider is active unless it is blank or \<^verbatim>\<open>none\<close>.\<close>

definition activeProvider :: "string \<Rightarrow> bool" where
  "activeProvider p \<longleftrightarrow> TrimSpace p \<noteq> [] \<and> TrimSpace p \<noteq> ''none''"

definition intent_ID :: "string \<Rightarrow> string \<Rightarrow> intent_problem list" where
  "intent_ID name v = (if full_match stableID v then [] else [IntentNotStableID name v])"

definition intent_required :: "string \<times> string \<Rightarrow> intent_problem list" where
  "intent_required = (\<lambda>(name, value). if blank value then [IntentRequired name] else [])"

text \<open>The \<^verbatim>\<open>seen\<close> loops: what \<open>check\<close> says of an element, and a problem when its key came before.\<close>

fun seen_loop :: "('a \<Rightarrow> 'p list) \<Rightarrow> ('a \<Rightarrow> 'k) \<Rightarrow> ('a \<Rightarrow> 'p) \<Rightarrow> 'k list \<Rightarrow> 'a list \<Rightarrow> 'p list" where
  "seen_loop check key dup seen [] = []"
| "seen_loop check key dup seen (x # xs) =
     check x @ (if key x \<in> set seen then [dup x] else []) @ seen_loop check key dup (key x # seen) xs"

lemma seen_loop_Nil_iff:
  "seen_loop check key dup seen xs = [] \<longleftrightarrow>
     (\<forall>x \<in> set xs. check x = []) \<and> distinct (map key xs) \<and> set (map key xs) \<inter> set seen = {}"
  by (induction check key dup seen xs rule: seen_loop.induct) auto

lemma if_Nil_iff [simp]: "(if b then [] else [x]) = [] \<longleftrightarrow> b" "(if b then [x] else []) = [] \<longleftrightarrow> \<not> b"
  by auto

definition ProjectionTarget_Validate :: "ProjectionTarget \<Rightarrow> intent_problem list" where
  "ProjectionTarget_Validate p =
     concat (map (\<lambda>(name, value). if has_control value then [IntentMultiline name] else [])
       [(''runtime'', pt_Runtime p), (''cluster'', pt_Cluster p), (''service'', pt_Service p),
        (''task'', pt_Task p), (''namespace'', pt_Namespace p), (''workload'', pt_Workload p),
        (''container'', pt_Container p)]) @
     (if pt_Runtime p = ''ecs'' then
        (if blank (pt_Cluster p) \<or> blank (pt_Container p) then [ECSProjection ''cluster and container''] else []) @
        (if blank (pt_Service p) = blank (pt_Task p) then [ECSProjection ''service or task''] else []) @
        (if pt_Namespace p \<noteq> [] \<or> pt_Workload p \<noteq> [] then [ECSProjection ''namespace or workload''] else [])
      else if pt_Runtime p = ''kubernetes'' then
        (if blank (pt_Workload p) then [KubernetesProjection ''workload''] else []) @
        (if pt_Cluster p \<noteq> [] \<or> pt_Service p \<noteq> [] \<or> pt_Task p \<noteq> []
         then [KubernetesProjection ''cluster, service, or task''] else [])
      else [IntentInvalid ''projection runtime'' (pt_Runtime p)])"

definition validate_data_class :: "DataClassIntent \<Rightarrow> intent_problem list" where
  "validate_data_class c =
     (if blank (dc_Name c) \<or> blank (dc_SourceOfTruth c) \<or> blank (dc_BackupMethod c) \<or>
         blank (dc_RestoreMethod c) \<or> blank (dc_IntegrityMethod c) \<or> blank (dc_LossSemantics c) \<or>
         blank (dc_OwnershipMarker c)
      then [DataClassIncomplete (dc_Name c)] else []) @
     (if dc_RetentionDays c \<le> 0 then [DataClassRetention (dc_Name c)] else [])"

definition ResilienceIntent_Validate :: "ResilienceIntent \<Rightarrow> intent_problem list" where
  "ResilienceIntent_Validate r =
     concat (map intent_required
       [(''profile ID'', ri_ProfileID r), (''availability target'', ri_AvailabilityTarget r),
        (''recovery scope'', ri_RecoveryScope r), (''failover owner'', ri_FailoverOwner r),
        (''fencing policy'', ri_FencingPolicy r)]) @
     (if ri_RPOSeconds r \<le> 0 \<or> ri_RTOSeconds r \<le> 0 then [ResilienceObjectives] else []) @
     (if ri_RetentionDays r \<le> 0 then [ResilienceRetention] else []) @
     (if ri_RecoveryDestinations r = [] then [DestinationsRequired] else []) @
     seen_loop (\<lambda>d. if validRecoveryDestination d then [] else [IntentInvalid ''recovery destination'' d])
       (\<lambda>d. d) (IntentDuplicate ''recovery destination'') [] (ri_RecoveryDestinations r) @
     (if ri_DataClasses r = [] then [DataClassesRequired] else []) @
     (case ri_Projection r of None \<Rightarrow> [] | Some p \<Rightarrow> ProjectionTarget_Validate p) @
     seen_loop validate_data_class dc_Name (\<lambda>c. IntentDuplicate ''data class'' (dc_Name c)) [] (ri_DataClasses r)"

text \<open>\<^verbatim>\<open>strings.TrimSuffix(s, "/")\<close>\<close>

definition trim_slash :: "string \<Rightarrow> string" where
  "trim_slash s = (if s \<noteq> [] \<and> last s = CHR ''/'' then butlast s else s)"

definition ownershipWithin :: "string \<Rightarrow> string \<Rightarrow> bool" where
  "ownershipWithin parent child =
     (let parent = trim_slash (TrimSpace parent); child = TrimSpace child in
      parent \<noteq> [] \<and> child \<noteq> [] \<and> (child = parent \<or> prefix (parent @ ''/'') child))"

definition validateServiceBoundary :: "ServiceBoundaryIntent \<Rightarrow> intent_problem list" where
  "validateServiceBoundary b =
     concat (map intent_required
       [(''role'', sb_Role b), (''family'', sb_Family b), (''major'', sb_Major b),
        (''backup profile'', sb_BackupProfile b), (''recovery profile'', sb_RecoveryProfile b)]) @
     (if sb_Ownership b \<in> set [''managed'', ''self-hosted'', ''existing'', ''external''] then []
      else [IntentInvalid ''service boundary ownership'' (sb_Ownership b)]) @
     (if sb_CapabilityID b \<noteq> [] then intent_ID ''service boundary capability ID'' (sb_CapabilityID b) else []) @
     (if has_control (sb_ResourceReference b) then [IntentMultiline ''service boundary resource reference''] else [])"

definition ArchitectureIntent_Validate ::
  "('e \<Rightarrow> string option) \<Rightarrow> ('o \<Rightarrow> string option) \<Rightarrow> ('e, 'o) ArchitectureIntent \<Rightarrow> intent_problem list" where
  "ArchitectureIntent_Validate ValidateEdgeIntent ValidateObservabilityIntent a =
     intent_ID ''architecture profile ID'' (ai_ProfileID a) @
     intent_ID ''provider ID'' (ai_Provider a) @
     intent_ID ''runtime ID'' (ai_Runtime a) @
     intent_required (''account or project reference'', ai_AccountOrProjectRef a) @
     intent_required (''region'', ai_Region a) @
     concat (map (\<lambda>(name, values). seen_loop (intent_ID name) (\<lambda>v. v) (IntentDuplicate name) [] values)
       [(''architecture region list'', ai_Regions a), (''architecture zones'', ai_Zones a)]) @
     concat (map intent_required
       [(''compute mode'', ai_ComputeMode a), (''network mode'', ai_NetworkMode a),
        (''ingress mode'', ai_IngressMode a), (''artifact digest'', ai_ArtifactDigest a),
        (''schema fingerprint'', ai_SchemaFingerprint a),
        (''migration fingerprint'', ai_MigrationFingerprint a),
        (''ownership marker'', ai_OwnershipMarker a)]) @
     (if \<not> blank (ai_ConfigurationFingerprint a) \<and> has_control (ai_ConfigurationFingerprint a)
      then [IntentMultiline ''configuration fingerprint''] else []) @
     (if \<not> blank (ai_NetworkProfile a) then intent_ID ''architecture network profile'' (ai_NetworkProfile a) else []) @
     seen_loop validateServiceBoundary sb_Role (\<lambda>b. IntentDuplicate ''architecture service role'' (sb_Role b)) []
       (ai_Boundaries a) @
     concat (map (\<lambda>c. if ownershipWithin (ai_OwnershipMarker a) (dc_OwnershipMarker c) then []
                        else [DataClassOutOfScope (dc_Name c)]) (ri_DataClasses (ai_Resilience a))) @
     ResilienceIntent_Validate (ai_Resilience a) @
     (case ValidateEdgeIntent (ai_Edge a) of None \<Rightarrow> [] | Some e \<Rightarrow> [EdgeProblem e]) @
     (case ValidateObservabilityIntent (ai_Observability a) of None \<Rightarrow> [] | Some e \<Rightarrow> [ObservabilityProblem e])"

section \<open>The adapter descriptor\<close>

record ResilienceDataClassCapability =
  rc_Name :: string
  rc_Status :: string
  rc_Actions :: "string list"
  rc_Destinations :: "string list"
  rc_Strategy :: string
  rc_BackupMechanism :: string
  rc_RestoreMechanism :: string
  rc_IntegrityMethod :: string
  rc_RetentionPolicy :: string
  rc_EncryptionBoundary :: string
  rc_ProtectionMechanism :: string
  rc_PollingRequired :: bool
  rc_RetentionRequired :: bool
  rc_EncryptionRequired :: bool
  rc_ProtectionRequired :: bool
  rc_Reason :: string

record ResilienceAdapterDescriptor =
  rd_APIVersion :: string
  rd_ID :: string
  rd_Provider :: string
  rd_Version :: string
  rd_Capabilities :: "string list"
  rd_DataClasses :: "ResilienceDataClassCapability list"

datatype descriptor_problem =
    DescriptorAPIVersion string
  | DescriptorNotStableID string string
  | DescriptorVersion string
  | CapabilityRequired
  | CapabilityInvalid string
  | CapabilityDuplicate string
  | ClassActionsRequired string
  | ClassReasonRequired string
  | ClassClosedOperations string
  | ClassStatusInvalid string
  | ClassDuplicate string
  | ClassPollingRequired string
  | ClassPolicyRequired string string
  | ClassActionInvalid string
  | ClassActionDuplicate string
  | ClassDestinationsRequired string
  | ClassDestinationInvalid string
  | ClassDestinationDuplicate string

definition ExtensionAPIVersion :: string where "ExtensionAPIVersion = ''v1''"

text \<open>\<^verbatim>\<open>^[A-Za-z0-9][A-Za-z0-9.+_-]*$\<close>\<close>

definition extensionVersionPattern :: rx where
  "extensionVersionPattern =
     RSeq (RSet (\<lambda>c. chr_lower c \<or> chr_upper c \<or> chr_digit c))
       (RStar (RSet (\<lambda>c. chr_lower c \<or> chr_upper c \<or> chr_digit c \<or> c \<in> set ''.+_-'')))"

lemmas [go_defs] = ExtensionAPIVersion_def extensionVersionPattern_def

definition descriptor_ID :: "string \<Rightarrow> string \<Rightarrow> descriptor_problem list" where
  "descriptor_ID name v = (if full_match stableID v then [] else [DescriptorNotStableID name v])"

definition validateExtensionVersion :: "string \<Rightarrow> descriptor_problem list" where
  "validateExtensionVersion version =
     (if full_match extensionVersionPattern version then [] else [DescriptorVersion version])"

text \<open>What the loop over the data classes checks of one of them, apart from its name being new.\<close>

definition class_before_seen :: "ResilienceDataClassCapability \<Rightarrow> descriptor_problem list" where
  "class_before_seen c =
     descriptor_ID ''resilience adapter data-class capability name'' (rc_Name c) @
     (if capability_open (rc_Status c) then
        (if rc_Actions c = [] then [ClassActionsRequired (rc_Name c)] else [])
      else if capability_closed (rc_Status c) then
        (if blank (rc_Reason c) then [ClassReasonRequired (rc_Name c)] else []) @
        (if rc_Actions c \<noteq> [] \<or> rc_Destinations c \<noteq> [] then [ClassClosedOperations (rc_Name c)] else [])
      else [ClassStatusInvalid (rc_Status c)])"

definition class_after_seen :: "ResilienceDataClassCapability \<Rightarrow> descriptor_problem list" where
  "class_after_seen c =
     (if rc_Actions c \<noteq> [] \<and> \<not> rc_PollingRequired c then [ClassPollingRequired (rc_Name c)] else []) @
     (if rc_RetentionRequired c \<and> blank (rc_RetentionPolicy c)
      then [ClassPolicyRequired (rc_Name c) ''retention policy''] else []) @
     (if rc_EncryptionRequired c \<and> blank (rc_EncryptionBoundary c)
      then [ClassPolicyRequired (rc_Name c) ''encryption boundary''] else []) @
     (if rc_ProtectionRequired c \<and> blank (rc_ProtectionMechanism c)
      then [ClassPolicyRequired (rc_Name c) ''protection mechanism''] else []) @
     seen_loop (\<lambda>a. if validResilienceAction a then [] else [ClassActionInvalid a]) (\<lambda>a. a)
       ClassActionDuplicate [] (rc_Actions c) @
     (if ResilienceRestore \<in> set (rc_Actions c) \<and> rc_Destinations c = []
      then [ClassDestinationsRequired (rc_Name c)] else []) @
     seen_loop (\<lambda>d. if validRecoveryDestination d then [] else [ClassDestinationInvalid d]) (\<lambda>d. d)
       ClassDestinationDuplicate [] (rc_Destinations c)"

fun validate_capability_classes ::
  "string list \<Rightarrow> ResilienceDataClassCapability list \<Rightarrow> descriptor_problem list" where
  "validate_capability_classes seen [] = []"
| "validate_capability_classes seen (c # cs) =
     class_before_seen c @ (if rc_Name c \<in> set seen then [ClassDuplicate (rc_Name c)] else []) @
     class_after_seen c @ validate_capability_classes (rc_Name c # seen) cs"

definition ValidateResilienceAdapterDescriptor :: "ResilienceAdapterDescriptor \<Rightarrow> descriptor_problem list" where
  "ValidateResilienceAdapterDescriptor d =
     (if rd_APIVersion d \<noteq> ExtensionAPIVersion then [DescriptorAPIVersion (rd_APIVersion d)] else []) @
     descriptor_ID ''resilience adapter ID'' (rd_ID d) @
     descriptor_ID ''resilience adapter provider ID'' (rd_Provider d) @
     validateExtensionVersion (rd_Version d) @
     (if rd_Capabilities d = [] then [CapabilityRequired] else []) @
     seen_loop (\<lambda>a. if validResilienceAction a then [] else [CapabilityInvalid a]) (\<lambda>a. a)
       CapabilityDuplicate [] (rd_Capabilities d) @
     validate_capability_classes [] (rd_DataClasses d)"

lemma validate_capability_classes_Nil:
  "validate_capability_classes seen cs = [] \<longleftrightarrow>
     (\<forall>c \<in> set cs. class_before_seen c = [] \<and> class_after_seen c = []) \<and> distinct (map rc_Name cs) \<and>
     rc_Name ` set cs \<inter> set seen = {}"
  by (induction seen cs rule: validate_capability_classes.induct) auto

text \<open>An accepted descriptor names its data classes once, by stable IDs.\<close>

lemma descriptor_valid_names:
  assumes "ValidateResilienceAdapterDescriptor d = []"
  shows "distinct (map rc_Name (rd_DataClasses d))"
    and "c \<in> set (rd_DataClasses d) \<Longrightarrow> full_match stableID (rc_Name c)"
  using assms
  by (auto simp: ValidateResilienceAdapterDescriptor_def validate_capability_classes_Nil
      class_before_seen_def descriptor_ID_def split: if_splits)

section \<open>Plans and requests\<close>

record ResilienceStage =
  rs_ID :: string
  rs_Action :: string
  rs_DataClasses :: "string list"
  rs_Destination :: string
  rs_DependsOn :: "string list"
  rs_Idempotent :: bool
  rs_RequiresApproval :: bool
  rs_ApprovalReference :: string
  rs_ReconciliationReference :: string
  rs_RequiresSingleWriter :: bool
  rs_RequiresSplitBrainCheck :: bool
  rs_RequiresStaleOriginCheck :: bool
  rs_RequiresReconciliation :: bool

record ResiliencePlan =
  rp_AdapterID :: string
  rp_FixtureID :: string
  rp_OwnershipMarker :: string
  rp_Stages :: "ResilienceStage list"
  rp_RequiredProofs :: "string list"

text \<open>The reference maps of a request are association lists with distinct keys.\<close>

record ('e, 'o) ResiliencePlanRequest =
  rq_Architecture :: "('e, 'o) ArchitectureIntent"
  rq_FixtureID :: string
  rq_OwnershipMarker :: string
  rq_ApprovalReferences :: "(string \<times> string) list"
  rq_ReconciliationReferences :: "(string \<times> string) list"

datatype request_problem =
    RequestArchitecture intent_problem
  | RequestFixtureRequired
  | RequestOwnershipRequired
  | RequestOwnershipMismatch
  | ReferenceStageID string string
  | ReferenceUnsafe string string

definition validate_references :: "string \<Rightarrow> (string \<times> string) list \<Rightarrow> request_problem list" where
  "validate_references kind refs = concat (map (\<lambda>(stageID, reference).
     (if full_match stableID stageID then [] else [ReferenceStageID kind stageID]) @
     (if blank reference \<or> has_control reference then [ReferenceUnsafe kind stageID] else [])) refs)"

definition ValidateResiliencePlanRequest ::
  "('e \<Rightarrow> string option) \<Rightarrow> ('o \<Rightarrow> string option) \<Rightarrow> ('e, 'o) ResiliencePlanRequest \<Rightarrow> request_problem list" where
  "ValidateResiliencePlanRequest edge observability r =
     map RequestArchitecture (ArchitectureIntent_Validate edge observability (rq_Architecture r)) @
     (if blank (rq_FixtureID r) then [RequestFixtureRequired] else []) @
     (if blank (rq_OwnershipMarker r) then [RequestOwnershipRequired] else []) @
     (if rq_OwnershipMarker r \<noteq> ai_OwnershipMarker (rq_Architecture r) then [RequestOwnershipMismatch] else []) @
     validate_references ''approval'' (rq_ApprovalReferences r) @
     validate_references ''reconciliation'' (rq_ReconciliationReferences r)"

lemma validate_references_Nil:
  "validate_references kind refs = [] \<longleftrightarrow>
     (\<forall>(s, r) \<in> set refs. full_match stableID s \<and> single_line r)"
  by (auto simp: validate_references_def split: if_splits)

section \<open>Validation of a plan\<close>

datatype plan_problem =
    PlanAdapterRequired
  | PlanFixtureUnsafe
  | PlanOwnershipUnsafe
  | PlanNoStages
  | StageNotStableID string
  | StageActionInvalid string string
  | StageNotIdempotent string
  | StageNoDataClass string
  | StageUnknownDataClass string string
  | StageDuplicateDataClass string string
  | StageDestinationInvalid string string
  | StageReferenceUnsafe string string
  | StageReferenceUnneeded string string
  | StageFlagMisplaced string string
  | StageFailbackUnguarded string
  | StageDuplicate string
  | StageUnknownDependency string string
  | StageSelfDependency string
  | StageDuplicateDependency string string
  | StageCycle string
  | PlanProofsRequired

definition stage_classes :: "string list \<Rightarrow> ResilienceStage \<Rightarrow> plan_problem list" where
  "stage_classes known s = seen_loop (\<lambda>c. if c \<in> set known then [] else [StageUnknownDataClass (rs_ID s) c])
     (\<lambda>c. c) (StageDuplicateDataClass (rs_ID s)) [] (rs_DataClasses s)"

definition moves_writers :: "ResilienceStage \<Rightarrow> bool" where
  "moves_writers s \<longleftrightarrow>
     rs_Action s = ResilienceFence \<or> rs_Action s = ResilienceFailover \<or> rs_Action s = ResilienceFailback"

definition failback_guarded :: "ResilienceStage \<Rightarrow> bool" where
  "failback_guarded s \<longleftrightarrow>
     rs_RequiresApproval s \<and> rs_RequiresSingleWriter s \<and> rs_RequiresSplitBrainCheck s \<and>
     rs_RequiresStaleOriginCheck s \<and> rs_RequiresReconciliation s \<and>
     rs_ApprovalReference s \<noteq> [] \<and> rs_ReconciliationReference s \<noteq> []"

definition validate_stage :: "string list \<Rightarrow> ResilienceStage \<Rightarrow> plan_problem list" where
  "validate_stage known s =
     (if full_match stableID (rs_ID s) then [] else [StageNotStableID (rs_ID s)]) @
     (if validResilienceAction (rs_Action s) then [] else [StageActionInvalid (rs_ID s) (rs_Action s)]) @
     (if rs_Idempotent s then [] else [StageNotIdempotent (rs_ID s)]) @
     (if rs_DataClasses s = [] then [StageNoDataClass (rs_ID s)] else []) @
     stage_classes known s @
     (if rs_Destination s \<noteq> [] \<and> \<not> validRecoveryDestination (rs_Destination s)
      then [StageDestinationInvalid (rs_ID s) (rs_Destination s)] else []) @
     (if rs_ApprovalReference s \<noteq> [] \<and> (blank (rs_ApprovalReference s) \<or> has_control (rs_ApprovalReference s))
      then [StageReferenceUnsafe (rs_ID s) ''approval''] else []) @
     (if rs_ReconciliationReference s \<noteq> [] \<and>
         (blank (rs_ReconciliationReference s) \<or> has_control (rs_ReconciliationReference s))
      then [StageReferenceUnsafe (rs_ID s) ''reconciliation''] else []) @
     (if rs_ApprovalReference s \<noteq> [] \<and> \<not> rs_RequiresApproval s
      then [StageReferenceUnneeded (rs_ID s) ''approval''] else []) @
     (if rs_ReconciliationReference s \<noteq> [] \<and> \<not> rs_RequiresReconciliation s
      then [StageReferenceUnneeded (rs_ID s) ''reconciliation''] else []) @
     (if rs_RequiresSingleWriter s \<and> \<not> moves_writers s
      then [StageFlagMisplaced (rs_ID s) ''single-writer''] else []) @
     (if rs_RequiresSplitBrainCheck s \<and> \<not> moves_writers s
      then [StageFlagMisplaced (rs_ID s) ''split-brain''] else []) @
     (if rs_RequiresStaleOriginCheck s \<and> rs_Action s \<noteq> ResilienceFailover \<and> rs_Action s \<noteq> ResilienceFailback
      then [StageFlagMisplaced (rs_ID s) ''stale-origin''] else []) @
     (if rs_RequiresReconciliation s \<and> rs_Action s \<noteq> ResilienceFailback
      then [StageFlagMisplaced (rs_ID s) ''reconciliation''] else []) @
     (if rs_Action s = ResilienceFailback \<and> \<not> failback_guarded s
      then [StageFailbackUnguarded (rs_ID s)] else [])"

definition stage_dependencies :: "string list \<Rightarrow> ResilienceStage \<Rightarrow> plan_problem list" where
  "stage_dependencies known s = seen_loop
     (\<lambda>d. (if d \<in> set known then [] else [StageUnknownDependency (rs_ID s) d]) @
           (if d = rs_ID s then [StageSelfDependency (rs_ID s)] else []))
     (\<lambda>d. d) (StageDuplicateDependency (rs_ID s)) [] (rs_DependsOn s)"

text \<open>The graph of the cycle check: the last stage of an ID counts, unknown dependencies are skipped.\<close>

definition stage_graph :: "ResilienceStage list \<Rightarrow> string graph" where
  "stage_graph stages =
     map (\<lambda>s. (rs_ID s, filter (\<lambda>d. d \<in> rs_ID ` set stages) (rs_DependsOn s))) (rev stages)"

definition resiliencePlanCycles :: "ResilienceStage list \<Rightarrow> plan_problem option" where
  "resiliencePlanCycles stages = map_option StageCycle (find_cycle (stage_graph stages) (sort (map rs_ID stages)))"

definition ValidateResiliencePlan :: "ResiliencePlan \<Rightarrow> ResilienceIntent \<Rightarrow> plan_problem list" where
  "ValidateResiliencePlan plan intent =
     (if blank (rp_AdapterID plan) then [PlanAdapterRequired] else []) @
     (if blank (rp_FixtureID plan) \<or> has_control (rp_FixtureID plan) then [PlanFixtureUnsafe] else []) @
     (if blank (rp_OwnershipMarker plan) \<or> has_control (rp_OwnershipMarker plan) then [PlanOwnershipUnsafe] else []) @
     (if rp_Stages plan = [] then [PlanNoStages] else []) @
     seen_loop (validate_stage (map dc_Name (ri_DataClasses intent))) rs_ID (\<lambda>s. StageDuplicate (rs_ID s)) []
       (rp_Stages plan) @
     concat (map (stage_dependencies (map rs_ID (rp_Stages plan))) (rp_Stages plan)) @
     (case resiliencePlanCycles (rp_Stages plan) of None \<Rightarrow> [] | Some e \<Rightarrow> [e]) @
     (if rp_RequiredProofs plan = [] then [PlanProofsRequired] else [])"

section \<open>What a valid plan guarantees\<close>

lemma plan_valid:
  assumes "ValidateResiliencePlan plan intent = []"
  shows plan_valid_distinct: "distinct (map rs_ID (rp_Stages plan))"
    and plan_valid_stage: "s \<in> set (rp_Stages plan) \<Longrightarrow> validate_stage (map dc_Name (ri_DataClasses intent)) s = []"
    and plan_valid_dependencies: "s \<in> set (rp_Stages plan) \<Longrightarrow> set (rs_DependsOn s) \<subseteq> rs_ID ` set (rp_Stages plan)"
    and plan_valid_cycles: "resiliencePlanCycles (rp_Stages plan) = None"
    and plan_valid_bindings: "single_line (rp_FixtureID plan) \<and> single_line (rp_OwnershipMarker plan)"
proof -
  have parts: "seen_loop (validate_stage (map dc_Name (ri_DataClasses intent))) rs_ID
        (\<lambda>s. StageDuplicate (rs_ID s)) [] (rp_Stages plan) = []"
    "concat (map (stage_dependencies (map rs_ID (rp_Stages plan))) (rp_Stages plan)) = []"
    "(case resiliencePlanCycles (rp_Stages plan) of None \<Rightarrow> [] | Some e \<Rightarrow> [e]) = []"
    using assms by (simp_all only: ValidateResiliencePlan_def append_is_Nil_conv)
  from parts(1) show "distinct (map rs_ID (rp_Stages plan))"
    "s \<in> set (rp_Stages plan) \<Longrightarrow> validate_stage (map dc_Name (ri_DataClasses intent)) s = []"
    by (simp_all add: seen_loop_Nil_iff)
  show "set (rs_DependsOn s) \<subseteq> rs_ID ` set (rp_Stages plan)" if "s \<in> set (rp_Stages plan)"
  proof -
    from parts(2) that have "stage_dependencies (map rs_ID (rp_Stages plan)) s = []" by auto
    then show ?thesis by (auto simp: stage_dependencies_def seen_loop_Nil_iff split: if_splits)
  qed
  from parts(3) show "resiliencePlanCycles (rp_Stages plan) = None" by (auto split: option.splits)
  from assms show "single_line (rp_FixtureID plan) \<and> single_line (rp_OwnershipMarker plan)"
    unfolding ValidateResiliencePlan_def append_is_Nil_conv by (elim conjE) (auto split: if_splits)
qed

lemma stage_graph_deps:
  assumes "distinct (map rs_ID stages)" and "s \<in> set stages"
    and "set (rs_DependsOn s) \<subseteq> rs_ID ` set stages"
  shows "deps (stage_graph stages) (rs_ID s) = rs_DependsOn s"
proof -
  have "map_of (stage_graph stages) (rs_ID s) =
      Some (filter (\<lambda>d. d \<in> rs_ID ` set stages) (rs_DependsOn s))"
    by (rule map_of_is_SomeI) (use assms(1,2) in \<open>auto simp: stage_graph_def o_def distinct_map rev_map[symmetric]\<close>)
  moreover from assms(3) have "filter (\<lambda>d. d \<in> rs_ID ` set stages) (rs_DependsOn s) = rs_DependsOn s"
    by (auto simp: filter_id_conv)
  ultimately show ?thesis by (simp add: deps_def)
qed

lemma plan_cycle_check:
  "resiliencePlanCycles stages = None \<longleftrightarrow> acyclic (edges (stage_graph stages))"
proof -
  have "fst ` set (stage_graph stages) \<subseteq> set (sort (map rs_ID stages))" by (auto simp: stage_graph_def)
  from find_cycle_iff[OF this] show ?thesis by (simp add: resiliencePlanCycles_def)
qed

lemma validate_stage_failback:
  "validate_stage known s = [] \<Longrightarrow> rs_Action s = ResilienceFailback \<Longrightarrow> failback_guarded s"
  unfolding validate_stage_def append_is_Nil_conv by (elim conjE) (auto split: if_splits)

lemma validate_stage_idempotent: "validate_stage known s = [] \<Longrightarrow> rs_Idempotent s"
  unfolding validate_stage_def append_is_Nil_conv by (elim conjE) (auto split: if_splits)

end
