(* ===== verification/Resilience_Plan.thy ===== *)
theory Resilience_Plan
  imports Resilience_Data
begin

text \<open>
  \<^verbatim>\<open>sdk/resilience_plan.go\<close>: the compiler from an architecture's data classes and an adapter's
  capabilities to a recovery plan. The local variables of \<^verbatim>\<open>CompileResiliencePlan\<close> are the record
  \<open>plan_draft\<close>; every block of the function is one step on it, which may return an error. The result
  is compared with \<open>recovery_stages\<close>, the plan written down as one list.
\<close>

section \<open>Errors\<close>

record ResilienceCapabilityError =
  ce_AdapterID :: string
  ce_Operation :: string
  ce_DataClass :: string
  ce_Status :: string
  ce_Reason :: string

datatype compile_error =
    CompileDescriptor "descriptor_problem list"
  | CompileRequest "request_problem list"
  | CompileProvider string string
  | CompileUnavailable ResilienceCapabilityError
  | CompileDestination ResilienceCapabilityError
  | CompileSuffix string
  | CompileReconciliationRequired
  | CompileUnknownTarget string string
  | CompilePlan "plan_problem list"

definition resilienceCapabilityUnavailable ::
  "string \<Rightarrow> string \<Rightarrow> string \<Rightarrow> string \<Rightarrow> ResilienceCapabilityError" where
  "resilienceCapabilityUnavailable adapterID operation dataClass reason =
     \<lparr>ce_AdapterID = adapterID, ce_Operation = operation, ce_DataClass = dataClass, ce_Status = ''unavailable'',
      ce_Reason = (if blank reason then ''provider adapter does not expose this operation'' else reason)\<rparr>"

section \<open>Names\<close>

text \<open>\<^verbatim>\<open>[^a-z0-9]+\<close> replaced by one dash, every longest run at once.\<close>

fun dash_runs :: "bool \<Rightarrow> string \<Rightarrow> string" where
  "dash_runs inside [] = []"
| "dash_runs inside (c # s) =
     (if chr_lower_digit c then c # dash_runs False s
      else if inside then dash_runs True s
      else CHR ''-'' # dash_runs True s)"

definition trim_dashes :: "string \<Rightarrow> string" where
  "trim_dashes s = rev (dropWhile ((=) CHR ''-'') (rev (dropWhile ((=) CHR ''-'') s)))"

definition resilienceStageSuffix :: "string \<Rightarrow> string" where
  "resilienceStageSuffix name = trim_dashes (dash_runs False (ToLower (TrimSpace name)))"

definition resilienceRebuildOnly :: "string \<Rightarrow> bool" where
  "resilienceRebuildOnly m \<longleftrightarrow> ToLower (TrimSpace m) \<in> set [''none'', ''rebuild'', ''recreate'']"

definition uniqueResilienceStrings :: "string list \<Rightarrow> string list" where
  "uniqueResilienceStrings values = sort (uniq_seen [] (filter (\<lambda>v. \<not> blank v) values))"

section \<open>Capabilities and destinations\<close>

definition capability_map :: "ResilienceAdapterDescriptor \<Rightarrow> string \<Rightarrow> ResilienceDataClassCapability option" where
  "capability_map d = map_of (rev (map (\<lambda>c. (rc_Name c, c)) (rd_DataClasses d)))"

definition resilienceHasGlobalAction :: "ResilienceAdapterDescriptor \<Rightarrow> string \<Rightarrow> bool" where
  "resilienceHasGlobalAction d action \<longleftrightarrow> action \<in> set (rd_Capabilities d)"

text \<open>The zero value of a missing capability has no actions and no destinations.\<close>

definition resilienceHasAction ::
  "ResilienceAdapterDescriptor \<Rightarrow> ResilienceDataClassCapability option \<Rightarrow> string \<Rightarrow> bool" where
  "resilienceHasAction d cap action \<longleftrightarrow>
     resilienceHasGlobalAction d action \<and> (case cap of None \<Rightarrow> False | Some c \<Rightarrow> action \<in> set (rc_Actions c))"

definition containsRecoveryDestination :: "ResilienceDataClassCapability option \<Rightarrow> string \<Rightarrow> bool" where
  "containsRecoveryDestination cap candidate \<longleftrightarrow>
     (case cap of None \<Rightarrow> False | Some c \<Rightarrow> candidate \<in> set (rc_Destinations c))"

definition commonRecoveryDestination ::
  "string list \<Rightarrow> DataClassIntent list \<Rightarrow> (string \<Rightarrow> ResilienceDataClassCapability option)
     \<Rightarrow> ResilienceCapabilityError + string" where
  "commonRecoveryDestination requested classes caps =
     (case find (\<lambda>d. d \<in> set requested \<and>
                     list_all (\<lambda>c. containsRecoveryDestination (caps (dc_Name c)) d) classes)
             [RecoveryAlternateProvider, RecoveryAlternateRegion, RecoverySameRegionIsolated, RecoverySameRegion] of
        Some d \<Rightarrow> Inr d
      | None \<Rightarrow> Inl (resilienceCapabilityUnavailable ''core'' ResilienceRestore ''runtime''
          ''no requested recovery destination is supported by every selected data class''))"

definition resilienceRequiresFailover :: "string \<Rightarrow> bool" where
  "resilienceRequiresFailover d \<longleftrightarrow> d = RecoveryAlternateRegion \<or> d = RecoveryAlternateProvider"

definition resilienceRequiresFence :: "string \<Rightarrow> bool" where
  "resilienceRequiresFence d \<longleftrightarrow> d = RecoverySameRegion \<or> resilienceRequiresFailover d"

fun compile_capabilities ::
  "ResilienceAdapterDescriptor \<Rightarrow> (string \<Rightarrow> ResilienceDataClassCapability option) \<Rightarrow> DataClassIntent list
     \<Rightarrow> compile_error option" where
  "compile_capabilities d caps [] = None"
| "compile_capabilities d caps (c # cs) =
     (case caps (dc_Name c) of
        None \<Rightarrow> Some (CompileUnavailable (resilienceCapabilityUnavailable (rd_ID d) ResilienceRestore (dc_Name c)
          ''data class is not declared by the provider adapter''))
      | Some cap \<Rightarrow>
          if capability_closed (rc_Status cap)
          then Some (CompileUnavailable
                 (resilienceCapabilityUnavailable (rd_ID d) ResilienceRestore (dc_Name c) (rc_Reason cap)))
          else compile_capabilities d caps cs)"

section \<open>The stages\<close>

text \<open>A stage literal of the compiler; the fields it does not name are zero.\<close>

definition stage_of :: "string \<Rightarrow> string \<Rightarrow> string list \<Rightarrow> string \<Rightarrow> string list \<Rightarrow> ResilienceStage" where
  "stage_of ID' action classes destination depends =
     \<lparr>rs_ID = ID', rs_Action = action, rs_DataClasses = classes, rs_Destination = destination,
      rs_DependsOn = depends, rs_Idempotent = True, rs_RequiresApproval = False, rs_ApprovalReference = [],
      rs_ReconciliationReference = [], rs_RequiresSingleWriter = False, rs_RequiresSplitBrainCheck = False,
      rs_RequiresStaleOriginCheck = False, rs_RequiresReconciliation = False\<rparr>"

definition backupID :: "DataClassIntent \<Rightarrow> string" where
  "backupID c = ''backup-'' @ resilienceStageSuffix (dc_Name c)"

definition restoreID :: "DataClassIntent \<Rightarrow> string" where
  "restoreID c = ''restore-'' @ resilienceStageSuffix (dc_Name c)"

definition integrityID :: "DataClassIntent \<Rightarrow> string" where
  "integrityID c = ''integrity-'' @ resilienceStageSuffix (dc_Name c)"

definition backup_stage :: "string \<Rightarrow> DataClassIntent \<Rightarrow> ResilienceStage" where
  "backup_stage dest c = stage_of (backupID c) ResilienceBackup [dc_Name c] dest []"

definition fence_stage :: "string \<Rightarrow> string list \<Rightarrow> string list \<Rightarrow> ResilienceStage" where
  "fence_stage dest classes backups =
     (stage_of ''fence-runtime'' ResilienceFence classes dest backups)
       \<lparr>rs_RequiresApproval := True, rs_RequiresSingleWriter := True, rs_RequiresSplitBrainCheck := True\<rparr>"

definition restore_depends :: "string \<Rightarrow> DataClassIntent \<Rightarrow> string list" where
  "restore_depends fenceID c =
     (if resilienceRebuildOnly (dc_BackupMethod c) then [] else [backupID c]) @ (if fenceID \<noteq> [] then [fenceID] else [])"

definition restore_stage :: "string \<Rightarrow> string \<Rightarrow> DataClassIntent \<Rightarrow> ResilienceStage" where
  "restore_stage dest fenceID c =
     (stage_of (restoreID c) ResilienceRestore [dc_Name c] dest (restore_depends fenceID c))
       \<lparr>rs_RequiresApproval := (dest = RecoverySameRegion \<or> dc_Name c = ''queue'')\<rparr>"

definition integrity_stage :: "string \<Rightarrow> DataClassIntent \<Rightarrow> ResilienceStage" where
  "integrity_stage dest c = stage_of (integrityID c) ResilienceIntegrityCheck [dc_Name c] dest [restoreID c]"

definition failover_stage :: "string \<Rightarrow> string list \<Rightarrow> string list \<Rightarrow> ResilienceStage" where
  "failover_stage dest classes final =
     (stage_of ''failover-runtime'' ResilienceFailover classes dest final)
       \<lparr>rs_RequiresApproval := True, rs_RequiresSingleWriter := True, rs_RequiresSplitBrainCheck := True,
        rs_RequiresStaleOriginCheck := True\<rparr>"

definition failback_stage :: "string \<Rightarrow> string list \<Rightarrow> string list \<Rightarrow> ResilienceStage" where
  "failback_stage dest classes final =
     (stage_of ''failback-runtime'' ResilienceFailback classes dest final)
       \<lparr>rs_RequiresApproval := True, rs_RequiresSingleWriter := True, rs_RequiresSplitBrainCheck := True,
        rs_RequiresStaleOriginCheck := True, rs_RequiresReconciliation := True\<rparr>"

definition cleanup_stage :: "string \<Rightarrow> string list \<Rightarrow> string list \<Rightarrow> ResilienceStage" where
  "cleanup_stage dest classes final = stage_of ''cleanup-runtime'' ResilienceCleanup classes dest final"

section \<open>The steps\<close>

record plan_draft =
  pd_Stages :: "ResilienceStage list"
  pd_Proofs :: "string list"
  pd_All :: "string list"
  pd_Backups :: "string list"
  pd_Fence :: string
  pd_Final :: "string list"

definition empty_draft :: plan_draft where
  "empty_draft = \<lparr>pd_Stages = [], pd_Proofs = [], pd_All = [], pd_Backups = [], pd_Fence = [], pd_Final = []\<rparr>"

definition add_stage :: "ResilienceStage \<Rightarrow> string list \<Rightarrow> plan_draft \<Rightarrow> plan_draft" where
  "add_stage s proofs dr = dr\<lparr>pd_Stages := pd_Stages dr @ [s], pd_Proofs := pd_Proofs dr @ proofs\<rparr>"

definition bind_err :: "'e + 'a \<Rightarrow> ('a \<Rightarrow> 'e + 'b) \<Rightarrow> 'e + 'b" where
  "bind_err m f = (case m of Inl e \<Rightarrow> Inl e | Inr a \<Rightarrow> f a)"

fun each :: "('a \<Rightarrow> 's \<Rightarrow> 'e + 's) \<Rightarrow> 'a list \<Rightarrow> 's \<Rightarrow> 'e + 's" where
  "each f [] s = Inr s"
| "each f (x # xs) s = bind_err (f x s) (each f xs)"

definition lacks :: "ResilienceAdapterDescriptor \<Rightarrow> string \<Rightarrow> string \<Rightarrow> string \<Rightarrow> compile_error" where
  "lacks d action dataClass reason =
     CompileUnavailable (resilienceCapabilityUnavailable (rd_ID d) action dataClass reason)"

definition compile_backup ::
  "ResilienceAdapterDescriptor \<Rightarrow> (string \<Rightarrow> ResilienceDataClassCapability option) \<Rightarrow> string
     \<Rightarrow> DataClassIntent \<Rightarrow> plan_draft \<Rightarrow> compile_error + plan_draft" where
  "compile_backup d caps dest c dr =
     (if resilienceStageSuffix (dc_Name c) = [] then Inl (CompileSuffix (dc_Name c))
      else
        let dr = dr\<lparr>pd_All := pd_All dr @ [dc_Name c]\<rparr> in
        if resilienceRebuildOnly (dc_BackupMethod c) then Inr dr
        else if \<not> resilienceHasAction d (caps (dc_Name c)) ResilienceBackup
        then Inl (lacks d ResilienceBackup (dc_Name c) ''selected data class requires a backup operation'')
        else Inr ((add_stage (backup_stage dest c) [''backup:'' @ dc_Name c] dr)
               \<lparr>pd_Backups := pd_Backups dr @ [backupID c]\<rparr>))"

definition compile_fence ::
  "ResilienceAdapterDescriptor \<Rightarrow> string \<Rightarrow> plan_draft \<Rightarrow> compile_error + plan_draft" where
  "compile_fence d dest dr =
     (if \<not> resilienceRequiresFence dest then Inr dr
      else if \<not> resilienceHasGlobalAction d ResilienceFence
      then Inl (lacks d ResilienceFence ''runtime'' ''selected recovery destination requires fencing'')
      else Inr ((add_stage (fence_stage dest (pd_All dr) (pd_Backups dr)) [''fencing'', ''single-writer'', ''split-brain''] dr)
             \<lparr>pd_Fence := ''fence-runtime''\<rparr>))"

definition compile_restore ::
  "ResilienceAdapterDescriptor \<Rightarrow> (string \<Rightarrow> ResilienceDataClassCapability option) \<Rightarrow> string
     \<Rightarrow> DataClassIntent \<Rightarrow> plan_draft \<Rightarrow> compile_error + plan_draft" where
  "compile_restore d caps dest c dr =
     (if \<not> resilienceHasAction d (caps (dc_Name c)) ResilienceRestore
      then Inl (lacks d ResilienceRestore (dc_Name c) ''selected data class has no restore or reconstruction operation'')
      else
        let dr = add_stage (restore_stage dest (pd_Fence dr) c) [''restore:'' @ dc_Name c] dr in
        if \<not> resilienceHasAction d (caps (dc_Name c)) ResilienceIntegrityCheck
        then Inl (lacks d ResilienceIntegrityCheck (dc_Name c) ''selected data class has no integrity verification operation'')
        else Inr ((add_stage (integrity_stage dest c) [''integrity:'' @ dc_Name c] dr)
               \<lparr>pd_Final := pd_Final dr @ [integrityID c]\<rparr>))"

definition compile_failover ::
  "ResilienceAdapterDescriptor \<Rightarrow> string \<Rightarrow> plan_draft \<Rightarrow> compile_error + plan_draft" where
  "compile_failover d dest dr =
     (if \<not> resilienceRequiresFailover dest then Inr dr
      else if \<not> resilienceHasGlobalAction d ResilienceFailover
      then Inl (lacks d ResilienceFailover ''runtime'' ''selected recovery destination requires traffic failover'')
      else Inr ((add_stage (failover_stage dest (pd_All dr) (pd_Final dr))
                   [''failover'', ''single-writer'', ''split-brain'', ''stale-origin''] dr)
             \<lparr>pd_Final := [''failover-runtime'']\<rparr>))"

definition failback_requested :: "('e, 'o) ResiliencePlanRequest \<Rightarrow> bool" where
  "failback_requested r \<longleftrightarrow> map_of (rq_ApprovalReferences r) ''failback-runtime'' \<noteq> None"

text \<open>Reading a Go map of strings: the empty string where there is no entry.\<close>

definition lookup_string :: "(string \<times> string) list \<Rightarrow> string \<Rightarrow> string" where
  "lookup_string m k = (case map_of m k of None \<Rightarrow> [] | Some v \<Rightarrow> v)"

definition compile_failback ::
  "ResilienceAdapterDescriptor \<Rightarrow> ('e, 'o) ResiliencePlanRequest \<Rightarrow> string \<Rightarrow> plan_draft
     \<Rightarrow> compile_error + plan_draft" where
  "compile_failback d r dest dr =
     (if \<not> failback_requested r then Inr dr
      else if \<not> resilienceRequiresFailover dest
      then Inl (lacks d ResilienceFailback ''runtime''
             ''failback requires an alternate-region or alternate-provider recovery destination'')
      else if \<not> resilienceHasGlobalAction d ResilienceFailback
      then Inl (lacks d ResilienceFailback ''runtime'' ''provider adapter has not opted into controlled failback'')
      else if blank (lookup_string (rq_ReconciliationReferences r) ''failback-runtime'')
      then Inl CompileReconciliationRequired
      else Inr ((add_stage (failback_stage dest (pd_All dr) (pd_Final dr))
                   [''failback'', ''reconciliation'', ''single-writer'', ''split-brain'', ''stale-origin''] dr)
             \<lparr>pd_Final := [''failback-runtime'']\<rparr>))"

definition compile_cleanup ::
  "ResilienceAdapterDescriptor \<Rightarrow> string \<Rightarrow> plan_draft \<Rightarrow> compile_error + plan_draft" where
  "compile_cleanup d dest dr =
     (if \<not> resilienceHasGlobalAction d ResilienceCleanup
      then Inl (lacks d ResilienceCleanup ''runtime'' ''recovery cleanup is not implemented by the provider adapter'')
      else Inr (add_stage (cleanup_stage dest (pd_All dr) (pd_Final dr)) [''cleanup''] dr))"

definition compile_draft ::
  "ResilienceAdapterDescriptor \<Rightarrow> ('e, 'o) ResiliencePlanRequest
     \<Rightarrow> (string \<Rightarrow> ResilienceDataClassCapability option) \<Rightarrow> string \<Rightarrow> DataClassIntent list
     \<Rightarrow> compile_error + plan_draft" where
  "compile_draft d r caps dest classes =
     bind_err (bind_err (bind_err (bind_err (bind_err
       (each (compile_backup d caps dest) classes empty_draft)
       (compile_fence d dest))
       (each (compile_restore d caps dest) classes))
       (compile_failover d dest))
       (compile_failback d r dest))
       (compile_cleanup d dest)"

section \<open>Admission references\<close>

definition resilienceReferenceKeys :: "(string \<times> string) list \<Rightarrow> string list" where
  "resilienceReferenceKeys refs = sort (map fst refs)"

fun resilienceStageIndex :: "ResilienceStage list \<Rightarrow> string \<Rightarrow> nat option" where
  "resilienceStageIndex [] stageID = None"
| "resilienceStageIndex (s # ss) stageID =
     (if rs_ID s = stageID then Some 0 else map_option Suc (resilienceStageIndex ss stageID))"

fun bind_references ::
  "string \<Rightarrow> (string \<Rightarrow> ResilienceStage \<Rightarrow> ResilienceStage) \<Rightarrow> (string \<times> string) list \<Rightarrow> string list
     \<Rightarrow> ResilienceStage list \<Rightarrow> compile_error + ResilienceStage list" where
  "bind_references kind put refs [] stages = Inr stages"
| "bind_references kind put refs (k # ks) stages =
     (case resilienceStageIndex stages k of
        None \<Rightarrow> Inl (CompileUnknownTarget kind k)
      | Some i \<Rightarrow> bind_references kind put refs ks (stages[i := put (lookup_string refs k) (stages ! i)]))"

definition put_approval :: "string \<Rightarrow> ResilienceStage \<Rightarrow> ResilienceStage" where
  "put_approval v s = s\<lparr>rs_ApprovalReference := v\<rparr>"

definition put_reconciliation :: "string \<Rightarrow> ResilienceStage \<Rightarrow> ResilienceStage" where
  "put_reconciliation v s = s\<lparr>rs_ReconciliationReference := v\<rparr>"

definition bindResilienceAdmissionReferences ::
  "ResilienceStage list \<Rightarrow> ('e, 'o) ResiliencePlanRequest \<Rightarrow> compile_error + ResilienceStage list" where
  "bindResilienceAdmissionReferences stages r =
     bind_err
       (bind_references ''approval'' put_approval (rq_ApprovalReferences r)
         (resilienceReferenceKeys (rq_ApprovalReferences r)) stages)
       (bind_references ''reconciliation'' put_reconciliation (rq_ReconciliationReferences r)
         (resilienceReferenceKeys (rq_ReconciliationReferences r)))"

section \<open>The compiler\<close>

definition sorted_classes :: "('e, 'o) ResiliencePlanRequest \<Rightarrow> DataClassIntent list" where
  "sorted_classes r = sort_key dc_Name (ri_DataClasses (ai_Resilience (rq_Architecture r)))"

definition finish_plan ::
  "ResilienceAdapterDescriptor \<Rightarrow> ('e, 'o) ResiliencePlanRequest \<Rightarrow> plan_draft \<Rightarrow> compile_error + ResiliencePlan" where
  "finish_plan d r dr =
     bind_err (bindResilienceAdmissionReferences (pd_Stages dr) r) (\<lambda>stages.
       let plan = \<lparr>rp_AdapterID = rd_ID d, rp_FixtureID = rq_FixtureID r, rp_OwnershipMarker = rq_OwnershipMarker r,
                   rp_Stages = stages, rp_RequiredProofs = uniqueResilienceStrings (pd_Proofs dr)\<rparr>;
           problems = ValidateResiliencePlan plan (ai_Resilience (rq_Architecture r))
       in if problems \<noteq> [] then Inl (CompilePlan problems) else Inr plan)"

definition CompileResiliencePlan ::
  "('e \<Rightarrow> string option) \<Rightarrow> ('o \<Rightarrow> string option) \<Rightarrow> ResilienceAdapterDescriptor
     \<Rightarrow> ('e, 'o) ResiliencePlanRequest \<Rightarrow> compile_error + ResiliencePlan" where
  "CompileResiliencePlan edge observability d r =
     (let descriptor = ValidateResilienceAdapterDescriptor d;
          request = ValidateResiliencePlanRequest edge observability r;
          classes = sorted_classes r;
          caps = capability_map d
      in
      if descriptor \<noteq> [] then Inl (CompileDescriptor descriptor)
      else if request \<noteq> [] then Inl (CompileRequest request)
      else if rd_Provider d \<noteq> ai_Provider (rq_Architecture r)
      then Inl (CompileProvider (rd_Provider d) (ai_Provider (rq_Architecture r)))
      else case compile_capabilities d caps classes of Some e \<Rightarrow> Inl e
      | None \<Rightarrow> (case commonRecoveryDestination (ri_RecoveryDestinations (ai_Resilience (rq_Architecture r))) classes caps of
          Inl e \<Rightarrow> Inl (CompileDestination e)
        | Inr dest \<Rightarrow> bind_err (compile_draft d r caps dest classes) (finish_plan d r)))"

end
