(* ===== verification/Resilience_Execute.thy ===== *)
theory Resilience_Execute
  imports Resilience_Plan
begin

text \<open>
  Execution of one stage: the admission check of \<^verbatim>\<open>sdk/resilience.go\<close> and the operation-backed adapter
  of \<^verbatim>\<open>sdk/resilience_lifecycle.go\<close>. The operation client is provider code: three total functions on
  the world that may answer anything. Every call is appended to a trace the caller hands in, so that
  what was asked of the provider can be stated.
\<close>

section \<open>Admission\<close>

record ResilienceExecutionRequest =
  xr_Plan :: ResiliencePlan
  xr_StageID :: string
  xr_FixtureID :: string
  xr_IdempotencyKey :: string
  xr_OwnershipMarker :: string
  xr_ResourceReferences :: "(string \<times> string) list"
  xr_BackupReferences :: "(string \<times> string) list"
  xr_ApprovalReference :: string
  xr_ReconciliationReference :: string

datatype admission_error =
    AdmissionRequired string
  | AdmissionMultiline string
  | AdmissionDataClass string string
  | AdmissionReference string string
  | AdmissionUnknownStage string
  | ResilienceAdmissionError string string string string
  | AdmissionNeeds string string

definition findResilienceStage :: "ResiliencePlan \<Rightarrow> string \<Rightarrow> ResilienceStage option" where
  "findResilienceStage plan ID' = find (\<lambda>s. rs_ID s = ID') (rp_Stages plan)"

definition reference_error :: "string \<Rightarrow> string \<times> string \<Rightarrow> admission_error option" where
  "reference_error kind = (\<lambda>(dataClass, reference).
     if \<not> full_match stableID dataClass then Some (AdmissionDataClass kind dataClass)
     else if blank reference \<or> has_control reference then Some (AdmissionReference kind dataClass)
     else None)"

definition stage_admission :: "ResilienceExecutionRequest \<Rightarrow> ResilienceStage \<Rightarrow> admission_error option" where
  "stage_admission r s =
     (let plan = xr_Plan r; denied = ResilienceAdmissionError (rs_ID s) (rs_Action s) in first_failure
       [(blank (rp_FixtureID plan) \<or> has_control (rp_FixtureID plan),
         denied ''fixture'' ''compiled plan fixture identity is missing or unsafe''),
        (xr_FixtureID r \<noteq> rp_FixtureID plan,
         denied ''fixture'' ''fixture identity does not match the compiled plan''),
        (blank (rp_OwnershipMarker plan) \<or> has_control (rp_OwnershipMarker plan),
         denied ''ownership'' ''compiled plan ownership marker is missing or unsafe''),
        (xr_OwnershipMarker r \<noteq> rp_OwnershipMarker plan,
         denied ''ownership'' ''ownership marker does not match the compiled plan''),
        (rs_RequiresApproval s \<and> blank (xr_ApprovalReference r), AdmissionNeeds (rs_ID s) ''approval''),
        (rs_ApprovalReference s \<noteq> [] \<and> xr_ApprovalReference r \<noteq> rs_ApprovalReference s,
         denied ''approval'' ''approval reference does not match the compiled plan''),
        (rs_RequiresReconciliation s \<and> blank (xr_ReconciliationReference r),
         AdmissionNeeds (rs_ID s) ''reconciliation''),
        (rs_ReconciliationReference s \<noteq> [] \<and> xr_ReconciliationReference r \<noteq> rs_ReconciliationReference s,
         denied ''reconciliation'' ''reconciliation reference does not match the compiled plan'')])"

definition ValidateResilienceExecutionRequest :: "ResilienceExecutionRequest \<Rightarrow> admission_error option" where
  "ValidateResilienceExecutionRequest r = first_err
     [first_failure
        [(blank (xr_StageID r), AdmissionRequired ''stage ID''),
         (blank (xr_IdempotencyKey r), AdmissionRequired ''idempotency key''),
         (blank (xr_FixtureID r), AdmissionRequired ''fixture ID''),
         (blank (xr_OwnershipMarker r), AdmissionRequired ''ownership marker''),
         (has_control (xr_FixtureID r), AdmissionMultiline ''fixture ID''),
         (has_control (xr_OwnershipMarker r), AdmissionMultiline ''ownership marker''),
         (has_control (xr_ApprovalReference r @ xr_ReconciliationReference r), AdmissionMultiline ''references'')],
      first_err (map (reference_error ''resource'') (xr_ResourceReferences r)),
      first_err (map (reference_error ''backup'') (xr_BackupReferences r)),
      (case findResilienceStage (xr_Plan r) (xr_StageID r) of
         None \<Rightarrow> Some (AdmissionUnknownStage (xr_StageID r))
       | Some s \<Rightarrow> stage_admission r s)]"

section \<open>The operation client\<close>

record ResilienceProofEvidence =
  ev_DataClass :: string
  ev_Destination :: string
  ev_BackupID :: string
  ev_RestoreID :: string
  ev_FixtureID :: string
  ev_RetentionDays :: int
  ev_EncryptionVerified :: bool
  ev_ProtectionVerified :: bool
  ev_ManifestVerified :: bool
  ev_CountsVerified :: bool
  ev_ApplicationReadsVerified :: bool
  ev_PermissionsVerified :: bool
  ev_SecretReferencesVerified :: bool
  ev_ServiceHealthVerified :: bool
  ev_WriterIdentityRef :: string
  ev_WriterEpoch :: string
  ev_SingleWriterVerified :: bool
  ev_SplitBrainAbsent :: bool
  ev_StaleOriginRejected :: bool
  ev_ReconciliationVerified :: bool
  ev_ApprovalVerified :: bool
  ev_MeasuredDurationSeconds :: int
  ev_MeasuredRPOSeconds :: int
  ev_MeasuredRTOSeconds :: int
  ev_Reason :: string

record ResilienceOperationRequest =
  or_Action :: string
  or_DataClasses :: "string list"
  or_Destination :: string
  or_FixtureID :: string
  or_OwnershipMarker :: string
  or_IdempotencyKey :: string
  or_ResourceReferences :: "(string \<times> string) list"
  or_BackupReferences :: "(string \<times> string) list"
  or_ApprovalReference :: string
  or_ReconciliationReference :: string

record ResilienceOperationObservation =
  oo_Status :: string
  oo_Action :: string
  oo_OperationID :: string
  oo_ResourceRefs :: "string list"
  oo_ProofRefs :: "string list"
  oo_OwnershipMarker :: string
  oo_OwnershipVerified :: bool
  oo_IdempotencyVerified :: bool
  oo_Evidence :: "ResilienceProofEvidence list"
  oo_Detail :: string

record ResilienceInventoryResource =
  ir_Identity :: string
  ir_Owned :: bool
  ir_Live :: bool

record 'w ResilienceOperationClient =
  oc_Start :: "'w Context \<Rightarrow> ResilienceOperationRequest \<Rightarrow> 'w \<Rightarrow> (string + ResilienceOperationObservation) \<times> 'w"
  oc_Poll :: "'w Context \<Rightarrow> string \<Rightarrow> 'w \<Rightarrow> (string + ResilienceOperationObservation) \<times> 'w"
  oc_Inventory :: "'w Context \<Rightarrow> string \<Rightarrow> 'w \<Rightarrow> (string + ResilienceInventoryResource list) \<times> 'w"

definition no_observation :: ResilienceOperationObservation where
  "no_observation =
     \<lparr>oo_Status = [], oo_Action = [], oo_OperationID = [], oo_ResourceRefs = [], oo_ProofRefs = [],
      oo_OwnershipMarker = [], oo_OwnershipVerified = False, oo_IdempotencyVerified = False, oo_Evidence = [],
      oo_Detail = []\<rparr>"

section \<open>Waiting for an operation\<close>

datatype wait_error =
    WaitContextRequired
  | WaitClientRequired
  | WaitOperationRequired
  | WaitPolicyInvalid
  | WaitTimedOut string int
  | WaitContext ctx_error
  | WaitPollFailed string int string
  | WaitIdentity string string
  | WaitFailed string string
  | WaitUnknownStatus string string
  | WaitIncomplete string int
  | WaitDidNotComplete string

record 'w wait_state =
  ws_polled :: "(string + ResilienceOperationObservation) list"
  ws_world :: 'w

record 'w wait_result =
  wr_observation :: ResilienceOperationObservation
  wr_error :: "wait_error option"
  wr_polled :: "(string + ResilienceOperationObservation) list"
  wr_world :: 'w

definition wait_return ::
  "ResilienceOperationObservation \<Rightarrow> wait_error option \<Rightarrow> 'w wait_state \<Rightarrow> 'w wait_result" where
  "wait_return ob err s = \<lparr>wr_observation = ob, wr_error = err, wr_polled = ws_polled s, wr_world = ws_world s\<rparr>"

definition wait_ctx_error :: "string \<Rightarrow> ResilienceOperationPolicy \<Rightarrow> ctx_error \<Rightarrow> wait_error" where
  "wait_ctx_error operationID policy e =
     (if e = DeadlineExceeded then WaitTimedOut operationID (po_Timeout policy) else WaitContext e)"

definition wait_pause ::
  "'w runtime \<Rightarrow> 'w Context \<Rightarrow> string \<Rightarrow> ResilienceOperationPolicy \<Rightarrow> int \<Rightarrow> 'w wait_state
     \<Rightarrow> 'w wait_result + 'w wait_state" where
  "wait_pause rt ctx operationID policy attempt s =
     (if attempt = po_MaxAttempts policy
      then Inl (wait_return no_observation (Some (WaitIncomplete operationID attempt)) s)
      else case timer_select rt ctx (po_PollInterval policy) (ws_world s) of
        (Some e, w) \<Rightarrow> Inl (wait_return no_observation (Some (wait_ctx_error operationID policy e)) (s\<lparr>ws_world := w\<rparr>))
      | (None, w) \<Rightarrow> Inr (s\<lparr>ws_world := w\<rparr>))"

definition wait_attempt ::
  "'w runtime \<Rightarrow> 'w Context \<Rightarrow> 'w ResilienceOperationClient \<Rightarrow> string \<Rightarrow> ResilienceOperationPolicy \<Rightarrow> int
     \<Rightarrow> 'w wait_state \<Rightarrow> 'w wait_result + 'w wait_state" where
  "wait_attempt rt ctx client operationID policy attempt s =
     (case ctx_Err ctx (ws_world s) of
        Some e \<Rightarrow> Inl (wait_return no_observation (Some (wait_ctx_error operationID policy e)) s)
      | None \<Rightarrow>
          (case oc_Poll client ctx operationID (ws_world s) of
             (Inl err, w) \<Rightarrow>
               let s1 = \<lparr>ws_polled = ws_polled s @ [Inl err], ws_world = w\<rparr> in
               if attempt = po_MaxAttempts policy
               then Inl (wait_return no_observation (Some (WaitPollFailed operationID attempt err)) s1)
               else wait_pause rt ctx operationID policy attempt s1
           | (Inr ob, w) \<Rightarrow>
               let s1 = \<lparr>ws_polled = ws_polled s @ [Inr ob], ws_world = w\<rparr> in
               if oo_OperationID ob \<noteq> operationID
               then Inl (wait_return no_observation (Some (WaitIdentity (oo_OperationID ob) operationID)) s1)
               else if oo_Status ob = ResilienceOperationSucceeded then Inl (wait_return ob None s1)
               else if oo_Status ob = ResilienceOperationFailed then
                 (let ob1 = (if blank (oo_Detail ob)
                             then ob\<lparr>oo_Detail := ''provider reported resilience operation failure''\<rparr> else ob)
                  in Inl (wait_return ob1 (Some (WaitFailed operationID (oo_Detail ob1))) s1))
               else if oo_Status ob = ResilienceOperationPending \<or> oo_Status ob = ResilienceOperationRunning
               then wait_pause rt ctx operationID policy attempt s1
               else Inl (wait_return no_observation (Some (WaitUnknownStatus operationID (oo_Status ob))) s1)))"

definition wait_start :: "'w \<Rightarrow> 'w wait_state" where
  "wait_start w = \<lparr>ws_polled = [], ws_world = w\<rparr>"

definition wait_after :: "string \<Rightarrow> 'w wait_state \<Rightarrow> 'w wait_result" where
  "wait_after operationID s = wait_return no_observation (Some (WaitDidNotComplete operationID)) s"

definition WaitForResilienceOperation ::
  "'w runtime \<Rightarrow> 'w Context option \<Rightarrow> 'w ResilienceOperationClient option \<Rightarrow> string \<Rightarrow> ResilienceOperationPolicy
     \<Rightarrow> 'w \<Rightarrow> 'w wait_result" where
  "WaitForResilienceOperation rt ctx client operationID policy w =
     (let refuse = (\<lambda>e. wait_return no_observation (Some e) (wait_start w)) in
      case ctx of None \<Rightarrow> refuse WaitContextRequired
      | Some ctx \<Rightarrow> (case client of None \<Rightarrow> refuse WaitClientRequired
      | Some client \<Rightarrow>
          if blank operationID then refuse WaitOperationRequired
          else if \<not> validateResilienceOperationPolicy policy then refuse WaitPolicyInvalid
          else attempt_loop
                 (wait_attempt rt (WithTimeout rt ctx (po_Timeout policy) w) client operationID policy)
                 (wait_after operationID) 1 (nat (po_MaxAttempts policy)) (wait_start w)))"

section \<open>Evidence\<close>

datatype evidence_error =
    EvidenceNotStableID string
  | EvidenceDuplicate string
  | EvidenceFixture string
  | EvidenceDestination string
  | EvidenceNegative string
  | EvidenceWriter string
  | EvidenceUnverified string string
  | EvidenceUndeclared string
  | EvidenceRetention string
  | EvidenceMissing string string
  | EvidenceIncomplete string string

definition needs_class_evidence :: "ResilienceStage \<Rightarrow> bool" where
  "needs_class_evidence s \<longleftrightarrow> rs_Action s \<in> set
     [ResilienceBackup, ResilienceRestore, ResilienceIntegrityCheck, ResilienceFence, ResilienceFailover,
      ResilienceFailback]"

definition writer_evidence :: "ResilienceStage \<Rightarrow> ResilienceProofEvidence \<Rightarrow> evidence_error option" where
  "writer_evidence s e =
     (if rs_RequiresSingleWriter s \<or> rs_RequiresSplitBrainCheck s \<or> rs_RequiresStaleOriginCheck s \<or>
         rs_RequiresReconciliation s \<or> rs_RequiresApproval s
      then first_failure
        [(blank (ev_WriterIdentityRef e) \<or> blank (ev_WriterEpoch e), EvidenceWriter (ev_DataClass e)),
         (rs_RequiresSingleWriter s \<and> \<not> ev_SingleWriterVerified e,
          EvidenceUnverified (ev_DataClass e) ''single-writer ownership''),
         (rs_RequiresSplitBrainCheck s \<and> \<not> ev_SplitBrainAbsent e,
          EvidenceUnverified (ev_DataClass e) ''split-brain absence''),
         (rs_RequiresStaleOriginCheck s \<and> \<not> ev_StaleOriginRejected e,
          EvidenceUnverified (ev_DataClass e) ''stale origin''),
         (rs_RequiresReconciliation s \<and> \<not> ev_ReconciliationVerified e,
          EvidenceUnverified (ev_DataClass e) ''reconciliation''),
         (rs_RequiresApproval s \<and> \<not> ev_ApprovalVerified e,
          EvidenceUnverified (ev_DataClass e) ''approved transition'')]
      else None)"

definition capability_evidence ::
  "ResilienceDataClassCapability option \<Rightarrow> ResilienceProofEvidence \<Rightarrow> evidence_error option" where
  "capability_evidence cap e =
     (case cap of None \<Rightarrow> Some (EvidenceUndeclared (ev_DataClass e))
      | Some c \<Rightarrow> first_failure
          [(rc_RetentionRequired c \<and> ev_RetentionDays e \<le> 0, EvidenceRetention (ev_DataClass e)),
           (rc_EncryptionRequired c \<and> \<not> ev_EncryptionVerified e, EvidenceUnverified (ev_DataClass e) ''encryption''),
           (rc_ProtectionRequired c \<and> \<not> ev_ProtectionVerified e, EvidenceUnverified (ev_DataClass e) ''protection'')])"

definition evidence_problem ::
  "(string \<Rightarrow> ResilienceDataClassCapability option) \<Rightarrow> ResilienceStage \<Rightarrow> ResilienceOperationRequest
     \<Rightarrow> string list \<Rightarrow> ResilienceProofEvidence \<Rightarrow> evidence_error option" where
  "evidence_problem caps s r seen e = first_err
     [first_failure
        [(\<not> full_match stableID (ev_DataClass e), EvidenceNotStableID (ev_DataClass e)),
         (ev_DataClass e \<in> set seen, EvidenceDuplicate (ev_DataClass e)),
         (ev_FixtureID e \<noteq> or_FixtureID r, EvidenceFixture (ev_DataClass e)),
         (rs_Destination s \<noteq> [] \<and> ev_Destination e \<noteq> rs_Destination s, EvidenceDestination (ev_DataClass e)),
         (ev_RetentionDays e < 0 \<or> ev_MeasuredDurationSeconds e < 0 \<or> ev_MeasuredRPOSeconds e < 0 \<or>
          ev_MeasuredRTOSeconds e < 0, EvidenceNegative (ev_DataClass e))],
      writer_evidence s e,
      capability_evidence (caps (ev_DataClass e)) e]"

fun check_evidence ::
  "(string \<Rightarrow> ResilienceDataClassCapability option) \<Rightarrow> ResilienceStage \<Rightarrow> ResilienceOperationRequest
     \<Rightarrow> (string \<times> ResilienceProofEvidence) list \<Rightarrow> ResilienceProofEvidence list
     \<Rightarrow> evidence_error + (string \<times> ResilienceProofEvidence) list" where
  "check_evidence caps s r byClass [] = Inr byClass"
| "check_evidence caps s r byClass (e # es) =
     (case evidence_problem caps s r (map fst byClass) e of
        Some err \<Rightarrow> Inl err
      | None \<Rightarrow> check_evidence caps s r ((ev_DataClass e, e) # byClass) es)"

definition class_proof ::
  "ResilienceStage \<Rightarrow> string \<Rightarrow> ResilienceProofEvidence \<Rightarrow> evidence_error option" where
  "class_proof s c e =
     (if rs_Action s = ResilienceBackup then first_failure
        [(blank (ev_BackupID e), EvidenceIncomplete c ''backup identity'')]
      else if rs_Action s = ResilienceRestore then first_failure
        [(blank (ev_RestoreID e) \<or> \<not> ev_ServiceHealthVerified e,
          EvidenceIncomplete c ''restore identity and service health'')]
      else if rs_Action s = ResilienceIntegrityCheck then first_failure
        [(\<not> ev_ManifestVerified e \<and> \<not> ev_CountsVerified e \<and> \<not> ev_ApplicationReadsVerified e,
          EvidenceIncomplete c ''manifest, count, or application read''),
         (\<not> ev_PermissionsVerified e \<or> \<not> ev_ServiceHealthVerified e,
          EvidenceIncomplete c ''permissions and service health''),
         (contains_text ''secret'' c \<and> \<not> ev_SecretReferencesVerified e,
          EvidenceIncomplete c ''secret references'')]
      else if rs_Action s = ResilienceFailover then first_failure
        [(\<not> ev_ServiceHealthVerified e, EvidenceIncomplete c ''service health'')]
      else None)"

definition validateResilienceOperationEvidence ::
  "ResilienceAdapterDescriptor \<Rightarrow> ResilienceStage \<Rightarrow> ResilienceOperationRequest
     \<Rightarrow> ResilienceOperationObservation \<Rightarrow> evidence_error option" where
  "validateResilienceOperationEvidence d s r ob =
     (if \<not> needs_class_evidence s then None
      else case check_evidence (capability_map d) s r [] (oo_Evidence ob) of
        Inl err \<Rightarrow> Some err
      | Inr byClass \<Rightarrow> first_err (map (\<lambda>c.
          case map_of byClass c of None \<Rightarrow> Some (EvidenceMissing (rs_ID s) c) | Some e \<Rightarrow> class_proof s c e)
          (rs_DataClasses s)))"

section \<open>The operation-backed adapter\<close>

record 'w OperationBackedResilienceAdapter =
  oa_descriptor :: ResilienceAdapterDescriptor
  oa_client :: "'w ResilienceOperationClient"
  oa_policy :: ResilienceOperationPolicy

record ResilienceExecutionResult =
  er_Action :: string
  er_OperationID :: string
  er_ResourceRefs :: "string list"
  er_ProofRefs :: "string list"
  er_Evidence :: "ResilienceProofEvidence list"
  er_OwnershipMarker :: string
  er_OwnershipVerified :: bool
  er_IdempotencyVerified :: bool

datatype adapter_error =
    AdapterRequired
  | AdapterContextRequired
  | AdapterClientRequired
  | AdapterPolicyInvalid
  | AdapterContext ctx_error
  | AdapterDescriptor "descriptor_problem list"
  | AdapterCompile compile_error
  | AdapterAdmission admission_error
  | AdapterFixtureRequired
  | AdapterStageMissing string
  | AdapterStart string string
  | AdapterNoOperation string
  | AdapterWait string wait_error
  | AdapterNotSucceeded string string
  | AdapterAction string string
  | AdapterOwnership string
  | AdapterIdempotency string
  | AdapterEvidence string evidence_error
  | AdapterNoIdentity string
  | AdapterMarkerInvalid
  | AdapterInventory string

definition NewOperationBackedResilienceAdapter ::
  "ResilienceAdapterDescriptor \<Rightarrow> 'w ResilienceOperationClient option \<Rightarrow> ResilienceOperationPolicy
     \<Rightarrow> adapter_error + 'w OperationBackedResilienceAdapter" where
  "NewOperationBackedResilienceAdapter d client policy =
     (let problems = ValidateResilienceAdapterDescriptor d in
      if problems \<noteq> [] then Inl (AdapterDescriptor problems)
      else case client of None \<Rightarrow> Inl AdapterClientRequired
      | Some c \<Rightarrow>
          if \<not> validateResilienceOperationPolicy policy then Inl AdapterPolicyInvalid
          else Inr \<lparr>oa_descriptor = d, oa_client = c, oa_policy = policy\<rparr>)"

definition PlanResilience ::
  "('e \<Rightarrow> string option) \<Rightarrow> ('o \<Rightarrow> string option) \<Rightarrow> 'w OperationBackedResilienceAdapter option
     \<Rightarrow> 'w Context option \<Rightarrow> ('e, 'o) ResiliencePlanRequest \<Rightarrow> 'w \<Rightarrow> adapter_error + ResiliencePlan" where
  "PlanResilience edge observability a ctx r w =
     (case a of None \<Rightarrow> Inl AdapterRequired
      | Some a \<Rightarrow> (case ctx of None \<Rightarrow> Inl AdapterContextRequired
      | Some ctx \<Rightarrow> (case ctx_Err ctx w of Some e \<Rightarrow> Inl (AdapterContext e)
      | None \<Rightarrow> (case CompileResiliencePlan edge observability (oa_descriptor a) r of
                    Inl e \<Rightarrow> Inl (AdapterCompile e) | Inr plan \<Rightarrow> Inr plan))))"

definition operation_request :: "ResilienceExecutionRequest \<Rightarrow> ResilienceStage \<Rightarrow> ResilienceOperationRequest" where
  "operation_request r s =
     \<lparr>or_Action = rs_Action s, or_DataClasses = rs_DataClasses s, or_Destination = rs_Destination s,
      or_FixtureID = xr_FixtureID r, or_OwnershipMarker = xr_OwnershipMarker r,
      or_IdempotencyKey = xr_IdempotencyKey r, or_ResourceReferences = xr_ResourceReferences r,
      or_BackupReferences = xr_BackupReferences r, or_ApprovalReference = xr_ApprovalReference r,
      or_ReconciliationReference = xr_ReconciliationReference r\<rparr>"

text \<open>What is checked of an observation once the operation is over.\<close>

definition accept_observation ::
  "ResilienceAdapterDescriptor \<Rightarrow> ResilienceExecutionRequest \<Rightarrow> ResilienceStage \<Rightarrow> ResilienceOperationObservation
     \<Rightarrow> adapter_error + ResilienceExecutionResult" where
  "accept_observation d r s ob =
     (case first_failure
        [(oo_Status ob \<noteq> ResilienceOperationSucceeded, AdapterNotSucceeded (rs_ID s) (oo_Status ob)),
         (oo_Action ob \<noteq> [] \<and> oo_Action ob \<noteq> rs_Action s, AdapterAction (rs_ID s) (oo_Action ob)),
         (oo_OwnershipMarker ob \<noteq> xr_OwnershipMarker r \<or> \<not> oo_OwnershipVerified ob, AdapterOwnership (rs_ID s)),
         (\<not> oo_IdempotencyVerified ob, AdapterIdempotency (rs_ID s))] of
        Some e \<Rightarrow> Inl e
      | None \<Rightarrow>
          (case validateResilienceOperationEvidence d s (operation_request r s) ob of
             Some e \<Rightarrow> Inl (AdapterEvidence (rs_ID s) e)
           | None \<Rightarrow>
               if oo_OperationID ob = [] \<and> oo_ResourceRefs ob = [] \<and> oo_ProofRefs ob = []
               then Inl (AdapterNoIdentity (rs_ID s))
               else Inr \<lparr>er_Action = rs_Action s, er_OperationID = oo_OperationID ob,
                         er_ResourceRefs = oo_ResourceRefs ob, er_ProofRefs = oo_ProofRefs ob,
                         er_Evidence = oo_Evidence ob, er_OwnershipMarker = oo_OwnershipMarker ob,
                         er_OwnershipVerified = oo_OwnershipVerified ob,
                         er_IdempotencyVerified = oo_IdempotencyVerified ob\<rparr>))"

text \<open>
  The result, the requests the client was started with, and the world afterwards.
\<close>

type_synonym 'w execution = "(adapter_error + ResilienceExecutionResult) \<times> ResilienceOperationRequest list \<times> 'w"

definition run_operation ::
  "'w runtime \<Rightarrow> 'w OperationBackedResilienceAdapter \<Rightarrow> 'w Context \<Rightarrow> ResilienceExecutionRequest
     \<Rightarrow> ResilienceStage \<Rightarrow> 'w \<Rightarrow> 'w execution" where
  "run_operation rt a ctx r s w =
     (let q = operation_request r s in
      case oc_Start (oa_client a) ctx q w of
        (Inl err, w1) \<Rightarrow> (Inl (AdapterStart (rs_ID s) err), [q], w1)
      | (Inr ob, w1) \<Rightarrow>
          if oo_OperationID ob = [] \<and> oo_Status ob \<noteq> ResilienceOperationSucceeded
          then (Inl (AdapterNoOperation (rs_ID s)), [q], w1)
          else if oo_Status ob = ResilienceOperationPending \<or> oo_Status ob = ResilienceOperationRunning then
            (let res = WaitForResilienceOperation rt (Some ctx) (Some (oa_client a)) (oo_OperationID ob) (oa_policy a) w1 in
             case wr_error res of
               Some e \<Rightarrow> (Inl (AdapterWait (rs_ID s) e), [q], wr_world res)
             | None \<Rightarrow> (accept_observation (oa_descriptor a) r s (wr_observation res), [q], wr_world res))
          else (accept_observation (oa_descriptor a) r s ob, [q], w1))"

definition ExecuteResilience ::
  "'w runtime \<Rightarrow> 'w OperationBackedResilienceAdapter option \<Rightarrow> 'w Context option \<Rightarrow> ResilienceExecutionRequest
     \<Rightarrow> 'w \<Rightarrow> 'w execution" where
  "ExecuteResilience rt a ctx r w =
     (case a of None \<Rightarrow> (Inl AdapterRequired, [], w)
      | Some a \<Rightarrow> (case ctx of None \<Rightarrow> (Inl AdapterContextRequired, [], w)
      | Some ctx \<Rightarrow> (case ValidateResilienceExecutionRequest r of
          Some e \<Rightarrow> (Inl (AdapterAdmission e), [], w)
        | None \<Rightarrow>
            if blank (xr_FixtureID r) then (Inl AdapterFixtureRequired, [], w)
            else case findResilienceStage (xr_Plan r) (xr_StageID r) of
              None \<Rightarrow> (Inl (AdapterStageMissing (xr_StageID r)), [], w)
            | Some s \<Rightarrow> run_operation rt a ctx r s w)))"

definition Inventory ::
  "'w OperationBackedResilienceAdapter option \<Rightarrow> 'w Context \<Rightarrow> string \<Rightarrow> 'w
     \<Rightarrow> (adapter_error + ResilienceInventoryResource list) \<times> 'w" where
  "Inventory a ctx marker w =
     (case a of None \<Rightarrow> (Inl AdapterRequired, w)
      | Some a \<Rightarrow>
          if blank marker \<or> has_control marker then (Inl AdapterMarkerInvalid, w)
          else case oc_Inventory (oa_client a) ctx marker w of
            (Inl e, w1) \<Rightarrow> (Inl (AdapterInventory e), w1)
          | (Inr rs, w1) \<Rightarrow> (Inr rs, w1))"

end
