(* ===== verification/Resilience_Shape.thy ===== *)
theory Resilience_Shape
  imports Resilience_Plan
begin

text \<open>
  The recovery plan written down as one list, \<open>recovery_stages\<close>, and the proof that the compiler builds
  exactly that: \<open>compiled_plan\<close> says so of every plan it returns, with the admission references put
  onto the stages they name.
\<close>

section \<open>The plan as one list\<close>

definition durable :: "DataClassIntent \<Rightarrow> bool" where
  "durable c \<longleftrightarrow> \<not> resilienceRebuildOnly (dc_BackupMethod c)"

definition fence_ref :: "string \<Rightarrow> string" where
  "fence_ref dest = (if resilienceRequiresFence dest then ''fence-runtime'' else [])"

definition before_failback :: "string \<Rightarrow> DataClassIntent list \<Rightarrow> string list" where
  "before_failback dest classes =
     (if resilienceRequiresFailover dest then [''failover-runtime''] else map integrityID classes)"

definition recovery_stages :: "string \<Rightarrow> bool \<Rightarrow> DataClassIntent list \<Rightarrow> ResilienceStage list" where
  "recovery_stages dest failback classes =
     map (backup_stage dest) (filter durable classes) @
     (if resilienceRequiresFence dest
      then [fence_stage dest (map dc_Name classes) (map backupID (filter durable classes))] else []) @
     concat (map (\<lambda>c. [restore_stage dest (fence_ref dest) c, integrity_stage dest c]) classes) @
     (if resilienceRequiresFailover dest
      then [failover_stage dest (map dc_Name classes) (map integrityID classes)] else []) @
     (if failback then [failback_stage dest (map dc_Name classes) (before_failback dest classes)] else []) @
     [cleanup_stage dest (map dc_Name classes)
        (if failback then [''failback-runtime''] else before_failback dest classes)]"

lemma bind_err_Inr: "bind_err m f = Inr b \<longleftrightarrow> (\<exists>a. m = Inr a \<and> f a = Inr b)"
  by (cases m) (auto simp: bind_err_def)

lemma add_stage_simps [simp]:
  "pd_Stages (add_stage s ps dr) = pd_Stages dr @ [s]"
  "pd_All (add_stage s ps dr) = pd_All dr" "pd_Backups (add_stage s ps dr) = pd_Backups dr"
  "pd_Fence (add_stage s ps dr) = pd_Fence dr" "pd_Final (add_stage s ps dr) = pd_Final dr"
  by (simp_all add: add_stage_def)

lemma each_backup:
  assumes "each (compile_backup d caps dest) cs dr = Inr dr'"
  shows "pd_Stages dr' = pd_Stages dr @ map (backup_stage dest) (filter durable cs) \<and>
         pd_All dr' = pd_All dr @ map dc_Name cs \<and>
         pd_Backups dr' = pd_Backups dr @ map backupID (filter durable cs) \<and>
         pd_Fence dr' = pd_Fence dr \<and> pd_Final dr' = pd_Final dr"
  using assms
proof (induction cs arbitrary: dr)
  case (Cons c cs)
  then obtain mid where mid: "compile_backup d caps dest c dr = Inr mid"
    and rest: "each (compile_backup d caps dest) cs mid = Inr dr'" by (auto simp: bind_err_Inr)
  from mid Cons.IH[OF rest] show ?case
    by (auto simp: compile_backup_def durable_def Let_def split: if_splits)
qed simp

lemma each_restore:
  assumes "each (compile_restore d caps dest) cs dr = Inr dr'"
  shows "pd_Stages dr' = pd_Stages dr @
           concat (map (\<lambda>c. [restore_stage dest (pd_Fence dr) c, integrity_stage dest c]) cs) \<and>
         pd_All dr' = pd_All dr \<and> pd_Backups dr' = pd_Backups dr \<and> pd_Fence dr' = pd_Fence dr \<and>
         pd_Final dr' = pd_Final dr @ map integrityID cs"
  using assms
proof (induction cs arbitrary: dr)
  case (Cons c cs)
  then obtain mid where mid: "compile_restore d caps dest c dr = Inr mid"
    and rest: "each (compile_restore d caps dest) cs mid = Inr dr'" by (auto simp: bind_err_Inr)
  from mid Cons.IH[OF rest] show ?case
    by (auto simp: compile_restore_def Let_def split: if_splits)
qed simp

lemma compile_fence_shape:
  assumes "compile_fence d dest dr = Inr dr'"
  shows "pd_Stages dr' = pd_Stages dr @ (if resilienceRequiresFence dest
           then [fence_stage dest (pd_All dr) (pd_Backups dr)] else []) \<and>
         pd_All dr' = pd_All dr \<and> pd_Final dr' = pd_Final dr \<and>
         pd_Fence dr' = (if resilienceRequiresFence dest then ''fence-runtime'' else pd_Fence dr)"
  using assms by (auto simp: compile_fence_def split: if_splits)

lemma compile_failover_shape:
  assumes "compile_failover d dest dr = Inr dr'"
  shows "pd_Stages dr' = pd_Stages dr @ (if resilienceRequiresFailover dest
           then [failover_stage dest (pd_All dr) (pd_Final dr)] else []) \<and>
         pd_All dr' = pd_All dr \<and>
         pd_Final dr' = (if resilienceRequiresFailover dest then [''failover-runtime''] else pd_Final dr)"
  using assms by (auto simp: compile_failover_def split: if_splits)

lemma compile_failback_shape:
  assumes "compile_failback d r dest dr = Inr dr'"
  shows "pd_Stages dr' = pd_Stages dr @ (if failback_requested r
           then [failback_stage dest (pd_All dr) (pd_Final dr)] else []) \<and>
         pd_All dr' = pd_All dr \<and>
         pd_Final dr' = (if failback_requested r then [''failback-runtime''] else pd_Final dr) \<and>
         (failback_requested r \<longrightarrow> resilienceRequiresFailover dest)"
  using assms by (auto simp: compile_failback_def split: if_splits)

lemma compile_draft_shape:
  assumes "compile_draft d r caps dest classes = Inr dr"
  shows "pd_Stages dr = recovery_stages dest (failback_requested r) classes"
    and "failback_requested r \<Longrightarrow> resilienceRequiresFailover dest"
proof -
  from assms obtain d1 d2 d3 d4 d5 where
    1: "each (compile_backup d caps dest) classes empty_draft = Inr d1" and
    2: "compile_fence d dest d1 = Inr d2" and 3: "each (compile_restore d caps dest) classes d2 = Inr d3" and
    4: "compile_failover d dest d3 = Inr d4" and 5: "compile_failback d r dest d4 = Inr d5" and
    6: "compile_cleanup d dest d5 = Inr dr"
    unfolding compile_draft_def bind_err_Inr by blast
  note shapes = each_backup[OF 1] compile_fence_shape[OF 2] each_restore[OF 3] compile_failover_shape[OF 4]
    compile_failback_shape[OF 5]
  from 6 have 7: "pd_Stages dr = pd_Stages d5 @ [cleanup_stage dest (pd_All d5) (pd_Final d5)]"
    by (auto simp: compile_cleanup_def split: if_splits)
  show "pd_Stages dr = recovery_stages dest (failback_requested r) classes"
    unfolding 7 recovery_stages_def using shapes
    by (simp add: empty_draft_def fence_ref_def before_failback_def)
  show "failback_requested r \<Longrightarrow> resilienceRequiresFailover dest" using shapes(5) by blast
qed

section \<open>Binding references\<close>

lemma stage_index_Some:
  "resilienceStageIndex ss k = Some i \<Longrightarrow> i < length ss \<and> rs_ID (ss ! i) = k"
  by (induction ss arbitrary: i) (auto split: if_splits)

lemma update_at_ID:
  assumes "distinct (map rs_ID ss)" and "i < length ss" and "rs_ID (ss ! i) = k"
  shows "ss[i := f (ss ! i)] = map (\<lambda>s. if rs_ID s = k then f s else s) ss"
proof (rule nth_equalityI)
  fix j assume "j < length (ss[i := f (ss ! i)])"
  then have j: "j < length ss" by simp
  show "ss[i := f (ss ! i)] ! j = map (\<lambda>s. if rs_ID s = k then f s else s) ss ! j"
  proof (cases "j = i")
    case True
    with assms j show ?thesis by simp
  next
    case False
    with assms j have "rs_ID (ss ! j) \<noteq> k" by (metis length_map nth_eq_iff_index_eq nth_map)
    with False j show ?thesis by simp
  qed
qed simp

definition bind_stage ::
  "(string \<Rightarrow> ResilienceStage \<Rightarrow> ResilienceStage) \<Rightarrow> (string \<times> string) list \<Rightarrow> string list \<Rightarrow> ResilienceStage
     \<Rightarrow> ResilienceStage" where
  "bind_stage put refs keys s = (if rs_ID s \<in> set keys then put (lookup_string refs (rs_ID s)) s else s)"

lemma bind_references_result:
  assumes "bind_references kind put refs ks ss = Inr ss'" and "distinct (map rs_ID ss)" and "distinct ks"
    and ids: "\<And>v s. rs_ID (put v s) = rs_ID s"
  shows "ss' = map (bind_stage put refs ks) ss"
  using assms(1-3)
proof (induction ks arbitrary: ss)
  case Nil
  then show ?case by (simp add: bind_stage_def cong: map_cong)
next
  case (Cons k ks)
  from Cons.prems(1) obtain i where i: "resilienceStageIndex ss k = Some i"
    and rest: "bind_references kind put refs ks (ss[i := put (lookup_string refs k) (ss ! i)]) = Inr ss'"
    by (auto split: option.splits)
  let ?put = "\<lambda>s. if rs_ID s = k then put (lookup_string refs k) s else s"
  from stage_index_Some[OF i] have at: "ss[i := put (lookup_string refs k) (ss ! i)] = map ?put ss"
    by (intro update_at_ID Cons.prems(2)) auto
  have same: "map rs_ID (map ?put ss) = map rs_ID ss" by (simp add: ids)
  have "distinct (map rs_ID (map ?put ss))" unfolding same by (rule Cons.prems(2))
  with Cons.prems(3) have "ss' = map (bind_stage put refs ks) (map ?put ss)"
    by (intro Cons.IH[OF rest[unfolded at]]) auto
  also have "\<dots> = map (bind_stage put refs (k # ks)) ss"
    using Cons.prems(3) by (auto simp: bind_stage_def ids)
  finally show ?case .
qed

lemma bind_references_ids:
  assumes "bind_references kind put refs ks ss = Inr ss'" and ids: "\<And>v s. rs_ID (put v s) = rs_ID s"
  shows "map rs_ID ss' = map rs_ID ss \<and> set ks \<subseteq> rs_ID ` set ss"
  using assms(1)
proof (induction ks arbitrary: ss)
  case (Cons k ks)
  then obtain i where i: "resilienceStageIndex ss k = Some i"
    and rest: "bind_references kind put refs ks (ss[i := put (lookup_string refs k) (ss ! i)]) = Inr ss'"
    by (auto split: option.splits)
  from stage_index_Some[OF i] have k: "i < length ss" "rs_ID (ss ! i) = k" by auto
  then have "map rs_ID (ss[i := put (lookup_string refs k) (ss ! i)]) = map rs_ID ss"
    by (simp add: map_update ids) (metis list_update_id nth_map)
  moreover from this have "rs_ID ` set (ss[i := put (lookup_string refs k) (ss ! i)]) = rs_ID ` set ss"
    by (metis list.set_map)
  moreover from k have "k \<in> rs_ID ` set ss" by auto
  ultimately show ?case using Cons.IH[OF rest] by auto
qed simp

text \<open>What binding does to one stage: only its two references, taken from the request.\<close>

definition bind_admission :: "('e, 'o) ResiliencePlanRequest \<Rightarrow> ResilienceStage \<Rightarrow> ResilienceStage" where
  "bind_admission r s = bind_stage put_reconciliation (rq_ReconciliationReferences r)
     (resilienceReferenceKeys (rq_ReconciliationReferences r))
     (bind_stage put_approval (rq_ApprovalReferences r) (resilienceReferenceKeys (rq_ApprovalReferences r)) s)"

lemma bind_admission_simps [simp]:
  "rs_ID (bind_admission r s) = rs_ID s" "rs_Action (bind_admission r s) = rs_Action s"
  "rs_DataClasses (bind_admission r s) = rs_DataClasses s" "rs_DependsOn (bind_admission r s) = rs_DependsOn s"
  "rs_Destination (bind_admission r s) = rs_Destination s" "rs_Idempotent (bind_admission r s) = rs_Idempotent s"
  "rs_RequiresApproval (bind_admission r s) = rs_RequiresApproval s"
  "rs_RequiresSingleWriter (bind_admission r s) = rs_RequiresSingleWriter s"
  "rs_RequiresSplitBrainCheck (bind_admission r s) = rs_RequiresSplitBrainCheck s"
  "rs_RequiresStaleOriginCheck (bind_admission r s) = rs_RequiresStaleOriginCheck s"
  "rs_RequiresReconciliation (bind_admission r s) = rs_RequiresReconciliation s"
  by (simp_all add: bind_admission_def bind_stage_def put_approval_def put_reconciliation_def)

lemma bind_admission_references:
  "rs_ApprovalReference s = [] \<Longrightarrow>
     rs_ApprovalReference (bind_admission r s) = lookup_string (rq_ApprovalReferences r) (rs_ID s)"
  "rs_ReconciliationReference s = [] \<Longrightarrow>
     rs_ReconciliationReference (bind_admission r s) = lookup_string (rq_ReconciliationReferences r) (rs_ID s)"
  by (auto simp: bind_admission_def bind_stage_def put_approval_def put_reconciliation_def lookup_string_def
      resilienceReferenceKeys_def map_of_eq_None_iff[THEN iffD2])

lemma bind_admission_result:
  assumes "bindResilienceAdmissionReferences ss r = Inr ss'" and "distinct (map rs_ID ss')"
    and "distinct (map fst (rq_ApprovalReferences r))" and "distinct (map fst (rq_ReconciliationReferences r))"
  shows "ss' = map (bind_admission r) ss"
proof -
  let ?A = "resilienceReferenceKeys (rq_ApprovalReferences r)"
  let ?R = "resilienceReferenceKeys (rq_ReconciliationReferences r)"
  have put: "\<And>v s. rs_ID (put_approval v s) = rs_ID s" "\<And>v s. rs_ID (put_reconciliation v s) = rs_ID s"
    by (simp_all add: put_approval_def put_reconciliation_def)
  from assms(1) obtain mid where
    1: "bind_references ''approval'' put_approval (rq_ApprovalReferences r) ?A ss = Inr mid" and
    2: "bind_references ''reconciliation'' put_reconciliation (rq_ReconciliationReferences r) ?R mid = Inr ss'"
    by (auto simp: bindResilienceAdmissionReferences_def bind_err_Inr)
  note ids = bind_references_ids[OF 1 put(1)] bind_references_ids[OF 2 put(2)]
  have keys: "distinct ?A" "distinct ?R" using assms(3,4) by (simp_all add: resilienceReferenceKeys_def)
  from ids assms(2) have "distinct (map rs_ID ss)" "distinct (map rs_ID mid)" by simp_all
  from bind_references_result[OF 1 this(1) keys(1) put(1)] bind_references_result[OF 2 this(2) keys(2) put(2)]
  show ?thesis by (simp add: bind_admission_def)
qed

section \<open>Compiled plans\<close>

text \<open>A request whose two maps are Go maps: no key twice.\<close>

definition reference_maps :: "('e, 'o) ResiliencePlanRequest \<Rightarrow> bool" where
  "reference_maps r \<longleftrightarrow>
     distinct (map fst (rq_ApprovalReferences r)) \<and> distinct (map fst (rq_ReconciliationReferences r))"

lemma compiled_plan:
  assumes "CompileResiliencePlan edge observability d r = Inr plan" and "reference_maps r"
  obtains dest where
    "rp_Stages plan = map (bind_admission r) (recovery_stages dest (failback_requested r) (sorted_classes r))"
    and "commonRecoveryDestination (ri_RecoveryDestinations (ai_Resilience (rq_Architecture r))) (sorted_classes r)
           (capability_map d) = Inr dest"
    and "failback_requested r \<Longrightarrow> resilienceRequiresFailover dest"
    and "ValidateResiliencePlan plan (ai_Resilience (rq_Architecture r)) = []"
    and "rp_FixtureID plan = rq_FixtureID r" and "rp_OwnershipMarker plan = rq_OwnershipMarker r"
    and "ValidateResiliencePlanRequest edge observability r = []"
proof -
  from assms(1) obtain dest dr stages where
    req: "ValidateResiliencePlanRequest edge observability r = []" and
    dest: "commonRecoveryDestination (ri_RecoveryDestinations (ai_Resilience (rq_Architecture r))) (sorted_classes r)
           (capability_map d) = Inr dest" and
    dr: "compile_draft d r (capability_map d) dest (sorted_classes r) = Inr dr" and
    bound: "bindResilienceAdmissionReferences (pd_Stages dr) r = Inr stages" and
    plan: "plan = \<lparr>rp_AdapterID = rd_ID d, rp_FixtureID = rq_FixtureID r, rp_OwnershipMarker = rq_OwnershipMarker r,
                   rp_Stages = stages, rp_RequiredProofs = uniqueResilienceStrings (pd_Proofs dr)\<rparr>" and
    valid: "ValidateResiliencePlan plan (ai_Resilience (rq_Architecture r)) = []"
    by (auto simp: CompileResiliencePlan_def finish_plan_def bind_err_Inr Let_def split: if_splits option.splits sum.splits)
  from plan_valid_distinct[OF valid] plan have "distinct (map rs_ID stages)" by simp
  from bind_admission_result[OF bound this] assms(2) compile_draft_shape(1)[OF dr] plan
  have "rp_Stages plan = map (bind_admission r) (recovery_stages dest (failback_requested r) (sorted_classes r))"
    by (simp add: reference_maps_def)
  with dest compile_draft_shape(2)[OF dr] valid req plan show ?thesis by (intro that) auto
qed

end
