(* ===== verification/Resilience_Order.thy ===== *)
theory Resilience_Order
  imports Resilience_Shape
begin

text \<open>
  The dependencies of a compiled plan, kind by kind, and the paths they make: from the failover to every
  backup, restore and check, and from the cleanup to every other stage.
\<close>

section \<open>Edges of a compiled plan\<close>

lemma stage_of_simps [simp]:
  "rs_ID (stage_of i a cs dest ds) = i" "rs_Action (stage_of i a cs dest ds) = a"
  "rs_DependsOn (stage_of i a cs dest ds) = ds" "rs_DataClasses (stage_of i a cs dest ds) = cs"
  "rs_Destination (stage_of i a cs dest ds) = dest"
  "rs_ApprovalReference (stage_of i a cs dest ds) = []" "rs_ReconciliationReference (stage_of i a cs dest ds) = []"
  by (simp_all add: stage_of_def)

lemma stage_depends [simp]:
  "rs_DependsOn (backup_stage dest c) = []" "rs_ID (backup_stage dest c) = backupID c"
  "rs_DependsOn (fence_stage dest cs bs) = bs" "rs_ID (fence_stage dest cs bs) = ''fence-runtime''"
  "rs_DependsOn (restore_stage dest f c) = restore_depends f c" "rs_ID (restore_stage dest f c) = restoreID c"
  "rs_DependsOn (integrity_stage dest c) = [restoreID c]" "rs_ID (integrity_stage dest c) = integrityID c"
  "rs_DependsOn (failover_stage dest cs fs) = fs" "rs_ID (failover_stage dest cs fs) = ''failover-runtime''"
  "rs_DependsOn (failback_stage dest cs fs) = fs" "rs_ID (failback_stage dest cs fs) = ''failback-runtime''"
  "rs_DependsOn (cleanup_stage dest cs fs) = fs" "rs_ID (cleanup_stage dest cs fs) = ''cleanup-runtime''"
  by (simp_all add: backup_stage_def fence_stage_def restore_stage_def integrity_stage_def failover_stage_def
      failback_stage_def cleanup_stage_def)

text \<open>The same facts for the actions; the name of a stage tells its action.\<close>

lemma stage_action [simp]:
  "rs_Action (backup_stage dest c) = ResilienceBackup" "rs_Action (fence_stage dest cs bs) = ResilienceFence"
  "rs_Action (restore_stage dest f c) = ResilienceRestore"
  "rs_Action (integrity_stage dest c) = ResilienceIntegrityCheck"
  "rs_Action (failover_stage dest cs fs) = ResilienceFailover"
  "rs_Action (failback_stage dest cs fs) = ResilienceFailback"
  "rs_Action (cleanup_stage dest cs fs) = ResilienceCleanup"
  by (simp_all add: backup_stage_def fence_stage_def restore_stage_def integrity_stage_def failover_stage_def
      failback_stage_def cleanup_stage_def)

lemma set_recovery_stages:
  "s \<in> set (recovery_stages dest failback classes) \<longleftrightarrow>
     (\<exists>c \<in> set classes. durable c \<and> s = backup_stage dest c) \<or>
     (resilienceRequiresFence dest \<and> s = fence_stage dest (map dc_Name classes) (map backupID (filter durable classes))) \<or>
     (\<exists>c \<in> set classes. s = restore_stage dest (fence_ref dest) c \<or> s = integrity_stage dest c) \<or>
     (resilienceRequiresFailover dest \<and> s = failover_stage dest (map dc_Name classes) (map integrityID classes)) \<or>
     (failback \<and> s = failback_stage dest (map dc_Name classes) (before_failback dest classes)) \<or>
     s = cleanup_stage dest (map dc_Name classes) (if failback then [''failback-runtime''] else before_failback dest classes)"
  unfolding recovery_stages_def by auto

definition plan_edges :: "ResiliencePlan \<Rightarrow> (string \<times> string) set" where
  "plan_edges plan = edges (stage_graph (rp_Stages plan))"

lemma compiled_edge:
  assumes "rp_Stages plan = map (bind_admission r) stages" and "ValidateResiliencePlan plan intent = []"
    and "s \<in> set stages" and "d \<in> set (rs_DependsOn s)"
  shows "(rs_ID s, d) \<in> plan_edges plan"
proof -
  from assms(1,3) have mem: "bind_admission r s \<in> set (rp_Stages plan)" by simp
  from stage_graph_deps[OF plan_valid_distinct[OF assms(2)] mem plan_valid_dependencies[OF assms(2) mem]]
  have "deps (stage_graph (rp_Stages plan)) (rs_ID s) = rs_DependsOn s" by simp
  with assms(4) show ?thesis by (simp add: plan_edges_def edges_def)
qed

text \<open>The edges by kind.\<close>

definition recovery_edges :: "string \<Rightarrow> bool \<Rightarrow> DataClassIntent list \<Rightarrow> (string \<times> string) set" where
  "recovery_edges dest failback classes =
     {(rs_ID s, d) | s d. s \<in> set (recovery_stages dest failback classes) \<and> d \<in> set (rs_DependsOn s)}"

lemma edge:
  "s \<in> set (recovery_stages dest failback classes) \<Longrightarrow> d \<in> set (rs_DependsOn s) \<Longrightarrow>
     (rs_ID s, d) \<in> recovery_edges dest failback classes"
  by (auto simp: recovery_edges_def)

lemma integrity_restore: "c \<in> set classes \<Longrightarrow> (integrityID c, restoreID c) \<in> recovery_edges dest failback classes"
  using edge[of "integrity_stage dest c" dest failback classes] by (auto simp: set_recovery_stages)

lemma restore_backup: "c \<in> set classes \<Longrightarrow> durable c \<Longrightarrow> (restoreID c, backupID c) \<in> recovery_edges dest failback classes"
  using edge[of "restore_stage dest (fence_ref dest) c" dest failback classes]
  by (auto simp: set_recovery_stages restore_depends_def durable_def)

lemma restore_fence:
  "c \<in> set classes \<Longrightarrow> resilienceRequiresFence dest \<Longrightarrow> (restoreID c, ''fence-runtime'') \<in> recovery_edges dest failback classes"
  using edge[of "restore_stage dest (fence_ref dest) c" dest failback classes]
  by (auto simp: set_recovery_stages restore_depends_def fence_ref_def)

lemma fence_backup:
  "c \<in> set classes \<Longrightarrow> durable c \<Longrightarrow> resilienceRequiresFence dest \<Longrightarrow>
     (''fence-runtime'', backupID c) \<in> recovery_edges dest failback classes"
  using edge[of "fence_stage dest (map dc_Name classes) (map backupID (filter durable classes))" dest failback classes]
  by (auto simp: set_recovery_stages)

lemma failover_integrity:
  "c \<in> set classes \<Longrightarrow> resilienceRequiresFailover dest \<Longrightarrow> (''failover-runtime'', integrityID c) \<in> recovery_edges dest failback classes"
  using edge[of "failover_stage dest (map dc_Name classes) (map integrityID classes)" dest failback classes]
  by (auto simp: set_recovery_stages)

lemma failback_failover:
  "failback \<Longrightarrow> resilienceRequiresFailover dest \<Longrightarrow>
     (''failback-runtime'', ''failover-runtime'') \<in> recovery_edges dest failback classes"
  using edge[of "failback_stage dest (map dc_Name classes) (before_failback dest classes)" dest failback classes]
  by (auto simp: set_recovery_stages before_failback_def)

lemma cleanup_failback: "failback \<Longrightarrow> (''cleanup-runtime'', ''failback-runtime'') \<in> recovery_edges dest failback classes"
  using edge[of "cleanup_stage dest (map dc_Name classes) [''failback-runtime'']" dest failback classes]
  by (auto simp: set_recovery_stages)

lemma cleanup_failover:
  assumes "resilienceRequiresFailover dest"
  shows "(''cleanup-runtime'', ''failover-runtime'') \<in> (recovery_edges dest failback classes)\<^sup>+"
proof (cases failback)
  case True
  with assms cleanup_failback failback_failover show ?thesis by (blast intro: trancl_into_trancl)
next
  case False
  with assms edge[of "cleanup_stage dest (map dc_Name classes) (before_failback dest classes)" dest failback classes] show ?thesis
    by (auto simp: set_recovery_stages before_failback_def)
qed

lemma cleanup_integrity:
  assumes "c \<in> set classes"
  shows "(''cleanup-runtime'', integrityID c) \<in> (recovery_edges dest failback classes)\<^sup>+"
proof (cases "resilienceRequiresFailover dest")
  case True
  with cleanup_failover failover_integrity[OF assms] show ?thesis by (blast intro: trancl_into_trancl)
next
  case moves: False
  show ?thesis
  proof (cases failback)
    case True
    with moves assms edge[of "failback_stage dest (map dc_Name classes) (before_failback dest classes)" dest failback classes]
    have "(''failback-runtime'', integrityID c) \<in> recovery_edges dest failback classes"
      by (auto simp: set_recovery_stages before_failback_def)
    with cleanup_failback[OF True] show ?thesis by (blast intro: trancl_into_trancl)
  next
    case False
    with moves assms edge[of "cleanup_stage dest (map dc_Name classes) (before_failback dest classes)" dest failback classes]
    show ?thesis by (auto simp: set_recovery_stages before_failback_def)
  qed
qed

lemma cleanup_restore: "c \<in> set classes \<Longrightarrow> (''cleanup-runtime'', restoreID c) \<in> (recovery_edges dest failback classes)\<^sup>+"
  using cleanup_integrity integrity_restore by (blast intro: trancl_into_trancl)

text \<open>Cleanup waits for every other stage.\<close>

lemma cleanup_after:
  assumes "s \<in> set (recovery_stages dest failback classes)" and "rs_ID s \<noteq> ''cleanup-runtime''"
    and "classes \<noteq> []"
  shows "(''cleanup-runtime'', rs_ID s) \<in> (recovery_edges dest failback classes)\<^sup>+"
proof -
  from assms(3) obtain c0 where c0: "c0 \<in> set classes" by (cases classes) auto
  from assms(1,2) consider (backup) c where "c \<in> set classes" "durable c" "s = backup_stage dest c"
    | (fence) "resilienceRequiresFence dest" "rs_ID s = ''fence-runtime''"
    | (restored) c where "c \<in> set classes" "rs_ID s = restoreID c \<or> rs_ID s = integrityID c"
    | (failover) "resilienceRequiresFailover dest" "rs_ID s = ''failover-runtime''"
    | (failback) "failback" "rs_ID s = ''failback-runtime''"
    unfolding set_recovery_stages by fastforce
  then show ?thesis
  proof cases
    case backup
    with trancl_into_trancl[OF cleanup_restore restore_backup] show ?thesis by simp
  next
    case fence
    with trancl_into_trancl[OF cleanup_restore[OF c0] restore_fence[OF c0]] show ?thesis by simp
  next
    case restored
    with cleanup_restore cleanup_integrity show ?thesis by auto
  next
    case failover
    with cleanup_failover show ?thesis by simp
  next
    case failback
    with cleanup_failback show ?thesis by (auto intro: r_into_trancl)
  qed
qed

lemma failover_after:
  assumes "c \<in> set classes" and "resilienceRequiresFailover dest"
  shows "(''failover-runtime'', integrityID c) \<in> (recovery_edges dest failback classes)\<^sup>+"
    and "(''failover-runtime'', restoreID c) \<in> (recovery_edges dest failback classes)\<^sup>+"
    and "(''failover-runtime'', ''fence-runtime'') \<in> (recovery_edges dest failback classes)\<^sup>+"
    and "durable c \<Longrightarrow> (''failover-runtime'', backupID c) \<in> (recovery_edges dest failback classes)\<^sup>+"
proof -
  from assms(2) have fence: "resilienceRequiresFence dest" by (simp add: resilienceRequiresFence_def)
  from failover_integrity[OF assms] show i: "(''failover-runtime'', integrityID c) \<in> (recovery_edges dest failback classes)\<^sup>+" by blast
  from i integrity_restore[OF assms(1)] show r: "(''failover-runtime'', restoreID c) \<in> (recovery_edges dest failback classes)\<^sup>+"
    by (rule trancl_into_trancl)
  from r restore_fence[OF assms(1) fence] show "(''failover-runtime'', ''fence-runtime'') \<in> (recovery_edges dest failback classes)\<^sup>+"
    by (rule trancl_into_trancl)
  from r restore_backup[OF assms(1)] show "durable c \<Longrightarrow> (''failover-runtime'', backupID c) \<in> (recovery_edges dest failback classes)\<^sup>+"
    by (blast intro: trancl_into_trancl)
qed

section \<open>Running a compiled plan\<close>

lemma compiled_edges:
  assumes "rp_Stages plan = map (bind_admission r) (recovery_stages dest failback classes)"
    and "ValidateResiliencePlan plan intent = []"
  shows "recovery_edges dest failback classes \<subseteq> edges (stage_graph (rp_Stages plan))"
  using compiled_edge[OF assms] by (auto simp: recovery_edges_def plan_edges_def)

lemma compiled_stage_kind:
  assumes "s \<in> set (recovery_stages dest failback classes)"
  shows "rs_Action s = ResilienceCleanup \<longleftrightarrow> rs_ID s = ''cleanup-runtime''"
    and "rs_Action s = ResilienceFailover \<Longrightarrow> rs_ID s = ''failover-runtime'' \<and> resilienceRequiresFailover dest"
    and "rs_Action s = ResilienceFailback \<Longrightarrow> rs_ID s = ''failback-runtime'' \<and> failback"
  using assms unfolding set_recovery_stages
  by (auto simp: backupID_def restoreID_def integrityID_def)

lemma sorted_classes_nonempty:
  assumes "ValidateResiliencePlanRequest edge observability r = []"
  shows "sorted_classes r \<noteq> []"
proof -
  from assms have "ArchitectureIntent_Validate edge observability (rq_Architecture r) = []"
    by (simp add: ValidateResiliencePlanRequest_def)
  then have "ResilienceIntent_Validate (ai_Resilience (rq_Architecture r)) = []"
    by (simp only: ArchitectureIntent_Validate_def append_is_Nil_conv)
  then have "ri_DataClasses (ai_Resilience (rq_Architecture r)) \<noteq> []"
    by (simp add: ResilienceIntent_Validate_def del: concat.simps)
  then show ?thesis by (metis length_sort list.size(3) length_0_conv sorted_classes_def)
qed

end
