(* ===== verification/Resilience_Adapter.thy ===== *)
theory Resilience_Adapter
  imports Resilience_Execute Resilience_Order
begin

text \<open>
  What the operation-backed adapter guarantees: its wait is an instance of the bounded wait, a result
  rests on evidence for every data class of the stage, and the provider is only asked for what the
  compiled plan admits.
\<close>

section \<open>The wait\<close>

definition wait_accepts ::
  "string \<Rightarrow> string + ResilienceOperationObservation \<Rightarrow> 'w wait_result \<Rightarrow> bool" where
  "wait_accepts operationID x r \<longleftrightarrow>
     x = Inr (wr_observation r) \<and> oo_OperationID (wr_observation r) = operationID \<and>
     oo_Status (wr_observation r) = ResilienceOperationSucceeded"

lemma wait_return_simps [simp]:
  "wr_observation (wait_return ob e s) = ob" "wr_error (wait_return ob e s) = e"
  "wr_polled (wait_return ob e s) = ws_polled s" "wr_world (wait_return ob e s) = ws_world s"
  by (simp_all add: wait_return_def)

lemma wait_start_polled [simp]: "ws_polled (wait_start w) = []"
  by (simp add: wait_start_def)

lemma wait_pause_polled:
  "wait_pause rt ctx i policy a s = Inr s' \<Longrightarrow> ws_polled s' = ws_polled s"
  "wait_pause rt ctx i policy a s = Inl r \<Longrightarrow> wr_polled r = ws_polled s"
  "wait_pause rt ctx i policy a s = Inl r \<Longrightarrow> wr_error r \<noteq> None"
  by (auto simp: wait_pause_def split: if_splits prod.splits option.splits)

lemmas wait_splits = if_splits option.splits prod.splits sum.splits

interpretation operation: bounded_wait
  "wait_attempt rt ctx client i policy" "wait_after i" ws_polled wr_polled "\<lambda>r. wr_error r = None" "wait_accepts i"
  for rt ctx client i policy
proof unfold_locales
  fix a s s' assume "wait_attempt rt ctx client i policy a s = Inr s'"
  then show "\<exists>x. ws_polled s' = ws_polled s @ [x]"
    by (auto simp: wait_attempt_def Let_def dest!: wait_pause_polled(1) split: wait_splits)
next
  fix a s r assume "wait_attempt rt ctx client i policy a s = Inl r"
  then show "wr_polled r = ws_polled s \<or> (\<exists>x. wr_polled r = ws_polled s @ [x])"
    by (auto simp: wait_attempt_def Let_def dest!: wait_pause_polled(2) split: wait_splits)
next
  fix a s r assume "wait_attempt rt ctx client i policy a s = Inl r" "wr_error r = None"
  then show "\<exists>x. wr_polled r = ws_polled s @ [x] \<and> wait_accepts i x r"
    by (auto simp: wait_attempt_def wait_accepts_def Let_def dest: wait_pause_polled(3) split: wait_splits)
qed (simp_all add: wait_after_def)

lemma WaitForResilienceOperation_cases:
  obtains (refused) "wr_polled (WaitForResilienceOperation rt ctx client i policy w) = []"
      "wr_error (WaitForResilienceOperation rt ctx client i policy w) \<noteq> None"
  | (loop) c d where "WaitForResilienceOperation rt ctx client i policy w = attempt_loop
        (wait_attempt rt c d i policy) (wait_after i) 1 (nat (po_MaxAttempts policy)) (wait_start w)"
      "0 \<le> po_MaxAttempts policy"
proof (cases "ctx = None \<or> client = None \<or> blank i \<or> \<not> validateResilienceOperationPolicy policy")
  case True
  then show ?thesis
    by (intro refused) (auto simp: WaitForResilienceOperation_def Let_def split: option.splits)
next
  case False
  then obtain c d where "ctx = Some c" "client = Some d" by auto
  with False show ?thesis
    by (intro loop) (auto simp: WaitForResilienceOperation_def Let_def validateResilienceOperationPolicy_def)
qed

section \<open>Evidence\<close>

lemma check_evidence_Inr:
  assumes "check_evidence caps s r byClass es = Inr result" and "map_of result c = Some e"
  shows "map_of byClass c = Some e \<or>
         (e \<in> set es \<and> ev_DataClass e = c \<and> (\<exists>seen. evidence_problem caps s r seen e = None))"
  using assms
proof (induction caps s r byClass es rule: check_evidence.induct)
  case (2 caps s r byClass e' es)
  then have fine: "evidence_problem caps s r (map fst byClass) e' = None"
    and rest: "check_evidence caps s r ((ev_DataClass e', e') # byClass) es = Inr result"
    by (auto split: option.splits)
  from 2(1)[OF fine rest 2(3)] fine show ?case by (auto split: if_splits)
qed simp

text \<open>What a stage asks of the evidence for one data class, whatever its action.\<close>

definition evidence_holds :: "ResilienceStage \<Rightarrow> string \<Rightarrow> ResilienceProofEvidence \<Rightarrow> bool" where
  "evidence_holds s fixture e \<longleftrightarrow>
     ev_FixtureID e = fixture \<and> (rs_Destination s \<noteq> [] \<longrightarrow> ev_Destination e = rs_Destination s) \<and>
     (rs_RequiresSingleWriter s \<longrightarrow> ev_SingleWriterVerified e) \<and>
     (rs_RequiresSplitBrainCheck s \<longrightarrow> ev_SplitBrainAbsent e) \<and>
     (rs_RequiresStaleOriginCheck s \<longrightarrow> ev_StaleOriginRejected e) \<and>
     (rs_RequiresReconciliation s \<longrightarrow> ev_ReconciliationVerified e) \<and>
     (rs_RequiresApproval s \<longrightarrow> ev_ApprovalVerified e) \<and>
     (rs_Action s = ResilienceBackup \<longrightarrow> \<not> blank (ev_BackupID e)) \<and>
     (rs_Action s = ResilienceRestore \<longrightarrow> \<not> blank (ev_RestoreID e) \<and> ev_ServiceHealthVerified e) \<and>
     (rs_Action s = ResilienceIntegrityCheck \<longrightarrow>
        (ev_ManifestVerified e \<or> ev_CountsVerified e \<or> ev_ApplicationReadsVerified e) \<and>
        ev_PermissionsVerified e \<and> ev_ServiceHealthVerified e) \<and>
     (rs_Action s = ResilienceFailover \<longrightarrow> ev_ServiceHealthVerified e)"

lemma evidence_sound:
  assumes "evidence_problem caps s r seen e = None" and "class_proof s c e = None"
  shows "evidence_holds s (or_FixtureID r) e"
  using assms
  by (auto simp: evidence_problem_def evidence_holds_def class_proof_def writer_evidence_def first_failure_None_iff
      split: if_splits)

lemma validated_evidence:
  assumes "validateResilienceOperationEvidence d s r ob = None" and "needs_class_evidence s"
    and "c \<in> set (rs_DataClasses s)"
  shows "\<exists>e \<in> set (oo_Evidence ob). ev_DataClass e = c \<and> evidence_holds s (or_FixtureID r) e"
proof -
  from assms(1,2) obtain byClass where
    1: "check_evidence (capability_map d) s r [] (oo_Evidence ob) = Inr byClass" and
    2: "first_err (map (\<lambda>c. case map_of byClass c of None \<Rightarrow> Some (EvidenceMissing (rs_ID s) c)
                           | Some e \<Rightarrow> class_proof s c e) (rs_DataClasses s)) = None"
    by (auto simp: validateResilienceOperationEvidence_def split: sum.splits)
  from 2 assms(3) have "(case map_of byClass c of None \<Rightarrow> Some (EvidenceMissing (rs_ID s) c)
                           | Some e \<Rightarrow> class_proof s c e) = None"
    by (auto simp: first_err_None_iff)
  then obtain e where e: "map_of byClass c = Some e" "class_proof s c e = None" by (auto split: option.splits)
  from check_evidence_Inr[OF 1 e(1)] evidence_sound[OF _ e(2)] show ?thesis by auto
qed

section \<open>Execution\<close>

lemma admitted:
  assumes "ValidateResilienceExecutionRequest r = None"
  obtains s where "findResilienceStage (xr_Plan r) (xr_StageID r) = Some s" "stage_admission r s = None"
  using assms by (auto simp: ValidateResilienceExecutionRequest_def split: option.splits)

lemma admitted_stage:
  assumes "stage_admission r s = None"
  shows "xr_FixtureID r = rp_FixtureID (xr_Plan r)" and "xr_OwnershipMarker r = rp_OwnershipMarker (xr_Plan r)"
    and "rs_RequiresApproval s \<Longrightarrow> \<not> blank (xr_ApprovalReference r)"
    and "rs_ApprovalReference s \<noteq> [] \<Longrightarrow> xr_ApprovalReference r = rs_ApprovalReference s"
    and "rs_RequiresReconciliation s \<Longrightarrow> \<not> blank (xr_ReconciliationReference r)"
    and "rs_ReconciliationReference s \<noteq> [] \<Longrightarrow> xr_ReconciliationReference r = rs_ReconciliationReference s"
  using assms by (auto simp: stage_admission_def Let_def split: if_splits)

lemma found_stage:
  "findResilienceStage plan i = Some s \<Longrightarrow> s \<in> set (rp_Stages plan) \<and> rs_ID s = i"
  unfolding findResilienceStage_def by (drule find_SomeD)

lemma ExecuteResilience_cases:
  assumes "ExecuteResilience rt a ctx r w = (res, started, w')"
  obtains (refused) e where "res = Inl e" "started = []" "w' = w"
  | (ran) ad c s where "a = Some ad" "ctx = Some c" "findResilienceStage (xr_Plan r) (xr_StageID r) = Some s"
      "stage_admission r s = None" "run_operation rt ad c r s w = (res, started, w')"
proof (cases "a = None \<or> ctx = None \<or> ValidateResilienceExecutionRequest r \<noteq> None \<or> blank (xr_FixtureID r)")
  case True
  with assms have "(\<exists>e. res = Inl e) \<and> started = [] \<and> w' = w"
    by (auto simp: ExecuteResilience_def split: option.splits)
  then show ?thesis by (elim conjE exE) (rule refused)
next
  case False
  then obtain ad c where a: "a = Some ad" "ctx = Some c" and ok: "ValidateResilienceExecutionRequest r = None" by auto
  from admitted[OF ok] obtain s where s: "findResilienceStage (xr_Plan r) (xr_StageID r) = Some s"
    "stage_admission r s = None" .
  with a ok False assms show ?thesis by (intro ran) (auto simp: ExecuteResilience_def)
qed

lemma run_operation_started:
  "run_operation rt ad c r s w = (res, started, w') \<Longrightarrow> started = [operation_request r s]"
  by (auto simp: run_operation_def Let_def split: sum.splits prod.splits if_splits option.splits)

lemma run_operation_accepted:
  "run_operation rt ad c r s w = (Inr res, started, w') \<Longrightarrow>
     \<exists>ob. accept_observation (oa_descriptor ad) r s ob = Inr res"
  by (auto simp: run_operation_def Let_def split: sum.splits prod.splits if_splits option.splits)

lemma accepted_observation:
  assumes "accept_observation d r s ob = Inr res"
  shows "er_Action res = rs_Action s \<and> er_OwnershipMarker res = xr_OwnershipMarker r \<and> er_OwnershipVerified res \<and>
         er_IdempotencyVerified res \<and> er_Evidence res = oo_Evidence ob \<and>
         validateResilienceOperationEvidence d s (operation_request r s) ob = None"
  using assms by (auto simp: accept_observation_def split: option.splits if_splits)

text \<open>The references a compiled plan binds to a stage.\<close>

lemma lookup_safe:
  assumes "validate_references kind refs = []" and "lookup_string refs k \<noteq> []"
  shows "single_line (lookup_string refs k)"
proof -
  from assms(2) obtain v where v: "map_of refs k = Some v" "lookup_string refs k = v"
    by (auto simp: lookup_string_def split: option.splits)
  from map_of_SomeD[OF v(1)] assms(1) v(2) show ?thesis by (auto simp: validate_references_Nil)
qed

end
