(* ===== verification/Resilience_Recovery.thy ===== *)
theory Resilience_Recovery
  imports Resilience_Adapter
begin

text \<open>
  The properties of the recovery component: what the compiler plans, in which order a plan can run, how
  a wait ends and what an executed stage has proved, with one worked example that runs through all of
  them.
\<close>

section \<open>An example\<close>

text \<open>
  A shop with a database that is backed up and a cache that is rebuilt, recovered in another region with
  a failback that was asked for at plan time.
\<close>

definition shop_capability :: "string \<Rightarrow> string list \<Rightarrow> string list \<Rightarrow> ResilienceDataClassCapability" where
  "shop_capability name actions destinations =
     \<lparr>rc_Name = name, rc_Status = ''supported'', rc_Actions = actions, rc_Destinations = destinations,
      rc_Strategy = [], rc_BackupMechanism = [], rc_RestoreMechanism = [], rc_IntegrityMethod = [],
      rc_RetentionPolicy = [], rc_EncryptionBoundary = [], rc_ProtectionMechanism = [], rc_PollingRequired = True,
      rc_RetentionRequired = False, rc_EncryptionRequired = False, rc_ProtectionRequired = False, rc_Reason = []\<rparr>"

definition shop_descriptor :: ResilienceAdapterDescriptor where
  "shop_descriptor =
     \<lparr>rd_APIVersion = ''v1'', rd_ID = ''aws.recovery'', rd_Provider = ''aws'', rd_Version = ''1.0'',
      rd_Capabilities = [''backup'', ''restore'', ''integrity-check'', ''failover'', ''failback'', ''fence'', ''cleanup''],
      rd_DataClasses =
        [shop_capability ''database'' [''backup'', ''restore'', ''integrity-check''] [''same-region'', ''alternate-region''],
         shop_capability ''cache'' [''restore'', ''integrity-check''] [''alternate-region'']]\<rparr>"

definition shop_class :: "string \<Rightarrow> string \<Rightarrow> DataClassIntent" where
  "shop_class name backup =
     \<lparr>dc_Name = name, dc_SourceOfTruth = ''primary'', dc_FailureDomains = [], dc_BackupMethod = backup,
      dc_RestoreMethod = ''restore'', dc_IntegrityMethod = ''count'', dc_LossSemantics = ''none'',
      dc_RetentionDays = 7, dc_Encrypted = True, dc_Immutable = False, dc_DeletionProtection = True,
      dc_OwnershipMarker = ''shop/data''\<rparr>"

definition shop_architecture :: "(unit, unit) ArchitectureIntent" where
  "shop_architecture =
     \<lparr>ai_ProfileID = ''shop'', ai_Provider = ''aws'', ai_Runtime = ''ecs'', ai_AccountOrProjectRef = ''acct'',
      ai_Region = ''eu-west-1'', ai_Regions = [], ai_Zones = [], ai_ComputeMode = ''fargate'',
      ai_KubernetesMode = [], ai_NetworkMode = ''private'', ai_NetworkProfile = [], ai_IngressMode = ''alb'',
      ai_Boundaries = [], ai_Edge = (), ai_Observability = (),
      ai_Resilience = \<lparr>ri_ProfileID = ''dr'', ri_AvailabilityTarget = ''99.9'', ri_RPOSeconds = 60, ri_RTOSeconds = 600,
        ri_RetentionDays = 7, ri_RecoveryScope = ''region'', ri_FailoverOwner = ''ops'', ri_FencingPolicy = ''strict'',
        ri_RecoveryDestinations = [''same-region'', ''alternate-region''],
        ri_DataClasses = [shop_class ''database'' ''snapshot'', shop_class ''cache'' ''Rebuild''],
        ri_Projection = None\<rparr>,
      ai_ConfigurationFingerprint = [], ai_ArtifactDigest = ''sha'', ai_SchemaFingerprint = ''s1'',
      ai_MigrationFingerprint = ''m1'', ai_OwnershipMarker = ''shop''\<rparr>"

definition shop_request :: "(unit, unit) ResiliencePlanRequest" where
  "shop_request =
     \<lparr>rq_Architecture = shop_architecture, rq_FixtureID = ''fx-1'', rq_OwnershipMarker = ''shop'',
      rq_ApprovalReferences = [(''failback-runtime'', ''CHG-1'')],
      rq_ReconciliationReferences = [(''failback-runtime'', ''REC-1'')]\<rparr>"

definition shop_plan :: ResiliencePlan where
  "shop_plan =
     \<lparr>rp_AdapterID = ''aws.recovery'', rp_FixtureID = ''fx-1'', rp_OwnershipMarker = ''shop'',
      rp_Stages = map (bind_admission shop_request)
        (recovery_stages ''alternate-region'' True [shop_class ''cache'' ''Rebuild'', shop_class ''database'' ''snapshot'']),
      rp_RequiredProofs =
        [''backup:database'', ''cleanup'', ''failback'', ''failover'', ''fencing'', ''integrity:cache'',
         ''integrity:database'', ''reconciliation'', ''restore:cache'', ''restore:database'', ''single-writer'',
         ''split-brain'', ''stale-origin'']\<rparr>"

lemma shop_compiled: "CompileResiliencePlan (\<lambda>_. None) (\<lambda>_. None) shop_descriptor shop_request = Inr shop_plan"
  by code_simp

lemma shop_maps: "reference_maps shop_request"
  by code_simp

text \<open>A provider whose operations take one poll and come back with full evidence.\<close>

definition shop_evidence :: "string \<Rightarrow> ResilienceProofEvidence" where
  "shop_evidence c =
     \<lparr>ev_DataClass = c, ev_Destination = ''alternate-region'', ev_BackupID = ''b-1'', ev_RestoreID = ''r-1'',
      ev_FixtureID = ''fx-1'', ev_RetentionDays = 7, ev_EncryptionVerified = True, ev_ProtectionVerified = True,
      ev_ManifestVerified = True, ev_CountsVerified = True, ev_ApplicationReadsVerified = True,
      ev_PermissionsVerified = True, ev_SecretReferencesVerified = True, ev_ServiceHealthVerified = True,
      ev_WriterIdentityRef = ''w'', ev_WriterEpoch = ''7'', ev_SingleWriterVerified = True, ev_SplitBrainAbsent = True,
      ev_StaleOriginRejected = True, ev_ReconciliationVerified = True, ev_ApprovalVerified = True,
      ev_MeasuredDurationSeconds = 30, ev_MeasuredRPOSeconds = 5, ev_MeasuredRTOSeconds = 30, ev_Reason = []\<rparr>"

definition shop_observation :: "string \<Rightarrow> ResilienceOperationObservation" where
  "shop_observation status =
     \<lparr>oo_Status = status, oo_Action = [], oo_OperationID = ''op-1'', oo_ResourceRefs = [], oo_ProofRefs = [],
      oo_OwnershipMarker = ''shop'', oo_OwnershipVerified = True, oo_IdempotencyVerified = True,
      oo_Evidence = [shop_evidence ''cache'', shop_evidence ''database''], oo_Detail = []\<rparr>"

definition shop_client :: "nat ResilienceOperationClient" where
  "shop_client =
     \<lparr>oc_Start = \<lambda>_ _ n. (Inr (shop_observation ''pending''), n),
      oc_Poll = \<lambda>_ _ n. (Inr (shop_observation (if n = 0 then ''running'' else ''succeeded'')), n + 1),
      oc_Inventory = \<lambda>_ _ n. (Inr [], n)\<rparr>"

definition shop_rt :: "nat runtime" where
  "shop_rt = \<lparr>rt_now = int, rt_wait = \<lambda>_ n. n, rt_timer_wins = \<lambda>_. True\<rparr>"

definition shop_adapter :: "nat OperationBackedResilienceAdapter" where
  "shop_adapter = \<lparr>oa_descriptor = shop_descriptor, oa_client = shop_client, oa_policy = DefaultResilienceOperationPolicy\<rparr>"

definition shop_execution :: ResilienceExecutionRequest where
  "shop_execution =
     \<lparr>xr_Plan = shop_plan, xr_StageID = ''failback-runtime'', xr_FixtureID = ''fx-1'', xr_IdempotencyKey = ''k-1'',
      xr_OwnershipMarker = ''shop'', xr_ResourceReferences = [], xr_BackupReferences = [],
      xr_ApprovalReference = ''CHG-1'', xr_ReconciliationReference = ''REC-1''\<rparr>"

definition shop_result :: ResilienceExecutionResult where
  "shop_result =
     \<lparr>er_Action = ''failback'', er_OperationID = ''op-1'', er_ResourceRefs = [], er_ProofRefs = [],
      er_Evidence = [shop_evidence ''cache'', shop_evidence ''database''], er_OwnershipMarker = ''shop'',
      er_OwnershipVerified = True, er_IdempotencyVerified = True\<rparr>"

definition shop_started :: ResilienceOperationRequest where
  "shop_started =
     \<lparr>or_Action = ''failback'', or_DataClasses = [''cache'', ''database''], or_Destination = ''alternate-region'',
      or_FixtureID = ''fx-1'', or_OwnershipMarker = ''shop'', or_IdempotencyKey = ''k-1'', or_ResourceReferences = [],
      or_BackupReferences = [], or_ApprovalReference = ''CHG-1'', or_ReconciliationReference = ''REC-1''\<rparr>"

lemma shop_executed:
  "ExecuteResilience shop_rt (Some shop_adapter) (Some (\<lambda>_. None)) shop_execution 0 = (Inr shop_result, [shop_started], 2)"
  by code_simp

section \<open>Properties\<close>

text \<open>A destination a request may recover to, and its place in the order of preference.\<close>

definition recovers_in :: "ResilienceAdapterDescriptor \<Rightarrow> ('e, 'o) ResiliencePlanRequest \<Rightarrow> string \<Rightarrow> bool" where
  "recovers_in d r x \<longleftrightarrow>
     x \<in> set (ri_RecoveryDestinations (ai_Resilience (rq_Architecture r))) \<and>
     (\<forall>c \<in> set (ri_DataClasses (ai_Resilience (rq_Architecture r))).
        containsRecoveryDestination (capability_map d (dc_Name c)) x)"

definition position :: "string \<Rightarrow> string list \<Rightarrow> nat" where
  "position x xs = length (takeWhile ((\<noteq>) x) xs)"

lemma find_first: "find P xs = Some x \<Longrightarrow> y \<in> set xs \<Longrightarrow> P y \<Longrightarrow> position x xs \<le> position y xs"
  by (induction xs) (auto simp: position_def split: if_splits)

lemma common_destination:
  assumes "commonRecoveryDestination (ri_RecoveryDestinations (ai_Resilience (rq_Architecture r))) (sorted_classes r)
      (capability_map d) = Inr dest"
  shows "recovers_in d r dest"
    and "x \<in> set [''alternate-provider'', ''alternate-region'', ''same-region-isolated'', ''same-region''] \<Longrightarrow>
      recovers_in d r x \<Longrightarrow>
      position dest [''alternate-provider'', ''alternate-region'', ''same-region-isolated'', ''same-region''] \<le>
      position x [''alternate-provider'', ''alternate-region'', ''same-region-isolated'', ''same-region'']"
proof -
  have in_classes: "list_all (\<lambda>c. containsRecoveryDestination (capability_map d (dc_Name c)) x) (sorted_classes r) \<longleftrightarrow>
      (\<forall>c \<in> set (ri_DataClasses (ai_Resilience (rq_Architecture r))).
         containsRecoveryDestination (capability_map d (dc_Name c)) x)" for x
    by (simp add: list_all_iff sorted_classes_def)
  from assms have found: "find (recovers_in d r)
      [''alternate-provider'', ''alternate-region'', ''same-region-isolated'', ''same-region''] = Some dest"
    unfolding commonRecoveryDestination_def in_classes recovers_in_def[abs_def]
    by (simp only: split: option.splits) simp_all
  from find_SomeD[OF found] show "recovers_in d r dest" by blast
  show "position dest [''alternate-provider'', ''alternate-region'', ''same-region-isolated'', ''same-region''] \<le>
      position x [''alternate-provider'', ''alternate-region'', ''same-region-isolated'', ''same-region'']"
    if "x \<in> set [''alternate-provider'', ''alternate-region'', ''same-region-isolated'', ''same-region'']"
      "recovers_in d r x"
    using find_first[OF found that] .
qed

text \<open>
  C23. A compiled plan is the recovery written as one list: the backup of every durable data class, the
  fence, restore and verification of every class by name, failover, failback when it was requested, and
  cleanup, with only the admission references added. Its destination is one the request names and every
  data class supports, and of those the first in the order of preference.
\<close>

theorem compiled_plan_is_recovery_list:
  assumes "CompileResiliencePlan edge observability d r = Inr plan" and "reference_maps r"
  shows "\<exists>dest. rp_Stages plan =
             map (bind_admission r) (recovery_stages dest (failback_requested r) (sorted_classes r)) \<and>
           recovers_in d r dest \<and>
           (\<forall>x \<in> set [''alternate-provider'', ''alternate-region'', ''same-region-isolated'', ''same-region''].
              recovers_in d r x \<longrightarrow>
              position dest [''alternate-provider'', ''alternate-region'', ''same-region-isolated'', ''same-region''] \<le>
              position x [''alternate-provider'', ''alternate-region'', ''same-region-isolated'', ''same-region''])"
proof -
  from compiled_plan[OF assms] obtain dest where
    stages: "rp_Stages plan = map (bind_admission r) (recovery_stages dest (failback_requested r) (sorted_classes r))" and
    dest: "commonRecoveryDestination (ri_RecoveryDestinations (ai_Resilience (rq_Architecture r))) (sorted_classes r)
           (capability_map d) = Inr dest"
    by blast
  from stages common_destination[OF dest] show ?thesis by blast
qed

theorem compiled_plan_is_recovery_list_witness:
  "CompileResiliencePlan (\<lambda>_. None) (\<lambda>_. None) shop_descriptor shop_request = Inr shop_plan \<and>
   (\<exists>dest. rp_Stages shop_plan =
      map (bind_admission shop_request) (recovery_stages dest (failback_requested shop_request) (sorted_classes shop_request)))"
  using compiled_plan_is_recovery_list[OF shop_compiled shop_maps] shop_compiled by blast

text \<open>
  C22. A compiled recovery plan is safe in every order that respects its dependencies. Traffic fails over
  only when the old site is fenced and every data class of the architecture has been backed up (unless
  it is rebuilt), restored and verified; it fails back only after the failover; and cleanup runs after
  every other stage of the plan.
\<close>

theorem recovery_order_is_safe:
  assumes "CompileResiliencePlan edge observability d r = Inr plan" and "reference_maps r"
    and "ordered (stage_graph (rp_Stages plan)) [] (finished @ rs_ID s # bs)" and "s \<in> set (rp_Stages plan)"
  shows "(rs_Action s = ''failover'' \<longrightarrow> ''fence-runtime'' \<in> set finished \<and>
            (\<forall>c \<in> set (ri_DataClasses (ai_Resilience (rq_Architecture r))).
               restoreID c \<in> set finished \<and> integrityID c \<in> set finished \<and>
               (durable c \<longrightarrow> backupID c \<in> set finished))) \<and>
         (rs_Action s = ''failback'' \<longrightarrow> ''failover-runtime'' \<in> set finished) \<and>
         (rs_Action s = ''cleanup'' \<longrightarrow>
            (\<forall>t \<in> set (rp_Stages plan). rs_ID t \<noteq> rs_ID s \<longrightarrow> rs_ID t \<in> set finished))"
proof -
  from compiled_plan[OF assms(1,2)] obtain dest where
    stages: "rp_Stages plan = map (bind_admission r) (recovery_stages dest (failback_requested r) (sorted_classes r))" and
    moves: "failback_requested r \<Longrightarrow> resilienceRequiresFailover dest" and
    valid: "ValidateResiliencePlan plan (ai_Resilience (rq_Architecture r)) = []" and
    req: "ValidateResiliencePlanRequest edge observability r = []"
    by blast
  let ?E = "recovery_edges dest (failback_requested r) (sorted_classes r)"
  have reach: "b \<in> set finished" if "(rs_ID s, b) \<in> ?E\<^sup>+" for b
    using ordered_reaches[OF assms(3)] trancl_mono[OF that compiled_edges[OF stages valid]] by blast
  from assms(4) stages obtain s0 where s0: "s0 \<in> set (recovery_stages dest (failback_requested r) (sorted_classes r))"
    "s = bind_admission r s0" by auto
  note kind = compiled_stage_kind[OF s0(1)]
  have classes: "set (sorted_classes r) = set (ri_DataClasses (ai_Resilience (rq_Architecture r)))"
    by (simp add: sorted_classes_def)
  have some: "set (sorted_classes r) \<noteq> {}" using sorted_classes_nonempty[OF req] by simp
  show ?thesis
  proof (intro conjI impI)
    assume "rs_Action s = ''failover''"
    with kind(2) s0(2) have at: "rs_ID s = ''failover-runtime''" "resilienceRequiresFailover dest" by simp_all
    note after = failover_after[OF _ at(2), of _ "sorted_classes r" "failback_requested r", folded at(1), THEN reach]
    from some obtain c where "c \<in> set (sorted_classes r)" by (cases "sorted_classes r") auto
    from after(3)[OF this] show "''fence-runtime'' \<in> set finished" .
    show "\<forall>c \<in> set (ri_DataClasses (ai_Resilience (rq_Architecture r))). restoreID c \<in> set finished \<and>
        integrityID c \<in> set finished \<and> (durable c \<longrightarrow> backupID c \<in> set finished)"
      unfolding classes[symmetric] using after(1,2,4) by blast
  next
    assume "rs_Action s = ''failback''"
    with kind(3) s0(2) have "rs_ID s = ''failback-runtime''" "failback_requested r" by simp_all
    with moves failback_failover[of "failback_requested r" dest "sorted_classes r"] show "''failover-runtime'' \<in> set finished"
      by (intro reach) auto
  next
    assume "rs_Action s = ''cleanup''"
    with kind(1) s0(2) have at: "rs_ID s = ''cleanup-runtime''" by simp
    show "\<forall>t \<in> set (rp_Stages plan). rs_ID t \<noteq> rs_ID s \<longrightarrow> rs_ID t \<in> set finished"
      using cleanup_after[OF _ _ sorted_classes_nonempty[OF req], of _ dest "failback_requested r"] reach at
      unfolding stages by auto
  qed
qed

text \<open>The example's failover, in the order the compiler listed the stages.\<close>

definition shop_before :: "string list" where
  "shop_before = [''backup-database'', ''fence-runtime'', ''restore-cache'', ''integrity-cache'', ''restore-database'',
                ''integrity-database'']"

definition shop_failover :: ResilienceStage where
  "shop_failover = rp_Stages shop_plan ! 6"

theorem recovery_order_is_safe_witness:
  "rs_Action shop_failover = ''failover'' \<and> ''fence-runtime'' \<in> set shop_before"
proof -
  have order: "ordered (stage_graph (rp_Stages shop_plan)) []
      (shop_before @ rs_ID shop_failover # [''failback-runtime'', ''cleanup-runtime''])" by code_simp
  have mem: "shop_failover \<in> set (rp_Stages shop_plan)" by code_simp
  have act: "rs_Action shop_failover = ''failover''" by code_simp
  from recovery_order_is_safe[OF shop_compiled shop_maps order mem] act show ?thesis by blast
qed

text \<open>
  C25. Whatever the provider answers, waiting for an operation ends within the policy's number of polls,
  and it ends without an error only on an answer the provider has just given, for this very operation
  and with status succeeded.
\<close>

theorem operation_wait_ends:
  "int (length (wr_polled (WaitForResilienceOperation rt ctx client i policy w))) \<le> max 0 (po_MaxAttempts policy) \<and>
   (wr_error (WaitForResilienceOperation rt ctx client i policy w) = None \<longrightarrow>
      (\<exists>ob. wr_polled (WaitForResilienceOperation rt ctx client i policy w) \<noteq> [] \<and>
            last (wr_polled (WaitForResilienceOperation rt ctx client i policy w)) = Inr ob \<and>
            wr_observation (WaitForResilienceOperation rt ctx client i policy w) = ob \<and>
            oo_OperationID ob = i \<and> oo_Status ob = ''succeeded''))"
proof (cases rule: WaitForResilienceOperation_cases[of rt ctx client i policy w])
  case refused
  then show ?thesis by simp
next
  case (loop c d)
  from operation.polls_bounded[OF _ loop(2), of "wait_start w" rt c d i policy]
    operation.success_rests_on_last_answer[OF _ loop(2), of rt c d i policy "wait_start w"] loop(2)
  show ?thesis unfolding loop(1) by (auto simp: wait_accepts_def)
qed

theorem operation_wait_ends_witness:
  "int (length (wr_polled (WaitForResilienceOperation shop_rt (Some (\<lambda>_. None)) (Some shop_client) ''op-1''
      DefaultResilienceOperationPolicy 0))) \<le> max 0 (po_MaxAttempts DefaultResilienceOperationPolicy) \<and>
   oo_Status (wr_observation (WaitForResilienceOperation shop_rt (Some (\<lambda>_. None)) (Some shop_client) ''op-1''
      DefaultResilienceOperationPolicy 0)) = ''succeeded''"
proof -
  have "wr_error (WaitForResilienceOperation shop_rt (Some (\<lambda>_. None)) (Some shop_client) ''op-1''
      DefaultResilienceOperationPolicy 0) = None" by code_simp
  with operation_wait_ends[of shop_rt "Some (\<lambda>_. None)" "Some shop_client" "''op-1''" DefaultResilienceOperationPolicy 0]
  show ?thesis by blast
qed

text \<open>
  C24. A stage that executes without an error is a stage of the plan, started once with the plan's own
  fixture and ownership marker; the result has verified ownership and idempotency. For a backup, restore,
  integrity check, fence, failover or failback, but not for a cleanup, it carries for every data class of the
  stage evidence of the same fixture, and of the destination of the stage if it has one, that verifies each
  safety flag the stage requires and what its action has to prove.
\<close>

theorem executed_stage_is_proven:
  assumes "ExecuteResilience rt a ctx r w = (Inr res, started, w')"
  shows "\<exists>s \<in> set (rp_Stages (xr_Plan r)). rs_ID s = xr_StageID r \<and> started = [operation_request r s] \<and>
           er_Action res = rs_Action s \<and> er_OwnershipMarker res = rp_OwnershipMarker (xr_Plan r) \<and>
           er_OwnershipVerified res \<and> er_IdempotencyVerified res \<and>
           (validResilienceAction (rs_Action s) \<and> rs_Action s \<noteq> ''cleanup'' \<longrightarrow>
             (\<forall>c \<in> set (rs_DataClasses s). \<exists>e \<in> set (er_Evidence res).
                ev_DataClass e = c \<and> evidence_holds s (rp_FixtureID (xr_Plan r)) e))"
  using assms
proof (cases rule: ExecuteResilience_cases)
  case refused
  then show ?thesis by simp
next
  case (ran ad c s)
  from run_operation_accepted[OF ran(5)] obtain ob where
    ob: "accept_observation (oa_descriptor ad) r s ob = Inr res" by blast
  note acc = accepted_observation[OF ob]
  have "needs_class_evidence s" if "validResilienceAction (rs_Action s)" "rs_Action s \<noteq> ''cleanup''"
    using that by (auto simp: needs_class_evidence_def validResilienceAction_def)
  with acc validated_evidence[of "oa_descriptor ad" s "operation_request r s" ob] admitted_stage(1)[OF ran(4)]
  have ev: "validResilienceAction (rs_Action s) \<and> rs_Action s \<noteq> ''cleanup'' \<longrightarrow>
      (\<forall>c \<in> set (rs_DataClasses s). \<exists>e \<in> set (er_Evidence res).
         ev_DataClass e = c \<and> evidence_holds s (rp_FixtureID (xr_Plan r)) e)"
    by (simp add: operation_request_def)
  from found_stage[OF ran(3)] acc run_operation_started[OF ran(5)] admitted_stage(2)[OF ran(4)] ev
  show ?thesis by (intro bexI[of _ s]) auto
qed

theorem executed_stage_is_proven_witness:
  "ExecuteResilience shop_rt (Some shop_adapter) (Some (\<lambda>_. None)) shop_execution 0 = (Inr shop_result, [shop_started], 2) \<and>
   (\<exists>s \<in> set (rp_Stages shop_plan). rs_ID s = ''failback-runtime'' \<and> er_OwnershipVerified shop_result)"
proof -
  have at: "xr_Plan shop_execution = shop_plan" "xr_StageID shop_execution = ''failback-runtime''"
    by (simp_all add: shop_execution_def)
  from executed_stage_is_proven[OF shop_executed] show ?thesis using shop_executed unfolding at by blast
qed

text \<open>
  Failing back takes both admission identities of plan time. When an adapter starts a failback of a
  compiled plan, the request the provider gets carries exactly the approval and the reconciliation
  reference that the plan request named for it, each present and on one line, together with the plan
  request's fixture and the architecture's ownership marker.
\<close>

lemma failback_carries_both_references:
  assumes "CompileResiliencePlan edge observability d r = Inr plan" and "reference_maps r"
    and "xr_Plan x = plan" and "ExecuteResilience rt a ctx x w = (res, started, w')"
    and "q \<in> set started" and "or_Action q = ''failback''"
  shows "or_ApprovalReference q = lookup_string (rq_ApprovalReferences r) ''failback-runtime'' \<and>
         or_ReconciliationReference q = lookup_string (rq_ReconciliationReferences r) ''failback-runtime'' \<and>
         single_line (or_ApprovalReference q) \<and> single_line (or_ReconciliationReference q) \<and>
         or_FixtureID q = rq_FixtureID r \<and> or_OwnershipMarker q = ai_OwnershipMarker (rq_Architecture r)"
  using assms(4)
proof (cases rule: ExecuteResilience_cases)
  case refused
  with assms(5) show ?thesis by simp
next
  case (ran ad c s)
  with run_operation_started[OF ran(5)] assms(5) have q: "q = operation_request x s" by simp
  from found_stage[OF ran(3)] assms(3) have s: "s \<in> set (rp_Stages plan)" by simp
  from q assms(6) have act: "rs_Action s = ResilienceFailback" by (simp add: operation_request_def)
  from compiled_plan[OF assms(1,2)] obtain dest where
    stages: "rp_Stages plan = map (bind_admission r) (recovery_stages dest (failback_requested r) (sorted_classes r))" and
    valid: "ValidateResiliencePlan plan (ai_Resilience (rq_Architecture r)) = []" and
    bound: "rp_FixtureID plan = rq_FixtureID r" "rp_OwnershipMarker plan = rq_OwnershipMarker r" and
    req: "ValidateResiliencePlanRequest edge observability r = []"
    by blast
  from s stages obtain s0 where s0: "s0 \<in> set (recovery_stages dest (failback_requested r) (sorted_classes r))"
    "s = bind_admission r s0" by auto
  with act compiled_stage_kind(3)[OF s0(1)] have name: "rs_ID s = ''failback-runtime''" by simp
  from s0(1) have "rs_ApprovalReference s0 = []" "rs_ReconciliationReference s0 = []"
    unfolding set_recovery_stages
    by (auto simp: backup_stage_def fence_stage_def restore_stage_def integrity_stage_def failover_stage_def
        failback_stage_def cleanup_stage_def)
  from bind_admission_references(1)[OF this(1), of r] bind_admission_references(2)[OF this(2), of r] s0(2) name
  have refs: "rs_ApprovalReference s = lookup_string (rq_ApprovalReferences r) ''failback-runtime''"
    "rs_ReconciliationReference s = lookup_string (rq_ReconciliationReferences r) ''failback-runtime''"
    by simp_all
  from validate_stage_failback[OF plan_valid_stage[OF valid s] act]
  have guard: "rs_ApprovalReference s \<noteq> []" "rs_ReconciliationReference s \<noteq> []" by (simp_all add: failback_guarded_def)
  note same = admitted_stage(1,2)[OF ran(4)] admitted_stage(4)[OF ran(4) guard(1)] admitted_stage(6)[OF ran(4) guard(2)]
  from req have safe: "validate_references ''approval'' (rq_ApprovalReferences r) = []"
    "validate_references ''reconciliation'' (rq_ReconciliationReferences r) = []"
    and own: "rq_OwnershipMarker r = ai_OwnershipMarker (rq_Architecture r)"
    by (simp_all add: ValidateResiliencePlanRequest_def split: if_splits)
  from lookup_safe[OF safe(1)] lookup_safe[OF safe(2)] guard refs same own bound assms(3) show ?thesis
    by (simp add: q operation_request_def)
qed

end
