(* ===== verification/Coverage_Architecture.thy ===== *)
theory Coverage_Architecture
  imports Coverage Resilience_Data
begin

text \<open>
  \<^verbatim>\<open>CoverageBoundaryFromArchitecture\<close> of \<^verbatim>\<open>sdk/coverage.go\<close>: the certification boundary an architecture
  intent stands for. What it reads of the edge and observability intents (the edge mode and the two
  observability providers) is read through the arguments \<open>edge_mode\<close>, \<open>native\<close> and \<open>external\<close>.
\<close>

definition valueOrNone :: "string \<Rightarrow> string" where
  "valueOrNone v = (if blank v then ''none'' else v)"

definition observability_destination :: "string \<Rightarrow> string \<Rightarrow> string" where
  "observability_destination native external =
     (let own = (if activeProvider native then native else ''none'') in
      if activeProvider external then (if own = ''none'' then external else own @ ''+'' @ external) else own)"

text \<open>The one ownership all boundaries have, or \<^verbatim>\<open>mixed\<close>.\<close>

definition common_ownership :: "ServiceBoundaryIntent list \<Rightarrow> string" where
  "common_ownership bs = (case remdups (map sb_Ownership bs) of [o'] \<Rightarrow> o' | _ \<Rightarrow> ''mixed'')"

datatype boundary_error = BoundaryArchitecture "intent_problem list" | BoundaryInvalid "coverage_error list"

definition CoverageBoundaryFromArchitecture ::
  "('e \<Rightarrow> string option) \<Rightarrow> ('o \<Rightarrow> string option) \<Rightarrow> ('e \<Rightarrow> string) \<Rightarrow> ('o \<Rightarrow> string) \<Rightarrow> ('o \<Rightarrow> string)
     \<Rightarrow> ('e, 'o) ArchitectureIntent \<Rightarrow> string \<Rightarrow> boundary_error + CoverageBoundary" where
  "CoverageBoundaryFromArchitecture edge observability edge_mode native external a fixture =
     (let problems = ArchitectureIntent_Validate edge observability a in
      if problems \<noteq> [] then Inl (BoundaryArchitecture problems)
      else
        let b = \<lparr>cb_Provider = ai_Provider a,
                 cb_Regions = (if ai_Regions a = [] then [ai_Region a] else ai_Regions a),
                 cb_ComputeMode = ai_ComputeMode a,
                 cb_KubernetesTopology = valueOrNone (ai_KubernetesMode a),
                 cb_NetworkProfile = valueOrNone (ai_NetworkProfile a),
                 cb_ManagedSelfHostedBoundary = common_ownership (ai_Boundaries a),
                 cb_ServiceMajors = foldl (\<lambda>m s. map_put (sb_Role s) (sb_Major s) m) [] (ai_Boundaries a),
                 cb_ResilienceProfileID = ri_ProfileID (ai_Resilience a),
                 cb_ObservabilityDestination =
                   observability_destination (native (ai_Observability a)) (external (ai_Observability a)),
                 cb_EdgePath = (if edge_mode (ai_Edge a) = [] then ''none'' else edge_mode (ai_Edge a)),
                 cb_ArtifactDigest = ai_ArtifactDigest a,
                 cb_SchemaFingerprint = ai_SchemaFingerprint a,
                 cb_MigrationFingerprint = ai_MigrationFingerprint a,
                 cb_RecoveryFixtureID = fixture,
                 cb_RecoveryDestination = ''none'',
                 cb_OwnershipMarker = ai_OwnershipMarker a,
                 cb_ConfigurationFingerprint = valueOrNone (ai_ConfigurationFingerprint a)\<rparr>
        in if CoverageBoundary_Validate b \<noteq> [] then Inl (BoundaryInvalid (CoverageBoundary_Validate b)) else Inr b)"

lemma boundary_from_architecture_valid:
  "CoverageBoundaryFromArchitecture edge observability edge_mode native external a fixture = Inr b \<Longrightarrow>
     CoverageBoundary_Validate b = [] \<and> cb_RecoveryFixtureID b = fixture \<and> cb_RecoveryDestination b = ''none''"
  by (auto simp: CoverageBoundaryFromArchitecture_def Let_def split: if_splits)

text \<open>
  A boundary derived from an architecture has no recovery destination, so the restore transition, which
  is a change of exactly that, never leads from one derived boundary to another.
\<close>

lemma derived_boundaries_admit_no_restore:
  assumes "CoverageBoundaryFromArchitecture edge observability edge_mode native external a fixture = Inr b"
    and "CoverageBoundaryFromArchitecture edge observability edge_mode native external a' fixture' = Inr b'"
  shows "ValidateCoverageTransition b b' CoverageTransitionRestore \<noteq> None"
proof -
  have "''recoveryDestination'' \<notin> set (coverageDifferences b b')"
    using assms[THEN boundary_from_architecture_valid] by (simp add: coverageDifferences_def)
  then show ?thesis by (auto simp: ValidateCoverageTransition_def Let_def split: if_splits)
qed

end
