(* ===== verification/Deploy_Hooks.thy ===== *)
theory Deploy_Hooks
  imports Go_Context Go_Graph Go_Regexp "HOL-Library.Multiset"
begin

text \<open>
  Lifecycle hooks: the descriptors and their validation (\<^verbatim>\<open>sdk/validation.go\<close>), and the plan the deployment
  makes of them (\<^verbatim>\<open>internal/deploy/hooks.go\<close>). A hook is extension code: two total functions on the
  world, one to validate and one to run. The descriptor it returns is taken to be the same at every call.
\<close>

section \<open>Descriptors\<close>

record LifecycleHookDescriptor =
  hd_ID :: string
  hd_Phase :: string
  hd_Relationship :: string
  hd_RelativeTo :: string
  hd_DependsOn :: "string list"
  hd_Timeout :: int
  hd_MaxAttempts :: int
  hd_Idempotent :: bool

abbreviation PhaseDeploy :: string where "PhaseDeploy \<equiv> ''deploy''"
abbreviation PhasePostDeploy :: string where "PhasePostDeploy \<equiv> ''post-deploy''"
abbreviation HookBefore :: string where "HookBefore \<equiv> ''before''"
abbreviation HookAfter :: string where "HookAfter \<equiv> ''after''"
abbreviation HookReplace :: string where "HookReplace \<equiv> ''replace''"
abbreviation HookDisable :: string where "HookDisable \<equiv> ''disable''"

definition validLifecyclePhase :: "string \<Rightarrow> bool" where
  "validLifecyclePhase p \<longleftrightarrow> p \<in> set [''validate'', ''build'', ''package'', PhaseDeploy, PhasePostDeploy]"

definition validHookRelationship :: "string \<Rightarrow> bool" where
  "validHookRelationship r \<longleftrightarrow> r \<in> set [HookBefore, HookAfter, HookReplace, HookDisable]"

datatype hook_error =
    HookNil
  | HookPhase string
  | HookTargetUnknown string string
  | HookPhaseMismatch string string
  | HookNotStableID string string
  | HookPhaseInvalid string
  | HookRelationshipInvalid string
  | HookTimeoutInvalid
  | HookAttemptsInvalid
  | HookNotIdempotent
  | HookDuplicateDependency string string
  | HookDuplicate string
  | HookSelfDependency string
  | HookCycle string
  | HooksInvalid "hook_error list"
  | HookUnregistered string string

definition hook_ID :: "string \<Rightarrow> string \<Rightarrow> hook_error list" where
  "hook_ID name v = (if full_match stableID v then [] else [HookNotStableID name v])"

fun hook_dependencies :: "string \<Rightarrow> string list \<Rightarrow> string list \<Rightarrow> hook_error list" where
  "hook_dependencies i seen [] = []"
| "hook_dependencies i seen (d # ds) =
     hook_ID ''lifecycle dependency ID'' d @
     (if d \<in> set seen then [HookDuplicateDependency i d] else []) @ hook_dependencies i (d # seen) ds"

definition validateHookDescriptor :: "LifecycleHookDescriptor \<Rightarrow> hook_error list" where
  "validateHookDescriptor d =
     hook_ID ''lifecycle hook ID'' (hd_ID d) @
     hook_ID ''relative lifecycle step ID'' (hd_RelativeTo d) @
     (if validLifecyclePhase (hd_Phase d) then [] else [HookPhaseInvalid (hd_Phase d)]) @
     (if validHookRelationship (hd_Relationship d) then [] else [HookRelationshipInvalid (hd_Relationship d)]) @
     (if hd_Timeout d < 1 then [HookTimeoutInvalid] else []) @
     (if hd_MaxAttempts d < 1 then [HookAttemptsInvalid]
      else if hd_MaxAttempts d > 1 \<and> \<not> hd_Idempotent d then [HookNotIdempotent] else []) @
     hook_dependencies (hd_ID d) [] (hd_DependsOn d)"

fun hook_shapes :: "string list \<Rightarrow> LifecycleHookDescriptor list \<Rightarrow> hook_error list" where
  "hook_shapes seen [] = []"
| "hook_shapes seen (d # ds) =
     validateHookDescriptor d @ (if hd_ID d \<in> set seen then [HookDuplicate (hd_ID d)] else []) @
     hook_shapes (hd_ID d # seen) ds"

text \<open>Graphs of descriptors: the last one of an ID counts. The cycle check skips what is no hook.\<close>

definition hook_graph :: "LifecycleHookDescriptor list \<Rightarrow> string graph" where
  "hook_graph ds = map (\<lambda>d. (hd_ID d, hd_DependsOn d)) (rev ds)"

definition known_hook_graph :: "LifecycleHookDescriptor list \<Rightarrow> string graph" where
  "known_hook_graph ds =
     map (\<lambda>d. (hd_ID d, filter (\<lambda>i. i \<in> hd_ID ` set ds) (hd_DependsOn d))) (rev ds)"

definition lifecycleCycles :: "LifecycleHookDescriptor list \<Rightarrow> hook_error list" where
  "lifecycleCycles ds = (case find_cycle (known_hook_graph ds) (map hd_ID ds) of None \<Rightarrow> [] | Some i \<Rightarrow> [HookCycle i])"

definition ValidateLifecycleHooks :: "LifecycleHookDescriptor list \<Rightarrow> hook_error list" where
  "ValidateLifecycleHooks ds =
     hook_shapes [] ds @
     concat (map (\<lambda>d. concat (map (\<lambda>i. if i = hd_ID d then [HookSelfDependency (hd_ID d)] else []) (hd_DependsOn d))) ds) @
     lifecycleCycles ds"

section \<open>The hook plan\<close>

abbreviation HookTargetPreview :: string where "HookTargetPreview \<equiv> ''deploy.preview''"
abbreviation HookTargetCandidate :: string where "HookTargetCandidate \<equiv> ''deploy.candidate''"
abbreviation HookTargetMigrations :: string where "HookTargetMigrations \<equiv> ''deploy.migrations''"
abbreviation HookTargetUpdate :: string where "HookTargetUpdate \<equiv> ''deploy.update''"
abbreviation HookTargetStabilize :: string where "HookTargetStabilize \<equiv> ''deploy.stabilize''"
abbreviation HookTargetHealth :: string where "HookTargetHealth \<equiv> ''post-deploy.health''"
abbreviation HookTargetRecord :: string where "HookTargetRecord \<equiv> ''post-deploy.record''"

definition validHookTarget :: "string \<Rightarrow> bool" where
  "validHookTarget t \<longleftrightarrow> t \<in> set
     [HookTargetPreview, HookTargetCandidate, HookTargetMigrations, HookTargetUpdate, HookTargetStabilize,
      HookTargetHealth, HookTargetRecord]"

definition phaseForTarget :: "string \<Rightarrow> string" where
  "phaseForTarget t = (if t = HookTargetHealth \<or> t = HookTargetRecord then PhasePostDeploy else PhaseDeploy)"

record ('w, 'q) LifecycleHook =
  lh_Descriptor :: LifecycleHookDescriptor
  lh_Validate :: "'w Context \<Rightarrow> 'q \<Rightarrow> 'w \<Rightarrow> string option \<times> 'w"
  lh_Run :: "'w Context \<Rightarrow> 'q \<Rightarrow> 'w \<Rightarrow> string option \<times> 'w"

definition check_hook :: "('w, 'q) LifecycleHook option \<Rightarrow> hook_error option" where
  "check_hook h =
     (case h of None \<Rightarrow> Some HookNil
      | Some h \<Rightarrow> (let d = lh_Descriptor h in first_failure
          [(hd_Phase d \<noteq> PhaseDeploy \<and> hd_Phase d \<noteq> PhasePostDeploy, HookPhase (hd_ID d)),
           (\<not> validHookTarget (hd_RelativeTo d), HookTargetUnknown (hd_ID d) (hd_RelativeTo d)),
           (hd_Phase d \<noteq> phaseForTarget (hd_RelativeTo d), HookPhaseMismatch (hd_ID d) (hd_RelativeTo d))]))"

definition unregistered_dependency :: "LifecycleHookDescriptor list \<Rightarrow> hook_error option" where
  "unregistered_dependency ds = first_err (concat (map (\<lambda>d. map (\<lambda>i.
     if i \<in> hd_ID ` set ds then None else Some (HookUnregistered (hd_ID d) i)) (hd_DependsOn d)) ds))"

text \<open>
  The hooks in the order in which the depth-first walk leaves them. The walk of a plan meets registered
  hooks only (\<open>newHookPlan_members\<close>), so the lookup's last case, a nil hook in Go, does not arise.
\<close>

definition hook_by_ID :: "('w, 'q) LifecycleHook list \<Rightarrow> string \<Rightarrow> ('w, 'q) LifecycleHook" where
  "hook_by_ID hs i = (case find (\<lambda>h. hd_ID (lh_Descriptor h) = i) (rev hs) of
     Some h \<Rightarrow> h
   | None \<Rightarrow> \<lparr>lh_Descriptor = \<lparr>hd_ID = i, hd_Phase = [], hd_Relationship = [], hd_RelativeTo = [], hd_DependsOn = [],
                               hd_Timeout = 0, hd_MaxAttempts = 0, hd_Idempotent = False\<rparr>,
              lh_Validate = \<lambda>_ _ w. (None, w), lh_Run = \<lambda>_ _ w. (None, w)\<rparr>)"

definition topologicalHooks :: "('w, 'q) LifecycleHook list \<Rightarrow> hook_error + ('w, 'q) LifecycleHook list" where
  "topologicalHooks hs =
     (let ds = map lh_Descriptor hs in
      case visit_all (hook_graph ds) (sort (map hd_ID ds)) [] [] of
        Inl i \<Rightarrow> Inl (HookCycle i)
      | Inr order \<Rightarrow> Inr (map (hook_by_ID hs) order))"

definition newHookPlan :: "('w, 'q) LifecycleHook option list \<Rightarrow> hook_error + ('w, 'q) LifecycleHook list" where
  "newHookPlan hooks =
     (if hooks = [] then Inr []
      else case first_err (map check_hook hooks) of
        Some e \<Rightarrow> Inl e
      | None \<Rightarrow>
          (let hs = map the hooks; ds = map lh_Descriptor hs; problems = ValidateLifecycleHooks ds in
           if problems \<noteq> [] then Inl (HooksInvalid problems)
           else case unregistered_dependency ds of Some e \<Rightarrow> Inl e | None \<Rightarrow> topologicalHooks hs))"

section \<open>What a plan consists of\<close>

lemma hook_shapes_distinct:
  "hook_shapes seen ds = [] \<Longrightarrow> distinct (map hd_ID ds) \<and> hd_ID ` set ds \<inter> set seen = {}"
  by (induction seen ds rule: hook_shapes.induct) (auto split: if_splits)

lemma hook_by_ID_known:
  assumes "i \<in> hd_ID ` lh_Descriptor ` set hs"
  shows "hook_by_ID hs i \<in> set hs" and "hd_ID (lh_Descriptor (hook_by_ID hs i)) = i"
proof -
  have "find (\<lambda>h. hd_ID (lh_Descriptor h) = i) (rev hs) \<noteq> None"
    using assms by (auto simp: find_None_iff)
  then obtain h where h: "find (\<lambda>h. hd_ID (lh_Descriptor h) = i) (rev hs) = Some h" by auto
  from find_SomeD[OF h] h show "hook_by_ID hs i \<in> set hs" "hd_ID (lh_Descriptor (hook_by_ID hs i)) = i"
    by (simp_all add: hook_by_ID_def)
qed

lemma registered_dependencies:
  assumes "unregistered_dependency ds = None" and "d \<in> set ds"
  shows "set (hd_DependsOn d) \<subseteq> hd_ID ` set ds"
proof
  fix i assume i: "i \<in> set (hd_DependsOn d)"
  with assms have "(if i \<in> hd_ID ` set ds then None else Some (HookUnregistered (hd_ID d) i)) = None"
    by (fastforce simp: unregistered_dependency_def first_err_None_iff)
  then show "i \<in> hd_ID ` set ds" by (simp split: if_splits)
qed

lemma hook_graph_closed:
  assumes "unregistered_dependency ds = None"
  shows "set (deps (hook_graph ds) k) \<subseteq> hd_ID ` set ds"
proof (cases "map_of (hook_graph ds) k")
  case None
  then show ?thesis by (simp add: deps_def)
next
  case (Some js)
  from map_of_SomeD[OF this] obtain d where "d \<in> set ds" "js = hd_DependsOn d" by (auto simp: hook_graph_def)
  with registered_dependencies[OF assms] Some show ?thesis by (simp add: deps_def)
qed

lemma newHookPlan_members:
  assumes "newHookPlan hooks = Inr plan"
  shows "set plan \<subseteq> set (map the hooks)"
proof (cases "hooks = []")
  case True
  with assms show ?thesis by (simp add: newHookPlan_def)
next
  case False
  let ?hs = "map the hooks" let ?ds = "map lh_Descriptor ?hs"
  from assms False have fine: "ValidateLifecycleHooks ?ds = []" "unregistered_dependency ?ds = None"
    and order: "topologicalHooks ?hs = Inr plan"
    by (auto simp: newHookPlan_def Let_def split: option.splits if_splits)
  then obtain ids where ids: "visit_all (hook_graph ?ds) (sort (map hd_ID ?ds)) [] [] = Inr ids"
    and plan: "plan = map (hook_by_ID ?hs) ids"
    by (auto simp: topologicalHooks_def Let_def split: sum.splits)
  have "set ids \<subseteq> hd_ID ` set ?ds"
    by (rule visit_all_subset[OF ids]) (use hook_graph_closed[OF fine(2)] in auto)
  with hook_by_ID_known(1)[of _ ?hs] plan show ?thesis by auto
qed

lemma hook_shapes_valid:
  "hook_shapes seen ds = [] \<Longrightarrow> d \<in> set ds \<Longrightarrow> validateHookDescriptor d = []"
  by (induction seen ds rule: hook_shapes.induct) auto

lemma hook_graph_deps:
  assumes "distinct (map hd_ID ds)" and "d \<in> set ds"
  shows "deps (hook_graph ds) (hd_ID d) = hd_DependsOn d"
proof -
  have "map_of (hook_graph ds) (hd_ID d) = Some (hd_DependsOn d)"
    using assms by (intro map_of_is_SomeI) (auto simp: hook_graph_def comp_def rev_map[symmetric])
  then show ?thesis by (simp add: deps_def)
qed

text \<open>The walk leaves a permutation of the hooks, each after the hooks it depends on.\<close>

lemma topologicalHooks_order:
  fixes hs :: "('w, 'q) LifecycleHook list"
  defines "name \<equiv> \<lambda>h :: ('w, 'q) LifecycleHook. hd_ID (lh_Descriptor h)"
  assumes "topologicalHooks hs = Inr plan" and one: "distinct (map name hs)"
    and known: "unregistered_dependency (map lh_Descriptor hs) = None"
  shows "mset plan = mset hs"
    and "\<forall>as h bs. plan = as @ h # bs \<longrightarrow> set (hd_DependsOn (lh_Descriptor h)) \<subseteq> name ` set as"
proof -
  let ?ds = "map lh_Descriptor hs"
  from assms(2) obtain ids where ids: "visit_all (hook_graph ?ds) (sort (map hd_ID ?ds)) [] [] = Inr ids"
    and plan: "plan = map (hook_by_ID hs) ids"
    by (auto simp: topologicalHooks_def Let_def split: sum.splits)
  from visit_all_ordered[OF ids] have o: "ordered (hook_graph ?ds) [] ids" "name ` set hs \<subseteq> set ids"
    by (simp_all add: name_def image_comp comp_def)
  have "set ids \<subseteq> hd_ID ` set ?ds"
    by (rule visit_all_subset[OF ids]) (use hook_graph_closed[OF known] in auto)
  with o(2) have ids_eq: "set ids = name ` set hs" by (auto simp: name_def)
  have member: "hook_by_ID hs i \<in> set hs" "name (hook_by_ID hs i) = i" if "i \<in> set ids" for i
    using hook_by_ID_known[of i hs] that ids_eq by (auto simp: name_def image_comp comp_def)
  have whole: "hook_by_ID hs (name h) = h" if "h \<in> set hs" for h
    using one member[of "name h"] that ids_eq by (auto simp: distinct_map inj_on_def)
  have "mset ids = mset (map name hs)"
    using one ids_eq ordered_distinct[OF o(1)] by (metis set_eq_iff_mset_eq_distinct set_map)
  then have "mset plan = image_mset (\<lambda>h. hook_by_ID hs (name h)) (mset hs)"
    by (simp add: plan multiset.map_comp comp_def)
  also have "\<dots> = mset hs" using whole by (auto intro: multiset.map_ident_strong)
  finally show "mset plan = mset hs" .
  show "\<forall>as h bs. plan = as @ h # bs \<longrightarrow> set (hd_DependsOn (lh_Descriptor h)) \<subseteq> name ` set as"
  proof (intro allI impI)
    fix as h bs assume split: "plan = as @ h # bs"
    then obtain ia i ib where i: "ids = ia @ i # ib" "as = map (hook_by_ID hs) ia" "h = hook_by_ID hs i"
      unfolding plan by (auto simp: map_eq_append_conv map_eq_Cons_conv)
    from member[of i] i have h: "h \<in> set hs" "name h = i" by simp_all
    from h(1) one hook_graph_deps[of ?ds "lh_Descriptor h"]
    have "deps (hook_graph ?ds) i = hd_DependsOn (lh_Descriptor h)" using h(2) by (simp add: name_def comp_def)
    with ordered_split[of "hook_graph ?ds" "[]" ia i ib] o(1) i(1)
    have "set (hd_DependsOn (lh_Descriptor h)) \<subseteq> set ia" by simp
    moreover have "name ` set as = set ia" using member(2) i by (force simp: image_comp comp_def)
    ultimately show "set (hd_DependsOn (lh_Descriptor h)) \<subseteq> name ` set as" by simp
  qed
qed

end
