(* ===== verification/Deploy_Orchestrator.thy ===== *)
theory Deploy_Orchestrator
  imports Deploy_Hooks
begin

text \<open>
  \<^verbatim>\<open>internal/deploy/orchestrator.go\<close>: one deployment, from its guards to the release of its lock. The steps,
  the lock and the hooks are code the orchestrator is given: total functions on the world that may fail
  and change it. A run keeps the world, the two change summaries, whether a candidate is registered, and a
  trace of everything it called, with the error of the context that call was given. The two deferred
  functions run in Go's order, the candidate's cleanup before the lock's release; a panic is not modelled.
\<close>

section \<open>Requests, steps and the lock\<close>

record TargetDescriptor =
  td_ID :: string
  td_Provider :: string
  td_Runtime :: string

record BuildArtifact =
  ba_ImageDigest :: string
  ba_ManifestDigest :: string

record ('a, 'p) Request =
  dq_Target :: TargetDescriptor
  dq_Preview :: "'p option"
  dq_ImageDigest :: string
  dq_Application :: 'a
  dq_Artifact :: BuildArtifact
  dq_Production :: bool
  dq_Approved :: bool
  dq_Rollback :: bool
  dq_AcknowledgeForwardOnlyDB :: bool
  dq_AcknowledgeMaintenanceDrain :: bool

record 'a LifecycleHookRequest =
  lq_Application :: 'a
  lq_Artifact :: BuildArtifact

record 'c ChangeSummary =
  cs_Changes :: "'c list"
  cs_Total :: int

definition no_changes :: "'c ChangeSummary" where
  "no_changes = \<lparr>cs_Changes = [], cs_Total = 0\<rparr>"

record 'c Result =
  dr_Preview :: "'c ChangeSummary"
  dr_Update :: "'c ChangeSummary"

definition empty_result :: "'c Result" where
  "empty_result = \<lparr>dr_Preview = no_changes, dr_Update = no_changes\<rparr>"

type_synonym ('w, 'r) step = "'w Context \<Rightarrow> 'r \<Rightarrow> 'w \<Rightarrow> string option \<times> 'w"
type_synonym ('w, 'r, 'c) summary_step = "'w Context \<Rightarrow> 'r \<Rightarrow> 'w \<Rightarrow> ('c ChangeSummary \<times> string option) \<times> 'w"

record ('w, 'r, 'c) Steps =
  sp_Validate :: "('w, 'r) step"
  sp_Preview :: "('w, 'r, 'c) summary_step"
  sp_RegisterCandidate :: "('w, 'r) step"
  sp_RunMigrations :: "('w, 'r) step"
  sp_CleanupCandidate :: "('w, 'r) step"
  sp_UpdateServices :: "('w, 'r, 'c) summary_step"
  sp_Stabilize :: "('w, 'r) step"
  sp_Health :: "('w, 'r) step"
  sp_Record :: "'w Context \<Rightarrow> 'r \<Rightarrow> 'c Result \<Rightarrow> 'w \<Rightarrow> string option \<times> 'w"

type_synonym 'w release = "'w Context \<Rightarrow> 'w \<Rightarrow> string option \<times> 'w"

text \<open>\<^verbatim>\<open>Lock.Acquire\<close>: the release function, which may be nil, and the error.\<close>

type_synonym ('w, 'r) Lock = "'w Context \<Rightarrow> 'r \<Rightarrow> 'w \<Rightarrow> ('w release option \<times> string option) \<times> 'w"

record ('w, 'r, 'c, 'q) Orchestrator =
  og_lock :: "('w, 'r) Lock option"
  og_steps :: "('w, 'r, 'c) Steps option"
  og_hooks :: "('w, 'q) LifecycleHook list option"

definition NewWithHooks ::
  "('w, 'r) Lock option \<Rightarrow> ('w, 'r, 'c) Steps option \<Rightarrow> ('w, 'q) LifecycleHook option list
     \<Rightarrow> hook_error + ('w, 'r, 'c, 'q) Orchestrator" where
  "NewWithHooks lock steps hooks =
     (case newHookPlan hooks of
        Inl e \<Rightarrow> Inl e
      | Inr plan \<Rightarrow> Inr \<lparr>og_lock = lock, og_steps = steps, og_hooks = Some plan\<rparr>)"

section \<open>The state of a run\<close>

datatype deploy_step =
    StepValidate | StepPreview | StepCandidate | StepMigrations | StepUpdate | StepStabilize | StepHealth
  | StepRecord | StepCleanup

datatype deploy_event =
    Called deploy_step "ctx_error option" bool
  | HookValidated string bool
  | HookRan string bool
  | LockAcquired bool
  | LockReleased "ctx_error option" bool

datatype deploy_error =
    DependenciesRequired
  | ErrDigestRequired
  | ErrApprovalRequired
  | ErrForwardOnlyRollbackAck
  | ErrMaintenanceDrainAck
  | TargetInvalid "string list"
  | StepFailed deploy_step string
  | HookInvalid string string
  | HookFailed string string
  | LockFailed string
  | LockWithoutRelease
  | CandidateCleanup string
  | ErrLockRelease string

record ('w, 'c) deploy_state =
  rn_world :: 'w
  rn_trace :: "deploy_event list"
  rn_result :: "'c Result"
  rn_registered :: bool

definition start_run :: "'w \<Rightarrow> ('w, 'c) deploy_state" where
  "start_run w = \<lparr>rn_world = w, rn_trace = [], rn_result = empty_result, rn_registered = False\<rparr>"

definition note_event :: "deploy_event \<Rightarrow> 'w \<Rightarrow> ('w, 'c) deploy_state \<Rightarrow> ('w, 'c) deploy_state" where
  "note_event ev w st = st\<lparr>rn_world := w, rn_trace := rn_trace st @ [ev]\<rparr>"

definition call_step ::
  "deploy_step \<Rightarrow> ('w, 'r) step \<Rightarrow> 'w Context \<Rightarrow> 'r \<Rightarrow> ('w, 'c) deploy_state
     \<Rightarrow> deploy_error option \<times> ('w, 'c) deploy_state" where
  "call_step name f ctx r st =
     (case f ctx r (rn_world st) of (err, w) \<Rightarrow>
        (map_option (StepFailed name) err, note_event (Called name (ctx_Err ctx (rn_world st)) (err = None)) w st))"

section \<open>Hooks\<close>

text \<open>\<^verbatim>\<open>time.Duration(Timeout) * time.Second\<close>, in 64 bits.\<close>

definition hook_timeout :: "LifecycleHookDescriptor \<Rightarrow> int" where
  "hook_timeout d = wrap64 (hd_Timeout d * 1000000000)"

fun hook_attempts ::
  "'w runtime \<Rightarrow> 'w Context \<Rightarrow> 'q \<Rightarrow> ('w, 'q) LifecycleHook \<Rightarrow> nat \<Rightarrow> string option \<Rightarrow> ('w, 'c) deploy_state
     \<Rightarrow> string option \<times> ('w, 'c) deploy_state" where
  "hook_attempts rt ctx q h 0 err st = (err, st)"
| "hook_attempts rt ctx q h (Suc n) err st =
     (case lh_Run h (WithTimeout rt ctx (hook_timeout (lh_Descriptor h)) (rn_world st)) q (rn_world st) of
        (None, w) \<Rightarrow> (None, note_event (HookRan (hd_ID (lh_Descriptor h)) True) w st)
      | (Some e, w) \<Rightarrow>
          hook_attempts rt ctx q h n (Some e) (note_event (HookRan (hd_ID (lh_Descriptor h)) False) w st))"

fun run_plan ::
  "'w runtime \<Rightarrow> 'w Context \<Rightarrow> 'q \<Rightarrow> string \<Rightarrow> string \<Rightarrow> bool \<Rightarrow> ('w, 'q) LifecycleHook list \<Rightarrow> ('w, 'c) deploy_state
     \<Rightarrow> (deploy_error + bool) \<times> ('w, 'c) deploy_state" where
  "run_plan rt ctx q target relationship skipped [] st = (Inr skipped, st)"
| "run_plan rt ctx q target relationship skipped (h # hs) st =
     (let d = lh_Descriptor h in
      if hd_RelativeTo d \<noteq> target then run_plan rt ctx q target relationship skipped hs st
      else if hd_Relationship d = HookDisable then run_plan rt ctx q target relationship True hs st
      else if hd_Relationship d \<noteq> relationship \<and>
              \<not> (relationship = HookBefore \<and> hd_Relationship d = HookReplace)
      then run_plan rt ctx q target relationship skipped hs st
      else case hook_attempts rt ctx q h (nat (max 1 (hd_MaxAttempts d))) None st of
        (Some e, st1) \<Rightarrow> (Inl (HookFailed (hd_ID d) e), st1)
      | (None, st1) \<Rightarrow>
          run_plan rt ctx q target relationship (if hd_Relationship d = HookReplace then True else skipped) hs st1)"

definition runHooks ::
  "'w runtime \<Rightarrow> ('w, 'q) LifecycleHook list option \<Rightarrow> 'w Context \<Rightarrow> 'q \<Rightarrow> string \<Rightarrow> string \<Rightarrow> ('w, 'c) deploy_state
     \<Rightarrow> (deploy_error + bool) \<times> ('w, 'c) deploy_state" where
  "runHooks rt hooks ctx q target relationship st =
     (case hooks of None \<Rightarrow> (Inr False, st)
      | Some plan \<Rightarrow> run_plan rt ctx q target relationship False plan st)"

fun validate_hooks ::
  "'w Context \<Rightarrow> 'q \<Rightarrow> ('w, 'q) LifecycleHook list \<Rightarrow> ('w, 'c) deploy_state \<Rightarrow> deploy_error option \<times> ('w, 'c) deploy_state" where
  "validate_hooks ctx q [] st = (None, st)"
| "validate_hooks ctx q (h # hs) st =
     (let i = hd_ID (lh_Descriptor h) in
      case lh_Validate h ctx q (rn_world st) of
        (Some e, w) \<Rightarrow> (Some (HookInvalid i e), note_event (HookValidated i False) w st)
      | (None, w) \<Rightarrow> validate_hooks ctx q hs (note_event (HookValidated i True) w st))"

section \<open>The body\<close>

type_synonym ('w, 'c) action = "('w, 'c) deploy_state \<Rightarrow> deploy_error option \<times> ('w, 'c) deploy_state"

text \<open>One stage of the deployment: the hooks before it, the stage unless it is skipped, the hooks after it.\<close>

definition stage ::
  "(string \<Rightarrow> string \<Rightarrow> ('w, 'c) deploy_state \<Rightarrow> (deploy_error + bool) \<times> ('w, 'c) deploy_state) \<Rightarrow> string
     \<Rightarrow> ('w, 'c) action \<Rightarrow> ('w, 'c) action" where
  "stage hooks target act st =
     (case hooks target HookBefore st of
        (Inl e, st1) \<Rightarrow> (Some e, st1)
      | (Inr skip, st1) \<Rightarrow>
          (case (if skip then (None, st1) else act st1) of
             (Some e, st2) \<Rightarrow> (Some e, st2)
           | (None, st2) \<Rightarrow>
               (case hooks target HookAfter st2 of
                  (Inl e, st3) \<Rightarrow> (Some e, st3)
                | (Inr _, st3) \<Rightarrow> (None, st3))))"

fun in_turn :: "('w, 'c) action list \<Rightarrow> ('w, 'c) action" where
  "in_turn [] st = (None, st)"
| "in_turn (a # as) st = (case a st of (Some e, st1) \<Rightarrow> (Some e, st1) | (None, st1) \<Rightarrow> in_turn as st1)"

definition do_preview :: "('w, 'r, 'c) Steps \<Rightarrow> 'w Context \<Rightarrow> 'r \<Rightarrow> ('w, 'c) action" where
  "do_preview steps ctx r st =
     (case sp_Preview steps ctx r (rn_world st) of ((summary, err), w) \<Rightarrow>
        (map_option (StepFailed StepPreview) err,
         (note_event (Called StepPreview (ctx_Err ctx (rn_world st)) (err = None)) w st)
           \<lparr>rn_result := (rn_result st)\<lparr>dr_Preview := summary\<rparr>\<rparr>))"

definition do_candidate :: "('w, 'r, 'c) Steps \<Rightarrow> 'w Context \<Rightarrow> 'r \<Rightarrow> ('w, 'c) action" where
  "do_candidate steps ctx r st =
     (case call_step StepCandidate (sp_RegisterCandidate steps) ctx r st of
        (Some e, st1) \<Rightarrow> (Some e, st1)
      | (None, st1) \<Rightarrow> (None, st1\<lparr>rn_registered := True\<rparr>))"

definition do_update :: "('w, 'r, 'c) Steps \<Rightarrow> 'w Context \<Rightarrow> 'r \<Rightarrow> ('w, 'c) action" where
  "do_update steps ctx r st =
     (case sp_UpdateServices steps ctx r (rn_world st) of ((summary, err), w) \<Rightarrow>
        (map_option (StepFailed StepUpdate) err,
         (note_event (Called StepUpdate (ctx_Err ctx (rn_world st)) (err = None)) w st)
           \<lparr>rn_result := (rn_result st)\<lparr>dr_Update := summary\<rparr>\<rparr>))"

definition do_record :: "('w, 'r, 'c) Steps \<Rightarrow> 'w Context \<Rightarrow> 'r \<Rightarrow> ('w, 'c) action" where
  "do_record steps ctx r st = call_step StepRecord (\<lambda>c r w. sp_Record steps c r (rn_result st) w) ctx r st"

definition deploy_body ::
  "'w runtime \<Rightarrow> ('w, 'r, 'c) Steps \<Rightarrow> ('w, 'q) LifecycleHook list option \<Rightarrow> 'w Context \<Rightarrow> 'q \<Rightarrow> 'r
     \<Rightarrow> ('w, 'c) action" where
  "deploy_body rt steps hooks ctx q r =
     in_turn
       [stage (runHooks rt hooks ctx q) HookTargetPreview (do_preview steps ctx r),
        stage (runHooks rt hooks ctx q) HookTargetCandidate (do_candidate steps ctx r),
        stage (runHooks rt hooks ctx q) HookTargetMigrations (call_step StepMigrations (sp_RunMigrations steps) ctx r),
        stage (runHooks rt hooks ctx q) HookTargetUpdate (do_update steps ctx r),
        stage (runHooks rt hooks ctx q) HookTargetStabilize (call_step StepStabilize (sp_Stabilize steps) ctx r),
        stage (runHooks rt hooks ctx q) HookTargetHealth (call_step StepHealth (sp_Health steps) ctx r),
        stage (runHooks rt hooks ctx q) HookTargetRecord (do_record steps ctx r)]"

section \<open>The deferred functions\<close>

definition candidateCleanupTimeout :: int where "candidateCleanupTimeout = 120 * 1000000000"
definition lockReleaseTimeout :: int where "lockReleaseTimeout = 60 * 1000000000"

text \<open>A context without the caller's cancellation, with a timeout of its own.\<close>

definition detached :: "'w runtime \<Rightarrow> int \<Rightarrow> 'w \<Rightarrow> 'w Context" where
  "detached rt timeout w = WithTimeout rt (\<lambda>_. None) timeout w"

definition cleanup_deferred ::
  "'w runtime \<Rightarrow> ('w, 'r, 'c) Steps \<Rightarrow> 'r \<Rightarrow> ('w, 'c) deploy_state \<Rightarrow> deploy_error list \<times> ('w, 'c) deploy_state" where
  "cleanup_deferred rt steps r st =
     (if \<not> rn_registered st then ([], st)
      else (let ctx = detached rt candidateCleanupTimeout (rn_world st) in
        case sp_CleanupCandidate steps ctx r (rn_world st) of (err, w) \<Rightarrow>
          ((case err of None \<Rightarrow> [] | Some e \<Rightarrow> [CandidateCleanup e]),
           note_event (Called StepCleanup (ctx_Err ctx (rn_world st)) (err = None)) w st)))"

definition release_deferred ::
  "'w runtime \<Rightarrow> 'w release \<Rightarrow> ('w, 'c) deploy_state \<Rightarrow> deploy_error list \<times> ('w, 'c) deploy_state" where
  "release_deferred rt release st =
     (let ctx = detached rt lockReleaseTimeout (rn_world st) in
      case release ctx (rn_world st) of (err, w) \<Rightarrow>
        ((case err of None \<Rightarrow> [] | Some e \<Rightarrow> [ErrLockRelease e]),
         note_event (LockReleased (ctx_Err ctx (rn_world st)) (err = None)) w st))"

section \<open>A deployment\<close>

text \<open>\<^verbatim>\<open>^[^\s@]+@sha256:[a-f0-9]{64}$\<close>\<close>

definition digestPattern :: rx where
  "digestPattern = rx_seqs
     [rx_plus (RSet (\<lambda>c. \<not> chr_rx_space c \<and> c \<noteq> CHR ''@'')), rx_lit ''@sha256:'', rx_rep 64 (RSet chr_hex)]"

lemmas [go_defs] = digestPattern_def

definition ValidateTargetDescriptor :: "TargetDescriptor \<Rightarrow> string list" where
  "ValidateTargetDescriptor t =
     filter (\<lambda>v. \<not> full_match stableID v) [td_ID t, td_Provider t, td_Runtime t]"

definition request_guard :: "('a, 'p) Request \<Rightarrow> deploy_error option" where
  "request_guard r = first_failure
     [(\<not> full_match digestPattern (dq_ImageDigest r), ErrDigestRequired),
      (dq_Production r \<and> \<not> dq_Approved r, ErrApprovalRequired),
      (dq_Rollback r \<and> \<not> dq_AcknowledgeForwardOnlyDB r, ErrForwardOnlyRollbackAck),
      (dq_Production r \<and> \<not> dq_Rollback r \<and> \<not> dq_AcknowledgeMaintenanceDrain r, ErrMaintenanceDrainAck),
      (ValidateTargetDescriptor (dq_Target r) \<noteq> [], TargetInvalid (ValidateTargetDescriptor (dq_Target r)))]"

definition hook_request :: "('a, 'p) Request \<Rightarrow> 'a LifecycleHookRequest" where
  "hook_request r =
     \<lparr>lq_Application = dq_Application r,
      lq_Artifact = (if ba_ImageDigest (dq_Artifact r) = []
                     then (dq_Artifact r)\<lparr>ba_ImageDigest := dq_ImageDigest r\<rparr> else dq_Artifact r)\<rparr>"

text \<open>The result, the joined errors, and the final state with its trace.\<close>

type_synonym ('w, 'c) outcome = "'c Result \<times> deploy_error list \<times> ('w, 'c) deploy_state"

definition deploy_locked ::
  "'w runtime \<Rightarrow> ('w, ('a, 'p) Request, 'c) Steps \<Rightarrow> ('w, 'a LifecycleHookRequest) LifecycleHook list option
     \<Rightarrow> 'w release \<Rightarrow> 'w Context \<Rightarrow> ('a, 'p) Request \<Rightarrow> ('w, 'c) deploy_state \<Rightarrow> ('w, 'c) outcome" where
  "deploy_locked rt steps hooks release ctx r st =
     (case deploy_body rt steps hooks ctx (hook_request r) r st of (err, st1) \<Rightarrow>
      (case cleanup_deferred rt steps r st1 of (cleanup, st2) \<Rightarrow>
      (case release_deferred rt release st2 of (released, st3) \<Rightarrow>
        (case err of
           None \<Rightarrow> (rn_result st1, cleanup @ released, st3)
         | Some e \<Rightarrow> (empty_result, [e] @ cleanup @ released, st3)))))"

definition Run ::
  "'w runtime \<Rightarrow> ('w, ('a, 'p) Request, 'c, 'a LifecycleHookRequest) Orchestrator option \<Rightarrow> 'w Context
     \<Rightarrow> ('a, 'p) Request \<Rightarrow> 'w \<Rightarrow> ('w, 'c) outcome" where
  "Run rt o' ctx r w =
     (let st0 = start_run w;
          refuse = (\<lambda>e st. (empty_result, [e], st))
      in case o' of None \<Rightarrow> refuse DependenciesRequired st0
      | Some og \<Rightarrow> (case (og_lock og, og_steps og) of
          (Some lock, Some steps) \<Rightarrow>
            (case request_guard r of Some e \<Rightarrow> refuse e st0
             | None \<Rightarrow> (case call_step StepValidate (sp_Validate steps) ctx r st0 of
                 (Some e, st1) \<Rightarrow> refuse e st1
               | (None, st1) \<Rightarrow>
                   (case validate_hooks ctx (hook_request r) (case og_hooks og of None \<Rightarrow> [] | Some hs \<Rightarrow> hs) st1 of
                      (Some e, st2) \<Rightarrow> refuse e st2
                    | (None, st2) \<Rightarrow>
                        (case lock ctx r (rn_world st2) of
                           ((_, Some e), w3) \<Rightarrow> refuse (LockFailed e) (note_event (LockAcquired False) w3 st2)
                         | ((None, None), w3) \<Rightarrow> refuse LockWithoutRelease (note_event (LockAcquired False) w3 st2)
                         | ((Some release, None), w3) \<Rightarrow>
                             deploy_locked rt steps (og_hooks og) release ctx r (note_event (LockAcquired True) w3 st2)))))
        | _ \<Rightarrow> refuse DependenciesRequired st0))"

end
