(* ===== verification/Deploy_Trace.thy ===== *)
theory Deploy_Trace
  imports Deploy_Orchestrator
begin

text \<open>
  What a run of the orchestrator leaves in its trace. Every action of the body appends one call, a stage
  at most one call between its hooks, and the body the calls of its stages in order up to the first that
  fails. \<open>Run_cases\<close> puts the parts together: a run is refused with checks only, or it is the body between
  the lock and its release, with the candidate's cleanup just before the release.
\<close>

fun is_check :: "deploy_event \<Rightarrow> bool" where
  "is_check (Called s c ok) \<longleftrightarrow> s = StepValidate"
| "is_check (HookValidated i ok) \<longleftrightarrow> True"
| "is_check (HookRan i ok) \<longleftrightarrow> False"
| "is_check (LockAcquired ok) \<longleftrightarrow> \<not> ok"
| "is_check (LockReleased c ok) \<longleftrightarrow> False"

fun is_work :: "deploy_event \<Rightarrow> bool" where
  "is_work (Called s c ok) \<longleftrightarrow> s \<noteq> StepValidate \<and> s \<noteq> StepCleanup"
| "is_work (HookValidated i ok) \<longleftrightarrow> False"
| "is_work (HookRan i ok) \<longleftrightarrow> True"
| "is_work (LockAcquired ok) \<longleftrightarrow> False"
| "is_work (LockReleased c ok) \<longleftrightarrow> False"

text \<open>The calls of a trace, with their outcome.\<close>

fun calls :: "deploy_event list \<Rightarrow> (deploy_step \<times> bool) list" where
  "calls [] = []"
| "calls (Called s c ok # evs) = (s, ok) # calls evs"
| "calls (_ # evs) = calls evs"

lemma calls_append [simp]: "calls (as @ bs) = calls as @ calls bs"
  by (induction as rule: calls.induct) auto

definition hooks_only :: "deploy_event list \<Rightarrow> bool" where
  "hooks_only evs \<longleftrightarrow> (\<forall>ev \<in> set evs. \<exists>i ok. ev = HookRan i ok)"

lemma hooks_only_calls: "hooks_only evs \<Longrightarrow> calls evs = []"
  by (induction evs rule: calls.induct) (auto simp: hooks_only_def)

lemma hooks_only_work: "hooks_only evs \<Longrightarrow> ev \<in> set evs \<Longrightarrow> is_work ev"
  by (auto simp: hooks_only_def)

lemma hooks_only_append [simp]: "hooks_only (as @ bs) \<longleftrightarrow> hooks_only as \<and> hooks_only bs"
  by (auto simp: hooks_only_def)

lemma hooks_only_Nil [simp]: "hooks_only []" and hooks_only_one [simp]: "hooks_only [HookRan i ok]"
  by (auto simp: hooks_only_def)

lemma note_event_simps [simp]:
  "rn_trace (note_event ev w st) = rn_trace st @ [ev]" "rn_world (note_event ev w st) = w"
  "rn_registered (note_event ev w st) = rn_registered st" "rn_result (note_event ev w st) = rn_result st"
  by (simp_all add: note_event_def)

section \<open>Hooks\<close>

lemma hook_attempts_trace:
  assumes "hook_attempts rt ctx q h n err st = (res, st')"
  shows "\<exists>evs. rn_trace st' = rn_trace st @ evs \<and> hooks_only evs \<and> rn_registered st' = rn_registered st"
  using assms
proof (induction rt ctx q h n err st rule: hook_attempts.induct)
  case (2 rt ctx q h n err st)
  obtain e w where run: "lh_Run h (WithTimeout rt ctx (hook_timeout (lh_Descriptor h)) (rn_world st)) q (rn_world st) = (e, w)"
    by (rule prod.exhaust) (rule that)
  let ?i = "hd_ID (lh_Descriptor h)"
  show ?case
  proof (cases e)
    case None
    with 2(2) run show ?thesis by (intro exI[of _ "[HookRan ?i True]"]) auto
  next
    case (Some x)
    with 2(2) run have rest: "hook_attempts rt ctx q h n (Some x) (note_event (HookRan ?i False) w st) = (res, st')" by simp
    from 2(1)[OF run[symmetric] Some rest] obtain evs where
      "rn_trace st' = rn_trace (note_event (HookRan ?i False) w st) @ evs" "hooks_only evs"
      "rn_registered st' = rn_registered (note_event (HookRan ?i False) w st)" by blast
    then show ?thesis by (intro exI[of _ "HookRan ?i False # evs"]) (auto simp: hooks_only_def)
  qed
qed simp

text \<open>A target whose stage a hook of the plan takes over or switches off.\<close>

definition taken_over :: "('w, 'q) LifecycleHook list option \<Rightarrow> string \<Rightarrow> bool" where
  "taken_over hooks target \<longleftrightarrow> (\<exists>plan h. hooks = Some plan \<and> h \<in> set plan \<and>
     hd_RelativeTo (lh_Descriptor h) = target \<and>
     (hd_Relationship (lh_Descriptor h) = HookReplace \<or> hd_Relationship (lh_Descriptor h) = HookDisable))"

lemma run_plan_trace:
  assumes "run_plan rt ctx q target relationship skipped hs st = (res, st')"
  shows "(\<exists>evs. rn_trace st' = rn_trace st @ evs \<and> hooks_only evs \<and> rn_registered st' = rn_registered st) \<and>
         (res = Inr True \<longrightarrow> skipped \<or> taken_over (Some hs) target)"
  using assms
proof (induction rt ctx q target relationship skipped hs st arbitrary: res st' rule: run_plan.induct)
  case (1 rt ctx q target relationship skipped st)
  then show ?case by auto
next
  case (2 rt ctx q target relationship skipped h hs st)
  let ?d = "lh_Descriptor h"
  have more: "taken_over (Some (h # hs)) target" if "taken_over (Some hs) target" for target
    using that by (auto simp: taken_over_def)
  show ?case
  proof (cases "hd_RelativeTo ?d \<noteq> target")
    case True
    with 2(1)[OF refl True, of res st'] 2(5) more show ?thesis by auto
  next
    case at: False
    show ?thesis
    proof (cases "hd_Relationship ?d = HookDisable")
      case True
      with at 2(2)[OF refl at True, of res st'] 2(5) show ?thesis by (auto simp: taken_over_def)
    next
      case on: False
      show ?thesis
      proof (cases "hd_Relationship ?d \<noteq> relationship \<and> \<not> (relationship = HookBefore \<and> hd_Relationship ?d = HookReplace)")
        case True
        with at on 2(3)[OF refl at on True, of res st'] 2(5) more show ?thesis by auto
      next
        case runs: False
        obtain err st1 where a: "hook_attempts rt ctx q h (nat (max 1 (hd_MaxAttempts ?d))) None st = (err, st1)"
          by (rule prod.exhaust) (rule that)
        from hook_attempts_trace[OF a] obtain evs where
          evs: "rn_trace st1 = rn_trace st @ evs" "hooks_only evs" "rn_registered st1 = rn_registered st" by blast
        show ?thesis
        proof (cases err)
          case (Some e)
          with 2(5) at on runs a evs show ?thesis by (auto simp: Let_def split: if_splits)
        next
          case None
          with 2(5) at on runs a have rest: "run_plan rt ctx q target relationship
              (if hd_Relationship ?d = HookReplace then True else skipped) hs st1 = (res, st')"
            by (auto simp: Let_def split: if_splits)
          from 2(4)[OF refl at on runs a[symmetric] None rest] obtain evs' where
            evs': "rn_trace st' = rn_trace st1 @ evs'" "hooks_only evs'" "rn_registered st' = rn_registered st1" and
            skip: "res = Inr True \<longrightarrow> (if hd_Relationship ?d = HookReplace then True else skipped) \<or>
              taken_over (Some hs) target" by blast
          have "taken_over (Some (h # hs)) target" if "hd_Relationship ?d = HookReplace"
            using that at by (auto simp: taken_over_def)
          with skip more have "res = Inr True \<longrightarrow> skipped \<or> taken_over (Some (h # hs)) target"
            by (auto split: if_splits)
          with evs evs' show ?thesis by (intro conjI exI[of _ "evs @ evs'"]) auto
        qed
      qed
    qed
  qed
qed

lemma runHooks_trace:
  assumes "runHooks rt hooks ctx q target relationship st = (res, st')"
  shows "(\<exists>evs. rn_trace st' = rn_trace st @ evs \<and> hooks_only evs \<and> rn_registered st' = rn_registered st) \<and>
         (res = Inr True \<longrightarrow> taken_over hooks target)"
proof (cases hooks)
  case None
  with assms show ?thesis by (auto simp: runHooks_def)
next
  case (Some plan)
  with assms have "run_plan rt ctx q target relationship False plan st = (res, st')" by (simp add: runHooks_def)
  from run_plan_trace[OF this] Some show ?thesis by simp
qed

section \<open>The body\<close>

text \<open>An action that calls one step and notes its outcome; only the candidate registers one.\<close>

definition calls_step :: "deploy_step \<Rightarrow> ('w, 'c) action \<Rightarrow> bool" where
  "calls_step s act \<longleftrightarrow> (\<forall>st err st'. act st = (err, st') \<longrightarrow>
     (\<exists>c. rn_trace st' = rn_trace st @ [Called s c (err = None)]) \<and>
     rn_registered st' = (rn_registered st \<or> s = StepCandidate \<and> err = None))"

lemma call_step_calls: "s \<noteq> StepCandidate \<Longrightarrow> calls_step s (call_step s f ctx r)"
  by (auto simp: calls_step_def call_step_def split: prod.splits)

lemma do_steps_call:
  "calls_step StepPreview (do_preview steps ctx r)" "calls_step StepCandidate (do_candidate steps ctx r)"
  "calls_step StepUpdate (do_update steps ctx r)" "calls_step StepRecord (do_record steps ctx r)"
  by (auto simp: calls_step_def do_preview_def do_candidate_def do_update_def do_record_def call_step_def
      split: prod.splits option.splits)

text \<open>What a stage or a sequence of stages does: \<open>plan\<close> lists the steps it may call with their targets.\<close>

definition runs ::
  "('w, 'q) LifecycleHook list option \<Rightarrow> (deploy_step \<times> string) list \<Rightarrow> ('w, 'c) deploy_state \<Rightarrow> deploy_error option
     \<Rightarrow> ('w, 'c) deploy_state \<Rightarrow> deploy_event list \<Rightarrow> bool" where
  "runs hooks plan st err st' evs \<longleftrightarrow>
     rn_trace st' = rn_trace st @ evs \<and>
     (\<forall>ev \<in> set evs. is_work ev) \<and>
     subseq (map fst (calls evs)) (map fst plan) \<and>
     (\<forall>c \<in> set (butlast (calls evs)). snd c) \<and>
     (err = None \<longrightarrow> (\<forall>c \<in> set (calls evs). snd c) \<and>
        (\<forall>(s, target) \<in> set plan. s \<in> fst ` set (calls evs) \<or> taken_over hooks target)) \<and>
     rn_registered st' = (rn_registered st \<or> (StepCandidate, True) \<in> set (calls evs))"

lemma calls_mem: "(s, ok) \<in> set (calls evs) \<longleftrightarrow> (\<exists>c. Called s c ok \<in> set evs)"
  by (induction evs rule: calls.induct) auto

lemma stage_runs:
  assumes act: "calls_step s act" and work: "s \<noteq> StepValidate" "s \<noteq> StepCleanup" and "stage (runHooks rt hooks ctx q) target act st = (err, st')"
  shows "\<exists>evs. runs hooks [(s, target)] st err st' evs"
proof -
  obtain before st1 where b: "runHooks rt hooks ctx q target HookBefore st = (before, st1)"
    by (rule prod.exhaust) (rule that)
  from runHooks_trace[OF b] obtain e1 where e1: "rn_trace st1 = rn_trace st @ e1" "hooks_only e1"
    "rn_registered st1 = rn_registered st" and skip: "before = Inr True \<longrightarrow> taken_over hooks target" by blast
  show ?thesis
  proof (cases before)
    case (Inl e)
    with assms(4) b have "err = Some e" "st' = st1" by (simp_all add: stage_def)
    with e1 show ?thesis
      by (intro exI[of _ e1]) (auto simp: runs_def hooks_only_calls hooks_only_work)
  next
    case (Inr sk)
    obtain err2 st2 where a: "(if sk then (None, st1) else act st1) = (err2, st2)" by (rule prod.exhaust) (rule that)
    have "\<exists>e2. rn_trace st2 = rn_trace st1 @ e2 \<and>
        rn_registered st2 = (rn_registered st1 \<or> \<not> sk \<and> s = StepCandidate \<and> err2 = None) \<and>
        (if sk then e2 = [] \<and> err2 = None else \<exists>c. e2 = [Called s c (err2 = None)])"
      using a act[unfolded calls_step_def, rule_format, of st1 err2 st2] by (cases sk) auto
    then obtain e2 where e2: "rn_trace st2 = rn_trace st1 @ e2"
      "rn_registered st2 = (rn_registered st1 \<or> \<not> sk \<and> s = StepCandidate \<and> err2 = None)"
      "if sk then e2 = [] \<and> err2 = None else \<exists>c. e2 = [Called s c (err2 = None)]" by blast
    show ?thesis
    proof (cases err2)
      case (Some e)
      with assms(4) b Inr a have "err = Some e" "st' = st2" by (simp_all add: stage_def split: if_splits)
      with e1 e2 Some show ?thesis
        using work by (intro exI[of _ "e1 @ e2"]) (auto simp: runs_def hooks_only_calls hooks_only_work split: if_splits)
    next
      case None
      obtain after st3 where f: "runHooks rt hooks ctx q target HookAfter st2 = (after, st3)"
        by (rule prod.exhaust) (rule that)
      from runHooks_trace[OF f] obtain e3 where e3: "rn_trace st3 = rn_trace st2 @ e3" "hooks_only e3"
        "rn_registered st3 = rn_registered st2" by blast
      from assms(4) b Inr a None f have st': "st' = st3" by (auto simp: stage_def split: if_splits sum.splits)
      have c3: "calls e3 = []" "calls e1 = []" using e1 e3 by (simp_all add: hooks_only_calls)
      from e1 e2 e3 None st' skip Inr c3 show ?thesis
        using work by (intro exI[of _ "e1 @ e2 @ e3"]) (auto simp: runs_def hooks_only_work split: if_splits)
    qed
  qed
qed

text \<open>Stages in turn: the calls of the first, and then those of the rest unless it failed.\<close>

lemma in_turn_runs:
  assumes "\<forall>(s, target, act) \<in> set xs. calls_step s act \<and> s \<noteq> StepValidate \<and> s \<noteq> StepCleanup"
    and "in_turn (map (\<lambda>(s, target, act). stage (runHooks rt hooks ctx q) target act) xs) st = (err, st')"
  shows "\<exists>evs. runs hooks (map (\<lambda>(s, target, act). (s, target)) xs) st err st' evs"
  using assms
proof (induction xs arbitrary: st)
  case Nil
  then show ?case by (auto simp: runs_def intro!: exI[of _ "[]"])
next
  case (Cons x xs)
  obtain s target act where x: "x = (s, target, act)" by (cases x) auto
  let ?rest = "map (\<lambda>(s, target, act). (s, target)) xs"
  obtain err1 st1 where first: "stage (runHooks rt hooks ctx q) target act st = (err1, st1)"
    by (rule prod.exhaust) (rule that)
  from Cons.prems(1) x have act: "calls_step s act" "s \<noteq> StepValidate" "s \<noteq> StepCleanup" by auto
  from stage_runs[OF act first] obtain e1 where e1: "runs hooks [(s, target)] st err1 st1 e1" by blast
  show ?case
  proof (cases err1)
    case (Some e)
    with Cons.prems(2) x first have "err = Some e" "st' = st1" by simp_all
    with e1 Some x show ?thesis by (intro exI[of _ e1]) (auto simp: runs_def list_emb_append2 intro: subseq_order.order_trans)
  next
    case None
    with Cons.prems(2) x first
    have rest: "in_turn (map (\<lambda>(s, target, act). stage (runHooks rt hooks ctx q) target act) xs) st1 = (err, st')" by simp
    from Cons.IH[OF _ this] Cons.prems(1) obtain e2 where e2: "runs hooks ?rest st1 err st' e2" by auto
    from e1 None have c1: "\<forall>c \<in> set (calls e1). snd c" by (simp add: runs_def)
    have sub: "subseq (map fst (calls e1 @ calls e2)) (s # map fst ?rest)"
      using list_emb_append_mono[of "(=)" "map fst (calls e1)" "[s]" "map fst (calls e2)" "map fst ?rest"] e1 e2
      by (simp add: runs_def)
    have last: "\<forall>c \<in> set (butlast (calls e1 @ calls e2)). snd c"
      using c1 e2 by (auto simp: runs_def butlast_append dest: in_set_butlastD)
    have "runs hooks (map (\<lambda>(s, target, act). (s, target)) (x # xs)) st err st' (e1 @ e2)"
      unfolding runs_def using e1 e2 None c1 sub last x by (auto simp: runs_def)
    then show ?thesis by blast
  qed
qed

definition body_steps :: "(deploy_step \<times> string) list" where
  "body_steps =
     [(StepPreview, HookTargetPreview), (StepCandidate, HookTargetCandidate), (StepMigrations, HookTargetMigrations),
      (StepUpdate, HookTargetUpdate), (StepStabilize, HookTargetStabilize), (StepHealth, HookTargetHealth),
      (StepRecord, HookTargetRecord)]"

lemma deploy_body_runs:
  assumes "deploy_body rt steps hooks ctx q r st = (err, st')"
  shows "\<exists>evs. runs hooks body_steps st err st' evs"
proof -
  let ?xs = "[(StepPreview, HookTargetPreview, do_preview steps ctx r),
     (StepCandidate, HookTargetCandidate, do_candidate steps ctx r),
     (StepMigrations, HookTargetMigrations, call_step StepMigrations (sp_RunMigrations steps) ctx r),
     (StepUpdate, HookTargetUpdate, do_update steps ctx r),
     (StepStabilize, HookTargetStabilize, call_step StepStabilize (sp_Stabilize steps) ctx r),
     (StepHealth, HookTargetHealth, call_step StepHealth (sp_Health steps) ctx r),
     (StepRecord, HookTargetRecord, do_record steps ctx r)]"
  have "\<forall>(s, target, act) \<in> set ?xs. calls_step s act \<and> s \<noteq> StepValidate \<and> s \<noteq> StepCleanup"
    by (simp add: do_steps_call call_step_calls)
  from in_turn_runs[OF this, of rt hooks ctx q st err st'] assms show ?thesis
    by (simp add: deploy_body_def body_steps_def)
qed

section \<open>A run\<close>

lemma detached_live: "0 < timeout \<Longrightarrow> ctx_Err (detached rt timeout w) w = None"
  by (simp add: ctx_Err_def detached_def WithTimeout_def)

lemma validate_hooks_checks:
  assumes "validate_hooks ctx q hs st = (err, st')"
  shows "\<exists>evs. rn_trace st' = rn_trace st @ evs \<and> (\<forall>ev \<in> set evs. is_check ev) \<and> rn_registered st' = rn_registered st"
  using assms
proof (induction ctx q hs st rule: validate_hooks.induct)
  case (2 ctx q h hs st)
  let ?i = "hd_ID (lh_Descriptor h)"
  obtain e w where v: "lh_Validate h ctx q (rn_world st) = (e, w)" by (rule prod.exhaust) (rule that)
  show ?case
  proof (cases e)
    case (Some x)
    with 2(2) v show ?thesis by (intro exI[of _ "[HookValidated ?i False]"]) (auto simp: Let_def)
  next
    case None
    with 2(2) v have rest: "validate_hooks ctx q hs (note_event (HookValidated ?i True) w st) = (err, st')"
      by (simp add: Let_def)
    from 2(1)[OF refl v[symmetric] None rest] obtain evs where
      "rn_trace st' = rn_trace (note_event (HookValidated ?i True) w st) @ evs" "\<forall>ev \<in> set evs. is_check ev"
      "rn_registered st' = rn_registered (note_event (HookValidated ?i True) w st)" by blast
    then show ?thesis by (intro exI[of _ "HookValidated ?i True # evs"]) auto
  qed
qed simp

text \<open>The part of a run under the lock.\<close>

lemma deploy_locked_trace:
  assumes "deploy_locked rt steps hooks release ctx r st = (res, errors, st')" and "\<not> rn_registered st"
  shows "\<exists>err st1 evs cleanup ok. runs hooks body_steps st err st1 evs \<and>
           rn_trace st' = rn_trace st @ evs @ cleanup @ [LockReleased None ok] \<and>
           (if (StepCandidate, True) \<in> set (calls evs) then \<exists>okc. cleanup = [Called StepCleanup None okc]
            else cleanup = []) \<and> (errors = [] \<longrightarrow> err = None)"
proof -
  obtain err st1 where 1: "deploy_body rt steps hooks ctx (hook_request r) r st = (err, st1)"
    by (rule prod.exhaust) (rule that)
  obtain ce st2 where 2: "cleanup_deferred rt steps r st1 = (ce, st2)" by (rule prod.exhaust) (rule that)
  obtain re st3 where 3: "release_deferred rt release st2 = (re, st3)" by (rule prod.exhaust) (rule that)
  from deploy_body_runs[OF 1] obtain evs where evs: "runs hooks body_steps st err st1 evs" by blast
  have live: "ctx_Err (detached rt candidateCleanupTimeout w) w = None" "ctx_Err (detached rt lockReleaseTimeout w) w = None"
    for w by (simp_all add: detached_live candidateCleanupTimeout_def lockReleaseTimeout_def)
  from 2 evs assms(2) have c: "\<exists>cleanup. rn_trace st2 = rn_trace st1 @ cleanup \<and>
      (if (StepCandidate, True) \<in> set (calls evs) then \<exists>okc. cleanup = [Called StepCleanup None okc] else cleanup = [])"
    by (auto simp: cleanup_deferred_def runs_def live split: prod.splits if_splits)
  from 3 have r: "\<exists>ok. rn_trace st3 = rn_trace st2 @ [LockReleased None ok]"
    by (auto simp: release_deferred_def Let_def live split: prod.splits)
  from assms(1) 1 2 3 have "st' = st3" and fine: "errors = [] \<longrightarrow> err = None"
    by (auto simp: deploy_locked_def split: option.splits)
  from c obtain cleanup where cleanup: "rn_trace st2 = rn_trace st1 @ cleanup"
    "if (StepCandidate, True) \<in> set (calls evs) then \<exists>okc. cleanup = [Called StepCleanup None okc] else cleanup = []" by blast
  from r obtain ok where released: "rn_trace st3 = rn_trace st2 @ [LockReleased None ok]" by blast
  from evs have "rn_trace st1 = rn_trace st @ evs" by (simp add: runs_def)
  with cleanup(1) released \<open>st' = st3\<close>
  have "rn_trace st' = rn_trace st @ evs @ cleanup @ [LockReleased None ok]" by simp
  with evs cleanup(2) fine show ?thesis by blast
qed

lemma Run_cases:
  fixes st :: "('w, 'c) deploy_state"
  assumes "Run rt og ctx r w = (res, errors, st)"
  obtains (refused) "errors \<noteq> []" "\<forall>ev \<in> set (rn_trace st). is_check ev" "res = empty_result"
  | (locked) before err evs cleanup ok hooks and st0 st1 :: "('w, 'c) deploy_state" where
      "rn_trace st = before @ LockAcquired True # evs @ cleanup @ [LockReleased None ok]"
      "\<forall>ev \<in> set before. is_check ev" "request_guard r = None" "runs hooks body_steps st0 err st1 evs"
      "if (StepCandidate, True) \<in> set (calls evs) then \<exists>okc. cleanup = [Called StepCleanup None okc] else cleanup = []"
      "errors = [] \<Longrightarrow> err = None" "\<exists>o'. og = Some o' \<and> og_hooks o' = hooks"
proof -
  show ?thesis
  proof (cases "\<exists>o' lock steps. og = Some o' \<and> og_lock o' = Some lock \<and> og_steps o' = Some steps \<and> request_guard r = None")
    case False
    with assms show ?thesis by (intro refused) (auto simp: Run_def Let_def start_run_def split: option.splits)
  next
    case True
    then obtain o' lock steps where o': "og = Some o'" "og_lock o' = Some lock" "og_steps o' = Some steps"
      and guard: "request_guard r = None" by blast
    let ?hs = "case og_hooks o' of None \<Rightarrow> [] | Some hs \<Rightarrow> hs"
    obtain e1 and st1 :: "('w, 'c) deploy_state" where 1: "call_step StepValidate (sp_Validate steps) ctx r (start_run w) = (e1, st1)"
      by (rule prod.exhaust) (rule that)
    from 1 have t1: "\<forall>ev \<in> set (rn_trace st1). is_check ev" "\<not> rn_registered st1"
      by (auto simp: call_step_def start_run_def split: prod.splits)
    obtain e2 st2 where 2: "validate_hooks ctx (hook_request r) ?hs st1 = (e2, st2)" by (rule prod.exhaust) (rule that)
    from validate_hooks_checks[OF 2] t1 have t2: "\<forall>ev \<in> set (rn_trace st2). is_check ev" "\<not> rn_registered st2" by auto
    obtain rel e3 w3 where 3: "lock ctx r (rn_world st2) = ((rel, e3), w3)" by (metis prod.exhaust)
    have run_eq: "Run rt og ctx r w = (case e1 of Some e \<Rightarrow> (empty_result, [e], st1) | None \<Rightarrow>
        (case e2 of Some e \<Rightarrow> (empty_result, [e], st2) | None \<Rightarrow>
        (case e3 of Some e \<Rightarrow> (empty_result, [LockFailed e], note_event (LockAcquired False) w3 st2) | None \<Rightarrow>
        (case rel of None \<Rightarrow> (empty_result, [LockWithoutRelease], note_event (LockAcquired False) w3 st2)
         | Some release \<Rightarrow> deploy_locked rt steps (og_hooks o') release ctx r (note_event (LockAcquired True) w3 st2)))))"
      by (cases e1; cases e2; cases e3; cases rel) (simp_all add: Run_def Let_def o' guard 1 2 3)
    show ?thesis
    proof (cases "e1 = None \<and> e2 = None \<and> e3 = None \<and> rel \<noteq> None")
      case False
      with assms t1 t2 show ?thesis unfolding run_eq by (intro refused) (auto split: option.splits)
    next
      case True
      then obtain release where "rel = Some release" by auto
      with assms True have run:
        "deploy_locked rt steps (og_hooks o') release ctx r (note_event (LockAcquired True) w3 st2) = (res, errors, st)"
        unfolding run_eq by simp
      from deploy_locked_trace[OF run] t2(2) obtain err sta evs cleanup ok where
        parts: "runs (og_hooks o') body_steps (note_event (LockAcquired True) w3 st2) err sta evs"
        "rn_trace st = rn_trace (note_event (LockAcquired True) w3 st2) @ evs @ cleanup @ [LockReleased None ok]"
        "if (StepCandidate, True) \<in> set (calls evs) then \<exists>okc. cleanup = [Called StepCleanup None okc] else cleanup = []"
        "errors = [] \<longrightarrow> err = None" by auto
      show ?thesis
        by (rule locked[OF _ t2(1) guard parts(1) parts(3)]) (use parts(2,4) o'(1) in auto)
    qed
  qed
qed

end
