(* ===== verification/Deploy_Safety.thy ===== *)
theory Deploy_Safety
  imports Deploy_Trace
begin

text \<open>
  The properties of a deployment: what happens under its lock, in which order, and what becomes of the
  candidate, with an example that runs them.
\<close>

section \<open>An example\<close>

definition dep_digest :: string where
  "dep_digest = ''shop@sha256:'' @ replicate 64 CHR ''a''"

definition dep_deploy :: "(unit, unit) Request" where
  "dep_deploy =
     \<lparr>dq_Target = \<lparr>td_ID = ''aws.ecs'', td_Provider = ''aws'', td_Runtime = ''ecs''\<rparr>, dq_Preview = None,
      dq_ImageDigest = dep_digest, dq_Application = (),
      dq_Artifact = \<lparr>ba_ImageDigest = [], ba_ManifestDigest = []\<rparr>, dq_Production = True, dq_Approved = True,
      dq_Rollback = False, dq_AcknowledgeForwardOnlyDB = False, dq_AcknowledgeMaintenanceDrain = True\<rparr>"

text \<open>Steps that count the world up; the migrations fail when \<open>broken\<close> says so.\<close>

definition dep_steps :: "bool \<Rightarrow> (nat, (unit, unit) Request, unit) Steps" where
  "dep_steps broken =
     \<lparr>sp_Validate = \<lambda>_ _ n. (None, n + 1), sp_Preview = \<lambda>_ _ n. ((no_changes, None), n + 1),
      sp_RegisterCandidate = \<lambda>_ _ n. (None, n + 1),
      sp_RunMigrations = \<lambda>_ _ n. (if broken then Some ''schema'' else None, n + 1),
      sp_CleanupCandidate = \<lambda>_ _ n. (None, n + 1), sp_UpdateServices = \<lambda>_ _ n. ((no_changes, None), n + 1),
      sp_Stabilize = \<lambda>_ _ n. (None, n + 1), sp_Health = \<lambda>_ _ n. (None, n + 1), sp_Record = \<lambda>_ _ _ n. (None, n + 1)\<rparr>"

definition dep_lock :: "(nat, (unit, unit) Request) Lock" where
  "dep_lock ctx r n = ((Some (\<lambda>_ m. (None, m + 1)), None), n + 1)"

definition dep_clock :: "nat runtime" where
  "dep_clock = \<lparr>rt_now = int, rt_wait = \<lambda>_ n. n, rt_timer_wins = \<lambda>_. True\<rparr>"

definition dep_orchestrator ::
  "bool \<Rightarrow> (nat, unit LifecycleHookRequest) LifecycleHook list
     \<Rightarrow> (nat, (unit, unit) Request, unit, unit LifecycleHookRequest) Orchestrator" where
  "dep_orchestrator broken plan =
     \<lparr>og_lock = Some dep_lock, og_steps = Some (dep_steps broken), og_hooks = Some plan\<rparr>"

text \<open>A deployment whose migrations fail, under a context that was cancelled meanwhile.\<close>

definition dep_failed :: "(nat, unit) outcome" where
  "dep_failed = Run dep_clock (Some (dep_orchestrator True [])) (\<lambda>n. if n < 4 then None else Some (0, Canceled)) dep_deploy 0"

lemma dep_failed_trace:
  "rn_trace (snd (snd dep_failed)) =
     [Called StepValidate None True, LockAcquired True, Called StepPreview None True,
      Called StepCandidate None True, Called StepMigrations (Some Canceled) False,
      Called StepCleanup None True, LockReleased None True]"
  by code_simp

lemma dep_failed_errors: "fst (snd dep_failed) = [StepFailed StepMigrations ''schema'']"
  by code_simp

lemma dep_failed_run:
  "Run dep_clock (Some (dep_orchestrator True [])) (\<lambda>n. if n < 4 then None else Some (0, Canceled)) dep_deploy 0 =
     (fst dep_failed, fst (snd dep_failed), snd (snd dep_failed))"
  by (simp add: dep_failed_def)

section \<open>Properties\<close>

text \<open>
  C26. A deployment changes nothing without its guards and its lock. Either it is refused, having called
  only validations, or its image is pinned by a digest, a production deployment is approved and (unless it
  is a rollback) its maintenance drain acknowledged, a rollback has acknowledged forward-only migrations,
  and everything else it calls happens between acquiring the lock and releasing it. The lock is released
  exactly once, as the last thing the run does and under a context that is still live.
\<close>

theorem deploy_works_under_guards_and_lock:
  assumes "Run rt og ctx r w = (res, errors, st)"
  shows "(errors \<noteq> [] \<and> (\<forall>ev \<in> set (rn_trace st). is_check ev)) \<or>
         (\<exists>before work ok. rn_trace st = before @ LockAcquired True # work @ [LockReleased None ok] \<and>
            (\<forall>ev \<in> set before. is_check ev) \<and>
            (\<forall>ev \<in> set work. \<not> is_check ev \<and> ev \<noteq> LockAcquired True \<and> (\<forall>c b. ev \<noteq> LockReleased c b)) \<and>
            full_match digestPattern (dq_ImageDigest r) \<and>
            (dq_Production r \<longrightarrow> dq_Approved r \<and> (dq_Rollback r \<or> dq_AcknowledgeMaintenanceDrain r)) \<and>
            (dq_Rollback r \<longrightarrow> dq_AcknowledgeForwardOnlyDB r))"
  using assms
proof (cases rule: Run_cases)
  case refused
  then show ?thesis by blast
next
  case (locked before err evs cleanup ok hooks st0 st1)
  from locked(4) have "\<forall>ev \<in> set evs. is_work ev" by (simp add: runs_def)
  then have evs: "\<forall>ev \<in> set evs. \<not> is_check ev \<and> ev \<noteq> LockAcquired True \<and> (\<forall>c b. ev \<noteq> LockReleased c b)"
    by (metis is_check.simps is_work.simps deploy_event.exhaust)
  from locked(5)
  have cleanup: "\<forall>ev \<in> set cleanup. \<not> is_check ev \<and> ev \<noteq> LockAcquired True \<and> (\<forall>c b. ev \<noteq> LockReleased c b)"
    by (auto split: if_splits)
  from locked(3) have guards: "full_match digestPattern (dq_ImageDigest r)"
    "dq_Production r \<longrightarrow> dq_Approved r \<and> (dq_Rollback r \<or> dq_AcknowledgeMaintenanceDrain r)"
    "dq_Rollback r \<longrightarrow> dq_AcknowledgeForwardOnlyDB r"
    by (auto simp: request_guard_def split: if_splits)
  from evs cleanup have work: "\<forall>ev \<in> set (evs @ cleanup).
      \<not> is_check ev \<and> ev \<noteq> LockAcquired True \<and> (\<forall>c b. ev \<noteq> LockReleased c b)"
    by (simp only: set_append Ball_def Un_iff) blast
  from locked(1) have "rn_trace st = before @ LockAcquired True # (evs @ cleanup) @ [LockReleased None ok]" by simp
  with locked(2) work guards show ?thesis
    by (intro disjI2 exI[of _ before] exI[of _ "evs @ cleanup"] exI[of _ ok] conjI) assumption+
qed

theorem deploy_works_under_guards_and_lock_witness:
  "(\<exists>before work ok. rn_trace (snd (snd dep_failed)) = before @ LockAcquired True # work @ [LockReleased None ok]) \<and>
   dq_Approved dep_deploy"
proof -
  have "LockAcquired True \<in> set (rn_trace (snd (snd dep_failed)))" by (simp add: dep_failed_trace)
  then have "\<not> (\<forall>ev \<in> set (rn_trace (snd (snd dep_failed))). is_check ev)"
    by (meson is_check.simps(4))
  with deploy_works_under_guards_and_lock[OF dep_failed_run] show ?thesis by (auto simp: dep_deploy_def)
qed

text \<open>
  C27. A registered candidate is cleaned up exactly once, however the deployment goes on: right before the
  lock is released and under a live context, even when the caller's context has ended by then. Without a
  registered candidate nothing is cleaned up.
\<close>

theorem candidate_cleaned_up_once:
  assumes "Run rt og ctx r w = (res, errors, st)"
  shows "if \<exists>c. Called StepCandidate c True \<in> set (rn_trace st)
         then \<exists>before okc ok. rn_trace st = before @ [Called StepCleanup None okc, LockReleased None ok] \<and>
                (\<forall>c b. Called StepCleanup c b \<notin> set before)
         else \<forall>c b. Called StepCleanup c b \<notin> set (rn_trace st)"
  using assms
proof (cases rule: Run_cases)
  case refused
  then have "Called s c b \<notin> set (rn_trace st)" if "s \<noteq> StepValidate" for s c b
    using that by (metis is_check.simps(1))
  then show ?thesis by auto
next
  case (locked before err evs cleanup ok hooks st0 st1)
  from locked(4) have "\<forall>ev \<in> set evs. is_work ev" by (simp add: runs_def)
  then have work: "Called StepCleanup c b \<notin> set evs" for c b by (metis is_work.simps(1))
  from locked(2) have checks: "Called s c b \<notin> set before" if "s \<noteq> StepValidate" for s c b
    using that by (metis is_check.simps(1))
  from locked(1) locked(5) checks have registered:
    "(\<exists>c. Called StepCandidate c True \<in> set (rn_trace st)) \<longleftrightarrow> (StepCandidate, True) \<in> set (calls evs)"
    by (auto simp: calls_mem split: if_splits)
  show ?thesis
  proof (cases "(StepCandidate, True) \<in> set (calls evs)")
    case True
    with locked(5) obtain okc where "cleanup = [Called StepCleanup None okc]" by auto
    with locked(1) have "rn_trace st = (before @ LockAcquired True # evs) @ [Called StepCleanup None okc, LockReleased None ok]"
      by simp
    moreover from checks work have "\<forall>c b. Called StepCleanup c b \<notin> set (before @ LockAcquired True # evs)" by simp
    ultimately show ?thesis using registered True by (simp only: if_True simp_thms) blast
  next
    case False
    with locked(1) locked(5) checks work have "\<forall>c b. Called StepCleanup c b \<notin> set (rn_trace st)" by simp
    with registered False show ?thesis by (simp only: if_False simp_thms)
  qed
qed

theorem candidate_cleaned_up_once_witness:
  "(\<exists>before okc ok. rn_trace (snd (snd dep_failed)) = before @ [Called StepCleanup None okc, LockReleased None ok]) \<and>
   fst (snd dep_failed) = [StepFailed StepMigrations ''schema'']"
proof -
  have "\<exists>c. Called StepCandidate c True \<in> set (rn_trace (snd (snd dep_failed)))" by (auto simp: dep_failed_trace)
  with candidate_cleaned_up_once[OF dep_failed_run] dep_failed_errors show ?thesis by auto
qed

text \<open>
  The steps are called in one order: preview, candidate, migrations, update, stabilization, health,
  record, each at most once and each only after every step called before it succeeded. A deployment that
  reports no error called all of them with success, except those a replace or disable hook of its plan
  took over.
\<close>

lemma deploy_steps_in_order:
  assumes "Run rt (Some og) ctx r w = (res, errors, st)"
  defines "called \<equiv> filter (\<lambda>(s, ok). s \<noteq> StepValidate \<and> s \<noteq> StepCleanup) (calls (rn_trace st))"
  shows "subseq (map fst called) (map fst body_steps) \<and> (\<forall>(s, ok) \<in> set (butlast called). ok) \<and>
         (errors = [] \<longrightarrow> (\<forall>(s, ok) \<in> set called. ok) \<and>
            (\<forall>(s, target) \<in> set body_steps. (s, True) \<in> set called \<or> taken_over (og_hooks og) target))"
  using assms(1)
proof (cases rule: Run_cases)
  case refused
  then have "set (calls (rn_trace st)) \<subseteq> {StepValidate} \<times> UNIV"
    by (auto simp: calls_mem) (metis is_check.simps(1))
  then have "called = []" by (auto simp: called_def filter_empty_conv)
  with refused(1) show ?thesis by simp
next
  case (locked before err evs cleanup ok hooks st0 st1)
  from locked(2) have "set (calls before) \<subseteq> {StepValidate} \<times> UNIV"
    by (auto simp: calls_mem) (metis is_check.simps(1))
  then have "filter (\<lambda>(s, ok). s \<noteq> StepValidate \<and> s \<noteq> StepCleanup) (calls before) = []"
    by (auto simp: filter_empty_conv)
  moreover from locked(5) have "filter (\<lambda>(s, ok). s \<noteq> StepValidate \<and> s \<noteq> StepCleanup) (calls cleanup) = []"
    by (auto split: if_splits)
  moreover have "filter (\<lambda>(s, ok). s \<noteq> StepValidate \<and> s \<noteq> StepCleanup) (calls evs) = calls evs"
  proof (rule filter_True, clarify)
    fix s ok assume "(s, ok) \<in> set (calls evs)"
    then obtain c where "Called s c ok \<in> set evs" by (auto simp: calls_mem)
    moreover from locked(4) have "\<forall>ev \<in> set evs. is_work ev" by (simp add: runs_def)
    ultimately show "s \<noteq> StepValidate \<and> s \<noteq> StepCleanup" by (metis is_work.simps(1))
  qed
  ultimately have called: "called = calls evs" using locked(1) by (simp add: called_def)
  have both: "(s, True) \<in> set cs" if "s \<in> fst ` set cs" "\<forall>c \<in> set cs. snd c" for s and cs :: "(deploy_step \<times> bool) list"
    using that by force
  from locked(7) have hooks: "hooks = og_hooks og" by simp
  from locked(4) have order: "subseq (map fst (calls evs)) (map fst body_steps)"
    "\<forall>(s, ok) \<in> set (butlast (calls evs)). ok" by (auto simp: runs_def case_prod_beta)
  from locked(4,6) have fine: "(\<forall>(s, ok) \<in> set (calls evs). ok) \<and> (\<forall>(s, target) \<in> set body_steps.
      s \<in> fst ` set (calls evs) \<or> taken_over (og_hooks og) target)" if "errors = []"
    using that hooks by (auto simp: runs_def case_prod_beta)
  from order fine both[of _ "calls evs"] show ?thesis unfolding called
    by (intro conjI impI) (simp_all add: case_prod_beta, blast)
qed

section \<open>Dependencies between hooks\<close>

definition dep_hook :: "string \<Rightarrow> string \<Rightarrow> string \<Rightarrow> string \<Rightarrow> string list \<Rightarrow> (nat, unit LifecycleHookRequest) LifecycleHook" where
  "dep_hook i phase relationship target needs =
     \<lparr>lh_Descriptor = \<lparr>hd_ID = i, hd_Phase = phase, hd_Relationship = relationship, hd_RelativeTo = target,
        hd_DependsOn = needs, hd_Timeout = 30, hd_MaxAttempts = 1, hd_Idempotent = False\<rparr>,
      lh_Validate = \<lambda>_ _ n. (None, n + 1), lh_Run = \<lambda>_ _ n. (None, n + 1)\<rparr>"

definition dep_hooks :: "(nat, unit LifecycleHookRequest) LifecycleHook option list" where
  "dep_hooks =
     [Some (dep_hook ''warm'' PhaseDeploy HookBefore HookTargetPreview [''announce'']),
      Some (dep_hook ''announce'' PhasePostDeploy HookAfter HookTargetRecord [])]"

text \<open>
  The plan of a deployment holds the registered hooks, each exactly once and after every hook it
  depends on; a hook that may be retried is idempotent and each has a positive timeout.
\<close>

lemma hook_plan_in_dependency_order:
  assumes "newHookPlan hooks = Inr plan"
  shows "mset (map Some plan) = mset hooks \<and>
         (\<forall>as h bs. plan = as @ h # bs \<longrightarrow>
            set (hd_DependsOn (lh_Descriptor h)) \<subseteq> (\<lambda>h. hd_ID (lh_Descriptor h)) ` set as) \<and>
         (\<forall>h \<in> set plan. 1 \<le> hd_Timeout (lh_Descriptor h) \<and>
            (1 < hd_MaxAttempts (lh_Descriptor h) \<longrightarrow> hd_Idempotent (lh_Descriptor h)))"
proof (cases "hooks = []")
  case True
  with assms show ?thesis by (simp add: newHookPlan_def)
next
  case False
  let ?hs = "map the hooks" let ?id = "\<lambda>h. hd_ID (lh_Descriptor h)"
  from assms False have nil: "\<forall>h \<in> set hooks. h \<noteq> None"
    and valid: "ValidateLifecycleHooks (map lh_Descriptor ?hs) = []"
    and known: "unregistered_dependency (map lh_Descriptor ?hs) = None" and order: "topologicalHooks ?hs = Inr plan"
    by (auto simp: newHookPlan_def Let_def first_err_None_iff check_hook_def split: option.splits if_splits)
  from valid have shapes: "hook_shapes [] (map lh_Descriptor ?hs) = []" by (simp add: ValidateLifecycleHooks_def)
  from hook_shapes_distinct[OF this] have one: "distinct (map ?id ?hs)" by (simp add: comp_def)
  note top = topologicalHooks_order[OF order one known]
  from nil have "map Some ?hs = hooks" by (induction hooks) auto
  with top(1) have perm: "mset (map Some plan) = mset hooks" by (metis mset_map)
  from top(1) have members: "set plan = set ?hs" by (metis set_mset_mset)
  have retry: "1 \<le> hd_Timeout (lh_Descriptor h) \<and>
      (1 < hd_MaxAttempts (lh_Descriptor h) \<longrightarrow> hd_Idempotent (lh_Descriptor h))" if "h \<in> set plan" for h
    using hook_shapes_valid[OF shapes, of "lh_Descriptor h"] that members
    by (auto simp: validateHookDescriptor_def split: if_splits)
  from perm top(2) retry show ?thesis by blast
qed

definition dep_plan :: "(nat, unit LifecycleHookRequest) LifecycleHook list" where
  "dep_plan = (case newHookPlan dep_hooks of Inl e \<Rightarrow> [] | Inr plan \<Rightarrow> plan)"

lemma dep_planned: "newHookPlan dep_hooks = Inr dep_plan"
proof -
  have "\<not> isl (newHookPlan dep_hooks)" by code_simp
  then show ?thesis by (cases "newHookPlan dep_hooks") (simp_all add: dep_plan_def)
qed

lemma dep_plan_order: "map (\<lambda>h. hd_ID (lh_Descriptor h)) dep_plan = [''announce'', ''warm'']"
  by code_simp

text \<open>
  A run validates the hooks of its plan in that order, but it runs them target by target: a hook before
  the preview that depends on a hook after the record is accepted and runs first, its dependency last.
\<close>

lemma dep_plan_eq:
  "dep_plan = [dep_hook ''announce'' PhasePostDeploy HookAfter HookTargetRecord [],
               dep_hook ''warm'' PhaseDeploy HookBefore HookTargetPreview [''announce'']]"
proof -
  from dep_plan_order obtain x y where xy: "dep_plan = [x, y]"
    "hd_ID (lh_Descriptor x) = ''announce''" "hd_ID (lh_Descriptor y) = ''warm''" by auto
  from newHookPlan_members[OF dep_planned] have "x \<in> set (map the dep_hooks)" "y \<in> set (map the dep_hooks)"
    unfolding xy(1) by (simp_all only: list.set insert_subset)
  with xy show ?thesis by (auto simp: dep_hooks_def dep_hook_def)
qed

definition dep_hooked :: "(nat, unit) outcome" where
  "dep_hooked = Run dep_clock (Some (dep_orchestrator False
     [dep_hook ''announce'' PhasePostDeploy HookAfter HookTargetRecord [],
      dep_hook ''warm'' PhaseDeploy HookBefore HookTargetPreview [''announce'']])) (\<lambda>_. None) dep_deploy 0"

lemma dep_guard: "request_guard dep_deploy = None"
  by code_simp

lemma dep_hooked_events: "fst (snd dep_hooked) = [] \<and>
  filter (\<lambda>ev. case ev of HookRan i ok \<Rightarrow> True | _ \<Rightarrow> False) (rn_trace (snd (snd dep_hooked))) =
     [HookRan ''warm'' True, HookRan ''announce'' True]"
  by (simp add: dep_hooked_def Run_def dep_guard deploy_locked_def deploy_body_def stage_def runHooks_def Let_def
      dep_orchestrator_def dep_steps_def dep_lock_def dep_hook_def call_step_def do_preview_def do_candidate_def
      do_update_def do_record_def cleanup_deferred_def release_deferred_def start_run_def note_event_def)

lemma hook_can_run_before_its_dependency:
  "\<exists>og. NewWithHooks (Some dep_lock) (Some (dep_steps False)) dep_hooks = Inr og \<and>
     fst (snd (Run dep_clock (Some og) (\<lambda>_. None) dep_deploy 0)) = [] \<and>
     filter (\<lambda>ev. case ev of HookRan i ok \<Rightarrow> True | _ \<Rightarrow> False)
       (rn_trace (snd (snd (Run dep_clock (Some og) (\<lambda>_. None) dep_deploy 0)))) =
       [HookRan ''warm'' True, HookRan ''announce'' True]"
  using dep_hooked_events
  by (intro exI[of _ "dep_orchestrator False dep_plan"])
    (simp add: NewWithHooks_def dep_planned dep_orchestrator_def dep_hooked_def dep_plan_eq)

end
