(* ===== verification/Edge_Intent.thy ===== *)
theory Edge_Intent
  imports Resilience_Data
begin

text \<open>
  The edge intent of \<^verbatim>\<open>sdk/types.go\<close> and its validation: \<^verbatim>\<open>ValidateCredentialReference\<close> and
  \<^verbatim>\<open>ValidateExternalIntent\<close> of \<^verbatim>\<open>sdk/validation.go\<close>, \<^verbatim>\<open>ValidateEdgeIntent\<close> of \<^verbatim>\<open>sdk/contracts.go\<close>. The URL
  parser of \<^verbatim>\<open>net/url\<close> is an argument: which hosts and ports it accepts differs between Go releases, and
  the validators only read the parts of what it returns.
\<close>

record url =
  u_Scheme :: string
  u_Opaque :: string
  u_User :: bool
  u_Host :: string
  u_Path :: string
  u_RawQuery :: string
  u_Fragment :: string

type_synonym url_parser = "string \<Rightarrow> url option"

record EdgeHealthIntent =
  eh_OriginURL :: string
  eh_OriginHost :: string
  eh_ExpectedRouteTarget :: string
  eh_RoutePath :: string
  eh_ExpectedStatus :: int
  eh_RouteTimeoutSeconds :: int
  eh_RoutePollSeconds :: int

record EdgeIntent =
  ei_ExternalProvider :: string
  ei_Lifecycle :: string
  ei_Certification :: string
  ei_Mode :: string
  ei_NativeProvider :: string
  ei_CredentialRefs :: "string list"
  ei_ServiceReference :: string
  ei_Domains :: "string list"
  ei_TLS :: bool
  ei_TLSMode :: string
  ei_DNSMode :: string
  ei_PurgeOnDeploy :: bool
  ei_PolicyReference :: string
  ei_OriginHealthRef :: string
  ei_CachePolicyRef :: string
  ei_PurgePolicyRef :: string
  ei_WAFPolicyRef :: string
  ei_FailoverPolicyRef :: string
  ei_OwnershipMarker :: string
  ei_Health :: EdgeHealthIntent

section \<open>Credential references\<close>

datatype intent_error =
    CredentialShape
  | CredentialNotURI
  | CredentialScheme
  | CredentialEmbedded string
  | CredentialUser
  | CredentialFragment
  | CredentialNoSecret
  | ExternalMetadata
  | ExternalLifecycle string
  | ExternalCertification string
  | ExternalIntent "intent_error list"
  | EdgeNativeID string
  | EdgeMode string
  | EdgeModeRequires string string
  | EdgeModeForbids string string
  | EdgeTLS string
  | EdgeHealth string
  | EdgeDomain string

text \<open>\<^verbatim>\<open>^[a-z][a-z0-9+.-]*$\<close>\<close>

definition credentialScheme :: rx where
  "credentialScheme = RSeq (RSet chr_lower) (RStar (RSet (\<lambda>c. chr_lower_digit c \<or> c \<in> set ''+.-'')))"

lemmas [go_defs] = credentialScheme_def

definition ValidateCredentialReference :: "url_parser \<Rightarrow> string \<Rightarrow> intent_error option" where
  "ValidateCredentialReference parse reference =
     (if TrimSpace reference \<noteq> reference \<or> reference = [] \<or> has_space reference then Some CredentialShape
      else if \<not> contains_text ''://'' reference then Some CredentialNotURI
      else case parse reference of
        None \<Rightarrow> Some CredentialScheme
      | Some u \<Rightarrow> first_failure
          [(\<not> full_match credentialScheme (u_Scheme u), CredentialScheme),
           (ToLower (u_Scheme u) \<in> set
              [''data'', ''env'', ''file'', ''http'', ''https'', ''literal'', ''password'', ''raw'', ''token''],
            CredentialEmbedded (u_Scheme u)),
           (u_User u, CredentialUser),
           (u_Fragment u \<noteq> [] \<and> ToLower (u_Scheme u) \<noteq> ''kubernetes-secret'', CredentialFragment),
           (u_Host u = [] \<and> u_Path u = [] \<and> u_Opaque u = [], CredentialNoSecret)])"

definition ValidateExternalIntent ::
  "url_parser \<Rightarrow> string \<Rightarrow> string \<Rightarrow> string \<Rightarrow> string list \<Rightarrow> intent_error list" where
  "ValidateExternalIntent parse provider lifecycle certification credentialRefs =
     (if \<not> activeProvider provider then
        (if lifecycle \<noteq> [] \<or> certification \<noteq> [] \<or> credentialRefs \<noteq> [] then [ExternalMetadata] else [])
      else
        (if lifecycle \<in> set [''managed'', ''extension'', ''observe-only''] then [] else [ExternalLifecycle lifecycle]) @
        (if certification \<in> set [''certified'', ''experimental'', ''unavailable'', ''blocked''] then []
         else [ExternalCertification certification]) @
        concat (map (\<lambda>r. case ValidateCredentialReference parse r of None \<Rightarrow> [] | Some e \<Rightarrow> [e]) credentialRefs))"

section \<open>The edge intent\<close>

text \<open>The mode, with the default that an empty one stands for.\<close>

definition edge_mode :: "EdgeIntent \<Rightarrow> string" where
  "edge_mode i =
     (if TrimSpace (ei_Mode i) = [] then (if activeProvider (ei_ExternalProvider i) then ''external'' else ''none'')
      else TrimSpace (ei_Mode i))"

definition healthString :: "EdgeHealthIntent \<Rightarrow> string" where
  "healthString h = eh_OriginURL h @ eh_OriginHost h @ eh_ExpectedRouteTarget h @ eh_RoutePath h"

definition health_error :: "url_parser \<Rightarrow> EdgeHealthIntent \<Rightarrow> intent_error option" where
  "health_error parse h = first_failure
     [(eh_OriginURL h \<noteq> [] \<and> (case parse (TrimSpace (eh_OriginURL h)) of
         None \<Rightarrow> True
       | Some u \<Rightarrow> u_Host u = [] \<or> (u_Scheme u \<noteq> ''http'' \<and> u_Scheme u \<noteq> ''https'')), EdgeHealth ''origin URL''),
      (has_control (healthString h), EdgeHealth ''control characters''),
      (eh_RoutePath h \<noteq> [] \<and> \<not> prefix ''/'' (eh_RoutePath h), EdgeHealth ''route path''),
      (eh_ExpectedStatus h < 0 \<or> eh_ExpectedStatus h > 599 \<or> (eh_ExpectedStatus h > 0 \<and> eh_ExpectedStatus h < 100),
       EdgeHealth ''expected status''),
      (eh_RouteTimeoutSeconds h < 0 \<or> eh_RouteTimeoutSeconds h > 3600, EdgeHealth ''route timeout''),
      (eh_RoutePollSeconds h < 0 \<or> eh_RoutePollSeconds h > 300, EdgeHealth ''route poll interval'')]"

definition mode_error :: "EdgeIntent \<Rightarrow> intent_error option" where
  "mode_error i =
     (let hasNative = activeProvider (ei_NativeProvider i); hasExternal = activeProvider (ei_ExternalProvider i);
          mode = edge_mode i
      in first_failure
        [(hasNative \<and> \<not> full_match stableID (TrimSpace (ei_NativeProvider i)), EdgeNativeID (ei_NativeProvider i)),
         (mode \<notin> set [''none'', ''native'', ''external'', ''both''], EdgeMode (ei_Mode i)),
         ((mode = ''native'' \<or> mode = ''both'') \<and> \<not> hasNative, EdgeModeRequires mode ''native provider''),
         ((mode = ''external'' \<or> mode = ''both'') \<and> \<not> hasExternal, EdgeModeRequires mode ''external provider''),
         (mode = ''none'' \<and> (hasNative \<or> hasExternal), EdgeModeForbids mode ''provider''),
         (mode = ''native'' \<and> hasExternal, EdgeModeForbids mode ''external provider''),
         (mode = ''external'' \<and> hasNative, EdgeModeForbids mode ''native provider''),
         (mode \<noteq> ''none'' \<and> blank (ei_OriginHealthRef i), EdgeModeRequires mode ''origin health reference''),
         (mode \<noteq> ''none'' \<and> blank (ei_OwnershipMarker i), EdgeModeRequires mode ''ownership marker''),
         (ei_TLS i \<and> blank (ei_TLSMode i), EdgeTLS ''certificate ownership mode''),
         (ei_TLS i \<and> blank (ei_DNSMode i), EdgeTLS ''DNS ownership mode'')])"

definition domain_error :: "string \<Rightarrow> intent_error option" where
  "domain_error d =
     (if blank d \<or> list_ex (\<lambda>c. c = CHR 0x0D \<or> c = CHR 0x0A \<or> c \<in> set '' /:'') d then Some (EdgeDomain d) else None)"

definition ValidateEdgeIntent :: "url_parser \<Rightarrow> EdgeIntent \<Rightarrow> intent_error option" where
  "ValidateEdgeIntent parse i =
     (case ValidateExternalIntent parse (ei_ExternalProvider i) (ei_Lifecycle i) (ei_Certification i) (ei_CredentialRefs i) of
        [] \<Rightarrow> first_err (mode_error i # health_error parse (ei_Health i) # map domain_error (ei_Domains i))
      | e # es \<Rightarrow> Some (ExternalIntent (e # es)))"

section \<open>What a valid intent is\<close>

text \<open>A reference that passes names a secret store: it has a scheme that is none of the embedding ones.\<close>

lemma external_references_opaque:
  assumes "ValidateExternalIntent parse provider lifecycle certification refs = []" and "r \<in> set refs"
  shows "activeProvider provider \<and> ValidateCredentialReference parse r = None"
  using assms by (auto simp: ValidateExternalIntent_def split: if_splits option.splits)

lemma valid_intent_mode:
  assumes "ValidateEdgeIntent parse i = None"
  shows "edge_mode i \<in> {''none'', ''native'', ''external'', ''both''}"
    and "edge_mode i \<noteq> ''none'' \<Longrightarrow> \<not> blank (ei_OriginHealthRef i) \<and> \<not> blank (ei_OwnershipMarker i)"
    and "activeProvider (ei_NativeProvider i) \<longleftrightarrow> edge_mode i \<in> {''native'', ''both''}"
    and "activeProvider (ei_ExternalProvider i) \<longleftrightarrow> edge_mode i \<in> {''external'', ''both''}"
proof -
  from assms have m: "mode_error i = None" by (auto simp: ValidateEdgeIntent_def split: list.splits)
  then show mode: "edge_mode i \<in> {''none'', ''native'', ''external'', ''both''}"
    by (auto simp: mode_error_def Let_def split: if_splits)
  from m show "edge_mode i \<noteq> ''none'' \<Longrightarrow> \<not> blank (ei_OriginHealthRef i) \<and> \<not> blank (ei_OwnershipMarker i)"
    by (auto simp: mode_error_def Let_def split: if_splits)
  from m mode show "activeProvider (ei_NativeProvider i) \<longleftrightarrow> edge_mode i \<in> {''native'', ''both''}"
    "activeProvider (ei_ExternalProvider i) \<longleftrightarrow> edge_mode i \<in> {''external'', ''both''}"
    by (auto simp: mode_error_def Let_def split: if_splits)
qed

end
