(* ===== verification/Edge_Contract.thy ===== *)
theory Edge_Contract
  imports Edge_Intent
begin

text \<open>
  The edge part of \<^verbatim>\<open>sdk/integrations.go\<close> (descriptors, plans, execution requests and their validators) and
  the result checks of \<^verbatim>\<open>sdk/integration_lifecycle.go\<close>. The configuration of a plan request and the opaque
  part of a plan belong to the adapter; they are type parameters.
\<close>

abbreviation EdgeApply :: string where "EdgeApply \<equiv> ''apply''"
abbreviation EdgeVerify :: string where "EdgeVerify \<equiv> ''verify''"
abbreviation EdgeFailover :: string where "EdgeFailover \<equiv> ''failover''"
abbreviation EdgeRollback :: string where "EdgeRollback \<equiv> ''rollback''"
abbreviation EdgeDestroy :: string where "EdgeDestroy \<equiv> ''destroy''"
abbreviation EdgePurge :: string where "EdgePurge \<equiv> ''purge''"

definition EdgeProofOriginHealth :: string where "EdgeProofOriginHealth = ''origin-health''"

record EdgeAdapterDescriptor =
  ed_APIVersion :: string
  ed_ID :: string
  ed_Provider :: string
  ed_Version :: string
  ed_Capabilities :: "string list"

record AdapterOutput =
  ao_Key :: string
  ao_Value :: string

record 'c EdgePlanRequest =
  eq_TargetProvider :: string
  eq_TargetRuntime :: string
  eq_Intent :: EdgeIntent
  eq_Configuration :: 'c

record 'x EdgePlan =
  ep_AdapterID :: string
  ep_TargetProvider :: string
  ep_TargetRuntime :: string
  ep_OwnershipMarker :: string
  ep_Outputs :: "AdapterOutput list"
  ep_Opaque :: 'x

record 'x EdgeExecutionRequest =
  ex_Plan :: "'x EdgePlan"
  ex_Action :: string
  ex_IdempotencyKey :: string
  ex_OwnershipMarker :: string
  ex_ApprovalReference :: string
  ex_ResourceReferences :: "string list"

record EdgeExecutionResult =
  et_Action :: string
  et_OperationID :: string
  et_ResourceRefs :: "string list"
  et_ProofRefs :: "string list"
  et_Outputs :: "AdapterOutput list"
  et_OwnershipMarker :: string
  et_OwnershipVerified :: bool
  et_IdempotencyVerified :: bool

datatype edge_problem =
    EdgeDescriptorProblem descriptor_problem
  | EdgeCapabilitiesRequired
  | EdgeCapabilityInvalid string
  | EdgeCapabilityDuplicate string
  | EdgeIntentProblem intent_error
  | EdgePlanAdapterRequired
  | EdgePlanTarget
  | EdgePlanMarkerRequired
  | EdgePlanOutput

datatype execution_error =
    EdgeActionInvalid string
  | EdgeKeyInvalid
  | EdgeMarkerMismatch
  | EdgeApprovalMultiline
  | OpaqueInvalid string
  | OpaqueDuplicate string string
  | ResultAction string string
  | ResultMarker
  | ResultUnverified
  | ProofMissing string

definition validEdgeAction :: "string \<Rightarrow> bool" where
  "validEdgeAction a \<longleftrightarrow> a \<in> set [EdgeApply, EdgeVerify, EdgeFailover, EdgeRollback, EdgeDestroy, EdgePurge]"

definition ValidateEdgeAdapterDescriptor :: "EdgeAdapterDescriptor \<Rightarrow> edge_problem list" where
  "ValidateEdgeAdapterDescriptor d =
     map EdgeDescriptorProblem
       ((if ed_APIVersion d \<noteq> ExtensionAPIVersion then [DescriptorAPIVersion (ed_APIVersion d)] else []) @
        descriptor_ID ''edge adapter ID'' (ed_ID d) @ descriptor_ID ''edge adapter provider ID'' (ed_Provider d) @
        validateExtensionVersion (ed_Version d)) @
     (if ed_Capabilities d = [] then [EdgeCapabilitiesRequired] else []) @
     seen_loop (\<lambda>c. if validEdgeAction c then [] else [EdgeCapabilityInvalid c]) (\<lambda>c. c) EdgeCapabilityDuplicate []
       (ed_Capabilities d)"

definition ValidateEdgePlanRequest :: "url_parser \<Rightarrow> 'c EdgePlanRequest \<Rightarrow> edge_problem list" where
  "ValidateEdgePlanRequest parse r =
     map EdgeDescriptorProblem
       (descriptor_ID ''edge target provider'' (eq_TargetProvider r) @
        descriptor_ID ''edge target runtime'' (eq_TargetRuntime r)) @
     (case ValidateEdgeIntent parse (eq_Intent r) of None \<Rightarrow> [] | Some e \<Rightarrow> [EdgeIntentProblem e])"

definition ValidateEdgePlan :: "'x EdgePlan \<Rightarrow> 'c EdgePlanRequest \<Rightarrow> edge_problem list" where
  "ValidateEdgePlan plan r =
     (if blank (ep_AdapterID plan) then [EdgePlanAdapterRequired] else []) @
     (if ep_TargetProvider plan \<noteq> eq_TargetProvider r \<or> ep_TargetRuntime plan \<noteq> eq_TargetRuntime r
      then [EdgePlanTarget] else []) @
     (if blank (ep_OwnershipMarker plan) \<and> ei_Mode (eq_Intent r) \<noteq> ''none'' then [EdgePlanMarkerRequired] else []) @
     concat (map (\<lambda>out. if blank (ao_Key out) \<or> has_control (ao_Key out @ ao_Value out) then [EdgePlanOutput] else [])
       (ep_Outputs plan))"

fun opaque_references :: "string \<Rightarrow> string list \<Rightarrow> string list \<Rightarrow> execution_error option" where
  "opaque_references name seen [] = None"
| "opaque_references name seen (v # vs) =
     (if blank v \<or> has_control v then Some (OpaqueInvalid name)
      else if v \<in> set seen then Some (OpaqueDuplicate name v)
      else opaque_references name (v # seen) vs)"

definition validateOpaqueReferences :: "string \<Rightarrow> string list \<Rightarrow> execution_error option" where
  "validateOpaqueReferences name vs = opaque_references name [] vs"

definition ValidateEdgeExecutionRequest :: "'x EdgeExecutionRequest \<Rightarrow> execution_error option" where
  "ValidateEdgeExecutionRequest r = first_err
     [first_failure
        [(\<not> validEdgeAction (ex_Action r), EdgeActionInvalid (ex_Action r)),
         (blank (ex_IdempotencyKey r) \<or> has_control (ex_IdempotencyKey r), EdgeKeyInvalid),
         (ex_OwnershipMarker r \<noteq> ep_OwnershipMarker (ex_Plan r), EdgeMarkerMismatch),
         (has_control (ex_ApprovalReference r), EdgeApprovalMultiline)],
      validateOpaqueReferences ''edge execution resource reference'' (ex_ResourceReferences r)]"

section \<open>Results\<close>

text \<open>A proof carries the semantic as a whole or as its last segment, whatever its case.\<close>

definition containsEdgeProof :: "string list \<Rightarrow> string \<Rightarrow> bool" where
  "containsEdgeProof proofRefs semantic =
     (let wanted = ToLower (TrimSpace semantic) in
      list_ex (\<lambda>r. let reference = ToLower (TrimSpace r) in
        reference = wanted \<or> list_ex (\<lambda>separator. suffix (separator @ wanted) reference) [''.'', '':'', ''/'']) proofRefs)"

definition ValidateEdgeSafetyProofs :: "string \<Rightarrow> string list \<Rightarrow> execution_error option" where
  "ValidateEdgeSafetyProofs action proofRefs =
     (case validateOpaqueReferences ''edge safety proof reference'' proofRefs of
        Some e \<Rightarrow> Some e
      | None \<Rightarrow>
          if action \<in> set [EdgeApply, EdgeVerify, EdgeFailover, EdgeRollback] then
            (if containsEdgeProof proofRefs EdgeProofOriginHealth then None else Some (ProofMissing action))
          else if action \<in> set [EdgeDestroy, EdgePurge] then None
          else Some (EdgeActionInvalid action))"

definition ValidateEdgeExecutionResult ::
  "'x EdgeExecutionRequest \<Rightarrow> EdgeExecutionResult \<Rightarrow> execution_error option" where
  "ValidateEdgeExecutionResult r t = first_err
     [first_failure
        [(et_Action t \<noteq> ex_Action r, ResultAction (et_Action t) (ex_Action r)),
         (et_OwnershipMarker t \<noteq> ex_OwnershipMarker r, ResultMarker),
         (\<not> et_OwnershipVerified t \<or> \<not> et_IdempotencyVerified t, ResultUnverified)],
      validateOpaqueReferences ''edge execution result resource reference'' (et_ResourceRefs t @ et_ProofRefs t),
      ValidateEdgeSafetyProofs (ex_Action r) (et_ProofRefs t)]"

section \<open>What the validators establish\<close>

lemma opaque_references_None:
  "opaque_references name seen vs = None \<longleftrightarrow>
     (\<forall>v \<in> set vs. single_line v) \<and> distinct vs \<and> set vs \<inter> set seen = {}"
  by (induction name seen vs rule: opaque_references.induct) auto

text \<open>The traffic-bearing actions.\<close>

definition bears_traffic :: "string \<Rightarrow> bool" where
  "bears_traffic a \<longleftrightarrow> a \<in> {EdgeApply, EdgeVerify, EdgeFailover, EdgeRollback}"

lemma valid_result:
  assumes "ValidateEdgeExecutionResult r t = None"
  shows "et_Action t = ex_Action r" and "et_OwnershipMarker t = ex_OwnershipMarker r"
    and "et_OwnershipVerified t" and "et_IdempotencyVerified t"
    and "\<forall>v \<in> set (et_ResourceRefs t @ et_ProofRefs t). single_line v"
    and "bears_traffic (ex_Action r) \<Longrightarrow> containsEdgeProof (et_ProofRefs t) EdgeProofOriginHealth"
  using assms
  by (auto simp: ValidateEdgeExecutionResult_def validateOpaqueReferences_def opaque_references_None
      ValidateEdgeSafetyProofs_def bears_traffic_def split: if_splits option.splits)

lemma valid_request:
  assumes "ValidateEdgeExecutionRequest r = None"
  shows "validEdgeAction (ex_Action r)" and "single_line (ex_IdempotencyKey r)"
    and "ex_OwnershipMarker r = ep_OwnershipMarker (ex_Plan r)"
  using assms by (auto simp: ValidateEdgeExecutionRequest_def split: if_splits)

end
