(* ===== verification/Edge_Lifecycle.thy ===== *)
theory Edge_Lifecycle
  imports Edge_Contract
begin

text \<open>
  \<^verbatim>\<open>sdk/edge_lifecycle.go\<close>: the operation-backed edge adapter with its two waiting loops, and
  \<^verbatim>\<open>RunEdgeLifecycle\<close> of \<^verbatim>\<open>sdk/integration_lifecycle.go\<close>, the gate in front of any edge adapter. The operation
  API is provider code: total functions on the world that may answer anything. The copies the code makes of
  requests are the requests themselves; values are immutable here.
\<close>

section \<open>The operation API\<close>

record 'x EdgeOperationRequest =
  eor_Provider :: string
  eor_Action :: string
  eor_Request :: "'x EdgeExecutionRequest"

record EdgeOperationObservation =
  eob_Status :: string
  eob_Action :: string
  eob_OperationID :: string
  eob_ResourceRefs :: "string list"
  eob_ProofRefs :: "string list"
  eob_Outputs :: "AdapterOutput list"
  eob_OwnershipMarker :: string
  eob_OwnershipVerified :: bool
  eob_IdempotencyVerified :: bool
  eob_Detail :: string

definition no_edge_observation :: EdgeOperationObservation where
  "no_edge_observation =
     \<lparr>eob_Status = [], eob_Action = [], eob_OperationID = [], eob_ResourceRefs = [], eob_ProofRefs = [], eob_Outputs = [],
      eob_OwnershipMarker = [], eob_OwnershipVerified = False, eob_IdempotencyVerified = False, eob_Detail = []\<rparr>"

record EdgeInventoryResource =
  eir_Identity :: string
  eir_OwnershipMarker :: string
  eir_Owned :: bool
  eir_Live :: bool

record ('w, 'c, 'x) EdgeOperationAPI =
  eapi_Plan :: "'w Context \<Rightarrow> 'c EdgePlanRequest \<Rightarrow> 'w \<Rightarrow> (string + 'x EdgePlan) \<times> 'w"
  eapi_Start :: "'w Context \<Rightarrow> 'x EdgeOperationRequest \<Rightarrow> 'w \<Rightarrow> (string + EdgeOperationObservation) \<times> 'w"
  eapi_Poll :: "'w Context \<Rightarrow> string \<Rightarrow> 'w \<Rightarrow> (string + EdgeOperationObservation) \<times> 'w"
  eapi_Inventory :: "'w Context \<Rightarrow> string \<Rightarrow> 'w \<Rightarrow> (string + EdgeInventoryResource list) \<times> 'w"

record EdgeOperationPolicy =
  eop_Timeout :: int
  eop_PollInterval :: int
  eop_MaxAttempts :: int

definition DefaultEdgeOperationPolicy :: EdgeOperationPolicy where
  "DefaultEdgeOperationPolicy =
     \<lparr>eop_Timeout = 30 * 60 * 1000000000, eop_PollInterval = 5 * 1000000000, eop_MaxAttempts = 360\<rparr>"

definition validateEdgeOperationPolicy :: "EdgeOperationPolicy \<Rightarrow> bool" where
  "validateEdgeOperationPolicy p \<longleftrightarrow> \<not> (eop_Timeout p \<le> 0 \<or> eop_PollInterval p \<le> 0 \<or> eop_MaxAttempts p \<le> 0)"

abbreviation EdgeOperationPending :: string where "EdgeOperationPending \<equiv> ''pending''"
abbreviation EdgeOperationRunning :: string where "EdgeOperationRunning \<equiv> ''running''"
abbreviation EdgeOperationSucceeded :: string where "EdgeOperationSucceeded \<equiv> ''succeeded''"
abbreviation EdgeOperationFailed :: string where "EdgeOperationFailed \<equiv> ''failed''"

datatype edge_error =
    EdgeAdapterRequired
  | EdgeContextRequired
  | EdgeAPIRequired
  | EdgePolicyInvalid
  | EdgeMarkerInvalid
  | EdgeOperationInvalid
  | EdgeContext ctx_error
  | EdgeTimedOut string int
  | EdgeProblems "edge_problem list"
  | EdgePlanFailed string
  | EdgePlanAdapter string string
  | EdgeExecution execution_error
  | EdgeCapabilityError string string
  | EdgeStartFailed string string
  | EdgeNoOperation
  | EdgePollFailed string int string
  | EdgeIdentity string string
  | EdgeFailed string string
  | EdgeUnknownStatus string string
  | EdgeIncomplete string int
  | EdgeNotSucceeded string string
  | EdgeActionReturned string string
  | EdgeOwnership
  | EdgeIdempotency
  | EdgeNoIdentity
  | EdgeInventoryFailed string
  | EdgeInventoryInvalid string
  | EdgeOwnedRemain int

section \<open>The inventory\<close>

fun check_inventory :: "string \<Rightarrow> string list \<Rightarrow> EdgeInventoryResource list \<Rightarrow> edge_error option" where
  "check_inventory marker seen [] = None"
| "check_inventory marker seen (r # rs) =
     (if blank (eir_Identity r) \<or> has_control (eir_Identity r) then Some (EdgeInventoryInvalid ''identity'')
      else if eir_Identity r \<in> set seen then Some (EdgeInventoryInvalid ''duplicate'')
      else if eir_Owned r \<and> eir_OwnershipMarker r \<noteq> marker then Some (EdgeInventoryInvalid ''ownership mismatch'')
      else if eir_OwnershipMarker r = marker \<and> \<not> eir_Owned r then Some (EdgeInventoryInvalid ''contradicted ownership'')
      else check_inventory marker (eir_Identity r # seen) rs)"

definition validateEdgeInventory :: "EdgeInventoryResource list \<Rightarrow> string \<Rightarrow> edge_error option" where
  "validateEdgeInventory rs marker = check_inventory marker [] rs"

definition owned_live :: "EdgeInventoryResource list \<Rightarrow> bool" where
  "owned_live rs \<longleftrightarrow> list_ex (\<lambda>r. eir_Owned r \<and> eir_Live r) rs"

section \<open>The waiting loops\<close>

text \<open>
  Both loops keep the answers they polled; the cleanup loop also keeps the last inventory it could use.
\<close>

record ('a, 'l, 'w) poll_state =
  ps_polled :: "'a list"
  ps_last :: 'l
  ps_world :: 'w

record ('a, 'v, 'w) poll_result =
  pr_value :: 'v
  pr_error :: "edge_error option"
  pr_polled :: "'a list"
  pr_world :: 'w

definition poll_return :: "'v \<Rightarrow> edge_error option \<Rightarrow> ('a, 'l, 'w) poll_state \<Rightarrow> ('a, 'v, 'w) poll_result" where
  "poll_return v err s = \<lparr>pr_value = v, pr_error = err, pr_polled = ps_polled s, pr_world = ps_world s\<rparr>"

definition poll_answer :: "'a \<Rightarrow> 'w \<Rightarrow> ('a, 'l, 'w) poll_state \<Rightarrow> ('a, 'l, 'w) poll_state" where
  "poll_answer x w s = s\<lparr>ps_polled := ps_polled s @ [x], ps_world := w\<rparr>"

definition edge_ctx_error :: "string \<Rightarrow> EdgeOperationPolicy \<Rightarrow> ctx_error \<Rightarrow> edge_error" where
  "edge_ctx_error what policy e =
     (if e = DeadlineExceeded then EdgeTimedOut what (eop_Timeout policy) else EdgeContext e)"

text \<open>The end of an attempt: give up at the last one, otherwise wait for the timer or the context.\<close>

definition edge_pause ::
  "'w runtime \<Rightarrow> 'w Context \<Rightarrow> EdgeOperationPolicy \<Rightarrow> string \<Rightarrow> int \<Rightarrow> 'v \<Rightarrow> edge_error \<Rightarrow> 'v \<Rightarrow> ('a, 'l, 'w) poll_state
     \<Rightarrow> ('a, 'v, 'w) poll_result + ('a, 'l, 'w) poll_state" where
  "edge_pause rt ctx policy what attempt given_up err ended s =
     (if attempt = eop_MaxAttempts policy then Inl (poll_return given_up (Some err) s)
      else case timer_select rt ctx (eop_PollInterval policy) (ps_world s) of
        (Some e, w) \<Rightarrow> Inl (poll_return ended (Some (edge_ctx_error what policy e)) (s\<lparr>ps_world := w\<rparr>))
      | (None, w) \<Rightarrow> Inr (s\<lparr>ps_world := w\<rparr>))"

type_synonym 'w operation_wait = "(string + EdgeOperationObservation, unit, 'w) poll_state"
type_synonym 'w operation_result = "(string + EdgeOperationObservation, EdgeOperationObservation, 'w) poll_result"

definition edge_wait_attempt ::
  "'w runtime \<Rightarrow> 'w Context \<Rightarrow> ('w, 'c, 'x) EdgeOperationAPI \<Rightarrow> string \<Rightarrow> EdgeOperationPolicy \<Rightarrow> int
     \<Rightarrow> 'w operation_wait \<Rightarrow> 'w operation_result + 'w operation_wait" where
  "edge_wait_attempt rt ctx api operationID policy attempt s =
     (let nothing = (\<lambda>e s. Inl (poll_return no_edge_observation (Some e) s));
          pause = (\<lambda>s. edge_pause rt ctx policy operationID attempt no_edge_observation
                          (EdgeIncomplete operationID attempt) no_edge_observation s)
      in case ctx_Err ctx (ps_world s) of
        Some e \<Rightarrow> nothing (edge_ctx_error operationID policy e) s
      | None \<Rightarrow>
          (case eapi_Poll api ctx operationID (ps_world s) of
             (Inl err, w) \<Rightarrow>
               let s1 = poll_answer (Inl err) w s in
               if attempt = eop_MaxAttempts policy then nothing (EdgePollFailed operationID attempt err) s1 else pause s1
           | (Inr ob, w) \<Rightarrow>
               let s1 = poll_answer (Inr ob) w s in
               if eob_OperationID ob \<noteq> operationID then nothing (EdgeIdentity (eob_OperationID ob) operationID) s1
               else if eob_Status ob = EdgeOperationSucceeded then Inl (poll_return ob None s1)
               else if eob_Status ob = EdgeOperationFailed then
                 (let ob1 = (if blank (eob_Detail ob)
                             then ob\<lparr>eob_Detail := ''provider reported edge operation failure''\<rparr> else ob)
                  in Inl (poll_return ob1 (Some (EdgeFailed operationID (eob_Detail ob1))) s1))
               else if eob_Status ob = EdgeOperationPending \<or> eob_Status ob = EdgeOperationRunning then pause s1
               else nothing (EdgeUnknownStatus operationID (eob_Status ob)) s1))"

definition edge_wait_after :: "string \<Rightarrow> 'w operation_wait \<Rightarrow> 'w operation_result" where
  "edge_wait_after operationID s = poll_return no_edge_observation (Some (EdgeIncomplete operationID 0)) s"

definition poll_start :: "'l \<Rightarrow> 'w \<Rightarrow> ('a, 'l, 'w) poll_state" where
  "poll_start l w = \<lparr>ps_polled = [], ps_last = l, ps_world = w\<rparr>"

definition WaitForEdgeOperation ::
  "'w runtime \<Rightarrow> 'w Context option \<Rightarrow> ('w, 'c, 'x) EdgeOperationAPI option \<Rightarrow> string \<Rightarrow> EdgeOperationPolicy \<Rightarrow> 'w
     \<Rightarrow> 'w operation_result" where
  "WaitForEdgeOperation rt ctx api operationID policy w =
     (let refuse = (\<lambda>e. poll_return no_edge_observation (Some e) (poll_start () w)) in
      case ctx of None \<Rightarrow> refuse EdgeContextRequired
      | Some ctx \<Rightarrow> (case api of None \<Rightarrow> refuse EdgeAPIRequired
      | Some api \<Rightarrow>
          if blank operationID \<or> has_control operationID then refuse EdgeOperationInvalid
          else if \<not> validateEdgeOperationPolicy policy then refuse EdgePolicyInvalid
          else attempt_loop
                 (edge_wait_attempt rt (WithTimeout rt ctx (eop_Timeout policy) w) api operationID policy)
                 (edge_wait_after operationID) 1 (nat (eop_MaxAttempts policy)) (poll_start () w)))"

type_synonym 'w cleanup_wait = "(string + EdgeInventoryResource list, EdgeInventoryResource list, 'w) poll_state"
type_synonym 'w cleanup_result = "(string + EdgeInventoryResource list, EdgeInventoryResource list, 'w) poll_result"

definition edge_cleanup_attempt ::
  "'w runtime \<Rightarrow> 'w Context \<Rightarrow> ('w, 'c, 'x) EdgeOperationAPI \<Rightarrow> string \<Rightarrow> EdgeOperationPolicy \<Rightarrow> int
     \<Rightarrow> 'w cleanup_wait \<Rightarrow> 'w cleanup_result + 'w cleanup_wait" where
  "edge_cleanup_attempt rt ctx api marker policy attempt s =
     (let nothing = (\<lambda>e s. Inl (poll_return [] (Some e) s));
          pause = (\<lambda>s. edge_pause rt ctx policy marker attempt (ps_last s) (EdgeOwnedRemain attempt) [] s)
      in case ctx_Err ctx (ps_world s) of
        Some e \<Rightarrow> nothing (edge_ctx_error marker policy e) s
      | None \<Rightarrow>
          (case eapi_Inventory api ctx marker (ps_world s) of
             (Inl err, w) \<Rightarrow>
               let s1 = poll_answer (Inl err) w s in
               if attempt = eop_MaxAttempts policy then nothing (EdgePollFailed marker attempt err) s1 else pause s1
           | (Inr resources, w) \<Rightarrow>
               let s1 = poll_answer (Inr resources) w s in
               (case validateEdgeInventory resources marker of
                  Some e \<Rightarrow> nothing e s1
                | None \<Rightarrow>
                    if \<not> owned_live resources then Inl (poll_return resources None s1)
                    else pause (s1\<lparr>ps_last := resources\<rparr>))))"

definition edge_cleanup_after :: "string \<Rightarrow> 'w cleanup_wait \<Rightarrow> 'w cleanup_result" where
  "edge_cleanup_after marker s = poll_return (ps_last s) (Some (EdgeIncomplete marker 0)) s"

definition WaitForEdgeCleanup ::
  "'w runtime \<Rightarrow> 'w Context option \<Rightarrow> ('w, 'c, 'x) EdgeOperationAPI option \<Rightarrow> string \<Rightarrow> EdgeOperationPolicy \<Rightarrow> 'w
     \<Rightarrow> 'w cleanup_result" where
  "WaitForEdgeCleanup rt ctx api marker policy w =
     (let refuse = (\<lambda>e. poll_return [] (Some e) (poll_start [] w :: 'w cleanup_wait)) in
      case ctx of None \<Rightarrow> refuse EdgeContextRequired
      | Some ctx \<Rightarrow> (case api of None \<Rightarrow> refuse EdgeAPIRequired
      | Some api \<Rightarrow>
          if blank marker \<or> has_control marker then refuse EdgeMarkerInvalid
          else if \<not> validateEdgeOperationPolicy policy then refuse EdgePolicyInvalid
          else attempt_loop
                 (edge_cleanup_attempt rt (WithTimeout rt ctx (eop_Timeout policy) w) api marker policy)
                 (edge_cleanup_after marker) 1 (nat (eop_MaxAttempts policy)) (poll_start [] w)))"

section \<open>The operation-backed adapter\<close>

record ('w, 'c, 'x) OperationBackedEdgeAdapter =
  oea_descriptor :: EdgeAdapterDescriptor
  oea_api :: "('w, 'c, 'x) EdgeOperationAPI"
  oea_policy :: EdgeOperationPolicy

definition NewOperationBackedEdgeAdapter ::
  "EdgeAdapterDescriptor \<Rightarrow> ('w, 'c, 'x) EdgeOperationAPI option \<Rightarrow> EdgeOperationPolicy
     \<Rightarrow> edge_error + ('w, 'c, 'x) OperationBackedEdgeAdapter" where
  "NewOperationBackedEdgeAdapter d api policy =
     (let problems = ValidateEdgeAdapterDescriptor d in
      if problems \<noteq> [] then Inl (EdgeProblems problems)
      else case api of None \<Rightarrow> Inl EdgeAPIRequired
      | Some api \<Rightarrow>
          if \<not> validateEdgeOperationPolicy policy then Inl EdgePolicyInvalid
          else Inr \<lparr>oea_descriptor = d, oea_api = api, oea_policy = policy\<rparr>)"

definition PlanEdge ::
  "url_parser \<Rightarrow> ('w, 'c, 'x) OperationBackedEdgeAdapter option \<Rightarrow> 'w Context option \<Rightarrow> 'c EdgePlanRequest \<Rightarrow> 'w
     \<Rightarrow> (edge_error + 'x EdgePlan) \<times> 'w" where
  "PlanEdge parse a ctx r w =
     (case a of None \<Rightarrow> (Inl EdgeAdapterRequired, w)
      | Some a \<Rightarrow> (case ctx of None \<Rightarrow> (Inl EdgeContextRequired, w)
      | Some ctx \<Rightarrow> (case ctx_Err ctx w of Some e \<Rightarrow> (Inl (EdgeContext e), w)
      | None \<Rightarrow>
          if ValidateEdgePlanRequest parse r \<noteq> [] then (Inl (EdgeProblems (ValidateEdgePlanRequest parse r)), w)
          else case eapi_Plan (oea_api a) ctx r w of
            (Inl e, w1) \<Rightarrow> (Inl (EdgePlanFailed e), w1)
          | (Inr plan, w1) \<Rightarrow>
              if ep_AdapterID plan \<noteq> ed_ID (oea_descriptor a)
              then (Inl (EdgePlanAdapter (ep_AdapterID plan) (ed_ID (oea_descriptor a))), w1)
              else if ValidateEdgePlan plan r \<noteq> [] then (Inl (EdgeProblems (ValidateEdgePlan plan r)), w1)
              else (Inr plan, w1))))"

text \<open>An execution: its outcome, the operations it started, the inventories it read, the world it left.\<close>

record ('x, 'w) edge_execution =
  xe_outcome :: "edge_error + EdgeExecutionResult"
  xe_started :: "'x EdgeOperationRequest list"
  xe_inventories :: "(string + EdgeInventoryResource list) list"
  xe_world :: 'w

definition accept_edge ::
  "'x EdgeExecutionRequest \<Rightarrow> EdgeOperationObservation \<Rightarrow> edge_error + EdgeExecutionResult" where
  "accept_edge r ob =
     (case first_failure
        [(eob_Status ob \<noteq> EdgeOperationSucceeded,
          EdgeNotSucceeded (eob_Status ob)
            (if eob_Status ob = EdgeOperationFailed \<and> blank (eob_Detail ob)
             then ''provider reported edge operation failure'' else eob_Detail ob)),
         (eob_Action ob \<noteq> [] \<and> eob_Action ob \<noteq> ex_Action r, EdgeActionReturned (eob_Action ob) (ex_Action r)),
         (eob_OwnershipMarker ob \<noteq> ex_OwnershipMarker r \<or> \<not> eob_OwnershipVerified ob, EdgeOwnership),
         (\<not> eob_IdempotencyVerified ob, EdgeIdempotency),
         (blank (eob_OperationID ob) \<and> eob_ResourceRefs ob = [] \<and> eob_ProofRefs ob = [], EdgeNoIdentity)] of
        Some e \<Rightarrow> Inl e
      | None \<Rightarrow>
          (let t = \<lparr>et_Action = ex_Action r, et_OperationID = eob_OperationID ob, et_ResourceRefs = eob_ResourceRefs ob,
                    et_ProofRefs = eob_ProofRefs ob, et_Outputs = eob_Outputs ob,
                    et_OwnershipMarker = eob_OwnershipMarker ob, et_OwnershipVerified = eob_OwnershipVerified ob,
                    et_IdempotencyVerified = eob_IdempotencyVerified ob\<rparr>
           in case ValidateEdgeExecutionResult r t of Some e \<Rightarrow> Inl (EdgeExecution e) | None \<Rightarrow> Inr t))"

definition finish_edge ::
  "'w runtime \<Rightarrow> ('w, 'c, 'x) OperationBackedEdgeAdapter \<Rightarrow> 'w Context \<Rightarrow> 'x EdgeExecutionRequest
     \<Rightarrow> 'x EdgeOperationRequest \<Rightarrow> EdgeOperationObservation \<Rightarrow> 'w \<Rightarrow> ('x, 'w) edge_execution" where
  "finish_edge rt a ctx r q ob w =
     (case accept_edge r ob of
        Inl e \<Rightarrow> \<lparr>xe_outcome = Inl e, xe_started = [q], xe_inventories = [], xe_world = w\<rparr>
      | Inr t \<Rightarrow>
          if ex_Action r \<noteq> EdgeDestroy
          then \<lparr>xe_outcome = Inr t, xe_started = [q], xe_inventories = [], xe_world = w\<rparr>
          else (let c = WaitForEdgeCleanup rt (Some ctx) (Some (oea_api a)) (ex_OwnershipMarker r) (oea_policy a) w in
            \<lparr>xe_outcome = (case pr_error c of Some e \<Rightarrow> Inl e | None \<Rightarrow> Inr t), xe_started = [q],
             xe_inventories = pr_polled c, xe_world = pr_world c\<rparr>))"

definition ExecuteEdge ::
  "'w runtime \<Rightarrow> ('w, 'c, 'x) OperationBackedEdgeAdapter option \<Rightarrow> 'w Context option \<Rightarrow> 'x EdgeExecutionRequest \<Rightarrow> 'w
     \<Rightarrow> ('x, 'w) edge_execution" where
  "ExecuteEdge rt a ctx r w =
     (let refuse = (\<lambda>e. \<lparr>xe_outcome = Inl e, xe_started = [], xe_inventories = [], xe_world = w\<rparr>) in
      case a of None \<Rightarrow> refuse EdgeAdapterRequired
      | Some a \<Rightarrow> (case ctx of None \<Rightarrow> refuse EdgeContextRequired
      | Some ctx \<Rightarrow> (case ValidateEdgeExecutionRequest r of Some e \<Rightarrow> refuse (EdgeExecution e)
      | None \<Rightarrow>
          if ex_Action r \<notin> set (ed_Capabilities (oea_descriptor a))
          then refuse (EdgeCapabilityError (ed_ID (oea_descriptor a)) (ex_Action r))
          else let q = \<lparr>eor_Provider = ed_Provider (oea_descriptor a), eor_Action = ex_Action r, eor_Request = r\<rparr>;
                   failed = (\<lambda>e w. \<lparr>xe_outcome = Inl e, xe_started = [q], xe_inventories = [], xe_world = w\<rparr>)
               in case eapi_Start (oea_api a) ctx q w of
                 (Inl e, w1) \<Rightarrow> failed (EdgeStartFailed (ex_Action r) e) w1
               | (Inr ob, w1) \<Rightarrow>
                   if eob_Status ob = EdgeOperationPending \<or> eob_Status ob = EdgeOperationRunning then
                     (if blank (eob_OperationID ob) then failed EdgeNoOperation w1
                      else let p = WaitForEdgeOperation rt (Some ctx) (Some (oea_api a)) (eob_OperationID ob) (oea_policy a) w1 in
                        case pr_error p of Some e \<Rightarrow> failed e (pr_world p)
                        | None \<Rightarrow> finish_edge rt a ctx r q (pr_value p) (pr_world p))
                   else finish_edge rt a ctx r q ob w1)))"

definition EdgeInventory ::
  "('w, 'c, 'x) OperationBackedEdgeAdapter option \<Rightarrow> 'w Context option \<Rightarrow> string \<Rightarrow> 'w
     \<Rightarrow> (edge_error + EdgeInventoryResource list) \<times> 'w" where
  "EdgeInventory a ctx marker w =
     (case a of None \<Rightarrow> (Inl EdgeAdapterRequired, w)
      | Some a \<Rightarrow> (case ctx of None \<Rightarrow> (Inl EdgeContextRequired, w)
      | Some ctx \<Rightarrow>
          if blank marker \<or> has_control marker then (Inl EdgeMarkerInvalid, w)
          else case ctx_Err ctx w of Some e \<Rightarrow> (Inl (EdgeContext e), w)
          | None \<Rightarrow> (case eapi_Inventory (oea_api a) ctx marker w of
              (Inl e, w1) \<Rightarrow> (Inl (EdgeInventoryFailed e), w1)
            | (Inr rs, w1) \<Rightarrow> (case validateEdgeInventory rs marker of Some e \<Rightarrow> (Inl e, w1) | None \<Rightarrow> (Inr rs, w1)))))"

section \<open>The lifecycle gate\<close>

record ('w, 'c, 'x, 'e) EdgeAdapter =
  ad_EdgeDescriptor :: EdgeAdapterDescriptor
  ad_PlanEdge :: "'w Context \<Rightarrow> 'c EdgePlanRequest \<Rightarrow> 'w \<Rightarrow> ('e + 'x EdgePlan) \<times> 'w"
  ad_ExecuteEdge :: "'w Context \<Rightarrow> 'x EdgeExecutionRequest \<Rightarrow> 'w \<Rightarrow> ('e + EdgeExecutionResult) \<times> 'w"

datatype 'e lifecycle_error =
    LifecycleContext
  | LifecycleAdapter
  | LifecycleProblems "edge_problem list"
  | LifecyclePlan 'e
  | LifecycleRequest execution_error
  | LifecycleExecute 'e
  | LifecycleResult execution_error

text \<open>The plan and the result that are returned, the error, the requests executed, the world.\<close>

record ('w, 'x, 'e) lifecycle_run =
  lr_plan :: "'x EdgePlan option"
  lr_result :: "EdgeExecutionResult option"
  lr_error :: "'e lifecycle_error option"
  lr_executed :: "'x EdgeExecutionRequest list"
  lr_world :: 'w

definition RunEdgeLifecycle ::
  "url_parser \<Rightarrow> 'w Context option \<Rightarrow> ('w, 'c, 'x, 'e) EdgeAdapter option \<Rightarrow> 'c EdgePlanRequest \<Rightarrow> string \<Rightarrow> string
     \<Rightarrow> string list \<Rightarrow> string \<Rightarrow> 'w \<Rightarrow> ('w, 'x, 'e) lifecycle_run" where
  "RunEdgeLifecycle parse ctx adapter request action idempotencyKey resourceReferences approvalReference w =
     (let run = (\<lambda>plan result err executed w.
            \<lparr>lr_plan = plan, lr_result = result, lr_error = err, lr_executed = executed, lr_world = w\<rparr>);
          refuse = (\<lambda>e. run None None (Some e) [])
      in case ctx of None \<Rightarrow> refuse LifecycleContext w
      | Some ctx \<Rightarrow> (case adapter of None \<Rightarrow> refuse LifecycleAdapter w
      | Some ad \<Rightarrow>
          if ValidateEdgeAdapterDescriptor (ad_EdgeDescriptor ad) \<noteq> []
          then refuse (LifecycleProblems (ValidateEdgeAdapterDescriptor (ad_EdgeDescriptor ad))) w
          else if ValidateEdgePlanRequest parse request \<noteq> []
          then refuse (LifecycleProblems (ValidateEdgePlanRequest parse request)) w
          else case ad_PlanEdge ad ctx request w of
            (Inl e, w1) \<Rightarrow> refuse (LifecyclePlan e) w1
          | (Inr plan, w1) \<Rightarrow>
              if ValidateEdgePlan plan request \<noteq> [] then refuse (LifecycleProblems (ValidateEdgePlan plan request)) w1
              else let q = \<lparr>ex_Plan = plan, ex_Action = action, ex_IdempotencyKey = idempotencyKey,
                            ex_OwnershipMarker = ep_OwnershipMarker plan, ex_ApprovalReference = approvalReference,
                            ex_ResourceReferences = resourceReferences\<rparr>
                   in case ValidateEdgeExecutionRequest q of Some e \<Rightarrow> refuse (LifecycleRequest e) w1
                   | None \<Rightarrow> (case ad_ExecuteEdge ad ctx q w1 of
                       (Inl e, w2) \<Rightarrow> run (Some plan) None (Some (LifecycleExecute e)) [q] w2
                     | (Inr t, w2) \<Rightarrow> (case ValidateEdgeExecutionResult q t of
                         Some e \<Rightarrow> run (Some plan) None (Some (LifecycleResult e)) [q] w2
                       | None \<Rightarrow> run (Some plan) (Some t) None [q] w2))))"

text \<open>The operation-backed adapter as the gate sees it.\<close>

definition edge_adapter ::
  "url_parser \<Rightarrow> 'w runtime \<Rightarrow> ('w, 'c, 'x) OperationBackedEdgeAdapter \<Rightarrow> ('w, 'c, 'x, edge_error) EdgeAdapter" where
  "edge_adapter parse rt a =
     \<lparr>ad_EdgeDescriptor = oea_descriptor a, ad_PlanEdge = \<lambda>ctx r w. PlanEdge parse (Some a) (Some ctx) r w,
      ad_ExecuteEdge = \<lambda>ctx q w. (let x = ExecuteEdge rt (Some a) (Some ctx) q w in (xe_outcome x, xe_world x))\<rparr>"

end
