(* ===== verification/Edge_Safety.thy ===== *)
theory Edge_Safety
  imports Edge_Lifecycle
begin

text \<open>
  What the edge lifecycle guarantees: both waiting loops keep the bounded-wait contract, a destroy is
  reported only on an inventory without owned live resources, and no traffic-bearing action passes without
  proof that the origin is healthy.
\<close>

section \<open>The waits\<close>

definition edge_accepts ::
  "string \<Rightarrow> string + EdgeOperationObservation \<Rightarrow> 'w operation_result \<Rightarrow> bool" where
  "edge_accepts operationID x r \<longleftrightarrow>
     x = Inr (pr_value r) \<and> eob_OperationID (pr_value r) = operationID \<and> eob_Status (pr_value r) = EdgeOperationSucceeded"

definition cleanup_accepts ::
  "string \<Rightarrow> string + EdgeInventoryResource list \<Rightarrow> 'w cleanup_result \<Rightarrow> bool" where
  "cleanup_accepts marker x r \<longleftrightarrow>
     x = Inr (pr_value r) \<and> validateEdgeInventory (pr_value r) marker = None \<and> \<not> owned_live (pr_value r)"

lemma poll_return_simps [simp]:
  "pr_value (poll_return v e s) = v" "pr_error (poll_return v e s) = e"
  "pr_polled (poll_return v e s) = ps_polled s" "pr_world (poll_return v e s) = ps_world s"
  by (simp_all add: poll_return_def)

lemma poll_state_simps [simp]:
  "ps_polled (poll_start l w) = []" "ps_polled (poll_answer x w s) = ps_polled s @ [x]"
  by (simp_all add: poll_start_def poll_answer_def)

lemma edge_pause_polled:
  "edge_pause rt ctx policy what a v e v' s = Inr s' \<Longrightarrow> ps_polled s' = ps_polled s"
  "edge_pause rt ctx policy what a v e v' s = Inl r \<Longrightarrow> pr_polled r = ps_polled s"
  "edge_pause rt ctx policy what a v e v' s = Inl r \<Longrightarrow> pr_error r \<noteq> None"
  by (auto simp: edge_pause_def split: if_splits prod.splits option.splits)

lemmas edge_splits = if_splits option.splits prod.splits sum.splits

interpretation edge_operation: bounded_wait
  "edge_wait_attempt rt ctx api i policy" "edge_wait_after i" ps_polled pr_polled "\<lambda>r. pr_error r = None" "edge_accepts i"
  for rt ctx api i policy
proof unfold_locales
  fix a s s' assume "edge_wait_attempt rt ctx api i policy a s = Inr s'"
  then show "\<exists>x. ps_polled s' = ps_polled s @ [x]"
    by (auto simp: edge_wait_attempt_def Let_def dest!: edge_pause_polled(1) split: edge_splits)
next
  fix a s r assume "edge_wait_attempt rt ctx api i policy a s = Inl r"
  then show "pr_polled r = ps_polled s \<or> (\<exists>x. pr_polled r = ps_polled s @ [x])"
    by (auto simp: edge_wait_attempt_def Let_def dest!: edge_pause_polled(2) split: edge_splits)
next
  fix a s r assume "edge_wait_attempt rt ctx api i policy a s = Inl r" "pr_error r = None"
  then show "\<exists>x. pr_polled r = ps_polled s @ [x] \<and> edge_accepts i x r"
    by (auto simp: edge_wait_attempt_def edge_accepts_def Let_def dest: edge_pause_polled(3) split: edge_splits)
qed (simp_all add: edge_wait_after_def)

interpretation edge_cleanup: bounded_wait
  "edge_cleanup_attempt rt ctx api marker policy" "edge_cleanup_after marker" ps_polled pr_polled
  "\<lambda>r. pr_error r = None" "cleanup_accepts marker"
  for rt ctx api marker policy
proof unfold_locales
  fix a s s' assume "edge_cleanup_attempt rt ctx api marker policy a s = Inr s'"
  then show "\<exists>x. ps_polled s' = ps_polled s @ [x]"
    by (auto simp: edge_cleanup_attempt_def Let_def dest!: edge_pause_polled(1) split: edge_splits)
next
  fix a s r assume "edge_cleanup_attempt rt ctx api marker policy a s = Inl r"
  then show "pr_polled r = ps_polled s \<or> (\<exists>x. pr_polled r = ps_polled s @ [x])"
    by (auto simp: edge_cleanup_attempt_def Let_def dest!: edge_pause_polled(2) split: edge_splits)
next
  fix a s r assume "edge_cleanup_attempt rt ctx api marker policy a s = Inl r" "pr_error r = None"
  then show "\<exists>x. pr_polled r = ps_polled s @ [x] \<and> cleanup_accepts marker x r"
    by (auto simp: edge_cleanup_attempt_def cleanup_accepts_def Let_def dest: edge_pause_polled(3) split: edge_splits)
qed (simp_all add: edge_cleanup_after_def)

lemma WaitForEdgeCleanup_bounded:
  "int (length (pr_polled (WaitForEdgeCleanup rt ctx api marker policy w))) \<le> max 0 (eop_MaxAttempts policy)"
  "pr_error (WaitForEdgeCleanup rt ctx api marker policy w) = None \<Longrightarrow>
     pr_polled (WaitForEdgeCleanup rt ctx api marker policy w) \<noteq> [] \<and>
     cleanup_accepts marker (last (pr_polled (WaitForEdgeCleanup rt ctx api marker policy w)))
       (WaitForEdgeCleanup rt ctx api marker policy w)"
proof -
  let ?r = "WaitForEdgeCleanup rt ctx api marker policy w"
  have "int (length (pr_polled ?r)) \<le> max 0 (eop_MaxAttempts policy) \<and>
      (pr_error ?r = None \<longrightarrow> pr_polled ?r \<noteq> [] \<and> cleanup_accepts marker (last (pr_polled ?r)) ?r)"
  proof (cases "ctx = None \<or> api = None \<or> blank marker \<or> has_control marker \<or> \<not> validateEdgeOperationPolicy policy")
    case True
    then show ?thesis by (auto simp: WaitForEdgeCleanup_def Let_def split: option.splits)
  next
    case False
    then obtain c d where cd: "ctx = Some c" "api = Some d" by auto
    from False have pos: "0 \<le> eop_MaxAttempts policy" by (simp add: validateEdgeOperationPolicy_def)
    let ?c = "WithTimeout rt c (eop_Timeout policy) w"
    have r: "?r = attempt_loop (edge_cleanup_attempt rt ?c d marker policy) (edge_cleanup_after marker) 1
        (nat (eop_MaxAttempts policy)) (poll_start [] w)"
      using False cd by (simp add: WaitForEdgeCleanup_def)
    note poll_state_simps(1)[of "[]" w]
    from edge_cleanup.polls_bounded[OF this pos, of rt ?c d marker policy] pos
    have bound: "int (length (pr_polled ?r)) \<le> max 0 (eop_MaxAttempts policy)" unfolding r by linarith
    have "pr_polled ?r \<noteq> [] \<and> cleanup_accepts marker (last (pr_polled ?r)) ?r" if "pr_error ?r = None"
      using edge_cleanup.success_rests_on_last_answer[OF that[unfolded r] pos] unfolding r by metis
    with bound show ?thesis by blast
  qed
  then show "int (length (pr_polled ?r)) \<le> max 0 (eop_MaxAttempts policy)"
    "pr_error ?r = None \<Longrightarrow> pr_polled ?r \<noteq> [] \<and> cleanup_accepts marker (last (pr_polled ?r)) ?r" by blast+
qed

section \<open>Executions\<close>

lemma check_inventory_None:
  assumes "check_inventory marker seen rs = None"
  shows "distinct (map eir_Identity rs) \<and> eir_Identity ` set rs \<inter> set seen = {} \<and>
         (\<forall>r \<in> set rs. single_line (eir_Identity r) \<and> (eir_Owned r \<longleftrightarrow> eir_OwnershipMarker r = marker))"
  using assms
proof (induction marker seen rs rule: check_inventory.induct)
  case (2 marker seen r rs)
  from 2(2) have line: "single_line (eir_Identity r)" and new: "eir_Identity r \<notin> set seen"
    and own: "eir_Owned r \<longleftrightarrow> eir_OwnershipMarker r = marker"
    and rest: "check_inventory marker (eir_Identity r # seen) rs = None"
    by (simp_all split: if_splits) blast
  have "check_inventory marker (eir_Identity r # seen) rs = None \<Longrightarrow>
      distinct (map eir_Identity rs) \<and> eir_Identity ` set rs \<inter> set (eir_Identity r # seen) = {} \<and>
      (\<forall>r \<in> set rs. single_line (eir_Identity r) \<and> (eir_Owned r \<longleftrightarrow> eir_OwnershipMarker r = marker))"
    by (rule 2(1)) (use line new own in simp_all)
  with rest have ih: "distinct (map eir_Identity rs)" "eir_Identity ` set rs \<inter> set (eir_Identity r # seen) = {}"
    "\<forall>r \<in> set rs. single_line (eir_Identity r) \<and> (eir_Owned r \<longleftrightarrow> eir_OwnershipMarker r = marker)"
    by blast+
  from line own ih(3) have "\<forall>r' \<in> set (r # rs).
      single_line (eir_Identity r') \<and> (eir_Owned r' \<longleftrightarrow> eir_OwnershipMarker r' = marker)"
    by (simp only: list.set ball_simps simp_thms)
  moreover from ih(1,2) new have "distinct (map eir_Identity (r # rs))"
    "eir_Identity ` set (r # rs) \<inter> set seen = {}" by auto
  ultimately show ?case by blast
qed simp

lemma accept_edge_Inr:
  assumes "accept_edge r ob = Inr t"
  shows "ValidateEdgeExecutionResult r t = None"
  using assms by (auto simp: accept_edge_def Let_def split: option.splits if_splits)

lemma finish_edge_outcome:
  assumes "xe_outcome (finish_edge rt a ctx r q ob w) = Inr t"
  shows "ValidateEdgeExecutionResult r t = None" and "xe_started (finish_edge rt a ctx r q ob w) = [q]"
    and "ex_Action r = EdgeDestroy \<Longrightarrow>
      \<exists>rs. xe_inventories (finish_edge rt a ctx r q ob w) \<noteq> [] \<and>
           last (xe_inventories (finish_edge rt a ctx r q ob w)) = Inr rs \<and>
           validateEdgeInventory rs (ex_OwnershipMarker r) = None \<and> \<not> owned_live rs \<and>
           int (length (xe_inventories (finish_edge rt a ctx r q ob w))) \<le> max 0 (eop_MaxAttempts (oea_policy a))"
proof -
  let ?c = "WaitForEdgeCleanup rt (Some ctx) (Some (oea_api a)) (ex_OwnershipMarker r) (oea_policy a) w"
  from assms have acc: "accept_edge r ob = Inr t" by (auto simp: finish_edge_def Let_def split: sum.splits if_splits option.splits)
  then show "ValidateEdgeExecutionResult r t = None" by (rule accept_edge_Inr)
  show "xe_started (finish_edge rt a ctx r q ob w) = [q]" using acc by (simp add: finish_edge_def Let_def)
  assume d: "ex_Action r = EdgeDestroy"
  with assms acc have "pr_error ?c = None" by (auto simp: finish_edge_def Let_def split: option.splits)
  from WaitForEdgeCleanup_bounded(2)[OF this]
    WaitForEdgeCleanup_bounded(1)[of rt "Some ctx" "Some (oea_api a)" "ex_OwnershipMarker r" "oea_policy a" w] acc d
  show "\<exists>rs. xe_inventories (finish_edge rt a ctx r q ob w) \<noteq> [] \<and>
           last (xe_inventories (finish_edge rt a ctx r q ob w)) = Inr rs \<and>
           validateEdgeInventory rs (ex_OwnershipMarker r) = None \<and> \<not> owned_live rs \<and>
           int (length (xe_inventories (finish_edge rt a ctx r q ob w))) \<le> max 0 (eop_MaxAttempts (oea_policy a))"
    by (auto simp: finish_edge_def Let_def cleanup_accepts_def)
qed

lemma ExecuteEdge_cases:
  assumes "xe_outcome (ExecuteEdge rt (Some a) ctx r w) = Inr t"
  obtains c ob w1 where "ctx = Some c" "ValidateEdgeExecutionRequest r = None"
    "ex_Action r \<in> set (ed_Capabilities (oea_descriptor a))"
    "ExecuteEdge rt (Some a) ctx r w = finish_edge rt a c r
       \<lparr>eor_Provider = ed_Provider (oea_descriptor a), eor_Action = ex_Action r, eor_Request = r\<rparr> ob w1"
  using assms
  by (auto simp: ExecuteEdge_def Let_def split: option.splits if_splits prod.splits sum.splits)

section \<open>An example\<close>

text \<open>A provider whose operation runs for one poll and whose resource is gone at the second inventory.\<close>

definition cdn_observation :: "string \<Rightarrow> EdgeOperationObservation" where
  "cdn_observation status =
     \<lparr>eob_Status = status, eob_Action = [], eob_OperationID = ''op-1'', eob_ResourceRefs = [''cdn-1''],
      eob_ProofRefs = [''aws.cloudfront.Origin-Health''], eob_Outputs = [], eob_OwnershipMarker = ''shop'',
      eob_OwnershipVerified = True, eob_IdempotencyVerified = True, eob_Detail = []\<rparr>"

definition cdn_plan :: "unit EdgePlan" where
  "cdn_plan =
     \<lparr>ep_AdapterID = ''aws.cdn'', ep_TargetProvider = ''aws'', ep_TargetRuntime = ''ecs'', ep_OwnershipMarker = ''shop'',
      ep_Outputs = [], ep_Opaque = ()\<rparr>"

definition cdn_api :: "(nat, unit, unit) EdgeOperationAPI" where
  "cdn_api =
     \<lparr>eapi_Plan = \<lambda>_ _ n. (Inr cdn_plan, n + 1),
      eapi_Start = \<lambda>_ _ n. (Inr (cdn_observation ''pending''), n + 1),
      eapi_Poll = \<lambda>_ _ n. (Inr (cdn_observation (if n < 3 then ''running'' else ''succeeded'')), n + 1),
      eapi_Inventory = \<lambda>_ marker n. (Inr [\<lparr>eir_Identity = ''cdn-1'', eir_OwnershipMarker = marker, eir_Owned = True,
        eir_Live = (n < 5)\<rparr>], n + 1)\<rparr>"

definition cdn_adapter :: "(nat, unit, unit) OperationBackedEdgeAdapter" where
  "cdn_adapter =
     \<lparr>oea_descriptor = \<lparr>ed_APIVersion = ''v1'', ed_ID = ''aws.cdn'', ed_Provider = ''aws'', ed_Version = ''1.0'',
        ed_Capabilities = [EdgeApply, EdgeDestroy]\<rparr>,
      oea_api = cdn_api, oea_policy = DefaultEdgeOperationPolicy\<rparr>"

definition cdn_clock :: "nat runtime" where
  "cdn_clock = \<lparr>rt_now = int, rt_wait = \<lambda>_ n. n, rt_timer_wins = \<lambda>_. True\<rparr>"

definition cdn_request :: "string \<Rightarrow> unit EdgeExecutionRequest" where
  "cdn_request action =
     \<lparr>ex_Plan = cdn_plan, ex_Action = action, ex_IdempotencyKey = ''key-1'', ex_OwnershipMarker = ''shop'',
      ex_ApprovalReference = [], ex_ResourceReferences = []\<rparr>"

definition cdn_intent :: EdgeIntent where
  "cdn_intent =
     \<lparr>ei_ExternalProvider = [], ei_Lifecycle = [], ei_Certification = [], ei_Mode = ''native'', ei_NativeProvider = ''aws'',
      ei_CredentialRefs = [], ei_ServiceReference = [], ei_Domains = [''shop.example''], ei_TLS = False, ei_TLSMode = [],
      ei_DNSMode = [], ei_PurgeOnDeploy = False, ei_PolicyReference = [], ei_OriginHealthRef = ''health'',
      ei_CachePolicyRef = [], ei_PurgePolicyRef = [], ei_WAFPolicyRef = [], ei_FailoverPolicyRef = [],
      ei_OwnershipMarker = ''shop'',
      ei_Health = \<lparr>eh_OriginURL = [], eh_OriginHost = [], eh_ExpectedRouteTarget = [], eh_RoutePath = ''/health'',
        eh_ExpectedStatus = 200, eh_RouteTimeoutSeconds = 0, eh_RoutePollSeconds = 0\<rparr>\<rparr>"

definition cdn_plan_request :: "unit EdgePlanRequest" where
  "cdn_plan_request =
     \<lparr>eq_TargetProvider = ''aws'', eq_TargetRuntime = ''ecs'', eq_Intent = cdn_intent, eq_Configuration = ()\<rparr>"

definition cdn_run :: "(nat, unit, edge_error) lifecycle_run" where
  "cdn_run = RunEdgeLifecycle (\<lambda>_. None) (Some (\<lambda>_. None)) (Some (edge_adapter (\<lambda>_. None) cdn_clock cdn_adapter))
     cdn_plan_request EdgeApply ''key-1'' [] [] 0"

lemma cdn_destroyed: "\<not> isl (xe_outcome (ExecuteEdge cdn_clock (Some cdn_adapter) (Some (\<lambda>_. None)) (cdn_request EdgeDestroy) 0))"
  by code_simp

lemma cdn_applied: "lr_error cdn_run = None"
  by code_simp

section \<open>Properties\<close>

text \<open>
  C36. An edge destroy that reports success has proved the cleanup: it started the one operation the adapter
  declares, and the last inventory it read after that, of at most as many as its policy allows, is well
  formed, tells owned from foreign resources by the ownership marker, and holds no live resource under
  that marker. What the provider answered to the delete request alone is never enough.
\<close>

theorem edge_destroy_proves_cleanup:
  assumes "xe_outcome (ExecuteEdge rt (Some a) ctx r w) = Inr t" and "ex_Action r = EdgeDestroy"
  shows "\<exists>q rs. xe_started (ExecuteEdge rt (Some a) ctx r w) = [q] \<and> eor_Request q = r \<and>
           EdgeDestroy \<in> set (ed_Capabilities (oea_descriptor a)) \<and>
           xe_inventories (ExecuteEdge rt (Some a) ctx r w) \<noteq> [] \<and>
           last (xe_inventories (ExecuteEdge rt (Some a) ctx r w)) = Inr rs \<and>
           (\<forall>x \<in> set rs. eir_OwnershipMarker x = ex_OwnershipMarker r \<longrightarrow> eir_Owned x \<and> \<not> eir_Live x) \<and>
           (\<forall>x \<in> set rs. eir_Owned x \<longrightarrow> eir_OwnershipMarker x = ex_OwnershipMarker r) \<and>
           distinct (map eir_Identity rs) \<and>
           int (length (xe_inventories (ExecuteEdge rt (Some a) ctx r w))) \<le> max 0 (eop_MaxAttempts (oea_policy a))"
  using assms(1)
proof (cases rule: ExecuteEdge_cases)
  case (1 c ob w1)
  note fin = finish_edge_outcome[OF assms(1)[unfolded 1(4)]]
  from fin(3)[OF assms(2)] obtain rs where
    rs: "xe_inventories (ExecuteEdge rt (Some a) ctx r w) \<noteq> []"
      "last (xe_inventories (ExecuteEdge rt (Some a) ctx r w)) = Inr rs"
      "validateEdgeInventory rs (ex_OwnershipMarker r) = None" "\<not> owned_live rs"
      "int (length (xe_inventories (ExecuteEdge rt (Some a) ctx r w))) \<le> max 0 (eop_MaxAttempts (oea_policy a))"
    unfolding 1(4) by blast
  from check_inventory_None[OF rs(3)[unfolded validateEdgeInventory_def]] rs(4)
  have "distinct (map eir_Identity rs)" "\<forall>x \<in> set rs. eir_Owned x \<longleftrightarrow> eir_OwnershipMarker x = ex_OwnershipMarker r"
    "\<forall>x \<in> set rs. eir_Owned x \<longrightarrow> \<not> eir_Live x"
    by (auto simp: owned_live_def list_ex_iff)
  with rs fin(2) 1(3) assms(2) show ?thesis unfolding 1(4)[symmetric]
    by (intro exI[of _ "\<lparr>eor_Provider = ed_Provider (oea_descriptor a), eor_Action = ex_Action r, eor_Request = r\<rparr>"]
        exI[of _ rs]) auto
qed

theorem edge_destroy_proves_cleanup_witness:
  "\<exists>rs. last (xe_inventories (ExecuteEdge cdn_clock (Some cdn_adapter) (Some (\<lambda>_. None)) (cdn_request EdgeDestroy) 0)) = Inr rs \<and>
     (\<forall>x \<in> set rs. eir_OwnershipMarker x = ''shop'' \<longrightarrow> eir_Owned x \<and> \<not> eir_Live x)"
proof -
  obtain t where t: "xe_outcome (ExecuteEdge cdn_clock (Some cdn_adapter) (Some (\<lambda>_. None)) (cdn_request EdgeDestroy) 0) = Inr t"
    using cdn_destroyed by (metis isl_def sum.exhaust)
  have act: "ex_Action (cdn_request EdgeDestroy) = EdgeDestroy" "ex_OwnershipMarker (cdn_request EdgeDestroy) = ''shop''"
    by (simp_all add: cdn_request_def)
  from edge_destroy_proves_cleanup[OF t act(1)] show ?thesis unfolding act(2) by blast
qed

text \<open>
  C37. Whatever adapter stands behind it, a lifecycle run that reports no error has executed exactly one
  request, of a plan for the requested target and under the plan's own ownership marker; the result has
  verified ownership and idempotency for that marker, and an action that bears traffic carries a proof whose
  last segment says that the origin is healthy. A run that is refused before that executes nothing.
\<close>

theorem edge_traffic_needs_origin_health:
  assumes x_def: "x = RunEdgeLifecycle parse ctx adapter request action key references approval w"
  shows "(lr_plan x = None \<longrightarrow> lr_executed x = [] \<and> lr_error x \<noteq> None) \<and>
         (lr_error x = None \<longrightarrow>
            (\<exists>plan t q. lr_plan x = Some plan \<and> lr_result x = Some t \<and> lr_executed x = [q] \<and>
               ex_Plan q = plan \<and> ex_Action q = action \<and> ex_OwnershipMarker q = ep_OwnershipMarker plan \<and>
               ep_TargetProvider plan = eq_TargetProvider request \<and> ep_TargetRuntime plan = eq_TargetRuntime request \<and>
               validEdgeAction action \<and> et_Action t = action \<and> et_OwnershipMarker t = ep_OwnershipMarker plan \<and>
               et_OwnershipVerified t \<and> et_IdempotencyVerified t \<and>
               (bears_traffic action \<longrightarrow> containsEdgeProof (et_ProofRefs t) EdgeProofOriginHealth)))"
proof (cases "ctx = None \<or> adapter = None \<or> ValidateEdgeAdapterDescriptor (ad_EdgeDescriptor (the adapter)) \<noteq> [] \<or>
    ValidateEdgePlanRequest parse request \<noteq> []")
  case True
  then show ?thesis by (auto simp: x_def RunEdgeLifecycle_def Let_def split: option.splits)
next
  case False
  then obtain c ad where cad: "ctx = Some c" "adapter = Some ad" by auto
  obtain p w1 where plan: "ad_PlanEdge ad c request w = (p, w1)" by (rule prod.exhaust) (rule that)
  show ?thesis
  proof (cases "\<exists>pl. p = Inr pl \<and> ValidateEdgePlan pl request = []")
    case refused: False
    with False cad plan show ?thesis by (cases p) (auto simp: x_def RunEdgeLifecycle_def Let_def)
  next
    case True
    then obtain pl where pl: "p = Inr pl" "ValidateEdgePlan pl request = []" by blast
    let ?q = "\<lparr>ex_Plan = pl, ex_Action = action, ex_IdempotencyKey = key, ex_OwnershipMarker = ep_OwnershipMarker pl,
        ex_ApprovalReference = approval, ex_ResourceReferences = references\<rparr>"
    obtain o' w2 where exec: "ad_ExecuteEdge ad c ?q w1 = (o', w2)" by (rule prod.exhaust) (rule that)
    from pl(2) have target: "ep_TargetProvider pl = eq_TargetProvider request" "ep_TargetRuntime pl = eq_TargetRuntime request"
      by (auto simp: ValidateEdgePlan_def split: if_splits)
    show ?thesis
    proof (cases "ValidateEdgeExecutionRequest ?q = None")
      case refused: False
      with False cad plan pl show ?thesis by (auto simp: x_def RunEdgeLifecycle_def Let_def)
    next
      case ok: True
      from valid_request(1)[OF ok] have act: "validEdgeAction action" by simp
      show ?thesis
      proof (cases "\<exists>t. o' = Inr t \<and> ValidateEdgeExecutionResult ?q t = None")
        case refused: False
        with False cad plan pl ok exec show ?thesis
          by (cases o') (auto simp: x_def RunEdgeLifecycle_def Let_def split: option.splits)
      next
        case True
        then obtain t where t: "o' = Inr t" "ValidateEdgeExecutionResult ?q t = None" by blast
        from False cad plan pl ok exec t
        have x: "x = \<lparr>lr_plan = Some pl, lr_result = Some t, lr_error = None, lr_executed = [?q], lr_world = w2\<rparr>"
          by (simp add: x_def RunEdgeLifecycle_def Let_def)
        from valid_result[OF t(2)] target act show ?thesis unfolding x by simp
      qed
    qed
  qed
qed

theorem edge_traffic_needs_origin_health_witness:
  "\<exists>t. lr_result cdn_run = Some t \<and> containsEdgeProof (et_ProofRefs t) EdgeProofOriginHealth"
proof -
  have "bears_traffic EdgeApply" by (simp add: bears_traffic_def)
  with edge_traffic_needs_origin_health[OF cdn_run_def] cdn_applied show ?thesis by blast
qed

text \<open>
  A detail of the plan check: it reads the raw mode, not the mode the intent stands for. An intent with an
  empty mode and no provider stands for no edge at all, and its plan is refused without a marker all the same.
\<close>

lemma inactive_edge_needs_marker:
  assumes "ei_Mode (eq_Intent r) = []" and "\<not> activeProvider (ei_ExternalProvider (eq_Intent r))"
    and "ep_OwnershipMarker plan = []"
  shows "edge_mode (eq_Intent r) = ''none'' \<and> EdgePlanMarkerRequired \<in> set (ValidateEdgePlan plan r)"
  using assms by (simp add: edge_mode_def ValidateEdgePlan_def TrimSpace_def)

end
