(* ===== verification/Go_Files.thy ===== *)
theory Go_Files
  imports Go_Context
begin

text \<open>
  File operations of \<^verbatim>\<open>os\<close>. A world that has files counts the file operations made so far; components extend
  \<open>io_world\<close> by the files they keep. Which operations fail is a parameter: the n-th one fails when \<open>fault n\<close>
  gives an error, so that a theorem about every \<open>fault\<close> covers every combination of failures.
\<close>

record io_world =
  io_count :: nat

datatype io_error = IO string string

type_synonym faults = "nat \<Rightarrow> string option"

definition io :: "faults \<Rightarrow> string \<Rightarrow> 'z io_world_scheme \<Rightarrow> io_error option \<times> 'z io_world_scheme" where
  "io fault what w = (map_option (IO what) (fault (io_count w)), w\<lparr>io_count := Suc (io_count w)\<rparr>)"

fun io_steps :: "faults \<Rightarrow> string list \<Rightarrow> 'z io_world_scheme \<Rightarrow> io_error option \<times> 'z io_world_scheme" where
  "io_steps fault [] w = (None, w)"
| "io_steps fault (what # steps) w =
     (case io fault what w of (Some e, w1) \<Rightarrow> (Some e, w1) | (None, w1) \<Rightarrow> io_steps fault steps w1)"

text \<open>A file operation by itself only moves the count on.\<close>

lemma io_world_only: "io fault what w = (e, w') \<Longrightarrow> w' = w\<lparr>io_count := Suc (io_count w)\<rparr>"
  by (auto simp: io_def)

lemma io_steps_world_only:
  assumes "io_steps fault steps w = (e, w')"
  shows "\<exists>n. w' = w\<lparr>io_count := n\<rparr>"
  using assms
proof (induction fault steps w rule: io_steps.induct)
  case (1 fault w)
  then show ?case by (auto intro: exI[of _ "io_count w"])
next
  case (2 fault what steps w)
  obtain e1 w1 where i: "io fault what w = (e1, w1)" by (rule prod.exhaust) (rule that)
  from io_world_only[OF i] have w1: "w1 = w\<lparr>io_count := Suc (io_count w)\<rparr>" .
  show ?case
  proof (cases e1)
    case None
    with 2(2) i have "io_steps fault steps w1 = (e, w')" by simp
    from 2(1)[OF i[symmetric] None this] w1 show ?thesis by auto
  next
    case (Some x)
    with 2(2) i w1 show ?thesis by auto
  qed
qed

end
