(* ===== verification/Release_Journal.thy ===== *)
theory Release_Journal
  imports Go_Files Go_Time_Format
begin

text \<open>
  \<^verbatim>\<open>internal/releasejournal\<close>: the journal of releases of an environment, one JSON line per entry, and what a
  rollback reads from it. The world holds the journal file, its lock file and the rest \<open>'o\<close> of the machine.
  A line of the file is what the scanner and the JSON decoder make of it; a line the program writes reads
  back as the entry it wrote, with the bytes that are not UTF-8 replaced, unless it is longer than the
  scanner's buffer. Which file operations fail is a parameter.
\<close>

section \<open>Entries\<close>

record Entry =
  je_Sequence :: int
  je_RecordedAt :: int
  je_Action :: string
  je_Environment :: string
  je_DigestReference :: string
  je_SourceEnvironment :: string
  je_SourceSequence :: int
  je_SignatureIdentity :: string
  je_SignatureIssuer :: string
  je_ForwardOnly :: bool
  je_DatabaseMigrationsReversed :: bool
  je_SchemaEpoch :: int

abbreviation ActionPromote :: string where "ActionPromote \<equiv> ''promote''"
abbreviation ActionRollback :: string where "ActionRollback \<equiv> ''rollback''"
abbreviation ActionDeploy :: string where "ActionDeploy \<equiv> ''deploy''"

text \<open>\<^verbatim>\<open>^[a-z][a-z0-9.-]*$\<close>\<close>

definition environmentPattern :: rx where
  "environmentPattern = RSeq (RSet chr_lower) (RStar (RSet (\<lambda>c. chr_lower_digit c \<or> c \<in> set ''.-'')))"

lemmas [go_defs] = environmentPattern_def

section \<open>Schema epochs and signatures\<close>

datatype schema_error = ErrSchemaUnavailable | ErrSchemaMismatch int int

definition RefuseIncompatibleRollback :: "int \<Rightarrow> int \<Rightarrow> schema_error option" where
  "RefuseIncompatibleRollback liveEpoch targetEpoch = first_failure
     [(liveEpoch < 1 \<or> targetEpoch < 1, ErrSchemaUnavailable),
      (targetEpoch < liveEpoch, ErrSchemaMismatch liveEpoch targetEpoch)]"

text \<open>The loops run from the newest entry back.\<close>

definition SignatureMetadataForDigest :: "Entry list \<Rightarrow> string \<Rightarrow> string \<times> string" where
  "SignatureMetadataForDigest entries digest =
     (case find (\<lambda>e. je_DigestReference e = digest \<and> je_SignatureIdentity e \<noteq> [] \<and> je_SignatureIssuer e \<noteq> []) (rev entries) of
        Some e \<Rightarrow> (je_SignatureIdentity e, je_SignatureIssuer e)
      | None \<Rightarrow> ([], []))"

definition SchemaEpochForDigest :: "Entry list \<Rightarrow> string \<Rightarrow> int" where
  "SchemaEpochForDigest entries digest =
     (case find (\<lambda>e. je_DigestReference e = digest \<and> je_SchemaEpoch e \<ge> 1) (rev entries) of
        Some e \<Rightarrow> je_SchemaEpoch e
      | None \<Rightarrow> 0)"

section \<open>The file\<close>

datatype journal_line = Decoded Entry | Undecodable | TrailingData | TooLong

datatype journal_file = NoFile | NotRegular | Lines "journal_line list"

text \<open>
  The encoder leaves the HTML characters as they are (\<^verbatim>\<open>SetEscapeHTML(false)\<close>) and writes the fields in order,
  leaving out the empty optional ones.
\<close>

definition plain_ascii :: "char \<Rightarrow> string" where
  "plain_ascii c = (if c = CHR ''<'' \<or> c = CHR ''>'' \<or> c = CHR ''&'' then [c] else json_ascii c)"

function plain_escape :: "string \<Rightarrow> string" where
  "plain_escape [] = []"
| "plain_escape (c # s) =
     (if c < CHR 0x80 then plain_ascii c @ plain_escape s
      else if utf8_len (c # s) = 0 then backslash # ''ufffd'' @ plain_escape s
      else if take 3 (c # s) = [CHR 0xE2, CHR 0x80, CHR 0xA8] then backslash # ''u2028'' @ plain_escape (drop 2 s)
      else if take 3 (c # s) = [CHR 0xE2, CHR 0x80, CHR 0xA9] then backslash # ''u2029'' @ plain_escape (drop 2 s)
      else take (utf8_len (c # s)) (c # s) @ plain_escape (drop (utf8_len (c # s) - 1) s))"
  by pat_completeness auto
termination by (relation "measure length") auto

definition plain_quote :: "string \<Rightarrow> string" where
  "plain_quote s = CHR 0x22 # plain_escape s @ [CHR 0x22]"

definition entry_text :: "Entry \<Rightarrow> string" where
  "entry_text e =
     (let field = (\<lambda>k v. CHR 0x22 # k @ [CHR 0x22, CHR '':''] @ v); flag = (\<lambda>b. if b then ''true'' else ''false'') in
      ''{'' @ separated (concat
        [[field ''sequence'' (json_int (je_Sequence e))], [field ''recordedAt'' (plain_quote (format_nano (je_RecordedAt e)))],
         [field ''action'' (plain_quote (je_Action e))], [field ''environment'' (plain_quote (je_Environment e))],
         [field ''digestReference'' (plain_quote (je_DigestReference e))],
         if je_SourceEnvironment e = [] then [] else [field ''sourceEnvironment'' (plain_quote (je_SourceEnvironment e))],
         if je_SourceSequence e = 0 then [] else [field ''sourceSequence'' (json_int (je_SourceSequence e))],
         [field ''signatureIdentity'' (plain_quote (je_SignatureIdentity e))],
         [field ''signatureIssuer'' (plain_quote (je_SignatureIssuer e))],
         [field ''forwardOnly'' (flag (je_ForwardOnly e))],
         [field ''databaseMigrationsReversed'' (flag (je_DatabaseMigrationsReversed e))],
         if je_SchemaEpoch e = 0 then [] else [field ''schemaEpoch'' (json_int (je_SchemaEpoch e))]]) @ ''}'')"

definition decoded_entry :: "Entry \<Rightarrow> Entry" where
  "decoded_entry e = e
     \<lparr>je_Action := valid_utf8 (je_Action e), je_Environment := valid_utf8 (je_Environment e),
      je_DigestReference := valid_utf8 (je_DigestReference e), je_SourceEnvironment := valid_utf8 (je_SourceEnvironment e),
      je_SignatureIdentity := valid_utf8 (je_SignatureIdentity e), je_SignatureIssuer := valid_utf8 (je_SignatureIssuer e)\<rparr>"

text \<open>The scanner's buffer has \<^verbatim>\<open>1<<20\<close> bytes, which hold a line with its line feed.\<close>

definition line_of :: "Entry \<Rightarrow> journal_line" where
  "line_of e = (if int (length (entry_text e)) < 1048576 then Decoded (decoded_entry e) else TooLong)"

record 'o journal_world = io_world +
  jw_file :: journal_file
  jw_lock :: bool
  jw_rest :: 'o

datatype journal_error =
    EnvironmentInvalid
  | JournalContext ctx_error
  | JournalIO io_error
  | JournalNotRegular
  | JournalDecode
  | JournalTrailing
  | JournalEntryInvalid
  | JournalRead

definition entry_invalid :: "nat \<Rightarrow> Entry \<Rightarrow> bool" where
  "entry_invalid n e \<longleftrightarrow> je_Sequence e \<noteq> int n + 1 \<or> je_Environment e = [] \<or> je_DigestReference e = []"

fun read_lines :: "Entry list \<Rightarrow> journal_line list \<Rightarrow> journal_error + Entry list" where
  "read_lines entries [] = Inr entries"
| "read_lines entries (line # lines) =
     (case line of
        Decoded e \<Rightarrow> if entry_invalid (length entries) e then Inl JournalEntryInvalid else read_lines (entries @ [e]) lines
      | Undecodable \<Rightarrow> Inl JournalDecode
      | TrailingData \<Rightarrow> Inl JournalTrailing
      | TooLong \<Rightarrow> Inl JournalRead)"

definition List_journal ::
  "faults \<Rightarrow> 'o journal_world Context \<Rightarrow> 'o journal_world \<Rightarrow> (journal_error + Entry list) \<times> 'o journal_world" where
  "List_journal fault ctx w =
     (case ctx_Err ctx w of Some e \<Rightarrow> (Inl (JournalContext e), w)
      | None \<Rightarrow> (case jw_file w of
          NoFile \<Rightarrow> (case io fault ''inspect'' w of (Some e, w1) \<Rightarrow> (Inl (JournalIO e), w1) | (None, w1) \<Rightarrow> (Inr [], w1))
        | NotRegular \<Rightarrow>
            (case io fault ''inspect'' w of (Some e, w1) \<Rightarrow> (Inl (JournalIO e), w1) | (None, w1) \<Rightarrow> (Inl JournalNotRegular, w1))
        | Lines lines \<Rightarrow>
            (case io_steps fault [''inspect'', ''open''] w of
               (Some e, w1) \<Rightarrow> (Inl (JournalIO e), w1)
             | (None, w1) \<Rightarrow> (case read_lines [] lines of
                 Inl e \<Rightarrow> (Inl e, w1)
               | Inr entries \<Rightarrow>
                   (case io fault ''read'' w1 of (Some e, w2) \<Rightarrow> (Inl (JournalIO e), w2) | (None, w2) \<Rightarrow> (Inr entries, w2))))))"

text \<open>
  \<^verbatim>\<open>writeAtomic\<close>: everything before the rename touches a temporary file, which is not the journal.
\<close>

definition write_steps :: "Entry list \<Rightarrow> string list" where
  "write_steps entries =
     [''create directory'', ''create'', ''chmod''] @ map (\<lambda>_. ''encode'') entries @ [''sync'', ''close'', ''replace'']"

definition writeAtomic :: "faults \<Rightarrow> Entry list \<Rightarrow> 'o journal_world \<Rightarrow> journal_error option \<times> 'o journal_world" where
  "writeAtomic fault entries w =
     (case io_steps fault (write_steps entries) w of
        (Some e, w1) \<Rightarrow> (Some (JournalIO e), w1)
      | (None, w1) \<Rightarrow> (None, w1\<lparr>jw_file := Lines (map line_of entries)\<rparr>))"

section \<open>The lock\<close>

text \<open>
  The lock is a file created exclusively. While it exists the loop waits 10 ms at a time; what other
  processes do meanwhile is in the runtime's \<open>rt_wait\<close>. A loop that never ends has no value.
\<close>

partial_function (option) acquire_loop ::
  "'o journal_world runtime \<Rightarrow> faults \<Rightarrow> 'o journal_world Context \<Rightarrow> 'o journal_world
     \<Rightarrow> (journal_error option \<times> 'o journal_world) option" where
  "acquire_loop rt fault ctx w =
     (case io fault ''acquire lock'' w of
        (Some e, w1) \<Rightarrow> Some (Some (JournalIO e), w1)
      | (None, w1) \<Rightarrow>
          if \<not> jw_lock w1 then Some (None, w1\<lparr>jw_lock := True\<rparr>)
          else (case timer_select rt ctx 10000000 w1 of
            (Some e, w2) \<Rightarrow> Some (Some (JournalContext e), w2)
          | (None, w2) \<Rightarrow> acquire_loop rt fault ctx w2))"

declare acquire_loop.simps [code]

definition acquireLock ::
  "'o journal_world runtime \<Rightarrow> faults \<Rightarrow> 'o journal_world Context \<Rightarrow> 'o journal_world
     \<Rightarrow> (journal_error option \<times> 'o journal_world) option" where
  "acquireLock rt fault ctx w =
     (case io fault ''create directory'' w of
        (Some e, w1) \<Rightarrow> Some (Some (JournalIO e), w1)
      | (None, w1) \<Rightarrow> acquire_loop rt fault ctx w1)"

text \<open>The error of removing the lock file is ignored.\<close>

definition releaseLock :: "faults \<Rightarrow> 'o journal_world \<Rightarrow> 'o journal_world" where
  "releaseLock fault w =
     (case io fault ''remove lock'' w of (Some _, w1) \<Rightarrow> w1 | (None, w1) \<Rightarrow> w1\<lparr>jw_lock := False\<rparr>)"

section \<open>Appending\<close>

definition append_locked ::
  "'o journal_world runtime \<Rightarrow> faults \<Rightarrow> 'o journal_world Context \<Rightarrow> Entry \<Rightarrow> 'o journal_world
     \<Rightarrow> (journal_error + Entry) \<times> 'o journal_world" where
  "append_locked rt fault ctx entry w =
     (case List_journal fault ctx w of
        (Inl e, w1) \<Rightarrow> (Inl e, w1)
      | (Inr entries, w1) \<Rightarrow>
          (let entry' = entry\<lparr>je_Sequence := int (length entries) + 1, je_RecordedAt := rt_now rt w1\<rparr> in
           case writeAtomic fault (entries @ [entry']) w1 of
             (Some e, w2) \<Rightarrow> (Inl e, w2)
           | (None, w2) \<Rightarrow> (Inr entry', w2)))"

definition Append_journal ::
  "'o journal_world runtime \<Rightarrow> faults \<Rightarrow> 'o journal_world Context \<Rightarrow> Entry \<Rightarrow> 'o journal_world
     \<Rightarrow> ((journal_error + Entry) \<times> 'o journal_world) option" where
  "Append_journal rt fault ctx entry w =
     (case acquireLock rt fault ctx w of
        None \<Rightarrow> None
      | Some (Some e, w1) \<Rightarrow> Some (Inl e, w1)
      | Some (None, w1) \<Rightarrow>
          (case append_locked rt fault ctx entry w1 of (res, w2) \<Rightarrow> Some (res, releaseLock fault w2)))"

section \<open>Reading and writing\<close>

definition well_formed :: "Entry list \<Rightarrow> bool" where
  "well_formed entries \<longleftrightarrow> (\<forall>i < length entries. \<not> entry_invalid i (entries ! i))"

lemma well_formed_snoc: "well_formed (es @ [e]) \<longleftrightarrow> well_formed es \<and> \<not> entry_invalid (length es) e"
  by (auto simp: well_formed_def nth_append less_Suc_eq)

lemma read_lines_Inr:
  assumes "well_formed entries"
  shows "read_lines entries lines = Inr es \<longleftrightarrow>
           (\<exists>new. lines = map Decoded new \<and> es = entries @ new \<and> well_formed es)"
  using assms
proof (induction entries lines rule: read_lines.induct)
  case (2 entries line lines)
  show ?case
  proof (cases line)
    case (Decoded e)
    show ?thesis
    proof (cases "entry_invalid (length entries) e")
      case True
      then have "\<not> well_formed (entries @ e # new)" for new
        by (auto simp: well_formed_def nth_append intro!: exI[of _ "length entries"])
      with True Decoded show ?thesis by (auto simp: map_eq_Cons_conv Cons_eq_map_conv)
    next
      case False
      with 2 Decoded show ?thesis by (auto simp: well_formed_snoc Cons_eq_map_conv)
    qed
  qed auto
qed auto

lemma read_back: "well_formed es \<Longrightarrow> read_lines [] (map Decoded es) = Inr es"
  using read_lines_Inr[of "[]" "map Decoded es" es] by (auto simp: well_formed_def)

lemma written_invalid: "line_of e = Decoded x \<Longrightarrow> entry_invalid i x = entry_invalid i e"
  by (auto simp: line_of_def entry_invalid_def decoded_entry_def split: if_splits)

text \<open>An entry that is invalid as it is written makes the whole file unreadable.\<close>

lemma read_written_invalid:
  assumes "\<not> well_formed es"
  shows "isl (read_lines [] (map line_of es))"
proof (cases "read_lines [] (map line_of es)")
  case (Inr new)
  with read_lines_Inr[of "[]" "map line_of es" new] have new: "map line_of es = map Decoded new" "well_formed new"
    by (auto simp: well_formed_def)
  then have "\<forall>i < length es. line_of (es ! i) = Decoded (new ! i) \<and> \<not> entry_invalid i (new ! i)"
    by (metis length_map nth_map well_formed_def)
  then have "\<forall>i < length es. \<not> entry_invalid i (es ! i)" using written_invalid by blast
  with assms show ?thesis by (simp add: well_formed_def)
qed simp

lemma io_steps_keeps:
  assumes "io_steps fault steps (w :: 'o journal_world) = (e, w')"
  shows "jw_file w' = jw_file w \<and> jw_lock w' = jw_lock w \<and> jw_rest w' = jw_rest w"
  using io_steps_world_only[OF assms] by auto

text \<open>The entries of a file, as a reader without faults sees them.\<close>

definition journal_entries :: "journal_file \<Rightarrow> journal_error + Entry list" where
  "journal_entries f = (case f of NoFile \<Rightarrow> Inr [] | NotRegular \<Rightarrow> Inl JournalNotRegular | Lines ls \<Rightarrow> read_lines [] ls)"

lemma List_journal_result:
  assumes "List_journal fault ctx w = (res, w')"
  shows "jw_file w' = jw_file w" and "jw_lock w' = jw_lock w" and "res = Inr es \<Longrightarrow> journal_entries (jw_file w) = Inr es"
proof -
  from assms have "jw_file w' = jw_file w \<and> jw_lock w' = jw_lock w \<and> (res = Inr es \<longrightarrow> journal_entries (jw_file w) = Inr es)"
    by (auto simp: List_journal_def io_def journal_entries_def split: option.splits journal_file.splits sum.splits)
  then show "jw_file w' = jw_file w" "jw_lock w' = jw_lock w" "res = Inr es \<Longrightarrow> journal_entries (jw_file w) = Inr es"
    by blast+
qed

lemma journal_entries_well_formed: "journal_entries f = Inr es \<Longrightarrow> well_formed es"
  using read_lines_Inr[of "[]" _ es] by (auto simp: journal_entries_def well_formed_def split: journal_file.splits)

end
