(* ===== verification/Release_Store.thy ===== *)
theory Release_Store
  imports Release_Journal
begin

text \<open>
  What the release journal guarantees under arbitrary failures of the file system and arbitrary other
  processes: an append adds exactly one entry with the next sequence number or changes nothing, what it
  added is read back, and taking the lock ends as soon as the lock is free or the context has ended.
\<close>

section \<open>Taking the lock\<close>

text \<open>What the n-th wait leaves behind, in a loop that neither fails nor finds the lock free.\<close>

fun after_waits :: "'o journal_world runtime \<Rightarrow> nat \<Rightarrow> 'o journal_world \<Rightarrow> 'o journal_world" where
  "after_waits rt 0 w = w"
| "after_waits rt (Suc n) w = after_waits rt n (rt_wait rt 10000000 (w\<lparr>io_count := Suc (io_count w)\<rparr>))"

lemma acquire_loop_returns:
  assumes "\<not> jw_lock (after_waits rt n w)"
  shows "\<exists>res. acquire_loop rt fault ctx w = Some res"
  using assms
proof (induction n arbitrary: w)
  case 0
  then show ?case by (subst acquire_loop.simps) (auto simp: io_def split: option.splits)
next
  case (Suc n)
  let ?w1 = "w\<lparr>io_count := Suc (io_count w)\<rparr>"
  obtain e w2 where t: "timer_select rt ctx 10000000 ?w1 = (e, w2)" by (rule prod.exhaust) (rule that)
  then have w2: "w2 = rt_wait rt 10000000 ?w1" by (auto simp: timer_select_def Let_def split: option.splits)
  with Suc.prems have "\<not> jw_lock (after_waits rt n w2)" by simp
  from Suc.IH[OF this] t show ?case
    by (subst acquire_loop.simps) (auto simp: io_def split: option.splits)
qed

lemma acquire_loop_locked:
  assumes "acquire_loop rt fault ctx w = Some res"
  shows "fst res = None \<longrightarrow> jw_lock (snd res)"
proof (rule acquire_loop.raw_induct[where P = "\<lambda>_ _ _ _ res. fst res = None \<longrightarrow> jw_lock (snd res)", OF _ assms])
  fix f :: "'a journal_world runtime \<Rightarrow> faults \<Rightarrow> 'a journal_world Context \<Rightarrow> 'a journal_world
      \<Rightarrow> (journal_error option \<times> 'a journal_world) option"
    and rt fault ctx w res
  assume 1: "\<And>rt fault ctx w res. f rt fault ctx w = Some res \<Longrightarrow> fst res = None \<longrightarrow> jw_lock (snd res)"
    "(case io fault ''acquire lock'' w of
        (None, w1) \<Rightarrow>
          if \<not> jw_lock w1 then Some (None, w1\<lparr>jw_lock := True\<rparr>)
          else (case timer_select rt ctx 10000000 w1 of
            (None, w2) \<Rightarrow> f rt fault ctx w2
          | (Some e, w2) \<Rightarrow> Some (Some (JournalContext e), w2))
      | (Some e, w1) \<Rightarrow> Some (Some (JournalIO e), w1)) = Some res"
  obtain e w1 where i: "io fault ''acquire lock'' w = (e, w1)" by (rule prod.exhaust) (rule that)
  obtain c w2 where t: "timer_select rt ctx 10000000 w1 = (c, w2)" by (rule prod.exhaust) (rule that)
  show "fst res = None \<longrightarrow> jw_lock (snd res)"
  proof (cases "e = None \<and> jw_lock w1 \<and> c = None")
    case True
    with 1(2) i t have "f rt fault ctx w2 = Some res" by simp
    with 1(1) show ?thesis by blast
  next
    case False
    from 1(2) False show ?thesis unfolding i by (cases e; cases c) (auto simp: t split: if_splits)
  qed
qed

lemma acquireLock_locked: "acquireLock rt fault ctx w = Some (None, w') \<Longrightarrow> jw_lock w'"
  using acquire_loop_locked[of rt fault ctx _ "(None, w')"]
  by (auto simp: acquireLock_def split: prod.splits option.splits)

section \<open>Appending\<close>

lemma append_locked_result:
  assumes "append_locked rt fault ctx entry w = (res, w')"
  shows "jw_lock w' = jw_lock w \<and>
    (case res of
       Inl e \<Rightarrow> jw_file w' = jw_file w
     | Inr e \<Rightarrow> \<exists>es. journal_entries (jw_file w) = Inr es \<and> jw_file w' = Lines (map line_of (es @ [e])) \<and>
         (\<exists>t. e = entry\<lparr>je_Sequence := int (length es) + 1, je_RecordedAt := t\<rparr>))"
proof -
  obtain r w1 where l: "List_journal fault ctx w = (r, w1)" by (rule prod.exhaust) (rule that)
  note keep = List_journal_result[OF l]
  show ?thesis
  proof (cases r)
    case (Inl e)
    with assms l keep(1,2) show ?thesis by (auto simp: append_locked_def)
  next
    case (Inr es)
    let ?e = "entry\<lparr>je_Sequence := int (length es) + 1, je_RecordedAt := rt_now rt w1\<rparr>"
    obtain x w2 where s: "io_steps fault (write_steps (es @ [?e])) w1 = (x, w2)" by (rule prod.exhaust) (rule that)
    from io_steps_keeps[OF s] keep(1,2) have w2: "jw_file w2 = jw_file w" "jw_lock w2 = jw_lock w" by simp_all
    from keep(3)[OF Inr] assms l Inr s w2 show ?thesis
      by (cases x) (auto simp: append_locked_def writeAtomic_def Let_def)
  qed
qed

lemma releaseLock_file [simp]: "jw_file (releaseLock fault w) = jw_file w"
  by (auto simp: releaseLock_def io_def split: option.splits)

lemma releaseLock_free: "fault (io_count w) = None \<Longrightarrow> \<not> jw_lock (releaseLock fault w)"
  by (simp add: releaseLock_def io_def)

lemma List_journal_reads:
  assumes "\<forall>n. fault n = None" and "ctx_Err ctx w = None" and "journal_entries (jw_file w) = Inr es"
  shows "fst (List_journal fault ctx w) = Inr es"
  using assms by (auto simp: List_journal_def journal_entries_def io_def split: journal_file.splits)

text \<open>When no file operation fails, a readable journal can be appended to.\<close>

lemma io_steps_succeeds: "\<forall>n. fault n = None \<Longrightarrow> fst (io_steps fault steps w) = None"
  by (induction fault steps w rule: io_steps.induct) (simp_all add: io_def)

lemma Append_journal_succeeds:
  assumes "acquireLock rt fault ctx w = Some (None, w0)" and "journal_entries (jw_file w0) = Inr es"
    and "\<forall>n. fault n = None" and "ctx_Err ctx w0 = None"
  shows "\<exists>w'. Append_journal rt fault ctx entry w =
           Some (Inr (entry\<lparr>je_Sequence := int (length es) + 1, je_RecordedAt := rt_now rt (snd (List_journal fault ctx w0))\<rparr>), w')"
proof -
  obtain w1 where l: "List_journal fault ctx w0 = (Inr es, w1)"
    using List_journal_reads[OF assms(3,4,2)] by (metis prod.collapse)
  let ?e = "entry\<lparr>je_Sequence := int (length es) + 1, je_RecordedAt := rt_now rt w1\<rparr>"
  obtain w2 where "io_steps fault (write_steps (es @ [?e])) w1 = (None, w2)"
    using io_steps_succeeds[OF assms(3)] by (metis prod.collapse)
  with l have "append_locked rt fault ctx entry w0 = (Inr ?e, w2\<lparr>jw_file := Lines (map line_of (es @ [?e]))\<rparr>)"
    by (simp add: append_locked_def writeAtomic_def Let_def)
  with assms(1) l show ?thesis by (simp add: Append_journal_def)
qed

section \<open>An example\<close>

definition rel_entry :: "string \<Rightarrow> string \<Rightarrow> int \<Rightarrow> Entry" where
  "rel_entry action digest epoch =
     \<lparr>je_Sequence = 0, je_RecordedAt = 0, je_Action = action, je_Environment = ''production'', je_DigestReference = digest,
      je_SourceEnvironment = [], je_SourceSequence = 0, je_SignatureIdentity = ''ci@shop'', je_SignatureIssuer = ''https://issuer'',
      je_ForwardOnly = True, je_DatabaseMigrationsReversed = False, je_SchemaEpoch = epoch\<rparr>"

definition rel_world :: "unit journal_world" where
  "rel_world = \<lparr>io_count = 0, jw_file = Lines [Decoded ((rel_entry ActionPromote ''registry.io/shop@sha256:0'' 1)\<lparr>je_Sequence := 1\<rparr>)],
     jw_lock = True, jw_rest = ()\<rparr>"

text \<open>Another process holds the lock at first and frees it during the first wait.\<close>

definition rel_rt :: "unit journal_world runtime" where
  "rel_rt = \<lparr>rt_now = \<lambda>w. int (io_count w), rt_wait = \<lambda>_ w. w\<lparr>jw_lock := False\<rparr>, rt_timer_wins = \<lambda>_. True\<rparr>"

definition rel_appended :: "((journal_error + Entry) \<times> unit journal_world) option" where
  "rel_appended = Append_journal rel_rt (\<lambda>_. None) (\<lambda>_. None) (rel_entry ActionDeploy ''registry.io/shop@sha256:1'' 2) rel_world"

lemma rel_locked:
  "acquireLock rel_rt (\<lambda>_. None) (\<lambda>_. None) rel_world = Some (None, rel_world\<lparr>io_count := 3\<rparr>)"
  "journal_entries (jw_file (rel_world\<lparr>io_count := 3\<rparr>)) = Inr [(rel_entry ActionPromote ''registry.io/shop@sha256:0'' 1)\<lparr>je_Sequence := 1\<rparr>]"
  "rt_now rel_rt (snd (List_journal (\<lambda>_. None) (\<lambda>_. None) (rel_world\<lparr>io_count := 3\<rparr>))) = 6"
  by code_simp+

lemma rel_append:
  "\<exists>w. Append_journal rel_rt (\<lambda>_. None) (\<lambda>_. None) entry rel_world = Some (Inr (entry\<lparr>je_Sequence := 2, je_RecordedAt := 6\<rparr>), w)"
  using Append_journal_succeeds[OF rel_locked(1,2), of entry] by (simp add: rel_locked(3) ctx_Err_def)

definition rel_new :: Entry where
  "rel_new = (rel_entry ActionDeploy ''registry.io/shop@sha256:1'' 2)\<lparr>je_Sequence := 2, je_RecordedAt := 6\<rparr>"

lemma rel_appended_some: "\<exists>w. rel_appended = Some (Inr rel_new, w)"
  unfolding rel_appended_def rel_new_def by (rule rel_append)

lemma rel_fits:
  "line_of rel_new = Decoded rel_new"
  "line_of ((rel_entry ActionPromote ''registry.io/shop@sha256:0'' 1)\<lparr>je_Sequence := 1\<rparr>) =
     Decoded ((rel_entry ActionPromote ''registry.io/shop@sha256:0'' 1)\<lparr>je_Sequence := 1\<rparr>)"
  by code_simp+

section \<open>Properties\<close>

text \<open>
  C34. Whatever file operations fail and whatever other processes do while it waits for the lock, an append
  that returns has taken the lock or not touched the journal; it has either left the journal as it was when
  it took the lock, and then it reports an error, or replaced it as a whole by the entries it held and one
  more, the given one under the next sequence number.
\<close>

theorem journal_append_all_or_nothing:
  assumes "Append_journal rt fault ctx entry w = Some (res, w')"
  shows "\<exists>w0 err. acquireLock rt fault ctx w = Some (err, w0) \<and>
    (case res of
       Inl e \<Rightarrow> jw_file w' = jw_file w0
     | Inr e \<Rightarrow> err = None \<and> jw_lock w0 \<and>
         (\<exists>es. journal_entries (jw_file w0) = Inr es \<and> jw_file w' = Lines (map line_of (es @ [e])) \<and>
            je_Sequence e = int (length es) + 1 \<and> je_DigestReference e = je_DigestReference entry \<and>
            je_Action e = je_Action entry \<and> je_SchemaEpoch e = je_SchemaEpoch entry))"
proof (cases "acquireLock rt fault ctx w")
  case None
  with assms show ?thesis by (simp add: Append_journal_def)
next
  case (Some p)
  then obtain err w0 where a: "acquireLock rt fault ctx w = Some (err, w0)" by (cases p) auto
  show ?thesis
  proof (cases err)
    case (Some e)
    with assms a show ?thesis by (auto simp: Append_journal_def)
  next
    case None
    obtain r w1 where l: "append_locked rt fault ctx entry w0 = (r, w1)" by (rule prod.exhaust) (rule that)
    from assms a None l have res: "res = r" "w' = releaseLock fault w1" by (auto simp: Append_journal_def)
    from append_locked_result[OF l] acquireLock_locked[of rt fault ctx w w0] a None show ?thesis unfolding res
      by (cases r) (auto intro!: exI[of _ w0])
  qed
qed

theorem journal_append_all_or_nothing_witness:
  "\<exists>w es. rel_appended = Some (Inr rel_new, w) \<and> jw_file w = Lines (map line_of (es @ [rel_new])) \<and>
     je_Sequence rel_new = int (length es) + 1"
proof -
  from rel_appended_some obtain w where r: "rel_appended = Some (Inr rel_new, w)" by blast
  from journal_append_all_or_nothing[OF r[unfolded rel_appended_def]] r show ?thesis by auto
qed

text \<open>
  C35. What was appended is read back: after an append that succeeded, of an entry with an environment and a
  digest, listing the journal gives the entries it held when the append took the lock and the new one last,
  provided every line fits the scanner's buffer and holds valid UTF-8, no other process changed the file
  since and the file can be read.
\<close>

theorem journal_lists_what_was_appended:
  assumes "Append_journal rt fault ctx entry w = Some (Inr e, w')"
    and "je_Environment entry \<noteq> []" and "je_DigestReference entry \<noteq> []"
    and "\<And>w0 es x. acquireLock rt fault ctx w = Some (None, w0) \<Longrightarrow> journal_entries (jw_file w0) = Inr es \<Longrightarrow>
           x \<in> set (es @ [e]) \<Longrightarrow> line_of x = Decoded x"
    and "jw_file w2 = jw_file w'" and "\<forall>n. fault' n = None" and "ctx_Err ctx' w2 = None"
  shows "\<exists>w0 es. acquireLock rt fault ctx w = Some (None, w0) \<and> journal_entries (jw_file w0) = Inr es \<and>
           fst (List_journal fault' ctx' w2) = Inr (es @ [e])"
proof -
  obtain err w0 where a: "acquireLock rt fault ctx w = Some (err, w0)"
    using assms(1) by (auto simp: Append_journal_def split: option.splits)
  with assms(1) have err: "err = None" by (auto simp: Append_journal_def split: option.splits)
  obtain r w1 where l: "append_locked rt fault ctx entry w0 = (r, w1)" by (rule prod.exhaust) (rule that)
  with assms(1) a err have "r = Inr e" "jw_file w' = jw_file w1" by (auto simp: Append_journal_def)
  with append_locked_result[OF l] obtain es t where es: "journal_entries (jw_file w0) = Inr es"
    "jw_file w' = Lines (map line_of (es @ [e]))"
    "e = entry\<lparr>je_Sequence := int (length es) + 1, je_RecordedAt := t\<rparr>" by auto
  from es(3) assms(2,3) journal_entries_well_formed[OF es(1)] have "well_formed (es @ [e])"
    by (simp add: well_formed_snoc entry_invalid_def)
  moreover have "map line_of (es @ [e]) = map Decoded (es @ [e])"
    using a err es(1) by (intro map_cong[OF refl] assms(4)) simp_all
  ultimately have "journal_entries (jw_file w2) = Inr (es @ [e])"
    using read_back[of "es @ [e]"] unfolding assms(5) es(2) by (simp only: journal_entries_def journal_file.case)
  from List_journal_reads[OF assms(6,7) this] a err es(1) show ?thesis by blast
qed

theorem journal_lists_what_was_appended_witness:
  "\<exists>w es. rel_appended = Some (Inr rel_new, w) \<and> fst (List_journal (\<lambda>_. None) (\<lambda>_. None) w) = Inr (es @ [rel_new])"
proof -
  from rel_appended_some obtain w where r: "rel_appended = Some (Inr rel_new, w)" by blast
  have "\<exists>w0 es. acquireLock rel_rt (\<lambda>_. None) (\<lambda>_. None) rel_world = Some (None, w0) \<and>
      journal_entries (jw_file w0) = Inr es \<and> fst (List_journal (\<lambda>_. None) (\<lambda>_. None) w) = Inr (es @ [rel_new])"
  proof (rule journal_lists_what_was_appended[OF r[unfolded rel_appended_def] _ _ _ refl])
    fix w0 es x
    assume "acquireLock rel_rt (\<lambda>_. None) (\<lambda>_. None) rel_world = Some (None, w0)" "journal_entries (jw_file w0) = Inr es"
      "x \<in> set (es @ [rel_new])"
    with rel_locked(1,2) rel_fits show "line_of x = Decoded x" by auto
  qed (simp_all add: rel_entry_def ctx_Err_def)
  with r show ?thesis by blast
qed

text \<open>
  Append does not check what List insists on: an entry without a digest is written without an error, and
  from then on, as long as the file stays as it is, every listing of the journal fails and every further
  append leaves it as it is.
\<close>

lemma unchecked_entry_blocks_journal:
  assumes "Append_journal rt fault ctx entry w = Some (Inr e, w')" and "je_DigestReference entry = []"
    and "jw_file w2 = jw_file w'"
  shows "isl (fst (List_journal fault' ctx' w2)) \<and> isl (fst (append_locked rt' fault' ctx' entry' w2))"
proof -
  obtain w0 where a: "acquireLock rt fault ctx w = Some (None, w0)"
    using assms(1) by (auto simp: Append_journal_def split: option.splits)
  obtain r w1 where l: "append_locked rt fault ctx entry w0 = (r, w1)" by (rule prod.exhaust) (rule that)
  with assms(1) a have "r = Inr e" "jw_file w' = jw_file w1" by (auto simp: Append_journal_def)
  with append_locked_result[OF l] assms(2) obtain es where es: "jw_file w' = Lines (map line_of (es @ [e]))"
    "je_DigestReference e = []" by auto
  then have "\<not> well_formed (es @ [e])" by (simp add: well_formed_snoc entry_invalid_def)
  from read_written_invalid[OF this] es(1) assms(3) have bad: "isl (journal_entries (jw_file w2))"
    by (simp add: journal_entries_def del: map_append)
  obtain x w3 where x: "List_journal fault' ctx' w2 = (x, w3)" by (rule prod.exhaust) (rule that)
  have "isl x"
  proof (cases x)
    case (Inr es')
    from List_journal_result(3)[OF x Inr] bad show ?thesis by simp
  qed simp
  with x show ?thesis by (cases x) (auto simp: append_locked_def)
qed

end
