(* ===== verification/Cosign_Client.thy ===== *)
theory Cosign_Client
  imports Edge_Intent Go_Context
begin

text \<open>
  \<^verbatim>\<open>internal/cosign\<close>: the references of images and the command lines that the client gives to the \<^verbatim>\<open>cosign\<close> program.
  The runner that executes a command line is a parameter, and so is the parser of URLs. An operation leaves
  the command lines it has run.
\<close>

section \<open>Image references\<close>

fun cut :: "char \<Rightarrow> string \<Rightarrow> (string \<times> string) option" where
  "cut sep [] = None"
| "cut sep (c # s) = (if c = sep then Some ([], s) else map_option (\<lambda>(a, b). (c # a, b)) (cut sep s))"

fun split_on :: "char \<Rightarrow> string \<Rightarrow> string list" where
  "split_on sep [] = [[]]"
| "split_on sep (c # s) =
     (if c = sep then [] # split_on sep s
      else case split_on sep s of [] \<Rightarrow> [[c]] | t # ts \<Rightarrow> (c # t) # ts)"

fun port_number :: "nat \<Rightarrow> string \<Rightarrow> nat" where
  "port_number n [] = n"
| "port_number n (c # s) = port_number (10 * n + (of_char c - 48)) s"

text \<open>\<^verbatim>\<open>^sha256:[a-f0-9]{64}$\<close>\<close>

definition cosign_digestPattern :: rx where
  "cosign_digestPattern = RSeq (rx_lit ''sha256:'') (rx_rep 64 (RSet chr_hex))"

text \<open>\<^verbatim>\<open>^(?:localhost|[a-z0-9](?:[a-z0-9.-]*[a-z0-9])?)(?::[1-9][0-9]{0,4})?$\<close>\<close>

definition registryPattern :: rx where
  "registryPattern = RSeq
     (RAlt (rx_lit ''localhost'')
        (RSeq (RSet chr_lower_digit)
           (rx_opt (RSeq (RStar (RSet (\<lambda>c. chr_lower_digit c \<or> c \<in> set ''.-''))) (RSet chr_lower_digit)))))
     (rx_opt (rx_seqs
        [rx_lit '':'', RSet (\<lambda>c. chr_digit c \<and> c \<noteq> CHR ''0''), rx_opt (RSet chr_digit), rx_opt (RSet chr_digit),
         rx_opt (RSet chr_digit), rx_opt (RSet chr_digit)]))"

text \<open>\<^verbatim>\<open>^[a-z0-9]+(?:(?:[._]|__|[-]+)[a-z0-9]+)*$\<close>\<close>

definition repositorySegmentPattern :: rx where
  "repositorySegmentPattern = RSeq (rx_plus (RSet chr_lower_digit))
     (RStar (RSeq
        (rx_alts [RSet (\<lambda>c. c = CHR ''.'' \<or> c = CHR ''_''), rx_lit ''__'', rx_plus (RSet (\<lambda>c. c = CHR ''-''))])
        (rx_plus (RSet chr_lower_digit))))"

lemmas [go_defs] = cosign_digestPattern_def registryPattern_def repositorySegmentPattern_def

text \<open>The pattern leaves a port of one to five digits, of which 16 bits hold those up to 65535.\<close>

definition validRegistry :: "string \<Rightarrow> bool" where
  "validRegistry registry \<longleftrightarrow> full_match registryPattern registry \<and>
     (case cut (CHR '':'') registry of
        None \<Rightarrow> True
      | Some (_, port) \<Rightarrow> port_number 0 port < 2 ^ 16 \<and> port_number 0 port \<noteq> 0)"

definition ValidateReference :: "string \<Rightarrow> bool" where
  "ValidateReference reference \<longleftrightarrow>
     (case cut (CHR ''@'') reference of
        None \<Rightarrow> False
      | Some (name, digest) \<Rightarrow>
          CHR ''@'' \<notin> set digest \<and> full_match cosign_digestPattern digest \<and>
          (case cut (CHR ''/'') name of
             None \<Rightarrow> False
           | Some (registry, repository) \<Rightarrow>
               (registry = ''localhost'' \<or> CHR ''.'' \<in> set registry \<or> CHR '':'' \<in> set registry) \<and>
               validRegistry registry \<and> repository \<noteq> [] \<and>
               list_all (full_match repositorySegmentPattern) (split_on (CHR ''/'') repository)))"

section \<open>The client\<close>

datatype cosign_error =
    ErrInvalidReference
  | ErrInvalidIdentity
  | ErrInvalidIssuer
  | ErrInvalidBlobPath
  | ErrRunnerRequired
  | ErrSignFailed
  | ErrVerifyFailed
  | CosignContext ctx_error

record 'w cosign_client =
  cc_runner :: "(string \<Rightarrow> string list \<Rightarrow> 'w \<Rightarrow> string option \<times> 'w) option"
  cc_Binary :: string

record VerifyOptions =
  vo_CertificateIdentity :: string
  vo_OIDCIssuer :: string
  vo_TrustedRoot :: string

definition binary :: "'w cosign_client option \<Rightarrow> string" where
  "binary c = (case c of Some cl \<Rightarrow> if blank (cc_Binary cl) then ''cosign'' else TrimSpace (cc_Binary cl) | None \<Rightarrow> ''cosign'')"

text \<open>\<^verbatim>\<open>unicode.IsControl\<close> somewhere in a text: the ASCII control characters and U+0080 to U+009F.\<close>

fun has_control_rune :: "string \<Rightarrow> bool" where
  "has_control_rune [] \<longleftrightarrow> False"
| "has_control_rune (c # s) \<longleftrightarrow>
     c < CHR 0x20 \<or> c = CHR 0x7F \<or> (c = CHR 0xC2 \<and> s \<noteq> [] \<and> CHR 0x80 \<le> hd s \<and> hd s \<le> CHR 0x9F) \<or> has_control_rune s"

definition validBlobPath :: "string \<Rightarrow> bool" where
  "validBlobPath path \<longleftrightarrow> path \<noteq> [] \<and> \<not> prefix ''-'' path \<and> \<not> has_control_rune path"

definition validateIssuer :: "url_parser \<Rightarrow> string \<Rightarrow> bool" where
  "validateIssuer parse rawURL \<longleftrightarrow>
     (case parse rawURL of
        None \<Rightarrow> False
      | Some u \<Rightarrow> u_Scheme u = ''https'' \<and> u_Host u \<noteq> [] \<and> \<not> u_User u \<and> u_RawQuery u = [] \<and> u_Fragment u = [])"

definition validIdentity :: "string \<Rightarrow> bool" where
  "validIdentity identity \<longleftrightarrow> identity \<noteq> [] \<and> \<not> has_control_rune identity"

type_synonym 'w cosign_result = "cosign_error option \<times> (string \<times> string list) list \<times> 'w"

text \<open>
  What the three operations end with: the runner, the context, the command line, which may be refused, its
  execution, and the context again.
\<close>

definition run_cosign ::
  "'w cosign_client option \<Rightarrow> 'w Context \<Rightarrow> cosign_error + string list \<Rightarrow> cosign_error \<Rightarrow> 'w \<Rightarrow> 'w cosign_result" where
  "run_cosign c ctx arguments failure w =
     (case c of None \<Rightarrow> (Some ErrRunnerRequired, [], w)
      | Some cl \<Rightarrow> (case cc_runner cl of None \<Rightarrow> (Some ErrRunnerRequired, [], w)
      | Some run \<Rightarrow> (case ctx_Err ctx w of Some e \<Rightarrow> (Some (CosignContext e), [], w)
      | None \<Rightarrow> (case arguments of Inl e \<Rightarrow> (Some e, [], w)
      | Inr args \<Rightarrow> (case run (binary c) args w of (err, w1) \<Rightarrow>
          (case ctx_Err ctx w1 of
             Some e \<Rightarrow> (Some (CosignContext e), [(binary c, args)], w1)
           | None \<Rightarrow> (if err \<noteq> None then Some failure else None, [(binary c, args)], w1)))))))"

definition SignWithOptions ::
  "'w cosign_client option \<Rightarrow> 'w Context \<Rightarrow> string \<Rightarrow> string \<Rightarrow> 'w \<Rightarrow> 'w cosign_result" where
  "SignWithOptions c ctx reference identityTokenPath w =
     (if \<not> ValidateReference reference then (Some ErrInvalidReference, [], w)
      else if identityTokenPath \<noteq> [] \<and> \<not> validBlobPath identityTokenPath then (Some ErrInvalidBlobPath, [], w)
      else run_cosign c ctx
        (Inr ([''sign'', ''--yes''] @ (if identityTokenPath \<noteq> [] then [''--identity-token'', identityTokenPath] else []) @ [reference]))
        ErrSignFailed w)"

definition verify_arguments :: "string \<Rightarrow> VerifyOptions \<Rightarrow> string list" where
  "verify_arguments reference options =
     [''verify'', ''--certificate-identity'', vo_CertificateIdentity options,
      ''--certificate-oidc-issuer'', vo_OIDCIssuer options, reference]"

definition Verify ::
  "url_parser \<Rightarrow> 'w cosign_client option \<Rightarrow> 'w Context \<Rightarrow> string \<Rightarrow> VerifyOptions \<Rightarrow> 'w \<Rightarrow> 'w cosign_result" where
  "Verify parse c ctx reference options w =
     (if \<not> ValidateReference reference then (Some ErrInvalidReference, [], w)
      else if \<not> validIdentity (vo_CertificateIdentity options) then (Some ErrInvalidIdentity, [], w)
      else if \<not> validateIssuer parse (vo_OIDCIssuer options) then (Some ErrInvalidIssuer, [], w)
      else run_cosign c ctx (Inr (verify_arguments reference options)) ErrVerifyFailed w)"

definition blob_arguments :: "string \<Rightarrow> string \<Rightarrow> VerifyOptions \<Rightarrow> cosign_error + string list" where
  "blob_arguments bundlePath artifactPath options =
     (let start = [''verify-blob'', ''--bundle'', bundlePath, ''--certificate-identity'', vo_CertificateIdentity options,
                   ''--certificate-oidc-issuer'', vo_OIDCIssuer options];
          root = TrimSpace (vo_TrustedRoot options)
      in if root = [] then Inr (start @ [artifactPath])
         else if \<not> validBlobPath root then Inl ErrInvalidBlobPath
         else Inr (start @ [''--trusted-root'', root, artifactPath]))"

definition VerifyBlob ::
  "url_parser \<Rightarrow> 'w cosign_client option \<Rightarrow> 'w Context \<Rightarrow> string \<Rightarrow> string \<Rightarrow> VerifyOptions \<Rightarrow> 'w \<Rightarrow> 'w cosign_result" where
  "VerifyBlob parse c ctx bundlePath artifactPath options w =
     (if \<not> validBlobPath bundlePath \<or> \<not> validBlobPath artifactPath then (Some ErrInvalidBlobPath, [], w)
      else if \<not> validIdentity (vo_CertificateIdentity options) then (Some ErrInvalidIdentity, [], w)
      else if \<not> validateIssuer parse (vo_OIDCIssuer options) then (Some ErrInvalidIssuer, [], w)
      else run_cosign c ctx (blob_arguments bundlePath artifactPath options) ErrVerifyFailed w)"

section \<open>What is run\<close>

lemma cut_first: "cut sep s = Some (a, b) \<Longrightarrow> s = a @ sep # b"
  by (induction s arbitrary: a) (auto split: if_splits)

lemma registry_first: "full_match registryPattern s \<Longrightarrow> \<exists>c t. s = c # t \<and> chr_lower_digit c"
proof -
  assume "full_match registryPattern s"
  then have m: "rx_in registryPattern s" by (simp add: full_match_def rx_match_iff)
  have "\<not> nullable registryPattern" by code_simp
  with m obtain c t where s: "s = c # t" by (cases s) (auto simp: nullable_iff)
  from rx_first[OF m[unfolded s]] have "chr_lower_digit c"
    by (auto simp: registryPattern_def rx_opt_def chr_lower_digit_def chr_lower_def)
  with s show ?thesis by blast
qed

lemma reference_is_no_option: "ValidateReference reference \<Longrightarrow> \<not> prefix ''-'' reference"
proof
  assume "ValidateReference reference" "prefix ''-'' reference"
  then obtain name digest registry repository where
    "cut (CHR ''@'') reference = Some (name, digest)" "cut (CHR ''/'') name = Some (registry, repository)"
    "full_match registryPattern registry"
    by (auto simp: ValidateReference_def validRegistry_def split: option.splits)
  with registry_first[of registry] obtain c t where "reference = c # t" "chr_lower_digit c"
    by (auto dest!: cut_first)
  with \<open>prefix ''-'' reference\<close> show False by (auto simp: chr_lower_digit_def chr_lower_def chr_digit_def less_eq_char_def)
qed

lemma run_cosign_result:
  assumes "run_cosign c ctx (Inr args) failure w = (err, cmds, w')"
  shows "set cmds \<subseteq> {(binary c, args)}"
    and "err = None \<Longrightarrow> cmds = [(binary c, args)] \<and> (\<exists>cl run. c = Some cl \<and> cc_runner cl = Some run \<and>
           run (binary c) args w = (None, w')) \<and> ctx_Err ctx w' = None"
  using assms by (auto simp: run_cosign_def split: option.splits prod.splits if_splits)

lemma Verify_result:
  assumes "Verify parse c ctx reference options w = (err, cmds, w')"
  shows "cmds = [] \<and> err \<noteq> None \<or>
    ValidateReference reference \<and> validIdentity (vo_CertificateIdentity options) \<and> validateIssuer parse (vo_OIDCIssuer options) \<and>
    run_cosign c ctx (Inr (verify_arguments reference options)) ErrVerifyFailed w = (err, cmds, w')"
  using assms by (auto simp: Verify_def split: if_splits)

lemma SignWithOptions_result:
  assumes "SignWithOptions c ctx reference tokenPath w = (err, cmds, w')" and "x \<in> set cmds"
  shows "ValidateReference reference \<and> (tokenPath \<noteq> [] \<longrightarrow> \<not> prefix ''-'' tokenPath) \<and>
    x = (binary c, [''sign'', ''--yes''] @ (if tokenPath \<noteq> [] then [''--identity-token'', tokenPath] else []) @ [reference])"
proof -
  let ?args = "[''sign'', ''--yes''] @ (if tokenPath \<noteq> [] then [''--identity-token'', tokenPath] else []) @ [reference]"
  from assms have "ValidateReference reference" "tokenPath \<noteq> [] \<longrightarrow> validBlobPath tokenPath"
    and run: "run_cosign c ctx (Inr ?args) ErrSignFailed w = (err, cmds, w')"
    by (auto simp: SignWithOptions_def split: if_splits)
  moreover from run_cosign_result(1)[OF run] assms(2) have "x = (binary c, ?args)" by blast
  ultimately show ?thesis by (simp add: validBlobPath_def)
qed

text \<open>
  C31. A signature counts as verified only when \<^verbatim>\<open>cosign\<close> was run, with a context that has not ended, and reported no
  error. Whatever it is given, the client runs at most one command line to verify, and that one passes the valid
  identity and issuer it was given right after their flags and ends with a digest-qualified reference. The command
  line to sign is fixed in the same way. The reference, and the identity token path of a signature, do not begin
  with a dash; the identity and the issuer are not checked for one, they only ever stand behind their flags.
\<close>

theorem cosign_runs_pinned_commands:
  assumes "Verify parse c ctx reference options w = (err, cmds, w')"
    and "SignWithOptions c ctx reference tokenPath w = (err', cmds', w'')"
  shows "(\<forall>x \<in> set cmds. x = (binary c, verify_arguments reference options) \<and>
            snd x = [''verify'', ''--certificate-identity'', vo_CertificateIdentity options,
                     ''--certificate-oidc-issuer'', vo_OIDCIssuer options, reference] \<and> ValidateReference reference \<and> \<not> prefix ''-'' reference \<and>
            validIdentity (vo_CertificateIdentity options) \<and> validateIssuer parse (vo_OIDCIssuer options)) \<and>
         (err = None \<longrightarrow> length cmds = 1 \<and> (\<exists>cl run. c = Some cl \<and> cc_runner cl = Some run \<and>
            run (binary c) (verify_arguments reference options) w = (None, w')) \<and> ctx_Err ctx w' = None) \<and>
         (\<forall>x \<in> set cmds'. x = (binary c, [''sign'', ''--yes''] @
              (if tokenPath \<noteq> [] then [''--identity-token'', tokenPath] else []) @ [reference]) \<and>
            ValidateReference reference \<and> \<not> prefix ''-'' reference \<and> (tokenPath \<noteq> [] \<longrightarrow> \<not> prefix ''-'' tokenPath))"
proof (intro conjI ballI)
  show run: "x = (binary c, verify_arguments reference options)" if "x \<in> set cmds" for x
    using that Verify_result[OF assms(1)] run_cosign_result(1) by fastforce
  show "snd x = [''verify'', ''--certificate-identity'', vo_CertificateIdentity options,
      ''--certificate-oidc-issuer'', vo_OIDCIssuer options, reference]" if "x \<in> set cmds" for x
    using run[OF that] by (simp add: verify_arguments_def)
  show "x = (binary c, [''sign'', ''--yes''] @ (if tokenPath \<noteq> [] then [''--identity-token'', tokenPath] else []) @ [reference])"
    if "x \<in> set cmds'" for x using SignWithOptions_result[OF assms(2) that] by blast
  show "err = None \<longrightarrow> length cmds = 1 \<and> (\<exists>cl run. c = Some cl \<and> cc_runner cl = Some run \<and>
      run (binary c) (verify_arguments reference options) w = (None, w')) \<and> ctx_Err ctx w' = None"
    using Verify_result[OF assms(1)] run_cosign_result(2) by fastforce
qed (use Verify_result[OF assms(1)] SignWithOptions_result[OF assms(2)] reference_is_no_option[of reference] in auto)

text \<open>A client whose runner accepts everything.\<close>

definition yes_client :: "unit cosign_client" where
  "yes_client = \<lparr>cc_runner = Some (\<lambda>_ _ w. (None, w)), cc_Binary = []\<rparr>"

definition yes_options :: VerifyOptions where
  "yes_options = \<lparr>vo_CertificateIdentity = ''ci@shop'', vo_OIDCIssuer = ''https://issuer'', vo_TrustedRoot = []\<rparr>"

definition yes_parse :: url_parser where
  "yes_parse _ = Some \<lparr>u_Scheme = ''https'', u_Opaque = [], u_User = False, u_Host = ''issuer'', u_Path = [], u_RawQuery = [], u_Fragment = []\<rparr>"

definition yes_reference :: string where
  "yes_reference = ''registry.io/shop@sha256:'' @ replicate 64 CHR ''a''"

theorem cosign_runs_pinned_commands_witness:
  "fst (Verify yes_parse (Some yes_client) (\<lambda>_. None) yes_reference yes_options ()) = None \<and> \<not> prefix ''-'' yes_reference"
proof -
  have v: "Verify yes_parse (Some yes_client) (\<lambda>_. None) yes_reference yes_options () =
      (None, [(''cosign'', verify_arguments yes_reference yes_options)], ())" by code_simp
  obtain e cs w where s: "SignWithOptions (Some yes_client) (\<lambda>_. None) yes_reference [] () = (e, cs, w)" by (metis prod.exhaust)
  from cosign_runs_pinned_commands[OF v s] v show ?thesis by simp
qed

end
