(* ===== verification/Release_Commands.thy ===== *)
theory Release_Commands
  imports Release_Store Cosign_Client
begin

text \<open>
  The release commands of \<^verbatim>\<open>internal/cli/releases.go\<close>, the recording of a deployment (\<^verbatim>\<open>internal/cli/root.go\<close>) and the
  signature gate of a production deployment (\<^verbatim>\<open>internal/cli/lifecycle.go\<close>). What a command calls is in its environment: the configuration it resolves, the dependency
  check, the signature verifier, the live schema epoch and the deployment itself, total functions on the
  world that may fail. A command leaves a trace of those calls. Its value is \<open>None\<close> when the journal's lock
  is never freed.
\<close>

section \<open>The environment of a command\<close>

record 'o release_env =
  rv_rt :: "'o journal_world runtime"
  rv_fault :: faults
  rv_resolve :: "string + string \<times> string"
  rv_yes :: bool
  rv_newReleaseStore :: bool
  rv_dependencies :: "'o journal_world \<Rightarrow> string option \<times> 'o journal_world"
  rv_verifyRelease :: "(string \<Rightarrow> string \<Rightarrow> string \<Rightarrow> 'o journal_world \<Rightarrow> string option \<times> 'o journal_world) option"
  rv_discover :: "'o journal_world \<Rightarrow> (string + string \<times> string) \<times> 'o journal_world"
  rv_liveSchemaEpoch :: "('o journal_world \<Rightarrow> (string + int) \<times> 'o journal_world) option"
  rv_deploy :: "(string \<Rightarrow> 'o journal_world \<Rightarrow> string option \<times> 'o journal_world) option"

datatype release_error =
    ResolveFailed string
  | FlagRequired string
  | StoreUnavailable
  | StoreFailed journal_error
  | SequenceMissing int
  | NoSignatureMetadata
  | ReferenceInvalid string
  | AlreadyCurrent
  | VerificationUnavailable
  | DependenciesMissing string
  | VerificationFailed
  | DiscoverFailed string
  | EpochUnavailable string
  | SchemaRefused schema_error
  | DeployFailed string

datatype release_event =
    Verified string string string bool
  | Deployed string bool
  | Recorded Entry

type_synonym 'o command = "((release_error + Entry) \<times> release_event list \<times> 'o journal_world) option"

definition releaseStore :: "'o release_env \<Rightarrow> string \<Rightarrow> release_error option" where
  "releaseStore env environment = first_failure
     [(\<not> rv_newReleaseStore env, StoreUnavailable),
      (\<not> full_match environmentPattern environment, StoreFailed EnvironmentInvalid)]"

definition schemaEpochOrZero :: "'o release_env \<Rightarrow> 'o journal_world \<Rightarrow> int \<times> 'o journal_world" where
  "schemaEpochOrZero env w =
     (case rv_liveSchemaEpoch env of None \<Rightarrow> (0, w)
      | Some f \<Rightarrow> (case f w of (Inl _, w1) \<Rightarrow> (0, w1) | (Inr epoch, w1) \<Rightarrow> (epoch, w1)))"

definition currentSchemaEpoch ::
  "'o release_env \<Rightarrow> Entry list \<Rightarrow> 'o journal_world \<Rightarrow> (string + int) \<times> 'o journal_world" where
  "currentSchemaEpoch env entries w =
     (case rv_liveSchemaEpoch env of
        Some f \<Rightarrow> f w
      | None \<Rightarrow> (Inr (if entries = [] then 0 else je_SchemaEpoch (last entries)), w))"

text \<open>Dependencies, then the verifier; both commands end this way before they change anything.\<close>

definition verify_signature ::
  "'o release_env \<Rightarrow> string \<Rightarrow> string \<Rightarrow> string \<Rightarrow> 'o journal_world
     \<Rightarrow> release_error option \<times> release_event list \<times> 'o journal_world" where
  "verify_signature env digest identity issuer w =
     (case rv_verifyRelease env of None \<Rightarrow> (Some VerificationUnavailable, [], w)
      | Some verify \<Rightarrow> (case rv_dependencies env w of
          (Some e, w1) \<Rightarrow> (Some (DependenciesMissing e), [], w1)
        | (None, w1) \<Rightarrow> (case verify digest identity issuer w1 of (err, w2) \<Rightarrow>
            (if err = None then None else Some VerificationFailed, [Verified digest identity issuer (err = None)], w2))))"

definition append_entry ::
  "'o release_env \<Rightarrow> 'o journal_world Context \<Rightarrow> release_event list \<Rightarrow> Entry \<Rightarrow> 'o journal_world \<Rightarrow> 'o command" where
  "append_entry env ctx evs entry w =
     (case Append_journal (rv_rt env) (rv_fault env) ctx entry w of
        None \<Rightarrow> None
      | Some (Inl e, w1) \<Rightarrow> Some (Inl (StoreFailed e), evs, w1)
      | Some (Inr e, w1) \<Rightarrow> Some (Inr e, evs @ [Recorded e], w1))"

definition new_entry :: "string \<Rightarrow> string \<Rightarrow> string \<Rightarrow> string \<Rightarrow> string \<Rightarrow> int \<Rightarrow> Entry" where
  "new_entry action environment digest identity issuer epoch =
     \<lparr>je_Sequence = 0, je_RecordedAt = 0, je_Action = action, je_Environment = environment, je_DigestReference = digest,
      je_SourceEnvironment = [], je_SourceSequence = 0, je_SignatureIdentity = identity, je_SignatureIssuer = issuer,
      je_ForwardOnly = True, je_DatabaseMigrationsReversed = False, je_SchemaEpoch = epoch\<rparr>"

section \<open>Promotion\<close>

text \<open>The identity that was given, or else the one of the current login.\<close>

definition promote_identity ::
  "'o release_env \<Rightarrow> string \<Rightarrow> string \<Rightarrow> 'o journal_world \<Rightarrow> (release_error + string \<times> string) \<times> 'o journal_world" where
  "promote_identity env identity issuer w =
     (if identity \<noteq> [] \<and> issuer \<noteq> [] then (Inr (identity, issuer), w)
      else case rv_discover env w of
        (Inl e, w1) \<Rightarrow> (Inl (DiscoverFailed e), w1)
      | (Inr (i, s), w1) \<Rightarrow>
          (let identity' = (if identity = [] then i else identity); issuer' = (if issuer = [] then s else issuer)
           in if identity' = [] \<or> issuer' = [] then (Inl NoSignatureMetadata, w1) else (Inr (identity', issuer'), w1)))"

definition promote ::
  "'o release_env \<Rightarrow> 'o journal_world Context \<Rightarrow> string \<Rightarrow> string \<Rightarrow> string \<Rightarrow> string \<Rightarrow> 'o journal_world \<Rightarrow> 'o command" where
  "promote env ctx digest sourceEnvironment identity0 issuer0 w =
     (let fail = (\<lambda>e evs w. Some (Inl e, evs, w)) in
      case rv_resolve env of Inl e \<Rightarrow> fail (ResolveFailed e) [] w
      | Inr (cls, environment) \<Rightarrow>
          if digest = [] then fail (FlagRequired ''--digest'') [] w
          else case promote_identity env identity0 issuer0 w of
            (Inl e, w1) \<Rightarrow> fail e [] w1
          | (Inr (identity, issuer), w1) \<Rightarrow>
              if \<not> ValidateReference digest then fail (ReferenceInvalid digest) [] w1
              else if cls = ''production'' \<and> \<not> rv_yes env then fail (FlagRequired ''--yes'') [] w1
              else (case verify_signature env digest identity issuer w1 of
                (Some e, evs, w2) \<Rightarrow> fail e evs w2
              | (None, evs, w2) \<Rightarrow> (case releaseStore env environment of
                  Some e \<Rightarrow> fail e evs w2
                | None \<Rightarrow> (case schemaEpochOrZero env w2 of (epoch, w3) \<Rightarrow>
                    append_entry env ctx evs
                      ((new_entry ActionPromote environment digest identity issuer epoch)
                         \<lparr>je_SourceEnvironment := sourceEnvironment\<rparr>) w3))))"

section \<open>Rollback\<close>

text \<open>What is read from the journal about the selected release.\<close>

definition rollback_target :: "Entry list \<Rightarrow> int \<Rightarrow> release_error + Entry \<times> string \<times> string \<times> int" where
  "rollback_target entries sequence =
     (if sequence > int (length entries) then Inl (SequenceMissing sequence)
      else let source = entries ! nat (sequence - 1);
               (identity, issuer) =
                 (if je_SignatureIdentity source = [] \<or> je_SignatureIssuer source = []
                  then SignatureMetadataForDigest entries (je_DigestReference source)
                  else (je_SignatureIdentity source, je_SignatureIssuer source));
               targetEpoch = (if je_SchemaEpoch source < 1 then SchemaEpochForDigest entries (je_DigestReference source)
                              else je_SchemaEpoch source)
           in if identity = [] \<or> issuer = [] then Inl NoSignatureMetadata
              else if \<not> ValidateReference (je_DigestReference source) then Inl (ReferenceInvalid (je_DigestReference source))
              else if entries \<noteq> [] \<and> je_DigestReference (last entries) = je_DigestReference source then Inl AlreadyCurrent
              else Inr (source, identity, issuer, targetEpoch))"

definition rollback_cutover ::
  "'o release_env \<Rightarrow> 'o journal_world Context \<Rightarrow> string \<Rightarrow> Entry \<Rightarrow> string \<Rightarrow> string \<Rightarrow> int \<Rightarrow> release_event list
     \<Rightarrow> 'o journal_world \<Rightarrow> 'o command" where
  "rollback_cutover env ctx environment source identity issuer liveEpoch evs w =
     (let entry = (new_entry ActionRollback environment (je_DigestReference source) identity issuer liveEpoch)
            \<lparr>je_SourceEnvironment := environment, je_SourceSequence := je_Sequence source\<rparr>
      in case rv_deploy env of
        None \<Rightarrow> append_entry env ctx evs entry w
      | Some deploy \<Rightarrow> (case deploy (je_DigestReference source) w of
          (Some e, w1) \<Rightarrow> Some (Inl (DeployFailed e), evs @ [Deployed (je_DigestReference source) False], w1)
        | (None, w1) \<Rightarrow> append_entry env ctx (evs @ [Deployed (je_DigestReference source) True]) entry w1))"

definition rollback ::
  "'o release_env \<Rightarrow> 'o journal_world Context \<Rightarrow> bool \<Rightarrow> int \<Rightarrow> 'o journal_world \<Rightarrow> 'o command" where
  "rollback env ctx acknowledgeForwardOnlyDB sequence w =
     (let fail = (\<lambda>e evs w. Some (Inl e, evs, w)) in
      case rv_resolve env of Inl e \<Rightarrow> fail (ResolveFailed e) [] w
      | Inr (cls, environment) \<Rightarrow>
          (case first_failure
             [(\<not> acknowledgeForwardOnlyDB, FlagRequired ''--ack-forward-only''),
              (sequence < 1, FlagRequired ''--to-sequence''),
              (cls = ''production'' \<and> \<not> rv_yes env, FlagRequired ''--yes'')] of
             Some e \<Rightarrow> fail e [] w
           | None \<Rightarrow> (case releaseStore env environment of Some e \<Rightarrow> fail e [] w
           | None \<Rightarrow> (case List_journal (rv_fault env) ctx w of
               (Inl e, w1) \<Rightarrow> fail (StoreFailed e) [] w1
             | (Inr entries, w1) \<Rightarrow> (case rollback_target entries sequence of
                 Inl e \<Rightarrow> fail e [] w1
               | Inr (source, identity, issuer, targetEpoch) \<Rightarrow>
                   (case verify_signature env (je_DigestReference source) identity issuer w1 of
                      (Some e, evs, w2) \<Rightarrow> fail e evs w2
                    | (None, evs, w2) \<Rightarrow> (case currentSchemaEpoch env entries w2 of
                        (Inl e, w3) \<Rightarrow> fail (EpochUnavailable e) evs w3
                      | (Inr liveEpoch, w3) \<Rightarrow> (case RefuseIncompatibleRollback liveEpoch targetEpoch of
                          Some e \<Rightarrow> fail (SchemaRefused e) evs w3
                        | None \<Rightarrow> rollback_cutover env ctx environment source identity issuer liveEpoch evs w3))))))))"

section \<open>Deployments\<close>

definition recordRelease ::
  "'o release_env \<Rightarrow> 'o journal_world Context \<Rightarrow> string \<Rightarrow> string \<Rightarrow> 'o journal_world \<Rightarrow> 'o command" where
  "recordRelease env ctx environment digest w =
     (case releaseStore env environment of Some e \<Rightarrow> Some (Inl e, [], w)
      | None \<Rightarrow> (case List_journal (rv_fault env) ctx w of
          (Inl e, w1) \<Rightarrow> Some (Inl (StoreFailed e), [], w1)
        | (Inr entries, w1) \<Rightarrow>
            (case SignatureMetadataForDigest entries digest of (identity, issuer) \<Rightarrow>
             (case schemaEpochOrZero env w1 of (epoch, w2) \<Rightarrow>
                append_entry env ctx []
                  (new_entry ActionDeploy environment digest identity issuer
                     (if epoch < 1 then SchemaEpochForDigest entries digest else epoch)) w2))))"

definition requireSignedRelease ::
  "'o release_env \<Rightarrow> 'o journal_world Context \<Rightarrow> string \<Rightarrow> string \<Rightarrow> 'o journal_world
     \<Rightarrow> release_error option \<times> release_event list \<times> 'o journal_world" where
  "requireSignedRelease env ctx environment digest w =
     (case rv_dependencies env w of (Some e, w1) \<Rightarrow> (Some (DependenciesMissing e), [], w1)
      | (None, w1) \<Rightarrow> (case releaseStore env environment of Some e \<Rightarrow> (Some e, [], w1)
      | None \<Rightarrow> (case List_journal (rv_fault env) ctx w1 of
          (Inl e, w2) \<Rightarrow> (Some (StoreFailed e), [], w2)
        | (Inr entries, w2) \<Rightarrow>
            (case find (\<lambda>e. je_DigestReference e = digest \<and> je_SignatureIdentity e \<noteq> [] \<and> je_SignatureIssuer e \<noteq> []) (rev entries) of
               None \<Rightarrow> (Some NoSignatureMetadata, [], w2)
             | Some e \<Rightarrow> (case rv_verifyRelease env of None \<Rightarrow> (Some VerificationUnavailable, [], w2)
                 | Some verify \<Rightarrow> (case verify digest (je_SignatureIdentity e) (je_SignatureIssuer e) w2 of (err, w3) \<Rightarrow>
                     (if err = None then None else Some VerificationFailed,
                      [Verified digest (je_SignatureIdentity e) (je_SignatureIssuer e) (err = None)], w3)))))))"

end
