(* ===== verification/Release_Safety.thy ===== *)
theory Release_Safety
  imports Release_Commands
begin

text \<open>
  What the release commands guarantee: nothing is deployed or recorded without a verified signature, and a
  rollback only cuts over to a release of the journal whose schema the live database still runs.
\<close>

lemma verify_signature_None:
  assumes "verify_signature env digest identity issuer w = (None, evs, w')"
  shows "evs = [Verified digest identity issuer True]"
  using assms by (auto simp: verify_signature_def split: option.splits prod.splits if_splits)

lemma verify_signature_Some:
  assumes "verify_signature env digest identity issuer w = (Some e, evs, w')"
  shows "evs = [] \<or> evs = [Verified digest identity issuer False]"
  using assms by (auto simp: verify_signature_def split: option.splits prod.splits if_splits)

text \<open>What an append keeps of the entry it is given.\<close>

lemma Append_journal_entry:
  assumes "Append_journal rt fault ctx entry w = Some (Inr e, w')"
  shows "\<exists>n t. e = entry\<lparr>je_Sequence := n, je_RecordedAt := t\<rparr>"
proof -
  obtain w0 where a: "acquireLock rt fault ctx w = Some (None, w0)"
    using assms by (auto simp: Append_journal_def split: option.splits)
  obtain r w1 where l: "append_locked rt fault ctx entry w0 = (r, w1)" by (rule prod.exhaust) (rule that)
  with assms a have "r = Inr e" by (auto simp: Append_journal_def)
  with append_locked_result[OF l] show ?thesis by auto
qed

lemma append_entry_cases:
  assumes "append_entry env ctx evs entry w = Some (res, evs', w')"
  shows "(\<exists>e. res = Inl e \<and> evs' = evs) \<or>
         (\<exists>n t. res = Inr (entry\<lparr>je_Sequence := n, je_RecordedAt := t\<rparr>) \<and>
            evs' = evs @ [Recorded (entry\<lparr>je_Sequence := n, je_RecordedAt := t\<rparr>)])"
proof (cases "Append_journal (rv_rt env) (rv_fault env) ctx entry w")
  case None
  with assms show ?thesis by (simp add: append_entry_def)
next
  case (Some p)
  obtain r w1 where p: "p = (r, w1)" by (cases p)
  show ?thesis
  proof (cases r)
    case (Inl e)
    with assms Some p show ?thesis by (auto simp: append_entry_def)
  next
    case (Inr e)
    with Some p Append_journal_entry[of "rv_rt env" "rv_fault env" ctx entry w e w1] assms show ?thesis
      by (auto simp: append_entry_def)
  qed
qed

lemma SignatureMetadata_recorded:
  assumes "SignatureMetadataForDigest entries digest = (identity, issuer)" and "identity \<noteq> []"
  shows "\<exists>e \<in> set entries. je_DigestReference e = digest \<and> je_SignatureIdentity e = identity \<and>
           je_SignatureIssuer e = issuer \<and> issuer \<noteq> []"
proof -
  from assms obtain e where f: "find (\<lambda>e. je_DigestReference e = digest \<and> je_SignatureIdentity e \<noteq> [] \<and> je_SignatureIssuer e \<noteq> [])
      (rev entries) = Some e" "identity = je_SignatureIdentity e" "issuer = je_SignatureIssuer e"
    by (auto simp: SignatureMetadataForDigest_def split: option.splits)
  with find_SomeD[OF f(1)] show ?thesis by auto
qed

lemma SchemaEpoch_recorded:
  assumes "SchemaEpochForDigest entries digest \<ge> 1"
  shows "\<exists>e \<in> set entries. je_DigestReference e = digest \<and> je_SchemaEpoch e = SchemaEpochForDigest entries digest"
proof -
  from assms obtain e where f: "find (\<lambda>e. je_DigestReference e = digest \<and> je_SchemaEpoch e \<ge> 1) (rev entries) = Some e"
    by (auto simp: SchemaEpochForDigest_def split: option.splits)
  with find_SomeD[OF f] show ?thesis by (auto simp: SchemaEpochForDigest_def)
qed

lemma rollback_target_Inr:
  assumes "rollback_target entries sequence = Inr (source, identity, issuer, target)" and "1 \<le> sequence"
  shows "sequence \<le> int (length entries)" and "source = entries ! nat (sequence - 1)" and "source \<in> set entries"
    and "ValidateReference (je_DigestReference source)" and "je_DigestReference (last entries) \<noteq> je_DigestReference source"
    and "\<exists>e \<in> set entries. je_DigestReference e = je_DigestReference source \<and> je_SignatureIdentity e = identity \<and>
           je_SignatureIssuer e = issuer" and "identity \<noteq> []" and "issuer \<noteq> []"
    and "1 \<le> target \<Longrightarrow> \<exists>e \<in> set entries. je_DigestReference e = je_DigestReference source \<and> je_SchemaEpoch e = target"
proof -
  obtain i s where sig: "SignatureMetadataForDigest entries (je_DigestReference (entries ! nat (sequence - 1))) = (i, s)"
    by (rule prod.exhaust) (rule that)
  from assms(1) show le: "sequence \<le> int (length entries)" and src: "source = entries ! nat (sequence - 1)"
    and "ValidateReference (je_DigestReference source)" "identity \<noteq> []" "issuer \<noteq> []"
    by (auto simp: rollback_target_def Let_def sig split: if_splits)
  from le src assms(2) show mem: "source \<in> set entries" by (auto intro!: nth_mem)
  then have "entries \<noteq> []" by auto
  with assms(1) show "je_DigestReference (last entries) \<noteq> je_DigestReference source"
    by (auto simp: rollback_target_def Let_def sig split: if_splits)
  show "\<exists>e \<in> set entries. je_DigestReference e = je_DigestReference source \<and> je_SignatureIdentity e = identity \<and>
      je_SignatureIssuer e = issuer"
  proof (cases "je_SignatureIdentity source = [] \<or> je_SignatureIssuer source = []")
    case True
    with assms(1) src sig have "SignatureMetadataForDigest entries (je_DigestReference source) = (identity, issuer)"
      by (auto simp: rollback_target_def Let_def split: if_splits)
    from SignatureMetadata_recorded[OF this \<open>identity \<noteq> []\<close>] show ?thesis by blast
  next
    case False
    with assms(1) src sig have "identity = je_SignatureIdentity source" "issuer = je_SignatureIssuer source"
      by (auto simp: rollback_target_def Let_def split: if_splits)
    with mem show ?thesis by blast
  qed
  from assms(1) src have target: "target = (if je_SchemaEpoch source < 1 then SchemaEpochForDigest entries (je_DigestReference source)
      else je_SchemaEpoch source)"
    by (auto simp: rollback_target_def Let_def sig split: if_splits)
  show "1 \<le> target \<Longrightarrow> \<exists>e \<in> set entries. je_DigestReference e = je_DigestReference source \<and> je_SchemaEpoch e = target"
    using SchemaEpoch_recorded[of entries "je_DigestReference source"] mem target by (auto split: if_splits)
qed

text \<open>The events after the verification of a rollback.\<close>

fun cutover_event :: "string \<Rightarrow> int \<Rightarrow> int \<Rightarrow> release_event \<Rightarrow> bool" where
  "cutover_event digest live sequence (Deployed d ok) \<longleftrightarrow> d = digest"
| "cutover_event digest live sequence (Recorded e) \<longleftrightarrow>
     je_Action e = ActionRollback \<and> je_DigestReference e = digest \<and> je_SchemaEpoch e = live \<and>
     je_SourceSequence e = sequence \<and> \<not> je_DatabaseMigrationsReversed e"
| "cutover_event digest live sequence (Verified d i s ok) \<longleftrightarrow> False"

lemma rollback_cutover_events:
  assumes "rollback_cutover env ctx environment source identity issuer live evs w = Some (res, evs', w')"
  shows "\<exists>rest. evs' = evs @ rest \<and> (\<forall>ev \<in> set rest. cutover_event (je_DigestReference source) live (je_Sequence source) ev)"
proof (cases "rv_deploy env")
  case None
  with assms append_entry_cases[of env ctx evs _ w res evs' w'] show ?thesis
    by (fastforce simp: rollback_cutover_def Let_def new_entry_def)
next
  case (Some deploy)
  obtain e w1 where d: "deploy (je_DigestReference source) w = (e, w1)" by (rule prod.exhaust) (rule that)
  show ?thesis
  proof (cases e)
    case (Some x)
    with assms \<open>rv_deploy env = Some deploy\<close> d show ?thesis by (auto simp: rollback_cutover_def Let_def)
  next
    case None
    with assms \<open>rv_deploy env = Some deploy\<close> d
      append_entry_cases[of env ctx "evs @ [Deployed (je_DigestReference source) True]" _ w1 res evs' w']
    show ?thesis by (fastforce simp: rollback_cutover_def Let_def new_entry_def)
  qed
qed

text \<open>A rollback whose flags are in order and whose target is found, from the verification on.\<close>

lemma rollback_unfold:
  assumes "rv_resolve env = Inr (cls, environment)" and "ack" and "1 \<le> sequence"
    and "cls = ''production'' \<longrightarrow> rv_yes env" and "releaseStore env environment = None"
    and "List_journal (rv_fault env) ctx w = (Inr entries, w1)"
    and "rollback_target entries sequence = Inr (source, identity, issuer, target)"
    and "verify_signature env (je_DigestReference source) identity issuer w1 = (ve, evs1, w2)"
    and "currentSchemaEpoch env entries w2 = (le, w3)"
  shows "rollback env ctx ack sequence w = (case ve of Some e \<Rightarrow> Some (Inl e, evs1, w2)
      | None \<Rightarrow> (case le of Inl e \<Rightarrow> Some (Inl (EpochUnavailable e), evs1, w3)
        | Inr live \<Rightarrow> (case RefuseIncompatibleRollback live target of
            Some e \<Rightarrow> Some (Inl (SchemaRefused e), evs1, w3)
          | None \<Rightarrow> rollback_cutover env ctx environment source identity issuer live evs1 w3)))"
proof -
  from assms(2-4) have "\<not> sequence < 1" "\<not> (cls = ''production'' \<and> \<not> rv_yes env)" by auto
  with assms show ?thesis by (cases ve; cases le) (auto simp: rollback_def Let_def split: option.splits)
qed

lemma rollback_cases:
  assumes "rollback env ctx ack sequence w = Some (res, evs, w')"
  obtains (refused) "set evs \<subseteq> {ev. \<exists>d i s ok. ev = Verified d i s ok}"
  | (cutover) cls environment entries source identity issuer live target w3 where
      "rv_resolve env = Inr (cls, environment)" "ack" "1 \<le> sequence" "cls = ''production'' \<longrightarrow> rv_yes env"
      "journal_entries (jw_file w) = Inr entries"
      "rollback_target entries sequence = Inr (source, identity, issuer, target)"
      "RefuseIncompatibleRollback live target = None"
      "rollback_cutover env ctx environment source identity issuer live
         [Verified (je_DigestReference source) identity issuer True] w3 = Some (res, evs, w')"
proof (cases "rv_resolve env")
  case (Inl e)
  with assms show ?thesis by (intro refused) (auto simp: rollback_def)
next
  case (Inr p)
  obtain cls environment where p: "p = (cls, environment)" by (cases p)
  let ?guards = "ack \<and> 1 \<le> sequence \<and> (cls = ''production'' \<longrightarrow> rv_yes env) \<and> releaseStore env environment = None"
  show ?thesis
  proof (cases ?guards)
    case False
    then have "first_failure
       [(\<not> ack, FlagRequired ''--ack-forward-only''), (sequence < 1, FlagRequired ''--to-sequence''),
        (cls = ''production'' \<and> \<not> rv_yes env, FlagRequired ''--yes'')] \<noteq> None \<or> releaseStore env environment \<noteq> None"
      by (auto simp: first_failure_None_iff)
    with assms Inr p have "evs = []" by (auto simp: rollback_def Let_def simp del: first_failure.simps split: option.splits)
    then show ?thesis by (intro refused) simp
  next
    case ok: True
    obtain r w1 where l: "List_journal (rv_fault env) ctx w = (r, w1)" by (rule prod.exhaust) (rule that)
    show ?thesis
    proof (cases "\<exists>entries t. r = Inr entries \<and> rollback_target entries sequence = Inr t")
      case False
      with assms Inr p ok l show ?thesis
        by (intro refused) (auto simp: rollback_def Let_def split: sum.splits option.splits)
    next
      case True
      then obtain entries source identity issuer target where r: "r = Inr entries"
        and t: "rollback_target entries sequence = Inr (source, identity, issuer, target)" by auto
      obtain ve evs1 w2 where v: "verify_signature env (je_DigestReference source) identity issuer w1 = (ve, evs1, w2)"
        by (metis prod.exhaust)
      obtain le w3 where c: "currentSchemaEpoch env entries w2 = (le, w3)" by (rule prod.exhaust) (rule that)
      from ok have g: "ack" "1 \<le> sequence" "cls = ''production'' \<longrightarrow> rv_yes env" "releaseStore env environment = None"
        by auto
      note eq = rollback_unfold[OF Inr[unfolded p] g l[unfolded r] t v c]
      have verified: "set evs1 \<subseteq> {ev. \<exists>d i s ok. ev = Verified d i s ok}"
        using verify_signature_None verify_signature_Some v by (cases ve) fastforce+
      show ?thesis
      proof (cases "\<exists>live. ve = None \<and> le = Inr live \<and> RefuseIncompatibleRollback live target = None")
        case False
        with assms verified show ?thesis unfolding eq
          by (intro refused) (cases ve; cases le; auto split: option.splits)
      next
        case True
        then obtain live where live: "ve = None" "le = Inr live" "RefuseIncompatibleRollback live target = None" by blast
        with v have evs1: "evs1 = [Verified (je_DigestReference source) identity issuer True]"
          using verify_signature_None by blast
        from cutover[OF Inr[unfolded p] g(1-3) List_journal_result(3)[OF l r] t live(3)] assms live evs1
        show ?thesis unfolding eq by auto
      qed
    qed
  qed
qed

section \<open>An example\<close>

definition rel_digest :: "char \<Rightarrow> string" where
  "rel_digest c = ''registry.io/shop@sha256:'' @ replicate 64 c"

definition rel_journal :: "unit journal_world" where
  "rel_journal =
     \<lparr>io_count = 0, jw_file = Lines
        [Decoded ((rel_entry ActionPromote (rel_digest CHR ''a'') 2)\<lparr>je_Sequence := 1\<rparr>),
         Decoded ((rel_entry ActionDeploy (rel_digest CHR ''b'') 2)\<lparr>je_Sequence := 2\<rparr>)],
      jw_lock = False, jw_rest = ()\<rparr>"

definition rel_env :: "unit release_env" where
  "rel_env =
     \<lparr>rv_rt = rel_rt, rv_fault = \<lambda>_. None, rv_resolve = Inr (''production'', ''production''), rv_yes = True,
      rv_newReleaseStore = True, rv_dependencies = \<lambda>w. (None, w), rv_verifyRelease = Some (\<lambda>_ _ _ w. (None, w)),
      rv_discover = \<lambda>w. (Inl ''offline'', w), rv_liveSchemaEpoch = Some (\<lambda>w. (Inr 2, w)),
      rv_deploy = Some (\<lambda>_ w. (None, w))\<rparr>"

definition rel_history :: "Entry list" where
  "rel_history =
     [(rel_entry ActionPromote (rel_digest CHR ''a'') 2)\<lparr>je_Sequence := 1\<rparr>,
      (rel_entry ActionDeploy (rel_digest CHR ''b'') 2)\<lparr>je_Sequence := 2\<rparr>]"

lemma rel_journal_reads:
  "List_journal (\<lambda>_. None) (\<lambda>_. None) rel_journal = (Inr rel_history, rel_journal\<lparr>io_count := 3\<rparr>)"
  "journal_entries (jw_file rel_journal) = Inr rel_history"
  "rollback_target rel_history 1 = Inr (hd rel_history, ''ci@shop'', ''https://issuer'', 2)"
  "ValidateReference (rel_digest CHR ''c'')"
  by code_simp+

lemma rel_journal_lock:
  "acquireLock rel_rt (\<lambda>_. None) (\<lambda>_. None) (rel_journal\<lparr>io_count := n\<rparr>) = Some (None, rel_journal\<lparr>io_count := n + 2, jw_lock := True\<rparr>)"
  by (simp add: acquireLock_def acquire_loop.simps io_def rel_journal_def)

lemma rel_append_entry:
  "\<exists>e w. append_entry rel_env (\<lambda>_. None) evs entry (rel_journal\<lparr>io_count := n\<rparr>) = Some (Inr e, evs @ [Recorded e], w)"
  using Append_journal_succeeds[OF rel_journal_lock, of n rel_history entry] rel_journal_reads(2)
  by (auto simp: append_entry_def rel_env_def ctx_Err_def)

definition rel_rollback :: "unit command" where
  "rel_rollback = rollback rel_env (\<lambda>_. None) True 1 rel_journal"

lemma rel_rollback_done: "\<exists>e evs w. rel_rollback = Some (Inr e, evs, w) \<and> Deployed (rel_digest CHR ''a'') True \<in> set evs"
proof -
  have d: "je_DigestReference (hd rel_history) = rel_digest CHR ''a''" by (simp add: rel_history_def rel_entry_def)
  have env: "rv_rt rel_env = rel_rt" "rv_fault rel_env = (\<lambda>_. None)" "rv_resolve rel_env = Inr (''production'', ''production'')"
    "rv_yes rel_env" "releaseStore rel_env ''production'' = None"
    "verify_signature rel_env x i s v = (None, [Verified x i s True], v)" "currentSchemaEpoch rel_env es v = (Inr 2, v)"
    "rv_deploy rel_env = Some (\<lambda>_ w. (None, w))" for x i s v es
    by (simp_all add: rel_env_def verify_signature_def currentSchemaEpoch_def) code_simp
  obtain entry where "rel_rollback = append_entry rel_env (\<lambda>_. None)
      [Verified (rel_digest CHR ''a'') ''ci@shop'' ''https://issuer'' True, Deployed (rel_digest CHR ''a'') True] entry
      (rel_journal\<lparr>io_count := 3\<rparr>)" (is "_ = append_entry _ _ ?evs _ _")
    by (simp add: rel_rollback_def rollback_def env rel_journal_reads(1,3) rollback_cutover_def RefuseIncompatibleRollback_def d)
  with rel_append_entry[of ?evs entry 3] obtain e w where "rel_rollback = Some (Inr e, ?evs @ [Recorded e], w)" by auto
  then show ?thesis by (intro exI conjI) (assumption | simp)+
qed

definition rel_promote :: "unit command" where
  "rel_promote = promote rel_env (\<lambda>_. None) (rel_digest CHR ''c'') [] ''ci@shop'' ''https://issuer'' rel_journal"

lemma rel_promote_done: "\<exists>e evs w. rel_promote = Some (Inr e, evs, w)"
proof -
  have "rel_digest CHR ''c'' \<noteq> []" "releaseStore rel_env ''production'' = None" by code_simp+
  then obtain evs entry where "rel_promote = append_entry rel_env (\<lambda>_. None) evs entry (rel_journal\<lparr>io_count := 0\<rparr>)"
    by (simp add: rel_promote_def promote_def rel_journal_reads(4) promote_identity_def verify_signature_def schemaEpochOrZero_def
        rel_env_def rel_journal_def)
  with rel_append_entry[of evs entry 0] show ?thesis by auto
qed

section \<open>Properties\<close>

text \<open>
  C32. A rollback that deploys or records anything has been acknowledged (and approved in production) and
  goes to a release of the journal with that sequence number: its digest is a well-formed reference, not the
  current one, with a signature that the journal recorded for the same digest and that was verified first.
  The live database's schema epoch is known and no newer than one the journal recorded for the digest. All
  it does then is deploy that digest and record it, with the live epoch, as a rollback that reversed no
  migration.
\<close>

theorem rollback_is_guarded:
  assumes "rollback env ctx ack sequence w = Some (res, evs, w')"
    and "ev \<in> set evs" and "\<forall>d i s ok. ev \<noteq> Verified d i s ok"
  shows "\<exists>cls environment entries source identity issuer live target rest.
     rv_resolve env = Inr (cls, environment) \<and> ack \<and> (cls = ''production'' \<longrightarrow> rv_yes env) \<and>
     journal_entries (jw_file w) = Inr entries \<and> source \<in> set entries \<and> je_Sequence source = sequence \<and>
     ValidateReference (je_DigestReference source) \<and> je_DigestReference source \<noteq> je_DigestReference (last entries) \<and>
     (\<exists>e \<in> set entries. je_DigestReference e = je_DigestReference source \<and> je_SignatureIdentity e = identity \<and>
        je_SignatureIssuer e = issuer) \<and> identity \<noteq> [] \<and> issuer \<noteq> [] \<and>
     (\<exists>e \<in> set entries. je_DigestReference e = je_DigestReference source \<and> je_SchemaEpoch e = target) \<and>
     1 \<le> live \<and> live \<le> target \<and>
     evs = Verified (je_DigestReference source) identity issuer True # rest \<and>
     (\<forall>ev \<in> set rest. cutover_event (je_DigestReference source) live sequence ev)"
  using assms(1)
proof (cases rule: rollback_cases)
  case refused
  from subsetD[OF refused assms(2)] assms(3) have False by blast
  then show ?thesis ..
next
  case (cutover cls environment entries source identity issuer live target w3)
  note t = rollback_target_Inr[OF cutover(6,3)]
  from cutover(7) have epochs: "1 \<le> live" "1 \<le> target" "live \<le> target"
    by (auto simp: RefuseIncompatibleRollback_def split: if_splits)
  from journal_entries_well_formed[OF cutover(5)] t(1,2) cutover(3) have seq: "je_Sequence source = sequence"
    by (auto simp: well_formed_def entry_invalid_def dest!: spec[of _ "nat (sequence - 1)"])
  from rollback_cutover_events[OF cutover(8)] obtain rest where
    rest: "evs = Verified (je_DigestReference source) identity issuer True # rest"
    "\<forall>ev \<in> set rest. cutover_event (je_DigestReference source) live sequence ev"
    by (auto simp: seq)
  show ?thesis
    by (rule exI[of _ cls], rule exI[of _ environment], rule exI[of _ entries], rule exI[of _ source],
        rule exI[of _ identity], rule exI[of _ issuer], rule exI[of _ live], rule exI[of _ target], rule exI[of _ rest],
        intro conjI cutover(1,2,4,5) t(3,4,6-8) t(5)[symmetric] t(9)[OF epochs(2)] epochs(1,3) seq rest)
qed

theorem rollback_is_guarded_witness:
  "\<exists>e evs w entries source. rel_rollback = Some (Inr e, evs, w) \<and> journal_entries (jw_file rel_journal) = Inr entries \<and>
     source \<in> set entries \<and> je_Sequence source = 1 \<and> Verified (je_DigestReference source) ''ci@shop'' ''https://issuer'' True \<in> set evs"
proof -
  from rel_rollback_done obtain e evs w where r: "rel_rollback = Some (Inr e, evs, w)"
    and d: "Deployed (rel_digest CHR ''a'') True \<in> set evs" by blast
  have entries: "journal_entries (jw_file rel_journal) =
      Inr [(rel_entry ActionPromote (rel_digest CHR ''a'') 2)\<lparr>je_Sequence := 1\<rparr>,
           (rel_entry ActionDeploy (rel_digest CHR ''b'') 2)\<lparr>je_Sequence := 2\<rparr>]" by code_simp
  from rollback_is_guarded[OF r[unfolded rel_rollback_def] d] entries obtain source identity issuer rest where
    s: "source \<in> set [(rel_entry ActionPromote (rel_digest CHR ''a'') 2)\<lparr>je_Sequence := 1\<rparr>,
           (rel_entry ActionDeploy (rel_digest CHR ''b'') 2)\<lparr>je_Sequence := 2\<rparr>]" "je_Sequence source = 1"
      "\<exists>e \<in> set [(rel_entry ActionPromote (rel_digest CHR ''a'') 2)\<lparr>je_Sequence := 1\<rparr>,
           (rel_entry ActionDeploy (rel_digest CHR ''b'') 2)\<lparr>je_Sequence := 2\<rparr>]. je_SignatureIdentity e = identity \<and>
         je_SignatureIssuer e = issuer" "evs = Verified (je_DigestReference source) identity issuer True # rest" by auto
  from s(3) have "identity = ''ci@shop''" "issuer = ''https://issuer''" by (auto simp: rel_entry_def)
  with r entries s show ?thesis by (intro exI conjI) (assumption | simp)+
qed

text \<open>
  C33. A digest is promoted only after its signature was verified, for the identity and issuer that are
  recorded with it, and in production only with the operator's consent; the entry is the last thing that
  happens.
\<close>

theorem promotion_is_verified:
  assumes "promote env ctx digest from identity issuer w = Some (Inr e, evs, w')"
  shows "\<exists>cls environment. rv_resolve env = Inr (cls, environment) \<and> (cls = ''production'' \<longrightarrow> rv_yes env) \<and>
     ValidateReference digest \<and> je_DigestReference e = digest \<and> je_Environment e = environment \<and>
     je_Action e = ActionPromote \<and> je_SignatureIdentity e \<noteq> [] \<and> je_SignatureIssuer e \<noteq> [] \<and>
     evs = [Verified digest (je_SignatureIdentity e) (je_SignatureIssuer e) True, Recorded e]"
proof (cases "rv_resolve env")
  case (Inl x)
  with assms show ?thesis by (simp add: promote_def)
next
  case (Inr p)
  obtain cls environment where p: "p = (cls, environment)" by (cases p)
  obtain r w1 where i: "promote_identity env identity issuer w = (r, w1)" by (rule prod.exhaust) (rule that)
  show ?thesis
  proof (cases r)
    case (Inl x)
    with assms Inr p i show ?thesis by (auto simp: promote_def Let_def split: if_splits)
  next
    case (Inr q)
    obtain i' s' where q: "q = (i', s')" by (cases q)
    from i Inr q have ne: "i' \<noteq> []" "s' \<noteq> []"
      by (auto simp: promote_identity_def Let_def split: if_splits prod.splits sum.splits)
    obtain ve evs1 w2 where v: "verify_signature env digest i' s' w1 = (ve, evs1, w2)" by (metis prod.exhaust)
    obtain epoch w3 where ep: "schemaEpochOrZero env w2 = (epoch, w3)" by (rule prod.exhaust) (rule that)
    let ?e = "(new_entry ActionPromote environment digest i' s' epoch)\<lparr>je_SourceEnvironment := from\<rparr>"
    from assms \<open>rv_resolve env = Inr p\<close> p i Inr q v ep have "ve = None" and ok: "ValidateReference digest"
      "cls = ''production'' \<longrightarrow> rv_yes env" and app: "append_entry env ctx evs1 ?e w3 = Some (Inr e, evs, w')"
      by (auto simp: promote_def Let_def split: if_splits option.splits)
    with v verify_signature_None have "evs1 = [Verified digest i' s' True]" by blast
    with append_entry_cases[OF app] ok ne \<open>rv_resolve env = Inr p\<close> p show ?thesis by (auto simp: new_entry_def)
  qed
qed

theorem promotion_is_verified_witness:
  "\<exists>e evs w. rel_promote = Some (Inr e, evs, w) \<and> je_DigestReference e = rel_digest CHR ''c'' \<and>
     evs = [Verified (rel_digest CHR ''c'') (je_SignatureIdentity e) (je_SignatureIssuer e) True, Recorded e]"
proof -
  from rel_promote_done obtain e evs w where r: "rel_promote = Some (Inr e, evs, w)" by blast
  from promotion_is_verified[OF r[unfolded rel_promote_def]] r show ?thesis by blast
qed

lemma requireSignedRelease_verified:
  assumes "requireSignedRelease env ctx environment digest w = (None, evs, w')"
  shows "\<exists>identity issuer. evs = [Verified digest identity issuer True] \<and> identity \<noteq> [] \<and> issuer \<noteq> []"
  using assms
  by (auto simp: requireSignedRelease_def split: option.splits prod.splits sum.splits if_splits dest!: find_SomeD)

end
