(* ===== verification/File_Store.thy ===== *)
theory File_Store
  imports Go_Files Go_Json
begin

text \<open>
  What \<^verbatim>\<open>internal/certification/session_registry_file.go\<close> and \<^verbatim>\<open>schedule_checkpoint_file.go\<close> share: a JSON file
  that holds a version and a map, read and replaced as a whole under the directory lock of \<^verbatim>\<open>file_lock.go\<close>. The
  world holds the file, the lock directory with its modification time, and the rest \<open>'o\<close> of the machine. Which
  file operations fail is a parameter; what other processes do while the lock is awaited is in the
  runtime's \<open>rt_wait\<close>. The order of the entries of a map stands for the order in which Go ranges over it.
\<close>

record 'm store_state =
  ss_Version :: int
  ss_Entries :: "(string \<times> 'm) list"

datatype 'm stored_file = Absent | Undecodable_file | Stored "'m store_state"

record ('m, 'o) store_world = io_world +
  sw_file :: "'m stored_file"
  sw_lock :: "int option"
  sw_rest :: 'o

datatype lock_error = LockContext ctx_error | LockIO io_error

datatype 'e store_error =
    StoreContextRequired
  | StoreContext ctx_error
  | StoreLock lock_error
  | StoreIO io_error
  | StoreDecode
  | StoreVersion int
  | StoreError 'e

text \<open>A kind of store: what it insists on when it reads an entry, and what an entry is after encoding and decoding.\<close>

record ('m, 'e) store_kind =
  kd_check :: "string \<Rightarrow> 'm \<Rightarrow> 'e option"
  kd_enc :: "'m \<Rightarrow> 'm"

abbreviation defaultFileRegistryLockPoll :: int where "defaultFileRegistryLockPoll \<equiv> 25000000"
abbreviation defaultFileRegistryStaleLockAfter :: int where "defaultFileRegistryStaleLockAfter \<equiv> 300000000000"

section \<open>The lock\<close>

partial_function (option) acquireFileRegistryLock ::
  "('m, 'o) store_world runtime \<Rightarrow> faults \<Rightarrow> ('m, 'o) store_world Context \<Rightarrow> int \<Rightarrow> int \<Rightarrow> ('m, 'o) store_world
     \<Rightarrow> (lock_error option \<times> ('m, 'o) store_world) option" where
  "acquireFileRegistryLock rt fault ctx poll staleAfter w =
     (case ctx_Err ctx w of
        Some e \<Rightarrow> Some (Some (LockContext e), w)
      | None \<Rightarrow> (case io fault ''acquire file registry lock'' w of
          (Some e, w1) \<Rightarrow> Some (Some (LockIO e), w1)
        | (None, w1) \<Rightarrow> (case sw_lock w1 of
            None \<Rightarrow> Some (None, w1\<lparr>sw_lock := Some (rt_now rt w1)\<rparr>)
          | Some modified \<Rightarrow> (case io fault ''stat'' w1 of (statErr, w2) \<Rightarrow>
              (case (if statErr = None \<and> rt_now rt w2 - modified > staleAfter then io fault ''remove stale lock'' w2
                     else (Some (IO ''not stale'' []), w2)) of
                 (None, w3) \<Rightarrow> acquireFileRegistryLock rt fault ctx poll staleAfter (w3\<lparr>sw_lock := None\<rparr>)
               | (Some _, w3) \<Rightarrow> (case timer_select rt ctx poll w3 of
                   (Some e, w4) \<Rightarrow> Some (Some (LockContext e), w4)
                 | (None, w4) \<Rightarrow> acquireFileRegistryLock rt fault ctx poll staleAfter w4))))))"

declare acquireFileRegistryLock.simps [code]

text \<open>A lock that is gone already is no error; a fault is any other error of the removal.\<close>

definition unlock :: "faults \<Rightarrow> ('m, 'o) store_world \<Rightarrow> io_error option \<times> ('m, 'o) store_world" where
  "unlock fault w =
     (case io fault ''remove lock'' w of
        (Some e, w1) \<Rightarrow> (Some e, w1)
      | (None, w1) \<Rightarrow> (None, w1\<lparr>sw_lock := None\<rparr>))"

type_synonym ('m, 'o, 'e, 'v) store_result = "((('e store_error list \<times> 'v) \<times> ('m, 'o) store_world)) option"

definition withFileRegistryLock ::
  "('m, 'o) store_world runtime \<Rightarrow> faults \<Rightarrow> ('m, 'o) store_world Context \<Rightarrow> int \<Rightarrow> int
     \<Rightarrow> (('m, 'o) store_world \<Rightarrow> ('e store_error option \<times> 'v) \<times> ('m, 'o) store_world) \<Rightarrow> 'v \<Rightarrow> ('m, 'o) store_world
     \<Rightarrow> ('m, 'o, 'e, 'v) store_result" where
  "withFileRegistryLock rt fault ctx poll staleAfter operation v0 w =
     (case acquireFileRegistryLock rt fault ctx
             (if poll \<le> 0 then defaultFileRegistryLockPoll else poll)
             (if staleAfter \<le> 0 then defaultFileRegistryStaleLockAfter else staleAfter) w of
        None \<Rightarrow> None
      | Some (Some e, w1) \<Rightarrow> Some (([StoreLock e], v0), w1)
      | Some (None, w1) \<Rightarrow> (case operation w1 of ((err, v), w2) \<Rightarrow>
          (case unlock fault w2 of (err', w3) \<Rightarrow> Some ((List.map_filter id [err, map_option StoreIO err'], v), w3))))"

section \<open>The file\<close>

text \<open>
  A map is written in the order of its keys, with the bytes that are not UTF-8 replaced in keys and texts; a
  key that is read twice keeps its last entry.
\<close>

definition encoded :: "('m, 'e) store_kind \<Rightarrow> (string \<times> 'm) list \<Rightarrow> (string \<times> 'm) list" where
  "encoded kind m = map (\<lambda>(k, x). (valid_utf8 k, kd_enc kind x)) (sort_key fst m)"

definition decoded :: "(string \<times> 'm) list \<Rightarrow> (string \<times> 'm) list" where
  "decoded pairs = foldl (\<lambda>m (k, x). map_put k x m) [] pairs"

definition entries_error :: "('m, 'e) store_kind \<Rightarrow> (string \<times> 'm) list \<Rightarrow> 'e option" where
  "entries_error kind m = first_err (map (\<lambda>(k, x). kd_check kind k x) m)"

definition readState ::
  "('m, 'e) store_kind \<Rightarrow> faults \<Rightarrow> ('m, 'o) store_world \<Rightarrow> ('e store_error + 'm store_state) \<times> ('m, 'o) store_world" where
  "readState kind fault w =
     (case io fault ''open'' w of
        (Some e, w1) \<Rightarrow> (Inl (StoreIO e), w1)
      | (None, w1) \<Rightarrow> (case sw_file w1 of
          Absent \<Rightarrow> (Inr \<lparr>ss_Version = 1, ss_Entries = []\<rparr>, w1)
        | Undecodable_file \<Rightarrow> (Inl StoreDecode, w1)
        | Stored s \<Rightarrow> (case io fault ''decode'' w1 of
            (Some e, w2) \<Rightarrow> (Inl (StoreIO e), w2)
          | (None, w2) \<Rightarrow>
              if ss_Version s \<noteq> 1 then (Inl (StoreVersion (ss_Version s)), w2)
              else (case entries_error kind (decoded (ss_Entries s)) of
                Some e \<Rightarrow> (Inl (StoreError e), w2)
              | None \<Rightarrow> (Inr (s\<lparr>ss_Entries := decoded (ss_Entries s)\<rparr>), w2)))))"

text \<open>The protection of the published file comes after the rename.\<close>

definition writeState ::
  "('m, 'e) store_kind \<Rightarrow> faults \<Rightarrow> 'm store_state \<Rightarrow> ('m, 'o) store_world \<Rightarrow> 'e store_error option \<times> ('m, 'o) store_world" where
  "writeState kind fault s w =
     (case io_steps fault [''create directory'', ''create temporary'', ''protect'', ''encode'', ''sync'', ''close'', ''publish''] w of
        (Some e, w1) \<Rightarrow> (Some (StoreIO e), w1)
      | (None, w1) \<Rightarrow>
          (case io fault ''chmod'' (w1\<lparr>sw_file := Stored (s\<lparr>ss_Entries := encoded kind (ss_Entries s)\<rparr>)\<rparr>) of
             (Some e, w2) \<Rightarrow> (Some (StoreIO e), w2)
           | (None, w2) \<Rightarrow> (None, w2)))"

section \<open>Operations\<close>

text \<open>An operation answers with an error or not, a value and the changed map.\<close>

type_synonym ('m, 'e, 'v) operation = "(string \<times> 'm) list \<Rightarrow> 'e option \<times> 'v \<times> (string \<times> 'm) list"

definition state_body ::
  "('m, 'e) store_kind \<Rightarrow> faults \<Rightarrow> bool \<Rightarrow> ('m, 'e, 'v) operation \<Rightarrow> 'v \<Rightarrow> ('m, 'o) store_world
     \<Rightarrow> ('e store_error option \<times> 'v) \<times> ('m, 'o) store_world" where
  "state_body kind fault writes operation v0 w =
     (case readState kind fault w of
        (Inl e, w1) \<Rightarrow> ((Some e, v0), w1)
      | (Inr s, w1) \<Rightarrow> (case operation (ss_Entries s) of
          (Some e, v, _) \<Rightarrow> ((Some (StoreError e), v), w1)
        | (None, v, m) \<Rightarrow>
            if \<not> writes then ((None, v), w1)
            else (case writeState kind fault (s\<lparr>ss_Entries := m\<rparr>) w1 of (err, w2) \<Rightarrow> ((err, v), w2))))"

definition withState ::
  "('m, 'e) store_kind \<Rightarrow> ('m, 'o) store_world runtime \<Rightarrow> faults \<Rightarrow> ('m, 'o) store_world Context option \<Rightarrow> bool
     \<Rightarrow> ('m, 'e, 'v) operation \<Rightarrow> 'v \<Rightarrow> ('m, 'o) store_world \<Rightarrow> ('m, 'o, 'e, 'v) store_result" where
  "withState kind rt fault ctx writes operation v0 w =
     (case ctx of None \<Rightarrow> Some (([StoreContextRequired], v0), w)
      | Some c \<Rightarrow> (case ctx_Err c w of Some e \<Rightarrow> Some (([StoreContext e], v0), w)
      | None \<Rightarrow> withFileRegistryLock rt fault c defaultFileRegistryLockPoll defaultFileRegistryStaleLockAfter
          (state_body kind fault writes operation v0) v0 w))"

section \<open>Opening a store\<close>

datatype open_error = PathInvalid | OpenIO io_error | PathIsDirectory

text \<open>Whether the path names a directory is an argument. Only the parent directory is created.\<close>

definition open_store :: "faults \<Rightarrow> bool \<Rightarrow> string \<Rightarrow> ('m, 'o) store_world \<Rightarrow> open_error option \<times> ('m, 'o) store_world" where
  "open_store fault isDir path w =
     (if blank path \<or> has_control (TrimSpace path) then (Some PathInvalid, w)
      else case io_steps fault [''resolve'', ''create directory'', ''inspect''] w of
        (Some e, w1) \<Rightarrow> (Some (OpenIO e), w1)
      | (None, w1) \<Rightarrow> (if isDir then Some PathIsDirectory else None, w1))"

section \<open>What an operation leaves in the file\<close>

text \<open>The entries of a file, as a reader without faults sees them.\<close>

definition file_entries :: "('m, 'e) store_kind \<Rightarrow> 'm stored_file \<Rightarrow> (string \<times> 'm) list option" where
  "file_entries kind f =
     (case f of Absent \<Rightarrow> Some [] | Undecodable_file \<Rightarrow> None
      | Stored s \<Rightarrow>
          if ss_Version s = 1 \<and> entries_error kind (decoded (ss_Entries s)) = None then Some (decoded (ss_Entries s)) else None)"

lemma io_steps_keep: "io_steps fault steps w = (e, w') \<Longrightarrow> sw_file w' = sw_file w \<and> sw_lock w' = sw_lock w"
  by (auto dest: io_steps_world_only)

lemma open_store_keeps: "open_store fault isDir path w = (e, w') \<Longrightarrow> sw_file w' = sw_file w \<and> sw_lock w' = sw_lock w"
  by (auto simp: open_store_def io_def split: if_splits prod.splits option.splits)

lemma readState_result:
  assumes "readState kind fault w = (r, w1)"
  shows "sw_file w1 = sw_file w" and "sw_lock w1 = sw_lock w"
    and "r = Inr s \<Longrightarrow> ss_Version s = 1 \<and> file_entries kind (sw_file w) = Some (ss_Entries s)"
  using assms by (auto simp: readState_def io_def file_entries_def split: option.splits stored_file.splits if_splits)

lemma writeState_result:
  assumes "writeState kind fault s w = (err, w1)"
  shows "sw_lock w1 = sw_lock w"
    and "sw_file w1 = sw_file w \<and> err \<noteq> None \<or> sw_file w1 = Stored (s\<lparr>ss_Entries := encoded kind (ss_Entries s)\<rparr>)"
proof -
  obtain e w' where i: "io_steps fault [''create directory'', ''create temporary'', ''protect'', ''encode'', ''sync'', ''close'', ''publish''] w = (e, w')"
    by (rule prod.exhaust) (rule that)
  have "sw_lock w1 = sw_lock w \<and>
    (sw_file w1 = sw_file w \<and> err \<noteq> None \<or> sw_file w1 = Stored (s\<lparr>ss_Entries := encoded kind (ss_Entries s)\<rparr>))"
    using assms io_steps_keep[OF i] unfolding writeState_def i
    by (cases e) (auto simp: io_def split: option.splits)
  then show "sw_lock w1 = sw_lock w"
    and "sw_file w1 = sw_file w \<and> err \<noteq> None \<or> sw_file w1 = Stored (s\<lparr>ss_Entries := encoded kind (ss_Entries s)\<rparr>)" by auto
qed

text \<open>
  The file is left as it was, or the operation succeeded on the entries that were there and the file holds
  what it made of them. An operation that only reads never changes the file.
\<close>

lemma state_body_result:
  assumes "state_body kind fault writes operation v0 w = ((err, v), w')"
  shows "sw_lock w' = sw_lock w"
    and "err \<noteq> None \<and> sw_file w' = sw_file w \<or>
      (\<exists>es m. file_entries kind (sw_file w) = Some es \<and> operation es = (None, v, m) \<and>
         (if writes then sw_file w' = Stored \<lparr>ss_Version = 1, ss_Entries = encoded kind m\<rparr>
          else err = None \<and> sw_file w' = sw_file w))"
proof -
  obtain r w1 where r: "readState kind fault w = (r, w1)" by (rule prod.exhaust) (rule that)
  note keep = readState_result(1,2)[OF r]
  have "sw_lock w' = sw_lock w \<and> (err \<noteq> None \<and> sw_file w' = sw_file w \<or>
      (\<exists>es m. file_entries kind (sw_file w) = Some es \<and> operation es = (None, v, m) \<and>
         (if writes then sw_file w' = Stored \<lparr>ss_Version = 1, ss_Entries = encoded kind m\<rparr>
          else err = None \<and> sw_file w' = sw_file w)))"
  proof (cases r)
    case (Inl e)
    with assms r keep show ?thesis by (auto simp: state_body_def)
  next
    case (Inr s)
    note s = readState_result(3)[OF r Inr]
    obtain x y m where o: "operation (ss_Entries s) = (x, y, m)" by (metis prod.exhaust)
    obtain err1 w2 where wr: "writeState kind fault (s\<lparr>ss_Entries := m\<rparr>) w1 = (err1, w2)" by (rule prod.exhaust) (rule that)
    have st: "s\<lparr>ss_Entries := z\<rparr> = \<lparr>ss_Version = 1, ss_Entries = z\<rparr>" for z using s by simp
    from assms r Inr o wr writeState_result[OF wr] keep s show ?thesis
      by (cases x; cases writes) (auto simp: state_body_def st)
  qed
  then show "sw_lock w' = sw_lock w"
    and "err \<noteq> None \<and> sw_file w' = sw_file w \<or>
      (\<exists>es m. file_entries kind (sw_file w) = Some es \<and> operation es = (None, v, m) \<and>
         (if writes then sw_file w' = Stored \<lparr>ss_Version = 1, ss_Entries = encoded kind m\<rparr>
          else err = None \<and> sw_file w' = sw_file w))" by auto
qed

text \<open>Where the lock was taken.\<close>

definition locked_at ::
  "('m, 'o) store_world runtime \<Rightarrow> faults \<Rightarrow> ('m, 'o) store_world Context option \<Rightarrow> ('m, 'o) store_world \<Rightarrow> ('m, 'o) store_world \<Rightarrow> bool" where
  "locked_at rt fault ctx w w0 \<longleftrightarrow> (\<exists>c. ctx = Some c \<and> ctx_Err c w = None \<and>
     acquireFileRegistryLock rt fault c defaultFileRegistryLockPoll defaultFileRegistryStaleLockAfter w = Some (None, w0))"

definition gave_up ::
  "('m, 'o) store_world runtime \<Rightarrow> faults \<Rightarrow> ('m, 'o) store_world Context option \<Rightarrow> ('m, 'o) store_world \<Rightarrow> ('m, 'o) store_world \<Rightarrow> bool" where
  "gave_up rt fault ctx w w0 \<longleftrightarrow> w0 = w \<or> (\<exists>c e. ctx = Some c \<and>
     acquireFileRegistryLock rt fault c defaultFileRegistryLockPoll defaultFileRegistryStaleLockAfter w = Some (Some e, w0))"

lemma unlock_file [simp]: "sw_file (snd (unlock fault w)) = sw_file w"
  by (auto simp: unlock_def io_def split: option.splits)

lemma withState_result:
  assumes "withState kind rt fault ctx writes operation v0 w = Some ((errs, v), w')"
  obtains (refused) "errs \<noteq> []" "v = v0" "gave_up rt fault ctx w w'"
  | (failed) w0 where "locked_at rt fault ctx w w0" "errs \<noteq> []" "sw_file w' = sw_file w0"
  | (through) w0 es m where "locked_at rt fault ctx w w0" "file_entries kind (sw_file w0) = Some es" "operation es = (None, v, m)"
      "if writes then sw_file w' = Stored \<lparr>ss_Version = 1, ss_Entries = encoded kind m\<rparr> else sw_file w' = sw_file w0"
proof (cases "\<exists>w0. locked_at rt fault ctx w w0")
  case False
  with assms refused show thesis
    by (auto simp: withState_def withFileRegistryLock_def locked_at_def gave_up_def split: option.splits)
next
  case True
  then obtain w0 c where l: "locked_at rt fault ctx w w0" "ctx = Some c" "ctx_Err c w = None"
    "acquireFileRegistryLock rt fault c defaultFileRegistryLockPoll defaultFileRegistryStaleLockAfter w = Some (None, w0)"
    by (auto simp: locked_at_def)
  obtain err u w2 where b: "state_body kind fault writes operation v0 w0 = ((err, u), w2)" by (metis prod.exhaust)
  from assms l b have w': "w' = snd (unlock fault w2)" "u = v" "err \<noteq> None \<longrightarrow> errs \<noteq> []"
    by (auto simp: withState_def withFileRegistryLock_def map_filter_simps split: prod.splits option.splits)
  from state_body_result(2)[OF b] show thesis
  proof (elim disjE conjE exE)
    assume "err \<noteq> None" "sw_file w2 = sw_file w0"
    with w' failed[OF l(1)] show thesis by simp
  next
    fix es m
    assume "file_entries kind (sw_file w0) = Some es" "operation es = (None, u, m)"
      "if writes then sw_file w2 = Stored \<lparr>ss_Version = 1, ss_Entries = encoded kind m\<rparr> else err = None \<and> sw_file w2 = sw_file w0"
    with w' through[OF l(1), of es m] show thesis by (auto split: if_splits)
  qed
qed

lemma distinct_decoded: "distinct (map fst (decoded pairs))"
proof -
  have "distinct (map fst m) \<Longrightarrow> distinct (map fst (foldl (\<lambda>m (k, x). map_put k x m) m pairs))" for m
    by (induction pairs arbitrary: m) (auto simp: distinct_map_put)
  from this[of "[]"] show ?thesis by (simp add: decoded_def)
qed

lemma map_of_decoded: "distinct (map fst pairs) \<Longrightarrow> map_of (decoded pairs) = map_of pairs"
proof (induction pairs rule: rev_induct)
  case (snoc p pairs)
  obtain k x where p: "p = (k, x)" by (cases p)
  from snoc.prems p have "map_of pairs k = None" by (auto simp: map_of_eq_None_iff)
  then have "map_of (pairs @ [(k, x)]) = (map_of pairs)(k \<mapsto> x)" by (auto simp: map_add_def fun_eq_iff split: option.splits)
  with snoc p show ?case by (simp add: decoded_def map_of_map_put)
qed (simp add: decoded_def)

text \<open>What is written is read back, entry by entry.\<close>

lemma map_of_written:
  assumes "distinct (map fst m)" and "\<forall>k \<in> fst ` set m. valid_utf8 k = k"
  shows "map_of (decoded (encoded kind m)) = (\<lambda>k. map_option (kd_enc kind) (map_of m k))"
proof -
  have keys: "map fst (encoded kind m) = map fst (sort_key fst m)" using assms(2) by (auto simp: encoded_def)
  have d: "distinct (map fst (sort_key fst m))" using assms(1) by (simp add: distinct_map)
  have "encoded kind m = map (\<lambda>(k, x). (k, kd_enc kind x)) (sort_key fst m)" using assms(2) by (auto simp: encoded_def)
  then have "map_of (encoded kind m) = (\<lambda>k. map_option (kd_enc kind) (map_of (sort_key fst m) k))"
    by (simp add: map_of_map comp_def)
  moreover have "map_of (sort_key fst m) = map_of m"
    using assms(1) d by (intro map_of_eqI) (auto simp: map_of_eq_Some_iff)
  ultimately show ?thesis using map_of_decoded[of "encoded kind m"] d unfolding keys by simp
qed

section \<open>Taking the lock\<close>

lemma acquire_held:
  assumes "acquireFileRegistryLock rt fault ctx poll stale w = Some res"
  shows "fst res = None \<longrightarrow> sw_lock (snd res) \<noteq> None"
proof (rule acquireFileRegistryLock.raw_induct[where P = "\<lambda>_ _ _ _ _ _ res. fst res = None \<longrightarrow> sw_lock (snd res) \<noteq> None", OF _ assms])
  fix f :: "('m, 'o) store_world runtime \<Rightarrow> faults \<Rightarrow> ('m, 'o) store_world Context \<Rightarrow> int \<Rightarrow> int \<Rightarrow> ('m, 'o) store_world
     \<Rightarrow> (lock_error option \<times> ('m, 'o) store_world) option"
    and rt :: "('m, 'o) store_world runtime" and fault ctx poll stale and w :: "('m, 'o) store_world" and res
  assume IH: "\<And>rt fault ctx poll stale w res. f rt fault ctx poll stale w = Some res \<Longrightarrow> fst res = None \<longrightarrow> sw_lock (snd res) \<noteq> None"
  show "(case ctx_Err ctx w of
        Some e \<Rightarrow> Some (Some (LockContext e), w)
      | None \<Rightarrow> (case io fault ''acquire file registry lock'' w of
          (Some e, w1) \<Rightarrow> Some (Some (LockIO e), w1)
        | (None, w1) \<Rightarrow> (case sw_lock w1 of
            None \<Rightarrow> Some (None, w1\<lparr>sw_lock := Some (rt_now rt w1)\<rparr>)
          | Some modified \<Rightarrow> (case io fault ''stat'' w1 of (statErr, w2) \<Rightarrow>
              (case (if statErr = None \<and> rt_now rt w2 - modified > stale then io fault ''remove stale lock'' w2
                     else (Some (IO ''not stale'' []), w2)) of
                 (None, w3) \<Rightarrow> f rt fault ctx poll stale (w3\<lparr>sw_lock := None\<rparr>)
               | (Some _, w3) \<Rightarrow> (case timer_select rt ctx poll w3 of
                   (Some e, w4) \<Rightarrow> Some (Some (LockContext e), w4)
                 | (None, w4) \<Rightarrow> f rt fault ctx poll stale w4)))))) = Some res \<Longrightarrow>
      fst res = None \<longrightarrow> sw_lock (snd res) \<noteq> None"
    by (auto split: option.splits prod.splits if_splits dest: IH)
qed

text \<open>
  With a context that ends after a while the lock is taken or given up: \<open>left\<close> counts the waits until the end
  of the context, which reading the clock, file operations and the lock itself leave alone.
\<close>

lemma acquire_returns:
  assumes "\<And>w. ctx_Err ctx w = None \<Longrightarrow> left (rt_wait rt poll w) < (left w :: nat)"
    and "\<And>w n. left (w\<lparr>io_count := n\<rparr>) = left w" and "\<And>w l. left (w\<lparr>sw_lock := l\<rparr>) = left w"
    and "\<And>w n. ctx_Err ctx (w\<lparr>io_count := n\<rparr>) = ctx_Err ctx w"
  shows "\<exists>err w'. acquireFileRegistryLock rt fault ctx poll stale w = Some (err, w')"
proof (induction "left w" arbitrary: w rule: less_induct)
  case less
  have waits: "\<exists>err w'. (case timer_select rt ctx poll v of
       (Some e, w4) \<Rightarrow> Some (Some (LockContext e), w4)
     | (None, w4) \<Rightarrow> acquireFileRegistryLock rt fault ctx poll stale w4) = Some (err, w')"
    if "ctx_Err ctx v = None" "left v \<le> left w" for v
  proof -
    have "left (rt_wait rt poll v) < left w" using assms(1)[OF that(1)] that(2) by simp
    from less[OF this] show ?thesis by (auto simp: timer_select_def Let_def split: option.splits)
  qed
  have free: "\<exists>err w'. acquireFileRegistryLock rt fault ctx poll stale v = Some (err, w')" if "sw_lock v = None" for v
    by (subst acquireFileRegistryLock.simps) (auto simp: io_def that split: option.splits)
  show ?case
    by (subst acquireFileRegistryLock.simps)
       (auto simp: io_def assms(2,4) split: option.splits intro!: waits free)
qed

lemma acquire_free:
  assumes "sw_lock w = None" and "fault (io_count w) = None" and "ctx_Err c w = None"
  shows "acquireFileRegistryLock rt fault c poll stale w =
    Some (None, w\<lparr>io_count := Suc (io_count w), sw_lock := Some (rt_now rt (w\<lparr>io_count := Suc (io_count w)\<rparr>))\<rparr>)"
  using assms by (subst acquireFileRegistryLock.simps) (simp add: io_def)

text \<open>With the lock free, no fault and a live context an operation goes through.\<close>

lemma io_steps_faultless: "\<forall>n. fault n = None \<Longrightarrow> \<exists>w'. io_steps fault steps w = (None, w')"
  by (induction fault steps w rule: io_steps.induct) (simp_all add: io_def)

lemma state_body_faultless:
  assumes "\<forall>n. fault n = None" and "file_entries kind (sw_file w) = Some es" and "operation es = (None, v, m)"
  shows "\<exists>w'. state_body kind fault writes operation v0 w = ((None, v), w')"
proof -
  from assms(1,2) obtain s w1 where r: "readState kind fault w = (Inr s, w1)" "ss_Entries s = es"
    by (auto simp: readState_def io_def file_entries_def split: stored_file.splits if_splits)
  obtain w2 where "io_steps fault [''create directory'', ''create temporary'', ''protect'', ''encode'', ''sync'', ''close'', ''publish''] w1 = (None, w2)"
    using io_steps_faultless[OF assms(1)] by metis
  then have "\<exists>w3. writeState kind fault (s\<lparr>ss_Entries := m\<rparr>) w1 = (None, w3)"
    using assms(1) by (simp add: writeState_def io_def)
  with r assms(3) show ?thesis by (auto simp: state_body_def)
qed

lemma withState_faultless:
  assumes "\<forall>n. fault n = None" and "\<forall>w. ctx_Err c w = None" and "sw_lock w = None"
    and "file_entries kind (sw_file w) = Some es" and "operation es = (None, v, m)"
  shows "\<exists>w'. withState kind rt fault (Some c) writes operation v0 w = Some (([], v), w')"
proof -
  obtain w0 where a: "acquireFileRegistryLock rt fault c defaultFileRegistryLockPoll defaultFileRegistryStaleLockAfter w = Some (None, w0)"
    "sw_file w0 = sw_file w"
    using acquire_free[of w fault c rt] assms(1-3) by simp
  from assms(4) a(2) have "file_entries kind (sw_file w0) = Some es" by simp
  from state_body_faultless[where operation = operation, OF assms(1) this assms(5)] obtain w1 where "state_body kind fault writes operation v0 w0 = ((None, v), w1)" by blast
  with a(1) assms(1,2) show ?thesis
    by (simp add: withState_def withFileRegistryLock_def unlock_def io_def map_filter_simps)
qed

end
