(* ===== verification/Session_File.thy ===== *)
theory Session_File
  imports File_Store Session_Reuse
begin

text \<open>
  \<^verbatim>\<open>internal/certification/session_registry_file.go\<close>: the durable registry of sessions. Each operation checks its
  arguments, takes the lock, reads and checks the whole file, works on the map and replaces the file. The
  in-memory registry is its specification: an operation that succeeds answers as the in-memory one does on
  the entries the file held, and leaves in the file what the in-memory one makes of them.
\<close>

section \<open>The file\<close>

datatype file_registry_error =
    FileHashInvalid
  | FileKeyMismatch
  | FileOwnerSecret
  | FileStackInvalid
  | FileRecord registry_error

definition parseSessionFingerprintHash :: "string \<Rightarrow> file_registry_error option" where
  "parseSessionFingerprintHash hash = (if full_match fingerprintPattern hash then None else Some FileHashInvalid)"

definition check_record :: "string \<Rightarrow> SessionRecord \<Rightarrow> file_registry_error option" where
  "check_record hash r = first_err
     [parseSessionFingerprintHash hash, map_option FileRecord (SessionRecord_Validate r),
      if sr_FingerprintHash r \<noteq> hash then Some FileKeyMismatch else None]"

definition stored_fingerprint :: "ReuseFingerprint \<Rightarrow> ReuseFingerprint" where
  "stored_fingerprint f =
     \<lparr>rf_Architecture = valid_utf8 (rf_Architecture f), rf_Fixture = valid_utf8 (rf_Fixture f),
      rf_BackupSet = valid_utf8 (rf_BackupSet f), rf_Observability = valid_utf8 (rf_Observability f),
      rf_Edge = valid_utf8 (rf_Edge f), rf_ArtifactDigest = valid_utf8 (rf_ArtifactDigest f),
      rf_SchemaFingerprint = valid_utf8 (rf_SchemaFingerprint f), rf_MigrationFingerprint = valid_utf8 (rf_MigrationFingerprint f),
      rf_OwnershipMarker = valid_utf8 (rf_OwnershipMarker f), rf_StateBackend = valid_utf8 (rf_StateBackend f)\<rparr>"

definition stored_record :: "SessionRecord \<Rightarrow> SessionRecord" where
  "stored_record r =
     \<lparr>sr_SessionID = valid_utf8 (sr_SessionID r), sr_Fingerprint = stored_fingerprint (sr_Fingerprint r),
      sr_FingerprintHash = valid_utf8 (sr_FingerprintHash r), sr_StackID = valid_utf8 (sr_StackID r),
      sr_WriterID = valid_utf8 (sr_WriterID r), sr_ClaimOwner = valid_utf8 (sr_ClaimOwner r), sr_State = valid_utf8 (sr_State r),
      sr_Live = sr_Live r, sr_CleanupComplete = sr_CleanupComplete r,
      sr_OperationIDs = map valid_utf8 (sr_OperationIDs r), sr_ResourceRefs = map valid_utf8 (sr_ResourceRefs r),
      sr_FixtureRefs = map valid_utf8 (sr_FixtureRefs r), sr_MigrationRefs = map valid_utf8 (sr_MigrationRefs r),
      sr_BackupRefs = map valid_utf8 (sr_BackupRefs r), sr_TelemetryRefs = map valid_utf8 (sr_TelemetryRefs r),
      sr_EdgeRefs = map valid_utf8 (sr_EdgeRefs r), sr_PendingRefs = map valid_utf8 (sr_PendingRefs r)\<rparr>"

definition session_kind :: "(SessionRecord, file_registry_error) store_kind" where
  "session_kind = \<lparr>kd_check = check_record, kd_enc = stored_record\<rparr>"

type_synonym 'o session_world = "(SessionRecord, 'o) store_world"
type_synonym ('o, 'v) session_result = "(SessionRecord, 'o, file_registry_error, 'v) store_result"
type_synonym 'v session_operation = "(SessionRecord, file_registry_error, 'v) operation"

section \<open>Operations\<close>

definition validateSessionClaimOwner :: "string \<Rightarrow> file_registry_error option" where
  "validateSessionClaimOwner owner =
     (if blank owner \<or> has_control owner then Some (FileRecord ClaimOwnerInvalid)
      else if \<not> ValidateSecretSafeText owner then Some FileOwnerSecret else None)"

text \<open>A changed record is checked and stored under the digest.\<close>

definition store_record :: "string \<Rightarrow> SessionRecord \<Rightarrow> (string \<times> SessionRecord) list \<Rightarrow> 'v \<Rightarrow> 'v
    \<Rightarrow> file_registry_error option \<times> 'v \<times> (string \<times> SessionRecord) list" where
  "store_record digest r m v0 v =
     (case SessionRecord_Validate r of
        Some e \<Rightarrow> (Some (FileRecord e), v0, m)
      | None \<Rightarrow> (None, v, map_put digest r m))"

definition claim_operation :: "string \<Rightarrow> string \<Rightarrow> ReuseLookup option session_operation" where
  "claim_operation digest owner m =
     (case map_of m digest of
        None \<Rightarrow> (None, Some (miss_lookup no_SessionRecord ''no compatible session is registered''), m)
      | Some r \<Rightarrow>
          if SessionRecord_Validate r \<noteq> None then (Some (FileRecord RegistryInvalidRecord), None, m)
          else if sr_State r = SessionReady then
            (if sr_ClaimOwner r \<noteq> [] \<and> sr_ClaimOwner r \<noteq> owner
             then (None, Some (blocked_lookup r ''compatible session is claimed by another certification run''), m)
             else store_record digest (r\<lparr>sr_ClaimOwner := owner\<rparr>) m None (Some (ready_lookup (r\<lparr>sr_ClaimOwner := owner\<rparr>))))
          else (None, Some (unready_lookup r), m))"

definition release_operation :: "string \<Rightarrow> string \<Rightarrow> unit session_operation" where
  "release_operation digest owner m =
     (case map_of m digest of
        None \<Rightarrow> (Some (FileRecord ClaimNotFound), (), m)
      | Some r \<Rightarrow>
          if sr_ClaimOwner r = [] then (None, (), m)
          else if sr_ClaimOwner r \<noteq> owner then (Some (FileRecord ClaimOwnerMismatch), (), m)
          else store_record digest (r\<lparr>sr_ClaimOwner := []\<rparr>) m () ())"

definition put_operation :: "SessionRecord \<Rightarrow> unit session_operation" where
  "put_operation r m =
     (case map_of m (sr_FingerprintHash r) of
        Some existing \<Rightarrow>
          if sr_StackID existing \<noteq> sr_StackID r \<and> sr_Live existing then (Some (FileRecord DuplicateLiveWriter), (), m)
          else (None, (), map_put (sr_FingerprintHash r) r m)
      | None \<Rightarrow> (None, (), map_put (sr_FingerprintHash r) r m))"

definition pending_operation :: "string \<Rightarrow> string list \<Rightarrow> unit session_operation" where
  "pending_operation digest pending m =
     (case map_of m digest of
        None \<Rightarrow> (Some (FileRecord RecordNotFound), (), m)
      | Some r \<Rightarrow> store_record digest
          (r\<lparr>sr_State := SessionPendingDelete, sr_Live := True, sr_CleanupComplete := False, sr_ClaimOwner := [],
             sr_PendingRefs := pending\<rparr>) m () ())"

definition cleanup_operation :: "string \<Rightarrow> string \<Rightarrow> unit session_operation" where
  "cleanup_operation digest stackID m =
     (case map_of m digest of
        None \<Rightarrow> (Some (FileRecord CleanupIdentityNotFound), (), m)
      | Some r \<Rightarrow>
          if sr_StackID r \<noteq> stackID then (Some (FileRecord CleanupIdentityNotFound), (), m)
          else if sr_State r \<noteq> SessionPendingDelete then (Some (FileRecord CleanupRequiresPending), (), m)
          else store_record digest
            (r\<lparr>sr_State := SessionCleanupVerified, sr_Live := False, sr_CleanupComplete := True, sr_ClaimOwner := [],
               sr_PendingRefs := []\<rparr>) m () ())"

text \<open>An argument that is refused before the lock is taken.\<close>

definition refuse :: "file_registry_error \<Rightarrow> 'v \<Rightarrow> 'o session_world \<Rightarrow> ('o, 'v) session_result" where
  "refuse e v w = Some (([StoreError e], v), w)"

definition with_digest ::
  "ReuseFingerprint \<Rightarrow> 'v \<Rightarrow> (string \<Rightarrow> 'o session_world \<Rightarrow> ('o, 'v) session_result) \<Rightarrow> 'o session_world \<Rightarrow> ('o, 'v) session_result" where
  "with_digest f v body w = (case ReuseFingerprint_Digest f of Inl e \<Rightarrow> refuse (FileRecord e) v w | Inr digest \<Rightarrow> body digest w)"

definition NewFileSessionRegistry :: "faults \<Rightarrow> bool \<Rightarrow> string \<Rightarrow> 'o session_world \<Rightarrow> open_error option \<times> 'o session_world" where
  "NewFileSessionRegistry = open_store"

definition file_Lookup where
  "file_Lookup rt fault ctx f = with_digest f None
     (\<lambda>digest. withState session_kind rt fault ctx False (\<lambda>m. (None, map_of m digest, m)) None)"

definition file_Claim where
  "file_Claim rt fault ctx f owner w =
     (case validateSessionClaimOwner owner of
        Some e \<Rightarrow> refuse e None w
      | None \<Rightarrow> with_digest f None
          (\<lambda>digest. withState session_kind rt fault ctx True (claim_operation digest owner) None) w)"

definition file_ReleaseClaim where
  "file_ReleaseClaim rt fault ctx f owner w =
     (case validateSessionClaimOwner owner of
        Some e \<Rightarrow> refuse e () w
      | None \<Rightarrow> with_digest f ()
          (\<lambda>digest. withState session_kind rt fault ctx True (release_operation digest owner) ()) w)"

definition file_Put where
  "file_Put rt fault ctx r w =
     (case SessionRecord_Validate r of
        Some e \<Rightarrow> refuse (FileRecord e) () w
      | None \<Rightarrow> withState session_kind rt fault ctx True (put_operation r) () w)"

definition file_MarkPendingDeletion where
  "file_MarkPendingDeletion rt fault ctx f pending w =
     (if pending = [] then refuse (FileRecord PendingRefsRequired) () w
      else with_digest f () (\<lambda>digest. withState session_kind rt fault ctx True (pending_operation digest pending) ()) w)"

definition file_MarkCleanupVerified where
  "file_MarkCleanupVerified rt fault ctx f stackID w =
     (if blank stackID \<or> has_control stackID then refuse FileStackInvalid () w
      else with_digest f () (\<lambda>digest. withState session_kind rt fault ctx True (cleanup_operation digest stackID) ()) w)"

end
