(* ===== verification/Session_Durable.thy ===== *)
theory Session_Durable
  imports Session_File Session_Lifecycle
begin

text \<open>
  The durable registry refines the in-memory one, whatever file operations fail and whatever other processes do
  before it takes the lock.
\<close>

section \<open>Calls\<close>

datatype registry_call =
    CallLookup ReuseFingerprint
  | CallClaim ReuseFingerprint string
  | CallReleaseClaim ReuseFingerprint string
  | CallPut SessionRecord
  | CallMarkPendingDeletion ReuseFingerprint "string list"
  | CallMarkCleanupVerified ReuseFingerprint string

datatype registry_answer = Nothing | Found "SessionRecord option" | Decided "ReuseLookup option"

definition answered :: "('v \<Rightarrow> registry_answer) \<Rightarrow> ('o, 'v) session_result \<Rightarrow> ('o, registry_answer) session_result" where
  "answered f = map_option (\<lambda>((errs, v), w). ((errs, f v), w))"

fun file_call where
  "file_call rt fault ctx (CallLookup f) w = answered Found (file_Lookup rt fault ctx f w)"
| "file_call rt fault ctx (CallClaim f owner) w = answered Decided (file_Claim rt fault ctx f owner w)"
| "file_call rt fault ctx (CallReleaseClaim f owner) w = answered (\<lambda>_. Nothing) (file_ReleaseClaim rt fault ctx f owner w)"
| "file_call rt fault ctx (CallPut r) w = answered (\<lambda>_. Nothing) (file_Put rt fault ctx r w)"
| "file_call rt fault ctx (CallMarkPendingDeletion f pending) w =
     answered (\<lambda>_. Nothing) (file_MarkPendingDeletion rt fault ctx f pending w)"
| "file_call rt fault ctx (CallMarkCleanupVerified f stackID) w =
     answered (\<lambda>_. Nothing) (file_MarkCleanupVerified rt fault ctx f stackID w)"

definition done_or :: "registry_error option \<times> memory_registry \<Rightarrow> (registry_error + registry_answer) \<times> memory_registry" where
  "done_or x = (case x of (None, reg) \<Rightarrow> (Inr Nothing, reg) | (Some e, reg) \<Rightarrow> (Inl e, reg))"

fun memory_call :: "registry_call \<Rightarrow> memory_registry \<Rightarrow> (registry_error + registry_answer) \<times> memory_registry" where
  "memory_call (CallLookup f) reg = (map_sum (\<lambda>e. e) Found (memory_Lookup (Some None) f reg), reg)"
| "memory_call (CallClaim f owner) reg =
     (case memory_Claim (Some None) f owner reg of (x, reg') \<Rightarrow> (map_sum (\<lambda>e. e) (\<lambda>l. Decided (Some l)) x, reg'))"
| "memory_call (CallReleaseClaim f owner) reg = done_or (memory_ReleaseClaim (Some None) f owner reg)"
| "memory_call (CallPut r) reg = done_or (memory_Put (Some None) r reg)"
| "memory_call (CallMarkPendingDeletion f pending) reg = done_or (memory_MarkPendingDeletion (Some None) f pending reg)"
| "memory_call (CallMarkCleanupVerified f stackID) reg = done_or (memory_MarkCleanupVerified (Some None) f stackID reg)"

section \<open>Valid files\<close>

lemma valid_hash_text: "SessionRecord_Validate r = None \<Longrightarrow> valid_utf8 (sr_FingerprintHash r) = sr_FingerprintHash r"
proof -
  assume "SessionRecord_Validate r = None"
  from valid_record_digest[OF this] obtain t where "sha256_hex t = sr_FingerprintHash r"
    by (auto simp: ReuseFingerprint_Digest_def split: option.splits)
  moreover have "lower_hex s \<Longrightarrow> list_all (\<lambda>c. c < CHR 0x80) s" for s
    by (auto simp: lower_hex_def list_all_iff less_eq_char_def less_char_def)
  ultimately show ?thesis using sha256_hex_shape[of t] valid_utf8_ascii by metis
qed

lemma session_entries_valid:
  assumes "file_entries session_kind f = Some es"
  shows "records_valid (map_of es)" and "distinct (map fst es)"
proof -
  from assms show "distinct (map fst es)"
    by (auto simp: file_entries_def distinct_decoded split: stored_file.splits if_splits)
  from assms have "\<forall>(k, r) \<in> set es. check_record k r = None"
    by (auto simp: file_entries_def entries_error_def first_err_None_iff session_kind_def split: stored_file.splits if_splits)
  then show "records_valid (map_of es)"
    by (auto simp: records_valid_def check_record_def dest!: map_of_SomeD split: if_splits option.splits)
qed

definition file_map :: "SessionRecord stored_file \<Rightarrow> memory_registry" where
  "file_map f = (case f of Stored s \<Rightarrow> map_of (decoded (ss_Entries s)) | _ \<Rightarrow> Map.empty)"

lemma file_map_written:
  assumes "records_valid (map_of m)" and "distinct (map fst m)"
  shows "file_map (Stored \<lparr>ss_Version = 1, ss_Entries = encoded session_kind m\<rparr>) = (\<lambda>k. map_option stored_record (map_of m k))"
proof -
  have "valid_utf8 k = k" if "(k, r) \<in> set m" for k r
  proof -
    from assms(2) that have "map_of m k = Some r" by simp
    from records_validD(1,2)[OF assms(1) this] valid_hash_text[of r] show ?thesis by simp
  qed
  then have "\<forall>k \<in> fst ` set m. valid_utf8 k = k" by auto
  from map_of_written[OF assms(2) this, of session_kind] show ?thesis by (simp add: file_map_def session_kind_def)
qed

section \<open>Operations on the map\<close>

definition simulates ::
  "'v session_operation \<Rightarrow> (memory_registry \<Rightarrow> (registry_error + registry_answer) \<times> memory_registry) \<Rightarrow> ('v \<Rightarrow> registry_answer) \<Rightarrow> bool" where
  "simulates operation spec ans \<longleftrightarrow> (\<forall>es v m. records_valid (map_of es) \<longrightarrow> distinct (map fst es) \<longrightarrow> operation es = (None, v, m) \<longrightarrow>
     spec (map_of es) = (Inr (ans v), map_of m) \<and> records_valid (map_of m) \<and> distinct (map fst m))"

lemma store_record_stored:
  assumes "store_record digest r es v0 v = (None, v', m)" and "records_valid (map_of es)" and "distinct (map fst es)"
    and "sr_FingerprintHash r = digest"
  shows "v' = v \<and> putLocked r (map_of es) = (None, map_of m) \<and> records_valid (map_of m) \<and> distinct (map fst m)"
  using assms records_valid_update[OF assms(2), of r]
  by (auto simp: store_record_def putLocked_def map_of_map_put distinct_map_put split: option.splits)

lemma lookup_simulates:
  assumes "ReuseFingerprint_Digest f = Inr digest"
  shows "simulates (\<lambda>m. (None, map_of m digest, m)) (memory_call (CallLookup f)) Found"
  using assms by (auto simp: simulates_def memory_Lookup_def)

lemma claim_simulates:
  assumes "ReuseFingerprint_Digest f = Inr digest" and "validateSessionClaimOwner owner = None"
  shows "simulates (claim_operation digest owner) (memory_call (CallClaim f owner)) Decided"
  unfolding simulates_def
proof (intro allI impI)
  fix es v m
  assume valid: "records_valid (map_of es)" "distinct (map fst es)" and op: "claim_operation digest owner es = (None, v, m)"
  from assms(2) have owner: "\<not> blank owner" "\<not> has_control owner"
    by (auto simp: validateSessionClaimOwner_def split: if_splits)
  show "memory_call (CallClaim f owner) (map_of es) = (Inr (Decided v), map_of m) \<and> records_valid (map_of m) \<and> distinct (map fst m)"
  proof (cases "map_of es digest")
    case None
    with op valid owner assms(1) show ?thesis by (auto simp: claim_operation_def memory_Claim_def)
  next
    case (Some r)
    note r = records_validD(1,2)[OF valid(1) Some]
    let ?r = "r\<lparr>sr_ClaimOwner := owner\<rparr>"
    show ?thesis
    proof (cases "sr_State r = SessionReady \<and> (sr_ClaimOwner r = [] \<or> sr_ClaimOwner r = owner)")
      case True
      with op Some r have "store_record digest ?r es None (Some (ready_lookup ?r)) = (None, v, m)"
        by (auto simp: claim_operation_def)
      from store_record_stored[OF this valid] r True Some owner assms(1) show ?thesis
        by (auto simp: memory_Claim_def)
    next
      case False
      with op Some r valid owner assms(1) show ?thesis
        by (auto simp: claim_operation_def memory_Claim_def split: if_splits)
    qed
  qed
qed

lemma release_simulates:
  assumes "ReuseFingerprint_Digest f = Inr digest" and "validateSessionClaimOwner owner = None"
  shows "simulates (release_operation digest owner) (memory_call (CallReleaseClaim f owner)) (\<lambda>_. Nothing)"
  unfolding simulates_def
proof (intro allI impI)
  fix es v m
  assume valid: "records_valid (map_of es)" "distinct (map fst es)" and op: "release_operation digest owner es = (None, v, m)"
  from assms(2) have owner: "\<not> blank owner" "\<not> has_control owner"
    by (auto simp: validateSessionClaimOwner_def split: if_splits)
  from op obtain r where r: "map_of es digest = Some r" by (auto simp: release_operation_def split: option.splits)
  note hash = records_validD(2)[OF valid(1) r]
  show "memory_call (CallReleaseClaim f owner) (map_of es) = (Inr Nothing, map_of m) \<and> records_valid (map_of m) \<and> distinct (map fst m)"
  proof (cases "sr_ClaimOwner r = []")
    case True
    with op r valid owner assms(1) show ?thesis by (auto simp: release_operation_def memory_ReleaseClaim_def done_or_def)
  next
    case False
    with op r have "store_record digest (r\<lparr>sr_ClaimOwner := []\<rparr>) es () () = (None, (), m)" "sr_ClaimOwner r = owner"
      by (auto simp: release_operation_def split: if_splits)
    from store_record_stored[OF this(1) valid] this(2) hash r False owner assms(1) show ?thesis
      by (auto simp: memory_ReleaseClaim_def done_or_def)
  qed
qed

lemma put_simulates:
  assumes "SessionRecord_Validate r = None"
  shows "simulates (put_operation r) (memory_call (CallPut r)) (\<lambda>_. Nothing)"
  using assms records_valid_update[OF _ assms]
  by (auto simp: simulates_def put_operation_def memory_Put_def done_or_def map_of_map_put distinct_map_put
      split: option.splits if_splits)

lemma pending_simulates:
  assumes "ReuseFingerprint_Digest f = Inr digest" and "pending \<noteq> []"
  shows "simulates (pending_operation digest pending) (memory_call (CallMarkPendingDeletion f pending)) (\<lambda>_. Nothing)"
  unfolding simulates_def
proof (intro allI impI)
  fix es v m
  assume valid: "records_valid (map_of es)" "distinct (map fst es)" and op: "pending_operation digest pending es = (None, v, m)"
  from op obtain r where r: "map_of es digest = Some r" by (auto simp: pending_operation_def split: option.splits)
  let ?r = "r\<lparr>sr_State := SessionPendingDelete, sr_Live := True, sr_CleanupComplete := False, sr_ClaimOwner := [], sr_PendingRefs := pending\<rparr>"
  from op r have "store_record digest ?r es () () = (None, (), m)" by (simp add: pending_operation_def)
  from store_record_stored[OF this valid] records_validD(2)[OF valid(1) r] r assms
  show "memory_call (CallMarkPendingDeletion f pending) (map_of es) = (Inr Nothing, map_of m) \<and> records_valid (map_of m) \<and> distinct (map fst m)"
    by (auto simp: memory_MarkPendingDeletion_def done_or_def)
qed

lemma cleanup_simulates:
  assumes "ReuseFingerprint_Digest f = Inr digest"
  shows "simulates (cleanup_operation digest stackID) (memory_call (CallMarkCleanupVerified f stackID)) (\<lambda>_. Nothing)"
  unfolding simulates_def
proof (intro allI impI)
  fix es v m
  assume valid: "records_valid (map_of es)" "distinct (map fst es)" and op: "cleanup_operation digest stackID es = (None, v, m)"
  from op obtain r where r: "map_of es digest = Some r" by (auto simp: cleanup_operation_def split: option.splits)
  let ?r = "r\<lparr>sr_State := SessionCleanupVerified, sr_Live := False, sr_CleanupComplete := True, sr_ClaimOwner := [], sr_PendingRefs := []\<rparr>"
  from op r have "store_record digest ?r es () () = (None, (), m)" "sr_StackID r = stackID" "sr_State r = SessionPendingDelete"
    by (auto simp: cleanup_operation_def split: if_splits)
  from store_record_stored[OF this(1) valid] this(2,3) records_validD(2)[OF valid(1) r] r assms
  show "memory_call (CallMarkCleanupVerified f stackID) (map_of es) = (Inr Nothing, map_of m) \<and> records_valid (map_of m) \<and> distinct (map fst m)"
    by (auto simp: memory_MarkCleanupVerified_def done_or_def)
qed

section \<open>Refinement\<close>

text \<open>The outcome of a call, next to the in-memory registry.\<close>

definition refined ::
  "'o session_world runtime \<Rightarrow> faults \<Rightarrow> 'o session_world Context option \<Rightarrow> registry_call \<Rightarrow> 'o session_world
     \<Rightarrow> file_registry_error store_error list \<Rightarrow> registry_answer \<Rightarrow> 'o session_world \<Rightarrow> bool" where
  "refined rt fault ctx c w errs ans w' \<longleftrightarrow>
     errs \<noteq> [] \<and> gave_up rt fault ctx w w' \<or>
     (\<exists>w0. locked_at rt fault ctx w w0 \<and>
        (errs \<noteq> [] \<and> sw_file w' = sw_file w0 \<or>
         (\<exists>es reg'. file_entries session_kind (sw_file w0) = Some es \<and> records_valid (map_of es) \<and>
            memory_call c (map_of es) = (Inr ans, reg') \<and>
            (sw_file w' = sw_file w0 \<and> reg' = map_of es \<or> file_map (sw_file w') = (\<lambda>k. map_option stored_record (reg' k))))))"

lemma withState_refined:
  assumes "answered ans (withState session_kind rt fault ctx writes operation v0 w) = Some ((errs, a), w')"
    and "simulates operation (memory_call c) ans"
    and "\<not> writes \<Longrightarrow> \<forall>m. snd (snd (operation m)) = m"
  shows "refined rt fault ctx c w errs a w'"
proof -
  from assms(1) obtain v where v: "withState session_kind rt fault ctx writes operation v0 w = Some ((errs, v), w')" "a = ans v"
    by (auto simp: answered_def)
  from v(1) show ?thesis
  proof (cases rule: withState_result)
    case refused
    then show ?thesis by (simp add: refined_def)
  next
    case (failed w0)
    then show ?thesis unfolding refined_def by blast
  next
    case (through w0 es m)
    note valid = session_entries_valid[OF through(2)]
    from assms(2) valid through(3) have sim: "memory_call c (map_of es) = (Inr a, map_of m)" "records_valid (map_of m)" "distinct (map fst m)"
      unfolding simulates_def v(2) by blast+
    have "sw_file w' = sw_file w0 \<and> map_of m = map_of es \<or> file_map (sw_file w') = (\<lambda>k. map_option stored_record (map_of m k))"
    proof (cases writes)
      case True
      with through(4) file_map_written[OF sim(2,3)] show ?thesis by simp
    next
      case False
      with through(3,4) assms(3) show ?thesis by (auto dest!: spec[of _ es])
    qed
    with through(1,2) valid(1) sim(1) show ?thesis unfolding refined_def by blast
  qed
qed

lemma refused_refined: "answered ans (refuse e v w) = Some ((errs, a), w') \<Longrightarrow> refined rt fault ctx c w errs a w'"
  by (auto simp: answered_def refuse_def refined_def gave_up_def)

lemma file_call_refined:
  assumes "file_call rt fault ctx c w = Some ((errs, ans), w')"
  shows "refined rt fault ctx c w errs ans w'"
proof (cases c)
  case (CallLookup f)
  with assms show ?thesis
    by (auto simp: file_Lookup_def with_digest_def split: sum.splits intro: refused_refined withState_refined lookup_simulates)
next
  case (CallClaim f owner)
  with assms show ?thesis
    by (auto simp: file_Claim_def with_digest_def split: sum.splits option.splits intro: refused_refined withState_refined claim_simulates)
next
  case (CallReleaseClaim f owner)
  with assms show ?thesis
    by (auto simp: file_ReleaseClaim_def with_digest_def split: sum.splits option.splits intro: refused_refined withState_refined release_simulates)
next
  case (CallPut r)
  with assms show ?thesis
    by (auto simp: file_Put_def split: option.splits intro: refused_refined withState_refined put_simulates)
next
  case (CallMarkPendingDeletion f pending)
  with assms show ?thesis
    by (auto simp: file_MarkPendingDeletion_def with_digest_def split: sum.splits if_splits intro: refused_refined withState_refined pending_simulates)
next
  case (CallMarkCleanupVerified f stackID)
  with assms show ?thesis
    by (auto simp: file_MarkCleanupVerified_def with_digest_def split: sum.splits if_splits intro: refused_refined withState_refined cleanup_simulates)
qed

section \<open>An example\<close>

definition ex_store :: "unit session_world" where
  "ex_store = \<lparr>io_count = 0, sw_file = Stored \<lparr>ss_Version = 1, ss_Entries = [(ex_digest, ex_session)]\<rparr>, sw_lock = None, sw_rest = ()\<rparr>"

definition ex_store_rt :: "unit session_world runtime" where
  "ex_store_rt = \<lparr>rt_now = \<lambda>w. int (io_count w), rt_wait = \<lambda>_ w. w, rt_timer_wins = \<lambda>_. True\<rparr>"

lemma ex_store_entries: "file_entries session_kind (sw_file ex_store) = Some [(ex_digest, ex_session)]"
proof -
  have "full_match fingerprintPattern ex_digest" by code_simp
  then show ?thesis
    by (simp add: file_entries_def ex_store_def decoded_def map_put_def entries_error_def session_kind_def check_record_def
        parseSessionFingerprintHash_def ex_valid) (simp add: ex_session_def)
qed

lemma ex_owner: "validateSessionClaimOwner ''run-1'' = None"
  by code_simp

lemma ex_claim_operation:
  "claim_operation ex_digest ''run-1'' [(ex_digest, ex_session)] =
     (None, Some (ready_lookup ex_claimed), [(ex_digest, ex_claimed)])"
proof -
  have "sr_State ex_session = SessionReady" "sr_ClaimOwner ex_session = []" by (simp_all add: ex_session_def)
  then show ?thesis
    by (simp add: claim_operation_def ex_valid store_record_def map_put_def flip: ex_claimed_def)
qed

lemma ex_stored: "stored_record ex_claimed = ex_claimed"
  by code_simp

lemma ex_claim_call:
  "\<exists>w'. file_call ex_store_rt (\<lambda>_. None) (Some (\<lambda>_. None)) (CallClaim ex_fingerprint ''run-1'') ex_store =
     Some (([], Decided (Some (ready_lookup ex_claimed))), w')"
proof -
  have "\<exists>w'. withState session_kind ex_store_rt (\<lambda>_. None) (Some (\<lambda>_. None)) True (claim_operation ex_digest ''run-1'') None ex_store =
      Some (([], Some (ready_lookup ex_claimed)), w')"
    by (rule withState_faultless[where es = "[(ex_digest, ex_session)]" and m = "[(ex_digest, ex_claimed)]"])
       (simp_all add: ex_store_entries ex_claim_operation ctx_Err_def, simp add: ex_store_def)
  then show ?thesis by (auto simp: file_Claim_def ex_owner with_digest_def ex_fingerprint_digest answered_def)
qed

text \<open>Only the eleventh file operation fails.\<close>

definition chmod_fails :: faults where
  "chmod_fails n = (if n = 10 then Some ''permission denied'' else None)"

section \<open>Properties\<close>

text \<open>
  C28. The durable registry refines the in-memory one. Whatever file operations fail and whatever other processes
  do before the lock is taken, a call that returns has reported an error without ever holding the lock, or has
  reported an error and left the file as it found it, or it found a file of valid records, answers what the
  in-memory registry answers on them, and leaves in the file what the in-memory registry makes of them, as
  encoding and decoding keep it. In particular a call without an error always agrees with the in-memory registry.
\<close>

theorem file_registry_refines_memory:
  assumes "file_call rt fault ctx c w = Some ((errs, ans), w')"
  shows "errs \<noteq> [] \<and> gave_up rt fault ctx w w' \<or>
     (\<exists>w0. locked_at rt fault ctx w w0 \<and>
        (errs \<noteq> [] \<and> sw_file w' = sw_file w0 \<or>
         (\<exists>es reg'. file_entries session_kind (sw_file w0) = Some es \<and> records_valid (map_of es) \<and>
            memory_call c (map_of es) = (Inr ans, reg') \<and>
            (sw_file w' = sw_file w0 \<and> reg' = map_of es \<or> file_map (sw_file w') = (\<lambda>k. map_option stored_record (reg' k))))))"
  using file_call_refined[OF assms] unfolding refined_def .

theorem file_registry_refines_memory_witness:
  "\<exists>w' (w0 :: unit session_world) es reg'. file_call ex_store_rt (\<lambda>_. None) (Some (\<lambda>_. None)) (CallClaim ex_fingerprint ''run-1'') ex_store =
       Some (([], Decided (Some (ready_lookup ex_claimed))), w') \<and>
     file_entries session_kind (sw_file w0) = Some es \<and>
     memory_call (CallClaim ex_fingerprint ''run-1'') (map_of es) = (Inr (Decided (Some (ready_lookup ex_claimed))), reg')"
proof -
  from ex_claim_call obtain w' where w': "file_call ex_store_rt (\<lambda>_. None) (Some (\<lambda>_. None)) (CallClaim ex_fingerprint ''run-1'') ex_store =
     Some (([], Decided (Some (ready_lookup ex_claimed))), w')" by blast
  from file_registry_refines_memory[OF w'] obtain w0 :: "unit session_world" and es reg' where "file_entries session_kind (sw_file w0) = Some es"
    "memory_call (CallClaim ex_fingerprint ''run-1'') (map_of es) = (Inr (Decided (Some (ready_lookup ex_claimed))), reg')"
    by (auto simp del: memory_call.simps)
  with w' show ?thesis by (intro exI conjI)
qed

text \<open>
  A claim can be written and reported as failed: when the protection of the published file fails, the
  claim is in the file, and the caller gets an error. The registry stays claimed by an owner that was told
  it has nothing.
\<close>

lemma failed_claim_stays_claimed:
  "\<exists>l w'. file_Claim ex_store_rt chmod_fails (Some (\<lambda>_. None)) ex_fingerprint ''run-1'' ex_store =
       Some (([StoreIO (IO ''chmod'' ''permission denied'')], l), w') \<and>
     map_option sr_ClaimOwner (file_map (sw_file w') ex_digest) = Some ''run-1'' \<and> sw_lock w' = None"
proof -
  have entries: "decoded [(ex_digest, ex_session)] = [(ex_digest, ex_session)]"
    "entries_error session_kind [(ex_digest, ex_session)] = None"
    using ex_store_entries by (auto simp: file_entries_def ex_store_def decoded_def map_put_def split: if_splits)
  have enc: "encoded session_kind [(ex_digest, ex_claimed)] = [(ex_digest, ex_claimed)]"
    using valid_hash_text[OF ex_valid(2)] by (simp add: encoded_def session_kind_def ex_stored) (simp add: ex_claimed_def ex_session_def)
  let ?w = "\<lparr>io_count = 1, sw_file = Stored \<lparr>ss_Version = 1, ss_Entries = [(ex_digest, ex_session)]\<rparr>, sw_lock = Some 1, sw_rest = ()\<rparr>
    :: unit session_world"
  have lock: "acquireFileRegistryLock ex_store_rt chmod_fails (\<lambda>_. None) defaultFileRegistryLockPoll defaultFileRegistryStaleLockAfter ex_store =
      Some (None, ?w)"
    by (subst acquire_free) (simp_all add: ex_store_def chmod_fails_def ctx_Err_def ex_store_rt_def)
  have body: "state_body session_kind chmod_fails True (claim_operation ex_digest ''run-1'') None ?w =
      ((Some (StoreIO (IO ''chmod'' ''permission denied'')), Some (ready_lookup ex_claimed)),
       \<lparr>io_count = 11, sw_file = Stored \<lparr>ss_Version = 1, ss_Entries = [(ex_digest, ex_claimed)]\<rparr>, sw_lock = Some 1, sw_rest = ()\<rparr>)"
    by (simp add: state_body_def readState_def writeState_def io_def chmod_fails_def entries ex_claim_operation enc)
  have "map_option sr_ClaimOwner (map_of (decoded [(ex_digest, ex_claimed)]) ex_digest) = Some ''run-1''"
    by (simp add: decoded_def map_put_def ex_claimed_def)
  with lock body show ?thesis
    by (simp add: file_Claim_def ex_owner with_digest_def ex_fingerprint_digest withState_def withFileRegistryLock_def
        ctx_Err_def unlock_def io_def chmod_fails_def map_filter_simps file_map_def)
qed

end
