(* ===== verification/Checkpoint_File.thy ===== *)
theory Checkpoint_File
  imports Session_File Schedule_Data Go_Time
begin

text \<open>
  \<^verbatim>\<open>internal/certification/schedule_checkpoint_file.go\<close>: the durable checkpoints of a run, one per cell. A save
  merges the checkpoints of a unit into the file; it may change the status of a cell, never the fingerprint or
  the ownership scope under which the cell was recorded first.
\<close>

section \<open>Checkpoints\<close>

datatype file_checkpoint_error =
    CheckpointsRequired
  | FileCheckpointSecretLike
  | FileCheckpointCell
  | FileCheckpointFingerprint string
  | FileCheckpointOwner string
  | FileCheckpointStatus string string
  | FileCheckpointReuse string registry_error
  | FileCheckpointReuseMismatch string
  | FileCheckpointUpdatedAt string
  | FileCheckpointKey
  | FileCheckpointStale string

definition file_checkpoint_reuse :: "SchedulerCheckpoint \<Rightarrow> file_checkpoint_error option" where
  "file_checkpoint_reuse k =
     (case sk_ReuseFingerprint k of
        None \<Rightarrow> None
      | Some f \<Rightarrow> (case ReuseFingerprint_Validate f of
          Some e \<Rightarrow> Some (FileCheckpointReuse (sk_CellID k) e)
        | None \<Rightarrow> (case ReuseFingerprint_Digest f of
            Inl e \<Rightarrow> Some (FileCheckpointReuse (sk_CellID k) e)
          | Inr digest \<Rightarrow>
              if digest \<noteq> sk_Fingerprint k \<or> rf_OwnershipMarker f \<noteq> sk_OwnershipMarker k
              then Some (FileCheckpointReuseMismatch (sk_CellID k)) else None)))"

definition validateFileScheduleCheckpoint :: "SchedulerCheckpoint \<Rightarrow> file_checkpoint_error option" where
  "validateFileScheduleCheckpoint k = first_err
     [first_failure
        [(\<not> ValidateSecretSafeValue (SchedulerCheckpoint_json k), FileCheckpointSecretLike),
         (blank (sk_CellID k) \<or> has_control (sk_CellID k), FileCheckpointCell),
         (\<not> full_match fingerprintPattern (sk_Fingerprint k), FileCheckpointFingerprint (sk_CellID k)),
         (blank (sk_OwnershipMarker k) \<or> has_control (sk_OwnershipMarker k), FileCheckpointOwner (sk_CellID k)),
         (sk_Status k \<notin> set [''PASS'', ''FAIL'', ''PENDING'', ''IN_PROGRESS''], FileCheckpointStatus (sk_CellID k) (sk_Status k))],
      file_checkpoint_reuse k,
      if sk_UpdatedAt k \<noteq> [] \<and> parse_rfc3339 (sk_UpdatedAt k) = None then Some (FileCheckpointUpdatedAt (sk_CellID k)) else None]"

definition check_stored_checkpoint :: "string \<Rightarrow> SchedulerCheckpoint \<Rightarrow> file_checkpoint_error option" where
  "check_stored_checkpoint cellID k = first_err
     [if sk_CellID k \<noteq> cellID then Some FileCheckpointKey else None, validateFileScheduleCheckpoint k]"

definition stored_checkpoint :: "SchedulerCheckpoint \<Rightarrow> SchedulerCheckpoint" where
  "stored_checkpoint k =
     \<lparr>sk_CellID = valid_utf8 (sk_CellID k), sk_Fingerprint = valid_utf8 (sk_Fingerprint k),
      sk_ReuseFingerprint = map_option stored_fingerprint (sk_ReuseFingerprint k),
      sk_OwnershipMarker = valid_utf8 (sk_OwnershipMarker k), sk_Status = valid_utf8 (sk_Status k),
      sk_StackID = valid_utf8 (sk_StackID k), sk_OperationIDs = map valid_utf8 (sk_OperationIDs k),
      sk_ResourceRefs = map valid_utf8 (sk_ResourceRefs k), sk_BackupRefs = map valid_utf8 (sk_BackupRefs k),
      sk_RestoreRefs = map valid_utf8 (sk_RestoreRefs k), sk_TelemetryRefs = map valid_utf8 (sk_TelemetryRefs k),
      sk_EdgeRefs = map valid_utf8 (sk_EdgeRefs k), sk_ReuseMode = valid_utf8 (sk_ReuseMode k),
      sk_CleanupState = valid_utf8 (sk_CleanupState k), sk_UpdatedAt = valid_utf8 (sk_UpdatedAt k)\<rparr>"

definition checkpoint_kind :: "(SchedulerCheckpoint, file_checkpoint_error) store_kind" where
  "checkpoint_kind = \<lparr>kd_check = check_stored_checkpoint, kd_enc = stored_checkpoint\<rparr>"

section \<open>Saving and loading\<close>

fun save_operation :: "SchedulerCheckpoint list \<Rightarrow> (SchedulerCheckpoint, file_checkpoint_error, unit) operation" where
  "save_operation [] m = (None, (), m)"
| "save_operation (k # ks) m =
     (case map_of m (sk_CellID k) of
        Some existing \<Rightarrow>
          if sk_Fingerprint existing \<noteq> sk_Fingerprint k \<or> sk_OwnershipMarker existing \<noteq> sk_OwnershipMarker k
          then (Some (FileCheckpointStale (sk_CellID k)), (), m)
          else save_operation ks (map_put (sk_CellID k) k m)
      | None \<Rightarrow> save_operation ks (map_put (sk_CellID k) k m))"

definition NewFileScheduleCheckpointStore ::
  "faults \<Rightarrow> bool \<Rightarrow> string \<Rightarrow> (SchedulerCheckpoint, 'o) store_world \<Rightarrow> open_error option \<times> (SchedulerCheckpoint, 'o) store_world" where
  "NewFileScheduleCheckpointStore = open_store"

definition checkpoint_withState where
  "checkpoint_withState rt fault ctx writes operation v0 w = withState checkpoint_kind rt fault ctx writes operation v0 w"

definition Save where
  "Save rt fault ctx ks w =
     (if ks = [] then Some (([StoreError CheckpointsRequired], ()), w)
      else case first_err (map validateFileScheduleCheckpoint ks) of
        Some e \<Rightarrow> Some (([StoreError e], ()), w)
      | None \<Rightarrow> checkpoint_withState rt fault ctx True (save_operation ks) () w)"

definition cloneScheduleCheckpoints :: "(string \<times> SchedulerCheckpoint) list \<Rightarrow> SchedulerCheckpoint list" where
  "cloneScheduleCheckpoints m = sort_key sk_CellID (map snd m)"

definition Load where
  "Load rt fault ctx w = checkpoint_withState rt fault ctx False (\<lambda>m. (None, cloneScheduleCheckpoints m, m)) [] w"

section \<open>What a save leaves\<close>

text \<open>A checkpoint whose texts encoding and decoding leave as they are.\<close>

definition plain_text :: "SchedulerCheckpoint \<Rightarrow> bool" where
  "plain_text k \<longleftrightarrow> stored_checkpoint k = k"

definition merged :: "SchedulerCheckpoint list \<Rightarrow> (string \<rightharpoonup> SchedulerCheckpoint) \<Rightarrow> string \<rightharpoonup> SchedulerCheckpoint" where
  "merged ks f = foldl (\<lambda>f k. f(sk_CellID k \<mapsto> k)) f ks"

definition same_scope :: "SchedulerCheckpoint \<Rightarrow> SchedulerCheckpoint \<Rightarrow> bool" where
  "same_scope k k' \<longleftrightarrow> sk_Fingerprint k' = sk_Fingerprint k \<and> sk_OwnershipMarker k' = sk_OwnershipMarker k"

lemma save_operation_result:
  assumes "save_operation ks m = (None, u, m')" and "distinct (map fst m)"
  shows "map_of m' = merged ks (map_of m)" and "distinct (map fst m')"
    and "\<forall>p \<in> set m'. p \<in> set m \<or> (snd p \<in> set ks \<and> fst p = sk_CellID (snd p))"
    and "\<forall>c k. map_of m c = Some k \<longrightarrow> (\<exists>k'. map_of m' c = Some k' \<and> same_scope k k')"
proof -
  from assms have "map_of m' = merged ks (map_of m) \<and> distinct (map fst m') \<and>
    (\<forall>p \<in> set m'. p \<in> set m \<or> (snd p \<in> set ks \<and> fst p = sk_CellID (snd p))) \<and>
    (\<forall>c k. map_of m c = Some k \<longrightarrow> (\<exists>k'. map_of m' c = Some k' \<and> same_scope k k'))"
  proof (induction ks m rule: save_operation.induct)
    case (1 m)
    then show ?case by (auto simp: merged_def same_scope_def)
  next
    case (2 k ks m)
    let ?m = "map_put (sk_CellID k) k m"
    from 2(3) have scope: "map_of m (sk_CellID k) = Some k0 \<Longrightarrow> same_scope k0 k" for k0
      by (auto simp: same_scope_def split: if_splits)
    from 2(3) have run: "save_operation ks ?m = (None, u, m')" by (auto split: option.splits if_splits)
    have "map_of m' = merged ks (map_of ?m) \<and> distinct (map fst m') \<and>
      (\<forall>p \<in> set m'. p \<in> set ?m \<or> (snd p \<in> set ks \<and> fst p = sk_CellID (snd p))) \<and>
      (\<forall>c k. map_of ?m c = Some k \<longrightarrow> (\<exists>k'. map_of m' c = Some k' \<and> same_scope k k'))"
    proof (cases "map_of m (sk_CellID k)")
      case None
      from 2(1)[OF None run distinct_map_put[OF 2(4)]] show ?thesis .
    next
      case (Some k0)
      with 2(3) have "\<not> (sk_Fingerprint k0 \<noteq> sk_Fingerprint k \<or> sk_OwnershipMarker k0 \<noteq> sk_OwnershipMarker k)"
        by (auto split: if_splits)
      from 2(2)[OF Some this run distinct_map_put[OF 2(4)]] show ?thesis .
    qed
    then have IH: "map_of m' = merged ks (map_of ?m)" "distinct (map fst m')"
      "\<forall>p \<in> set m'. p \<in> set ?m \<or> (snd p \<in> set ks \<and> fst p = sk_CellID (snd p))"
      "\<And>c k. map_of ?m c = Some k \<Longrightarrow> \<exists>k'. map_of m' c = Some k' \<and> same_scope k k'" by blast+
    have "\<exists>k'. map_of m' c = Some k' \<and> same_scope k1 k'" if "map_of m c = Some k1" for c k1
    proof (cases "c = sk_CellID k")
      case True
      with IH(4)[of c k] scope[of k1] that show ?thesis by (auto simp: map_of_map_put same_scope_def)
    next
      case False
      with IH(4)[of c k1] that show ?thesis by (simp add: map_of_map_put)
    qed
    moreover have "map_of m' = merged (k # ks) (map_of m)" by (simp add: IH(1) merged_def map_of_map_put)
    moreover have "\<forall>p \<in> set m'. p \<in> set m \<or> (snd p \<in> set (k # ks) \<and> fst p = sk_CellID (snd p))"
    proof
      fix p assume "p \<in> set m'"
      with IH(3) show "p \<in> set m \<or> (snd p \<in> set (k # ks) \<and> fst p = sk_CellID (snd p))" by (auto simp: map_put_def)
    qed
    ultimately show ?case using IH(2) by blast
  qed
  then show "map_of m' = merged ks (map_of m)" and "distinct (map fst m')"
    and "\<forall>p \<in> set m'. p \<in> set m \<or> (snd p \<in> set ks \<and> fst p = sk_CellID (snd p))"
    and "\<forall>c k. map_of m c = Some k \<longrightarrow> (\<exists>k'. map_of m' c = Some k' \<and> same_scope k k')" by blast+
qed

lemma checkpoint_entries_valid:
  assumes "file_entries checkpoint_kind f = Some es"
  shows "\<forall>(c, k) \<in> set es. check_stored_checkpoint c k = None" and "distinct (map fst es)"
  using assms distinct_decoded
  by (auto simp: file_entries_def entries_error_def first_err_None_iff checkpoint_kind_def split: stored_file.splits if_splits)

lemma checkpoint_written:
  assumes "distinct (map fst m)" and "\<And>c k. (c, k) \<in> set m \<Longrightarrow> check_stored_checkpoint c k = None \<and> plain_text k"
  shows "\<exists>m'. file_entries checkpoint_kind (Stored \<lparr>ss_Version = 1, ss_Entries = encoded checkpoint_kind m\<rparr>) = Some m' \<and>
           map_of m' = map_of m"
proof -
  let ?m = "decoded (encoded checkpoint_kind m)"
  have key: "valid_utf8 c = c \<and> stored_checkpoint k = k" if "(c, k) \<in> set m" for c k
  proof -
    from assms(2)[OF that] have "sk_CellID k = c" "stored_checkpoint k = k"
      by (auto simp: check_stored_checkpoint_def plain_text_def split: if_splits)
    then show ?thesis by (metis SchedulerCheckpoint.select_convs(1) stored_checkpoint_def)
  qed
  then have "\<forall>c \<in> fst ` set m. valid_utf8 c = c" by auto
  from map_of_written[OF assms(1) this, of checkpoint_kind] have "map_of ?m = (\<lambda>c. map_option stored_checkpoint (map_of m c))"
    by (simp add: checkpoint_kind_def)
  also have "\<dots> = map_of m"
  proof
    fix c show "map_option stored_checkpoint (map_of m c) = map_of m c"
      using key by (cases "map_of m c") (auto dest: map_of_SomeD)
  qed
  finally have same: "map_of ?m = map_of m" .
  then have "set ?m = set m" using map_of_inject_set[OF distinct_decoded assms(1)] by metis
  with assms(2) have "entries_error checkpoint_kind ?m = None"
    by (auto simp: entries_error_def first_err_None_iff checkpoint_kind_def)
  with same show ?thesis by (simp add: file_entries_def)
qed

text \<open>
  However often and by however many processes checkpoints are saved, a cell keeps the fingerprint and the
  ownership scope of its first checkpoint. Whatever file operations fail, a save that returns has reported an error
  without ever holding the lock, or has reported an error and left the file as it was, or it found a readable file
  and the file is the old one with the given checkpoints merged in, the last one of a cell winning, where no
  cell changed its scope; the new file can be read again. (Texts that are not UTF-8 are left aside.)
\<close>

lemma saved_checkpoints_keep_scope:
  assumes "Save rt fault ctx ks w = Some ((errs, u), w')"
    and "\<And>w0 es c k. locked_at rt fault ctx w w0 \<Longrightarrow> file_entries checkpoint_kind (sw_file w0) = Some es \<Longrightarrow>
           (c, k) \<in> set es \<or> k \<in> set ks \<Longrightarrow> plain_text k"
  shows "errs \<noteq> [] \<and> gave_up rt fault ctx w w' \<or>
     (\<exists>w0. locked_at rt fault ctx w w0 \<and>
        (errs \<noteq> [] \<and> sw_file w' = sw_file w0 \<or>
         (\<exists>es m. file_entries checkpoint_kind (sw_file w0) = Some es \<and> file_entries checkpoint_kind (sw_file w') = Some m \<and>
            map_of m = merged ks (map_of es) \<and>
            (\<forall>c k. map_of es c = Some k \<longrightarrow> (\<exists>k'. map_of m c = Some k' \<and> same_scope k k')))))"
proof (cases "ks = [] \<or> first_err (map validateFileScheduleCheckpoint ks) \<noteq> None")
  case True
  with assms(1) show ?thesis by (auto simp: Save_def gave_up_def split: if_splits option.splits)
next
  case False
  then have valid: "\<forall>k \<in> set ks. validateFileScheduleCheckpoint k = None" by (auto simp: first_err_None_iff)
  from False assms(1) have "withState checkpoint_kind rt fault ctx True (save_operation ks) () w = Some ((errs, u), w')"
    by (simp add: Save_def checkpoint_withState_def)
  then show ?thesis
  proof (cases rule: withState_result)
    case refused
    then show ?thesis by blast
  next
    case (failed w0)
    then show ?thesis by blast
  next
    case (through w0 es m)
    note es = checkpoint_entries_valid[OF through(2)]
    note op = save_operation_result[OF through(3) es(2)]
    have good: "check_stored_checkpoint c k = None \<and> plain_text k" if "(c, k) \<in> set m" for c k
      using op(3) that es(1) valid assms(2)[OF through(1,2), of c k]
      by (fastforce simp: check_stored_checkpoint_def)
    from checkpoint_written[OF op(2)] good through(4) have
      "\<exists>m'. file_entries checkpoint_kind (sw_file w') = Some m' \<and> map_of m' = map_of m" by auto
    with through(1,2) op(1,4) show ?thesis by metis
  qed
qed

definition ex_saved :: SchedulerCheckpoint where
  "ex_saved = \<lparr>sk_CellID = ''a'', sk_Fingerprint = replicate 64 CHR ''a'', sk_ReuseFingerprint = None, sk_OwnershipMarker = ''o'',
     sk_Status = ''PASS'', sk_StackID = [], sk_OperationIDs = [], sk_ResourceRefs = [], sk_BackupRefs = [], sk_RestoreRefs = [],
     sk_TelemetryRefs = [], sk_EdgeRefs = [], sk_ReuseMode = [], sk_CleanupState = [], sk_UpdatedAt = []\<rparr>"

definition ex_empty_store :: "(SchedulerCheckpoint, unit) store_world" where
  "ex_empty_store = \<lparr>io_count = 0, sw_file = Absent, sw_lock = None, sw_rest = ()\<rparr>"

definition ex_checkpoint_rt :: "(SchedulerCheckpoint, unit) store_world runtime" where
  "ex_checkpoint_rt = \<lparr>rt_now = \<lambda>w. int (io_count w), rt_wait = \<lambda>_ w. w, rt_timer_wins = \<lambda>_. True\<rparr>"

lemma ex_saved_valid: "validateFileScheduleCheckpoint ex_saved = None" "plain_text ex_saved"
  by code_simp+

lemma ex_saved_call: "\<exists>w'. Save ex_checkpoint_rt (\<lambda>_. None) (Some (\<lambda>_. None)) [ex_saved] ex_empty_store = Some (([], ()), w')"
  unfolding Save_def checkpoint_withState_def using ex_saved_valid(1)
  by (simp, intro withState_faultless[where es = "[]" and m = "[(''a'', ex_saved)]"])
     (simp_all add: ctx_Err_def ex_empty_store_def file_entries_def map_put_def, simp_all add: ex_saved_def)

end
