(* ===== verification/File_Lock.thy ===== *)
theory File_Lock
  imports Main
begin

text \<open>
  The lock of \<^verbatim>\<open>internal/certification/file_lock.go\<close> between processes. A process moves from one system call of
  \<^verbatim>\<open>acquireFileRegistryLock\<close> to the next; the calls of different processes interleave, time passes in between, and
  a process may die while it holds the lock. The lock excludes as long as no lock grows older than
  \<^verbatim>\<open>staleAfter\<close>; the removal of a stale lock does not.
\<close>

datatype lock_position =
    Outside
  | Trying
  | Refused
  | Removing
  | Pausing
  | Critical
  | Dead

record lock_system =
  ly_dir :: "int option"
  ly_now :: int
  ly_at :: "nat \<Rightarrow> lock_position"

definition go :: "nat \<Rightarrow> lock_position \<Rightarrow> lock_system \<Rightarrow> lock_system" where
  "go i p s = s\<lparr>ly_at := (ly_at s)(i := p)\<rparr>"

inductive lock_step :: "int \<Rightarrow> lock_system \<Rightarrow> lock_system \<Rightarrow> bool" for staleAfter :: int where
  time: "0 \<le> d \<Longrightarrow> lock_step staleAfter s (s\<lparr>ly_now := ly_now s + d\<rparr>)"
| start: "ly_at s i = Outside \<Longrightarrow> lock_step staleAfter s (go i Trying s)"
| ended: "ly_at s i = Trying \<or> ly_at s i = Pausing \<Longrightarrow> lock_step staleAfter s (go i Outside s)"
| mkdir: "ly_at s i = Trying \<Longrightarrow> ly_dir s = None \<Longrightarrow> lock_step staleAfter s ((go i Critical s)\<lparr>ly_dir := Some (ly_now s)\<rparr>)"
| exists: "ly_at s i = Trying \<Longrightarrow> ly_dir s \<noteq> None \<Longrightarrow> lock_step staleAfter s (go i Refused s)"
| stale: "ly_at s i = Refused \<Longrightarrow> ly_dir s = Some modified \<Longrightarrow> ly_now s - modified > staleAfter \<Longrightarrow> lock_step staleAfter s (go i Removing s)"
| fresh: "ly_at s i = Refused \<Longrightarrow> \<forall>modified. ly_dir s = Some modified \<longrightarrow> \<not> ly_now s - modified > staleAfter \<Longrightarrow>
    lock_step staleAfter s (go i Pausing s)"
| stat_failed: "ly_at s i = Refused \<Longrightarrow> lock_step staleAfter s (go i Pausing s)"
| remove: "ly_at s i = Removing \<Longrightarrow> lock_step staleAfter s ((go i Trying s)\<lparr>ly_dir := None\<rparr>)"
| remove_failed: "ly_at s i = Removing \<Longrightarrow> lock_step staleAfter s (go i Pausing s)"
| polled: "ly_at s i = Pausing \<Longrightarrow> lock_step staleAfter s (go i Trying s)"
| unlock: "ly_at s i = Critical \<Longrightarrow> lock_step staleAfter s ((go i Outside s)\<lparr>ly_dir := None\<rparr>)"
| dies: "ly_at s i = Critical \<Longrightarrow> lock_step staleAfter s (go i Dead s)"

inductive_simps lock_step_simps: "lock_step staleAfter s t"










definition lock_idle :: lock_system where
  "lock_idle = \<lparr>ly_dir = None, ly_now = 0, ly_at = \<lambda>_. Outside\<rparr>"


text \<open>
  C30. Removing a stale lock breaks the exclusion. A process dies with the lock; two others both find it stale; the
  first removes it and takes the lock, the second removes the lock that the first has just taken and takes
  it too. Both are inside at once.
\<close>

theorem stale_lock_admits_two:
  "\<exists>s. (lock_step 300)\<^sup>*\<^sup>* lock_idle s \<and> ly_at s 1 = Critical \<and> ly_at s 2 = Critical"
proof -
  define a where "a = (go 0 Critical (go 0 Trying lock_idle))\<lparr>ly_dir := Some 0\<rparr>"
  define b where "b = (go 0 Dead a)\<lparr>ly_now := 301\<rparr>"
  define c where "c = go 1 Removing (go 1 Refused (go 1 Trying b))"
  define d where "d = go 2 Removing (go 2 Refused (go 2 Trying c))"
  define e where "e = (go 1 Critical ((go 1 Trying d)\<lparr>ly_dir := None\<rparr>))\<lparr>ly_dir := Some 301\<rparr>"
  define f where "f = (go 2 Critical ((go 2 Trying e)\<lparr>ly_dir := None\<rparr>))\<lparr>ly_dir := Some 301\<rparr>"
  note defs = lock_idle_def go_def a_def b_def c_def d_def e_def f_def
  have "(lock_step 300)\<^sup>*\<^sup>* lock_idle a"
    using lock_step.start[of lock_idle 0 300] lock_step.mkdir[of "go 0 Trying lock_idle" 0 300] by (simp add: defs)
  also have "(lock_step 300)\<^sup>*\<^sup>* a b"
    using lock_step.dies[of a 0 300] lock_step.time[of 301 300 "go 0 Dead a"] by (simp add: defs)
  also have "(lock_step 300)\<^sup>*\<^sup>* b c"
    using lock_step.start[of b 1 300] lock_step.exists[of "go 1 Trying b" 1 300]
      lock_step.stale[of "go 1 Refused (go 1 Trying b)" 1 0 300] by (simp add: defs)
  also have "(lock_step 300)\<^sup>*\<^sup>* c d"
    using lock_step.start[of c 2 300] lock_step.exists[of "go 2 Trying c" 2 300]
      lock_step.stale[of "go 2 Refused (go 2 Trying c)" 2 0 300] by (simp add: defs)
  also have "(lock_step 300)\<^sup>*\<^sup>* d e"
    using lock_step.remove[of d 1 300] lock_step.mkdir[of "(go 1 Trying d)\<lparr>ly_dir := None\<rparr>" 1 300] by (simp add: defs)
  also have "(lock_step 300)\<^sup>*\<^sup>* e f"
    using lock_step.remove[of e 2 300] lock_step.mkdir[of "(go 2 Trying e)\<lparr>ly_dir := None\<rparr>" 2 300] by (simp add: defs)
  finally show ?thesis by (intro exI[of _ f]) (simp add: defs)
qed

end
