(* ===== verification/Go_Float.thy ===== *)
theory Go_Float
  imports Complex_Main
begin

text \<open>
  Go's \<^verbatim>\<open>float64\<close>, as far as the sources go: they compare such values and never compute with them. A finite
  value is the rational number it denotes; the two zeros compare equal and are one value here. No comparison
  with \<^verbatim>\<open>NaN\<close> holds, \<^verbatim>\<open>==\<close> included.
\<close>

datatype float64 = NaN | NegInf | Finite rat | PosInf

text \<open>\<^verbatim>\<open>a < b\<close>\<close>

fun float_less :: "float64 \<Rightarrow> float64 \<Rightarrow> bool" where
  "float_less NaN b = False"
| "float_less a NaN = False"
| "float_less NegInf b = (b \<noteq> NegInf)"
| "float_less (Finite x) (Finite y) = (x < y)"
| "float_less (Finite x) b = (b = PosInf)"
| "float_less PosInf b = False"

text \<open>\<^verbatim>\<open>a == b\<close>, \<^verbatim>\<open>a <= b\<close>\<close>

definition float_eq :: "float64 \<Rightarrow> float64 \<Rightarrow> bool" where
  "float_eq a b \<longleftrightarrow> a = b \<and> a \<noteq> NaN"

definition float_le :: "float64 \<Rightarrow> float64 \<Rightarrow> bool" where
  "float_le a b \<longleftrightarrow> float_less a b \<or> float_eq a b"

lemma float_NaN [simp]:
  "\<not> float_less a NaN" "\<not> float_eq NaN b" "\<not> float_eq a NaN" "\<not> float_le NaN b" "\<not> float_le a NaN"
  by (cases a; simp add: float_eq_def float_le_def)+

lemma float_eq_imp [dest]: "float_eq a b \<Longrightarrow> a = b"
  by (simp add: float_eq_def)

text \<open>Apart from \<^verbatim>\<open>NaN\<close> the comparison is a linear order, so that a range check means what it says.\<close>

lemma float_not_less:
  assumes "a \<noteq> NaN" and "b \<noteq> NaN"
  shows "\<not> float_less a b \<longleftrightarrow> float_le b a"
  using assms by (cases a; cases b) (auto simp: float_le_def float_eq_def)

lemma float_le_trans: "float_le a b \<Longrightarrow> float_le b c \<Longrightarrow> float_le a c"
  by (cases a; cases b; cases c) (auto simp: float_le_def float_eq_def)

end
