(* ===== verification/Observability_Intent.thy ===== *)
theory Observability_Intent
  imports Edge_Contract Go_Float
begin

text \<open>
  The observability intent of \<^verbatim>\<open>sdk/types.go\<close> and its validation in \<^verbatim>\<open>sdk/contracts.go\<close>. The labels are a Go
  map: an association list without repeated keys, whose order decides only which of several bad labels is
  reported.
\<close>

record AlertIntent =
  al_ID :: string
  al_Signal :: string
  al_Severity :: string
  al_Operator :: string
  al_Threshold :: float64
  al_WindowSeconds :: int
  al_Owner :: string
  al_RunbookURL :: string
  al_DeduplicationKey :: string
  al_MaintenancePolicyRef :: string

record DashboardIntent =
  db_ID :: string
  db_Signals :: "string list"
  db_Owner :: string

record SLOIntent =
  so_ID :: string
  so_Signal :: string
  so_Target :: float64
  so_WindowSeconds :: int
  so_Owner :: string
  so_RunbookURL :: string
  so_ErrorBudgetPolicy :: string

record ObservabilityIntent =
  oi_Lifecycle :: string
  oi_Certification :: string
  oi_OwnershipMarker :: string
  oi_NativeProvider :: string
  oi_NativeReference :: string
  oi_ExternalProvider :: string
  oi_CredentialRefs :: "string list"
  oi_Endpoint :: string
  oi_ServiceName :: string
  oi_Environment :: string
  oi_Logs :: bool
  oi_Metrics :: bool
  oi_Traces :: bool
  oi_Signals :: "string list"
  oi_RetentionDays :: int
  oi_SamplingRatio :: float64
  oi_RedactionPolicyRef :: string
  oi_AlertRefs :: "string list"
  oi_Labels :: "(string \<times> string) list"
  oi_DataResidency :: string
  oi_Alerts :: "AlertIntent list"
  oi_Dashboards :: "DashboardIntent list"
  oi_SLOs :: "SLOIntent list"

datatype obs_error =
    ObsNotStableID string string
  | ObsExternal "intent_error list"
  | ObsMarkerRequired string
  | ObsMarkerUnsafe string
  | ObsRetention
  | ObsSampling
  | ObsSignalsUnnamed
  | ObsSignalsHomeless
  | ObsDuplicate string string
  | ObsLabelKey string
  | ObsLabelValue string
  | ObsCredentialOrEndpoint
  | ObsNewRelicKey
  | ObsMultiline string
  | ObsSeverity string string
  | ObsOperator string string
  | ObsNumbers string
  | ObsFieldsRequired string
  | ObsSignalsRequired string
  | ObsNotHTTPS string
  | ObsJoined "obs_error list"

section \<open>Checks shared by the contracts\<close>

text \<open>\<^verbatim>\<open>strings.ContainsAny(s, "\r\n")\<close>\<close>

definition has_line_break :: "string \<Rightarrow> bool" where
  "has_line_break s \<longleftrightarrow> list_ex (\<lambda>c. c = CHR 0x0D \<or> c = CHR 0x0A) s"

text \<open>A loop over values that must be valid and new, left at the first that is not.\<close>

fun first_unseen_failure ::
  "('a \<Rightarrow> 'e option) \<Rightarrow> ('a \<Rightarrow> 'e) \<Rightarrow> 'a list \<Rightarrow> 'a list \<Rightarrow> 'e option" where
  "first_unseen_failure check dup seen [] = None"
| "first_unseen_failure check dup seen (x # xs) =
     (case check x of
        Some e \<Rightarrow> Some e
      | None \<Rightarrow> if x \<in> set seen then Some (dup x) else first_unseen_failure check dup (x # seen) xs)"

lemma first_unseen_failure_None:
  "first_unseen_failure check dup seen xs = None \<longleftrightarrow>
     (\<forall>x \<in> set xs. check x = None) \<and> distinct xs \<and> set xs \<inter> set seen = {}"
  by (induction check dup seen xs rule: first_unseen_failure.induct) (auto split: option.splits)

text \<open>An error that may be absent, as the problems it adds to a joined list.\<close>

definition problem :: "'e option \<Rightarrow> 'e list" where
  "problem x = (case x of None \<Rightarrow> [] | Some e \<Rightarrow> [e])"

lemma problem_Nil [simp]: "problem x = [] \<longleftrightarrow> x = None"
  by (cases x) (simp_all add: problem_def)

definition obs_ID :: "string \<Rightarrow> string \<Rightarrow> obs_error option" where
  "obs_ID name v = (if full_match stableID v then None else Some (ObsNotStableID name v))"

lemma obs_ID_None [simp]: "obs_ID name v = None \<longleftrightarrow> full_match stableID v"
  by (simp add: obs_ID_def)

definition validateHTTPSURL :: "url_parser \<Rightarrow> string \<Rightarrow> string \<Rightarrow> obs_error option" where
  "validateHTTPSURL parse name v =
     (case parse (TrimSpace v) of
        None \<Rightarrow> Some (ObsNotHTTPS name)
      | Some u \<Rightarrow> if u_Scheme u \<noteq> ''https'' \<or> u_Host u = [] then Some (ObsNotHTTPS name) else None)"

text \<open>The limit counts bytes.\<close>

definition validateOwnershipMarker :: "string \<Rightarrow> string \<Rightarrow> obs_error option" where
  "validateOwnershipMarker name v =
     (if blank v then Some (ObsMarkerRequired name)
      else if length v > 256 \<or> has_control v \<or> search sensitiveField v then Some (ObsMarkerUnsafe name)
      else None)"

section \<open>Alerts, dashboards, objectives\<close>

definition validateDashboardIntent :: "DashboardIntent \<Rightarrow> obs_error option" where
  "validateDashboardIntent d = first_err
     [obs_ID ''observability dashboard ID'' (db_ID d),
      first_failure
        [(blank (db_Owner d), ObsFieldsRequired (db_ID d)), (db_Signals d = [], ObsSignalsRequired (db_ID d))],
      first_unseen_failure (obs_ID ''observability dashboard signal'') (ObsDuplicate (db_ID d)) [] (db_Signals d)]"

definition validateAlertIntent :: "url_parser \<Rightarrow> AlertIntent \<Rightarrow> obs_error option" where
  "validateAlertIntent parse a = first_err
     [obs_ID ''observability alert ID'' (al_ID a),
      obs_ID ''observability alert signal'' (al_Signal a),
      first_failure
        [(al_Severity a \<notin> set [''info'', ''warning'', ''critical''], ObsSeverity (al_ID a) (al_Severity a)),
         (al_Operator a \<notin> set [''gt'', ''gte'', ''lt'', ''lte'', ''eq''], ObsOperator (al_ID a) (al_Operator a)),
         (float_less (al_Threshold a) (Finite 0) \<or> al_WindowSeconds a \<le> 0, ObsNumbers (al_ID a)),
         (blank (al_Owner a) \<or> blank (al_RunbookURL a) \<or> blank (al_DeduplicationKey a), ObsFieldsRequired (al_ID a))],
      validateHTTPSURL parse ''observability alert runbook URL'' (al_RunbookURL a)]"

definition validateSLOIntent :: "url_parser \<Rightarrow> SLOIntent \<Rightarrow> obs_error option" where
  "validateSLOIntent parse s = first_err
     [obs_ID ''observability SLO ID'' (so_ID s),
      obs_ID ''observability SLO signal'' (so_Signal s),
      first_failure
        [(float_le (so_Target s) (Finite 0) \<or> float_less (Finite 1) (so_Target s) \<or> so_WindowSeconds s \<le> 0,
          ObsNumbers (so_ID s)),
         (blank (so_Owner s) \<or> blank (so_RunbookURL s) \<or> blank (so_ErrorBudgetPolicy s), ObsFieldsRequired (so_ID s))],
      validateHTTPSURL parse ''observability SLO runbook URL'' (so_RunbookURL s)]"

section \<open>The intent\<close>

definition label_error :: "string \<times> string \<Rightarrow> obs_error option" where
  "label_error l = (case l of (name, v) \<Rightarrow> first_failure
     [(blank name \<or> has_line_break name \<or> search sensitiveField name, ObsLabelKey name),
      (has_line_break v \<or> contains_text ''://'' v \<or> search sensitiveField v, ObsLabelValue name)])"

text \<open>The objects of an intent, in the order in which their problems are joined.\<close>

definition object_problems :: "url_parser \<Rightarrow> ObservabilityIntent \<Rightarrow> obs_error list" where
  "object_problems parse i =
     seen_loop (\<lambda>a. problem (validateAlertIntent parse a)) al_ID (\<lambda>a. ObsDuplicate ''alert'' (al_ID a)) [] (oi_Alerts i) @
     seen_loop (\<lambda>d. problem (validateDashboardIntent d)) db_ID (\<lambda>d. ObsDuplicate ''dashboard'' (db_ID d)) []
       (oi_Dashboards i) @
     seen_loop (\<lambda>s. problem (validateSLOIntent parse s)) so_ID (\<lambda>s. ObsDuplicate ''SLO'' (so_ID s)) [] (oi_SLOs i)"

text \<open>Everything but the metadata of the external provider and the objects.\<close>

definition telemetry_error :: "ObservabilityIntent \<Rightarrow> obs_error option" where
  "telemetry_error i =
     (let nativeProvider = TrimSpace (oi_NativeProvider i);
          externalProvider = TrimSpace (oi_ExternalProvider i);
          hasNative = nativeProvider \<noteq> [] \<and> nativeProvider \<noteq> ''none'';
          hasExternal = externalProvider \<noteq> [] \<and> externalProvider \<noteq> ''none''
      in first_err
        ([if hasNative then obs_ID ''native observability provider ID'' nativeProvider else None,
          if hasNative \<or> hasExternal
          then validateOwnershipMarker ''observability ownership marker'' (oi_OwnershipMarker i) else None,
          first_failure
            [(oi_RetentionDays i < 0 \<or> oi_RetentionDays i > 3650, ObsRetention),
             (float_less (oi_SamplingRatio i) (Finite 0) \<or> float_less (Finite 1) (oi_SamplingRatio i), ObsSampling),
             (oi_Signals i = [] \<and> (oi_Logs i \<or> oi_Metrics i \<or> oi_Traces i), ObsSignalsUnnamed),
             (oi_Signals i \<noteq> [] \<and> \<not> hasNative \<and> \<not> hasExternal, ObsSignalsHomeless)],
          first_unseen_failure (obs_ID ''observability signal'') (ObsDuplicate ''signal'') [] (oi_Signals i)] @
         map label_error (oi_Labels i) @
         [first_failure
            [(hasExternal \<and> oi_CredentialRefs i = [] \<and> blank (oi_Endpoint i), ObsCredentialOrEndpoint),
             (externalProvider = ''newrelic'' \<and> oi_CredentialRefs i = [], ObsNewRelicKey),
             (has_line_break (oi_DataResidency i), ObsMultiline ''data residency''),
             (has_control (oi_NativeReference i), ObsMultiline ''native reference'')]]))"

definition ValidateObservabilityIntent :: "url_parser \<Rightarrow> ObservabilityIntent \<Rightarrow> obs_error option" where
  "ValidateObservabilityIntent parse i =
     (case ValidateExternalIntent parse (oi_ExternalProvider i) (oi_Lifecycle i) (oi_Certification i) (oi_CredentialRefs i) of
        e # es \<Rightarrow> Some (ObsExternal (e # es))
      | [] \<Rightarrow> first_err
          [telemetry_error i,
           (case object_problems parse i of [] \<Rightarrow> None | e # es \<Rightarrow> Some (ObsJoined (e # es)))])"

section \<open>What a valid intent is\<close>

lemma first_err_append_None [simp]: "first_err (xs @ ys) = None \<longleftrightarrow> first_err xs = None \<and> first_err ys = None"
  by (induction xs) simp_all

lemma ValidateObservabilityIntent_None:
  "ValidateObservabilityIntent parse i = None \<longleftrightarrow>
     ValidateExternalIntent parse (oi_ExternalProvider i) (oi_Lifecycle i) (oi_Certification i) (oi_CredentialRefs i) = [] \<and>
     telemetry_error i = None \<and> object_problems parse i = []"
  by (simp add: ValidateObservabilityIntent_def split: list.splits)

lemma valid_observability_intent:
  assumes "ValidateObservabilityIntent parse i = None"
  shows "distinct (oi_Signals i)" and "\<forall>s \<in> set (oi_Signals i). full_match stableID s"
    and "distinct (map al_ID (oi_Alerts i))" and "distinct (map db_ID (oi_Dashboards i))"
    and "distinct (map so_ID (oi_SLOs i))" and "\<forall>a \<in> set (oi_Alerts i). validateAlertIntent parse a = None"
    and "\<forall>s \<in> set (oi_SLOs i). validateSLOIntent parse s = None"
    and "oi_Signals i \<noteq> [] \<Longrightarrow> activeProvider (oi_NativeProvider i) \<or> activeProvider (oi_ExternalProvider i)"
  using assms
  by (auto simp: ValidateObservabilityIntent_None telemetry_error_def Let_def first_unseen_failure_None object_problems_def
      seen_loop_Nil_iff activeProvider_def split: if_splits)

end
