(* ===== verification/Plan_Gate.thy ===== *)
theory Plan_Gate
  imports Go_Prelude
begin

text \<open>
  The shape that \<^verbatim>\<open>RunObservabilityLifecycle\<close> (\<^verbatim>\<open>sdk/integration_lifecycle.go\<close>) and
  \<^verbatim>\<open>RunCollectorDeploymentLifecycle\<close> (\<^verbatim>\<open>sdk/collector_lifecycle.go\<close>) share once their arguments are
  accepted: ask the adapter for a plan, check it, build the execution request from it, check that, execute
  it, check the result. The adapter's answers are functions of the world.
\<close>

text \<open>The plan and the result that are returned, the error, the requests executed, the world.\<close>

record ('p, 'q, 't, 'e, 'w) gate_run =
  gr_plan :: "'p option"
  gr_result :: "'t option"
  gr_error :: "'e option"
  gr_executed :: "'q list"
  gr_world :: 'w

abbreviation gate_refused :: "'e \<Rightarrow> 'w \<Rightarrow> ('p, 'q, 't, 'e, 'w) gate_run" where
  "gate_refused e w \<equiv> \<lparr>gr_plan = None, gr_result = None, gr_error = Some e, gr_executed = [], gr_world = w\<rparr>"

text \<open>\<open>ready\<close> is the last check before the adapter may change anything; a plan it refuses is still returned.\<close>

definition plan_and_execute ::
  "('w \<Rightarrow> ('e + 'p) \<times> 'w) \<Rightarrow> ('p \<Rightarrow> 'e option) \<Rightarrow> ('p \<Rightarrow> 'q) \<Rightarrow> ('q \<Rightarrow> 'e option) \<Rightarrow> ('p \<Rightarrow> 'e option)
     \<Rightarrow> ('q \<Rightarrow> 'w \<Rightarrow> ('e + 't) \<times> 'w) \<Rightarrow> ('q \<Rightarrow> 't \<Rightarrow> 'e option) \<Rightarrow> 'w \<Rightarrow> ('p, 'q, 't, 'e, 'w) gate_run" where
  "plan_and_execute plan check request valid ready execute accept w =
     (case plan w of
        (Inl e, w1) \<Rightarrow> gate_refused e w1
      | (Inr p, w1) \<Rightarrow> (case check p of Some e \<Rightarrow> gate_refused e w1
      | None \<Rightarrow> (case valid (request p) of Some e \<Rightarrow> gate_refused e w1
      | None \<Rightarrow> (case ready p of
          Some e \<Rightarrow> \<lparr>gr_plan = Some p, gr_result = None, gr_error = Some e, gr_executed = [], gr_world = w1\<rparr>
        | None \<Rightarrow> (case execute (request p) w1 of
            (Inl e, w2) \<Rightarrow> \<lparr>gr_plan = Some p, gr_result = None, gr_error = Some e, gr_executed = [request p], gr_world = w2\<rparr>
          | (Inr t, w2) \<Rightarrow> (case accept (request p) t of
              Some e \<Rightarrow> \<lparr>gr_plan = Some p, gr_result = None, gr_error = Some e, gr_executed = [request p], gr_world = w2\<rparr>
            | None \<Rightarrow> \<lparr>gr_plan = Some p, gr_result = Some t, gr_error = None, gr_executed = [request p], gr_world = w2\<rparr>))))))"

text \<open>What the gate guarantees of any adapter: nothing unchecked is executed, nothing unchecked is returned.\<close>

definition gate_safe ::
  "('p \<Rightarrow> 'e option) \<Rightarrow> ('p \<Rightarrow> 'q) \<Rightarrow> ('q \<Rightarrow> 'e option) \<Rightarrow> ('p \<Rightarrow> 'e option) \<Rightarrow> ('q \<Rightarrow> 't \<Rightarrow> 'e option)
     \<Rightarrow> ('p, 'q, 't, 'e, 'w) gate_run \<Rightarrow> bool" where
  "gate_safe check request valid ready accept x \<longleftrightarrow>
     (\<forall>q \<in> set (gr_executed x). \<exists>p. gr_plan x = Some p \<and> gr_executed x = [q] \<and> q = request p \<and>
        check p = None \<and> valid q = None \<and> ready p = None) \<and>
     (gr_error x = None \<longrightarrow>
        (\<exists>p t. gr_plan x = Some p \<and> gr_result x = Some t \<and> gr_executed x = [request p] \<and> accept (request p) t = None))"

lemma gate_safe_refused [simp]: "gate_safe check request valid ready accept (gate_refused e w)"
  by (simp add: gate_safe_def)

lemma plan_and_execute_safe:
  "gate_safe check request valid ready accept (plan_and_execute plan check request valid ready execute accept w)"
proof -
  obtain x w1 where plan: "plan w = (x, w1)" by (rule prod.exhaust)
  show ?thesis
  proof (cases "\<exists>p. x = Inr p \<and> check p = None \<and> valid (request p) = None \<and> ready p = None")
    case True
    then obtain p where p: "x = Inr p" "check p = None" "valid (request p) = None" "ready p = None" by blast
    obtain y w2 where exec: "execute (request p) w1 = (y, w2)" by (rule prod.exhaust)
    show ?thesis
      using plan p exec by (cases y) (auto simp: plan_and_execute_def gate_safe_def split: option.splits)
  next
    case False
    with plan show ?thesis by (cases x) (auto simp: plan_and_execute_def gate_safe_def split: option.splits)
  qed
qed

end
