(* ===== verification/Observability_Contract.thy ===== *)
theory Observability_Contract
  imports Observability_Intent Coverage Plan_Gate
begin

text \<open>
  The observability part of \<^verbatim>\<open>sdk/integrations.go\<close> and \<^verbatim>\<open>sdk/integration_lifecycle.go\<close>: descriptors, plans,
  execution requests and results with their validators, and \<^verbatim>\<open>RunObservabilityLifecycle\<close>. The configuration
  of a plan request and the opaque part of a plan belong to the adapter; they are type parameters.
\<close>

abbreviation ObservabilityApply :: string where "ObservabilityApply \<equiv> ''apply''"
abbreviation ObservabilityVerify :: string where "ObservabilityVerify \<equiv> ''verify''"
abbreviation ObservabilityDestroy :: string where "ObservabilityDestroy \<equiv> ''destroy''"

record ObservabilityAdapterDescriptor =
  od_APIVersion :: string
  od_ID :: string
  od_Provider :: string
  od_Version :: string
  od_Capabilities :: "string list"

record 'c ObservabilityPlanRequest =
  oq_TargetProvider :: string
  oq_TargetRuntime :: string
  oq_Intent :: ObservabilityIntent
  oq_Configuration :: 'c

record ObservabilityBinding =
  bi_Signal :: string
  bi_Destination :: string
  bi_Mode :: string
  bi_CredentialRef :: string
  bi_Endpoint :: string
  bi_RetentionDays :: int
  bi_RedactionPolicy :: string

record 'x ObservabilityPlan =
  op_AdapterID :: string
  op_TargetProvider :: string
  op_TargetRuntime :: string
  op_OwnershipMarker :: string
  op_NativeReference :: string
  op_Bindings :: "ObservabilityBinding list"
  op_Alerts :: "AlertIntent list"
  op_Dashboards :: "DashboardIntent list"
  op_SLOs :: "SLOIntent list"
  op_DataResidency :: string
  op_UnavailableSignals :: "string list"
  op_UnavailableOperations :: "string list"
  op_Outputs :: "AdapterOutput list"
  op_Opaque :: 'x

record 'x ObservabilityExecutionRequest =
  ox_Plan :: "'x ObservabilityPlan"
  ox_Action :: string
  ox_IdempotencyKey :: string
  ox_OwnershipMarker :: string
  ox_ApprovalReference :: string
  ox_ResourceReferences :: "string list"

record ObservabilityExecutionResult =
  ot_Action :: string
  ot_OperationID :: string
  ot_ResourceRefs :: "string list"
  ot_ProofRefs :: "string list"
  ot_OwnershipMarker :: string
  ot_OwnershipVerified :: bool
  ot_IdempotencyVerified :: bool

datatype obs_problem =
    ObsDescriptor descriptor_problem
  | ObsCapabilitiesRequired
  | ObsCapabilityInvalid string
  | ObsCapabilityDuplicate string
  | ObsIntentProblem obs_error
  | ObsPlanAdapterRequired
  | ObsPlanTarget
  | ObsPlanMarkerRequired
  | ObsPlanMultiline string
  | ObsPlanReference
  | ObsPlanResidency
  | ObsPlanObjects
  | ObsUnrequested string
  | ObsUnrequestedUnavailable string
  | ObsDuplicateUnavailable string
  | ObsDropped string
  | ObsPlanItem obs_error
  | ObsBindingCredential intent_error
  | ObsBindingRetention string

datatype obs_execution_error =
    ObsActionInvalid string
  | ObsKeyInvalid
  | ObsMarkerMismatch
  | ObsApprovalMultiline
  | ObsReferences execution_error
  | ObsResultAction string string
  | ObsResultMarker
  | ObsResultUnverified

text \<open>\<^verbatim>\<open>ObservabilityCapabilityError\<close>, or an identifier that is none.\<close>

datatype obs_apply_error =
    ObsUnavailableID obs_error
  | SignalUnavailable string
  | OperationUnavailable string

section \<open>Descriptors and plan requests\<close>

definition ValidateObservabilityAdapterDescriptor :: "ObservabilityAdapterDescriptor \<Rightarrow> obs_problem list" where
  "ValidateObservabilityAdapterDescriptor d =
     map ObsDescriptor
       ((if od_APIVersion d \<noteq> ExtensionAPIVersion then [DescriptorAPIVersion (od_APIVersion d)] else []) @
        descriptor_ID ''observability adapter ID'' (od_ID d) @
        descriptor_ID ''observability adapter provider ID'' (od_Provider d) @
        validateExtensionVersion (od_Version d)) @
     (if od_Capabilities d = [] then [ObsCapabilitiesRequired] else []) @
     seen_loop
       (\<lambda>c. if c \<noteq> ObservabilityApply \<and> c \<noteq> ObservabilityVerify \<and> c \<noteq> ObservabilityDestroy
            then [ObsCapabilityInvalid c] else [])
       (\<lambda>c. c) ObsCapabilityDuplicate [] (od_Capabilities d)"

definition observabilityActionSupported :: "string list \<Rightarrow> string \<Rightarrow> bool" where
  "observabilityActionSupported capabilities action \<longleftrightarrow> list_ex (\<lambda>c. c = action) capabilities"

definition ValidateObservabilityPlanRequest :: "url_parser \<Rightarrow> 'c ObservabilityPlanRequest \<Rightarrow> obs_problem list" where
  "ValidateObservabilityPlanRequest parse r =
     map ObsDescriptor
       (descriptor_ID ''observability target provider'' (oq_TargetProvider r) @
        descriptor_ID ''observability target runtime'' (oq_TargetRuntime r)) @
     map ObsIntentProblem (problem (ValidateObservabilityIntent parse (oq_Intent r)))"

section \<open>What a plan must preserve\<close>

text \<open>The map \<^verbatim>\<open>byID\<close> keeps the last value of an ID: filled left to right, it is read from the right.\<close>

definition by_ID :: "('a \<Rightarrow> string) \<Rightarrow> 'a list \<Rightarrow> (string \<times> 'a) list" where
  "by_ID ident xs = rev (map (\<lambda>x. (ident x, x)) xs)"

definition objects_match :: "('a \<Rightarrow> string) \<Rightarrow> ('a \<Rightarrow> 'a \<Rightarrow> bool) \<Rightarrow> 'a list \<Rightarrow> 'a list \<Rightarrow> bool" where
  "objects_match ident same actual expected \<longleftrightarrow>
     length actual = length expected \<and>
     list_all (\<lambda>a. case map_of (by_ID ident expected) (ident a) of None \<Rightarrow> False | Some e \<Rightarrow> same a e) actual"

text \<open>\<^verbatim>\<open>==\<close> on the structs compares field by field, the floating-point field as such.\<close>

definition same_alert :: "AlertIntent \<Rightarrow> AlertIntent \<Rightarrow> bool" where
  "same_alert a b \<longleftrightarrow> float_eq (al_Threshold a) (al_Threshold b) \<and> a\<lparr>al_Threshold := NaN\<rparr> = b\<lparr>al_Threshold := NaN\<rparr>"

definition same_SLO :: "SLOIntent \<Rightarrow> SLOIntent \<Rightarrow> bool" where
  "same_SLO a b \<longleftrightarrow> float_eq (so_Target a) (so_Target b) \<and> a\<lparr>so_Target := NaN\<rparr> = b\<lparr>so_Target := NaN\<rparr>"

definition equalStringSet :: "string list \<Rightarrow> string list \<Rightarrow> bool" where
  "equalStringSet actual expected \<longleftrightarrow> length actual = length expected \<and> SortedStrings actual = SortedStrings expected"

definition same_dashboard :: "DashboardIntent \<Rightarrow> DashboardIntent \<Rightarrow> bool" where
  "same_dashboard a b \<longleftrightarrow> db_Owner a = db_Owner b \<and> equalStringSet (db_Signals a) (db_Signals b)"

definition observabilityAlertsMatch :: "AlertIntent list \<Rightarrow> AlertIntent list \<Rightarrow> bool" where
  "observabilityAlertsMatch = objects_match al_ID same_alert"

definition observabilityDashboardsMatch :: "DashboardIntent list \<Rightarrow> DashboardIntent list \<Rightarrow> bool" where
  "observabilityDashboardsMatch = objects_match db_ID same_dashboard"

definition observabilitySLOsMatch :: "SLOIntent list \<Rightarrow> SLOIntent list \<Rightarrow> bool" where
  "observabilitySLOsMatch = objects_match so_ID same_SLO"

text \<open>
  The projection of the signals: three loops, each left at its first problem. The last ranges over a map;
  the order kept here decides only which of several dropped signals is named.
\<close>

definition unavailable_problem :: "string list \<Rightarrow> string list \<Rightarrow> obs_problem option" where
  "unavailable_problem requested unavailable = first_unseen_failure
     (\<lambda>s. if s \<notin> set requested then Some (ObsUnrequestedUnavailable s) else None) ObsDuplicateUnavailable [] unavailable"

definition validateObservabilitySignalProjection ::
  "'x ObservabilityPlan \<Rightarrow> ObservabilityIntent \<Rightarrow> obs_problem list" where
  "validateObservabilitySignalProjection plan i =
     (let requested = oi_Signals i; projected = map bi_Signal (op_Bindings plan); unavailable = op_UnavailableSignals plan
      in case find (\<lambda>s. s \<notin> set requested) projected of
           Some s \<Rightarrow> [ObsUnrequested s]
         | None \<Rightarrow> (case unavailable_problem requested unavailable of
             Some e \<Rightarrow> [e]
           | None \<Rightarrow> (case find (\<lambda>s. s \<notin> set projected \<and> s \<notin> set unavailable) requested of
               Some s \<Rightarrow> [ObsDropped s]
             | None \<Rightarrow> [])))"

definition binding_problems :: "url_parser \<Rightarrow> ObservabilityBinding \<Rightarrow> obs_problem list" where
  "binding_problems parse b =
     map ObsPlanItem (problem (obs_ID ''observability binding signal'' (bi_Signal b)) @
       problem (obs_ID ''observability binding destination'' (bi_Destination b))) @
     (if bi_CredentialRef b \<noteq> []
      then map ObsBindingCredential (problem (ValidateCredentialReference parse (bi_CredentialRef b))) else []) @
     (if bi_RetentionDays b < 0 then [ObsBindingRetention (bi_Signal b)] else [])"

definition ValidateObservabilityPlan ::
  "url_parser \<Rightarrow> 'x ObservabilityPlan \<Rightarrow> 'c ObservabilityPlanRequest \<Rightarrow> obs_problem list" where
  "ValidateObservabilityPlan parse plan r =
     (let i = oq_Intent r in
      (if blank (op_AdapterID plan) then [ObsPlanAdapterRequired] else []) @
      (if op_TargetProvider plan \<noteq> oq_TargetProvider r \<or> op_TargetRuntime plan \<noteq> oq_TargetRuntime r
       then [ObsPlanTarget] else []) @
      (if blank (op_OwnershipMarker plan) \<and> (activeProvider (oi_NativeProvider i) \<or> activeProvider (oi_ExternalProvider i))
       then [ObsPlanMarkerRequired] else []) @
      (if has_control (op_DataResidency plan) then [ObsPlanMultiline ''data residency''] else []) @
      (if has_control (op_NativeReference plan) then [ObsPlanMultiline ''native reference''] else []) @
      (if op_NativeReference plan \<noteq> oi_NativeReference i then [ObsPlanReference] else []) @
      (if op_DataResidency plan \<noteq> oi_DataResidency i then [ObsPlanResidency] else []) @
      (if \<not> observabilityAlertsMatch (op_Alerts plan) (oi_Alerts i) \<or>
          \<not> observabilityDashboardsMatch (op_Dashboards plan) (oi_Dashboards i) \<or>
          \<not> observabilitySLOsMatch (op_SLOs plan) (oi_SLOs i) then [ObsPlanObjects] else []) @
      validateObservabilitySignalProjection plan i @
      map ObsPlanItem
        (concat (map (\<lambda>a. problem (validateAlertIntent parse a)) (op_Alerts plan)) @
         concat (map (\<lambda>d. problem (validateDashboardIntent d)) (op_Dashboards plan)) @
         concat (map (\<lambda>s. problem (validateSLOIntent parse s)) (op_SLOs plan))) @
      concat (map (binding_problems parse) (op_Bindings plan)) @
      map ObsPlanItem
        (concat (map (\<lambda>s. problem (obs_ID ''unavailable observability signal'' s)) (op_UnavailableSignals plan)) @
         concat (map (\<lambda>s. problem (obs_ID ''unavailable observability operation'' s)) (op_UnavailableOperations plan))))"

section \<open>Execution\<close>

definition ValidateObservabilityApplyPlan :: "'x ObservabilityPlan \<Rightarrow> obs_apply_error option" where
  "ValidateObservabilityApplyPlan plan = first_err
     (map (\<lambda>s. map_option ObsUnavailableID (obs_ID ''unavailable observability signal'' s)) (op_UnavailableSignals plan) @
      map (\<lambda>s. map_option ObsUnavailableID (obs_ID ''unavailable observability operation'' s)) (op_UnavailableOperations plan) @
      [case op_UnavailableSignals plan of s # _ \<Rightarrow> Some (SignalUnavailable s) | [] \<Rightarrow> None,
       case op_UnavailableOperations plan of s # _ \<Rightarrow> Some (OperationUnavailable s) | [] \<Rightarrow> None])"

definition ValidateObservabilityExecutionRequest :: "'x ObservabilityExecutionRequest \<Rightarrow> obs_execution_error option" where
  "ValidateObservabilityExecutionRequest r = first_err
     [first_failure
        [(ox_Action r \<noteq> ObservabilityApply \<and> ox_Action r \<noteq> ObservabilityVerify \<and> ox_Action r \<noteq> ObservabilityDestroy,
          ObsActionInvalid (ox_Action r)),
         (blank (ox_IdempotencyKey r) \<or> has_control (ox_IdempotencyKey r), ObsKeyInvalid),
         (ox_OwnershipMarker r \<noteq> op_OwnershipMarker (ox_Plan r), ObsMarkerMismatch),
         (has_control (ox_ApprovalReference r), ObsApprovalMultiline)],
      map_option ObsReferences
        (validateOpaqueReferences ''observability execution resource reference'' (ox_ResourceReferences r))]"

definition ValidateObservabilityExecutionResult ::
  "'x ObservabilityExecutionRequest \<Rightarrow> ObservabilityExecutionResult \<Rightarrow> obs_execution_error option" where
  "ValidateObservabilityExecutionResult r t = first_err
     [first_failure
        [(ot_Action t \<noteq> ox_Action r, ObsResultAction (ot_Action t) (ox_Action r)),
         (ot_OwnershipMarker t \<noteq> ox_OwnershipMarker r, ObsResultMarker),
         (\<not> ot_OwnershipVerified t \<or> \<not> ot_IdempotencyVerified t, ObsResultUnverified)],
      map_option ObsReferences
        (validateOpaqueReferences ''observability execution result resource reference'' (ot_ResourceRefs t @ ot_ProofRefs t))]"

section \<open>The lifecycle gate\<close>

record ('w, 'c, 'x, 'e) ObservabilityAdapter =
  oa_ObservabilityDescriptor :: ObservabilityAdapterDescriptor
  oa_PlanObservability :: "'w Context \<Rightarrow> 'c ObservabilityPlanRequest \<Rightarrow> 'w \<Rightarrow> ('e + 'x ObservabilityPlan) \<times> 'w"
  oa_ExecuteObservability ::
    "'w Context \<Rightarrow> 'x ObservabilityExecutionRequest \<Rightarrow> 'w \<Rightarrow> ('e + ObservabilityExecutionResult) \<times> 'w"

datatype 'e obs_lifecycle_error =
    ObsContextRequired
  | ObsAdapterRequired
  | ObsLifecycleProblems "obs_problem list"
  | ObsCapabilityUndeclared string string
  | ObsPlanFailed 'e
  | ObsPlanRefused "obs_problem list"
  | ObsRequestRefused obs_execution_error
  | ObsApplyBlocked obs_apply_error
  | ObsExecuteFailed string 'e
  | ObsResultRefused obs_execution_error

definition joined :: "('p list \<Rightarrow> 'e) \<Rightarrow> 'p list \<Rightarrow> 'e option" where
  "joined err ps = (if ps = [] then None else Some (err ps))"

lemma joined_None [simp]: "joined err ps = None \<longleftrightarrow> ps = []"
  by (simp add: joined_def)

definition obs_request :: "string \<Rightarrow> string \<Rightarrow> string list \<Rightarrow> string \<Rightarrow> 'x ObservabilityPlan \<Rightarrow> 'x ObservabilityExecutionRequest" where
  "obs_request action idempotencyKey resourceReferences approvalReference plan =
     \<lparr>ox_Plan = plan, ox_Action = action, ox_IdempotencyKey = idempotencyKey, ox_OwnershipMarker = op_OwnershipMarker plan,
      ox_ApprovalReference = approvalReference, ox_ResourceReferences = resourceReferences\<rparr>"

definition obs_ready :: "string \<Rightarrow> 'x ObservabilityPlan \<Rightarrow> 'e obs_lifecycle_error option" where
  "obs_ready action plan =
     (if action = ObservabilityApply then map_option ObsApplyBlocked (ValidateObservabilityApplyPlan plan) else None)"

definition RunObservabilityLifecycle ::
  "url_parser \<Rightarrow> 'w Context option \<Rightarrow> ('w, 'c, 'x, 'e) ObservabilityAdapter option \<Rightarrow> 'c ObservabilityPlanRequest \<Rightarrow> string
     \<Rightarrow> string \<Rightarrow> string list \<Rightarrow> string \<Rightarrow> 'w
     \<Rightarrow> ('x ObservabilityPlan, 'x ObservabilityExecutionRequest, ObservabilityExecutionResult, 'e obs_lifecycle_error, 'w) gate_run" where
  "RunObservabilityLifecycle parse ctx adapter request action idempotencyKey resourceReferences approvalReference w =
     (case ctx of None \<Rightarrow> gate_refused ObsContextRequired w
      | Some ctx \<Rightarrow> (case adapter of None \<Rightarrow> gate_refused ObsAdapterRequired w
      | Some ad \<Rightarrow>
          let d = oa_ObservabilityDescriptor ad in
          if ValidateObservabilityAdapterDescriptor d \<noteq> []
          then gate_refused (ObsLifecycleProblems (ValidateObservabilityAdapterDescriptor d)) w
          else if \<not> observabilityActionSupported (od_Capabilities d) action
          then gate_refused (ObsCapabilityUndeclared (od_ID d) action) w
          else if ValidateObservabilityPlanRequest parse request \<noteq> []
          then gate_refused (ObsLifecycleProblems (ValidateObservabilityPlanRequest parse request)) w
          else plan_and_execute
            (\<lambda>w. apfst (map_sum ObsPlanFailed id) (oa_PlanObservability ad ctx request w))
            (\<lambda>plan. joined ObsPlanRefused (ValidateObservabilityPlan parse plan request))
            (obs_request action idempotencyKey resourceReferences approvalReference)
            (\<lambda>q. map_option ObsRequestRefused (ValidateObservabilityExecutionRequest q))
            (obs_ready action)
            (\<lambda>q w. apfst (map_sum (ObsExecuteFailed action) id) (oa_ExecuteObservability ad ctx q w))
            (\<lambda>q t. map_option ObsResultRefused (ValidateObservabilityExecutionResult q t))
            w))"

end
