(* ===== verification/Observability_Safety.thy ===== *)
theory Observability_Safety
  imports Observability_Contract
begin

text \<open>
  What the observability lifecycle guarantees of any adapter, and two places where its checks accept more than
  their messages say: a plan that repeats one alert in place of another, and numbers that are \<^verbatim>\<open>NaN\<close>.
\<close>

section \<open>Matching by identifier\<close>

lemma by_ID_Some: "map_of (by_ID ident xs) k = Some e \<Longrightarrow> e \<in> set xs \<and> ident e = k"
  by (auto simp: by_ID_def dest!: map_of_SomeD)

lemma objects_matchD:
  assumes "objects_match ident same actual expected"
  shows "length actual = length expected"
    and "a \<in> set actual \<Longrightarrow> \<exists>e \<in> set expected. ident e = ident a \<and> same a e"
  using assms by (force simp: objects_match_def list_all_iff split: option.splits dest: by_ID_Some)+

lemma objects_match_replicate:
  assumes "objects_match ident same actual expected" and "a \<in> set actual"
  shows "objects_match ident same (replicate (length actual) a) expected"
  using assms by (auto simp: objects_match_def list_all_iff)

text \<open>Without a repeated identifier in the plan, nothing of the intent is missing from it.\<close>

lemma objects_match_set:
  assumes m: "objects_match ident same actual expected" and same: "\<And>a b. same a b \<Longrightarrow> a = b"
    and "distinct (map ident actual)"
  shows "set actual = set expected"
proof (rule card_subset_eq)
  show "finite (set expected)" by simp
  show sub: "set actual \<subseteq> set expected" using objects_matchD(2)[OF m] same by blast
  have "card (set actual) = length expected"
    using distinct_card[of actual] assms(3) objects_matchD(1)[OF m] by (simp add: distinct_map)
  moreover have "card (set actual) \<le> card (set expected)" by (rule card_mono[OF finite_set sub])
  ultimately show "card (set actual) = card (set expected)" using card_length[of expected] by simp
qed

lemma same_alert_eq: "same_alert a b \<Longrightarrow> a = b"
  by (cases a; cases b) (auto simp: same_alert_def)

lemma same_SLO_eq: "same_SLO a b \<Longrightarrow> a = b \<and> so_Target a \<noteq> NaN"
  by (cases a; cases b) (auto simp: same_SLO_def float_eq_def)

lemma same_SLO_refl: "so_Target s \<noteq> NaN \<Longrightarrow> same_SLO s s"
  by (simp add: same_SLO_def float_eq_def)

section \<open>What a valid plan is\<close>

lemma find_None_iff_all: "find P xs = None \<longleftrightarrow> (\<forall>x \<in> set xs. \<not> P x)"
  by (auto simp: find_None_iff)

lemma projection_Nil:
  assumes "validateObservabilitySignalProjection plan i = []"
  shows "bi_Signal ` set (op_Bindings plan) \<subseteq> set (oi_Signals i)"
    and "set (op_UnavailableSignals plan) \<subseteq> set (oi_Signals i)"
    and "set (oi_Signals i) \<subseteq> bi_Signal ` set (op_Bindings plan) \<union> set (op_UnavailableSignals plan)"
  using assms
  by (auto simp: validateObservabilitySignalProjection_def Let_def unavailable_problem_def first_unseen_failure_None
      find_None_iff_all split: option.splits if_splits)

lemma valid_observability_plan:
  assumes "ValidateObservabilityPlan parse plan r = []"
  shows "op_TargetProvider plan = oq_TargetProvider r" and "op_TargetRuntime plan = oq_TargetRuntime r"
    and "observabilityAlertsMatch (op_Alerts plan) (oi_Alerts (oq_Intent r))"
    and "observabilityDashboardsMatch (op_Dashboards plan) (oi_Dashboards (oq_Intent r))"
    and "observabilitySLOsMatch (op_SLOs plan) (oi_SLOs (oq_Intent r))"
    and "validateObservabilitySignalProjection plan (oq_Intent r) = []"
  using assms by (simp_all add: ValidateObservabilityPlan_def Let_def split: if_splits)

lemma apply_plan_complete:
  assumes "ValidateObservabilityApplyPlan plan = None"
  shows "op_UnavailableSignals plan = []" and "op_UnavailableOperations plan = []"
  using assms by (auto simp: ValidateObservabilityApplyPlan_def split: list.splits)

lemma valid_observability_request:
  assumes "ValidateObservabilityExecutionRequest q = None"
  shows "ox_Action q \<in> {ObservabilityApply, ObservabilityVerify, ObservabilityDestroy}"
    and "single_line (ox_IdempotencyKey q)"
  using assms by (auto simp: ValidateObservabilityExecutionRequest_def split: if_splits)

lemma valid_observability_result:
  assumes "ValidateObservabilityExecutionResult q t = None"
  shows "ot_Action t = ox_Action q" and "ot_OwnershipMarker t = ox_OwnershipMarker q"
    and "ot_OwnershipVerified t" and "ot_IdempotencyVerified t"
  using assms by (auto simp: ValidateObservabilityExecutionResult_def split: if_splits)

section \<open>The lifecycle\<close>

text \<open>The checks of the gate, as the lifecycle passes them.\<close>

abbreviation obs_safe ::
  "url_parser \<Rightarrow> 'c ObservabilityPlanRequest \<Rightarrow> string \<Rightarrow> string \<Rightarrow> string list \<Rightarrow> string
     \<Rightarrow> ('x ObservabilityPlan, 'x ObservabilityExecutionRequest, ObservabilityExecutionResult, 'e obs_lifecycle_error, 'w) gate_run
     \<Rightarrow> bool" where
  "obs_safe parse request action key references approval \<equiv> gate_safe
     (\<lambda>plan. joined ObsPlanRefused (ValidateObservabilityPlan parse plan request))
     (obs_request action key references approval)
     (\<lambda>q. map_option ObsRequestRefused (ValidateObservabilityExecutionRequest q)) (obs_ready action)
     (\<lambda>q t. map_option ObsResultRefused (ValidateObservabilityExecutionResult q t))"

lemma run_observability_safe:
  "obs_safe parse request action key references approval
     (RunObservabilityLifecycle parse ctx adapter request action key references approval w)"
  by (simp add: RunObservabilityLifecycle_def Let_def plan_and_execute_safe split: option.splits)

lemma obs_ready_None [simp]:
  "obs_ready action plan = None \<longleftrightarrow> (action = ObservabilityApply \<longrightarrow> ValidateObservabilityApplyPlan plan = None)"
  by (simp add: obs_ready_def)

lemma run_observability_declared:
  assumes "gr_executed (RunObservabilityLifecycle parse ctx adapter request action key references approval w) \<noteq> []"
  shows "\<exists>ad. adapter = Some ad \<and> action \<in> set (od_Capabilities (oa_ObservabilityDescriptor ad))"
  using assms
  by (auto simp: RunObservabilityLifecycle_def Let_def observabilityActionSupported_def list_ex_iff
      split: option.splits if_splits)

text \<open>
  C38. An observability adapter is executed at most once, for an action it declares, with a plan for the
  requested target in which every requested signal is bound or named as unavailable and nothing else is bound.
  Before an apply nothing may be unavailable, so the bound signals are exactly the requested ones. A run
  without an error returns a result that verified ownership and idempotency for the plan's own marker.
\<close>

theorem observability_apply_binds_every_signal:
  assumes x_def: "x = RunObservabilityLifecycle parse ctx adapter request action key references approval w"
  shows "(\<forall>q \<in> set (gr_executed x). \<exists>plan. gr_plan x = Some plan \<and> gr_executed x = [q] \<and> ox_Plan q = plan \<and>
            ox_Action q = action \<and> ox_OwnershipMarker q = op_OwnershipMarker plan \<and>
            (\<exists>ad. adapter = Some ad \<and> action \<in> set (od_Capabilities (oa_ObservabilityDescriptor ad))) \<and>
            op_TargetProvider plan = oq_TargetProvider request \<and> op_TargetRuntime plan = oq_TargetRuntime request \<and>
            bi_Signal ` set (op_Bindings plan) \<subseteq> set (oi_Signals (oq_Intent request)) \<and>
            set (oi_Signals (oq_Intent request)) \<subseteq> bi_Signal ` set (op_Bindings plan) \<union> set (op_UnavailableSignals plan) \<and>
            (action = ObservabilityApply \<longrightarrow>
               op_UnavailableSignals plan = [] \<and> op_UnavailableOperations plan = [] \<and>
               bi_Signal ` set (op_Bindings plan) = set (oi_Signals (oq_Intent request)))) \<and>
         (gr_error x = None \<longrightarrow>
            (\<exists>q t. gr_executed x = [q] \<and> gr_result x = Some t \<and> ot_Action t = action \<and>
               ot_OwnershipMarker t = ox_OwnershipMarker q \<and> ot_OwnershipVerified t \<and> ot_IdempotencyVerified t))"
    (is "?executed \<and> ?returned")
proof
  have safe: "obs_safe parse request action key references approval x"
    unfolding x_def by (rule run_observability_safe)
  show ?executed
  proof
    fix q assume q: "q \<in> set (gr_executed x)"
    with safe obtain plan where plan: "gr_plan x = Some plan" "gr_executed x = [q]"
      "q = obs_request action key references approval plan" "ValidateObservabilityPlan parse plan request = []"
      "action = ObservabilityApply \<Longrightarrow> ValidateObservabilityApplyPlan plan = None"
      by (auto simp: gate_safe_def)
    from run_observability_declared q obtain ad where
      ad: "adapter = Some ad" "action \<in> set (od_Capabilities (oa_ObservabilityDescriptor ad))"
      unfolding x_def by (metis empty_iff empty_set)
    note v = valid_observability_plan[OF plan(4)]
    note p = projection_Nil[OF v(6)]
    have complete: "op_UnavailableSignals plan = [] \<and> op_UnavailableOperations plan = []" if "action = ObservabilityApply"
      using plan(5)[OF that] by (simp add: apply_plan_complete)
    from p complete have "action = ObservabilityApply \<longrightarrow> bi_Signal ` set (op_Bindings plan) = set (oi_Signals (oq_Intent request))"
      by auto
    with plan ad v p complete show "\<exists>plan. gr_plan x = Some plan \<and> gr_executed x = [q] \<and> ox_Plan q = plan \<and>
        ox_Action q = action \<and> ox_OwnershipMarker q = op_OwnershipMarker plan \<and>
        (\<exists>ad. adapter = Some ad \<and> action \<in> set (od_Capabilities (oa_ObservabilityDescriptor ad))) \<and>
        op_TargetProvider plan = oq_TargetProvider request \<and> op_TargetRuntime plan = oq_TargetRuntime request \<and>
        bi_Signal ` set (op_Bindings plan) \<subseteq> set (oi_Signals (oq_Intent request)) \<and>
        set (oi_Signals (oq_Intent request)) \<subseteq> bi_Signal ` set (op_Bindings plan) \<union> set (op_UnavailableSignals plan) \<and>
        (action = ObservabilityApply \<longrightarrow>
           op_UnavailableSignals plan = [] \<and> op_UnavailableOperations plan = [] \<and>
           bi_Signal ` set (op_Bindings plan) = set (oi_Signals (oq_Intent request)))"
      by (simp add: obs_request_def)
  qed
  show ?returned
  proof
    assume "gr_error x = None"
    with safe obtain plan t where t: "gr_executed x = [obs_request action key references approval plan]" "gr_result x = Some t"
      "ValidateObservabilityExecutionResult (obs_request action key references approval plan) t = None"
      by (auto simp: gate_safe_def)
    from valid_observability_result[OF t(3)] t(1,2)
    show "\<exists>q t. gr_executed x = [q] \<and> gr_result x = Some t \<and> ot_Action t = action \<and>
        ot_OwnershipMarker t = ox_OwnershipMarker q \<and> ot_OwnershipVerified t \<and> ot_IdempotencyVerified t"
      by (simp add: obs_request_def)
  qed
qed

section \<open>An example\<close>

text \<open>An intent with one signal, two alerts and one objective, and a plan that binds the signal and keeps all three.\<close>

definition wiki_url :: url_parser where
  "wiki_url v = Some \<lparr>u_Scheme = ''https'', u_Opaque = [], u_User = False, u_Host = ''wiki'', u_Path = [], u_RawQuery = [],
     u_Fragment = []\<rparr>"

definition telemetry_alert :: "string \<Rightarrow> AlertIntent" where
  "telemetry_alert ident = \<lparr>al_ID = ident, al_Signal = ''logs'', al_Severity = ''critical'', al_Operator = ''gt'',
     al_Threshold = Finite 0, al_WindowSeconds = 60, al_Owner = ''ops'', al_RunbookURL = ''w'', al_DeduplicationKey = ''k'',
     al_MaintenancePolicyRef = []\<rparr>"

definition telemetry_SLO :: SLOIntent where
  "telemetry_SLO = \<lparr>so_ID = ''uptime'', so_Signal = ''logs'', so_Target = Finite 1, so_WindowSeconds = 60, so_Owner = ''ops'',
     so_RunbookURL = ''w'', so_ErrorBudgetPolicy = ''p''\<rparr>"

definition telemetry_intent :: ObservabilityIntent where
  "telemetry_intent = \<lparr>oi_Lifecycle = [], oi_Certification = [], oi_OwnershipMarker = ''shop'', oi_NativeProvider = ''aws'',
     oi_NativeReference = [], oi_ExternalProvider = [], oi_CredentialRefs = [], oi_Endpoint = [], oi_ServiceName = [],
     oi_Environment = [], oi_Logs = True, oi_Metrics = False, oi_Traces = False, oi_Signals = [''logs''],
     oi_RetentionDays = 30, oi_SamplingRatio = Finite 1, oi_RedactionPolicyRef = [], oi_AlertRefs = [], oi_Labels = [],
     oi_DataResidency = [], oi_Alerts = [telemetry_alert ''a'', telemetry_alert ''b''], oi_Dashboards = [], oi_SLOs = [telemetry_SLO]\<rparr>"

definition telemetry_plan_request :: "unit ObservabilityPlanRequest" where
  "telemetry_plan_request = \<lparr>oq_TargetProvider = ''aws'', oq_TargetRuntime = ''ecs'', oq_Intent = telemetry_intent, oq_Configuration = ()\<rparr>"

definition telemetry_plan :: "unit ObservabilityPlan" where
  "telemetry_plan = \<lparr>op_AdapterID = ''cw'', op_TargetProvider = ''aws'', op_TargetRuntime = ''ecs'', op_OwnershipMarker = ''shop'',
     op_NativeReference = [],
     op_Bindings = [\<lparr>bi_Signal = ''logs'', bi_Destination = ''cw'', bi_Mode = [], bi_CredentialRef = [], bi_Endpoint = [],
       bi_RetentionDays = 30, bi_RedactionPolicy = []\<rparr>],
     op_Alerts = [telemetry_alert ''a'', telemetry_alert ''b''], op_Dashboards = [], op_SLOs = [telemetry_SLO], op_DataResidency = [],
     op_UnavailableSignals = [], op_UnavailableOperations = [], op_Outputs = [], op_Opaque = ()\<rparr>"

definition telemetry_adapter :: "(nat, unit, unit, string) ObservabilityAdapter" where
  "telemetry_adapter =
     \<lparr>oa_ObservabilityDescriptor = \<lparr>od_APIVersion = ''v1'', od_ID = ''cw'', od_Provider = ''aws'', od_Version = ''1'',
        od_Capabilities = [ObservabilityApply]\<rparr>,
      oa_PlanObservability = \<lambda>_ _ w. (Inr telemetry_plan, Suc w),
      oa_ExecuteObservability = \<lambda>_ q w.
        (Inr \<lparr>ot_Action = ox_Action q, ot_OperationID = [], ot_ResourceRefs = [], ot_ProofRefs = [],
           ot_OwnershipMarker = ox_OwnershipMarker q, ot_OwnershipVerified = True, ot_IdempotencyVerified = True\<rparr>, Suc w)\<rparr>"

definition telemetry_run where
  "telemetry_run = RunObservabilityLifecycle wiki_url (Some (\<lambda>_. None)) (Some telemetry_adapter) telemetry_plan_request ObservabilityApply
     ''key'' [] [] 0"

lemmas telemetry_defs = wiki_url_def telemetry_alert_def telemetry_SLO_def telemetry_intent_def telemetry_plan_request_def telemetry_plan_def

lemma telemetry_intent_valid: "ValidateObservabilityIntent wiki_url telemetry_intent = None"
  by code_simp

lemma telemetry_plan_valid: "ValidateObservabilityPlan wiki_url telemetry_plan telemetry_plan_request = []"
  by code_simp

lemma telemetry_applied: "gr_error telemetry_run = None \<and> gr_executed telemetry_run \<noteq> []"
  by code_simp

theorem observability_apply_binds_every_signal_witness:
  "gr_error telemetry_run = None \<and> (\<exists>q. gr_executed telemetry_run = [q] \<and> bi_Signal ` set (op_Bindings (ox_Plan q)) = {''logs''})"
proof -
  have "oi_Signals (oq_Intent telemetry_plan_request) = [''logs'']" by (simp add: telemetry_defs)
  moreover obtain q where "q \<in> set (gr_executed telemetry_run)" using telemetry_applied by (cases "gr_executed telemetry_run") auto
  ultimately show ?thesis
    using observability_apply_binds_every_signal[OF telemetry_run_def] telemetry_applied by (metis empty_set list.simps(15))
qed

section \<open>Alerts that a plan may drop\<close>

text \<open>
  C39. The check that a plan preserves all requested alerts counts them and looks each one up by its ID. It
  does not notice a plan that repeats one of its alerts in the place of all others: if a plan is accepted, the
  plan that monitors only one of its alerts, as often as there were alerts, is accepted too. Only if no ID is
  repeated in the plan are its alerts the requested ones.
\<close>

theorem repeated_alert_hides_dropped:
  assumes "ValidateObservabilityPlan parse plan r = []" and "a \<in> set (op_Alerts plan)"
  shows "ValidateObservabilityPlan parse (plan\<lparr>op_Alerts := replicate (length (op_Alerts plan)) a\<rparr>) r = [] \<and>
         (distinct (map al_ID (op_Alerts plan)) \<longrightarrow> set (op_Alerts plan) = set (oi_Alerts (oq_Intent r)))"
proof
  from assms(1) have m: "objects_match al_ID same_alert (op_Alerts plan) (oi_Alerts (oq_Intent r))"
    using valid_observability_plan(3) by (auto simp: observabilityAlertsMatch_def)
  have "validateAlertIntent parse a = None"
    using assms by (auto simp: ValidateObservabilityPlan_def Let_def)
  with assms(1) objects_match_replicate[OF m assms(2)]
  show "ValidateObservabilityPlan parse (plan\<lparr>op_Alerts := replicate (length (op_Alerts plan)) a\<rparr>) r = []"
    by (auto simp: ValidateObservabilityPlan_def Let_def observabilityAlertsMatch_def
        validateObservabilitySignalProjection_def split: if_splits)
  show "distinct (map al_ID (op_Alerts plan)) \<longrightarrow> set (op_Alerts plan) = set (oi_Alerts (oq_Intent r))"
    using objects_match_set[OF m same_alert_eq] by blast
qed

theorem repeated_alert_hides_dropped_witness:
  "ValidateObservabilityPlan wiki_url (telemetry_plan\<lparr>op_Alerts := [telemetry_alert ''a'', telemetry_alert ''a'']\<rparr>) telemetry_plan_request = [] \<and>
   telemetry_alert ''b'' \<in> set (oi_Alerts (oq_Intent telemetry_plan_request))"
  using repeated_alert_hides_dropped[OF telemetry_plan_valid, of "telemetry_alert ''a''"]
  by (simp add: telemetry_defs numeral_2_eq_2)

section \<open>Numbers that are no numbers\<close>

text \<open>
  The range checks on the sampling ratio and on the targets of the objectives are conditions under which
  a value is refused, and no comparison with \<^verbatim>\<open>NaN\<close> holds: a valid intent stays valid when the ratio and every
  target are replaced by \<^verbatim>\<open>NaN\<close>. What is accepted there can no longer be planned, because \<^verbatim>\<open>NaN\<close> differs from
  itself: with at least one objective every plan for the intent is refused.
\<close>

lemma nan_targets_are_valid_but_unplannable:
  assumes "ValidateObservabilityIntent parse i = None"
    and "i' = i\<lparr>oi_SamplingRatio := NaN, oi_SLOs := map (\<lambda>s. s\<lparr>so_Target := NaN\<rparr>) (oi_SLOs i)\<rparr>"
  shows "ValidateObservabilityIntent parse i' = None \<and>
         (oi_SLOs i \<noteq> [] \<longrightarrow> (\<forall>plan. ValidateObservabilityPlan parse plan (r\<lparr>oq_Intent := i'\<rparr>) \<noteq> []))"
proof
  have nan: "validateSLOIntent parse s = None \<Longrightarrow> validateSLOIntent parse (s\<lparr>so_Target := NaN\<rparr>) = None" for s
    by (auto simp: validateSLOIntent_def split: if_splits)
  have comp: "so_ID \<circ> (\<lambda>s. s\<lparr>so_Target := NaN\<rparr>) = so_ID" by (simp add: fun_eq_iff)
  note v = valid_observability_intent[OF assms(1)]
  from v(5,7) nan have slos: "seen_loop (\<lambda>s. problem (validateSLOIntent parse s)) so_ID (\<lambda>s. ObsDuplicate ''SLO'' (so_ID s)) []
      (map (\<lambda>s. s\<lparr>so_Target := NaN\<rparr>) (oi_SLOs i)) = []"
    by (auto simp: seen_loop_Nil_iff comp)
  from assms(1) have parts: "telemetry_error i = None" "object_problems parse i = []"
    by (simp_all add: ValidateObservabilityIntent_None)
  have "object_problems parse i' = []" using parts(2) slos by (simp add: assms(2) object_problems_def)
  moreover have "telemetry_error i' = None"
    using parts(1)
    by (auto simp add: assms(2) telemetry_error_def Let_def first_failure_None_iff simp del: first_failure.simps split: if_splits)
  ultimately show "ValidateObservabilityIntent parse i' = None"
    using assms(1) by (simp add: assms(2) ValidateObservabilityIntent_None)
  show "oi_SLOs i \<noteq> [] \<longrightarrow> (\<forall>plan. ValidateObservabilityPlan parse plan (r\<lparr>oq_Intent := i'\<rparr>) \<noteq> [])"
  proof (intro impI allI notI)
    fix plan assume some: "oi_SLOs i \<noteq> []" and "ValidateObservabilityPlan parse plan (r\<lparr>oq_Intent := i'\<rparr>) = []"
    from valid_observability_plan(5)[OF this(2)]
    have m: "objects_match so_ID same_SLO (op_SLOs plan) (oi_SLOs i')" by (simp add: observabilitySLOsMatch_def)
    from some objects_matchD(1)[OF m] obtain s where s: "s \<in> set (op_SLOs plan)"
      by (cases "op_SLOs plan") (auto simp: assms(2))
    from objects_matchD(2)[OF m s] obtain t where "t \<in> set (oi_SLOs i')" "same_SLO s t" by blast
    then show False using same_SLO_eq[of s t] by (auto simp: assms(2))
  qed
qed

end
