(* ===== verification/Collector_Lifecycle.thy ===== *)
theory Collector_Lifecycle
  imports Observability_Contract
begin

text \<open>
  \<^verbatim>\<open>sdk/collector.go\<close> and \<^verbatim>\<open>sdk/collector_lifecycle.go\<close>: the deployment of a telemetry collector, planned and
  executed by a provider's adapter behind the gate \<^verbatim>\<open>RunCollectorDeploymentLifecycle\<close>.
\<close>

abbreviation CollectorApply :: string where "CollectorApply \<equiv> ''apply''"
abbreviation CollectorVerify :: string where "CollectorVerify \<equiv> ''verify''"
abbreviation CollectorRollback :: string where "CollectorRollback \<equiv> ''rollback''"
abbreviation CollectorDestroy :: string where "CollectorDestroy \<equiv> ''destroy''"

definition CollectorProofSignalDelivery :: string where "CollectorProofSignalDelivery = ''signal-delivery''"

record CollectorDeploymentPlanRequest =
  cq_TargetProvider :: string
  cq_TargetRuntime :: string
  cq_Workload :: string
  cq_Distribution :: string
  cq_CredentialRef :: string
  cq_Endpoint :: string
  cq_NativeReference :: string
  cq_OwnershipMarker :: string
  cq_Signals :: "string list"

record 'x CollectorDeploymentPlan =
  cp_AdapterID :: string
  cp_TargetProvider :: string
  cp_TargetRuntime :: string
  cp_Workload :: string
  cp_Distribution :: string
  cp_CredentialRef :: string
  cp_Endpoint :: string
  cp_NativeReference :: string
  cp_OwnershipMarker :: string
  cp_Signals :: "string list"
  cp_Opaque :: 'x

record 'x CollectorDeploymentExecutionRequest =
  ce_Plan :: "'x CollectorDeploymentPlan"
  ce_Action :: string
  ce_IdempotencyKey :: string
  ce_OwnershipMarker :: string
  ce_ApprovalReference :: string
  ce_ResourceReferences :: "string list"

record CollectorDeploymentExecutionResult =
  ct_Action :: string
  ct_OperationID :: string
  ct_ResourceRefs :: "string list"
  ct_ProofRefs :: "string list"
  ct_OwnershipMarker :: string
  ct_OwnershipVerified :: bool
  ct_IdempotencyVerified :: bool
  ct_ReadyVerified :: bool
  ct_HealthVerified :: bool
  ct_CleanupVerified :: bool
  ct_RollbackVerified :: bool

datatype collector_problem =
    CollectorNotStableID obs_error
  | CollectorDistribution
  | CollectorMarker
  | CollectorCredential intent_error
  | CollectorEndpoint
  | CollectorNativeReference
  | CollectorSignalsRequired
  | CollectorSignalDuplicate string
  | CollectorPlanAdapterRequired
  | CollectorPlanTarget
  | CollectorPlanReferences
  | CollectorPlanSignals

datatype collector_execution_error =
    CollectorActionInvalid string
  | CollectorKeyInvalid
  | CollectorMarkerMismatch
  | CollectorApprovalMultiline
  | CollectorReferenceInvalid
  | CollectorReferenceDuplicate string
  | CollectorResultAction string string
  | CollectorResultMarker
  | CollectorResultUnverified
  | CollectorResultReference execution_error
  | CollectorNotReady string
  | CollectorNotHealthy string
  | CollectorNoDelivery string
  | CollectorNoRollback
  | CollectorNoCleanup

section \<open>Plan requests and plans\<close>

definition validateCollectorEndpoint :: "url_parser \<Rightarrow> string \<Rightarrow> collector_problem option" where
  "validateCollectorEndpoint parse raw =
     (case parse (TrimSpace raw) of
        None \<Rightarrow> Some CollectorEndpoint
      | Some u \<Rightarrow>
          if (u_Scheme u \<noteq> ''https'' \<and> u_Scheme u \<noteq> ''http'') \<or> u_Host u = [] \<or> u_User u \<or> u_Fragment u \<noteq> []
          then Some CollectorEndpoint else None)"

definition validateCollectorSignals :: "string list \<Rightarrow> collector_problem option" where
  "validateCollectorSignals signals =
     (if signals = [] then Some CollectorSignalsRequired
      else first_unseen_failure (\<lambda>s. map_option CollectorNotStableID (obs_ID ''collector signal'' s))
             CollectorSignalDuplicate [] signals)"

definition ValidateCollectorDeploymentPlanRequest ::
  "url_parser \<Rightarrow> CollectorDeploymentPlanRequest \<Rightarrow> collector_problem list" where
  "ValidateCollectorDeploymentPlanRequest parse r =
     map CollectorNotStableID
       (problem (obs_ID ''collector target provider'' (cq_TargetProvider r)) @
        problem (obs_ID ''collector target runtime'' (cq_TargetRuntime r)) @
        problem (obs_ID ''collector workload'' (cq_Workload r))) @
     (if blank (cq_Distribution r) \<or> has_control (cq_Distribution r) \<or>
         list_ex (\<lambda>c. c = CHR '' '' \<or> c = CHR 0x09) (cq_Distribution r) then [CollectorDistribution] else []) @
     (if blank (cq_OwnershipMarker r) \<or> has_control (cq_OwnershipMarker r) then [CollectorMarker] else []) @
     (if cq_CredentialRef r \<noteq> []
      then map CollectorCredential (problem (ValidateCredentialReference parse (cq_CredentialRef r))) else []) @
     (if cq_Endpoint r \<noteq> [] then problem (validateCollectorEndpoint parse (cq_Endpoint r)) else []) @
     (if blank (cq_NativeReference r) \<or> has_control (cq_NativeReference r) then [CollectorNativeReference] else []) @
     problem (validateCollectorSignals (cq_Signals r))"

definition ValidateCollectorDeploymentPlan ::
  "'x CollectorDeploymentPlan \<Rightarrow> CollectorDeploymentPlanRequest \<Rightarrow> collector_problem list" where
  "ValidateCollectorDeploymentPlan plan r =
     (if blank (cp_AdapterID plan) then [CollectorPlanAdapterRequired] else []) @
     (if cp_TargetProvider plan \<noteq> cq_TargetProvider r \<or> cp_TargetRuntime plan \<noteq> cq_TargetRuntime r \<or>
         cp_Workload plan \<noteq> cq_Workload r \<or> cp_Distribution plan \<noteq> cq_Distribution r then [CollectorPlanTarget] else []) @
     (if cp_CredentialRef plan \<noteq> cq_CredentialRef r \<or> cp_Endpoint plan \<noteq> cq_Endpoint r \<or>
         cp_NativeReference plan \<noteq> cq_NativeReference r \<or> cp_OwnershipMarker plan \<noteq> cq_OwnershipMarker r
      then [CollectorPlanReferences] else []) @
     (if \<not> sameStrings (cp_Signals plan) (cq_Signals r) then [CollectorPlanSignals] else [])"

section \<open>Execution\<close>

definition ValidateCollectorDeploymentExecutionRequest ::
  "'x CollectorDeploymentExecutionRequest \<Rightarrow> collector_execution_error option" where
  "ValidateCollectorDeploymentExecutionRequest r = first_err
     [first_failure
        [(ce_Action r \<noteq> CollectorApply \<and> ce_Action r \<noteq> CollectorVerify \<and> ce_Action r \<noteq> CollectorRollback \<and>
          ce_Action r \<noteq> CollectorDestroy, CollectorActionInvalid (ce_Action r)),
         (blank (ce_IdempotencyKey r) \<or> has_control (ce_IdempotencyKey r), CollectorKeyInvalid),
         (ce_OwnershipMarker r \<noteq> cp_OwnershipMarker (ce_Plan r), CollectorMarkerMismatch),
         (has_control (ce_ApprovalReference r), CollectorApprovalMultiline)],
      first_unseen_failure (\<lambda>v. if blank v \<or> has_control v then Some CollectorReferenceInvalid else None)
        CollectorReferenceDuplicate [] (ce_ResourceReferences r)]"

text \<open>Only a last segment counts: the bare semantic is no proof.\<close>

definition containsCollectorProof :: "string list \<Rightarrow> string \<Rightarrow> bool" where
  "containsCollectorProof proofRefs semantic =
     (let wanted = ToLower (TrimSpace semantic) in
      list_ex (\<lambda>r. let reference = ToLower (TrimSpace r) in
        list_ex (\<lambda>separator. suffix (separator @ wanted) reference) [''.'', '':'', ''/'']) proofRefs)"

definition collector_evidence :: "string \<Rightarrow> CollectorDeploymentExecutionResult \<Rightarrow> collector_execution_error option" where
  "collector_evidence action t =
     (if action = CollectorApply \<or> action = CollectorVerify then first_failure
        [(\<not> ct_ReadyVerified t, CollectorNotReady action),
         (\<not> ct_HealthVerified t, CollectorNotHealthy action),
         (\<not> containsCollectorProof (ct_ProofRefs t) CollectorProofSignalDelivery, CollectorNoDelivery action)]
      else if action = CollectorRollback then (if ct_RollbackVerified t then None else Some CollectorNoRollback)
      else if action = CollectorDestroy then (if ct_CleanupVerified t then None else Some CollectorNoCleanup)
      else Some (CollectorActionInvalid action))"

definition ValidateCollectorDeploymentExecutionResult ::
  "'x CollectorDeploymentExecutionRequest \<Rightarrow> CollectorDeploymentExecutionResult \<Rightarrow> collector_execution_error option" where
  "ValidateCollectorDeploymentExecutionResult r t = first_err
     [first_failure
        [(ct_Action t \<noteq> ce_Action r, CollectorResultAction (ct_Action t) (ce_Action r)),
         (ct_OwnershipMarker t \<noteq> ce_OwnershipMarker r, CollectorResultMarker),
         (\<not> ct_OwnershipVerified t \<or> \<not> ct_IdempotencyVerified t, CollectorResultUnverified)],
      (if ct_OperationID t \<noteq> []
       then map_option CollectorResultReference
              (validateOpaqueReferences ''collector execution result operation ID'' [ct_OperationID t]) else None),
      map_option CollectorResultReference
        (validateOpaqueReferences ''collector execution result reference'' (ct_ResourceRefs t @ ct_ProofRefs t)),
      collector_evidence (ce_Action r) t]"

section \<open>The lifecycle gate\<close>

record ('w, 'x, 'e) CollectorDeploymentAdapter =
  ca_PlanCollector :: "'w Context \<Rightarrow> CollectorDeploymentPlanRequest \<Rightarrow> 'w \<Rightarrow> ('e + 'x CollectorDeploymentPlan) \<times> 'w"
  ca_ExecuteCollector ::
    "'w Context \<Rightarrow> 'x CollectorDeploymentExecutionRequest \<Rightarrow> 'w \<Rightarrow> ('e + CollectorDeploymentExecutionResult) \<times> 'w"

datatype 'e collector_lifecycle_error =
    CollectorContextRequired
  | CollectorAdapterRequired
  | CollectorProblems "collector_problem list"
  | CollectorPlanFailed 'e
  | CollectorPlanRefused "collector_problem list"
  | CollectorRequestRefused collector_execution_error
  | CollectorExecuteFailed string 'e
  | CollectorResultRefused collector_execution_error

definition collector_request ::
  "string \<Rightarrow> string \<Rightarrow> string list \<Rightarrow> string \<Rightarrow> 'x CollectorDeploymentPlan \<Rightarrow> 'x CollectorDeploymentExecutionRequest" where
  "collector_request action idempotencyKey resourceReferences approvalReference plan =
     \<lparr>ce_Plan = plan, ce_Action = action, ce_IdempotencyKey = idempotencyKey, ce_OwnershipMarker = cp_OwnershipMarker plan,
      ce_ApprovalReference = approvalReference, ce_ResourceReferences = resourceReferences\<rparr>"

definition RunCollectorDeploymentLifecycle ::
  "url_parser \<Rightarrow> 'w Context option \<Rightarrow> ('w, 'x, 'e) CollectorDeploymentAdapter option \<Rightarrow> CollectorDeploymentPlanRequest
     \<Rightarrow> string \<Rightarrow> string \<Rightarrow> string list \<Rightarrow> string \<Rightarrow> 'w
     \<Rightarrow> ('x CollectorDeploymentPlan, 'x CollectorDeploymentExecutionRequest, CollectorDeploymentExecutionResult,
         'e collector_lifecycle_error, 'w) gate_run" where
  "RunCollectorDeploymentLifecycle parse ctx adapter request action idempotencyKey resourceReferences approvalReference w =
     (case ctx of None \<Rightarrow> gate_refused CollectorContextRequired w
      | Some ctx \<Rightarrow> (case adapter of None \<Rightarrow> gate_refused CollectorAdapterRequired w
      | Some ad \<Rightarrow>
          if ValidateCollectorDeploymentPlanRequest parse request \<noteq> []
          then gate_refused (CollectorProblems (ValidateCollectorDeploymentPlanRequest parse request)) w
          else plan_and_execute
            (\<lambda>w. apfst (map_sum CollectorPlanFailed id) (ca_PlanCollector ad ctx request w))
            (\<lambda>plan. joined CollectorPlanRefused (ValidateCollectorDeploymentPlan plan request))
            (collector_request action idempotencyKey resourceReferences approvalReference)
            (\<lambda>q. map_option CollectorRequestRefused (ValidateCollectorDeploymentExecutionRequest q))
            (\<lambda>_. None)
            (\<lambda>q w. apfst (map_sum (CollectorExecuteFailed action) id) (ca_ExecuteCollector ad ctx q w))
            (\<lambda>q t. map_option CollectorResultRefused (ValidateCollectorDeploymentExecutionResult q t))
            w))"

section \<open>What the gate establishes\<close>

abbreviation collector_safe ::
  "CollectorDeploymentPlanRequest \<Rightarrow> string \<Rightarrow> string \<Rightarrow> string list \<Rightarrow> string
     \<Rightarrow> ('x CollectorDeploymentPlan, 'x CollectorDeploymentExecutionRequest, CollectorDeploymentExecutionResult,
         'e collector_lifecycle_error, 'w) gate_run \<Rightarrow> bool" where
  "collector_safe request action key references approval \<equiv> gate_safe
     (\<lambda>plan. joined CollectorPlanRefused (ValidateCollectorDeploymentPlan plan request))
     (collector_request action key references approval)
     (\<lambda>q. map_option CollectorRequestRefused (ValidateCollectorDeploymentExecutionRequest q)) (\<lambda>_. None)
     (\<lambda>q t. map_option CollectorResultRefused (ValidateCollectorDeploymentExecutionResult q t))"

lemma run_collector_safe:
  "collector_safe request action key references approval
     (RunCollectorDeploymentLifecycle parse ctx adapter request action key references approval w)"
  by (simp add: RunCollectorDeploymentLifecycle_def plan_and_execute_safe split: option.splits)

lemma run_collector_checked:
  assumes "gr_executed (RunCollectorDeploymentLifecycle parse ctx adapter request action key references approval w) \<noteq> []"
  shows "ValidateCollectorDeploymentPlanRequest parse request = []"
  using assms by (auto simp: RunCollectorDeploymentLifecycle_def split: option.splits if_splits)

text \<open>The request has signals, and each is a stable identifier, which holds no NUL byte.\<close>

lemma checked_signals:
  assumes "ValidateCollectorDeploymentPlanRequest parse r = []"
  shows "cq_Signals r \<noteq> []" and "s \<in> set (cq_Signals r) \<Longrightarrow> CHR 0x00 \<notin> set s \<and> s \<noteq> []"
proof -
  have v: "validateCollectorSignals (cq_Signals r) = None" using assms by (simp add: ValidateCollectorDeploymentPlanRequest_def)
  then show "cq_Signals r \<noteq> []" by (auto simp: validateCollectorSignals_def)
  show "s \<in> set (cq_Signals r) \<Longrightarrow> CHR 0x00 \<notin> set s \<and> s \<noteq> []"
    using v by (auto simp: validateCollectorSignals_def first_unseen_failure_None stable_id_chars split: if_splits)
qed

text \<open>
  \<^verbatim>\<open>sameStrings\<close> compares the sorted texts joined with NUL bytes: where the plan's signals are free of them, they
  are the requested ones.
\<close>

lemma plan_keeps_signals:
  assumes "ValidateCollectorDeploymentPlan plan r = []" and "ValidateCollectorDeploymentPlanRequest parse r = []"
    and "\<forall>s \<in> set (cp_Signals plan). CHR 0x00 \<notin> set s"
  shows "sort (cp_Signals plan) = sort (cq_Signals r)"
proof -
  from assms(1) have eq: "join_nul (sort (cp_Signals plan)) = join_nul (sort (cq_Signals r))"
    by (simp add: ValidateCollectorDeploymentPlan_def sameStrings_def SortedStrings_def split: if_splits)
  have sorted: "sort xs \<noteq> []" if "xs \<noteq> []" for xs :: "string list"
    using that by (metis set_empty set_sort)
  obtain y ys where ys: "sort (cq_Signals r) = y # ys" using sorted[OF checked_signals(1)[OF assms(2)]] by (cases "sort (cq_Signals r)") auto
  then have "y \<in> set (cq_Signals r)" by (metis list.set_intros(1) set_sort)
  with checked_signals(2)[OF assms(2)] have "join_nul (y # ys) \<noteq> []" by (cases ys) auto
  with eq ys have "cp_Signals plan \<noteq> []" by auto
  moreover have "\<forall>s \<in> set (sort (cp_Signals plan)) \<union> set (sort (cq_Signals r)). CHR 0x00 \<notin> set s"
    using assms(3) checked_signals(2)[OF assms(2)] by auto
  ultimately show ?thesis using join_nul_inj[OF eq] sorted checked_signals(1)[OF assms(2)] by blast
qed

lemma valid_collector_result:
  assumes "ValidateCollectorDeploymentExecutionResult q t = None"
  shows "ct_Action t = ce_Action q" and "ct_OwnershipMarker t = ce_OwnershipMarker q" and "ct_OwnershipVerified t"
    and "ct_IdempotencyVerified t" and "collector_evidence (ce_Action q) t = None"
  using assms by (auto simp: ValidateCollectorDeploymentExecutionResult_def split: if_splits)

text \<open>What each action has to prove before it counts as done.\<close>

definition collector_proven :: "string \<Rightarrow> CollectorDeploymentExecutionResult \<Rightarrow> bool" where
  "collector_proven action t \<longleftrightarrow>
     (action \<in> {CollectorApply, CollectorVerify} \<longrightarrow>
        ct_ReadyVerified t \<and> ct_HealthVerified t \<and> containsCollectorProof (ct_ProofRefs t) CollectorProofSignalDelivery) \<and>
     (action = CollectorRollback \<longrightarrow> ct_RollbackVerified t) \<and>
     (action = CollectorDestroy \<longrightarrow> ct_CleanupVerified t)"

lemma collector_evidence_None:
  "collector_evidence action t = None \<Longrightarrow>
     collector_proven action t \<and> action \<in> {CollectorApply, CollectorVerify, CollectorRollback, CollectorDestroy}"
  by (auto simp: collector_evidence_def collector_proven_def split: if_splits)

text \<open>
  C40. A collector is executed at most once and only for a plan that keeps the target, the workload, the
  distribution and every reference of the request, under its ownership marker, and whose signals are the
  requested ones in some order, unless one of them contains a NUL byte. A run without an error returns
  a result with verified ownership and idempotency and with the proof the action needs: readiness, health and
  delivered signals for an apply or a verify, the rollback for a rollback, the cleanup for a destroy.
\<close>

theorem collector_success_is_proven:
  assumes x_def: "x = RunCollectorDeploymentLifecycle parse ctx adapter request action key references approval w"
  shows "(\<forall>q \<in> set (gr_executed x). \<exists>plan. gr_plan x = Some plan \<and> gr_executed x = [q] \<and> ce_Plan q = plan \<and>
            ce_Action q = action \<and> cp_TargetProvider plan = cq_TargetProvider request \<and>
            cp_TargetRuntime plan = cq_TargetRuntime request \<and> cp_Workload plan = cq_Workload request \<and>
            cp_Distribution plan = cq_Distribution request \<and> cp_CredentialRef plan = cq_CredentialRef request \<and>
            cp_Endpoint plan = cq_Endpoint request \<and> cp_NativeReference plan = cq_NativeReference request \<and>
            ce_OwnershipMarker q = cq_OwnershipMarker request \<and>
            ((\<forall>s \<in> set (cp_Signals plan). CHR 0x00 \<notin> set s) \<longrightarrow> sort (cp_Signals plan) = sort (cq_Signals request))) \<and>
         (gr_error x = None \<longrightarrow>
            (\<exists>q t. gr_executed x = [q] \<and> gr_result x = Some t \<and> ct_Action t = action \<and>
               ct_OwnershipMarker t = cq_OwnershipMarker request \<and> ct_OwnershipVerified t \<and> ct_IdempotencyVerified t \<and>
               collector_proven action t))"
    (is "?executed \<and> ?returned")
proof
  have safe: "collector_safe request action key references approval x"
    unfolding x_def by (rule run_collector_safe)
  show ran: ?executed
  proof
    fix q assume "q \<in> set (gr_executed x)"
    with safe obtain plan where plan: "gr_plan x = Some plan" "gr_executed x = [q]"
      "q = collector_request action key references approval plan" "ValidateCollectorDeploymentPlan plan request = []"
      by (auto simp: gate_safe_def)
    moreover from this(2) have "ValidateCollectorDeploymentPlanRequest parse request = []"
      unfolding x_def using run_collector_checked[of parse ctx adapter request action key references approval w] by simp
    ultimately show "\<exists>plan. gr_plan x = Some plan \<and> gr_executed x = [q] \<and> ce_Plan q = plan \<and>
        ce_Action q = action \<and> cp_TargetProvider plan = cq_TargetProvider request \<and>
        cp_TargetRuntime plan = cq_TargetRuntime request \<and> cp_Workload plan = cq_Workload request \<and>
        cp_Distribution plan = cq_Distribution request \<and> cp_CredentialRef plan = cq_CredentialRef request \<and>
        cp_Endpoint plan = cq_Endpoint request \<and> cp_NativeReference plan = cq_NativeReference request \<and>
        ce_OwnershipMarker q = cq_OwnershipMarker request \<and>
        ((\<forall>s \<in> set (cp_Signals plan). CHR 0x00 \<notin> set s) \<longrightarrow> sort (cp_Signals plan) = sort (cq_Signals request))"
      using plan_keeps_signals by (auto simp: collector_request_def ValidateCollectorDeploymentPlan_def split: if_splits)
  qed
  show ?returned
  proof
    assume "gr_error x = None"
    with safe obtain plan t where t: "gr_executed x = [collector_request action key references approval plan]"
      "gr_result x = Some t"
      "ValidateCollectorDeploymentExecutionResult (collector_request action key references approval plan) t = None"
      by (auto simp: gate_safe_def)
    from ran t(1) have marker: "ce_OwnershipMarker (collector_request action key references approval plan) = cq_OwnershipMarker request"
      by auto
    have act: "ce_Action (collector_request action key references approval plan) = action" by (simp add: collector_request_def)
    note v = valid_collector_result[OF t(3), unfolded marker act]
    from t v collector_evidence_None[OF v(5)]
    show "\<exists>q t. gr_executed x = [q] \<and> gr_result x = Some t \<and> ct_Action t = action \<and>
        ct_OwnershipMarker t = cq_OwnershipMarker request \<and> ct_OwnershipVerified t \<and> ct_IdempotencyVerified t \<and>
        collector_proven action t"
      by blast
  qed
qed

section \<open>Signals that a plan may merge\<close>

text \<open>
  \<^verbatim>\<open>sameStrings\<close> joins the sorted texts with a NUL byte, and the signals of a plan are not checked otherwise:
  a plan that names the two requested signals as one text with a NUL between them is accepted.
\<close>

lemma merged_signals_are_accepted:
  assumes "ValidateCollectorDeploymentPlan plan r = []" and "cq_Signals r = [a, b]" and "a < b"
  shows "ValidateCollectorDeploymentPlan (plan\<lparr>cp_Signals := [a @ CHR 0x00 # b]\<rparr>) r = []"
  using assms by (auto simp: ValidateCollectorDeploymentPlan_def sameStrings_def SortedStrings_def split: if_splits)

section \<open>An example\<close>

definition otel_request :: CollectorDeploymentPlanRequest where
  "otel_request = \<lparr>cq_TargetProvider = ''aws'', cq_TargetRuntime = ''ecs'', cq_Workload = ''otel'', cq_Distribution = ''adot'',
     cq_CredentialRef = [], cq_Endpoint = [], cq_NativeReference = ''task'', cq_OwnershipMarker = ''shop'',
     cq_Signals = [''logs'']\<rparr>"

definition otel_adapter :: "(nat, unit, string) CollectorDeploymentAdapter" where
  "otel_adapter =
     \<lparr>ca_PlanCollector = \<lambda>_ r w.
        (Inr \<lparr>cp_AdapterID = ''adot'', cp_TargetProvider = cq_TargetProvider r, cp_TargetRuntime = cq_TargetRuntime r,
           cp_Workload = cq_Workload r, cp_Distribution = cq_Distribution r, cp_CredentialRef = cq_CredentialRef r,
           cp_Endpoint = cq_Endpoint r, cp_NativeReference = cq_NativeReference r, cp_OwnershipMarker = cq_OwnershipMarker r,
           cp_Signals = cq_Signals r, cp_Opaque = ()\<rparr>, Suc w),
      ca_ExecuteCollector = \<lambda>_ q w.
        (Inr \<lparr>ct_Action = ce_Action q, ct_OperationID = [], ct_ResourceRefs = [], ct_ProofRefs = [''aws/Signal-Delivery''],
           ct_OwnershipMarker = ce_OwnershipMarker q, ct_OwnershipVerified = True, ct_IdempotencyVerified = True,
           ct_ReadyVerified = True, ct_HealthVerified = True, ct_CleanupVerified = False, ct_RollbackVerified = False\<rparr>, Suc w)\<rparr>"

definition otel_run where
  "otel_run = RunCollectorDeploymentLifecycle (\<lambda>_. None) (Some (\<lambda>_. None)) (Some otel_adapter) otel_request CollectorApply
     ''key'' [] [] 0"

lemma otel_applied: "gr_error otel_run = None"
  by code_simp

theorem collector_success_is_proven_witness:
  "\<exists>t. gr_result otel_run = Some t \<and> ct_ReadyVerified t \<and> containsCollectorProof (ct_ProofRefs t) CollectorProofSignalDelivery"
  using collector_success_is_proven[OF otel_run_def] otel_applied by (auto simp: collector_proven_def)

end
