(* ===== verification/Credential_Lifecycle.thy ===== *)
theory Credential_Lifecycle
  imports Observability_Contract
begin

text \<open>
  \<^verbatim>\<open>sdk/credentials.go\<close>: validation, rotation and revocation of a credential by a provider's adapter, which sees
  opaque references only, and the gate \<^verbatim>\<open>RunCredentialLifecycle\<close> in front of it.
\<close>

abbreviation CredentialValidate :: string where "CredentialValidate \<equiv> ''validate''"
abbreviation CredentialRotate :: string where "CredentialRotate \<equiv> ''rotate''"
abbreviation CredentialRevoke :: string where "CredentialRevoke \<equiv> ''revoke''"

record CredentialLifecycleDescriptor =
  kd_APIVersion :: string
  kd_ID :: string
  kd_Provider :: string
  kd_Version :: string
  kd_Actions :: "string list"

record CredentialLifecycleRequest =
  kq_Action :: string
  kq_Provider :: string
  kq_CredentialRef :: string
  kq_ManagementCredentialRef :: string
  kq_CredentialVersion :: string
  kq_OwnershipMarker :: string
  kq_IdempotencyKey :: string

record CredentialLifecycleResult =
  kt_Action :: string
  kt_OperationID :: string
  kt_CredentialVersion :: string
  kt_ScopeVerified :: bool
  kt_RedactionVerified :: bool

datatype credential_problem =
    CredentialDescriptor descriptor_problem
  | CredentialActionsRequired
  | CredentialActionInvalid string
  | CredentialActionDuplicate string
  | CredentialReference string intent_error
  | CredentialVersionMultiline
  | CredentialMarker obs_error
  | CredentialKeyInvalid

datatype 'e credential_error =
    CredentialContextRequired
  | CredentialAdapterRequired
  | CredentialProblems "credential_problem list"
  | CredentialProviderMismatch string string
  | CredentialActionUnsupported string string
  | CredentialExecute string 'e
  | CredentialResultAction string string
  | CredentialResultIdentity
  | CredentialScopeUnverified
  | CredentialRedactionUnverified

definition validCredentialLifecycleAction :: "string \<Rightarrow> bool" where
  "validCredentialLifecycleAction a \<longleftrightarrow> a \<in> set [CredentialValidate, CredentialRotate, CredentialRevoke]"

definition containsCredentialLifecycleAction :: "string list \<Rightarrow> string \<Rightarrow> bool" where
  "containsCredentialLifecycleAction actions wanted \<longleftrightarrow> list_ex (\<lambda>a. a = wanted) actions"

definition ValidateCredentialLifecycleDescriptor :: "CredentialLifecycleDescriptor \<Rightarrow> credential_problem list" where
  "ValidateCredentialLifecycleDescriptor d =
     map CredentialDescriptor
       ((if kd_APIVersion d \<noteq> ExtensionAPIVersion then [DescriptorAPIVersion (kd_APIVersion d)] else []) @
        descriptor_ID ''credential lifecycle adapter ID'' (kd_ID d) @
        descriptor_ID ''credential lifecycle provider ID'' (kd_Provider d) @
        validateExtensionVersion (kd_Version d)) @
     (if kd_Actions d = [] then [CredentialActionsRequired] else []) @
     seen_loop (\<lambda>a. if validCredentialLifecycleAction a then [] else [CredentialActionInvalid a]) (\<lambda>a. a)
       CredentialActionDuplicate [] (kd_Actions d)"

text \<open>The idempotency key is checked for line breaks only: it may hold a NUL byte, as the other keys may not.\<close>

definition ValidateCredentialLifecycleRequest :: "url_parser \<Rightarrow> CredentialLifecycleRequest \<Rightarrow> credential_problem list" where
  "ValidateCredentialLifecycleRequest parse r =
     (if validCredentialLifecycleAction (kq_Action r) then [] else [CredentialActionInvalid (kq_Action r)]) @
     map CredentialDescriptor (descriptor_ID ''credential lifecycle provider ID'' (kq_Provider r)) @
     map (CredentialReference ''reference'') (problem (ValidateCredentialReference parse (kq_CredentialRef r))) @
     (if kq_ManagementCredentialRef r \<noteq> []
      then map (CredentialReference ''management reference'')
             (problem (ValidateCredentialReference parse (kq_ManagementCredentialRef r))) else []) @
     (if \<not> blank (kq_CredentialVersion r) \<and> has_control (kq_CredentialVersion r) then [CredentialVersionMultiline] else []) @
     map CredentialMarker
       (problem (validateOwnershipMarker ''credential lifecycle ownership marker'' (kq_OwnershipMarker r))) @
     (if blank (kq_IdempotencyKey r) \<or> has_line_break (kq_IdempotencyKey r) then [CredentialKeyInvalid] else [])"

definition ValidateCredentialLifecycleResult ::
  "url_parser \<Rightarrow> CredentialLifecycleRequest \<Rightarrow> CredentialLifecycleResult \<Rightarrow> 'e credential_error option" where
  "ValidateCredentialLifecycleResult parse r t = first_err
     [joined CredentialProblems (ValidateCredentialLifecycleRequest parse r),
      first_failure
        [(kt_Action t \<noteq> kq_Action r, CredentialResultAction (kt_Action t) (kq_Action r)),
         (blank (kt_OperationID t) \<and> blank (kt_CredentialVersion t), CredentialResultIdentity),
         (\<not> kt_ScopeVerified t, CredentialScopeUnverified),
         (\<not> kt_RedactionVerified t, CredentialRedactionUnverified)]]"

section \<open>The gate\<close>

record ('w, 'e) CredentialLifecycleAdapter =
  ka_CredentialLifecycleDescriptor :: CredentialLifecycleDescriptor
  ka_ExecuteCredentialLifecycle ::
    "'w Context \<Rightarrow> CredentialLifecycleRequest \<Rightarrow> 'w \<Rightarrow> ('e + CredentialLifecycleResult) \<times> 'w"

text \<open>The outcome, the requests executed, the world.\<close>

record ('e, 'w) credential_run =
  kr_outcome :: "'e credential_error + CredentialLifecycleResult"
  kr_executed :: "CredentialLifecycleRequest list"
  kr_world :: 'w

definition credential_admission ::
  "url_parser \<Rightarrow> CredentialLifecycleDescriptor \<Rightarrow> CredentialLifecycleRequest \<Rightarrow> 'e credential_error option" where
  "credential_admission parse d request = first_err
     [joined CredentialProblems (ValidateCredentialLifecycleDescriptor d),
      first_failure
        [(kq_Provider request \<noteq> kd_Provider d, CredentialProviderMismatch (kq_Provider request) (kd_Provider d)),
         (\<not> containsCredentialLifecycleAction (kd_Actions d) (kq_Action request),
          CredentialActionUnsupported (kd_ID d) (kq_Action request))],
      joined CredentialProblems (ValidateCredentialLifecycleRequest parse request)]"

definition RunCredentialLifecycle ::
  "url_parser \<Rightarrow> 'w Context option \<Rightarrow> ('w, 'e) CredentialLifecycleAdapter option \<Rightarrow> CredentialLifecycleRequest \<Rightarrow> 'w
     \<Rightarrow> ('e, 'w) credential_run" where
  "RunCredentialLifecycle parse ctx adapter request w =
     (let refuse = (\<lambda>e. \<lparr>kr_outcome = Inl e, kr_executed = [], kr_world = w\<rparr>) in
      case ctx of None \<Rightarrow> refuse CredentialContextRequired
      | Some ctx \<Rightarrow> (case adapter of None \<Rightarrow> refuse CredentialAdapterRequired
      | Some ad \<Rightarrow> (case credential_admission parse (ka_CredentialLifecycleDescriptor ad) request of
          Some e \<Rightarrow> refuse e
        | None \<Rightarrow> (case ka_ExecuteCredentialLifecycle ad ctx request w of
            (Inl e, w1) \<Rightarrow> \<lparr>kr_outcome = Inl (CredentialExecute (kq_Action request) e), kr_executed = [request], kr_world = w1\<rparr>
          | (Inr t, w1) \<Rightarrow>
              \<lparr>kr_outcome = (case ValidateCredentialLifecycleResult parse request t of Some e \<Rightarrow> Inl e | None \<Rightarrow> Inr t),
               kr_executed = [request], kr_world = w1\<rparr>))))"

section \<open>What the gate establishes\<close>

text \<open>
  A credential adapter is executed at most once, for its own provider, an action it declares and opaque
  references that name a secret store; a result that is returned identifies itself and verified the scope and
  the redaction.
\<close>

lemma credential_run_shape:
  fixes adapter :: "('w, 'e) CredentialLifecycleAdapter option"
  assumes x: "x = RunCredentialLifecycle parse ctx adapter request w"
  shows "kr_executed x = [] \<and> isl (kr_outcome x) \<or>
         kr_executed x = [request] \<and>
         (\<exists>ad. adapter = Some ad \<and>
            credential_admission parse (ka_CredentialLifecycleDescriptor ad) request = (None :: 'e credential_error option)) \<and>
         (\<forall>t. kr_outcome x = Inr t \<longrightarrow> ValidateCredentialLifecycleResult parse request t = (None :: 'e credential_error option))"
proof (cases "\<exists>c ad. ctx = Some c \<and> adapter = Some ad \<and>
    credential_admission parse (ka_CredentialLifecycleDescriptor ad) request = (None :: 'e credential_error option)")
  case False
  then show ?thesis by (auto simp: x RunCredentialLifecycle_def split: option.splits)
next
  case True
  then obtain c ad where ad: "ctx = Some c" "adapter = Some ad"
    "credential_admission parse (ka_CredentialLifecycleDescriptor ad) request = (None :: 'e credential_error option)" by blast
  obtain y w1 where "ka_ExecuteCredentialLifecycle ad c request w = (y, w1)" by (rule prod.exhaust)
  with ad show ?thesis by (cases y) (auto simp: x RunCredentialLifecycle_def split: option.splits)
qed

lemma credential_executed_once:
  assumes "kr_executed (RunCredentialLifecycle parse ctx adapter request w) \<noteq> []"
  shows "kr_executed (RunCredentialLifecycle parse ctx adapter request w) = [request]"
    and "\<exists>ad. adapter = Some ad \<and> kq_Provider request = kd_Provider (ka_CredentialLifecycleDescriptor ad) \<and>
           kq_Action request \<in> set (kd_Actions (ka_CredentialLifecycleDescriptor ad))"
    and "ValidateCredentialReference parse (kq_CredentialRef request) = None"
    and "kq_ManagementCredentialRef request \<noteq> [] \<Longrightarrow> ValidateCredentialReference parse (kq_ManagementCredentialRef request) = None"
  using assms credential_run_shape[OF refl, of parse ctx adapter request w]
  by (auto simp: credential_admission_def ValidateCredentialLifecycleRequest_def containsCredentialLifecycleAction_def
      list_ex_iff split: if_splits)

lemma credential_result_verified:
  assumes "kr_outcome (RunCredentialLifecycle parse ctx adapter request w) = Inr t"
  shows "kt_Action t = kq_Action request" and "\<not> blank (kt_OperationID t) \<or> \<not> blank (kt_CredentialVersion t)"
    and "kt_ScopeVerified t" and "kt_RedactionVerified t"
  using assms credential_run_shape[OF refl, of parse ctx adapter request w]
  by (auto simp: ValidateCredentialLifecycleResult_def split: if_splits)

end
