(* ===== verification/Web_Runtime.thy ===== *)
theory Web_Runtime
  imports Resilience_Data Go_Time_Format
begin

text \<open>
  \<^verbatim>\<open>sdk/webruntime.go\<close>: the descriptor of an HTTP front end, and the rule that admits one for a Magento release.
  The copies that \<^verbatim>\<open>cloneWebRuntimeDescriptor\<close> makes are the values themselves. \<^verbatim>\<open>strconv.Atoi\<close> fails where
  the digits do not fit a 64-bit integer.
\<close>

abbreviation WebRuntimeNginxFPM :: string where "WebRuntimeNginxFPM \<equiv> ''nginx-fpm''"
abbreviation WebRuntimePHPApache :: string where "WebRuntimePHPApache \<equiv> ''php-apache''"
abbreviation AdobeSupported :: string where "AdobeSupported \<equiv> ''supported''"
abbreviation AdobeUnsupported :: string where "AdobeUnsupported \<equiv> ''unsupported''"

record WebRuntimeComposeHints =
  wh_ImageFamily :: string
  wh_HealthPath :: string

record WebRuntimeCloudHints =
  wc_Ports :: "int list"
  wc_Placement :: string

record WebRuntimeDescriptor =
  wd_APIVersion :: string
  wd_ID :: string
  wd_Version :: string
  wd_Source :: string
  wd_Digest :: string
  wd_Tier :: string
  wd_Adobe :: string
  wd_MagentoReleases :: "string list"
  wd_LocalCompose :: WebRuntimeComposeHints
  wd_Cloud :: WebRuntimeCloudHints

datatype web_problem =
    WebDescriptor descriptor_problem
  | WebSourceRequired
  | WebDigestPrefix
  | WebTierInvalid string
  | WebAdobeInvalid string
  | WebReleaseRequired
  | WebReleaseInvalid string
  | WebReleaseDuplicate string
  | WebImageFamilyRequired
  | WebHealthPath
  | WebPlacementInvalid string
  | WebPortRequired
  | WebPortRange int
  | WebPortDuplicate int

section \<open>Descriptors\<close>

text \<open>\<^verbatim>\<open>^2\.4\.\d+(?:-p[1-9][0-9]*)?$\<close>\<close>

definition magentoReleasePattern :: rx where
  "magentoReleasePattern = rx_seqs
     [rx_lit ''2.4.'', RSet chr_digit, RStar (RSet chr_digit),
      rx_opt (rx_seqs [rx_lit ''-p'', RSet (\<lambda>c. chr_digit c \<and> c \<noteq> CHR ''0''), RStar (RSet chr_digit)])]"

definition ValidateWebRuntimeDescriptor :: "WebRuntimeDescriptor \<Rightarrow> web_problem list" where
  "ValidateWebRuntimeDescriptor d =
     map WebDescriptor
       ((if wd_APIVersion d \<noteq> ExtensionAPIVersion then [DescriptorAPIVersion (wd_APIVersion d)] else []) @
        descriptor_ID ''web-runtime ID'' (wd_ID d) @ validateExtensionVersion (wd_Version d)) @
     (if blank (wd_Source d) then [WebSourceRequired] else []) @
     (if wd_Digest d \<noteq> [] \<and> \<not> prefix ''sha256:'' (wd_Digest d) then [WebDigestPrefix] else []) @
     (if wd_Tier d \<noteq> ''certified'' \<and> wd_Tier d \<noteq> ''experimental'' then [WebTierInvalid (wd_Tier d)] else []) @
     (if wd_Adobe d \<noteq> AdobeSupported \<and> wd_Adobe d \<noteq> AdobeUnsupported then [WebAdobeInvalid (wd_Adobe d)] else []) @
     (if wd_MagentoReleases d = [] then [WebReleaseRequired] else []) @
     seen_loop (\<lambda>r. if full_match magentoReleasePattern r then [] else [WebReleaseInvalid r]) (\<lambda>r. r) WebReleaseDuplicate []
       (wd_MagentoReleases d) @
     (if blank (wh_ImageFamily (wd_LocalCompose d)) then [WebImageFamilyRequired] else []) @
     (if \<not> prefix ''/'' (wh_HealthPath (wd_LocalCompose d)) \<or>
         list_ex (\<lambda>c. c = CHR '' '' \<or> c = CHR 0x09 \<or> c = CHR 0x0D \<or> c = CHR 0x0A) (wh_HealthPath (wd_LocalCompose d))
      then [WebHealthPath] else []) @
     (if wc_Placement (wd_Cloud d) \<in> set [''process'', ''sidecar''] then []
      else [WebPlacementInvalid (wc_Placement (wd_Cloud d))]) @
     (if wc_Ports (wd_Cloud d) = [] then [WebPortRequired] else []) @
     seen_loop (\<lambda>p. if p < 1 \<or> p > 65535 then [WebPortRange p] else []) (\<lambda>p. p) WebPortDuplicate [] (wc_Ports (wd_Cloud d))"

text \<open>\<^verbatim>\<open>sort.Slice\<close> leaves open the order of equal IDs; the order kept here is one of those.\<close>

definition WebRuntimeDescriptorsByID :: "WebRuntimeDescriptor list \<Rightarrow> WebRuntimeDescriptor list" where
  "WebRuntimeDescriptorsByID ds = sort_key wd_ID ds"

lemma valid_web_runtime:
  assumes "ValidateWebRuntimeDescriptor d = []"
  shows "wd_MagentoReleases d \<noteq> []" and "distinct (wd_MagentoReleases d)" and "distinct (wc_Ports (wd_Cloud d))"
    and "\<forall>p \<in> set (wc_Ports (wd_Cloud d)). 1 \<le> p \<and> p \<le> 65535"
proof -
  from assms have "seen_loop (\<lambda>p. if p < 1 \<or> p > 65535 then [WebPortRange p] else []) (\<lambda>p. p) WebPortDuplicate []
      (wc_Ports (wd_Cloud d)) = []"
    "seen_loop (\<lambda>r. if full_match magentoReleasePattern r then [] else [WebReleaseInvalid r]) (\<lambda>r. r) WebReleaseDuplicate []
       (wd_MagentoReleases d) = []" and some: "wd_MagentoReleases d \<noteq> []"
    by (simp_all add: ValidateWebRuntimeDescriptor_def split: if_splits)
  then show "distinct (wd_MagentoReleases d)" "distinct (wc_Ports (wd_Cloud d))"
    "\<forall>p \<in> set (wc_Ports (wd_Cloud d)). 1 \<le> p \<and> p \<le> 65535"
    by (auto simp: seen_loop_Nil_iff split: if_splits)
  from some show "wd_MagentoReleases d \<noteq> []" .
qed

section \<open>Magento releases\<close>

definition Atoi :: "string \<Rightarrow> int option" where
  "Atoi ds = (if digits_val 0 ds \<le> MaxInt64 then Some (digits_val 0 ds) else None)"

record magentoRelease =
  mr_major :: int
  mr_minor :: int
  mr_patch :: int
  mr_security :: int

text \<open>
  \<^verbatim>\<open>^(2\.4\.\d+)(?:-p([1-9][0-9]*))?$\<close> with its two captures: the digits of the patch and those of the
  security release, empty if there is none. No digit is a hyphen, so the captures are determined.
\<close>

definition magento_captures :: "string \<Rightarrow> (string \<times> string) option" where
  "magento_captures v =
     (let rest = drop 4 v; patch = takeWhile chr_digit rest; security = dropWhile chr_digit rest in
      if \<not> prefix ''2.4.'' v \<or> patch = [] then None
      else if security = [] then Some (patch, [])
      else if prefix ''-p'' security \<and> drop 2 security \<noteq> [] \<and> hd (drop 2 security) \<noteq> CHR ''0'' \<and>
              list_all chr_digit (drop 2 security)
      then Some (patch, drop 2 security) else None)"

definition parseMagentoRelease :: "string \<Rightarrow> magentoRelease option" where
  "parseMagentoRelease version =
     (case magento_captures (TrimSpace version) of
        None \<Rightarrow> None
      | Some (patch, security) \<Rightarrow> (case Atoi patch of
          None \<Rightarrow> None
        | Some p \<Rightarrow>
            (case (if security = [] then Some 0 else Atoi security) of
               None \<Rightarrow> None
             | Some s \<Rightarrow> Some \<lparr>mr_major = 2, mr_minor = 4, mr_patch = p, mr_security = s\<rparr>)))"

definition adobeListsNginxOnly :: "string \<Rightarrow> bool" where
  "adobeListsNginxOnly version =
     (case parseMagentoRelease version of
        None \<Rightarrow> True
      | Some r \<Rightarrow>
          if mr_major r \<noteq> 2 \<or> mr_minor r \<noteq> 4 then True
          else if mr_patch r > 8 then True
          else mr_patch r = 8 \<and> mr_security r \<ge> 3)"

definition AdobeSupportFor :: "string \<Rightarrow> string \<Rightarrow> string" where
  "AdobeSupportFor ident version =
     (if ident = WebRuntimeNginxFPM then AdobeSupported
      else if ident = WebRuntimePHPApache then (if adobeListsNginxOnly version then AdobeUnsupported else AdobeSupported)
      else AdobeUnsupported)"

text \<open>The warnings name the plugin and the release, the error too.\<close>

definition AdmitWebRuntime :: "string \<Rightarrow> string \<Rightarrow> bool \<Rightarrow> (string \<times> string) + (string \<times> string) list" where
  "AdmitWebRuntime ident version allowUnsupported =
     (if AdobeSupportFor ident version = AdobeSupported then Inr []
      else if \<not> allowUnsupported then Inl (ident, version)
      else Inr [(ident, version)])"

section \<open>What is admitted\<close>

text \<open>The text of a release, and that it is read back.\<close>

definition release_text :: "int \<Rightarrow> int \<Rightarrow> string" where
  "release_text patch security = ''2.4.'' @ decimal patch @ (if security = 0 then [] else ''-p'' @ decimal security)"

text \<open>One digit, kept folded so that its bits stay out of the proofs.\<close>

definition digit_char :: "int \<Rightarrow> char" where
  "digit_char n = char_of (48 + nat n)"

lemma digit_char:
  assumes "0 \<le> n" and "n < 10"
  shows "chr_digit (digit_char n)" and "digit_val (digit_char n) = n" and "digit_char n = CHR ''0'' \<longleftrightarrow> n = 0"
proof -
  have "\<forall>n \<in> set [0..9]. chr_digit (digit_char n) \<and> digit_val (digit_char n) = n \<and> (digit_char n = CHR ''0'' \<longleftrightarrow> n = 0)"
    by code_simp
  moreover from assms have "n \<in> set [0..9]" by simp
  ultimately show "chr_digit (digit_char n)" "digit_val (digit_char n) = n" "digit_char n = CHR ''0'' \<longleftrightarrow> n = 0"
    by blast+
qed

lemma decimal_small: "n < 10 \<Longrightarrow> decimal n = [digit_char n]"
  by (subst decimal.simps) (simp add: digit_char_def)

lemma decimal_large: "\<not> n < 10 \<Longrightarrow> decimal n = decimal (n div 10) @ [digit_char (n mod 10)]"
  by (subst decimal.simps) (simp add: digit_char_def)

lemma decimal_cases:
  assumes "0 \<le> n" and "\<And>n. 0 \<le> n \<Longrightarrow> n < 10 \<Longrightarrow> P n"
    and "\<And>n. 10 \<le> n \<Longrightarrow> 0 < n div 10 \<Longrightarrow> P (n div 10) \<Longrightarrow> P n"
  shows "P (n :: int)"
  using assms(1)
proof (induction n rule: decimal.induct)
  case (1 n)
  show ?case
  proof (cases "n < 10")
    case True
    with 1 assms(2) show ?thesis by simp
  next
    case False
    then have "0 < n div 10" by (simp add: pos_imp_zdiv_pos_iff)
    with 1 False assms(3) show ?thesis by simp
  qed
qed

lemma decimal_ne: "decimal n \<noteq> []"
  by (cases "n < 10") (simp_all add: decimal_small decimal_large)

lemma decimal_digits: "0 \<le> n \<Longrightarrow> list_all chr_digit (decimal n)"
  by (erule decimal_cases) (simp_all add: decimal_small decimal_large digit_char)

lemma decimal_hd: "0 \<le> n \<Longrightarrow> 0 < n \<longrightarrow> hd (decimal n) \<noteq> CHR ''0''"
  by (erule decimal_cases) (simp_all add: decimal_small decimal_large digit_char decimal_ne)

lemma digits_val_append: "digits_val a (xs @ ys) = digits_val (digits_val a xs) ys"
  by (induction a xs rule: digits_val.induct) simp_all

lemma digits_val_decimal: "0 \<le> n \<Longrightarrow> digits_val 0 (decimal n) = n"
  by (erule decimal_cases) (simp_all add: decimal_small decimal_large digits_val_append digit_char)

lemma Atoi_decimal: "0 \<le> n \<Longrightarrow> n \<le> MaxInt64 \<Longrightarrow> Atoi (decimal n) = Some n"
  by (simp add: Atoi_def digits_val_decimal)

lemma magento_captures_release:
  assumes "0 \<le> patch" and "0 \<le> security"
  shows "magento_captures (release_text patch security) = Some (decimal patch, if security = 0 then [] else decimal security)"
proof -
  let ?tail = "if security = 0 then [] else ''-p'' @ decimal security"
  have tail: "takeWhile chr_digit ?tail = []" "dropWhile chr_digit ?tail = ?tail" by (simp_all add: chr_digit_def)
  have "takeWhile chr_digit (decimal patch @ ?tail) = decimal patch @ takeWhile chr_digit ?tail"
    and "dropWhile chr_digit (decimal patch @ ?tail) = dropWhile chr_digit ?tail"
    using decimal_digits[OF assms(1)] by (simp_all add: list_all_iff takeWhile_append2 dropWhile_append2)
  with tail have "takeWhile chr_digit (decimal patch @ ?tail) = decimal patch"
    and "dropWhile chr_digit (decimal patch @ ?tail) = ?tail" by simp_all
  moreover have "drop 4 (release_text patch security) = decimal patch @ ?tail" by (simp add: release_text_def)
  moreover have "prefix ''2.4.'' (release_text patch security)" by (simp add: release_text_def)
  ultimately show ?thesis
    using assms decimal_ne[of patch] decimal_ne[of security] decimal_digits[of security] decimal_hd[of security] by (auto simp: magento_captures_def Let_def)
qed

text \<open>
  Apache is supported exactly below 2.4.8-p3, whatever the size of the numbers up to that of a Go integer;
  nginx always; nothing else ever. An unreadable release supports nginx only.
\<close>

lemma apache_supported_iff:
  assumes "0 \<le> patch" and "patch \<le> MaxInt64" and "0 \<le> security" and "security \<le> MaxInt64"
    and "TrimSpace v = release_text patch security"
  shows "AdobeSupportFor WebRuntimePHPApache v = AdobeSupported \<longleftrightarrow> patch < 8 \<or> (patch = 8 \<and> security < 3)"
  using assms
  by (auto simp: AdobeSupportFor_def adobeListsNginxOnly_def parseMagentoRelease_def magento_captures_release
      Atoi_decimal decimal_ne)

lemma nginx_always_admitted: "AdmitWebRuntime WebRuntimeNginxFPM v allow = Inr []"
  by (simp add: AdmitWebRuntime_def AdobeSupportFor_def)

lemma unsupported_needs_hatch:
  assumes "AdobeSupportFor ident v \<noteq> AdobeSupported"
  shows "AdmitWebRuntime ident v False = Inl (ident, v)" and "AdmitWebRuntime ident v True = Inr [(ident, v)]"
  using assms by (simp_all add: AdmitWebRuntime_def)

lemma unreadable_release_is_nginx_only:
  "AdobeSupportFor WebRuntimePHPApache ''2.4.9223372036854775808'' = AdobeUnsupported"
  "AdobeSupportFor WebRuntimePHPApache '' 2.4.8-p2 '' = AdobeSupported"
  "AdobeSupportFor WebRuntimePHPApache ''2.4.8-p03'' = AdobeUnsupported"
  by code_simp+

end
