(* ===== verification/SDK_Descriptors.thy ===== *)
theory SDK_Descriptors
  imports Deploy_Orchestrator Resilience_Data
begin

text \<open>
  What extensions declare about themselves: capabilities, requirements, transforms and existing resources
  (\<^verbatim>\<open>sdk/validation.go\<close>), the extension descriptor (\<^verbatim>\<open>sdk/extensions.go\<close>) and the desired topology
  (\<^verbatim>\<open>sdk/topology.go\<close>). A validator joins its problems: a list, empty for \<^verbatim>\<open>nil\<close>.
\<close>

record CapabilityDescriptor =
  cd_ID :: string
  cd_Capability :: string
  cd_Kind :: string
  cd_Provider :: string

record TransformDescriptor =
  tf_ID :: string
  tf_Provider :: string
  tf_Runtime :: string
  tf_Components :: "string list"

record ExistingResourceRef =
  xr_ID :: string
  xr_Provider :: string
  xr_Kind :: string
  xr_ExternalID :: string

record ExtensionDescriptor =
  xd_APIVersion :: string
  xd_ID :: string
  xd_Version :: string
  xd_Source :: string
  xd_Digest :: string
  xd_Build :: string
  xd_Tier :: string
  xd_Targets :: "TargetDescriptor list"
  xd_Capabilities :: "CapabilityDescriptor list"
  xd_OutputKeys :: "string list"

datatype sdk_problem =
    SDKNotStableID string string
  | SDKKindInvalid string
  | SDKDuplicate string string
  | SDKUnsupported "string list"
  | SDKRequired string
  | SDKDescriptor descriptor_problem
  | SDKDigestPrefix
  | SDKTierInvalid string
  | SDKTarget "string list"
  | SDKOutputKeyEmpty
  | SDKOutputKeyMissing string
  | SDKPresetInvalid string
  | SDKZones string
  | SDKSingletonScaling string
  | SDKScaleToZero string
  | SDKPointInTime string
  | SDKTopologyEmpty

definition sdk_ID :: "string \<Rightarrow> string \<Rightarrow> sdk_problem list" where
  "sdk_ID name v = (if full_match stableID v then [] else [SDKNotStableID name v])"

lemma sdk_ID_Nil [simp]: "sdk_ID name v = [] \<longleftrightarrow> full_match stableID v"
  by (simp add: sdk_ID_def)

section \<open>Capabilities\<close>

definition validCapabilityKind :: "string \<Rightarrow> bool" where
  "validCapabilityKind k \<longleftrightarrow> k \<in> set
     [''database'', ''cache'', ''search'', ''queue'', ''object-storage'', ''edge'', ''observability'']"

definition validExistingResourceKind :: "string \<Rightarrow> bool" where
  "validExistingResourceKind k \<longleftrightarrow> k \<in> set
     [''network'', ''database'', ''cache'', ''search'', ''queue'', ''object-storage'', ''dns-zone'', ''certificate'']"

definition ValidateCapabilityDescriptors :: "CapabilityDescriptor list \<Rightarrow> sdk_problem list" where
  "ValidateCapabilityDescriptors ds = seen_loop
     (\<lambda>d. sdk_ID ''capability provider ID'' (cd_ID d) @ sdk_ID ''capability ID'' (cd_Capability d) @
        sdk_ID ''provider ID'' (cd_Provider d) @
        (if validCapabilityKind (cd_Kind d) then [] else [SDKKindInvalid (cd_Kind d)]))
     cd_ID (\<lambda>d. SDKDuplicate ''capability provider ID'' (cd_ID d)) [] ds"

definition ValidateCapabilityRequirements :: "string list \<Rightarrow> string list \<Rightarrow> sdk_problem list" where
  "ValidateCapabilityRequirements required available =
     (let unsupported = filter (\<lambda>c. c \<notin> set available) required in
      seen_loop (sdk_ID ''available capability ID'') (\<lambda>c. c) (SDKDuplicate ''available capability'') [] available @
      seen_loop (sdk_ID ''required capability ID'') (\<lambda>c. c) (SDKDuplicate ''required capability'') [] required @
      (if unsupported \<noteq> [] then [SDKUnsupported (sort unsupported)] else []))"

definition ValidateTransformDescriptor :: "TransformDescriptor \<Rightarrow> sdk_problem list" where
  "ValidateTransformDescriptor t =
     sdk_ID ''transform ID'' (tf_ID t) @ sdk_ID ''provider ID'' (tf_Provider t) @ sdk_ID ''runtime ID'' (tf_Runtime t) @
     seen_loop (sdk_ID ''component ID'') (\<lambda>c. c) (SDKDuplicate ''component ID'') [] (tf_Components t) @
     (if tf_Components t = [] then [SDKRequired ''component''] else [])"

definition ValidateExistingResourceRef :: "ExistingResourceRef \<Rightarrow> sdk_problem list" where
  "ValidateExistingResourceRef r =
     sdk_ID ''resource ID'' (xr_ID r) @ sdk_ID ''provider ID'' (xr_Provider r) @
     (if validExistingResourceKind (xr_Kind r) then [] else [SDKKindInvalid (xr_Kind r)]) @
     (if blank (xr_ExternalID r) then [SDKRequired ''external ID''] else [])"

text \<open>Requirements are met exactly if both lists are well-formed and nothing required is missing.\<close>

lemma ValidateCapabilityRequirements_iff:
  "ValidateCapabilityRequirements required available = [] \<longleftrightarrow>
     distinct available \<and> distinct required \<and> set required \<subseteq> set available \<and>
     (\<forall>c \<in> set available. full_match stableID c)"
  by (auto simp: ValidateCapabilityRequirements_def Let_def seen_loop_Nil_iff filter_empty_conv)

section \<open>Extensions\<close>

definition coreOutputKeys :: "string list" where
  "coreOutputKeys = [''applicationURL'', ''databaseWriter'', ''cacheEndpoint'', ''networkVpcId'', ''clusterName'',
     ''serviceName'', ''privateSubnetIds'']"

definition ValidateExtensionDescriptor :: "ExtensionDescriptor \<Rightarrow> sdk_problem list" where
  "ValidateExtensionDescriptor d =
     (if xd_APIVersion d \<noteq> ExtensionAPIVersion then [SDKDescriptor (DescriptorAPIVersion (xd_APIVersion d))] else []) @
     sdk_ID ''extension ID'' (xd_ID d) @ map SDKDescriptor (validateExtensionVersion (xd_Version d)) @
     (if blank (xd_Source d) then [SDKRequired ''extension source''] else []) @
     (if xd_Digest d \<noteq> [] \<and> \<not> prefix ''sha256:'' (xd_Digest d) then [SDKDigestPrefix] else []) @
     (if xd_Tier d \<noteq> ''certified'' \<and> xd_Tier d \<noteq> ''experimental'' then [SDKTierInvalid (xd_Tier d)] else []) @
     (if xd_Targets d = [] then [SDKRequired ''target'']
      else seen_loop (\<lambda>t. if ValidateTargetDescriptor t = [] then [] else [SDKTarget (ValidateTargetDescriptor t)])
             td_ID (\<lambda>t. SDKDuplicate ''extension target ID'' (td_ID t)) [] (xd_Targets d)) @
     ValidateCapabilityDescriptors (xd_Capabilities d) @
     seen_loop (\<lambda>k. if blank k then [SDKOutputKeyEmpty] else []) (\<lambda>k. k) (SDKDuplicate ''extension output key'') []
       (xd_OutputKeys d) @
     map SDKOutputKeyMissing (filter (\<lambda>k. k \<notin> set (xd_OutputKeys d)) coreOutputKeys)"

definition ExtensionDescriptorsByID :: "ExtensionDescriptor list \<Rightarrow> ExtensionDescriptor list" where
  "ExtensionDescriptorsByID ds = sort_key xd_ID ds"

lemma valid_extension:
  assumes "ValidateExtensionDescriptor d = []"
  shows "set coreOutputKeys \<subseteq> set (xd_OutputKeys d)" and "distinct (xd_OutputKeys d)"
    and "xd_Targets d \<noteq> []" and "distinct (map td_ID (xd_Targets d))"
proof -
  from assms have keys: "filter (\<lambda>k. k \<notin> set (xd_OutputKeys d)) coreOutputKeys = []"
    and "xd_Targets d \<noteq> []"
    and outputs: "seen_loop (\<lambda>k. if blank k then [SDKOutputKeyEmpty] else []) (\<lambda>k. k) (SDKDuplicate ''extension output key'') []
       (xd_OutputKeys d) = []"
    and targets: "seen_loop (\<lambda>t. if ValidateTargetDescriptor t = [] then [] else [SDKTarget (ValidateTargetDescriptor t)])
             td_ID (\<lambda>t. SDKDuplicate ''extension target ID'' (td_ID t)) [] (xd_Targets d) = []"
    by (simp_all add: ValidateExtensionDescriptor_def split: if_splits)
  then show "xd_Targets d \<noteq> []" by simp
  from keys show "set coreOutputKeys \<subseteq> set (xd_OutputKeys d)" unfolding filter_empty_conv by blast
  from outputs show "distinct (xd_OutputKeys d)" by (simp add: seen_loop_Nil_iff)
  from targets show "distinct (map td_ID (xd_Targets d))" by (simp add: seen_loop_Nil_iff)
qed

section \<open>Topology\<close>

record Availability =
  av_MinimumZones :: int
  av_AutomaticRecovery :: bool

record WorkloadRequirement =
  wr_ID :: string
  wr_Availability :: Availability
  wr_HorizontalScaling :: bool
  wr_Singleton :: bool

record CapabilityRequirement =
  tc_ID :: string
  tc_Kind :: string
  tc_Purpose :: string
  tc_Availability :: Availability
  tc_Dedicated :: bool
  tc_Durable :: bool
  tc_PointInTimeRecovery :: bool
  tc_ScaleToZeroAllowed :: bool

record DesiredTopology =
  dt_Preset :: string
  dt_Availability :: Availability
  dt_Disposable :: bool
  dt_RequiresTTL :: bool
  dt_RequiresBudget :: bool
  dt_Workloads :: "WorkloadRequirement list"
  dt_Capabilities :: "CapabilityRequirement list"

definition validateAvailability :: "string \<Rightarrow> Availability \<Rightarrow> sdk_problem list" where
  "validateAvailability name a = (if av_MinimumZones a < 1 then [SDKZones name] else [])"

definition workload_problems :: "WorkloadRequirement \<Rightarrow> sdk_problem list" where
  "workload_problems w =
     sdk_ID ''workload ID'' (wr_ID w) @ validateAvailability (''workload '' @ wr_ID w) (wr_Availability w) @
     (if wr_Singleton w \<and> wr_HorizontalScaling w then [SDKSingletonScaling (wr_ID w)] else [])"

definition capability_problems :: "CapabilityRequirement \<Rightarrow> sdk_problem list" where
  "capability_problems c =
     sdk_ID ''capability ID'' (tc_ID c) @ validateAvailability (''capability '' @ tc_ID c) (tc_Availability c) @
     (if validCapabilityKind (tc_Kind c) then [] else [SDKKindInvalid (tc_Kind c)]) @
     (if tc_Purpose c = [] then [SDKRequired (tc_ID c)] else []) @
     (if tc_ScaleToZeroAllowed c \<and> tc_Durable c then [SDKScaleToZero (tc_ID c)] else []) @
     (if tc_PointInTimeRecovery c \<and> (tc_Kind c \<noteq> ''database'' \<or> \<not> tc_Durable c) then [SDKPointInTime (tc_ID c)] else [])"

definition ValidateDesiredTopology :: "DesiredTopology \<Rightarrow> sdk_problem list" where
  "ValidateDesiredTopology t =
     (if dt_Preset t \<noteq> ''preview'' \<and> dt_Preset t \<noteq> ''standard'' \<and> dt_Preset t \<noteq> ''high-availability''
      then [SDKPresetInvalid (dt_Preset t)] else []) @
     validateAvailability ''topology'' (dt_Availability t) @
     seen_loop workload_problems wr_ID (\<lambda>w. SDKDuplicate ''workload ID'' (wr_ID w)) [] (dt_Workloads t) @
     seen_loop capability_problems tc_ID (\<lambda>c. SDKDuplicate ''capability ID'' (tc_ID c)) [] (dt_Capabilities t) @
     (if dt_Workloads t = [] \<or> dt_Capabilities t = [] then [SDKTopologyEmpty] else [])"

text \<open>In a valid topology nothing durable scales to zero, and only durable databases recover to a point in time.\<close>

lemma valid_topology:
  assumes "ValidateDesiredTopology t = []"
  shows "w \<in> set (dt_Workloads t) \<Longrightarrow> 1 \<le> av_MinimumZones (wr_Availability w) \<and> \<not> (wr_Singleton w \<and> wr_HorizontalScaling w)"
    and "c \<in> set (dt_Capabilities t) \<Longrightarrow> \<not> (tc_ScaleToZeroAllowed c \<and> tc_Durable c) \<and>
           (tc_PointInTimeRecovery c \<longrightarrow> tc_Kind c = ''database'' \<and> tc_Durable c)"
    and "dt_Workloads t \<noteq> []" and "dt_Capabilities t \<noteq> []"
proof -
  from assms have loops: "\<forall>w \<in> set (dt_Workloads t). workload_problems w = []"
    "\<forall>c \<in> set (dt_Capabilities t). capability_problems c = []" "dt_Workloads t \<noteq> []" "dt_Capabilities t \<noteq> []"
    by (simp_all add: ValidateDesiredTopology_def seen_loop_Nil_iff split: if_splits)
  show "1 \<le> av_MinimumZones (wr_Availability w) \<and> \<not> (wr_Singleton w \<and> wr_HorizontalScaling w)"
    if "w \<in> set (dt_Workloads t)"
    using loops(1) that by (auto simp: workload_problems_def validateAvailability_def split: if_splits)
  show "\<not> (tc_ScaleToZeroAllowed c \<and> tc_Durable c) \<and> (tc_PointInTimeRecovery c \<longrightarrow> tc_Kind c = ''database'' \<and> tc_Durable c)"
    if "c \<in> set (dt_Capabilities t)"
    using loops(2) that by (auto simp: capability_problems_def split: if_splits)
  from loops(3,4) show "dt_Workloads t \<noteq> []" "dt_Capabilities t \<noteq> []" .
qed

end
