(* ===== verification/Spec2Isabelle.thy ===== *)
theory Spec2Isabelle
  imports Cleanup_Reconcile Deletion_Wait Session_Lifecycle Schedule_Batches Go_Hash_Eval Capacity_Pool Schedule_Pipeline
    Resilience_Recovery Coverage_Architecture Deploy_Safety Edge_Safety Release_Safety Session_Durable Checkpoint_File File_Lock
    Observability_Safety Collector_Lifecycle Credential_Lifecycle Web_Runtime SDK_Descriptors
begin

text \<open>
  Magelift provisions and certifies Magento stacks on several clouds. This development covers its own core logic,
  written in Go: the certification of stacks, the contracts every provider adapter has to keep (recovery, edge,
  deletion, cleanup), the deployment of a release and its journal. Cloud APIs are reached through narrow client
  interfaces; in the model a client is a function on a world that may answer anything, fail at any call and change
  the world, and every property holds for all of them.

  \<^bold>\<open>How the parts work together.\<close> A certification run describes its matrix as cells. \<^verbatim>\<open>BuildSchedule\<close> checks
  cells, checkpoints, budget and capacity, reserves sessions that can be reused in a session registry, groups the
  cells into execution units and the units into batches. \<^verbatim>\<open>ExecuteSchedule\<close> accepts only such a schedule, runs the
  units of a batch as goroutines under a local capacity reservation, writes a checkpoint before and after each, and
  gives the sessions back. The registry and the checkpoints live in memory or in files that several processes share
  under a directory lock. A recovery plan is compiled from the intents of an architecture and executed stage by
  stage through an operation-backed adapter; edge routes have an adapter of the same kind. Telemetry, collectors and
  credentials have adapters behind a gate that checks the plan, the request and the result around one execution. What a run leaves behind
  is deleted by the reconciliation of a cleanup ledger. A deployment runs its steps and hooks under a lock and ends
  in the release journal, from which promotions and rollbacks read.

  \<^bold>\<open>Go.\<close> \<^verbatim>\<open>Go_Prelude\<close> has the shared vocabulary: byte strings, \<^verbatim>\<open>strings\<close> functions, maps as lists of pairs, chained
  checks (\<open>first_failure\<close>, \<open>first_err\<close>) and the collections \<open>go_defs\<close> and \<open>go_valid\<close>. \<^verbatim>\<open>Go_Regexp\<close> (derivatives of
  regular expressions), \<^verbatim>\<open>Go_Time\<close> and \<^verbatim>\<open>Go_Time_Format\<close> (RFC 3339), \<^verbatim>\<open>Go_Hash\<close> (SHA-256; \<^verbatim>\<open>Go_Hash_Eval\<close> evaluates it
  on bits), \<^verbatim>\<open>Go_Json\<close> (\<^verbatim>\<open>encoding/json\<close>), \<^verbatim>\<open>Go_Float\<close> (comparisons of
  \<^verbatim>\<open>float64\<close>), \<^verbatim>\<open>Go_Graph\<close> (the depth-first walks), \<^verbatim>\<open>Go_Context\<close> (contexts, timers and the
  locale \<open>bounded_wait\<close> of polling loops), \<^verbatim>\<open>Go_Interleave\<close> (goroutines) and \<^verbatim>\<open>Go_Files\<close> (file operations that can fail)
  model what the sources use of the standard library.

  \<^bold>\<open>Theories and sources.\<close>
    \<^item> \<^verbatim>\<open>sdk/cleanup_ledger.go\<close>: \<^verbatim>\<open>Cleanup_Ledger\<close> (ledger, inventory, one pass), \<^verbatim>\<open>Cleanup_Reconcile\<close> (what a pass
      deletes, persists and reports).
    \<^item> \<^verbatim>\<open>sdk/deletion_lifecycle.go\<close>: \<^verbatim>\<open>Deletion_Wait\<close>.
    \<^item> \<^verbatim>\<open>internal/secretsafe\<close>: \<^verbatim>\<open>Secret_Safety\<close>. \<^verbatim>\<open>sdk/coverage.go\<close>: \<^verbatim>\<open>Coverage\<close>, \<^verbatim>\<open>Coverage_Architecture\<close>.
    \<^item> \<^verbatim>\<open>sdk/contracts.go\<close>, \<^verbatim>\<open>sdk/resilience.go\<close>, \<^verbatim>\<open>sdk/resilience_plan.go\<close>, \<^verbatim>\<open>sdk/resilience_lifecycle.go\<close>:
      \<^verbatim>\<open>Resilience_Data\<close> (intents, plans, requests and their validators), \<^verbatim>\<open>Resilience_Plan\<close> (the compiler),
      \<^verbatim>\<open>Resilience_Shape\<close> (the plan as one list, which the compiler builds), \<^verbatim>\<open>Resilience_Order\<close> (paths between stages),
      \<^verbatim>\<open>Resilience_Execute\<close> and \<^verbatim>\<open>Resilience_Adapter\<close> (admission, the wait, evidence), \<^verbatim>\<open>Resilience_Recovery\<close> (properties).
    \<^item> \<^verbatim>\<open>internal/certification/resource_registry.go\<close>: \<^verbatim>\<open>Session_Registry\<close>, \<^verbatim>\<open>Session_Reuse\<close> (the interface \<open>session_store\<close>
      and what follows from it), \<^verbatim>\<open>Session_Lifecycle\<close> (reachable registries, and claims among all operations).
    \<^item> \<^verbatim>\<open>internal/certification/session_registry_file.go\<close>, \<^verbatim>\<open>schedule_checkpoint_file.go\<close>, \<^verbatim>\<open>file_lock.go\<close>: \<^verbatim>\<open>File_Store\<close> (the file
      as a whole, read and replaced under the lock), \<^verbatim>\<open>Session_File\<close> and \<^verbatim>\<open>Session_Durable\<close> (the registry, and its
      refinement of the one in memory), \<^verbatim>\<open>Checkpoint_File\<close>, \<^verbatim>\<open>File_Lock\<close> (the lock between processes).
    \<^item> \<^verbatim>\<open>internal/certification/scheduler.go\<close>: \<^verbatim>\<open>Schedule_Data\<close>, \<^verbatim>\<open>Schedule_Checks\<close>, \<^verbatim>\<open>Schedule_Claims\<close>, \<^verbatim>\<open>Schedule_Units\<close>,
      \<^verbatim>\<open>Schedule_Batches\<close>, \<^verbatim>\<open>Schedule_Build\<close>; \<^verbatim>\<open>scheduler_run.go\<close>: \<^verbatim>\<open>Schedule_Run\<close>, \<^verbatim>\<open>Schedule_Execution\<close>; both together:
      \<^verbatim>\<open>Schedule_Pipeline\<close>. \<^verbatim>\<open>local_capacity.go\<close>: \<^verbatim>\<open>Local_Capacity\<close>, \<^verbatim>\<open>Capacity_Pool\<close>.
    \<^item> \<^verbatim>\<open>internal/deploy\<close> and the hook parts of \<^verbatim>\<open>sdk/validation.go\<close>: \<^verbatim>\<open>Deploy_Hooks\<close>, \<^verbatim>\<open>Deploy_Orchestrator\<close>,
      \<^verbatim>\<open>Deploy_Trace\<close>, \<^verbatim>\<open>Deploy_Safety\<close>.
    \<^item> \<^verbatim>\<open>sdk/edge_lifecycle.go\<close> and the edge parts of \<^verbatim>\<open>sdk/contracts.go\<close>, \<^verbatim>\<open>sdk/integrations.go\<close>,
      \<^verbatim>\<open>sdk/integration_lifecycle.go\<close>: \<^verbatim>\<open>Edge_Intent\<close>, \<^verbatim>\<open>Edge_Contract\<close>, \<^verbatim>\<open>Edge_Lifecycle\<close>, \<^verbatim>\<open>Edge_Safety\<close>.
    \<^item> The telemetry parts of the same files: \<^verbatim>\<open>Observability_Intent\<close> (the intent and its validator), \<^verbatim>\<open>Plan_Gate\<close> (plan,
      check, execute, check), \<^verbatim>\<open>Observability_Contract\<close>, \<^verbatim>\<open>Observability_Safety\<close>; \<^verbatim>\<open>sdk/collector.go\<close> and
      \<^verbatim>\<open>sdk/collector_lifecycle.go\<close>: \<^verbatim>\<open>Collector_Lifecycle\<close>; \<^verbatim>\<open>sdk/credentials.go\<close>: \<^verbatim>\<open>Credential_Lifecycle\<close>.
    \<^item> \<^verbatim>\<open>sdk/webruntime.go\<close>: \<^verbatim>\<open>Web_Runtime\<close>; \<^verbatim>\<open>sdk/extensions.go\<close>, \<^verbatim>\<open>sdk/topology.go\<close> and the descriptors of
      \<^verbatim>\<open>sdk/validation.go\<close>: \<^verbatim>\<open>SDK_Descriptors\<close>.
    \<^item> \<^verbatim>\<open>internal/releasejournal\<close>: \<^verbatim>\<open>Release_Journal\<close>, \<^verbatim>\<open>Release_Store\<close>; \<^verbatim>\<open>internal/cosign\<close>: \<^verbatim>\<open>Cosign_Client\<close>; the release
      commands of \<^verbatim>\<open>internal/cli\<close>: \<^verbatim>\<open>Release_Commands\<close>, \<^verbatim>\<open>Release_Safety\<close>.

  \<^bold>\<open>Conventions.\<close> A struct is a record whose fields carry a short prefix and the Go name; a function has its Go name,
  or the name of its receiver in front where two would clash, and a long function is cut into definitions for its
  parts. An error is a value of a datatype with a constructor per message; a Go result with an error is a sum, an
  option or a pair, as the callers read it. The state of a component is passed explicitly: the ledger with its
  provider world, the registry as a map, the reservation as a record of mutex-protected fields, a deployment as a
  record with its trace, a file as part of a world. \<^verbatim>\<open>int64\<close> sums wrap where the code adds them (\<open>wrap64\<close>).

  \<^bold>\<open>What the lemmas show.\<close> Validators establish the facts later steps rely on. Every loop that polls is an instance of
  \<open>bounded_wait\<close>: it ends within its attempts and succeeds only on an accepted answer. Traces tell the order of calls:
  intent before deletion, checkpoint before execution, signature before deployment, lock around everything. Refinements
  relate each operation of the reservation to one of an abstract pool, the file registry to the one in memory, the
  compiled recovery to a list.
  Several properties state what the code gets wrong: tombstones that never complete, ledger keys that collide, a stale
  lock that admits two processes, a claim that is stored and reported as failed, a telemetry plan that drops an alert
  and is accepted, targets that are not numbers and are accepted.

  \<^bold>\<open>Termination and bounds.\<close> Polling loops recurse on the attempts that are left, which the policy bounds. Walks of graphs
  recurse on unvisited nodes, batching on the units that remain. The two loops that wait for a lock file have no bound in
  the code; they are partial functions, and \<open>acquire_loop_returns\<close> and \<open>acquire_returns\<close> show that they end once the lock
  is free or the context ends. Goroutines interleave by a list of choices of any length; what the choices leave over
  runs in order, so that every interleaving is some list.

  \<^bold>\<open>Parameters.\<close> Provider clients, deployment steps, hooks, locks and runners; \<^verbatim>\<open>url.Parse\<close>; the outcome of the admission checks of a schedule; clock, context and timer; the file operations that fail; what
  other processes do while a lock is awaited; the order in which Go ranges over a map, where it matters, is the order of
  the list that stands for the map.

  \<^bold>\<open>Not modelled.\<close> The clients of cloud providers, of Fastly and of New Relic and the Pulumi programs, which translate to
  foreign APIs; YAML configuration, command-line wiring and printing; provider admission snapshots, certification
  documents and evidence, static catalogues; plugin RPC; build pipelines,
  importers and local development. Of a write to a file only its success or failure is modelled, not a crash of the
  machine in the middle of a rename, which the file system makes atomic.
\<close>

end
